(* ===== verification/Commands.thy ===== *)
theory Commands
  imports Prelude
begin

text \<open>
  Command normalization and tagging, \<open>src/policies/command.rs\<close>: wrappers and git global options are
  stripped, \<open>sh -c\<close> scripts are split into segments, and each command gets semantic tags. The two
  mutually recursive functions \<open>normalize_script\<close> and \<open>normalize_argv\<close> are shown to terminate because
  a script is always lighter (\<open>weight\<close>) than the command line that carries it; the \<open>depth\<close> guard
  of the source is kept but is not what stops the recursion.
\<close>

subsection \<open>Normalized commands\<close>

datatype normalized_command = NormalizedCommand
  (nc_argv: "string list")
  (nc_program: string)
  (nc_text: string)
  (nc_shell: bool)
  (nc_segments: "normalized_command list")
  (nc_tags: "string list")

definition TAGS :: "string list" where
  "TAGS = [''shell'', ''git'', ''git_push'', ''git_force_push'', ''git_reset_hard'',
    ''git_clean_force'', ''git_branch_force_delete'', ''git_history_rewrite'', ''rm_recursive'',
    ''rm_dangerous_target'', ''terraform_apply'', ''terraform_destroy'',
    ''kubectl_delete_namespace'', ''kubectl_mutation'', ''production_target'', ''deploy'',
    ''network'', ''credential_access'', ''package_install'', ''privilege_escalation'']"

fun all_texts :: "normalized_command \<Rightarrow> string list" where
  "all_texts (NormalizedCommand argv program text shell segments tags) =
     text # concat (map all_texts segments)"

fun all_tags :: "normalized_command \<Rightarrow> string list" where
  "all_tags (NormalizedCommand argv program text shell segments tags) =
     remdups_adj (sort (tags @ concat (map all_tags segments)))"

subsection \<open>Word-level helpers\<close>

definition basename :: "string \<Rightarrow> string" where
  "basename p = rev (takeWhile (\<lambda>c. c \<noteq> CHR ''/'') (rev p))"

definition is_env_assignment :: "string \<Rightarrow> bool" where
  "is_env_assignment s =
     (case split_once CHR ''='' s of
        Some (k, v) \<Rightarrow>
          k \<noteq> [] \<and> (is_ascii_alphabetic (hd k) \<or> hd k = CHR ''_'')
          \<and> list_all (\<lambda>c. is_ascii_alphanumeric c \<or> c = CHR ''_'') k
      | None \<Rightarrow> False)"

definition SHELLS :: "string list" where
  "SHELLS = [''sh'', ''bash'', ''zsh'', ''dash'', ''ksh'', ''fish'']"

definition collapse_ws :: "string \<Rightarrow> string" where
  "collapse_ws s = join '' '' (split_whitespace s)"

definition starts_dash :: "string \<Rightarrow> bool" where
  "starts_dash x = starts_with x ''-''"

text \<open>The option loop after \<open>sudo\<close> or \<open>doas\<close>.\<close>

fun skip_sudo_options :: "string list \<Rightarrow> string list" where
  "skip_sudo_options [] = []"
| "skip_sudo_options (x # xs) =
     (if x = ''-u'' \<or> x = ''-g'' \<or> x = ''-C'' \<or> x = ''-h'' then skip_sudo_options (drop 1 xs)
      else if starts_dash x then skip_sudo_options xs
      else x # xs)"

lemma length_skip_sudo_options: "length (skip_sudo_options xs) \<le> length xs"
  by (induction xs rule: skip_sudo_options.induct) (auto simp: le_diff_conv intro: le_trans)

text \<open>
  The unwrapping loop at the head of \<open>normalize_argv\<close>. The source moves an index \<open>i\<close> through \<open>argv\<close>;
  the model keeps the rest of the list (\<open>argv[min(i, len)..]\<close>).
\<close>

function unwrap :: "string list \<Rightarrow> bool \<Rightarrow> string list \<times> bool" where
  "unwrap [] privileged = ([], privileged)"
| "unwrap (a # as) privileged =
     (let b = basename a in
      if is_env_assignment a then unwrap as privileged
      else if b = ''env'' then
        unwrap (dropWhile (\<lambda>x. starts_dash x \<or> is_env_assignment x) as) privileged
      else if b = ''sudo'' \<or> b = ''doas'' then unwrap (skip_sudo_options as) True
      else if b \<in> {''nohup'', ''time'', ''command'', ''exec'', ''builtin''} then
        unwrap as privileged
      else if b = ''nice'' then
        (case as of
           x # r \<Rightarrow>
             if x = ''-n'' then unwrap (drop 1 r) privileged
             else if starts_dash x then unwrap r privileged
             else unwrap as privileged
         | [] \<Rightarrow> unwrap as privileged)
      else if b = ''timeout'' then unwrap (drop 1 (dropWhile starts_dash as)) privileged
      else (a # as, privileged))"
  by pat_completeness auto
termination
proof (relation "measure (\<lambda>(as, p). length as)", goal_cases)
  case (4 a as p b)
  then show ?case using length_skip_sudo_options [of as] by simp
qed (auto simp: le_imp_less_Suc length_dropWhile_le intro: le_less_trans [OF diff_le_self])

fun strip_git_global_options :: "string list \<Rightarrow> string list" where
  "strip_git_global_options [] = []"
| "strip_git_global_options (a # as) =
     (if a \<in> {''-C'', ''-c'', ''--git-dir'', ''--work-tree'', ''--namespace''} then
        strip_git_global_options (drop 1 as)
      else if starts_with a ''--git-dir='' \<or> starts_with a ''--work-tree=''
            \<or> starts_with a ''--namespace='' \<or> a = ''--no-pager'' \<or> a = ''-P''
            \<or> a = ''--paginate'' \<or> a = ''-p'' \<or> a = ''--bare''
            \<or> a = ''--no-replace-objects'' \<or> starts_with a ''--exec-path'' then
        strip_git_global_options as
      else a # as)"

definition short_cluster_has :: "string \<Rightarrow> char \<Rightarrow> bool" where
  "short_cluster_has a flag \<longleftrightarrow>
     2 \<le> length a \<and> starts_dash a \<and> \<not> starts_with a ''--''
     \<and> list_all is_ascii_alphabetic (tl a) \<and> flag \<in> set (tl a)"

definition has_long :: "string list \<Rightarrow> string \<Rightarrow> bool" where
  "has_long args name \<longleftrightarrow> list_ex (\<lambda>a. a = name \<or> starts_with a (name @ ''='')) args"

definition looks_production :: "string \<Rightarrow> bool" where
  "looks_production a \<longleftrightarrow>
     list_ex (\<lambda>w. w = ''prod'' \<or> w = ''production'' \<or> w = ''prd'')
       (split_on (\<lambda>c. \<not> is_ascii_alphanumeric c) (to_ascii_lowercase a))"

definition CREDENTIAL_MARKERS :: "string list" where
  "CREDENTIAL_MARKERS = [''.ssh/id_'', ''.ssh/identity'', ''.aws/credentials'', ''.aws/config'',
    ''.netrc'', ''.config/gh/hosts.yml'', ''.docker/config.json'', ''.kube/config'', ''.gnupg'',
    ''.npmrc'', ''.pypirc'', ''.git-credentials'', ''/etc/shadow'', ''keychain'']"

subsection \<open>Classification\<close>

definition sub_command :: "string list \<Rightarrow> string" where
  "sub_command args = (case find (\<lambda>a. \<not> starts_dash a) args of Some a \<Rightarrow> a | None \<Rightarrow> '''')"

definition has_arg :: "string list \<Rightarrow> string list \<Rightarrow> bool" where
  "has_arg args names \<longleftrightarrow> list_ex (\<lambda>a. a \<in> set names) args"

definition push_is_forced :: "string list \<Rightarrow> bool" where
  "push_is_forced args \<longleftrightarrow>
     list_ex (\<lambda>a. a = ''--force'' \<or> starts_with a ''--force-with-lease''
       \<or> a = ''--force-if-includes'' \<or> a = ''--mirror'' \<or> short_cluster_has a CHR ''f'') args
     \<or> list_ex (\<lambda>a. starts_with a ''+'' \<or> (starts_with a '':'' \<and> 1 < length a))
         (drop 1 (dropWhile (\<lambda>a. a \<noteq> ''push'') args))
     \<or> has_long args ''--delete''
     \<or> has_arg args [''-d'']"

definition classify_git :: "string list \<Rightarrow> string list" where
  "classify_git args = (let sub = sub_command args in
     [''git''] @
     (if sub = ''push'' then
        ''git_push'' # (if push_is_forced args then [''git_force_push''] else [])
      else if sub = ''reset'' \<and> has_arg args [''--hard'', ''--merge'', ''--keep''] then
        [''git_reset_hard'']
      else if sub = ''clean'' \<and> list_ex (\<lambda>a. a = ''--force'' \<or> short_cluster_has a CHR ''f'') args
        then [''git_clean_force'']
      else if sub = ''branch'' \<and>
          list_ex (\<lambda>a. a = ''-D'' \<or> short_cluster_has a CHR ''D''
            \<or> (a = ''--delete'' \<and> has_arg args [''--force''])) args
        then [''git_branch_force_delete'']
      else if sub = ''filter-branch'' \<or> sub = ''filter-repo'' then [''git_history_rewrite'']
      else if (sub = ''rebase'' \<or> sub = ''commit'')
          \<and> has_arg args [''--amend'', ''-i'', ''--interactive''] then [''git_history_rewrite'']
      else if (sub = ''checkout'' \<or> sub = ''restore'')
          \<and> has_arg args [''--'', ''.'', ''-f'', ''--force''] \<and> sub = ''checkout''
          \<and> has_arg args [''-f'', ''--force''] then [''git_reset_hard'']
      else []))"

definition rm_target_dangerous :: "string \<Rightarrow> bool" where
  "rm_target_dangerous a0 = (let a = trim_end_matches CHR ''/'' a0 in
     a \<in> {'''', ''/'', ''/*'', ''~'', ''~/*'', ''$HOME'', ''${HOME}'', ''$HOME/*'', ''.'', ''..'',
          ''*'', ''./*'', ''../*'', ''.git''}
     \<or> starts_with a ''/etc'' \<or> starts_with a ''/usr'' \<or> starts_with a ''/System''
     \<or> starts_with a ''/bin'' \<or> a = ''/Users'' \<or> a = ''/home'')"

definition classify_rm :: "string \<Rightarrow> string list \<Rightarrow> string list" where
  "classify_rm program args =
     (let recursive = (program = ''rm'' \<and>
            list_ex (\<lambda>a. a = ''--recursive'' \<or> short_cluster_has a CHR ''r''
              \<or> short_cluster_has a CHR ''R'') args);
          no_preserve = has_arg args [''--no-preserve-root''];
          dangerous = (list_ex rm_target_dangerous (filter (\<lambda>a. \<not> starts_dash a) args)
            \<or> no_preserve)
      in (if recursive then [''rm_recursive''] else [])
         @ (if dangerous \<and> (recursive \<or> no_preserve) then [''rm_dangerous_target''] else []))"

definition classify_program :: "string \<Rightarrow> string list \<Rightarrow> string list" where
  "classify_program program args = (let sub = sub_command args in
     if program = ''git'' then classify_git args
     else if program \<in> {''rm'', ''rmdir'', ''unlink''} then classify_rm program args
     else if program \<in> {''terraform'', ''tofu'', ''terragrunt''} then
       (if sub = ''destroy'' \<or> (sub = ''apply'' \<and> has_arg args [''-destroy'', ''--destroy''])
        then [''terraform_destroy'']
        else if sub = ''apply'' \<or> sub = ''import'' \<or> sub = ''state'' then [''terraform_apply'']
        else [])
     else if program \<in> {''kubectl'', ''oc''} then
       (if sub \<in> {''apply'', ''delete'', ''create'', ''replace'', ''patch'', ''scale'',
             ''rollout'', ''edit'', ''drain'', ''cordon'', ''set'', ''label'', ''annotate''}
        then [''kubectl_mutation''] else [])
       @ (if sub = ''delete'' \<and> list_ex (\<lambda>a. a \<in> {''ns'', ''namespace'', ''namespaces''}
              \<or> starts_with a ''namespace/'' \<or> starts_with a ''ns/'') args
          then [''kubectl_delete_namespace''] else [])
     else if program = ''helm''
         \<and> sub \<in> {''install'', ''upgrade'', ''uninstall'', ''delete'', ''rollback''} then
       [''kubectl_mutation'']
     else if program \<in> {''curl'', ''wget'', ''nc'', ''ncat'', ''scp'', ''rsync'', ''ssh'',
         ''sftp'', ''ftp'', ''telnet''} then [''network'']
     else if program \<in> {''npm'', ''pnpm'', ''yarn'', ''bun''}
         \<and> sub \<in> {''install'', ''i'', ''add'', ''ci''} then [''package_install'']
     else if program \<in> {''pip'', ''pip3'', ''uv'', ''poetry''}
         \<and> has_arg args [''install'', ''add''] then [''package_install'']
     else if program = ''cargo'' \<and> sub = ''install'' then [''package_install'']
     else if program \<in> {''brew'', ''apt'', ''apt-get'', ''dnf'', ''yum''}
         \<and> sub \<in> {''install'', ''upgrade''} then [''package_install'']
     else [])"

definition classify :: "string \<Rightarrow> string list \<Rightarrow> string list" where
  "classify program args =
     (let t1 = classify_program program args;
          t2 = t1 @ (if str_contains program ''deploy''
                 \<or> list_ex (\<lambda>a. a = ''deploy'' \<or> starts_with a ''deploy:'') args
               then [''deploy''] else []);
          infra = (program \<in> {''kubectl'', ''oc'', ''helm'', ''terraform'', ''tofu'',
                 ''terragrunt'', ''aws'', ''gcloud'', ''az'', ''flyctl'', ''vercel'', ''heroku'',
                 ''ansible-playbook''} \<or> ''deploy'' \<in> set t2);
          t3 = t2 @ (if infra \<and> list_ex looks_production args
               then [''production_target''] else [])
      in t3 @ (if list_ex (\<lambda>a. list_ex (\<lambda>m. str_contains a m) CREDENTIAL_MARKERS) args
                 \<and> program \<noteq> ''git''
               then [''credential_access''] else []))"

end
