(* ===== verification/Shell.thy ===== *)
theory Shell
  imports Commands
begin

text \<open>
  The shell side of \<open>src/policies/command.rs\<close>: the segment splitter, the tokenizer and the mutually
  recursive normalization, whose termination rests on the measure \<open>weight\<close> below.
\<close>

subsection \<open>Splitting a script into segments\<close>

text \<open>The inner loops of \<open>split_shell_segments\<close>: what \<open>$(\<dots>)\<close> and backticks enclose, and the rest.\<close>

fun take_subst :: "nat \<Rightarrow> string \<Rightarrow> string \<Rightarrow> string \<times> string" where
  "take_subst depth inner [] = (inner, [])"
| "take_subst depth inner (n # cs) =
     (if n = CHR ''('' then take_subst (depth + 1) (inner @ [n]) cs
      else if n = CHR '')'' then
        (if depth - 1 = 0 then (inner, cs) else take_subst (depth - 1) (inner @ [n]) cs)
      else take_subst depth (inner @ [n]) cs)"

fun take_backtick :: "string \<Rightarrow> string \<Rightarrow> string \<times> string" where
  "take_backtick inner [] = (inner, [])"
| "take_backtick inner (n # cs) =
     (if n = backtick then (inner, cs) else take_backtick (inner @ [n]) cs)"

definition flush :: "string \<Rightarrow> string list \<Rightarrow> string list" where
  "flush cur segs = (if trim cur \<noteq> [] then segs @ [trim cur] else segs)"

lemma length_take_subst: "length (snd (take_subst d i cs)) \<le> length cs"
  by (induction d i cs rule: take_subst.induct) auto

lemma length_take_backtick: "length (snd (take_backtick i cs)) \<le> length cs"
  by (induction i cs rule: take_backtick.induct) auto

text \<open>
  The main loop of \<open>split_shell_segments\<close>: \<open>sq\<close> and \<open>dq\<close> are the quote flags, \<open>cur\<close> the segment
  being read, \<open>segs\<close> and \<open>subs\<close> the finished segments and the substitutions.
\<close>

function scan :: "bool \<Rightarrow> bool \<Rightarrow> string \<Rightarrow> string list \<Rightarrow> string list \<Rightarrow> string
    \<Rightarrow> string list \<times> string list" where
  "scan sq dq cur segs subs [] = (flush cur segs, subs)"
| "scan sq dq cur segs subs (c # cs) =
     (if c = squote \<and> \<not> dq then scan (\<not> sq) dq (cur @ [c]) segs subs cs
      else if c = dquote \<and> \<not> sq then scan sq (\<not> dq) (cur @ [c]) segs subs cs
      else if c = backslash \<and> \<not> sq then
        (case cs of
           [] \<Rightarrow> scan sq dq (cur @ [c]) segs subs []
         | n # cs' \<Rightarrow> scan sq dq (cur @ [c, n]) segs subs cs')
      else if c = CHR ''$'' \<and> \<not> sq \<and> starts_with cs ''('' then
        scan sq dq (cur @ ''$('' @ ellipsis @ '')'') segs
          (subs @ [fst (take_subst 1 [] (drop 1 cs))]) (snd (take_subst 1 [] (drop 1 cs)))
      else if c = backtick \<and> \<not> sq then
        scan sq dq (cur @ [backtick] @ ellipsis @ [backtick]) segs
          (subs @ [fst (take_backtick [] cs)]) (snd (take_backtick [] cs))
      else if (c = CHR '';'' \<or> c = CHR 0x0A \<or> c = CHR ''|'' \<or> c = CHR ''&'') \<and> \<not> sq \<and> \<not> dq then
        scan sq dq [] (flush cur segs) subs
          (if (c = CHR ''|'' \<or> c = CHR ''&'') \<and> starts_with cs [c] then drop 1 cs else cs)
      else scan sq dq (cur @ [c]) segs subs cs)"
  by pat_completeness auto
termination
  by (relation "measure (\<lambda>(sq, dq, cur, segs, subs, cs). length cs)")
    (auto simp: le_imp_less_Suc length_take_backtick
       intro: le_less_trans [OF length_take_subst])

declare scan.simps(2) [simp del]

text \<open>
  The weight of a text leaves out the characters the splitter may add (parentheses, backticks and the
  bytes of the ellipsis), so that no piece of a script is heavier than the script.
\<close>

definition weightless :: "char \<Rightarrow> bool" where
  "weightless c \<longleftrightarrow> c \<in> {CHR ''('', CHR '')'', backtick, CHR 0xE2, CHR 0x80, CHR 0xA6}"

definition weight :: "string \<Rightarrow> nat" where
  "weight s = length (filter (\<lambda>c. \<not> weightless c) s)"

lemma weight_simps [simp]:
  "weight [] = 0"
  "weight (c # s) = (if weightless c then 0 else 1) + weight s"
  "weight (s @ t) = weight s + weight t"
  by (simp_all add: weight_def)

lemma weight_ellipsis [simp]: "weight ellipsis = 0"
  by (simp add: ellipsis_def weightless_def)

lemma weightless_backtick [simp]: "weightless backtick" "weightless CHR ''(''" "weightless CHR '')''"
  "\<not> weightless CHR ''$''"
  by (simp_all add: weightless_def)

lemma weight_sublist: "weight (dropWhile f s) \<le> weight s"
  by (induction s) auto

lemma weight_rev [simp]: "weight (rev s) = weight s"
  by (simp add: weight_def rev_filter [symmetric])

lemma weight_trim: "weight (trim s) \<le> weight s"
  unfolding trim_def
  by (metis order_trans weight_rev weight_sublist)

lemma take_subst_weight:
  "weight (fst (take_subst d i cs)) + weight (snd (take_subst d i cs)) \<le> weight i + weight cs"
  by (induction d i cs rule: take_subst.induct) (auto simp: Let_def)

lemma take_subst_length:
  "length (fst (take_subst d i cs)) + length (snd (take_subst d i cs)) \<le> length i + length cs"
  by (induction d i cs rule: take_subst.induct) (auto simp: Let_def)

lemma take_backtick_weight:
  "weight (fst (take_backtick i cs)) + weight (snd (take_backtick i cs)) \<le> weight i + weight cs"
  by (induction i cs rule: take_backtick.induct) (auto simp: Let_def)

lemma take_backtick_length:
  "length (fst (take_backtick i cs)) + length (snd (take_backtick i cs)) \<le> length i + length cs"
  by (induction i cs rule: take_backtick.induct) (auto simp: Let_def)

lemma starts_with_one: "starts_with cs [d] \<longleftrightarrow> (\<exists>r. cs = d # r)"
  by (cases cs) (auto simp: starts_with_def)

lemma flush_cases: "x \<in> set (flush cur segs) \<Longrightarrow> x \<in> set segs \<or> (x = trim cur \<and> x \<noteq> [])"
  by (auto simp: flush_def split: if_splits)

text \<open>What one pass of the scanner does: every result is old, or bounded by the text it read.\<close>

definition scan_bounds :: "string \<Rightarrow> string list \<Rightarrow> string list \<Rightarrow> string
    \<Rightarrow> string list \<times> string list \<Rightarrow> bool" where
  "scan_bounds cur segs subs cs r \<longleftrightarrow>
     (\<forall>x \<in> set (fst r). x \<in> set segs \<or> (x \<noteq> [] \<and> weight x \<le> weight cur + weight cs)) \<and>
     (\<forall>x \<in> set (snd r). x \<in> set subs \<or> (length x < length cs \<and> weight x \<le> weight cs))"

lemma scan_bounds_step:
  assumes "scan_bounds cur' segs' subs' cs' r"
    and "set segs' \<subseteq> set segs \<union> {x. x \<noteq> [] \<and> weight x \<le> weight cur + weight cs}"
    and "set subs' \<subseteq> set subs \<union> {x. length x < length cs \<and> weight x \<le> weight cs}"
    and "weight cur' + weight cs' \<le> weight cur + weight cs"
    and "length cs' \<le> length cs" and "weight cs' \<le> weight cs"
  shows "scan_bounds cur segs subs cs r"
  unfolding scan_bounds_def
proof (intro conjI ballI)
  fix x assume "x \<in> set (fst r)"
  with assms(1) have "x \<in> set segs' \<or> (x \<noteq> [] \<and> weight x \<le> weight cur' + weight cs')"
    by (simp add: scan_bounds_def)
  then show "x \<in> set segs \<or> (x \<noteq> [] \<and> weight x \<le> weight cur + weight cs)"
    using assms(2,4) by auto
next
  fix x assume "x \<in> set (snd r)"
  with assms(1) have "x \<in> set subs' \<or> (length x < length cs' \<and> weight x \<le> weight cs')"
    by (simp add: scan_bounds_def)
  then show "x \<in> set subs \<or> (length x < length cs \<and> weight x \<le> weight cs)"
    using assms(3,5,6) by auto
qed

lemma scan_bounds_if:
  "(b \<Longrightarrow> scan_bounds cur segs subs cs x) \<Longrightarrow> (\<not> b \<Longrightarrow> scan_bounds cur segs subs cs y) \<Longrightarrow>
   scan_bounds cur segs subs cs (if b then x else y)"
  by simp

lemma flush_bounds:
  "set (flush cur segs) \<subseteq> set segs \<union> {x. x \<noteq> [] \<and> weight x \<le> weight cur + n}"
  using weight_trim [of cur] by (auto dest!: flush_cases)

lemma scan_scan_bounds: "scan_bounds cur segs subs cs (scan sq dq cur segs subs cs)"
proof (induction sq dq cur segs subs cs rule: scan.induct)
  case (1 sq dq cur segs subs)
  show ?case using flush_bounds [of cur segs 0] by (auto simp: scan_bounds_def)
next
  case (2 sq dq cur segs subs c cs)
  have sub: "length (fst (take_subst 1 [] (drop 1 cs))) \<le> length cs"
    "length (snd (take_subst 1 [] (drop 1 cs))) \<le> length cs"
    using take_subst_length [of 1 "[]" "drop 1 cs"] by auto
  have wdrop: "weight (drop 1 cs) \<le> weight cs" by (cases cs) auto
  have subw: "weight (fst (take_subst 1 [] (drop 1 cs))) \<le> weight cs"
    "weight (snd (take_subst 1 [] (drop 1 cs))) \<le> weight cs"
    using take_subst_weight [of 1 "[]" "drop 1 cs"] wdrop by auto
  have bt: "length (fst (take_backtick [] cs)) \<le> length cs"
    "length (snd (take_backtick [] cs)) \<le> length cs"
    "weight (fst (take_backtick [] cs)) \<le> weight cs" "weight (snd (take_backtick [] cs)) \<le> weight cs"
    using take_backtick_length [of "[]" cs] take_backtick_weight [of "[]" cs] by auto
  have sep: "weight (if b then drop 1 cs else cs) \<le> weight cs"
    "length (if b then drop 1 cs else cs) \<le> length cs" for b
    using wdrop by auto
  have wd: "weight (drop (Suc 0) cs) \<le> weight cs" using wdrop by simp
  show ?case
  proof (subst scan.simps(2), intro scan_bounds_if, goal_cases)
    case 1
    then show ?case by (rule scan_bounds_step [OF "2.IH"(1)]) auto
  next
    case 2
    then show ?case by (rule scan_bounds_step [OF "2.IH"(2)]) auto
  next
    case 3
    then show ?case
    proof (cases cs)
      case Nil
      with 3 "2.IH"(3) show ?thesis
        by simp (erule scan_bounds_step, auto)
    next
      case (Cons n cs')
      with 3 "2.IH"(4) show ?thesis
        by simp (erule scan_bounds_step, auto)
    qed
  next
    case 4
    show ?case
      by (rule scan_bounds_step [OF "2.IH"(5) [OF 4]])
        (use 4 sub subw in \<open>auto simp: le_imp_less_Suc\<close>)
  next
    case 5
    then show ?case
      by (rule scan_bounds_step [OF "2.IH"(6)]) (use bt in \<open>auto simp: le_imp_less_Suc\<close>)
  next
    case 6
    then show ?case
      by (rule scan_bounds_step [OF "2.IH"(7)])
        (use flush_bounds [of cur segs "weight (c # cs)"] wd in auto)
  next
    case 7
    then show ?case by (rule scan_bounds_step [OF "2.IH"(8)]) auto
  qed
qed

text \<open>\<open>split_shell_segments\<close>: the segments of the script, then those of its substitutions.\<close>

definition script_segments :: "string \<Rightarrow> string list" where
  "script_segments script = fst (scan False False [] [] [] script)"

definition script_substitutions :: "string \<Rightarrow> string list" where
  "script_substitutions script = snd (scan False False [] [] [] script)"

lemma script_segments_bound:
  "x \<in> set (script_segments script) \<Longrightarrow> x \<noteq> [] \<and> weight x \<le> weight script"
  using scan_scan_bounds [of "[]" "[]" "[]" script False False]
  by (auto simp: scan_bounds_def script_segments_def)

lemma script_substitutions_bound:
  "x \<in> set (script_substitutions script) \<Longrightarrow> length x < length script \<and> weight x \<le> weight script"
  using scan_scan_bounds [of "[]" "[]" "[]" script False False]
  by (auto simp: scan_bounds_def script_substitutions_def)

function split_shell_segments :: "string \<Rightarrow> string list" where
  "split_shell_segments script =
     script_segments script @ concat (map split_shell_segments (script_substitutions script))"
  by pat_completeness auto
termination
  by (relation "measure length") (auto dest: script_substitutions_bound)

declare split_shell_segments.simps [simp del]

lemma split_segments_weight:
  "x \<in> set (split_shell_segments script) \<Longrightarrow> x \<noteq> [] \<and> weight x \<le> weight script"
proof (induction script arbitrary: x rule: split_shell_segments.induct)
  case (1 script)
  from "1.prems" consider "x \<in> set (script_segments script)"
    | y where "y \<in> set (script_substitutions script)" "x \<in> set (split_shell_segments y)"
    by (auto simp: split_shell_segments.simps [of script])
  then show ?case
  proof cases
    case 1
    then show ?thesis by (rule script_segments_bound)
  next
    case 2
    with "1.IH" [of y x] script_substitutions_bound [of y script] show ?thesis by auto
  qed
qed

subsection \<open>Tokenizer\<close>

fun tokenize_loop :: "bool \<Rightarrow> bool \<Rightarrow> bool \<Rightarrow> string \<Rightarrow> string list \<Rightarrow> string \<Rightarrow> string list" where
  "tokenize_loop sq dq has cur out [] = (if has then out @ [cur] else out)"
| "tokenize_loop sq dq has cur out (c # cs) =
     (if c = squote \<and> \<not> dq then tokenize_loop (\<not> sq) dq True cur out cs
      else if c = dquote \<and> \<not> sq then tokenize_loop sq (\<not> dq) True cur out cs
      else if c = backslash \<and> \<not> sq then
        (case cs of
           [] \<Rightarrow> tokenize_loop sq dq has cur out []
         | n # cs' \<Rightarrow> tokenize_loop sq dq True (cur @ [n]) out cs')
      else if is_ws c \<and> \<not> sq \<and> \<not> dq then
        (if has then tokenize_loop sq dq False [] (out @ [cur]) cs
         else tokenize_loop sq dq has cur out cs)
      else tokenize_loop sq dq True (cur @ [c]) out cs)"

definition tokenize :: "string \<Rightarrow> string list" where
  "tokenize s = tokenize_loop False False False [] [] s"

definition weights :: "string list \<Rightarrow> nat" where
  "weights xs = sum_list (map weight xs)"

lemma weights_simps [simp]:
  "weights [] = 0" "weights (x # xs) = weight x + weights xs"
  "weights (xs @ ys) = weights xs + weights ys"
  by (simp_all add: weights_def)

lemma weights_if:
  "(b \<Longrightarrow> weights x \<le> n) \<Longrightarrow> (\<not> b \<Longrightarrow> weights y \<le> n) \<Longrightarrow> weights (if b then x else y) \<le> n"
  by simp

lemma tokenize_loop_weight:
  "weights (tokenize_loop sq dq has cur out cs) \<le> weights out + weight cur + weight cs"
proof (induction sq dq has cur out cs rule: tokenize_loop.induct)
  case (2 sq dq has cur out c cs)
  show ?case
  proof (subst tokenize_loop.simps(2), intro weights_if, goal_cases)
    case 1
    then show ?case using "2.IH"(1) by simp
  next
    case 2
    then show ?case using "2.IH"(2) by simp
  next
    case 3
    with "2.IH"(3,4) show ?case by (cases cs) (auto intro: order_trans)
  next
    case 4
    with "2.IH"(5) show ?case by simp
  next
    case 5
    with "2.IH"(6) show ?case by simp
  next
    case 6
    with "2.IH"(7) show ?case by simp
  qed
qed auto

lemma weights_tokenize: "weights (tokenize s) \<le> weight s"
  using tokenize_loop_weight [of False False False "[]" "[]" s] by (simp add: tokenize_def)

subsection \<open>Normalization\<close>

text \<open>The script of \<open>sh -c script\<close>: the argument after the first \<open>-c\<close> (or \<open>-lc\<close>, \<open>-ec\<close>, \<dots>).\<close>

definition is_dash_c :: "string \<Rightarrow> bool" where
  "is_dash_c a \<longleftrightarrow> a = ''-c'' \<or> (starts_dash a \<and> \<not> starts_with a ''--'' \<and> CHR ''c'' \<in> set a)"

fun sh_script :: "string list \<Rightarrow> string option" where
  "sh_script [] = None"
| "sh_script (a # as) =
     (if is_dash_c a then (case as of [] \<Rightarrow> None | script # _ \<Rightarrow> Some script) else sh_script as)"

text \<open>The tag union of \<open>normalize_script\<close>, in order of first occurrence.\<close>

definition push_new :: "string list \<Rightarrow> string \<Rightarrow> string list" where
  "push_new ts t = (if t \<in> set ts then ts else ts @ [t])"

definition script_tags :: "normalized_command list \<Rightarrow> string list" where
  "script_tags segments = foldl (\<lambda>ts s. foldl push_new ts (nc_tags s)) [''shell''] segments"

definition script_command :: "string \<Rightarrow> string list \<Rightarrow> normalized_command list \<Rightarrow> normalized_command" where
  "script_command script original all =
     (let segments = filter (\<lambda>c. nc_program c \<noteq> []) all in
      NormalizedCommand original
        (case segments of [] \<Rightarrow> [] | s # _ \<Rightarrow> nc_program s)
        (collapse_ws script) True segments (script_tags segments))"

definition shell_command :: "string \<Rightarrow> string \<Rightarrow> bool \<Rightarrow> normalized_command \<Rightarrow> normalized_command" where
  "shell_command program script privileged inner =
     NormalizedCommand (nc_argv inner) (nc_program inner)
       (collapse_ws (program @ '' -c '' @ script)) (nc_shell inner) (nc_segments inner)
       (if privileged \<and> ''privilege_escalation'' \<notin> set (nc_tags inner)
        then nc_tags inner @ [''privilege_escalation''] else nc_tags inner)"

definition plain_command :: "string list \<Rightarrow> string \<Rightarrow> string list \<Rightarrow> bool \<Rightarrow> normalized_command" where
  "plain_command argv program args0 privileged =
     (let args = (if program = ''git'' then strip_git_global_options args0 else args0) in
      NormalizedCommand argv program (collapse_ws (join '' '' (program # args))) False []
        (classify program args @ (if privileged then [''privilege_escalation''] else [])))"

lemma sh_script_weight: "sh_script args = Some script \<Longrightarrow> weight script \<le> weights args"
  by (induction args rule: sh_script.induct) (auto split: if_splits list.splits)

lemma weights_dropWhile: "weights (dropWhile f xs) \<le> weights xs"
  by (induction xs) auto

lemma weights_drop: "weights (drop n xs) \<le> weights xs"
  by (induction xs arbitrary: n) (auto simp: drop_Cons split: nat.splits intro: trans_le_add2)

lemma weights_skip_sudo: "weights (skip_sudo_options xs) \<le> weights xs"
proof (induction xs rule: skip_sudo_options.induct)
  case (2 x xs)
  then show ?case using weights_drop [of 1 xs] by auto
qed simp

lemma fst_weights_if:
  "(b \<Longrightarrow> weights (fst x) \<le> n) \<Longrightarrow> (\<not> b \<Longrightarrow> weights (fst y) \<le> n) \<Longrightarrow>
   weights (fst (if b then x else y)) \<le> n"
  by simp

lemma unwrap_weight: "weights (fst (unwrap as p)) \<le> weights as"
proof (induction as p rule: unwrap.induct)
  case (2 a as p)
  have d: "weights (drop 1 (dropWhile starts_dash as)) \<le> weights as"
    using weights_drop weights_dropWhile order_trans by metis
  have up: "weights (fst x) \<le> weights bs \<Longrightarrow> weights bs \<le> weights as \<Longrightarrow>
    weights (fst x) \<le> weights (a # as)" for x :: "string list \<times> bool" and bs
    by simp
  note IH = "2.IH" [OF refl]
  show ?case
  proof (subst unwrap.simps(2), unfold Let_def, intro fst_weights_if, goal_cases)
    case 1
    then show ?case using IH(1) up by blast
  next
    case 2
    then show ?case using IH(2) up weights_dropWhile by blast
  next
    case 3
    then show ?case using IH(3) up weights_skip_sudo by blast
  next
    case 4
    then show ?case using IH(4) up by blast
  next
    case 5
    show ?case
    proof (cases as)
      case Nil
      with 5 IH(5) show ?thesis by simp
    next
      case (Cons x r)
      have r: "weights r \<le> weights as" "weights (drop 1 r) \<le> weights as"
        using Cons weights_drop [of 1 r] by auto
      have "x = ''-n'' \<Longrightarrow> weights (fst (unwrap (drop 1 r) p)) \<le> weights (drop 1 r)"
        by (rule IH(6)) (use 5 Cons in auto)
      moreover have "x \<noteq> ''-n'' \<Longrightarrow> starts_dash x \<Longrightarrow> weights (fst (unwrap r p)) \<le> weights r"
        by (rule IH(7)) (use 5 Cons in auto)
      moreover have "x \<noteq> ''-n'' \<Longrightarrow> \<not> starts_dash x \<Longrightarrow> weights (fst (unwrap as p)) \<le> weights as"
        by (rule IH(8)) (use 5 Cons in auto)
      ultimately have
        "x = ''-n'' \<Longrightarrow> weights (fst (unwrap (drop 1 r) p)) \<le> weights (a # as)"
        "x \<noteq> ''-n'' \<Longrightarrow> starts_dash x \<Longrightarrow> weights (fst (unwrap r p)) \<le> weights (a # as)"
        "x \<noteq> ''-n'' \<Longrightarrow> \<not> starts_dash x \<Longrightarrow> weights (fst (unwrap as p)) \<le> weights (a # as)"
        using r by simp_all
      then show ?thesis
        using Cons by simp
    qed
  next
    case 6
    then show ?case using IH(9) up d by blast
  next
    case 7
    show ?case by simp
  qed
qed simp

lemma weight_takeWhile: "weight (takeWhile f s) \<le> weight s"
  by (induction s) auto

lemma weight_basename: "weight (basename p) \<le> weight p"
  using weight_takeWhile [of _ "rev p"] by (simp add: basename_def)

lemma weight_shell: "basename p \<in> set SHELLS \<Longrightarrow> 0 < weight p"
  using weight_basename [of p]
  by (auto simp: SHELLS_def weightless_def intro: ccontr)

function (domintros) normalize_script :: "string \<Rightarrow> string list \<Rightarrow> normalized_command"
  and normalize_argv :: "string list \<Rightarrow> nat \<Rightarrow> normalized_command" where
  "normalize_script script original =
     script_command script original
       (map (\<lambda>seg. normalize_argv (tokenize seg) 1) (split_shell_segments script))"
| "normalize_argv argv depth =
     (case unwrap argv False of
        ([], _) \<Rightarrow> NormalizedCommand argv [] [] False [] []
      | (first # args, privileged) \<Rightarrow>
          (case (if basename first \<in> set SHELLS \<and> depth < 3 then sh_script args else None) of
             Some script \<Rightarrow>
               shell_command (basename first) script privileged (normalize_script script argv)
           | None \<Rightarrow> plain_command argv (basename first) args privileged))"
  by pat_completeness auto
termination
proof (relation "measure (\<lambda>x. case x of Inl (script, _) \<Rightarrow> 2 * weight script + 1
                                  | Inr (argv, _) \<Rightarrow> 2 * weights argv)", goal_cases)
  case 1
  show ?case by simp
next
  case (2 script original seg)
  have "weights (tokenize seg) \<le> weight seg" by (rule weights_tokenize)
  also have "\<dots> \<le> weight script" using 2 split_segments_weight by blast
  finally show ?case by simp
next
  case (3 argv depth x y first args script)
  then have "weights (first # args) \<le> weights argv"
    using unwrap_weight [of argv False] by (metis fst_conv)
  moreover have "0 < weight first" "weight script \<le> weights args"
    using 3 weight_shell sh_script_weight by (auto split: if_splits)
  ultimately show ?case by simp
qed

declare normalize_script.simps [simp del] normalize_argv.simps [simp del]

text \<open>\<open>normalize\<close>: with \<open>shell\<close> the arguments are joined into one script.\<close>

definition normalize :: "string list \<Rightarrow> bool \<Rightarrow> normalized_command" where
  "normalize argv shell =
     (if shell then normalize_script (join '' '' argv) argv else normalize_argv argv 0)"

text \<open>Quoting for display only.\<close>

definition replace_char :: "char \<Rightarrow> string \<Rightarrow> string \<Rightarrow> string" where
  "replace_char d r s = concat (map (\<lambda>c. if c = d then r else [c]) s)"

definition display_word :: "string \<Rightarrow> string" where
  "display_word a =
     (if a \<noteq> [] \<and> list_all (\<lambda>c. is_ascii_alphanumeric c \<or> c \<in> set ''-_./=:,@+%'') a then a
      else [squote] @ replace_char squote [squote, backslash, squote, squote] a @ [squote])"

definition display_argv :: "string list \<Rightarrow> string" where
  "display_argv argv = join '' '' (map display_word argv)"

end
