(* ===== verification/Command_Facts.thy ===== *)
theory Command_Facts
  imports Shell
begin

text \<open>
  What the command normalizer of \<open>src/policies/command.rs\<close> guarantees to the policy: quoting and
  tokenizing are inverse, tags stay in the vocabulary, scripts carry the tags of their segments,
  wrappers are transparent, and forced pushes are recognized, with the cases where they are not.
\<close>

subsection \<open>Quoting and tokenizing\<close>

definition safe_char :: "char \<Rightarrow> bool" where
  "safe_char c \<longleftrightarrow> is_ascii_alphanumeric c \<or> c \<in> set ''-_./=:,@+%''"

lemma safe_char_plain:
  "safe_char c \<Longrightarrow> c \<noteq> squote \<and> c \<noteq> dquote \<and> c \<noteq> backslash \<and> \<not> is_ws c"
  by (auto simp: safe_char_def str_defs byte_def)

lemma tokenize_safe:
  "list_all safe_char w \<Longrightarrow>
   tokenize_loop False False has cur out (w @ s) =
   tokenize_loop False False (has \<or> w \<noteq> []) (cur @ w) out s"
  by (induction w arbitrary: has cur) (auto simp: safe_char_plain)

lemma tokenize_quoted:
  "tokenize_loop True False True cur out (replace_char squote [squote, backslash, squote, squote] w @ s)
   = tokenize_loop True False True (cur @ w) out s"
  by (induction w arbitrary: cur) (auto simp: replace_char_def)

lemma tokenize_display_word:
  "tokenize_loop False False False [] out (display_word w @ s) =
   tokenize_loop False False True w out s"
proof (cases "w \<noteq> [] \<and> list_all safe_char w")
  case True
  then have "display_word w = w" unfolding display_word_def safe_char_def by auto
  with True show ?thesis by (simp add: tokenize_safe)
next
  case False
  then have "display_word w = squote # replace_char squote [squote, backslash, squote, squote] w @ [squote]"
    unfolding display_word_def safe_char_def by auto
  then show ?thesis by (simp add: tokenize_quoted)
qed

lemma tokenize_display:
  "tokenize_loop False False False [] out (display_argv argv) = out @ argv"
  unfolding display_argv_def
proof (induction argv arbitrary: out rule: induct_list012)
  case (2 w)
  have "tokenize_loop False False False [] out (display_word w @ []) = out @ [w]"
    by (subst tokenize_display_word) simp
  then show ?case by simp
next
  case (3 v w ws)
  have "is_ws CHR '' ''" by (simp add: is_ws_def byte_def)
  with 3(2) [of "out @ [v]"] show ?case by (simp add: tokenize_display_word)
qed simp

text \<open>Quoting for display is faithful: for every argument vector, tokenizing the displayed
  command line gives the arguments back, whatever quotes, blanks or backslashes they hold.\<close>

theorem tokenize_display_argv: "tokenize (display_argv argv) = argv"
  by (simp add: tokenize_def tokenize_display)

subsection \<open>The tag vocabulary\<close>

lemma classify_git_tags: "set (classify_git args) \<subseteq> set TAGS"
  by (auto simp: classify_git_def TAGS_def Let_def split: if_splits)

lemma classify_rm_tags: "set (classify_rm program args) \<subseteq> set TAGS"
  by (auto simp: classify_rm_def TAGS_def Let_def split: if_splits)

lemma subset_if: "(b \<Longrightarrow> set x \<subseteq> A) \<Longrightarrow> (\<not> b \<Longrightarrow> set y \<subseteq> A) \<Longrightarrow> set (if b then x else y) \<subseteq> A"
  by simp

lemma subset_append: "set x \<subseteq> A \<Longrightarrow> set y \<subseteq> A \<Longrightarrow> set (x @ y) \<subseteq> A"
  by simp

lemma classify_program_tags: "set (classify_program program args) \<subseteq> set TAGS"
  unfolding classify_program_def Let_def
  by (intro subset_if subset_append classify_git_tags classify_rm_tags) (simp_all add: TAGS_def)

lemma classify_tags: "set (classify program args) \<subseteq> set TAGS"
  unfolding classify_def Let_def
  by (intro subset_if subset_append classify_program_tags) (simp_all add: TAGS_def)

lemma push_new_set: "set (push_new ts t) = insert t (set ts)"
  by (auto simp: push_new_def)

lemma push_all_set: "set (foldl push_new ts xs) = set ts \<union> set xs"
  by (induction xs arbitrary: ts) (auto simp: push_new_set)

lemma script_tags_set: "set (script_tags segs) = insert ''shell'' (\<Union>s \<in> set segs. set (nc_tags s))"
proof -
  have "set (foldl (\<lambda>ts s. foldl push_new ts (nc_tags s)) ts segs) = set ts \<union> (\<Union>s \<in> set segs. set (nc_tags s))" for ts
    by (induction segs arbitrary: ts) (auto simp: push_all_set)
  then show ?thesis by (simp add: script_tags_def)
qed

lemma all_tags_set:
  "set (all_tags c) = set (nc_tags c) \<union> (\<Union>s \<in> set (nc_segments c). set (all_tags s))"
  by (cases c) auto

lemma own_tags_all_tags: "x \<in> set (nc_tags c) \<Longrightarrow> x \<in> set (all_tags c)"
  by (cases c) simp

fun command_tags_in :: "string set \<Rightarrow> normalized_command \<Rightarrow> bool" where
  "command_tags_in A (NormalizedCommand a p t sh segs tags) \<longleftrightarrow>
     set tags \<subseteq> A \<and> list_all (command_tags_in A) segs"

lemma command_tags_in_nc_tags: "command_tags_in A c \<Longrightarrow> set (nc_tags c) \<subseteq> A"
  by (cases c) simp

lemma command_tags_in_all_tags: "command_tags_in A c \<Longrightarrow> set (all_tags c) \<subseteq> A"
  by (induction c) (auto simp: list_all_iff subset_iff)

lemma own_tags: "''shell'' \<in> set TAGS" "''privilege_escalation'' \<in> set TAGS"
  by (simp_all add: TAGS_def)

lemma command_tags_in_filter:
  "list_all (command_tags_in A) cs \<Longrightarrow> list_all (command_tags_in A) (filter f cs)"
  by (simp add: list_all_iff)

lemma script_tags_in:
  "list_all (command_tags_in (set TAGS)) cs \<Longrightarrow> set (script_tags cs) \<subseteq> set TAGS"
  using command_tags_in_nc_tags own_tags by (fastforce simp: script_tags_set list_all_iff)

lemma script_command_tags_in:
  "list_all (command_tags_in (set TAGS)) cs \<Longrightarrow>
   command_tags_in (set TAGS) (script_command script original cs)"
  by (simp add: script_command_def Let_def script_tags_in command_tags_in_filter)

lemma shell_command_tags_in:
  "command_tags_in (set TAGS) inner \<Longrightarrow>
   command_tags_in (set TAGS) (shell_command program script privileged inner)"
  by (cases inner) (simp add: shell_command_def own_tags)

lemma plain_command_tags_in:
  "command_tags_in (set TAGS) (plain_command argv program args privileged)"
  using classify_tags [of program] own_tags by (cases privileged) (simp_all add: plain_command_def Let_def)

lemma normalize_tags_in:
  "command_tags_in (set TAGS) (normalize_script script original)"
  "command_tags_in (set TAGS) (normalize_argv argv depth)"
proof (induction script original and argv depth rule: normalize_script_normalize_argv.induct)
  case (1 script original)
  then show ?case
    by (simp add: normalize_script.simps [of script] list_all_iff script_command_tags_in)
next
  case (2 argv depth)
  then show ?case
    by (auto simp: normalize_argv.simps [of argv] plain_command_tags_in shell_command_tags_in
        split: list.splits prod.splits option.splits)
qed

text \<open>Every tag of a normalized command, at any depth, is one of \<open>TAGS\<close>: a rule that passes the
  check of \<open>PolicySet::add\<close> names tags the classifier can give, and no tag is outside that check.\<close>

theorem normalize_tags_known: "set (all_tags (normalize argv shell)) \<subseteq> set TAGS"
  using command_tags_in_all_tags normalize_tags_in by (simp add: normalize_def)

text \<open>The tags of a shell command are \<open>shell\<close> and the tags of the commands it is split into
  (substitutions included), so a rule on a tag sees every command of a script; only segments without
  a program are dropped.\<close>

theorem script_segments_tagged:
  "set (all_tags (normalize argv True)) =
     insert ''shell''
       (\<Union>c \<in> set (filter (\<lambda>c. nc_program c \<noteq> [])
                     (map (\<lambda>seg. normalize_argv (tokenize seg) 1)
                        (split_shell_segments (join '' '' argv)))).
          set (all_tags c))"
proof -
  define cs where "cs = filter (\<lambda>c. nc_program c \<noteq> [])
    (map (\<lambda>seg. normalize_argv (tokenize seg) 1) (split_shell_segments (join '' '' argv)))"
  have "normalize argv True = script_command (join '' '' argv) argv
      (map (\<lambda>seg. normalize_argv (tokenize seg) 1) (split_shell_segments (join '' '' argv)))"
    by (simp add: normalize_def normalize_script.simps)
  then have "set (all_tags (normalize argv True)) =
      set (script_tags cs) \<union> (\<Union>c \<in> set cs. set (all_tags c))"
    by (simp add: script_command_def Let_def cs_def)
  also have "\<dots> = insert ''shell'' (\<Union>c \<in> set cs. set (all_tags c))"
    using own_tags_all_tags by (fastforce simp: script_tags_set)
  finally show ?thesis by (simp only: cs_def)
qed

subsection \<open>Wrappers\<close>

definition transparent :: "string \<Rightarrow> bool" where
  "transparent w \<longleftrightarrow> is_env_assignment w \<or>
     basename w \<in> {''nohup'', ''time'', ''command'', ''exec'', ''builtin''}"

lemma unwrap_transparent: "list_all transparent ws \<Longrightarrow> unwrap (ws @ argv) p = unwrap argv p"
proof (induction ws)
  case (Cons w ws)
  then have "transparent w" "unwrap (ws @ argv) p = unwrap argv p" by auto
  then show ?case by (auto simp: transparent_def Let_def)
qed simp

lemma script_rule_view:
  "all_texts (normalize_script script a) = all_texts (normalize_script script b)"
  "all_tags (normalize_script script a) = all_tags (normalize_script script b)"
  "nc_shell (normalize_script script a) = nc_shell (normalize_script script b)"
  "nc_program (normalize_script script a) = nc_program (normalize_script script b)"
  "nc_tags (normalize_script script a) = nc_tags (normalize_script script b)"
  "nc_segments (normalize_script script a) = nc_segments (normalize_script script b)"
  by (simp_all add: normalize_script.simps script_command_def Let_def)

text \<open>Environment assignments and the plain wrappers are transparent to the policy: with any
  number of them in front, the texts, the tags and the shell flag that rules look at are the same.\<close>

theorem wrappers_transparent:
  assumes "list_all transparent ws"
  shows "all_texts (normalize (ws @ argv) False) = all_texts (normalize argv False)
    \<and> all_tags (normalize (ws @ argv) False) = all_tags (normalize argv False)
    \<and> nc_shell (normalize (ws @ argv) False) = nc_shell (normalize argv False)"
proof -
  have u: "unwrap (ws @ argv) False = unwrap argv False"
    by (rule unwrap_transparent [OF assms])
  show ?thesis
  proof (cases "unwrap argv False")
    case (Pair rest priv)
    show ?thesis
    proof (cases rest)
      case Nil
      with Pair u show ?thesis by (simp add: normalize_def normalize_argv.simps)
    next
      case (Cons first args)
      show ?thesis
      proof (cases "if basename first \<in> set SHELLS \<and> (0::nat) < 3 then sh_script args else None")
        case None
        with Pair u Cons show ?thesis
          by (simp add: normalize_def normalize_argv.simps plain_command_def Let_def)
      next
        case (Some script)
        with Pair u Cons show ?thesis
          using script_rule_view [of script argv "ws @ argv"]
          by (simp add: normalize_def normalize_argv.simps shell_command_def)
      qed
    qed
  qed
qed

theorem wrappers_transparent_witness:
  "all_tags (normalize ([''GIT_DIR=x'', ''/usr/bin/nohup''] @ [''git'', ''push'', ''-f'']) False)
     = all_tags (normalize [''git'', ''push'', ''-f''] False)"
  using wrappers_transparent [of "[''GIT_DIR=x'', ''/usr/bin/nohup'']" "[''git'', ''push'', ''-f'']"]
  by (auto simp: transparent_def is_env_assignment_def basename_def str_defs byte_def)



text \<open>A limit of the unwrapping: an option of \<open>timeout\<close> that takes its value as a separate
  argument leaves the command behind it without any tag, although the bare command is a forced push.\<close>

theorem timeout_value_hides:
  "''git_force_push'' \<in> set (all_tags (normalize [''git'', ''push'', ''-f''] False))
    \<and> all_tags (normalize [''timeout'', ''-s'', ''KILL'', ''10'', ''git'', ''push'', ''-f''] False) = []"
proof -
  have "unwrap [''git'', ''push'', ''-f''] False = ([''git'', ''push'', ''-f''], False)"
    and "''git_force_push'' \<in> set (classify ''git'' (strip_git_global_options [''push'', ''-f'']))"
    by code_simp+
  then have "''git_force_push'' \<in> set (all_tags (normalize [''git'', ''push'', ''-f''] False))"
    by (simp add: normalize_def normalize_argv.simps SHELLS_def plain_command_def Let_def basename_def)
  moreover have "unwrap [''timeout'', ''-s'', ''KILL'', ''10'', ''git'', ''push'', ''-f''] False =
      ([''10'', ''git'', ''push'', ''-f''], False)"
    and "basename ''10'' = ''10''" and "classify ''10'' [''git'', ''push'', ''-f''] = []"
    by code_simp+
  then have "all_tags (normalize [''timeout'', ''-s'', ''KILL'', ''10'', ''git'', ''push'', ''-f''] False) = []"
    by (simp add: normalize_def normalize_argv.simps SHELLS_def plain_command_def Let_def)
  ultimately show ?thesis by blast
qed

end
