(* ===== verification/Policy.thy ===== *)
theory Policy
  imports Shell
begin

text \<open>
  The policy engine, \<open>src/policies/mod.rs\<close>: decisions, rules, the layered policy set, the wildcard
  matcher and the evaluation of a subject. Glob sets and regular expressions belong to the
  \<open>globset\<close> and \<open>regex\<close> crates: a compiled set is the list of its patterns, and \<open>matchers\<close> carries
  the functions that validate and match one pattern.
\<close>

subsection \<open>Decisions and actions\<close>

datatype decision = Allow | RequireApproval | Deny

fun decision_rank :: "decision \<Rightarrow> nat" where
  "decision_rank Allow = 0"
| "decision_rank RequireApproval = 1"
| "decision_rank Deny = 2"

instantiation decision :: linorder
begin

definition less_eq_decision :: "decision \<Rightarrow> decision \<Rightarrow> bool" where
  "a \<le> b \<longleftrightarrow> decision_rank a \<le> decision_rank b"

definition less_decision :: "decision \<Rightarrow> decision \<Rightarrow> bool" where
  "a < b \<longleftrightarrow> decision_rank a < decision_rank b"

instance
proof
  fix a b :: decision
  show "a \<le> b \<Longrightarrow> b \<le> a \<Longrightarrow> a = b"
    by (cases a; cases b) (simp_all add: less_eq_decision_def)
qed (auto simp: less_eq_decision_def less_decision_def)

end

lemma decision_order [simp]:
  "Allow \<le> d" "d \<le> Deny" "Deny \<le> d \<longleftrightarrow> d = Deny" "d \<le> Allow \<longleftrightarrow> d = Allow"
  by (cases d; simp add: less_eq_decision_def)+

fun decision_as_str :: "decision \<Rightarrow> string" where
  "decision_as_str Allow = ''allow''"
| "decision_as_str RequireApproval = ''require_approval''"
| "decision_as_str Deny = ''deny''"

datatype action = ARead | AWrite | ADelete | ACommand | AGitCommit | AGitPush | AGithubPr
  | AAgentStart | AWorktreeCreate | ANetwork | AEnvMutation | ADiffSummary

fun action_as_str :: "action \<Rightarrow> string" where
  "action_as_str ARead = ''read''"
| "action_as_str AWrite = ''write''"
| "action_as_str ADelete = ''delete''"
| "action_as_str ACommand = ''command''"
| "action_as_str AGitCommit = ''git_commit''"
| "action_as_str AGitPush = ''git_push''"
| "action_as_str AGithubPr = ''github_pr''"
| "action_as_str AAgentStart = ''agent_start''"
| "action_as_str AWorktreeCreate = ''worktree_create''"
| "action_as_str ANetwork = ''network''"
| "action_as_str AEnvMutation = ''env_mutation''"
| "action_as_str ADiffSummary = ''diff_summary''"

subsection \<open>Rules and policy files\<close>

record rule_match =
  m_actions :: "action list"
  m_paths :: "string list"
  m_exclude_paths :: "string list"
  m_commands :: "string list"
  m_command_tags :: "string list"
  m_runners :: "string list"
  m_branches :: "string list"
  m_steps :: "string list"
  m_repos :: "string list"
  m_shell :: "bool option"
  m_min_lines_changed :: "nat option"
  m_min_deleted_files :: "nat option"
  m_min_deleted_lines :: "nat option"
  m_min_files_changed :: "nat option"
  m_added_lines :: "string list"

definition empty_match :: rule_match where
  "empty_match = \<lparr> m_actions = [], m_paths = [], m_exclude_paths = [], m_commands = [],
     m_command_tags = [], m_runners = [], m_branches = [], m_steps = [], m_repos = [],
     m_shell = None, m_min_lines_changed = None, m_min_deleted_files = None,
     m_min_deleted_lines = None, m_min_files_changed = None, m_added_lines = [] \<rparr>"

record rule =
  ru_id :: string
  ru_description :: "string option"
  ru_matcher :: rule_match
  ru_actions :: "action list"
  ru_decision :: decision
  ru_reason :: "string option"

record policy_file =
  pf_version :: nat
  pf_name :: "string option"
  pf_default_decision :: "decision option"
  pf_rules :: "rule list"

record compiled_rule =
  cr_rule :: rule
  cr_source :: string
  cr_actions :: "action list"
  cr_paths :: "string list option"
  cr_exclude_paths :: "string list option"
  cr_branches :: "string list option"
  cr_repos :: "string list option"
  cr_added_lines :: "string list option"

record policy_set =
  ps_rules :: "compiled_rule list"
  ps_default_decision :: decision
  ps_sources :: "string list"

record matchers =
  glob_valid :: "string \<Rightarrow> bool"
  glob_match :: "string \<Rightarrow> string \<Rightarrow> bool"
  regex_valid :: "string \<Rightarrow> bool"
  regex_match :: "string \<Rightarrow> string \<Rightarrow> bool"

definition policy_empty :: "decision \<Rightarrow> policy_set" where
  "policy_empty d = \<lparr> ps_rules = [], ps_default_decision = d, ps_sources = [] \<rparr>"

definition globset :: "matchers \<Rightarrow> string list \<Rightarrow> string + string list option" where
  "globset mt ps =
     (if ps = [] then Inr None
      else case find (\<lambda>p. \<not> glob_valid mt p) ps of
        Some p \<Rightarrow> Inl (''invalid glob '' @ debug_str p)
      | None \<Rightarrow> Inr (Some ps))"

definition regexset :: "matchers \<Rightarrow> string list \<Rightarrow> string + string list option" where
  "regexset mt ps =
     (if ps = [] then Inr None
      else if list_all (regex_valid mt) ps then Inr (Some ps)
      else Inl ''invalid added_lines regex'')"

subsection \<open>Wildcards\<close>

text \<open>
  The matching loop. The source keeps positions into the pattern and the text; here the rest of the
  pattern, the rest of the text, and the two rests at the last star (the pattern after the star, the
  text at \<open>mark\<close>).
\<close>

definition star_inv :: "string \<Rightarrow> string \<Rightarrow> (string \<times> string) option \<Rightarrow> bool" where
  "star_inv p t st \<longleftrightarrow> (case st of None \<Rightarrow> True | Some (sp, mt) \<Rightarrow> suffix p sp \<and> suffix t mt)"

lemma star_inv_tl:
  "star_inv p (c # t) st \<Longrightarrow> p \<noteq> [] \<Longrightarrow> star_inv (tl p) t st"
  by (cases p) (auto simp: star_inv_def split: option.splits dest: suffix_ConsD)

function wild_loop :: "string \<Rightarrow> string \<Rightarrow> (string \<times> string) option \<Rightarrow> bool" where
  "wild_loop p [] st = list_all (\<lambda>c. c = CHR ''*'') p"
| "wild_loop p (c # t) st =
     (if p \<noteq> [] \<and> (hd p = CHR ''?'' \<or> hd p = c) then wild_loop (tl p) t st
      else if p \<noteq> [] \<and> hd p = CHR ''*'' then wild_loop (tl p) (c # t) (Some (tl p, c # t))
      else case st of
        Some (sp, mt) \<Rightarrow> wild_loop sp (tl mt) (Some (sp, tl mt))
      | None \<Rightarrow> False)"
  by pat_completeness auto

termination
proof (relation "measures
    [\<lambda>(p, t, st). if star_inv p t st then 0 else 1,
     \<lambda>(p, t, st). case st of None \<Rightarrow> Suc (length p) | Some (sp, mt) \<Rightarrow> length sp,
     \<lambda>(p, t, st). case st of None \<Rightarrow> 0 | Some (sp, mt) \<Rightarrow> length mt,
     \<lambda>(p, t, st). length t]", goal_cases)
  case 1
  show ?case by simp
next
  case (2 p c t st)
  then show ?case by (auto simp: star_inv_tl split: option.splits)
next
  case (3 p c t st)
  then obtain q where p: "p = CHR ''*'' # q" by (cases p) auto
  have "star_inv q (c # t) (Some (q, c # t))" by (simp add: star_inv_def)
  moreover have "length q < length sp" if "star_inv p (c # t) (Some (sp, mt))" for sp mt
    using that p by (auto simp: star_inv_def dest: suffix_length_le)
  ultimately show ?case using p by (auto split: option.splits)
next
  case (4 p c t st x sp mt)
  have "star_inv sp (tl mt) (Some (sp, tl mt))" by (simp add: star_inv_def)
  moreover have "mt \<noteq> []" if "star_inv p (c # t) (Some (sp, mt))"
    using that by (auto simp: star_inv_def)
  ultimately show ?case using 4 by (auto split: option.splits)
qed

lemmas wild_loop_cons = wild_loop.simps(2)
declare wild_loop.simps(2) [simp del]

definition wildcard_match :: "string \<Rightarrow> string \<Rightarrow> bool" where
  "wildcard_match pattern text = wild_loop pattern text None"

subsection \<open>Subjects and evaluation\<close>

record subject =
  sj_action :: "action option"
  sj_path :: "string option"
  sj_command :: "normalized_command option"
  sj_runner :: "string option"
  sj_branch :: "string option"
  sj_step_id :: "string option"
  sj_repo :: "string option"
  sj_cwd :: "path option"
  sj_task_id :: "string option"
  sj_lines_changed :: "nat option"
  sj_deleted_files :: "nat option"
  sj_deleted_lines :: "nat option"
  sj_files_changed :: "nat option"
  sj_added_lines :: "string list option"

definition subject_default :: subject where
  "subject_default = \<lparr> sj_action = None, sj_path = None, sj_command = None, sj_runner = None,
     sj_branch = None, sj_step_id = None, sj_repo = None, sj_cwd = None, sj_task_id = None,
     sj_lines_changed = None, sj_deleted_files = None, sj_deleted_lines = None,
     sj_files_changed = None, sj_added_lines = None \<rparr>"

definition describe :: "subject \<Rightarrow> string" where
  "describe s =
     (let action = (case sj_action s of Some a \<Rightarrow> action_as_str a | None \<Rightarrow> ''?'') in
      case sj_command s of
        Some c \<Rightarrow> action @ '': '' @ nc_text c
      | None \<Rightarrow> (case sj_path s of
          Some p \<Rightarrow> action @ '': '' @ p
        | None \<Rightarrow> (case (sj_files_changed s, sj_deleted_files s) of
            (Some f, Some d) \<Rightarrow> action @ '': '' @ nat_str f @ '' files changed, '' @ nat_str d @ '' deleted''
          | _ \<Rightarrow> action)))"

record matched_rule =
  mr_rule_id :: string
  mr_decision :: decision
  mr_reason :: "string option"
  mr_source :: string

record policy_decision =
  pd_decision :: decision
  pd_subject :: string
  pd_matched :: "matched_rule list"
  pd_reason :: string

definition allowed :: "policy_decision \<Rightarrow> bool" where
  "allowed d \<longleftrightarrow> pd_decision d = Allow"

text \<open>\<open>GlobSet::is_match\<close> and \<open>RegexSet::is_match\<close>: some pattern of the set matches.\<close>

definition set_match :: "(string \<Rightarrow> string \<Rightarrow> bool) \<Rightarrow> string list \<Rightarrow> string \<Rightarrow> bool" where
  "set_match f ps x \<longleftrightarrow> list_ex (\<lambda>p. f p x) ps"

text \<open>A set of the compiled rule that is present and does not match what the subject has.\<close>

definition glob_fails :: "matchers \<Rightarrow> string list option \<Rightarrow> string option \<Rightarrow> bool" where
  "glob_fails mt gs x =
     (case gs of None \<Rightarrow> False
      | Some ps \<Rightarrow> (case x of Some p \<Rightarrow> \<not> set_match (glob_match mt) ps p | None \<Rightarrow> True))"

definition wild_fails :: "string list \<Rightarrow> string option \<Rightarrow> bool" where
  "wild_fails ps x =
     (ps \<noteq> [] \<and> (case x of Some t \<Rightarrow> \<not> list_ex (\<lambda>p. wildcard_match p t) ps | None \<Rightarrow> True))"

definition below_min :: "nat option \<Rightarrow> nat option \<Rightarrow> bool" where
  "below_min m x = (case m of None \<Rightarrow> False | Some n \<Rightarrow> (case x of Some v \<Rightarrow> v | None \<Rightarrow> 0) < n)"

definition rule_matches :: "matchers \<Rightarrow> compiled_rule \<Rightarrow> subject \<Rightarrow> bool" where
  "rule_matches mt r s =
     (let m = ru_matcher (cr_rule r) in
      if cr_actions r \<noteq> [] \<and>
         (case sj_action s of Some a \<Rightarrow> a \<notin> set (cr_actions r) | None \<Rightarrow> True) then False
      else if glob_fails mt (cr_paths r) (sj_path s) then False
      else if (case (cr_exclude_paths r, sj_path s) of
                 (Some ex, Some p) \<Rightarrow> set_match (glob_match mt) ex p | _ \<Rightarrow> False) then False
      else if m_commands m \<noteq> [] \<and>
              (case sj_command s of
                 None \<Rightarrow> True
               | Some c \<Rightarrow> \<not> list_ex (\<lambda>pat. list_ex (wildcard_match pat) (all_texts c)) (m_commands m))
           then False
      else if m_command_tags m \<noteq> [] \<and>
              (case sj_command s of
                 None \<Rightarrow> True
               | Some c \<Rightarrow> \<not> list_ex (\<lambda>t. t \<in> set (all_tags c)) (m_command_tags m)) then False
      else if (case m_shell m of
                 None \<Rightarrow> False
               | Some want \<Rightarrow> (case sj_command s of Some c \<Rightarrow> nc_shell c \<noteq> want | None \<Rightarrow> True))
           then False
      else if wild_fails (m_runners m) (sj_runner s) then False
      else if wild_fails (m_steps m) (sj_step_id s) then False
      else if glob_fails mt (cr_branches r) (sj_branch s) then False
      else if glob_fails mt (cr_repos r) (sj_repo s) then False
      else if below_min (m_min_lines_changed m) (sj_lines_changed s) then False
      else if below_min (m_min_deleted_files m) (sj_deleted_files s) then False
      else if below_min (m_min_deleted_lines m) (sj_deleted_lines s) then False
      else if below_min (m_min_files_changed m) (sj_files_changed s) then False
      else (case cr_added_lines r of
              None \<Rightarrow> True
            | Some ps \<Rightarrow> (case sj_added_lines s of
                Some ls \<Rightarrow> list_ex (set_match (regex_match mt) ps) ls
              | None \<Rightarrow> False)))"

definition needs_added_lines :: "policy_set \<Rightarrow> bool" where
  "needs_added_lines ps \<longleftrightarrow> list_ex (\<lambda>r. cr_added_lines r \<noteq> None) (ps_rules ps)"

definition matched_of :: "compiled_rule \<Rightarrow> matched_rule" where
  "matched_of r = \<lparr> mr_rule_id = ru_id (cr_rule r), mr_decision = ru_decision (cr_rule r),
     mr_reason = (case ru_reason (cr_rule r) of Some x \<Rightarrow> Some x
                  | None \<Rightarrow> ru_description (cr_rule r)),
     mr_source = cr_source r \<rparr>"

fun most_restrictive :: "decision list \<Rightarrow> decision option" where
  "most_restrictive [] = None"
| "most_restrictive (d # ds) =
     (case most_restrictive ds of None \<Rightarrow> Some d | Some e \<Rightarrow> Some (max d e))"

definition evaluate :: "matchers \<Rightarrow> policy_set \<Rightarrow> subject \<Rightarrow> policy_decision" where
  "evaluate mt ps s =
     (let matched = map matched_of (filter (\<lambda>r. rule_matches mt r s) (ps_rules ps));
          decision = (case most_restrictive (map mr_decision matched) of
                        Some d \<Rightarrow> d | None \<Rightarrow> ps_default_decision ps);
          reason =
            (if matched = [] then
               ''no rule matched; default decision is '' @ decision_as_str (ps_default_decision ps)
             else join ''; '' (map (\<lambda>m. case mr_reason m of
                                          Some r \<Rightarrow> mr_rule_id m @ '' ('' @ r @ '')''
                                        | None \<Rightarrow> mr_rule_id m)
                                 (filter (\<lambda>m. mr_decision m = decision) matched)))
      in \<lparr> pd_decision = decision, pd_subject = describe s, pd_matched = matched,
           pd_reason = reason \<rparr>)"

subsection \<open>Adding a policy file\<close>

fun duplicate_id :: "string list \<Rightarrow> rule list \<Rightarrow> string option" where
  "duplicate_id seen [] = None"
| "duplicate_id seen (r # rs) =
     (if ru_id r \<in> set seen then Some (ru_id r) else duplicate_id (ru_id r # seen) rs)"

definition matches_everything :: "action list \<Rightarrow> rule_match \<Rightarrow> bool" where
  "matches_everything actions m \<longleftrightarrow>
     m_paths m = [] \<and> m_commands m = [] \<and> m_command_tags m = [] \<and> actions = [] \<and>
     m_runners m = [] \<and> m_min_deleted_files m = None \<and> m_min_deleted_lines m = None \<and>
     m_min_files_changed m = None \<and> m_added_lines m = []"

definition with_context :: "string \<Rightarrow> string + 'a \<Rightarrow> string + 'a" where
  "with_context c r = (case r of Inl e \<Rightarrow> Inl (c @ '': '' @ e) | Inr x \<Rightarrow> Inr x)"

lemma with_context_Inr [simp]: "with_context c r = Inr x \<longleftrightarrow> r = Inr x"
  by (cases r) (auto simp: with_context_def)

fun sum_bind :: "'e + 'a \<Rightarrow> ('a \<Rightarrow> 'e + 'b) \<Rightarrow> 'e + 'b" where
  "sum_bind (Inl e) f = Inl e"
| "sum_bind (Inr x) f = f x"

lemma sum_bind_Inr: "sum_bind x f = Inr y \<longleftrightarrow> (\<exists>v. x = Inr v \<and> f v = Inr y)"
  by (cases x) auto

definition compile_rule :: "matchers \<Rightarrow> string \<Rightarrow> rule \<Rightarrow> string + compiled_rule" where
  "compile_rule mt source r =
     (let m = ru_matcher r;
          actions = ru_actions r @ m_actions m in
      case find (\<lambda>t. t \<notin> set TAGS) (m_command_tags m) of
        Some t \<Rightarrow> Inl (source @ '': rule '' @ debug_str (ru_id r) @ '' uses unknown command tag '' @ debug_str t)
      | None \<Rightarrow>
        if matches_everything actions m then
          Inl (source @ '': rule '' @ debug_str (ru_id r) @ '' matches everything; add at least one criterion'')
        else
          sum_bind (with_context (source @ '': rule '' @ ru_id r) (globset mt (m_paths m))) (\<lambda>paths.
          sum_bind (globset mt (m_exclude_paths m)) (\<lambda>ex.
          sum_bind (globset mt (m_branches m)) (\<lambda>branches.
          sum_bind (globset mt (m_repos m)) (\<lambda>repos.
          sum_bind (with_context (source @ '': rule '' @ ru_id r) (regexset mt (m_added_lines m))) (\<lambda>added.
            Inr \<lparr> cr_rule = r, cr_source = source, cr_actions = actions, cr_paths = paths,
                  cr_exclude_paths = ex, cr_branches = branches, cr_repos = repos,
                  cr_added_lines = added \<rparr>))))))"

text \<open>The rules are pushed one by one: on an error the ones before it have been added already.\<close>

fun add_rules :: "matchers \<Rightarrow> string \<Rightarrow> rule list \<Rightarrow> (policy_set, unit) eff" where
  "add_rules mt source [] = ret ()"
| "add_rules mt source (r # rs) =
     bnd (lift_result (compile_rule mt source r)) (\<lambda>c.
     andthen (modify (\<lambda>ps. ps\<lparr> ps_rules := ps_rules ps @ [c] \<rparr>))
       (add_rules mt source rs))"

definition add_default :: "decision option \<Rightarrow> policy_set \<Rightarrow> policy_set" where
  "add_default d ps =
     (case d of
        None \<Rightarrow> ps
      | Some d \<Rightarrow>
          if ps_sources ps = [] then ps\<lparr> ps_default_decision := d \<rparr>
          else ps\<lparr> ps_default_decision := max (ps_default_decision ps) d \<rparr>)"

definition policy_add :: "matchers \<Rightarrow> policy_file \<Rightarrow> string \<Rightarrow> (policy_set, unit) eff" where
  "policy_add mt file source =
     (case duplicate_id [] (pf_rules file) of
        Some i \<Rightarrow> bail (source @ '': duplicate rule id '' @ debug_str i)
      | None \<Rightarrow>
        andthen (modify (add_default (pf_default_decision file)))
       (andthen (add_rules mt source (pf_rules file))
          (modify (\<lambda>ps. ps\<lparr> ps_sources := ps_sources ps @ [source] \<rparr>))))"

subsection \<open>The meaning of wildcards\<close>

fun wild_spec :: "string \<Rightarrow> string \<Rightarrow> bool" where
  "wild_spec [] t \<longleftrightarrow> t = []"
| "wild_spec (c # p) t \<longleftrightarrow>
     (if c = CHR ''*'' then list_ex (\<lambda>k. wild_spec p (drop k t)) [0..<Suc (length t)]
      else t \<noteq> [] \<and> (c = CHR ''?'' \<or> c = hd t) \<and> wild_spec p (tl t))"

lemma wild_spec_star:
  "wild_spec (CHR ''*'' # p) t \<longleftrightarrow> (\<exists>k \<le> length t. wild_spec p (drop k t))"
  by (auto simp: list_ex_iff less_Suc_eq_le simp del: upt_Suc)

declare wild_spec.simps(2) [simp del]

lemma wild_spec_lit:
  "c \<noteq> CHR ''*'' \<Longrightarrow>
   wild_spec (c # p) t \<longleftrightarrow> t \<noteq> [] \<and> (c = CHR ''?'' \<or> c = hd t) \<and> wild_spec p (tl t)"
  by (simp add: wild_spec.simps(2))

lemma wild_spec_nil: "wild_spec p [] \<longleftrightarrow> list_all (\<lambda>c. c = CHR ''*'') p"
proof (induction p)
  case (Cons c p)
  then show ?case by (cases "c = CHR ''*''") (auto simp: wild_spec_star wild_spec_lit)
qed simp

text \<open>A literal prefix consumes as many characters as it has.\<close>

lemma wild_spec_prefix:
  assumes "CHR ''*'' \<notin> set l" and "wild_spec (l @ p) t"
  shows "length l \<le> length t \<and> wild_spec p (drop (length l) t)"
  using assms
proof (induction l arbitrary: t)
  case (Cons c l)
  then have "t \<noteq> []" "wild_spec (l @ p) (tl t)" by (auto simp: wild_spec_lit)
  with Cons show ?case by (cases t) auto
qed simp

text \<open>Restarting later at the same star is never needed once a further star has been reached.\<close>

lemma wild_spec_drop_star:
  assumes "CHR ''*'' \<notin> set l" and "wild_spec (l @ CHR ''*'' # p) (drop k mt)"
    and "t = drop (length l) mt"
  shows "wild_spec (CHR ''*'' # p) t"
proof -
  from wild_spec_prefix [OF assms(1,2)]
  have "wild_spec (CHR ''*'' # p) (drop (length l + k) mt)" by (simp add: add.commute)
  then obtain j where "wild_spec p (drop (j + (length l + k)) mt)"
    by (auto simp: wild_spec_star)
  then have *: "wild_spec p (drop (j + k) t)" by (simp add: assms(3) ac_simps)
  show ?thesis
  proof (cases "j + k \<le> length t")
    case False
    with * have "wild_spec p (drop (length t) t)" by simp
    then show ?thesis using wild_spec_star by blast
  qed (use * in \<open>auto simp: wild_spec_star\<close>)
qed

definition star_path :: "string \<Rightarrow> string \<Rightarrow> (string \<times> string) option \<Rightarrow> bool" where
  "star_path p t st \<longleftrightarrow>
     (case st of None \<Rightarrow> True
      | Some (sp, mt) \<Rightarrow> \<exists>l. CHR ''*'' \<notin> set l \<and> sp = l @ p \<and> length l \<le> length mt \<and> t = drop (length l) mt \<and> CHR ''*'' \<notin> set mt)"

definition retry_later :: "(string \<times> string) option \<Rightarrow> bool" where
  "retry_later st \<longleftrightarrow>
     (case st of None \<Rightarrow> False | Some (sp, mt) \<Rightarrow> \<exists>k. 1 \<le> k \<and> k \<le> length mt \<and> wild_spec sp (drop k mt))"

lemma drop_step: "c # t = drop n xs \<Longrightarrow> Suc n \<le> length xs \<and> drop (Suc n) xs = t"
  by (metis Suc_leI drop_Suc list.sel(3) list.simps(3) drop_all not_le tl_drop)

lemma star_path_step:
  assumes "star_path (a # q) (c # t) st" and "a \<noteq> CHR ''*''"
  shows "star_path q t st"
proof (cases st)
  case (Some x)
  then obtain sp mt where st: "st = Some (sp, mt)" by (cases x) auto
  with assms obtain l where l: "CHR ''*'' \<notin> set l" "sp = (l @ [a]) @ q"
    "c # t = drop (length l) mt" "CHR ''*'' \<notin> set mt"
    by (auto simp: star_path_def)
  with assms(2) drop_step [OF l(3)] st show ?thesis
    unfolding star_path_def by (auto intro!: exI [of _ "l @ [a]"])
qed (simp add: star_path_def)

lemma retry_later_tl:
  "mt \<noteq> [] \<Longrightarrow> retry_later (Some (sp, mt)) \<longleftrightarrow> wild_spec sp (tl mt) \<or> retry_later (Some (sp, tl mt))"
proof -
  assume ne: "mt \<noteq> []"
  have *: "drop (Suc k) mt = drop k (tl mt)" for k by (simp add: drop_Suc)
  have "retry_later (Some (sp, mt)) \<longleftrightarrow> (\<exists>k. k \<le> length (tl mt) \<and> wild_spec sp (drop k (tl mt)))"
    unfolding retry_later_def using ne
    by (auto simp: * [symmetric]) (metis Suc_le_D Suc_le_mono length_tl One_nat_def Suc_pred length_greater_0_conv, metis One_nat_def Suc_le_eq Suc_pred length_greater_0_conv less_Suc_eq_le zero_less_Suc Suc_le_mono)
  also have "\<dots> \<longleftrightarrow> wild_spec sp (tl mt) \<or> retry_later (Some (sp, tl mt))"
    unfolding retry_later_def by (auto) (metis Suc_leI drop0 gr0I One_nat_def)
  finally show ?thesis .
qed

lemma retry_later_end:
  assumes "star_path p [] st" shows "\<not> retry_later st"
proof
  assume "retry_later st"
  then obtain sp mt k where st: "st = Some (sp, mt)" "1 \<le> k" "k \<le> length mt" "wild_spec sp (drop k mt)"
    by (auto simp: retry_later_def split: option.splits)
  with assms obtain l where l: "CHR ''*'' \<notin> set l" "sp = l @ p" "length l = length mt"
    by (auto simp: star_path_def)
  from wild_spec_prefix [OF l(1), of p "drop k mt"] st l show False by auto
qed

lemma wild_loop_spec:
  "star_path p t st \<Longrightarrow> CHR ''*'' \<notin> set t \<Longrightarrow>
   wild_loop p t st \<longleftrightarrow> wild_spec p t \<or> retry_later st"
proof (induction p t st rule: wild_loop.induct)
  case (1 p st)
  then show ?case using retry_later_end by (auto simp: wild_spec_nil)
next
  case (2 p c t st)
  show ?case
  proof (cases "p \<noteq> [] \<and> (hd p = CHR ''?'' \<or> hd p = c)")
    case True
    then obtain a q where p: "p = a # q" "a = CHR ''?'' \<or> a = c" by (cases p) auto
    with 2 have a: "a \<noteq> CHR ''*''" by auto
    have "star_path q t st" using star_path_step [OF _ a] "2.prems"(1) p by auto
    with 2 True p a show ?thesis by (subst wild_loop_cons) (auto simp: wild_spec_lit)
  next
    case F: False
    show ?thesis
    proof (cases "p \<noteq> [] \<and> hd p = CHR ''*''")
      case True
      then obtain q where p: "p = CHR ''*'' # q" by (cases p) auto
      have "star_path q (c # t) (Some (q, c # t))" using "2.prems"(2) by (auto simp: star_path_def)
      with 2 F True p have "wild_loop p (c # t) st \<longleftrightarrow> wild_spec q (c # t) \<or> retry_later (Some (q, c # t))"
        by (subst wild_loop_cons) auto
      also have "\<dots> \<longleftrightarrow> wild_spec p (c # t)"
        unfolding p wild_spec_star retry_later_def by (auto) (metis One_nat_def Suc_leI drop0 gr0I length_Cons)
      also have "\<dots> \<longleftrightarrow> wild_spec p (c # t) \<or> retry_later st"
      proof -
        have "wild_spec p (c # t)" if "retry_later st"
          using that "2.prems"(1) unfolding retry_later_def star_path_def p
          by (auto split: option.splits intro: wild_spec_drop_star)
        then show ?thesis by blast
      qed
      finally show ?thesis .
    next
      case False
      have n: "\<not> wild_spec p (c # t)" using F False by (cases p) (auto simp: wild_spec_lit)
      show ?thesis
      proof (cases st)
        case None
        then show ?thesis using n F False by (subst wild_loop_cons) (auto simp: retry_later_def)
      next
        case (Some x)
        then obtain sp mt where st: "st = Some (sp, mt)" by (cases x) auto
        with "2.prems" have mt: "mt \<noteq> []" "CHR ''*'' \<notin> set (tl mt)"
          by (cases mt; auto simp: star_path_def)+
        then have "star_path sp (tl mt) (Some (sp, tl mt))" by (auto simp: star_path_def)
        with "2.IH"(3) [OF F False st refl] mt(2)
        have ih: "wild_loop sp (tl mt) (Some (sp, tl mt)) \<longleftrightarrow>
          wild_spec sp (tl mt) \<or> retry_later (Some (sp, tl mt))" by blast
        have "wild_loop p (c # t) st = wild_loop sp (tl mt) (Some (sp, tl mt))"
          using F False st by (subst wild_loop_cons) auto
        with ih n retry_later_tl [OF mt(1), of sp] st show ?thesis by blast
      qed
    qed
  qed
qed



text \<open>The hypothesis on the text is needed: the loop compares a star of the pattern with a
  literal star of the text first and then never treats it as a wildcard.\<close>

theorem wildcard_star_literal:
  "\<exists>p t. wild_spec p t \<and> \<not> wildcard_match p t"
proof -
  have "wild_spec ''rm *'' ''rm *foo'' \<and> \<not> wildcard_match ''rm *'' ''rm *foo''" by code_simp
  then show ?thesis by blast
qed

subsection \<open>Evaluation\<close>

lemma most_restrictive_None [simp]: "most_restrictive ds = None \<longleftrightarrow> ds = []"
  by (cases ds) (auto split: option.splits)

lemma most_restrictive_greatest:
  "most_restrictive ds = Some d \<Longrightarrow> d \<in> set ds \<and> (\<forall>e \<in> set ds. e \<le> d)"
proof (induction ds arbitrary: d)
  case (Cons a ds)
  show ?case
  proof (cases "most_restrictive ds")
    case (Some e)
    with Cons.IH [OF this] Cons.prems show ?thesis by (fastforce simp: max_def)
  qed (use Cons.prems in auto)
qed simp

lemma most_restrictive_iff:
  "most_restrictive ds = Some d \<longleftrightarrow> d \<in> set ds \<and> (\<forall>e \<in> set ds. e \<le> d)"
proof
  assume d: "d \<in> set ds \<and> (\<forall>e \<in> set ds. e \<le> d)"
  then have "ds \<noteq> []" by auto
  then obtain e where "most_restrictive ds = Some e" using most_restrictive_None [of ds] by blast
  with most_restrictive_greatest [OF this] d show "most_restrictive ds = Some d"
    by (auto intro: order_antisym)
qed (rule most_restrictive_greatest)

text \<open>The rules of the set that match a subject.\<close>

definition matching :: "matchers \<Rightarrow> policy_set \<Rightarrow> subject \<Rightarrow> compiled_rule list" where
  "matching mt ps s = filter (\<lambda>r. rule_matches mt r s) (ps_rules ps)"

lemma evaluate_matched: "pd_matched (evaluate mt ps s) = map matched_of (matching mt ps s)"
  by (simp add: evaluate_def matching_def Let_def)

lemma evaluate_decision_cases:
  "pd_decision (evaluate mt ps s) =
     (case most_restrictive (map (ru_decision \<circ> cr_rule) (matching mt ps s)) of
        Some d \<Rightarrow> d | None \<Rightarrow> ps_default_decision ps)"
  by (simp add: evaluate_def matching_def Let_def matched_of_def comp_def)

lemma decision_of_matching:
  assumes "matching mt ps s \<noteq> []"
  shows "(\<exists>r \<in> set (matching mt ps s). ru_decision (cr_rule r) = pd_decision (evaluate mt ps s)) \<and>
    (\<forall>r \<in> set (matching mt ps s). ru_decision (cr_rule r) \<le> pd_decision (evaluate mt ps s))"
proof -
  let ?ds = "map (ru_decision \<circ> cr_rule) (matching mt ps s)"
  obtain e where "most_restrictive ?ds = Some e"
    using assms most_restrictive_None [of ?ds] by fastforce
  then show ?thesis
    using most_restrictive_greatest [of ?ds e] by (auto simp: evaluate_decision_cases)
qed

text \<open>C26. The decision on a subject is the most restrictive one among the matching rules, and the
  default decision exactly when no rule matches; so one matching Deny rule denies.\<close>

theorem evaluate_most_restrictive:
  "pd_decision (evaluate mt ps s) = d \<longleftrightarrow>
     (if matching mt ps s = [] then d = ps_default_decision ps
      else (\<exists>r \<in> set (matching mt ps s). ru_decision (cr_rule r) = d) \<and>
           list_all (\<lambda>r. ru_decision (cr_rule r) \<le> d) (matching mt ps s))"
proof (cases "matching mt ps s = []")
  case False
  with decision_of_matching [OF False] show ?thesis
    by (auto simp: list_all_iff) (metis order_antisym)
qed (auto simp: evaluate_decision_cases)

subsection \<open>Layers\<close>

lemma add_rules_extends:
  "\<exists>cs. snd (add_rules mt source rs ps) = ps\<lparr> ps_rules := ps_rules ps @ cs \<rparr>"
proof (induction rs arbitrary: ps)
  case (Cons r rs)
  show ?case
  proof (cases "compile_rule mt source r")
    case (Inr c)
    from Cons [of "ps\<lparr> ps_rules := ps_rules ps @ [c] \<rparr>"] show ?thesis
      by (auto simp: Inr eff_defs)
  qed (auto simp: eff_defs intro: exI [of _ "[]"])
qed (auto simp: eff_defs intro: exI [of _ "[]"])

lemma policy_add_rules: "\<exists>cs. ps_rules (snd (policy_add mt f source ps)) = ps_rules ps @ cs"
proof (cases "duplicate_id [] (pf_rules f)")
  case None
  let ?ps = "add_default (pf_default_decision f) ps"
  have "ps_rules ?ps = ps_rules ps" by (simp add: add_default_def split: option.split)
  moreover obtain cs where "snd (add_rules mt source (pf_rules f) ?ps) =
     ?ps\<lparr> ps_rules := ps_rules ?ps @ cs \<rparr>"
    using add_rules_extends by blast
  ultimately show ?thesis using None
    by (cases "add_rules mt source (pf_rules f) ?ps") (auto simp: policy_add_def eff_defs split: sum.splits)
qed (auto simp: policy_add_def eff_defs)

lemma policy_add_default:
  "ps_sources ps \<noteq> [] \<Longrightarrow>
   ps_default_decision ps \<le> ps_default_decision (snd (policy_add mt f source ps))"
  using add_rules_extends [of mt source "pf_rules f" "add_default (pf_default_decision f) ps"]
  by (auto simp: policy_add_def eff_defs add_default_def split: prod.splits sum.splits option.splits)

text \<open>Loading a further policy file, even one that fails half way, never loosens: the default
  decision does not go down, and the decision on any subject does not go down when a rule matched it
  before or none matches it afterwards.\<close>

theorem policy_add_tightens:
  assumes "ps_sources ps \<noteq> []" and "policy_add mt f source ps = (res, ps')"
  shows "ps_default_decision ps \<le> ps_default_decision ps' \<and>
    (matching mt ps s \<noteq> [] \<or> matching mt ps' s = [] \<longrightarrow>
     pd_decision (evaluate mt ps s) \<le> pd_decision (evaluate mt ps' s))"
proof -
  obtain cs where cs: "ps_rules ps' = ps_rules ps @ cs"
    using policy_add_rules [of mt f source ps] assms(2) by auto
  have d: "ps_default_decision ps \<le> ps_default_decision ps'"
    using policy_add_default [OF assms(1), of mt f source] assms(2) by simp
  have m: "matching mt ps' s = matching mt ps s @ filter (\<lambda>r. rule_matches mt r s) cs"
    by (simp add: matching_def cs)
  have "pd_decision (evaluate mt ps s) \<le> pd_decision (evaluate mt ps' s)"
    if ne: "matching mt ps s \<noteq> []"
  proof -
    obtain r where "r \<in> set (matching mt ps s)"
      "ru_decision (cr_rule r) = pd_decision (evaluate mt ps s)"
      using decision_of_matching [OF ne] by auto
    with m decision_of_matching [of mt ps' s] show ?thesis by force
  qed
  moreover have "pd_decision (evaluate mt ps s) \<le> pd_decision (evaluate mt ps' s)"
    if "matching mt ps' s = []"
    using that d m by (simp add: evaluate_decision_cases)
  ultimately show ?thesis using d by blast
qed

text \<open>A two-layer set over concrete matchers, for the witness.\<close>

definition plain_matchers :: matchers where
  "plain_matchers = \<lparr> glob_valid = (\<lambda>p. p \<noteq> []), glob_match = wildcard_match,
     regex_valid = (\<lambda>p. True), regex_match = (\<lambda>p l. str_contains l p) \<rparr>"

definition tag_rule :: "string \<Rightarrow> string \<Rightarrow> decision \<Rightarrow> rule" where
  "tag_rule i t d = \<lparr> ru_id = i, ru_description = None,
     ru_matcher = empty_match\<lparr> m_command_tags := [t] \<rparr>, ru_actions = [ACommand],
     ru_decision = d, ru_reason = None \<rparr>"

definition file_of :: "decision option \<Rightarrow> rule list \<Rightarrow> policy_file" where
  "file_of d rs = \<lparr> pf_version = 1, pf_name = None, pf_default_decision = d, pf_rules = rs \<rparr>"

definition two_layers :: policy_set where
  "two_layers = snd (policy_add plain_matchers
     (file_of (Some RequireApproval) [tag_rule ''push'' ''git_push'' RequireApproval]) ''a''
     (policy_empty Allow))"

theorem policy_add_tightens_witness:
  "pd_decision (evaluate plain_matchers two_layers subject_default)
     \<le> pd_decision (evaluate plain_matchers
          (snd (policy_add plain_matchers (file_of (Some Allow) [tag_rule ''f'' ''git_force_push'' Deny]) ''b'' two_layers))
          subject_default)"
proof -
  have "ps_sources two_layers \<noteq> []"
    "matching plain_matchers (snd (policy_add plain_matchers
       (file_of (Some Allow) [tag_rule ''f'' ''git_force_push'' Deny]) ''b'' two_layers))
       subject_default = []"
    by code_simp+
  with policy_add_tightens [of two_layers plain_matchers
      "file_of (Some Allow) [tag_rule ''f'' ''git_force_push'' Deny]" "''b''" _ _ subject_default]
  show ?thesis by (metis prod.collapse)
qed

end
