(* ===== verification/Model.thy ===== *)
theory Model
  imports Complex_Main Policy
begin

text \<open>
  The domain model, \<open>src/model.rs\<close>: tasks, runs, step executions and their status tables. Time is
  \<^typ>\<open>timestamp\<close> in milliseconds. Costs are the finite values of an \<open>f64\<close>, rational numbers whose
  addition is a parameter (\<open>fadd\<close>, which rounds); other numbers are naturals, with the wrap-around of
  \<open>u64\<close> written out where values are added.
\<close>

type_synonym f64 = rat

subsection \<open>JSON values\<close>

datatype json = JNull | JBool bool | JInt int | JFloat f64 | JStr string
  | JArr "json list" | JObj "(string \<times> json) list"

fun json_get :: "json \<Rightarrow> string \<Rightarrow> json option" where
  "json_get (JObj m) k = bt_get m k"
| "json_get _ k = None"

fun json_as_str :: "json \<Rightarrow> string option" where
  "json_as_str (JStr s) = Some s"
| "json_as_str _ = None"

subsection \<open>Statuses\<close>

datatype task_status = TQueued | TRunning | TBlocked | TAwaitingApproval | TSucceeded | TFailed
  | TCancelled

fun task_terminal :: "task_status \<Rightarrow> bool" where
  "task_terminal TSucceeded = True"
| "task_terminal TFailed = True"
| "task_terminal TCancelled = True"
| "task_terminal _ = False"

datatype run_status = RPending | RPreparing | RRunning | RAwaitingApproval | RBlocked
  | RNeedsHuman | RSucceeded | RFailed | RCancelled

fun run_terminal :: "run_status \<Rightarrow> bool" where
  "run_terminal RSucceeded = True"
| "run_terminal RFailed = True"
| "run_terminal RCancelled = True"
| "run_terminal _ = False"

fun run_active :: "run_status \<Rightarrow> bool" where
  "run_active RPending = True"
| "run_active RPreparing = True"
| "run_active RRunning = True"
| "run_active RAwaitingApproval = True"
| "run_active _ = False"

fun run_status_str :: "run_status \<Rightarrow> string" where
  "run_status_str RPending = ''pending''"
| "run_status_str RPreparing = ''preparing''"
| "run_status_str RRunning = ''running''"
| "run_status_str RAwaitingApproval = ''awaiting_approval''"
| "run_status_str RBlocked = ''blocked''"
| "run_status_str RNeedsHuman = ''needs_human''"
| "run_status_str RSucceeded = ''succeeded''"
| "run_status_str RFailed = ''failed''"
| "run_status_str RCancelled = ''cancelled''"

text \<open>The transition table of \<open>RunStatus::can_transition_to\<close>.\<close>

definition run_can :: "run_status \<Rightarrow> run_status \<Rightarrow> bool" where
  "run_can s n \<longleftrightarrow> s = n \<or>
     (case s of
        RPending \<Rightarrow> n \<in> {RPreparing, RRunning, RCancelled, RFailed, RNeedsHuman}
      | RPreparing \<Rightarrow> n \<in> {RRunning, RFailed, RCancelled, RBlocked, RNeedsHuman}
      | RRunning \<Rightarrow> n \<in> {RAwaitingApproval, RBlocked, RNeedsHuman, RSucceeded, RFailed, RCancelled}
      | RAwaitingApproval \<Rightarrow> n \<in> {RRunning, RBlocked, RFailed, RCancelled, RNeedsHuman}
      | RBlocked \<Rightarrow> n \<in> {RPending, RRunning, RCancelled, RFailed}
      | RNeedsHuman \<Rightarrow> n \<in> {RPending, RRunning, RCancelled, RFailed}
      | RSucceeded \<Rightarrow> False
      | RFailed \<Rightarrow> n = RPending
      | RCancelled \<Rightarrow> n = RPending)"

fun run_can_resume :: "run_status \<Rightarrow> bool" where
  "run_can_resume RFailed = True"
| "run_can_resume RCancelled = True"
| "run_can_resume RBlocked = True"
| "run_can_resume RNeedsHuman = True"
| "run_can_resume _ = False"

datatype step_status = SPending | SStarting | SRunning | SRetrying | SAwaitingApproval
  | SAwaitingHuman | SSucceeded | SFailed | SSkipped | SCancelled

fun step_terminal :: "step_status \<Rightarrow> bool" where
  "step_terminal SSucceeded = True"
| "step_terminal SFailed = True"
| "step_terminal SSkipped = True"
| "step_terminal SCancelled = True"
| "step_terminal _ = False"

fun step_status_str :: "step_status \<Rightarrow> string" where
  "step_status_str SPending = ''pending''"
| "step_status_str SStarting = ''starting''"
| "step_status_str SRunning = ''running''"
| "step_status_str SRetrying = ''retrying''"
| "step_status_str SAwaitingApproval = ''awaiting_approval''"
| "step_status_str SAwaitingHuman = ''awaiting_human''"
| "step_status_str SSucceeded = ''succeeded''"
| "step_status_str SFailed = ''failed''"
| "step_status_str SSkipped = ''skipped''"
| "step_status_str SCancelled = ''cancelled''"

text \<open>The transition table of \<open>StepStatus::can_transition_to\<close>.\<close>

definition step_can :: "step_status \<Rightarrow> step_status \<Rightarrow> bool" where
  "step_can s n \<longleftrightarrow> s = n \<or>
     (case s of
        SPending \<Rightarrow> n \<in> {SStarting, SSkipped, SCancelled, SAwaitingApproval, SFailed}
      | SStarting \<Rightarrow> n \<in> {SRunning, SFailed, SCancelled, SAwaitingApproval}
      | SRunning \<Rightarrow> n \<in> {SAwaitingHuman, SAwaitingApproval, SSucceeded, SFailed, SCancelled, SRetrying}
      | SAwaitingHuman \<Rightarrow> n \<in> {SRunning, SSucceeded, SFailed, SCancelled}
      | SAwaitingApproval \<Rightarrow> n \<in> {SRunning, SSucceeded, SFailed, SCancelled, SStarting}
      | SRetrying \<Rightarrow> n \<in> {SStarting, SRunning, SFailed, SCancelled}
      | _ \<Rightarrow> False)"

text \<open>What both tables promise, as an interface: a status is final exactly when the table lets it
  go nowhere but to the states a human may reopen it to.\<close>

locale status_table =
  fixes can :: "'st \<Rightarrow> 'st \<Rightarrow> bool"
    and terminal :: "'st \<Rightarrow> bool"
    and reopen :: "'st \<Rightarrow> bool"
    and fail :: 'st and cancel :: 'st
  assumes can_refl: "can s s"
    and terminal_final: "terminal s \<Longrightarrow> can s n \<Longrightarrow> n = s \<or> reopen n"
    and can_fail: "\<not> terminal s \<Longrightarrow> can s fail"
    and can_cancel: "\<not> terminal s \<Longrightarrow> can s cancel"
    and end_terminal: "terminal fail" "terminal cancel"
    and reopen_live: "reopen s \<Longrightarrow> \<not> terminal s"
begin

lemma not_final_moves: "\<not> terminal s \<Longrightarrow> \<exists>n. n \<noteq> s \<and> can s n \<and> terminal n"
  using can_fail end_terminal(1) by metis

lemma terminal_stays: "terminal s \<Longrightarrow> can s n \<Longrightarrow> terminal n \<Longrightarrow> n = s"
  using terminal_final reopen_live by metis

text \<open>Moving along the table keeps a terminal status as long as nobody reopens it.\<close>

lemma terminal_path:
  assumes "terminal s" and "can\<^sup>*\<^sup>* s n" and "\<And>x. can\<^sup>*\<^sup>* s x \<Longrightarrow> can\<^sup>*\<^sup>* x n \<Longrightarrow> \<not> reopen x"
  shows "n = s"
  using assms(2,3)
proof (induction rule: rtranclp_induct)
  case (step y z)
  have "\<not> reopen x" if "can\<^sup>*\<^sup>* s x" "can\<^sup>*\<^sup>* x y" for x
    using step that by (meson rtranclp.rtrancl_into_rtrancl)
  then have "y = s" using step by blast
  moreover have "\<not> reopen z" using step by (meson rtranclp.simps)
  ultimately show ?case using step terminal_final assms(1) by blast
qed simp

end

interpretation step_tab: status_table step_can step_terminal "\<lambda>_. False" SFailed SCancelled
  by unfold_locales (auto simp: step_can_def split: step_status.splits)

interpretation run_tab: status_table run_can run_terminal "\<lambda>s. s = RPending" RFailed RCancelled
  by unfold_locales (auto simp: run_can_def split: run_status.splits)

subsection \<open>Tasks\<close>

record initiator =
  in_via :: string
  in_user :: "string option"

record task_options =
  to_workflow :: "string option"
  to_runner :: "string option"
  to_base_ref :: "string option"
  to_variants :: nat
  to_variant_runners :: "string list"
  to_step_runners :: "(string, string) btmap"
  to_dry_run :: bool
  to_scope :: "string list"
  to_extra_checks :: "string list"
  to_extra_commands :: "string list list"
  to_continue_run :: "string option"
  to_eval_case :: "string option"
  to_variant_memory :: "bool list"

definition task_options_default :: task_options where
  "task_options_default = \<lparr> to_workflow = None, to_runner = None, to_base_ref = None,
     to_variants = 1, to_variant_runners = [], to_step_runners = [], to_dry_run = False,
     to_scope = [], to_extra_checks = [], to_extra_commands = [], to_continue_run = None,
     to_eval_case = None, to_variant_memory = [] \<rparr>"

record epic_link =
  el_epic_id :: string
  el_key :: string

datatype task_source =
    SrcManual
  | SrcGithubIssue (gi_repo: string) (gi_number: nat) (gi_url: string)
  | SrcEpic (se_epic_id: string) (se_adr_path: string) (se_adr_sha256: string) (se_purpose: string)
  | SrcPrFeedback (pf_run_id: string) (pf_pr_url: string)
  | SrcEval (ev_eval_id: string) (ev_case_id: string)
  | SrcIncident (ic_provider: string) (ic_id: string) (ic_url: string)

record issue_link =
  il_number :: nat
  il_url :: string

record task =
  t_task_id :: string
  t_title :: string
  t_description :: string
  t_repo_root :: path
  t_status :: task_status
  t_options :: task_options
  t_initiator :: initiator
  t_source :: "task_source option"
  t_run_ids :: "string list"
  t_selected_run :: "string option"
  t_created_at :: timestamp
  t_updated_at :: timestamp
  t_epic :: "epic_link option"
  t_depends_on :: "string list"
  t_acceptance :: "string list"
  t_manual_checks :: "string list"
  t_waiting_on :: "string option"
  t_issue :: "issue_link option"
  t_issue_synced :: "string option"

definition acceptance_text :: "task \<Rightarrow> string" where
  "acceptance_text t = join nl (map (\<lambda>(i, c). nat_str (i + 1) @ ''. '' @ c) (enumerate 0 (t_acceptance t)))"

subsection \<open>Step executions\<close>

datatype step_kind = KAgent | KCommand | KApproval | KGithubPr | KGit | KPolicy

fun step_kind_str :: "step_kind \<Rightarrow> string" where
  "step_kind_str KAgent = ''agent''"
| "step_kind_str KCommand = ''command''"
| "step_kind_str KApproval = ''approval''"
| "step_kind_str KGithubPr = ''github_pr''"
| "step_kind_str KGit = ''git''"
| "step_kind_str KPolicy = ''policy''"

datatype usage_source = UMeasured | UReported | UEstimated | UUnknown

record usage_record =
  u_source :: usage_source
  u_input_tokens :: "nat option"
  u_output_tokens :: "nat option"
  u_cached_tokens :: "nat option"
  u_cost_usd :: "f64 option"
  u_runtime_ms :: "nat option"
  u_model :: "string option"

definition usage_default :: usage_record where
  "usage_default = \<lparr> u_source = UUnknown, u_input_tokens = None, u_output_tokens = None,
     u_cached_tokens = None, u_cost_usd = None, u_runtime_ms = None, u_model = None \<rparr>"

definition usage_unknown :: "nat option \<Rightarrow> usage_record" where
  "usage_unknown ms = usage_default\<lparr> u_runtime_ms := ms \<rparr>"

record agent_binding =
  ab_mode :: string
  ab_agent_kind :: "string option"
  ab_agent_name :: "string option"
  ab_pane_id :: "string option"
  ab_tab_id :: "string option"
  ab_workspace_id :: "string option"
  ab_terminal_id :: "string option"
  ab_agent_session :: "string option"
  ab_output_file :: "path option"
  ab_prompt_sent :: bool
  ab_last_status :: "string option"

definition agent_binding_default :: agent_binding where
  "agent_binding_default = \<lparr> ab_mode = [], ab_agent_kind = None, ab_agent_name = None,
     ab_pane_id = None, ab_tab_id = None, ab_workspace_id = None, ab_terminal_id = None,
     ab_agent_session = None, ab_output_file = None, ab_prompt_sent = False,
     ab_last_status = None \<rparr>"

record process_binding =
  pb_pid :: nat
  pb_argv :: "string list"
  pb_cwd :: path
  pb_started_at :: timestamp

record step_execution =
  e_exec_id :: string
  e_step_id :: string
  e_kind :: step_kind
  e_attempt :: nat
  e_status :: step_status
  e_runner :: "string option"
  e_intent :: "string option"
  e_started_at :: "timestamp option"
  e_ended_at :: "timestamp option"
  e_agent :: "agent_binding option"
  e_process :: "process_binding option"
  e_exit_code :: "int option"
  e_error :: "string option"
  e_output_excerpt :: "string option"
  e_log_path :: "path option"
  e_structured :: "json option"
  e_parse_failed :: bool
  e_feedback_from :: "string option"
  e_approval_id :: "string option"
  e_usage :: "usage_record option"
  e_changed_files :: "nat option"
  e_attention :: "string option"

text \<open>\<open>StepExecution::new\<close>; the random identifier is an argument.\<close>

definition exec_new :: "string \<Rightarrow> string \<Rightarrow> step_kind \<Rightarrow> nat \<Rightarrow> step_execution" where
  "exec_new exec_id step_id kind n = \<lparr> e_exec_id = exec_id, e_step_id = step_id,
     e_kind = kind, e_attempt = n, e_status = SPending, e_runner = None, e_intent = None,
     e_started_at = None, e_ended_at = None, e_agent = None, e_process = None,
     e_exit_code = None, e_error = None, e_output_excerpt = None, e_log_path = None,
     e_structured = None, e_parse_failed = False, e_feedback_from = None, e_approval_id = None,
     e_usage = None, e_changed_files = None, e_attention = None \<rparr>"

definition duration_secs :: "timestamp \<Rightarrow> step_execution \<Rightarrow> int option" where
  "duration_secs now e =
     (case e_started_at e of
        None \<Rightarrow> None
      | Some start \<Rightarrow>
          Some (max 0 (((case e_ended_at e of Some t \<Rightarrow> t | None \<Rightarrow> now) - start) div 1000)))"

subsection \<open>Usage totals\<close>

definition u64_add :: "nat \<Rightarrow> nat \<Rightarrow> nat" where
  "u64_add a b = (a + b) mod 2 ^ 64"

definition opt_add :: "('a \<Rightarrow> 'a \<Rightarrow> 'a) \<Rightarrow> 'a \<Rightarrow> 'a option \<Rightarrow> 'a option \<Rightarrow> 'a option" where
  "opt_add f z a b =
     (case (a, b) of (None, None) \<Rightarrow> None
      | (x, y) \<Rightarrow> Some (f (case x of Some v \<Rightarrow> v | None \<Rightarrow> z) (case y of Some v \<Rightarrow> v | None \<Rightarrow> z)))"

definition usage_add :: "(f64 \<Rightarrow> f64 \<Rightarrow> f64) \<Rightarrow> usage_record \<Rightarrow> usage_record \<Rightarrow> usage_record" where
  "usage_add fadd out r = out\<lparr>
     u_input_tokens := opt_add u64_add 0 (u_input_tokens out) (u_input_tokens r),
     u_output_tokens := opt_add u64_add 0 (u_output_tokens out) (u_output_tokens r),
     u_cached_tokens := opt_add u64_add 0 (u_cached_tokens out) (u_cached_tokens r),
     u_runtime_ms := opt_add u64_add 0 (u_runtime_ms out) (u_runtime_ms r),
     u_cost_usd := opt_add fadd 0 (u_cost_usd out) (u_cost_usd r) \<rparr>"

definition usage_sum :: "(f64 \<Rightarrow> f64 \<Rightarrow> f64) \<Rightarrow> usage_record list \<Rightarrow> usage_record" where
  "usage_sum fadd rs =
     (let out = foldl (usage_add fadd) usage_default rs in
      if rs = [] then out
      else let has_value = (u_cost_usd out \<noteq> None \<or> u_input_tokens out \<noteq> None) in
        out\<lparr> u_source :=
          (if \<not> has_value then UUnknown
           else if list_all (\<lambda>r. u_source r = UMeasured) rs then UMeasured
           else if list_all (\<lambda>r. u_source r = UMeasured \<or> u_source r = UReported) rs
             then UReported
           else UEstimated) \<rparr>)"

subsection \<open>Runs\<close>

record git_state =
  g_base_ref :: string
  g_base_sha :: "string option"
  g_branch :: "string option"
  g_worktree_path :: "path option"
  g_head_sha :: "string option"
  g_dirty :: "bool option"
  g_commits :: "string list"

record changed_file =
  cf_path :: string
  cf_change :: string
  cf_insertions :: nat
  cf_deletions :: nat
  cf_old_path :: "string option"

record diff_stat =
  ds_files_changed :: nat
  ds_insertions :: nat
  ds_deletions :: nat
  ds_files :: "changed_file list"

record contract =
  c_files :: "(string, string) btmap"
  c_sha256 :: string
  c_check :: "string list"
  c_criteria_map :: "(string, string list) btmap"
  c_commit :: "string option"
  c_red_excerpt :: string
  c_locked_at :: timestamp
  c_approval_id :: "string option"
  c_approved_by :: "string option"
  c_approved_at :: "timestamp option"
  c_amended :: bool

text \<open>\<open>Contract::combined_hash\<close> over the SHA-256 parameter.\<close>

definition contract_lines :: "(string, string) btmap \<Rightarrow> string" where
  "contract_lines files = concat (map (\<lambda>(p, h). p @ '':'' @ h @ nl) files)"

definition combined_hash :: "(string \<Rightarrow> string) \<Rightarrow> (string, string) btmap \<Rightarrow> string" where
  "combined_hash sha files = sha (contract_lines files)"

definition contract_describe :: "contract \<Rightarrow> string" where
  "contract_describe c = ''Contract files (locked, do not modify): ''
     @ join '', '' (bt_keys (c_files c)) @ nl @ ''Contract check: '' @ display_argv (c_check c)"

record approval_cover =
  ac_step_id :: string
  ac_approval_id :: string
  ac_head_sha :: "string option"

record policy_decision_record =
  pr_at :: timestamp
  pr_step_id :: "string option"
  pr_exec_id :: "string option"
  pr_subject :: string
  pr_decision :: policy_decision

record artifact =
  ar_kind :: string
  ar_name :: string
  ar_path :: "path option"
  ar_url :: "string option"
  ar_step_id :: "string option"
  ar_created_at :: timestamp

record run =
  r_run_id :: string
  r_task_id :: string
  r_variant_index :: nat
  r_variant_count :: nat
  r_workflow_name :: string
  r_workflow_sha256 :: string
  r_workflow_yaml :: string
  r_runner_override :: "string option"
  r_repo_root :: path
  r_git :: git_state
  r_workspace_id :: "string option"
  r_status :: run_status
  r_status_reason :: "string option"
  r_initiator :: initiator
  r_dry_run :: bool
  r_created_at :: timestamp
  r_started_at :: "timestamp option"
  r_updated_at :: timestamp
  r_completed_at :: "timestamp option"
  r_cursor :: nat
  r_steps :: "step_execution list"
  r_policy_decisions :: "policy_decision_record list"
  r_approvals :: "string list"
  r_artifacts :: "artifact list"
  r_retry_counts :: "(string, nat) btmap"
  r_pr_url :: "string option"
  r_diff_stat :: "diff_stat option"
  r_pending_feedback :: "string option"
  r_pending_feedback_step :: "string option"
  r_outputs :: "(string, string) btmap"
  r_approved_paths :: "(string, string) btmap"
  r_approval_cover :: "approval_cover option"
  r_step_runners :: "(string, string) btmap"
  r_recovered :: bool
  r_selected :: bool
  r_pr_feedback_seen :: "string option"
  r_contract :: "contract option"
  r_memory :: "bool option"

definition variant_label :: "run \<Rightarrow> string" where
  "variant_label r = (if r_variant_count r \<le> 1 then [] else [char_of (65 + r_variant_index r mod 26)])"

definition display_name :: "run \<Rightarrow> string" where
  "display_name r = ''#'' @ r_task_id r @ variant_label r"

text \<open>The latest attempt of a step (\<open>latest_exec\<close>), and the update through a \<open>&mut\<close> to an
  execution found by its identifier (\<open>exec_mut\<close>: the first one with it).\<close>

definition latest_exec :: "run \<Rightarrow> string \<Rightarrow> step_execution option" where
  "latest_exec r sid = find (\<lambda>e. e_step_id e = sid) (rev (r_steps r))"

definition exec_of :: "run \<Rightarrow> string \<Rightarrow> step_execution option" where
  "exec_of r xid = find (\<lambda>e. e_exec_id e = xid) (r_steps r)"

fun update_first :: "('a \<Rightarrow> bool) \<Rightarrow> ('a \<Rightarrow> 'a) \<Rightarrow> 'a list \<Rightarrow> 'a list" where
  "update_first p f [] = []"
| "update_first p f (x # xs) = (if p x then f x # xs else x # update_first p f xs)"

definition exec_update :: "string \<Rightarrow> (step_execution \<Rightarrow> step_execution) \<Rightarrow> run \<Rightarrow> run" where
  "exec_update xid f r = r\<lparr> r_steps := update_first (\<lambda>e. e_exec_id e = xid) f (r_steps r) \<rparr>"

definition usage_total :: "(f64 \<Rightarrow> f64 \<Rightarrow> f64) \<Rightarrow> run \<Rightarrow> usage_record" where
  "usage_total fadd r = usage_sum fadd (List.map_filter e_usage (r_steps r))"

definition policy_summary :: "run \<Rightarrow> nat \<times> nat \<times> nat" where
  "policy_summary r =
     (let ds = map (\<lambda>d. pd_decision (pr_decision d)) (r_policy_decisions r) in
      (length (filter (\<lambda>d. d = Allow) ds), length (filter (\<lambda>d. d = RequireApproval) ds),
       length (filter (\<lambda>d. d = Deny) ds)))"

subsection \<open>Facts about executions\<close>

lemma exec_update_simps [simp]:
  "r_run_id (exec_update x f r) = r_run_id r"
  "r_status (exec_update x f r) = r_status r"
  "r_cursor (exec_update x f r) = r_cursor r"
  "r_retry_counts (exec_update x f r) = r_retry_counts r"
  "r_git (exec_update x f r) = r_git r"
  "r_recovered (exec_update x f r) = r_recovered r"
  "r_steps (exec_update x f r) = update_first (\<lambda>e. e_exec_id e = x) f (r_steps r)"
  by (simp_all add: exec_update_def)

lemma length_update_first [simp]: "length (update_first p f xs) = length xs"
  by (induction xs) auto

lemma update_first_nth:
  "i < length xs \<Longrightarrow> update_first p f xs ! i = xs ! i \<or>
     (p (xs ! i) \<and> update_first p f xs ! i = f (xs ! i))"
proof (induction xs arbitrary: i)
  case (Cons x xs)
  then show ?case by (cases i; cases "p x"; simp)
qed simp

lemma find_update_first:
  assumes "\<And>y. p y \<Longrightarrow> p (f y)"
  shows "find p (update_first p f xs) = map_option f (find p xs)"
proof (induction xs)
  case (Cons x xs)
  then show ?case using assms [of x] by (cases "p x") simp_all
qed simp

lemma exec_of_update:
  "(\<And>e. e_exec_id (f e) = e_exec_id e) \<Longrightarrow> exec_of (exec_update x f r) x = map_option f (exec_of r x)"
  by (simp add: exec_of_def find_update_first)

lemma find_SomeD: "find p xs = Some x \<Longrightarrow> x \<in> set xs \<and> p x"
  by (induction xs) (auto split: if_splits)

lemma latest_exec_Some:
  assumes "latest_exec r sid = Some e"
  shows "e \<in> set (r_steps r) \<and> e_step_id e = sid"
  using find_SomeD [OF assms [unfolded latest_exec_def]] by simp

lemma latest_exec_push: "latest_exec (r\<lparr> r_steps := r_steps r @ [e] \<rparr>) (e_step_id e) = Some e"
  by (simp add: latest_exec_def)

end
