(* ===== verification/Approvals.thy ===== *)
theory Approvals
  imports Model
begin

text \<open>
  Approval requests, \<open>src/approvals/mod.rs\<close>: the durable request with the context a human sees, and
  the rows that join acceptance criteria with the judgement of a review. Deciding a request goes
  through the store and is in \<open>Store_Facts\<close>.
\<close>

subsection \<open>JSON access\<close>

text \<open>\<open>v["key"]\<close> of \<open>serde_json\<close>: null when the key is missing or the value is no object.\<close>

definition json_index :: "json \<Rightarrow> string \<Rightarrow> json" where
  "json_index v k = (case json_get v k of Some x \<Rightarrow> x | None \<Rightarrow> JNull)"

fun json_as_array :: "json \<Rightarrow> json list option" where
  "json_as_array (JArr xs) = Some xs"
| "json_as_array _ = None"

fun json_as_u64 :: "json \<Rightarrow> nat option" where
  "json_as_u64 (JInt i) = (if 0 \<le> i \<and> i < 2 ^ 64 then Some (nat i) else None)"
| "json_as_u64 _ = None"

subsection \<open>Requests\<close>

datatype approval_status = APending | AApproved | ADenied | ACancelled | AExpired

fun approval_status_str :: "approval_status \<Rightarrow> string" where
  "approval_status_str APending = ''pending''"
| "approval_status_str AApproved = ''approved''"
| "approval_status_str ADenied = ''denied''"
| "approval_status_str ACancelled = ''cancelled''"
| "approval_status_str AExpired = ''expired''"

datatype approval_kind = WorkflowStep | PolicyKind

record contract_summary =
  cs_files :: "string list"
  cs_check :: string
  cs_red_excerpt :: string
  cs_criteria_map :: "string list"
  cs_approved :: bool

record acceptance_row =
  aw_criterion :: string
  aw_status :: string
  aw_evidence :: string

record approval_context =
  ax_task_title :: string
  ax_workflow :: string
  ax_step_id :: string
  ax_agent :: "string option"
  ax_pane_id :: "string option"
  ax_repository :: path
  ax_branch :: "string option"
  ax_worktree :: "path option"
  ax_base_sha :: "string option"
  ax_head_sha :: "string option"
  ax_changed_files :: "changed_file list"
  ax_insertions :: nat
  ax_deletions :: nat
  ax_checks :: "string list"
  ax_policy :: "policy_decision list"
  ax_pending_action :: "string option"
  ax_acceptance :: "acceptance_row list"
  ax_manual_checks :: "string list"
  ax_contract :: "contract_summary option"

text \<open>Criteria joined with the latest acceptance judgement; judgements name criteria by their
  number, from one.\<close>

definition judgement_for :: "json option \<Rightarrow> nat \<Rightarrow> json option" where
  "judgement_for judged i =
     (case judged of
        None \<Rightarrow> None
      | Some v \<Rightarrow> (case json_as_array (json_index v ''criteria'') of
          None \<Rightarrow> None
        | Some a \<Rightarrow> find (\<lambda>x. json_as_u64 (json_index x ''index'') = Some (i + 1)) a))"

definition row_text :: "json option \<Rightarrow> string \<Rightarrow> string \<Rightarrow> string" where
  "row_text j key dflt =
     (case Option.bind j (\<lambda>x. json_as_str (json_index x key)) of Some s \<Rightarrow> s | None \<Rightarrow> dflt)"

definition acceptance_rows :: "string list \<Rightarrow> json option \<Rightarrow> acceptance_row list" where
  "acceptance_rows criteria judged =
     map (\<lambda>(i, c). \<lparr> aw_criterion = c,
            aw_status = row_text (judgement_for judged i) ''status'' ''not reviewed'',
            aw_evidence = row_text (judgement_for judged i) ''evidence'' [] \<rparr>)
       (enumerate 0 criteria)"

record approval_request =
  a_approval_id :: string
  a_run_id :: string
  a_task_id :: string
  a_step_id :: string
  a_exec_id :: "string option"
  a_kind :: approval_kind
  a_reason :: string
  a_context :: approval_context
  a_status :: approval_status
  a_requested_at :: timestamp
  a_decided_at :: "timestamp option"
  a_decided_by :: "string option"
  a_decision_note :: "string option"
  a_expires_at :: "timestamp option"

text \<open>\<open>ApprovalRequest::new\<close>; the random identifier and the clock are arguments.\<close>

definition approval_new ::
  "string \<Rightarrow> timestamp \<Rightarrow> string \<Rightarrow> string \<Rightarrow> string \<Rightarrow> approval_kind \<Rightarrow> string \<Rightarrow> approval_context
     \<Rightarrow> approval_request" where
  "approval_new approval_id now run_id task_id step_id kind reason ctx =
     \<lparr> a_approval_id = approval_id, a_run_id = run_id, a_task_id = task_id, a_step_id = step_id,
       a_exec_id = None, a_kind = kind, a_reason = reason, a_context = ctx, a_status = APending,
       a_requested_at = now, a_decided_at = None, a_decided_by = None, a_decision_note = None,
       a_expires_at = None \<rparr>"

text \<open>The change \<open>decide\<close> makes under the lock: a decided request is refused.\<close>

definition decide_change ::
  "string option \<Rightarrow> timestamp \<Rightarrow> bool \<Rightarrow> string option \<Rightarrow> string option \<Rightarrow> approval_request
     \<Rightarrow> string + approval_request" where
  "decide_change env_user now approve user note a =
     (if a_status a \<noteq> APending then
        Inl (''approval '' @ a_approval_id a @ '' is already '' @ approval_status_str (a_status a))
      else Inr (a\<lparr> a_status := (if approve then AApproved else ADenied),
                   a_decided_at := Some now,
                   a_decided_by := (case user of Some u \<Rightarrow> Some u | None \<Rightarrow> env_user),
                   a_decision_note := note \<rparr>))"

lemma decide_change_pending:
  "decide_change eu now ok user note a = Inr b \<Longrightarrow>
   a_status a = APending \<and> a_status b = (if ok then AApproved else ADenied) \<and>
   a_approval_id b = a_approval_id a \<and> a_context b = a_context a \<and> a_run_id b = a_run_id a"
  by (auto simp: decide_change_def split: if_splits)

lemma acceptance_rows_length: "length (acceptance_rows cs j) = length cs"
  by (simp add: acceptance_rows_def)

lemma acceptance_rows_criteria: "map aw_criterion (acceptance_rows cs j) = cs"
  by (simp add: acceptance_rows_def comp_def case_prod_unfold)

end
