(* ===== verification/Store.thy ===== *)
theory Store
  imports Approvals
begin

text \<open>
  Durable state, \<open>src/store\<close>: typed documents in checksummed envelopes, quarantine of corrupt
  files, migration of old schemas with a backup, and the repository of tasks, runs, approvals,
  controls and the scheduler switch. The file system is a sorted map from paths to contents whose
  writes succeed. \<open>serde_json\<close> and SHA-256 are parameters (\<open>codec\<close>, \<open>doc_type\<close>); the laws that are
  used of them are \<open>codec_ok\<close> and \<open>doc_ok\<close>. Locks do not appear: each operation is one step.
\<close>

type_synonym files = "(path, string) btmap"

subsection \<open>Layout\<close>

definition dir_tasks :: "path \<Rightarrow> path" where "dir_tasks base = base @ ''/state/tasks''"
definition dir_runs :: "path \<Rightarrow> path" where "dir_runs base = base @ ''/state/runs''"
definition dir_approvals :: "path \<Rightarrow> path" where "dir_approvals base = base @ ''/state/approvals''"
definition dir_control :: "path \<Rightarrow> path" where "dir_control base = base @ ''/state/control''"
definition dir_epics :: "path \<Rightarrow> path" where "dir_epics base = base @ ''/state/epics''"
definition epic_counter_file :: "path \<Rightarrow> path" where
  "epic_counter_file base = base @ ''/state/epic_counter''"
definition scheduler_file :: "path \<Rightarrow> path" where
  "scheduler_file base = base @ ''/state/scheduler.json''"
definition counter_file :: "path \<Rightarrow> path" where "counter_file base = base @ ''/state/task_counter''"
definition dir_backups :: "path \<Rightarrow> path" where "dir_backups base = base @ ''/backups''"

definition file_name :: "path \<Rightarrow> string" where
  "file_name p = rev (takeWhile (\<lambda>c. c \<noteq> CHR ''/'') (rev p))"

text \<open>\<open>Path::with_extension\<close>: what follows the last dot of the file name is replaced.\<close>

definition with_extension :: "path \<Rightarrow> string \<Rightarrow> path" where
  "with_extension p ext =
     (let n = file_name p;
          stem = rev (drop 1 (dropWhile (\<lambda>c. c \<noteq> CHR ''.'') (rev n)))
      in (if stem = [] then p else take (length p - length n) p @ stem) @ ''.'' @ ext)"

subsection \<open>Envelopes\<close>

definition CURRENT_SCHEMA_VERSION :: nat where
  "CURRENT_SCHEMA_VERSION = 1"

record envelope =
  en_schema_version :: nat
  en_kind :: string
  en_sha256 :: string
  en_data :: json

record codec =
  enc_env :: "envelope \<Rightarrow> string"
  dec_env :: "string \<Rightarrow> string + envelope"
  canonical_json :: "json \<Rightarrow> string"
  sha256 :: "string \<Rightarrow> string"

record 'a doc_type =
  dt_kind :: string
  dt_to :: "'a \<Rightarrow> json"
  dt_from :: "json \<Rightarrow> string + 'a"

definition codec_ok :: "codec \<Rightarrow> bool" where
  "codec_ok cd \<longleftrightarrow> (\<forall>e. dec_env cd (enc_env cd e) = Inr e)"

definition doc_ok :: "'a doc_type \<Rightarrow> 'a \<Rightarrow> bool" where
  "doc_ok dt v \<longleftrightarrow> dt_from dt (dt_to dt v) = Inr v"

definition hex :: "nat list \<Rightarrow> string" where
  "hex bytes = concat (map (\<lambda>b. [hex_digit (b div 16), hex_digit (b mod 16)]) bytes)"

definition atomic_write :: "path \<Rightarrow> string \<Rightarrow> (files, unit) eff" where
  "atomic_write p bytes = modify (bt_insert p bytes)"

definition seal :: "codec \<Rightarrow> string \<Rightarrow> json \<Rightarrow> envelope" where
  "seal cd kind data = \<lparr> en_schema_version = CURRENT_SCHEMA_VERSION, en_kind = kind,
     en_sha256 = sha256 cd (canonical_json cd data), en_data = data \<rparr>"

definition write_value :: "codec \<Rightarrow> path \<Rightarrow> string \<Rightarrow> json \<Rightarrow> (files, unit) eff" where
  "write_value cd p kind data = atomic_write p (enc_env cd (seal cd kind data))"

definition write_doc :: "codec \<Rightarrow> 'a doc_type \<Rightarrow> path \<Rightarrow> 'a \<Rightarrow> (files, unit) eff" where
  "write_doc cd dt p v = write_value cd p (dt_kind dt) (dt_to dt v)"

text \<open>\<open>std::fs::rename\<close> onto the quarantine name, which carries the time (\<open>stamp\<close>).\<close>

definition quarantine :: "string \<Rightarrow> path \<Rightarrow> (files, unit) eff" where
  "quarantine stamp p =
     modify (\<lambda>fs. case bt_get fs p of
        None \<Rightarrow> fs
      | Some b \<Rightarrow> bt_insert (with_extension p (''corrupt-'' @ stamp)) b (bt_retain (\<lambda>k _. k \<noteq> p) fs))"

subsection \<open>Migrations\<close>

definition json_or_insert :: "string \<Rightarrow> json \<Rightarrow> json \<Rightarrow> json" where
  "json_or_insert k d v =
     (case v of JObj m \<Rightarrow> (if bt_contains m k then v else JObj (bt_insert k d m)) | _ \<Rightarrow> v)"

definition v0_to_v1_run :: "json \<Rightarrow> string + json" where
  "v0_to_v1_run v = Inr (json_or_insert ''artifacts'' (JArr []) (json_or_insert ''retry_counts'' (JObj []) v))"

definition MIGRATIONS :: "(string \<times> nat \<times> (json \<Rightarrow> string + json)) list" where
  "MIGRATIONS = [(''run'', 0, v0_to_v1_run), (''task'', 0, Inr), (''approval'', 0, Inr),
     (''control'', 0, Inr), (''scheduler'', 0, Inr)]"

text \<open>The loop of \<open>migrate\<close>, by recursion on the versions that are missing.\<close>

fun migrate_steps :: "nat \<Rightarrow> string \<Rightarrow> nat \<Rightarrow> json \<Rightarrow> string + json" where
  "migrate_steps 0 kind from data = Inr data"
| "migrate_steps (Suc n) kind from data =
     (case find (\<lambda>(k, f, _). k = kind \<and> f = from) MIGRATIONS of
        None \<Rightarrow> Inl (''no migration for '' @ kind @ '' from schema v'' @ nat_str from)
      | Some (_, _, f) \<Rightarrow> sum_bind (f data) (migrate_steps n kind (from + 1)))"

definition migrate :: "string \<Rightarrow> nat \<Rightarrow> json \<Rightarrow> string + json" where
  "migrate kind from data = migrate_steps (CURRENT_SCHEMA_VERSION - from) kind from data"

subsection \<open>Reading a document\<close>

definition corrupt_error :: "path \<Rightarrow> string \<Rightarrow> string" where
  "corrupt_error p why = ''document '' @ p @ '' is corrupt: '' @ why"

definition backup_path :: "path \<Rightarrow> string \<Rightarrow> path \<Rightarrow> nat \<Rightarrow> path" where
  "backup_path base stamp p v =
     dir_backups base @ ''/'' @ file_name p @ ''.v'' @ nat_str v @ ''.'' @ stamp"

text \<open>The tail of \<open>read_doc\<close>, once kind and checksum are right.\<close>

definition open_envelope ::
  "codec \<Rightarrow> path \<Rightarrow> string \<Rightarrow> 'a doc_type \<Rightarrow> path \<Rightarrow> string \<Rightarrow> envelope \<Rightarrow> (files, 'a) eff" where
  "open_envelope cd base stamp dt p bytes env =
     (if en_schema_version env < CURRENT_SCHEMA_VERSION then
        andthen (atomic_write (backup_path base stamp p (en_schema_version env)) bytes)
          (bnd (lift_result (migrate (dt_kind dt) (en_schema_version env) (en_data env))) (\<lambda>migrated.
           bnd (lift_result (dt_from dt migrated)) (\<lambda>typed.
           andthen (write_value cd p (dt_kind dt) migrated) (ret typed))))
      else if CURRENT_SCHEMA_VERSION < en_schema_version env then
        bail (''document '' @ p @ '' has schema v'' @ nat_str (en_schema_version env)
              @ '' which is newer than this binary'')
      else case dt_from dt (en_data env) of
        Inl e \<Rightarrow> bail (''document '' @ p @ '' does not match the '' @ dt_kind dt @ '' schema: '' @ e)
      | Inr v \<Rightarrow> ret v)"

definition read_doc ::
  "codec \<Rightarrow> path \<Rightarrow> string \<Rightarrow> 'a doc_type \<Rightarrow> path \<Rightarrow> (files, 'a) eff" where
  "read_doc cd base stamp dt p =
     bnd (gets (\<lambda>fs. bt_get fs p)) (\<lambda>found.
     case found of
       None \<Rightarrow> bail (''reading '' @ p)
     | Some bytes \<Rightarrow>
       (case dec_env cd bytes of
          Inl e \<Rightarrow> andthen (quarantine stamp p) (bail (corrupt_error p e))
        | Inr env \<Rightarrow>
          if en_kind env \<noteq> dt_kind dt then
            bail (''document '' @ p @ '' has kind '' @ debug_str (en_kind env) @ '', expected ''
                  @ debug_str (dt_kind dt))
          else if sha256 cd (canonical_json cd (en_data env)) \<noteq> en_sha256 env then
            andthen (quarantine stamp p) (bail (corrupt_error p ''checksum mismatch''))
          else open_envelope cd base stamp dt p bytes env))"

subsection \<open>Repository\<close>

definition valid_id :: "string \<Rightarrow> bool" where
  "valid_id s \<longleftrightarrow> s \<noteq> [] \<and> length s \<le> 80 \<and>
     list_all (\<lambda>c. is_ascii_alphanumeric c \<or> c = CHR ''-'' \<or> c = CHR ''_'') s"

definition doc_path :: "path \<Rightarrow> string \<Rightarrow> string + path" where
  "doc_path dir s =
     (if valid_id s then Inr (dir @ ''/'' @ s @ ''.json'')
      else Inl (''invalid identifier '' @ debug_str s))"

definition list_ids :: "path \<Rightarrow> files \<Rightarrow> string list" where
  "list_ids dir fs =
     sort (List.map_filter (\<lambda>p.
       case strip_prefix p (dir @ ''/'') of
         Some n \<Rightarrow> (if CHR ''/'' \<in> set n then None else strip_suffix n ''.json'')
       | None \<Rightarrow> None) (bt_keys fs))"

text \<open>Everything a store needs besides its files: where it is, the codecs and the clock.\<close>

record run_control =
  rc_cancel_requested :: bool
  rc_cancel_reason :: "string option"
  rc_pause_requested :: bool
  rc_resume_requested :: bool
  rc_resume_from_step :: "string option"
  rc_requested_by :: "string option"

definition run_control_default :: run_control where
  "run_control_default = \<lparr> rc_cancel_requested = False, rc_cancel_reason = None,
     rc_pause_requested = False, rc_resume_requested = False, rc_resume_from_step = None,
     rc_requested_by = None \<rparr>"

record scheduler_state =
  sched_paused :: bool

record store_env =
  se_base :: path
  se_codec :: codec
  se_task :: "task doc_type"
  se_run :: "run doc_type"
  se_approval :: "approval_request doc_type"
  se_control :: "run_control doc_type"
  se_scheduler :: "scheduler_state doc_type"

definition save_doc :: "store_env \<Rightarrow> 'a doc_type \<Rightarrow> path \<Rightarrow> string \<Rightarrow> 'a \<Rightarrow> (files, unit) eff" where
  "save_doc se dt dir s v =
     bnd (lift_result (doc_path dir s)) (\<lambda>p. write_doc (se_codec se) dt p v)"

definition load_doc ::
  "store_env \<Rightarrow> string \<Rightarrow> 'a doc_type \<Rightarrow> path \<Rightarrow> string \<Rightarrow> (files, 'a) eff" where
  "load_doc se stamp dt dir s =
     bnd (lift_result (doc_path dir s)) (\<lambda>p.
     bnd (gets (\<lambda>fs. bt_contains fs p)) (\<lambda>there.
     if there then read_doc (se_codec se) (se_base se) stamp dt p
     else bail (''document '' @ dt_kind dt @ '' '' @ s @ '' not found'')))"

text \<open>The loading loop of the \<open>list_*\<close> functions: documents that do not load are skipped.\<close>

fun load_all ::
  "store_env \<Rightarrow> string \<Rightarrow> 'a doc_type \<Rightarrow> path \<Rightarrow> string list \<Rightarrow> (files, 'a list) eff" where
  "load_all se stamp dt dir [] = ret []"
| "load_all se stamp dt dir (s # ss) =
     bnd (attempt (load_doc se stamp dt dir s)) (\<lambda>r.
     bnd (load_all se stamp dt dir ss) (\<lambda>vs.
     ret (case r of Inl _ \<Rightarrow> vs | Inr v \<Rightarrow> v # vs)))"

definition list_docs ::
  "store_env \<Rightarrow> string \<Rightarrow> 'a doc_type \<Rightarrow> path \<Rightarrow> ('a \<Rightarrow> 'k::linorder) \<Rightarrow> (files, 'a list) eff" where
  "list_docs se stamp dt dir key =
     bnd (gets (list_ids dir)) (\<lambda>ids.
     bnd (load_all se stamp dt dir ids) (\<lambda>vs. ret (sort_key key vs)))"

definition numeric_key :: "string \<Rightarrow> nat" where
  "numeric_key s = (case parse_u64 s of Some n \<Rightarrow> n | None \<Rightarrow> 2 ^ 64 - 1)"

definition save_task :: "store_env \<Rightarrow> task \<Rightarrow> (files, unit) eff" where
  "save_task se t = save_doc se (se_task se) (dir_tasks (se_base se)) (t_task_id t) t"

definition load_task :: "store_env \<Rightarrow> string \<Rightarrow> string \<Rightarrow> (files, task) eff" where
  "load_task se stamp s = load_doc se stamp (se_task se) (dir_tasks (se_base se)) s"

definition list_tasks :: "store_env \<Rightarrow> string \<Rightarrow> (files, task list) eff" where
  "list_tasks se stamp =
     list_docs se stamp (se_task se) (dir_tasks (se_base se)) (\<lambda>t. numeric_key (t_task_id t))"

definition update_task ::
  "store_env \<Rightarrow> string \<Rightarrow> timestamp \<Rightarrow> string \<Rightarrow> (task \<Rightarrow> string + task) \<Rightarrow> (files, task) eff" where
  "update_task se stamp now s f =
     bnd (load_task se stamp s) (\<lambda>t.
     bnd (lift_result (f t)) (\<lambda>t'.
     let t'' = t'\<lparr> t_updated_at := now \<rparr> in
     andthen (save_task se t'') (ret t'')))"

definition save_run :: "store_env \<Rightarrow> run \<Rightarrow> (files, unit) eff" where
  "save_run se r = save_doc se (se_run se) (dir_runs (se_base se)) (r_run_id r) r"

definition load_run :: "store_env \<Rightarrow> string \<Rightarrow> string \<Rightarrow> (files, run) eff" where
  "load_run se stamp s = load_doc se stamp (se_run se) (dir_runs (se_base se)) s"

definition list_runs :: "store_env \<Rightarrow> string \<Rightarrow> (files, run list) eff" where
  "list_runs se stamp = list_docs se stamp (se_run se) (dir_runs (se_base se)) r_created_at"

definition trim_start_matches :: "char \<Rightarrow> string \<Rightarrow> string" where
  "trim_start_matches c s = dropWhile (\<lambda>x. x = c) s"

definition resolve_run :: "store_env \<Rightarrow> string \<Rightarrow> string \<Rightarrow> (files, run) eff" where
  "resolve_run se stamp ref0 =
     (let ref = trim ref0; name = trim_start_matches CHR ''#'' ref in
      bnd (attempt (load_run se stamp ref)) (\<lambda>res.
      case res of
        Inr r \<Rightarrow> ret r
      | Inl _ \<Rightarrow>
        bnd (list_runs se stamp) (\<lambda>runs.
        let by_name = filter (\<lambda>r. trim_start_matches CHR ''#'' (display_name r) = name) runs;
            by_prefix = filter (\<lambda>r. starts_with (r_run_id r) ref) runs in
        if by_name \<noteq> [] then ret (last by_name)
        else (case by_prefix of
            [] \<Rightarrow> bail (''document run '' @ ref @ '' not found'')
          | [r] \<Rightarrow> ret r
          | rs \<Rightarrow> bail (''run reference '' @ debug_str ref @ '' is ambiguous ('' @ nat_str (length rs)
                         @ '' matches)'')))))"

definition save_approval :: "store_env \<Rightarrow> approval_request \<Rightarrow> (files, unit) eff" where
  "save_approval se a =
     save_doc se (se_approval se) (dir_approvals (se_base se)) (a_approval_id a) a"

definition load_approval :: "store_env \<Rightarrow> string \<Rightarrow> string \<Rightarrow> (files, approval_request) eff" where
  "load_approval se stamp s = load_doc se stamp (se_approval se) (dir_approvals (se_base se)) s"

definition list_approvals :: "store_env \<Rightarrow> string \<Rightarrow> (files, approval_request list) eff" where
  "list_approvals se stamp =
     list_docs se stamp (se_approval se) (dir_approvals (se_base se)) a_requested_at"

definition resolve_approval :: "store_env \<Rightarrow> string \<Rightarrow> string \<Rightarrow> (files, approval_request) eff" where
  "resolve_approval se stamp ref =
     bnd (attempt (load_approval se stamp ref)) (\<lambda>res.
     case res of
       Inr a \<Rightarrow> ret a
     | Inl _ \<Rightarrow>
       bnd (list_approvals se stamp) (\<lambda>all.
       case filter (\<lambda>a. starts_with (a_approval_id a) ref) all of
         [] \<Rightarrow> bail (''document approval '' @ ref @ '' not found'')
       | [a] \<Rightarrow> ret a
       | xs \<Rightarrow> bail (''approval reference '' @ debug_str ref @ '' is ambiguous ('' @ nat_str (length xs)
                      @ '' matches)'')))"

definition update_approval ::
  "store_env \<Rightarrow> string \<Rightarrow> string \<Rightarrow> (approval_request \<Rightarrow> string + approval_request)
     \<Rightarrow> (files, approval_request) eff" where
  "update_approval se stamp s f =
     bnd (load_approval se stamp s) (\<lambda>a.
     bnd (lift_result (f a)) (\<lambda>a'.
     andthen (save_approval se a') (ret a')))"

definition load_control :: "store_env \<Rightarrow> string \<Rightarrow> string \<Rightarrow> (files, run_control) eff" where
  "load_control se stamp s =
     bnd (lift_result (doc_path (dir_control (se_base se)) s)) (\<lambda>p.
     bnd (gets (\<lambda>fs. bt_contains fs p)) (\<lambda>there.
     if there then read_doc (se_codec se) (se_base se) stamp (se_control se) p
     else ret run_control_default))"

definition update_control ::
  "store_env \<Rightarrow> string \<Rightarrow> string \<Rightarrow> (run_control \<Rightarrow> run_control) \<Rightarrow> (files, run_control) eff" where
  "update_control se stamp s f =
     bnd (load_control se stamp s) (\<lambda>c.
     andthen (save_doc se (se_control se) (dir_control (se_base se)) s (f c)) (ret (f c)))"

definition load_scheduler :: "store_env \<Rightarrow> string \<Rightarrow> (files, scheduler_state) eff" where
  "load_scheduler se stamp =
     bnd (gets (\<lambda>fs. bt_contains fs (scheduler_file (se_base se)))) (\<lambda>there.
     if there then read_doc (se_codec se) (se_base se) stamp (se_scheduler se) (scheduler_file (se_base se))
     else ret \<lparr> sched_paused = False \<rparr>)"

definition save_scheduler :: "store_env \<Rightarrow> scheduler_state \<Rightarrow> (files, unit) eff" where
  "save_scheduler se s = write_doc (se_codec se) (se_scheduler se) (scheduler_file (se_base se)) s"

subsection \<open>Counters\<close>

definition read_counter :: "path \<Rightarrow> files \<Rightarrow> nat" where
  "read_counter p fs =
     (case bt_get fs p of
        None \<Rightarrow> 0
      | Some s \<Rightarrow> (case parse_u64 (trim s) of Some n \<Rightarrow> n | None \<Rightarrow> 0))"

definition max_or_zero :: "nat list \<Rightarrow> nat" where
  "max_or_zero ns = foldr max ns 0"

definition next_number :: "nat \<Rightarrow> nat list \<Rightarrow> nat" where
  "next_number cur existing = u64_add (max cur (max_or_zero existing)) 1"

definition next_task_number :: "store_env \<Rightarrow> (files, nat) eff" where
  "next_task_number se =
     bnd (gets (\<lambda>fs. next_number (read_counter (counter_file (se_base se)) fs)
            (List.map_filter parse_u64 (list_ids (dir_tasks (se_base se)) fs)))) (\<lambda>n.
     andthen (atomic_write (counter_file (se_base se)) (nat_str n)) (ret n))"

definition next_epic_id :: "store_env \<Rightarrow> (files, string) eff" where
  "next_epic_id se =
     bnd (gets (\<lambda>fs. next_number (read_counter (epic_counter_file (se_base se)) fs)
            (List.map_filter (\<lambda>s. parse_u64 (trim_start_matches CHR ''E'' s))
               (list_ids (dir_epics (se_base se)) fs)))) (\<lambda>n.
     andthen (atomic_write (epic_counter_file (se_base se)) (nat_str n)) (ret (''E'' @ nat_str n)))"

definition corrupt_files :: "path \<Rightarrow> files \<Rightarrow> path list" where
  "corrupt_files base fs =
     concat (map (\<lambda>d. filter (\<lambda>p. (case strip_prefix p (d @ ''/'') of
                                       Some n \<Rightarrow> CHR ''/'' \<notin> set n \<and> str_contains n ''.corrupt-''
                                     | None \<Rightarrow> False)) (bt_keys fs))
       [dir_tasks base, dir_runs base, dir_approvals base, dir_control base, dir_epics base])"

end
