(* ===== verification/Store_Facts.thy ===== *)
theory Store_Facts
  imports Store "HOL-Library.Countable"
begin

text \<open>
  What the store guarantees, and the decision on an approval request (\<open>decide\<close> and \<open>pending\<close> of
  \<open>src/approvals/mod.rs\<close>): identifiers stay inside their directory, documents are read back as they
  were written, corrupt ones are moved aside, a migrated document keeps its original in the backups,
  a request is decided once, and task numbers are not reused.
\<close>

subsection \<open>Decisions\<close>

text \<open>\<open>decide\<close> and \<open>pending\<close> of \<open>src/approvals/mod.rs\<close>.\<close>

definition decide ::
  "store_env \<Rightarrow> string \<Rightarrow> string option \<Rightarrow> timestamp \<Rightarrow> string \<Rightarrow> bool \<Rightarrow> string option \<Rightarrow> string option
     \<Rightarrow> (files, approval_request) eff" where
  "decide se stamp env_user now s approve user note =
     update_approval se stamp s (decide_change env_user now approve user note)"

definition pending :: "store_env \<Rightarrow> string \<Rightarrow> (files, approval_request list) eff" where
  "pending se stamp =
     bnd (list_approvals se stamp) (\<lambda>as. ret (filter (\<lambda>a. a_status a = APending) as))"

subsection \<open>Paths of documents\<close>

definition id_char :: "char \<Rightarrow> bool" where
  "id_char c \<longleftrightarrow> is_ascii_alphanumeric c \<or> c = CHR ''-'' \<or> c = CHR ''_''"

lemma id_char_plain: "id_char c \<Longrightarrow> c \<noteq> CHR ''/'' \<and> c \<noteq> CHR ''.''"
  by (auto simp: id_char_def str_defs byte_def)

lemma valid_id_chars: "valid_id s \<Longrightarrow> list_all id_char s \<and> s \<noteq> []"
  by (auto simp: valid_id_def id_char_def list_all_iff)

lemma valid_id_no_slash: "valid_id s \<Longrightarrow> CHR ''/'' \<notin> set s \<and> CHR ''.'' \<notin> set s"
  using valid_id_chars id_char_plain by (auto simp: list_all_iff)

lemma takeWhile_snoc_stop:
  "c \<notin> set a \<Longrightarrow> takeWhile (\<lambda>x. x \<noteq> c) (a @ c # b) = a"
  by (induction a) auto

lemma dropWhile_snoc_stop:
  "c \<notin> set a \<Longrightarrow> dropWhile (\<lambda>x. x \<noteq> c) (a @ c # b) = c # b"
  by (induction a) auto

lemma file_name_doc: "CHR ''/'' \<notin> set n \<Longrightarrow> file_name (dir @ ''/'' @ n) = n"
  by (simp add: file_name_def takeWhile_snoc_stop)

lemma with_extension_doc:
  assumes "valid_id s"
  shows "with_extension (dir @ ''/'' @ s @ ''.json'') ext = dir @ ''/'' @ s @ ''.'' @ ext"
proof -
  have n: "file_name (dir @ ''/'' @ s @ ''.json'') = s @ ''.json''"
    using valid_id_no_slash [OF assms] by (intro file_name_doc) auto
  have "rev (drop 1 (dropWhile (\<lambda>c. c \<noteq> CHR ''.'') (rev (s @ ''.json'')))) = s"
    by simp
  then show ?thesis using valid_id_chars [OF assms] by (simp add: with_extension_def n [simplified] Let_def)
qed

text \<open>C33. An accepted identifier names a file directly inside its directory: the path is the
  directory, the identifier and the suffix, and the identifier has no slash and no dot.\<close>

theorem doc_path_confined:
  "doc_path dir s = Inr p \<Longrightarrow>
   p = dir @ ''/'' @ file_name p \<and> file_name p = s @ ''.json'' \<and> CHR ''/'' \<notin> set s \<and> CHR ''.'' \<notin> set s"
  using valid_id_no_slash [of s] file_name_doc [of "s @ ''.json''" dir]
  by (auto simp: doc_path_def split: if_splits)

theorem doc_path_confined_witness: "file_name ''/st/state/runs/run-1.json'' = ''run-1.json''"
  using doc_path_confined [of "''/st/state/runs''" "''run-1''" "''/st/state/runs/run-1.json''"]
  by (simp add: doc_path_def valid_id_def str_defs byte_def)

lemma doc_path_Inr: "valid_id s \<Longrightarrow> doc_path dir s = Inr (dir @ ''/'' @ s @ ''.json'')"
  by (simp add: doc_path_def)

lemma doc_path_inj: "doc_path dir s = Inr p \<Longrightarrow> doc_path dir s' = Inr p \<Longrightarrow> s = s'"
  by (auto simp: doc_path_def split: if_splits)

lemma bt_keys_contains: "bt_contains fs p \<longleftrightarrow> p \<in> set (bt_keys fs)"
  by (auto simp: bt_contains_def bt_get_def bt_keys_def dest: map_of_SomeD weak_map_of_SomeI
      simp: map_of_eq_None_iff)

lemma bt_get_retain: "bt_get (bt_retain (\<lambda>k _. k \<noteq> p) fs) q = (if q = p then None else bt_get fs q)"
  by (induction fs) (auto simp: bt_get_def bt_retain_def)

subsection \<open>Reading back\<close>

lemma read_sealed:
  assumes "codec_ok cd" and "bt_get fs p = Some (enc_env cd (seal cd (dt_kind dt) data))"
    and "dt_from dt data = Inr v"
  shows "read_doc cd b stamp dt p fs = (Inr v, fs)"
  using assms by (simp add: read_doc_def codec_ok_def seal_def open_envelope_def eff_defs)

lemma read_written:
  assumes "codec_ok cd" and "doc_ok dt v"
    and "bt_get fs p = Some (enc_env cd (seal cd (dt_kind dt) (dt_to dt v)))"
  shows "read_doc cd b stamp dt p fs = (Inr v, fs)"
  using read_sealed [OF assms(1,3)] assms(2) by (simp add: doc_ok_def)

lemma save_doc_valid:
  "valid_id s \<Longrightarrow> save_doc se dt dir s v fs =
     (Inr (), bt_insert (dir @ ''/'' @ s @ ''.json'')
        (enc_env (se_codec se) (seal (se_codec se) (dt_kind dt) (dt_to dt v))) fs)"
  by (simp add: save_doc_def doc_path_Inr write_doc_def write_value_def atomic_write_def eff_defs)

lemma load_saved:
  assumes "codec_ok (se_codec se)" and "doc_ok dt v" and "valid_id s"
    and "bt_get fs (dir @ ''/'' @ s @ ''.json'') =
      Some (enc_env (se_codec se) (seal (se_codec se) (dt_kind dt) (dt_to dt v)))"
  shows "load_doc se stamp dt dir s fs = (Inr v, fs)"
  using read_written [OF assms(1,2,4)] assms(3,4)
  by (simp add: load_doc_def doc_path_Inr bt_contains_def eff_defs)

lemma load_after_save:
  assumes "codec_ok (se_codec se)" and "doc_ok dt v" and "save_doc se dt dir s v fs = (Inr (), fs')"
  shows "valid_id s \<and> load_doc se stamp dt dir s fs' = (Inr v, fs')"
proof -
  have s: "valid_id s"
    using assms(3) by (auto simp: save_doc_def doc_path_def eff_defs split: if_splits)
  with assms(3) save_doc_valid [OF s, of se dt dir v fs] show ?thesis
    using load_saved [OF assms(1,2) s, of fs'] by (auto simp: bt_get_insert)
qed


text \<open>C32. A document that does not decode or whose checksum does not match is never returned: the read
  fails, the bytes are moved to the quarantine name and every other file stays.\<close>

theorem read_doc_trusts_checksum:
  assumes "bt_get fs p = Some bytes"
    and "\<And>env. dec_env cd bytes = Inr env \<Longrightarrow>
      en_kind env = dt_kind dt \<and> sha256 cd (canonical_json cd (en_data env)) \<noteq> en_sha256 env"
    and "p = dir @ ''/'' @ s @ ''.json''" and "valid_id s"
  shows "\<exists>e fs'. read_doc cd b stamp dt p fs = (Inl e, fs') \<and> bt_get fs' p = None
    \<and> bt_get fs' (dir @ ''/'' @ s @ ''.corrupt-'' @ stamp) = Some bytes
    \<and> (\<forall>q. q \<noteq> p \<and> q \<noteq> dir @ ''/'' @ s @ ''.corrupt-'' @ stamp \<longrightarrow> bt_get fs' q = bt_get fs q)"
proof -
  let ?fs = "snd (quarantine stamp p fs)"
  have "\<exists>e. read_doc cd b stamp dt p fs = (Inl e, ?fs)"
    using assms(1,2) by (cases "dec_env cd bytes") (auto simp: read_doc_def eff_defs quarantine_def)
  moreover have "?fs = bt_insert (dir @ ''/'' @ s @ ''.corrupt-'' @ stamp) bytes (bt_retain (\<lambda>k _. k \<noteq> p) fs)"
    using assms(1,3) with_extension_doc [OF assms(4)] by (simp add: quarantine_def eff_defs)
  ultimately show ?thesis using assms(3) by (auto simp: bt_get_insert bt_get_retain)
qed

subsection \<open>Old documents\<close>

lemma migrate_v0_total:
  "kind \<in> {''run'', ''task'', ''approval'', ''control'', ''scheduler''} \<Longrightarrow> \<exists>d. migrate kind 0 data = Inr d"
  by (auto simp: migrate_def CURRENT_SCHEMA_VERSION_def MIGRATIONS_def v0_to_v1_run_def)

lemma read_doc_cases:
  assumes "read_doc cd b stamp dt p fs = (Inr v, fs')" and "bt_get fs p = Some bytes"
  shows "(fs' = fs \<and> (\<forall>st. read_doc cd b st dt p fs = (Inr v, fs))) \<or>
    (\<exists>n data. n < CURRENT_SCHEMA_VERSION \<and> dt_from dt data = Inr v \<and>
       fs' = bt_insert p (enc_env cd (seal cd (dt_kind dt) data)) (bt_insert (backup_path b stamp p n) bytes fs))"
proof (cases "dec_env cd bytes")
  case (Inl e)
  with assms show ?thesis by (auto simp: read_doc_def eff_defs split: prod.splits sum.splits)
next
  case (Inr env)
  with assms have ok: "en_kind env = dt_kind dt"
    "sha256 cd (canonical_json cd (en_data env)) = en_sha256 env"
    and o: "open_envelope cd b stamp dt p bytes env fs = (Inr v, fs')"
    by (auto simp: read_doc_def eff_defs split: if_splits prod.splits sum.splits)
  have r: "read_doc cd b st dt p fs = open_envelope cd b st dt p bytes env fs" for st
    using ok Inr assms(2) by (simp add: read_doc_def eff_defs)
  show ?thesis
  proof (cases "en_schema_version env < CURRENT_SCHEMA_VERSION")
    case True
    with o show ?thesis
      by (auto simp: open_envelope_def eff_defs atomic_write_def write_value_def split: sum.splits)
  next
    case False
    with o show ?thesis
      by (auto simp: r open_envelope_def eff_defs split: sum.splits if_splits)
  qed
qed

text \<open>A run that loads keeps loading as the same run, and if the load migrated the file then its
  original bytes are in the backups.\<close>

theorem migration_keeps_original:
  assumes "codec_ok (se_codec se)" and "valid_id s"
    and "load_run se stamp s fs = (Inr r, fs')"
    and "bt_get fs (dir_runs (se_base se) @ ''/'' @ s @ ''.json'') = Some bytes"
  shows "load_run se stamp' s fs' = (Inr r, fs') \<and>
    (fs' = fs \<or> (\<exists>v < CURRENT_SCHEMA_VERSION. bt_get fs'
       (backup_path (se_base se) stamp (dir_runs (se_base se) @ ''/'' @ s @ ''.json'') v) = Some bytes))"
proof -
  let ?p = "dir_runs (se_base se) @ ''/'' @ s @ ''.json''"
  have load: "load_run se st s f =
      (if bt_contains f ?p then read_doc (se_codec se) (se_base se) st (se_run se) ?p f
       else (Inl (''document '' @ dt_kind (se_run se) @ '' '' @ s @ '' not found''), f))" for st f
    using assms(2) by (simp add: load_run_def load_doc_def doc_path_Inr eff_defs)
  with assms have "read_doc (se_codec se) (se_base se) stamp (se_run se) ?p fs = (Inr r, fs')"
    by (simp add: bt_contains_def)
  from read_doc_cases [OF this assms(4)] assms(4)
  consider "fs' = fs" "load_run se stamp' s fs' = (Inr r, fs')"
    | n data where "n < CURRENT_SCHEMA_VERSION" "dt_from (se_run se) data = Inr r"
      "fs' = bt_insert ?p (enc_env (se_codec se) (seal (se_codec se) (dt_kind (se_run se)) data))
         (bt_insert (backup_path (se_base se) stamp ?p n) bytes fs)"
    by (auto simp: load bt_contains_def)
  then show ?thesis
  proof cases
    case 2
    have ne: "backup_path (se_base se) stamp ?p n \<noteq> ?p"
      by (simp add: backup_path_def dir_backups_def dir_runs_def)
    have "read_doc (se_codec se) (se_base se) stamp' (se_run se) ?p fs' = (Inr r, fs')"
      using 2 by (intro read_sealed [OF assms(1) _ 2(2)]) (simp add: bt_get_insert)
    with 2 ne show ?thesis
      by (auto simp: load bt_contains_def bt_get_insert simp del: append.simps)
  qed simp
qed


subsection \<open>One decision\<close>

text \<open>A decision on an approval request is final: after it every later decision, by anybody and
  either way, fails and changes nothing.\<close>

theorem decide_one_shot:
  assumes "codec_ok (se_codec se)" and "doc_ok (se_approval se) a"
    and "decide se stamp eu now s yes user note fs = (Inr a, fs')" and "a_approval_id a = s"
  shows "a_status a = (if yes then AApproved else ADenied)
    \<and> load_approval se stamp' s fs' = (Inr a, fs')
    \<and> (\<exists>e. decide se stamp' eu' now' s yes' user' note' fs' = (Inl e, fs'))"
proof -
  obtain a0 fs0 where d: "decide_change eu now yes user note a0 = Inr a"
    and save: "save_approval se a fs0 = (Inr (), fs')"
    using assms(3) by (auto simp: decide_def update_approval_def eff_defs split: prod.splits sum.splits)
  have l: "load_approval se st s fs' = (Inr a, fs')" for st
    using load_after_save [OF assms(1,2)] save assms(4)
    by (simp add: save_approval_def load_approval_def)
  have st: "a_status a = (if yes then AApproved else ADenied)" "a_status a \<noteq> APending"
    using decide_change_pending [OF d] by auto
  then show ?thesis
    using l by (simp add: decide_def update_approval_def decide_change_def eff_defs)
qed

subsection \<open>Numbers\<close>

lemma nat_str_plain: "c \<in> set (nat_str n) \<Longrightarrow> \<not> is_ws c"
  using digits_nat_str [of n] by (auto simp: list_all_iff str_defs)

lemma dropWhile_none: "(\<And>c. c \<in> set s \<Longrightarrow> \<not> f c) \<Longrightarrow> dropWhile f s = s"
  by (cases s) auto

lemma trim_nat_str: "trim (nat_str n) = nat_str n"
  using nat_str_plain dropWhile_none [of "nat_str n" is_ws] dropWhile_none [of "rev (nat_str n)" is_ws]
  by (simp add: trim_def)

lemma max_or_zero_ge: "n \<in> set ns \<Longrightarrow> n \<le> max_or_zero ns"
  by (induction ns) (auto simp: max_or_zero_def)

lemma next_number_above:
  assumes "max cur (max_or_zero ns) < 2 ^ 64 - 1"
  shows "cur < next_number cur ns \<and> (\<forall>n \<in> set ns. n < next_number cur ns) \<and> next_number cur ns < 2 ^ 64"
proof -
  have n: "next_number cur ns = max cur (max_or_zero ns) + 1"
    using assms by (simp add: next_number_def u64_add_def)
  show ?thesis unfolding n using assms max_or_zero_ge [of _ ns] by (auto simp: less_Suc_eq_le le_max_iff_disj)
qed

lemma list_ids_saved:
  assumes "valid_id s" and "bt_contains fs (dir @ ''/'' @ s @ ''.json'')"
  shows "s \<in> set (list_ids dir fs)"
proof -
  have "strip_suffix (s @ ''.json'') ''.json'' = Some s"
    by (simp add: strip_suffix_def ends_with_def)
  moreover have "strip_prefix (dir @ ''/'' @ s @ ''.json'') (dir @ ''/'') = Some (s @ ''.json'')"
    by (simp add: strip_prefix_def starts_with_def)
  ultimately show ?thesis
    using assms valid_id_no_slash [OF assms(1)]
    by (force simp: list_ids_def List.map_filter_def bt_keys_contains)
qed

text \<open>A new task number is above the counter and above the number of every task on disk, even if
  the counter file was lost, and the counter holds it afterwards.\<close>

theorem task_numbers_fresh:
  assumes "next_task_number se fs = (Inr n, fs')"
    and "max (read_counter (counter_file (se_base se)) fs)
          (max_or_zero (List.map_filter parse_u64 (list_ids (dir_tasks (se_base se)) fs))) < 2 ^ 64 - 1"
  shows "read_counter (counter_file (se_base se)) fs < n
    \<and> read_counter (counter_file (se_base se)) fs' = n
    \<and> (\<forall>s k. valid_id s \<longrightarrow> bt_contains fs (dir_tasks (se_base se) @ ''/'' @ s @ ''.json'')
         \<longrightarrow> parse_u64 s = Some k \<longrightarrow> k < n)"
proof -
  let ?ns = "List.map_filter parse_u64 (list_ids (dir_tasks (se_base se)) fs)"
  have n: "n = next_number (read_counter (counter_file (se_base se)) fs) ?ns"
    and fs': "fs' = bt_insert (counter_file (se_base se)) (nat_str n) fs"
    using assms(1) by (auto simp: next_task_number_def atomic_write_def eff_defs)
  note above = next_number_above [OF assms(2), folded n]
  have "k < n" if "valid_id s" "bt_contains fs (dir_tasks (se_base se) @ ''/'' @ s @ ''.json'')"
    "parse_u64 s = Some k" for s k
  proof -
    have "k \<in> set ?ns" using list_ids_saved [OF that(1,2)] that(3) by (force simp: List.map_filter_def)
    with above show ?thesis by blast
  qed
  moreover have "read_counter (counter_file (se_base se)) fs' = n"
    using above by (simp add: fs' read_counter_def bt_get_insert trim_nat_str parse_nat_str)
  ultimately show ?thesis using above by blast
qed


subsection \<open>A concrete codec\<close>

text \<open>Numbered documents, for the witnesses: the laws of a codec can hold.\<close>

instance json :: countable
  by countable_datatype

definition number_codec :: codec where
  "number_codec = \<lparr>
     enc_env = (\<lambda>e. nat_str (to_nat (en_schema_version e, en_kind e, en_sha256 e, en_data e))),
     dec_env = (\<lambda>s. case from_nat (digits_value s) of
        (v, k, h, d) \<Rightarrow> Inr \<lparr> en_schema_version = v, en_kind = k, en_sha256 = h, en_data = d \<rparr>),
     canonical_json = (\<lambda>j. nat_str (to_nat j)), sha256 = (\<lambda>s. s) \<rparr>"

lemma number_codec_ok: "codec_ok number_codec"
  by (simp add: codec_ok_def number_codec_def)

definition str_doc :: "string doc_type" where
  "str_doc = \<lparr> dt_kind = ''note'', dt_to = JStr,
     dt_from = (\<lambda>j. case j of JStr s \<Rightarrow> Inr s | _ \<Rightarrow> Inl ''no string'') \<rparr>"

subsection \<open>Sample documents\<close>

definition sample_git :: git_state where
  "sample_git = \<lparr> g_base_ref = ''main'', g_base_sha = None, g_branch = None, g_worktree_path = None,
     g_head_sha = None, g_dirty = None, g_commits = [] \<rparr>"

definition sample_run :: run where
  "sample_run = \<lparr> r_run_id = ''run-1'', r_task_id = ''1'', r_variant_index = 0, r_variant_count = 1,
     r_workflow_name = ''w'', r_workflow_sha256 = [], r_workflow_yaml = [], r_runner_override = None,
     r_repo_root = ''/r'', r_git = sample_git, r_workspace_id = None, r_status = RPending,
     r_status_reason = None, r_initiator = \<lparr> in_via = ''cli'', in_user = None \<rparr>, r_dry_run = False,
     r_created_at = 0, r_started_at = None, r_updated_at = 0, r_completed_at = None, r_cursor = 0,
     r_steps = [], r_policy_decisions = [], r_approvals = [], r_artifacts = [], r_retry_counts = [],
     r_pr_url = None, r_diff_stat = None, r_pending_feedback = None, r_pending_feedback_step = None,
     r_outputs = [], r_approved_paths = [], r_approval_cover = None, r_step_runners = [],
     r_recovered = False, r_selected = False, r_pr_feedback_seen = None, r_contract = None,
     r_memory = None \<rparr>"

definition sample_task :: task where
  "sample_task = \<lparr> t_task_id = ''7'', t_title = ''t'', t_description = [], t_repo_root = ''/r'',
     t_status = TQueued, t_options = task_options_default,
     t_initiator = \<lparr> in_via = ''cli'', in_user = None \<rparr>, t_source = None, t_run_ids = [],
     t_selected_run = None, t_created_at = 0, t_updated_at = 0, t_epic = None, t_depends_on = [],
     t_acceptance = [], t_manual_checks = [], t_waiting_on = None, t_issue = None,
     t_issue_synced = None \<rparr>"

definition sample_context :: approval_context where
  "sample_context = \<lparr> ax_task_title = ''t'', ax_workflow = ''w'', ax_step_id = ''s'', ax_agent = None,
     ax_pane_id = None, ax_repository = ''/r'', ax_branch = None, ax_worktree = None,
     ax_base_sha = None, ax_head_sha = None, ax_changed_files = [], ax_insertions = 0,
     ax_deletions = 0, ax_checks = [], ax_policy = [], ax_pending_action = None,
     ax_acceptance = [], ax_manual_checks = [], ax_contract = None \<rparr>"

definition sample_approval :: approval_request where
  "sample_approval = approval_new ''ap-1'' 5 ''run-1'' ''1'' ''s'' WorkflowStep ''ok?'' sample_context"

definition sample_approved :: approval_request where
  "sample_approved = sample_approval\<lparr> a_status := AApproved, a_decided_at := Some 9,
     a_decided_by := Some ''me'', a_decision_note := None \<rparr>"

definition sample_store :: store_env where
  "sample_store = \<lparr> se_base = ''/st'', se_codec = number_codec,
     se_task = \<lparr> dt_kind = ''task'', dt_to = (\<lambda>_. JNull), dt_from = (\<lambda>_. Inr sample_task) \<rparr>,
     se_run = \<lparr> dt_kind = ''run'', dt_to = (\<lambda>_. JNull), dt_from = (\<lambda>_. Inr sample_run) \<rparr>,
     se_approval = \<lparr> dt_kind = ''approval'', dt_to = (\<lambda>a. JBool (a_status a = APending)),
        dt_from = (\<lambda>j. Inr (if j = JBool True then sample_approval else sample_approved)) \<rparr>,
     se_control = \<lparr> dt_kind = ''control'', dt_to = (\<lambda>_. JNull), dt_from = (\<lambda>_. Inr run_control_default) \<rparr>,
     se_scheduler = \<lparr> dt_kind = ''scheduler'', dt_to = (\<lambda>s. JBool (sched_paused s)),
        dt_from = (\<lambda>j. Inr \<lparr> sched_paused = (j = JBool True) \<rparr>) \<rparr> \<rparr>"

lemma save_doc_Inr: "valid_id s \<Longrightarrow> save_doc se dt dir s v fs = (Inr (), snd (save_doc se dt dir s v fs))"
  by (rule prod_eqI) (simp_all add: save_doc_valid)

lemma sample_codec: "codec_ok (se_codec sample_store)"
  by (simp add: sample_store_def number_codec_ok)

subsection \<open>Witnesses\<close>


theorem read_doc_trusts_checksum_witness:
  "\<exists>e fs'. read_doc number_codec ''/st'' ''now'' str_doc ''/st/notes/n-1.json''
     [(''/st/notes/n-1.json'', enc_env number_codec \<lparr> en_schema_version = 1, en_kind = ''note'',
        en_sha256 = ''bad'', en_data = JStr ''x'' \<rparr>)] = (Inl e, fs')
   \<and> bt_get fs' ''/st/notes/n-1.json'' = None"
proof -
  let ?env = "\<lparr> en_schema_version = 1, en_kind = ''note'', en_sha256 = ''bad'', en_data = JStr ''x'' \<rparr>"
  have v: "valid_id ''n-1''" by code_simp
  have "sha256 number_codec (canonical_json number_codec (JStr ''x'')) \<noteq> ''bad''"
  proof
    assume "sha256 number_codec (canonical_json number_codec (JStr ''x'')) = ''bad''"
    then have "list_all is_ascii_digit ''bad''"
      using digits_nat_str [of "to_nat (JStr ''x'')"] by (simp add: number_codec_def)
    then show False by (simp add: is_ascii_digit_def byte_def)
  qed
  then have "\<And>env. dec_env number_codec (enc_env number_codec ?env) = Inr env \<Longrightarrow>
      en_kind env = dt_kind str_doc \<and>
      sha256 number_codec (canonical_json number_codec (en_data env)) \<noteq> en_sha256 env"
    using number_codec_ok by (auto simp: codec_ok_def str_doc_def)
  moreover have "bt_get [(''/st/notes/n-1.json'', enc_env number_codec ?env)] ''/st/notes/n-1.json'' =
      Some (enc_env number_codec ?env)"
    by (simp add: bt_get_def)
  moreover have "''/st/notes/n-1.json'' = ''/st/notes'' @ ''/'' @ ''n-1'' @ ''.json''" by simp
  ultimately show ?thesis
    using read_doc_trusts_checksum [OF _ _ _ v] by blast
qed

theorem migration_keeps_original_witness:
  "\<exists>fs'. load_run sample_store ''t1'' ''run-1''
     [(''/st/state/runs/run-1.json'', enc_env number_codec \<lparr> en_schema_version = 0, en_kind = ''run'',
        en_sha256 = sha256 number_codec (canonical_json number_codec (JObj [])), en_data = JObj [] \<rparr>)]
     = (Inr sample_run, fs') \<and> load_run sample_store ''t2'' ''run-1'' fs' = (Inr sample_run, fs')"
proof -
  let ?env = "\<lparr> en_schema_version = 0, en_kind = ''run'',
        en_sha256 = sha256 number_codec (canonical_json number_codec (JObj [])), en_data = JObj [] \<rparr>"
  let ?p = "''/st/state/runs/run-1.json''"
  let ?fs = "[(?p, enc_env number_codec ?env)]"
  have v: "valid_id ''run-1''" by code_simp
  have m: "migrate ''run'' 0 (JObj []) = Inr (JObj [(''artifacts'', JArr []), (''retry_counts'', JObj [])])"
    by code_simp
  have d: "dec_env number_codec (enc_env number_codec ?env) = Inr ?env"
    using number_codec_ok by (simp add: codec_ok_def)
  have s: "se_base sample_store = ''/st''" "se_codec sample_store = number_codec"
    "dt_kind (se_run sample_store) = ''run''" "dt_from (se_run sample_store) = (\<lambda>_. Inr sample_run)"
    by (simp_all add: sample_store_def)
  have "\<exists>fs'. load_run sample_store ''t1'' ''run-1'' ?fs = (Inr sample_run, fs')"
    using d m
    by (simp add: load_run_def load_doc_def doc_path_Inr [OF v] eff_defs bt_contains_def bt_get_def
        dir_runs_def s read_doc_def open_envelope_def CURRENT_SCHEMA_VERSION_def atomic_write_def
        write_value_def)
  then obtain fs' where l: "load_run sample_store ''t1'' ''run-1'' ?fs = (Inr sample_run, fs')" ..
  have "bt_get ?fs (dir_runs (se_base sample_store) @ ''/'' @ ''run-1'' @ ''.json'') =
      Some (enc_env number_codec ?env)"
    by (simp add: bt_get_def dir_runs_def s)
  from migration_keeps_original [OF sample_codec v l this, of "''t2''"] l show ?thesis by blast
qed

theorem decide_one_shot_witness:
  "\<exists>fs'. decide sample_store ''t'' None 9 ''ap-1'' True (Some ''me'') None
      (snd (save_approval sample_store sample_approval [])) = (Inr sample_approved, fs')
    \<and> (\<exists>e. decide sample_store ''t'' None 10 ''ap-1'' False (Some ''you'') None fs' = (Inl e, fs'))"
proof -
  have v: "valid_id ''ap-1''" by code_simp
  have i: "a_approval_id sample_approval = ''ap-1''" "a_approval_id sample_approved = ''ap-1''"
    "a_status sample_approval = APending" "a_status sample_approved = AApproved"
    by (simp_all add: sample_approval_def sample_approved_def approval_new_def)
  have c: "decide_change None 9 True (Some ''me'') None sample_approval = Inr sample_approved"
    using i by (simp add: decide_change_def sample_approved_def)
  have dok: "doc_ok (se_approval sample_store) sample_approval"
    "doc_ok (se_approval sample_store) sample_approved"
    using i by (simp_all add: doc_ok_def sample_store_def)
  let ?fs = "snd (save_approval sample_store sample_approval [])"
  have "save_approval sample_store sample_approval [] = (Inr (), ?fs)"
    unfolding save_approval_def i by (rule save_doc_Inr [OF v])
  then have "load_approval sample_store ''t'' ''ap-1'' ?fs = (Inr sample_approval, ?fs)"
    using load_after_save [OF sample_codec dok(1)] i by (simp add: save_approval_def load_approval_def)
  then have "\<exists>fs'. decide sample_store ''t'' None 9 ''ap-1'' True (Some ''me'') None ?fs = (Inr sample_approved, fs')"
    using c i by (simp add: decide_def update_approval_def eff_defs save_approval_def save_doc_valid [OF v])
  then obtain fs' where d: "decide sample_store ''t'' None 9 ''ap-1'' True (Some ''me'') None ?fs = (Inr sample_approved, fs')" ..
  from decide_one_shot [OF sample_codec dok(2) d i(2)] d show ?thesis by blast
qed

theorem task_numbers_fresh_witness:
  "\<exists>n. fst (next_task_number sample_store [(''/st/state/tasks/7.json'', []), (''/st/state/task_counter'', ''5'')])
       = Inr n \<and> 7 < n"
proof -
  let ?fs = "[(''/st/state/tasks/7.json'', []), (''/st/state/task_counter'', ''5'')]"
  have b: "se_base sample_store = ''/st''" by (simp add: sample_store_def)
  have n75: "nat_str 7 = ''7''" "nat_str 5 = ''5''" by code_simp+
  have seven: "parse_u64 ''7'' = Some 7" and five: "parse_u64 ''5'' = Some 5"
    using parse_nat_str [of 7] parse_nat_str [of 5] n75 by simp_all
  have m: "max (read_counter (counter_file ''/st'') ?fs)
      (max_or_zero (List.map_filter parse_u64 (list_ids (dir_tasks ''/st'') ?fs))) < 2 ^ 64 - 1"
    by (simp add: read_counter_def counter_file_def bt_get_def trim_def is_ws_def byte_def
        list_ids_def dir_tasks_def bt_keys_def List.map_filter_def strip_prefix_def starts_with_def
        strip_suffix_def ends_with_def five seven max_or_zero_def)
  obtain n fs' where r: "next_task_number sample_store ?fs = (Inr n, fs')"
    by (auto simp: next_task_number_def eff_defs atomic_write_def)
  have "valid_id ''7''" by code_simp
  with seven task_numbers_fresh [OF r, unfolded b, OF m] r show ?thesis
    by (auto simp: dir_tasks_def bt_contains_def bt_get_def)
qed

end
