(* ===== verification/Template.thy ===== *)
theory Template
  imports Model
begin

text \<open>
  Templates, \<open>src/workflow/template.rs\<close>: \<open>{{name}}\<close> substitution with a closed list of variables,
  and durations, \<open>src/config/duration.rs\<close>. The lemmas show what rendering depends on, and that values
  are never expanded again.
\<close>

subsection \<open>Variables\<close>

definition UNTRUSTED_VARS :: "string list" where
  "UNTRUSTED_VARS = [''task'', ''task_title'', ''previous.output'', ''feedback'', ''acceptance'', ''contract'']"

definition KNOWN_VARS :: "string list" where
  "KNOWN_VARS = [''task'', ''task_title'', ''task.id'', ''run.id'', ''repo.root'', ''worktree.path'',
     ''branch'', ''base_sha'', ''previous.output'', ''feedback'', ''output_file'', ''step.id'',
     ''acceptance'', ''contract'']"

definition step_output_var :: "string \<Rightarrow> bool" where
  "step_output_var v \<longleftrightarrow> starts_with v ''step.'' \<and> ends_with v ''.output''"

definition is_untrusted :: "string \<Rightarrow> bool" where
  "is_untrusted v \<longleftrightarrow> v \<in> set UNTRUSTED_VARS \<or> step_output_var v"

definition is_known :: "string \<Rightarrow> string list \<Rightarrow> bool" where
  "is_known v step_ids \<longleftrightarrow> v \<in> set KNOWN_VARS \<or>
     (case strip_prefix v ''step.'' of
        Some r \<Rightarrow> (case strip_suffix r ''.output'' of Some i \<Rightarrow> i \<in> set step_ids | None \<Rightarrow> False)
      | None \<Rightarrow> False)"

definition plain_name :: "string \<Rightarrow> bool" where
  "plain_name n \<longleftrightarrow> n \<noteq> [] \<and>
     list_all (\<lambda>c. is_ascii_alphanumeric c \<or> c = CHR ''.'' \<or> c = CHR ''_'' \<or> c = CHR ''-'') n"

text \<open>The next reference of a template: the text before it, the trimmed name, the rest after it.\<close>

definition next_ref :: "string \<Rightarrow> (string + string \<times> string \<times> string) option" where
  "next_ref t =
     (case str_find ''{{'' t of
        None \<Rightarrow> None
      | Some start \<Rightarrow>
          let after = drop (start + 2) t in
          Some (case str_find ''}}'' after of
                  None \<Rightarrow> Inl ''unterminated '{{' in template''
                | Some e \<Rightarrow> Inr (take start t, trim (take e after), drop (e + 2) after)))"

lemma next_ref_shorter: "next_ref t = Some (Inr (a, n, r)) \<Longrightarrow> length r < length t"
  by (cases t) (auto simp: next_ref_def Let_def starts_with_def split: option.splits if_splits)

function variables :: "string \<Rightarrow> string + string list" where
  "variables t =
     (case next_ref t of
        None \<Rightarrow> Inr []
      | Some (Inl e) \<Rightarrow> Inl e
      | Some (Inr (a, name, r)) \<Rightarrow>
          if \<not> plain_name name then
            Inl (''invalid template variable {{'' @ name @ ''}}: only plain names like {{task}} are allowed'')
          else (case variables r of Inl e \<Rightarrow> Inl e | Inr vs \<Rightarrow> Inr (name # vs)))"
  by pat_completeness auto
termination
  by (relation "measure length") (auto dest: next_ref_shorter)

declare variables.simps [simp del]

definition check_template :: "string \<Rightarrow> string list \<Rightarrow> string + string list" where
  "check_template t step_ids =
     sum_bind (variables t) (\<lambda>vs.
       case find (\<lambda>v. \<not> is_known v step_ids) vs of
         Some v \<Rightarrow> Inl (''unknown template variable {{'' @ v @ ''}}'')
       | None \<Rightarrow> Inr vs)"

subsection \<open>Rendering\<close>

type_synonym context_vars = "(string, string) btmap"

definition ctx_set :: "string \<Rightarrow> string \<Rightarrow> context_vars \<Rightarrow> context_vars" where
  "ctx_set k v c = bt_insert k v c"

definition var_value :: "context_vars \<Rightarrow> string \<Rightarrow> string + string" where
  "var_value c name =
     (case bt_get c name of
        Some v \<Rightarrow> Inr v
      | None \<Rightarrow>
          if name = ''feedback'' \<or> name = ''previous.output'' \<or> step_output_var name then Inr []
          else Inl (''template variable {{'' @ name @ ''}} has no value here''))"

function render :: "context_vars \<Rightarrow> string \<Rightarrow> string + string" where
  "render c t =
     (case next_ref t of
        None \<Rightarrow> Inr t
      | Some (Inl e) \<Rightarrow> Inl e
      | Some (Inr (a, name, r)) \<Rightarrow>
          (case var_value c name of
             Inl e \<Rightarrow> Inl e
           | Inr v \<Rightarrow> (case render c r of Inl e \<Rightarrow> Inl e | Inr s \<Rightarrow> Inr (a @ v @ s))))"
  by pat_completeness auto
termination
  by (relation "measure (length \<circ> snd)") (auto dest: next_ref_shorter)

declare render.simps [simp del]

text \<open>The template as a sequence of literal texts and names; it does not depend on any value.\<close>

function pieces :: "string \<Rightarrow> (string \<times> string) list \<times> string" where
  "pieces t =
     (case next_ref t of
        Some (Inr (a, name, r)) \<Rightarrow> (case pieces r of (ps, e) \<Rightarrow> ((a, name) # ps, e))
      | _ \<Rightarrow> ([], t))"
  by pat_completeness auto
termination
  by (relation "measure length") (auto dest: next_ref_shorter)

declare pieces.simps [simp del]

definition value_of :: "context_vars \<Rightarrow> string \<Rightarrow> string" where
  "value_of c name = (case var_value c name of Inr v \<Rightarrow> v | Inl _ \<Rightarrow> [])"

definition fill :: "context_vars \<Rightarrow> string \<Rightarrow> string" where
  "fill c t = concat (map (\<lambda>(a, n). a @ value_of c n) (fst (pieces t))) @ snd (pieces t)"

lemma variables_pieces: "variables t = Inr vs \<Longrightarrow> vs = map snd (fst (pieces t))"
proof (induction t arbitrary: vs rule: variables.induct)
  case (1 t)
  then show ?case
    by (subst pieces.simps)
      (auto simp: variables.simps [of t] split: option.splits sum.splits if_splits prod.splits)
qed

lemma render_fill:
  assumes "variables t = Inr vs" and "list_all (\<lambda>v. \<exists>x. var_value c v = Inr x) vs"
  shows "render c t = Inr (fill c t)"
  using assms
proof (induction t arbitrary: vs rule: variables.induct)
  case (1 t)
  show ?case
  proof (cases "next_ref t")
    case None
    then show ?thesis by (simp add: render.simps [of c t] fill_def pieces.simps [of t])
  next
    case (Some x)
    with "1.prems"(1) obtain a n r where x: "x = Inr (a, n, r)" "plain_name n"
      by (cases x) (auto simp: variables.simps [of t] split: if_splits)
    with Some "1.prems"(1) obtain vs' where v: "variables r = Inr vs'" "vs = n # vs'"
      by (auto simp: variables.simps [of t] split: sum.splits)
    with Some x "1.prems" "1.IH" [OF Some x(1) refl refl, of vs'] show ?thesis
      by (auto simp: render.simps [of c t] fill_def pieces.simps [of t] value_of_def split: prod.splits)
  qed
qed

lemma fill_agree:
  assumes "\<And>v. v \<in> set (map snd (fst (pieces t))) \<Longrightarrow> value_of c v = value_of d v"
  shows "fill c t = fill d t"
proof -
  have "map (\<lambda>(a, n). a @ value_of c n) (fst (pieces t)) = map (\<lambda>(a, n). a @ value_of d n) (fst (pieces t))"
    using assms by (force simp: case_prod_unfold)
  then show ?thesis by (simp only: fill_def)
qed

lemma render_agree:
  assumes "variables t = Inr vs" and "\<And>v. v \<in> set vs \<Longrightarrow> var_value c v = var_value d v"
  shows "render c t = render d t"
  using assms
proof (induction t arbitrary: vs rule: variables.induct)
  case (1 t)
  show ?case
  proof (cases "next_ref t")
    case None
    then show ?thesis by (simp add: render.simps)
  next
    case (Some x)
    with "1.prems"(1) obtain a n r where x: "x = Inr (a, n, r)" "plain_name n"
      by (cases x) (auto simp: variables.simps [of t] split: if_splits)
    with Some "1.prems"(1) obtain vs' where v: "variables r = Inr vs'" "vs = n # vs'"
      by (auto simp: variables.simps [of t] split: sum.splits)
    then have "render c r = render d r" "var_value c n = var_value d n"
      using x "1.prems"(2) "1.IH" [OF Some x(1) refl refl, of vs'] by auto
    with Some x show ?thesis by (simp add: render.simps [of _ t] split: sum.split)
  qed
qed

lemma check_template_known:
  "check_template t ids = Inr vs \<Longrightarrow> variables t = Inr vs \<and> list_all (\<lambda>v. is_known v ids) vs"
  by (cases "variables t") (auto simp: check_template_def find_None_iff list_all_iff split: option.splits)

lemma ends_with_append: "ends_with r p \<Longrightarrow> ends_with (a @ r) p"
  by (auto simp: ends_with_def)

lemma strip_step_output:
  "strip_prefix v ''step.'' = Some r \<Longrightarrow> strip_suffix r ''.output'' = Some i \<Longrightarrow> step_output_var v"
  using ends_with_append [of r "''.output''" "''step.''"]
  by (auto simp: strip_prefix_def strip_suffix_def step_output_var_def starts_with_iff split: if_splits)

lemma known_var_value:
  assumes "is_known v ids" and "\<And>k. k \<in> set KNOWN_VARS \<Longrightarrow> k \<noteq> ''feedback'' \<Longrightarrow> k \<noteq> ''previous.output''
     \<Longrightarrow> bt_contains c k"
  shows "\<exists>x. var_value c v = Inr x"
proof (cases "v \<in> set KNOWN_VARS")
  case True
  then show ?thesis using assms(2) [of v]
    by (cases "bt_get c v") (auto simp: var_value_def bt_contains_def)
next
  case False
  then have "step_output_var v"
    using assms(1) strip_step_output by (auto simp: is_known_def split: option.splits)
  then show ?thesis by (auto simp: var_value_def split: option.split)
qed



subsection \<open>Durations\<close>

text \<open>\<open>HumanDuration\<close>, a number of milliseconds. The products with a unit are those of \<open>u64\<close>.\<close>

type_synonym duration = nat

definition unit_ms :: "string \<Rightarrow> nat \<Rightarrow> nat option" where
  "unit_ms u n =
     (if u = ''ms'' then Some n
      else if u = ''s'' then Some (n * 1000)
      else if u = ''m'' then Some (((n * 60) mod 2 ^ 64) * 1000)
      else if u = ''h'' then Some (((n * 3600) mod 2 ^ 64) * 1000)
      else if u = ''d'' then Some (((n * 86400) mod 2 ^ 64) * 1000)
      else None)"

text \<open>The reading loop: the digits collected, the acc, whether a unit was read.\<close>

fun parse_units :: "string \<Rightarrow> nat \<Rightarrow> bool \<Rightarrow> string \<Rightarrow> duration option" where
  "parse_units num acc any [] = (if num \<noteq> [] \<or> \<not> any then None else Some acc)"
| "parse_units num acc any (c # cs) =
     (if is_ascii_digit c then parse_units (num @ [c]) acc any cs
      else
        let ms = (c = CHR ''m'' \<and> cs \<noteq> [] \<and> hd cs = CHR ''s'');
            u = (if ms then ''ms'' else [c]) in
        case parse_u64 num of
          None \<Rightarrow> None
        | Some n \<Rightarrow> (case unit_ms u n of
            None \<Rightarrow> None
          | Some d \<Rightarrow> parse_units [] (acc + d) True (if ms then tl cs else cs)))"

definition parse_duration :: "string \<Rightarrow> duration option" where
  "parse_duration s0 =
     (let s = trim s0 in
      if s = [] then None
      else case parse_u64 s of Some n \<Rightarrow> Some (n * 1000) | None \<Rightarrow> parse_units [] 0 False s)"

definition display_duration :: "duration \<Rightarrow> string" where
  "display_duration d =
     (let s = d div 1000 in
      if d mod 1000 \<noteq> 0 \<and> s = 0 then nat_str d @ ''ms''
      else
        let h = s div 3600; m = (s mod 3600) div 60; sec = s mod 60;
            o1 = (if 0 < h then nat_str h @ ''h'' else []);
            o2 = o1 @ (if 0 < m then nat_str m @ ''m'' else [])
        in o2 @ (if 0 < sec \<or> o2 = [] then nat_str sec @ ''s'' else []))"

lemma parse_units_number:
  assumes "n < 2 ^ 64" and "\<not> is_ascii_digit c"
  shows "parse_units [] acc any (nat_str n @ c # cs) = parse_units (nat_str n) acc any (c # cs)"
proof -
  have "parse_units num acc any (ds @ s) = parse_units (num @ ds) acc any s"
    if "list_all is_ascii_digit ds" for num ds s
    using that by (induction ds arbitrary: num) auto
  then show ?thesis using digits_nat_str [of n] by simp
qed

lemma units_plain: "\<not> is_ascii_digit CHR ''h'' \<and> \<not> is_ascii_digit CHR ''m'' \<and> \<not> is_ascii_digit CHR ''s''"
  by (simp add: is_ascii_digit_def byte_def)

lemma hd_nat_str: "hd (nat_str n @ s) \<noteq> CHR ''s''"
  using digits_nat_str [of n] by (cases "nat_str n") (auto simp: is_ascii_digit_def byte_def)

lemma parse_units_h:
  "h * 3600 < 2 ^ 64 \<Longrightarrow> parse_units [] t a (nat_str h @ ''h'' @ s) = parse_units [] (t + 3600000 * h) True s"
  using parse_units_number [of h "CHR ''h''"] parse_nat_str [of h] units_plain by (simp add: unit_ms_def)

lemma parse_units_m:
  "m * 60 < 2 ^ 64 \<Longrightarrow> s = [] \<or> hd s \<noteq> CHR ''s'' \<Longrightarrow>
   parse_units [] t a (nat_str m @ ''m'' @ s) = parse_units [] (t + 60000 * m) True s"
  using parse_units_number [of m "CHR ''m''"] parse_nat_str [of m] units_plain
  by (auto simp: unit_ms_def)

lemma parse_units_s:
  "s * 1000 < 2 ^ 64 \<Longrightarrow> parse_units [] t a (nat_str s @ ''s'') = Some (t + 1000 * s)"
  using parse_units_number [of s "CHR ''s''"] parse_nat_str [of s] units_plain by (simp add: unit_ms_def)


lemma parse_u64_letter:
  "c \<in> set s \<Longrightarrow> \<not> is_ascii_digit c \<Longrightarrow> c \<noteq> CHR ''+'' \<Longrightarrow> parse_u64 s = None"
  by (cases s) (auto simp: parse_u64_def Let_def list_all_iff)

lemma trim_plain:
  assumes "\<And>c. c \<in> set s \<Longrightarrow> \<not> is_ws c"
  shows "trim s = s"
proof -
  have "dropWhile is_ws s = s" "dropWhile is_ws (rev s) = rev s"
    using assms by (metis dropWhile_eq_self_iff hd_in_set set_rev)+
  then show ?thesis by (simp add: trim_def)
qed

lemma parse_duration_units:
  assumes "\<And>c. c \<in> set s \<Longrightarrow> \<not> is_ws c" and "u \<in> set s" and "u \<in> {CHR ''h'', CHR ''m'', CHR ''s''}"
  shows "parse_duration s = parse_units [] 0 False s"
  using assms trim_plain [of s] parse_u64_letter [OF assms(2)]
  by (auto simp: parse_duration_def is_ascii_digit_def byte_def Let_def)

lemma nat_str_no_ws: "c \<in> set (nat_str n) \<Longrightarrow> \<not> is_ws c"
  using digits_nat_str [of n] by (auto simp: list_all_iff str_defs)

lemma unit_no_ws: "\<not> is_ws CHR ''h''" "\<not> is_ws CHR ''m''" "\<not> is_ws CHR ''s''"
  by (simp_all add: is_ws_def byte_def)

lemma hms: "s div 3600 * 3600 + (s mod 3600) div 60 * 60 + s mod 60 = (s::nat)"
proof -
  have "s mod 3600 mod 60 = s mod 60" by (rule mod_mod_cancel) simp
  then show ?thesis using div_mult_mod_eq [of s 3600] div_mult_mod_eq [of "s mod 3600" 60] by linarith
qed

text \<open>Displaying and parsing a duration are inverse for whole seconds, and for less than a second.\<close>

theorem duration_roundtrip:
  assumes "d mod 1000 = 0 \<or> d < 1000" and "d div 1000 * 1000 < 2 ^ 64"
  shows "parse_duration (display_duration d) = Some d"
proof (cases "d mod 1000 \<noteq> 0 \<and> d div 1000 = 0")
  case True
  have "parse_units [] 0 False (nat_str d @ ''ms'') = Some d"
    using parse_units_number [of d "CHR ''m''"] parse_nat_str [of d] units_plain True assms
    by (simp add: unit_ms_def)
  moreover have "parse_duration (nat_str d @ ''ms'') = parse_units [] 0 False (nat_str d @ ''ms'')"
    by (rule parse_duration_units [of _ "CHR ''m''"]) (auto dest: nat_str_no_ws simp: unit_no_ws)
  ultimately show ?thesis using True by (simp add: display_duration_def)
next
  case False
  define s h m sec where "s = d div 1000" and "h = s div 3600" and "m = (s mod 3600) div 60"
    and "sec = s mod 60"
  have d: "d = s * 1000" using False assms(1) unfolding s_def by auto
  have sum: "3600000 * h + 60000 * m + 1000 * sec = d"
    using hms [of s] unfolding d h_def m_def sec_def by simp
  have b: "h * 3600 < 2 ^ 64" "m * 60 < 2 ^ 64" "sec * 1000 < 2 ^ 64"
    using assms(2) sum d by auto
  let ?sec = "if 0 < sec \<or> (h = 0 \<and> m = 0) then nat_str sec @ ''s'' else []"
  let ?min = "(if 0 < m then nat_str m @ ''m'' else []) @ ?sec"
  let ?str = "(if 0 < h then nat_str h @ ''h'' else []) @ ?min"
  have str: "display_duration d = ?str"
    using False unfolding display_duration_def Let_def s_def [symmetric] h_def [symmetric]
      m_def [symmetric] sec_def [symmetric]
    by auto
  have secp: "parse_units [] t True ?sec = Some (t + 1000 * sec)"
    "0 < sec \<or> (h = 0 \<and> m = 0) \<Longrightarrow> parse_units [] t a ?sec = Some (t + 1000 * sec)" for t a
    using parse_units_s [OF b(3)] by auto
  have sech: "?sec = [] \<or> hd ?sec \<noteq> CHR ''s''" using hd_nat_str [of sec] by auto
  have minp: "parse_units [] t True ?min = Some (t + 60000 * m + 1000 * sec)"
    "0 < m \<Longrightarrow> parse_units [] t a ?min = Some (t + 60000 * m + 1000 * sec)" for t a
    using parse_units_m [OF b(2) sech] secp by auto
  have "parse_units [] 0 False ?str = Some d"
  proof (cases "0 < h")
    case True
    then have "parse_units [] 0 False ?str = parse_units [] (3600000 * h) True ?min"
      using parse_units_h [OF b(1), of 0 False ?min] by simp
    then show ?thesis using minp(1) [of "3600000 * h"] sum by simp
  next
    case h: False
    show ?thesis
    proof (cases "0 < m")
      case True
      then show ?thesis using h minp(2) [of 0 False] sum by simp
    next
      case False
      then show ?thesis using h secp(2) [of 0 False] sum by simp
    qed
  qed
  moreover have "parse_duration ?str = parse_units [] 0 False ?str"
  proof -
    obtain u where "u \<in> set ?str" "u \<in> {CHR ''h'', CHR ''m'', CHR ''s''}"
      by (cases "0 < h"; cases "0 < m"; cases "0 < sec") auto
    then show ?thesis
      by (intro parse_duration_units) (auto split: if_splits dest: nat_str_no_ws simp: unit_no_ws)
  qed
  ultimately show ?thesis by (simp only: str)
qed

theorem duration_roundtrip_witness: "parse_duration (display_duration 5430000) = Some 5430000"
  by (rule duration_roundtrip) simp_all

end
