(* ===== verification/Workflow.thy ===== *)
theory Workflow
  imports Template
begin

text \<open>
  The workflow language, \<open>src/workflow/mod.rs\<close>: steps, their typed specifications and the validation
  that every parsed workflow passes. Parsing YAML itself belongs to \<open>serde_yaml\<close> and is outside.
\<close>

subsection \<open>Types\<close>

record on_failure =
  of_retry_step :: string
  of_max_attempts :: nat
  of_feedback :: bool

datatype agent_output = OSummary | OReview | OPlan | OAcceptance | OConformance | OContract

fun agent_output_str :: "agent_output \<Rightarrow> string" where
  "agent_output_str OSummary = ''summary''"
| "agent_output_str OReview = ''review''"
| "agent_output_str OPlan = ''plan''"
| "agent_output_str OAcceptance = ''acceptance''"
| "agent_output_str OConformance = ''conformance''"
| "agent_output_str OContract = ''contract''"

fun output_read_only :: "agent_output \<Rightarrow> bool" where
  "output_read_only OPlan = True"
| "output_read_only OConformance = True"
| "output_read_only _ = False"

datatype git_action = GCommit | GPush

datatype step_spec =
    SpAgent (ag_runner: "string option") (ag_skill: "string option") (ag_prompt: string)
      (ag_output: agent_output) (ag_gate: bool) (ag_commit: "bool option") (ag_policy_check: bool)
  | SpCommand (sp_command: "string list") (sp_shell: bool) (sp_env: "(string, string) btmap")
      (sp_cwd: "string option")
  | SpCheck (sp_check: "string option") (sp_command: "string list") (sp_shell: bool)
      (sp_env: "(string, string) btmap") (sp_cwd: "string option") (sp_contract: bool)
  | SpApproval (sp_reason: string)
  | SpPolicy
  | SpGit (sp_action: git_action) (sp_message: "string option")
  | SpGithubPr (sp_draft: "bool option") (sp_title: "string option") (sp_body: "string option")
      (sp_base: "string option")
  | SpParallel

record step =
  s_id :: string
  s_spec :: step_spec
  s_timeout :: "duration option"
  s_on_failure :: "on_failure option"
  s_continue_on_failure :: bool
  s_description :: "string option"

record workflow =
  w_version :: nat
  w_name :: string
  w_description :: "string option"
  w_default_runner :: "string option"
  w_default_timeout :: "duration option"
  w_steps :: "step list"

fun spec_kind :: "step_spec \<Rightarrow> step_kind" where
  "spec_kind (SpAgent _ _ _ _ _ _ _) = KAgent"
| "spec_kind (SpCommand _ _ _ _) = KCommand"
| "spec_kind (SpCheck _ _ _ _ _ _) = KCommand"
| "spec_kind (SpApproval _) = KApproval"
| "spec_kind SpPolicy = KPolicy"
| "spec_kind (SpGit _ _) = KGit"
| "spec_kind (SpGithubPr _ _ _ _) = KGithubPr"
| "spec_kind SpParallel = KCommand"

definition step_kind_of :: "step \<Rightarrow> step_kind" where
  "step_kind_of s = spec_kind (s_spec s)"

definition step_runner :: "step \<Rightarrow> workflow \<Rightarrow> string option" where
  "step_runner s w =
     (case s_spec s of
        SpAgent (Some r) _ _ _ _ _ _ \<Rightarrow> Some r
      | SpAgent None _ _ _ _ _ _ \<Rightarrow> w_default_runner w
      | _ \<Rightarrow> None)"

type_synonym command_parts = "string list \<times> bool \<times> (string, string) btmap \<times> string option"

fun spec_command :: "step_spec \<Rightarrow> command_parts option" where
  "spec_command (SpCommand c sh env cwd) = Some (c, sh, env, cwd)"
| "spec_command (SpCheck _ c sh env cwd _) = Some (c, sh, env, cwd)"
| "spec_command _ = None"

fun spec_named_check :: "step_spec \<Rightarrow> string option" where
  "spec_named_check (SpCheck n _ _ _ _ _) = n"
| "spec_named_check _ = None"

subsection \<open>Lookup\<close>

fun position :: "('a \<Rightarrow> bool) \<Rightarrow> 'a list \<Rightarrow> nat option" where
  "position p [] = None"
| "position p (x # xs) = (if p x then Some 0 else map_option Suc (position p xs))"

definition step_index :: "workflow \<Rightarrow> string \<Rightarrow> nat option" where
  "step_index w sid = position (\<lambda>s. s_id s = sid) (w_steps w)"

lemma position_Some:
  "position p xs = Some i \<Longrightarrow> i < length xs \<and> p (xs ! i) \<and> (\<forall>j < i. \<not> p (xs ! j))"
proof (induction xs arbitrary: i)
  case (Cons x xs)
  then show ?case by (cases i) (auto split: if_splits simp: nth_Cons split: nat.splits)
qed simp

lemma position_None: "position p xs = None \<longleftrightarrow> (\<forall>x \<in> set xs. \<not> p x)"
  by (induction xs) auto

lemma position_first:
  "i < length xs \<Longrightarrow> p (xs ! i) \<Longrightarrow> (\<And>j. j < i \<Longrightarrow> \<not> p (xs ! j)) \<Longrightarrow> position p xs = Some i"
proof (induction xs arbitrary: i)
  case (Cons x xs)
  show ?case
  proof (cases i)
    case (Suc k)
    then have "\<not> p x" using Cons.prems(3) [of 0] by simp
    moreover have "position p xs = Some k"
      using Suc Cons.prems(1,2) Cons.prems(3) [of "Suc _"] by (intro Cons.IH) auto
    ultimately show ?thesis using Suc by simp
  qed (use Cons in simp)
qed simp

subsection \<open>Validation\<close>

definition NAMED_CHECKS :: "string list" where
  "NAMED_CHECKS = [''tests'', ''lint'', ''security'']"

definition word_char :: "char \<Rightarrow> bool" where
  "word_char c \<longleftrightarrow> is_ascii_alphanumeric c \<or> c = CHR ''-'' \<or> c = CHR ''_''"

text \<open>Run a check over a list, stopping at the first error.\<close>

fun check_all :: "('a \<Rightarrow> string + unit) \<Rightarrow> 'a list \<Rightarrow> string + unit" where
  "check_all f [] = Inr ()"
| "check_all f (x # xs) = sum_bind (f x) (\<lambda>_. check_all f xs)"

definition require :: "bool \<Rightarrow> string \<Rightarrow> string + unit" where
  "require b e = (if b then Inr () else Inl e)"

definition check_argument :: "string \<Rightarrow> string list \<Rightarrow> bool \<Rightarrow> string \<Rightarrow> string + unit" where
  "check_argument ctx earlier shell a =
     sum_bind (with_context ctx (check_template a earlier)) (\<lambda>vars.
     if shell \<and> vars \<noteq> [] then
       Inl (ctx @ '': templates are not allowed in shell scripts; use the HERDR_ORCH_* environment variables instead'')
     else case find is_untrusted vars of
       Some v \<Rightarrow> Inl (ctx @ '': {{'' @ v @ ''}} carries untrusted text and cannot be used in a command line'')
     | None \<Rightarrow> Inr ())"

definition check_env :: "string \<Rightarrow> string list \<Rightarrow> string \<times> string \<Rightarrow> string + unit" where
  "check_env ctx earlier kv = (case kv of (k, v) \<Rightarrow>
     if \<not> list_all (\<lambda>c. is_ascii_alphanumeric c \<or> c = CHR ''_'') k \<or> k = [] then
       Inl (ctx @ '': invalid env var name '' @ debug_str k)
     else sum_bind (with_context ctx (check_template v earlier)) (\<lambda>vars.
       case find is_untrusted vars of
         Some w \<Rightarrow> Inl (ctx @ '': {{'' @ w @ ''}} cannot be used in command env'')
       | None \<Rightarrow> Inr ()))"

definition relative_inside :: "string \<Rightarrow> bool" where
  "relative_inside c \<longleftrightarrow> \<not> starts_with c ''/'' \<and> ''..'' \<notin> set (split_on (\<lambda>x. x = CHR ''/'') c)"

definition check_command :: "string \<Rightarrow> string list \<Rightarrow> command_parts \<Rightarrow> string + unit" where
  "check_command ctx earlier parts = (case parts of (command, shell, env, cwd) \<Rightarrow>
     if command = [] \<or> trim (hd command) = [] then
       Inl (ctx @ '': command must be a non-empty argv array'')
     else if shell \<and> length command \<noteq> 1 then
       Inl (ctx @ '': with `shell: true`, command must be a single script string'')
     else
       sum_bind (check_all (check_argument ctx earlier shell) command) (\<lambda>_.
       sum_bind (variables (hd command)) (\<lambda>pv.
       if pv \<noteq> [] then Inl (ctx @ '': templates are not allowed in the program name (argv[0])'')
       else
         sum_bind (check_all (check_env ctx earlier) env) (\<lambda>_.
         case cwd of
           Some c \<Rightarrow> require (relative_inside c) (ctx @ '': cwd must be a relative path inside the worktree'')
         | None \<Rightarrow> Inr ()))))"

definition check_text :: "string \<Rightarrow> string list \<Rightarrow> string \<Rightarrow> string + unit" where
  "check_text ctx earlier t = sum_bind (with_context ctx (check_template t earlier)) (\<lambda>_. Inr ())"

text \<open>The match on the specification. Its arms are in the order of the source: a check of the locked
  contract, then a named check, then a command.\<close>

definition check_spec :: "string \<Rightarrow> string list \<Rightarrow> step_spec \<Rightarrow> string + unit" where
  "check_spec ctx earlier spec =
     (case spec of
        SpAgent _ _ prompt outp gate _ _ \<Rightarrow>
          sum_bind (check_text ctx earlier prompt) (\<lambda>_.
          require (\<not> gate \<or> outp = OReview \<or> outp = OAcceptance)
            (ctx @ '': `gate: true` requires `output: review` or `output: acceptance`''))
      | SpCheck chk command shell env cwd locked \<Rightarrow>
          if locked then
            require (chk = None \<and> command = [])
              (ctx @ '': `contract: true` runs the locked contract's own check; drop `check:`/`command:`'')
          else (case chk of
              Some name \<Rightarrow>
                if command \<noteq> [] then Inl (ctx @ '': use either `check:` or `command:`, not both'')
                else require (name \<in> set NAMED_CHECKS)
                  (ctx @ '': unknown named check '' @ debug_str name @ '' (known: [\"tests\", \"lint\", \"security\"])'')
            | None \<Rightarrow> check_command ctx earlier (command, shell, env, cwd))
      | SpCommand command shell env cwd \<Rightarrow> check_command ctx earlier (command, shell, env, cwd)
      | SpApproval reason \<Rightarrow> check_text ctx earlier reason
      | SpGit _ message \<Rightarrow> (case message of Some m \<Rightarrow> check_text ctx earlier m | None \<Rightarrow> Inr ())
      | SpGithubPr _ title body _ \<Rightarrow>
          check_all (check_text ctx earlier) (List.map_filter id [title, body])
      | SpPolicy \<Rightarrow> Inr ()
      | SpParallel \<Rightarrow> Inl (ctx @ '': `parallel` steps are not supported in this version; use task variants (--variants N) for parallel implementations''))"

definition check_on_failure :: "string \<Rightarrow> workflow \<Rightarrow> nat \<Rightarrow> step \<Rightarrow> string + unit" where
  "check_on_failure ctx w i s =
     (case s_on_failure s of
        None \<Rightarrow> Inr ()
      | Some f \<Rightarrow>
          (case position (\<lambda>x. x = of_retry_step f) (take (Suc i) (map s_id (w_steps w))) of
             None \<Rightarrow> Inl (ctx @ '': on_failure.retry_step '' @ debug_str (of_retry_step f)
                         @ '' must name this step or an earlier one'')
           | Some target \<Rightarrow>
               if of_max_attempts f = 0 \<or> 10 < of_max_attempts f then
                 Inl (ctx @ '': on_failure.max_attempts must be between 1 and 10'')
               else if spec_kind (s_spec (w_steps w ! target)) \<in> {KApproval, KGithubPr} then
                 Inl (ctx @ '': cannot retry into an approval or github_pr step'')
               else require (\<not> s_continue_on_failure s)
                 (ctx @ '': on_failure and continue_on_failure are mutually exclusive'')))"

definition check_step :: "workflow \<Rightarrow> nat \<Rightarrow> string + unit" where
  "check_step w i =
     (let s = w_steps w ! i;
          ctx = ''workflow '' @ w_name w @ '' step '' @ debug_str (s_id s);
          earlier = take i (map s_id (w_steps w)) in
      if s_id s = [] \<or> 40 < length (s_id s) \<or> \<not> list_all word_char (s_id s) then
        Inl (ctx @ '': step ids must be 1-40 ASCII letters, digits, '-' or '_'' @ [squote])
      else if s_id s \<in> set earlier then Inl (ctx @ '': duplicate step id'')
      else sum_bind (check_spec ctx earlier (s_spec s)) (\<lambda>_. check_on_failure ctx w i s))"

definition validate :: "workflow \<Rightarrow> string + unit" where
  "validate w =
     (if w_version w \<noteq> 1 then
        Inl (''unsupported workflow version '' @ nat_str (w_version w) @ '' (expected 1)'')
      else if w_name w = [] \<or> \<not> list_all word_char (w_name w) then
        Inl (''workflow name '' @ debug_str (w_name w) @ '' must be ASCII letters, digits, '-' or '_'' @ [squote])
      else if w_steps w = [] then Inl (''workflow '' @ w_name w @ '' has no steps'')
      else check_all (check_step w) [0..<length (w_steps w)])"

definition workflow_sha256 :: "(string \<Rightarrow> string) \<Rightarrow> string \<Rightarrow> string" where
  "workflow_sha256 sha yaml = sha yaml"

end
