(* ===== verification/Workflow_Facts.thy ===== *)
theory Workflow_Facts
  imports Workflow
begin

text \<open>
  What an accepted workflow guarantees: the shape the run driver relies on (distinct identifiers,
  retries that go back, bounded attempts), and that command lines and environments of command steps do
  not depend on untrusted text.
\<close>

lemma check_all_Inr: "check_all f xs = Inr () \<longleftrightarrow> (\<forall>x \<in> set xs. f x = Inr ())"
  by (induction xs) (auto simp: sum_bind_Inr)

lemma require_Inr [simp]: "require b e = Inr () \<longleftrightarrow> b"
  by (simp add: require_def)

lemma validate_step:
  "validate w = Inr () \<Longrightarrow> i < length (w_steps w) \<Longrightarrow> check_step w i = Inr ()"
  by (auto simp: validate_def check_all_Inr split: if_splits)

lemma validate_distinct:
  assumes "validate w = Inr ()"
  shows "distinct (map s_id (w_steps w))"
proof -
  have "s_id (w_steps w ! i) \<noteq> s_id (w_steps w ! j)" if "j < i" "i < length (w_steps w)" for i j
  proof
    assume "s_id (w_steps w ! i) = s_id (w_steps w ! j)"
    moreover have "map s_id (w_steps w) ! j \<in> set (take i (map s_id (w_steps w)))"
      using that by (auto simp: in_set_conv_nth intro!: exI [of _ j])
    ultimately show False
      using validate_step [OF assms that(2)] that by (auto simp: check_step_def Let_def split: if_splits)
  qed
  then show ?thesis
    unfolding distinct_conv_nth by (metis length_map nat_neq_iff nth_map)
qed

lemma step_index_id:
  assumes "validate w = Inr ()" and "i < length (w_steps w)"
  shows "step_index w (s_id (w_steps w ! i)) = Some i"
  unfolding step_index_def
proof (rule position_first)
  fix j
  assume j: "j < i"
  then show "s_id (w_steps w ! j) \<noteq> s_id (w_steps w ! i)"
    using validate_distinct [OF assms(1)] assms(2) by (auto simp: distinct_conv_nth)
qed (use assms in auto)

lemma position_take_map:
  "position (\<lambda>x. x = k) (take n (map f xs)) = Some t \<Longrightarrow> position (\<lambda>x. f x = k) xs = Some t \<and> t < n"
  using position_Some [of "\<lambda>x. x = k" "take n (map f xs)" t]
  by (auto intro!: position_first)

lemma retry_target:
  assumes "validate w = Inr ()" and "i < length (w_steps w)"
    and "s_on_failure (w_steps w ! i) = Some f"
  shows "\<exists>t \<le> i. step_index w (of_retry_step f) = Some t
     \<and> spec_kind (s_spec (w_steps w ! t)) \<notin> {KApproval, KGithubPr}
     \<and> 1 \<le> of_max_attempts f \<and> of_max_attempts f \<le> 10
     \<and> \<not> s_continue_on_failure (w_steps w ! i)"
proof -
  obtain ctx where "check_on_failure ctx w i (w_steps w ! i) = Inr ()"
    using validate_step [OF assms(1,2)]
    by (auto simp: check_step_def Let_def sum_bind_Inr split: if_splits)
  then obtain t where t: "position (\<lambda>x. x = of_retry_step f) (take (Suc i) (map s_id (w_steps w))) = Some t"
    "spec_kind (s_spec (w_steps w ! t)) \<notin> {KApproval, KGithubPr}" "of_max_attempts f \<noteq> 0"
    "of_max_attempts f \<le> 10" "\<not> s_continue_on_failure (w_steps w ! i)"
    using assms(3) by (auto simp: check_on_failure_def split: option.splits if_splits)
  with position_take_map [OF t(1)] show ?thesis
    by (auto simp: step_index_def less_Suc_eq_le)
qed

text \<open>C35. An accepted workflow has steps with distinct identifiers that are found at their own
  position, and every \<open>on_failure\<close> goes to the same or an earlier step that is neither an approval nor
  a pull request, with one to ten attempts: the run loop can only be sent back a bounded number of
  times.\<close>

theorem validate_shape:
  assumes "validate w = Inr ()" and "i < length (w_steps w)"
  shows "distinct (map s_id (w_steps w)) \<and> step_index w (s_id (w_steps w ! i)) = Some i
    \<and> (case s_on_failure (w_steps w ! i) of None \<Rightarrow> True
       | Some f \<Rightarrow> \<exists>t \<le> i. step_index w (of_retry_step f) = Some t
           \<and> spec_kind (s_spec (w_steps w ! t)) \<notin> {KApproval, KGithubPr}
           \<and> 1 \<le> of_max_attempts f \<and> of_max_attempts f \<le> 10)"
  using validate_distinct [OF assms(1)] step_index_id [OF assms] retry_target [OF assms]
  by (auto split: option.splits)

subsection \<open>Trusted command lines\<close>

text \<open>Two contexts that differ in untrusted text only.\<close>

definition same_trusted :: "context_vars \<Rightarrow> context_vars \<Rightarrow> bool" where
  "same_trusted c d \<longleftrightarrow> (\<forall>v. \<not> is_untrusted v \<longrightarrow> bt_get c v = bt_get d v)"

lemma same_trusted_value: "same_trusted c d \<Longrightarrow> \<not> is_untrusted v \<Longrightarrow> var_value c v = var_value d v"
  by (simp add: same_trusted_def var_value_def)

lemma find_None_all: "find p xs = None \<Longrightarrow> x \<in> set xs \<Longrightarrow> \<not> p x"
  by (induction xs) (auto split: if_splits)

lemma render_trusted:
  assumes "check_template t ids = Inr vs" and "find is_untrusted vs = None" and "same_trusted c d"
  shows "render c t = render d t"
proof (rule render_agree)
  show "variables t = Inr vs" using check_template_known [OF assms(1)] by simp
  show "var_value c v = var_value d v" if "v \<in> set vs" for v
    using same_trusted_value [OF assms(3)] find_None_all [OF assms(2) that] by simp
qed

lemma check_argument_trusted:
  assumes "check_argument ctx ids sh a = Inr ()" and "same_trusted c d"
  shows "render c a = render d a"
  using assms render_trusted [of a ids]
  by (auto simp: check_argument_def sum_bind_Inr split: if_splits option.splits)

lemma check_env_trusted:
  assumes "check_env ctx ids (k, v) = Inr ()" and "same_trusted c d"
  shows "render c v = render d v"
  using assms render_trusted [of v ids]
  by (auto simp: check_env_def sum_bind_Inr split: if_splits option.splits)

lemma variables_Nil: "variables t = Inr [] \<Longrightarrow> render c t = Inr t"
  by (cases "next_ref t")
    (auto simp: variables.simps [of t] render.simps [of c t] split: sum.splits if_splits)

lemma check_command_trusted:
  assumes "check_command ctx ids (cmd, sh, env, cwd) = Inr ()" and "same_trusted c d"
  shows "(\<forall>a \<in> set cmd. render c a = render d a) \<and> (\<forall>(k, v) \<in> set env. render c v = render d v)
    \<and> cmd \<noteq> [] \<and> render c (hd cmd) = Inr (hd cmd)
    \<and> (case cwd of None \<Rightarrow> True | Some x \<Rightarrow> relative_inside x)"
  using assms(1) check_argument_trusted [OF _ assms(2)] check_env_trusted [OF _ assms(2)] variables_Nil
  by (auto simp: check_command_def check_all_Inr sum_bind_Inr split: if_splits option.splits)

text \<open>A command step that carries its own command line, rather than the name of a check.\<close>

definition own_command :: "step_spec \<Rightarrow> bool" where
  "own_command sp = (case sp of SpCommand _ _ _ _ \<Rightarrow> True
     | SpCheck chk _ _ _ _ locked \<Rightarrow> chk = None \<and> \<not> locked | _ \<Rightarrow> False)"

text \<open>C36. In an accepted workflow the command line and the environment of a command step do not
  depend on untrusted text: rendered in two contexts that differ in untrusted variables only (task
  text, feedback, outputs of steps), they are the same; the program is never a template; and the
  working directory stays inside the worktree.\<close>

theorem command_lines_trusted:
  assumes "validate w = Inr ()" and "s \<in> set (w_steps w)" and "own_command (s_spec s)"
    and "spec_command (s_spec s) = Some (cmd, sh, env, cwd)" and "same_trusted c d"
  shows "(\<forall>a \<in> set cmd. render c a = render d a) \<and> (\<forall>(k, v) \<in> set env. render c v = render d v)
    \<and> cmd \<noteq> [] \<and> render c (hd cmd) = Inr (hd cmd)
    \<and> (case cwd of None \<Rightarrow> True | Some x \<Rightarrow> relative_inside x)"
proof -
  obtain i where i: "i < length (w_steps w)" "s = w_steps w ! i"
    using assms(2) by (auto simp: in_set_conv_nth)
  then obtain ctx ids where "check_spec ctx ids (s_spec s) = Inr ()"
    using validate_step [OF assms(1) i(1)]
    by (auto simp: check_step_def Let_def sum_bind_Inr split: if_splits)
  then have "check_command ctx ids (cmd, sh, env, cwd) = Inr ()"
    using assms(3,4) by (cases "s_spec s") (auto simp: check_spec_def own_command_def)
  from check_command_trusted [OF this assms(5)] show ?thesis .
qed

text \<open>A small accepted workflow.\<close>

definition plain_step :: "string \<Rightarrow> step_spec \<Rightarrow> step" where
  "plain_step i sp = \<lparr> s_id = i, s_spec = sp, s_timeout = None, s_on_failure = None,
     s_continue_on_failure = False, s_description = None \<rparr>"

definition sample_workflow :: workflow where
  "sample_workflow = \<lparr> w_version = 1, w_name = ''w'', w_description = None, w_default_runner = None,
     w_default_timeout = None,
     w_steps = [plain_step ''impl'' (SpAgent None None ''Do {{task}}'' OSummary False None True),
       (plain_step ''test'' (SpCommand [''make'', ''B={{branch}}''] False [(''X'', ''{{run.id}}'')] (Some ''sub'')))
         \<lparr> s_on_failure := Some \<lparr> of_retry_step = ''impl'', of_max_attempts = 2, of_feedback = True \<rparr> \<rparr>] \<rparr>"

theorem validate_shape_witness:
  "distinct (map s_id (w_steps sample_workflow)) \<and> step_index sample_workflow ''test'' = Some 1"
proof -
  have "validate sample_workflow = Inr ()" "1 < length (w_steps sample_workflow)"
    "s_id (w_steps sample_workflow ! 1) = ''test''"
    by code_simp+
  with validate_shape [of sample_workflow 1] show ?thesis by simp
qed

theorem command_lines_trusted_witness:
  "render [(''branch'', ''b''), (''task'', ''x'')] ''B={{branch}}'' =
   render [(''branch'', ''b''), (''task'', ''; rm -rf /'')] ''B={{branch}}''"
proof -
  let ?s = "w_steps sample_workflow ! 1"
  have v: "validate sample_workflow = Inr ()" "own_command (s_spec ?s)"
    "spec_command (s_spec ?s) = Some ([''make'', ''B={{branch}}''], False, [(''X'', ''{{run.id}}'')], Some ''sub'')"
    by code_simp+
  have "?s \<in> set (w_steps sample_workflow)" by (simp add: sample_workflow_def)
  moreover have "same_trusted [(''branch'', ''b''), (''task'', ''x'')] [(''branch'', ''b''), (''task'', ''; rm -rf /'')]"
    by (auto simp: same_trusted_def bt_get_def is_untrusted_def UNTRUSTED_VARS_def)
  ultimately show ?thesis using command_lines_trusted [OF v(1) _ v(2,3)] by simp
qed

text \<open>A gap of the validation: the arm of a named check looks neither at the environment nor at
  the working directory of the step, so an accepted workflow can put untrusted text into the
  environment of a check, and a directory outside the worktree is found out only when the step runs.\<close>

theorem named_check_unchecked:
  "\<exists>w s env. validate w = Inr () \<and> s \<in> set (w_steps w)
     \<and> s_spec s = SpCheck (Some ''tests'') [] False env (Some ''../..'') False
     \<and> variables (snd (hd env)) = Inr [''task''] \<and> is_untrusted ''task'' \<and> \<not> relative_inside ''../..''"
proof -
  let ?s = "plain_step ''t'' (SpCheck (Some ''tests'') [] False [(''T'', ''{{task}}'')] (Some ''../..'') False)"
  let ?w = "sample_workflow\<lparr> w_steps := [?s] \<rparr>"
  have "validate ?w = Inr ()" "variables ''{{task}}'' = Inr [''task'']" "is_untrusted ''task''"
    "\<not> relative_inside ''../..''"
    by code_simp+
  then show ?thesis
    by (intro exI [of _ ?w] exI [of _ ?s] exI [of _ "[(''T'', ''{{task}}'')]"]) (simp add: plain_step_def)
qed

end
