(* ===== verification/Checks.thy ===== *)
theory Checks
  imports Approvals
begin

text \<open>
  Verification commands and bounded excerpts, \<open>src/checks/mod.rs\<close>, and the budget warning of
  \<open>src/telemetry/mod.rs\<close>. Detection looks at files under the root of the worktree; \<open>there\<close>, \<open>read\<close> and
  \<open>which\<close> are the answers of the file system and of the search path, \<open>parse\<close> is \<open>serde_json\<close>.
\<close>

subsection \<open>Character boundaries\<close>

text \<open>\<open>is_char_boundary\<close> on UTF-8, and the two loops that look for one.\<close>

definition char_boundary :: "string \<Rightarrow> nat \<Rightarrow> bool" where
  "char_boundary s i \<longleftrightarrow> i = 0 \<or> i = length s \<or>
     (i < length s \<and> \<not> (128 \<le> byte (s ! i) \<and> byte (s ! i) < 192))"

fun floor_boundary :: "string \<Rightarrow> nat \<Rightarrow> nat" where
  "floor_boundary s 0 = 0"
| "floor_boundary s (Suc i) = (if char_boundary s (Suc i) then Suc i else floor_boundary s i)"

function ceil_boundary :: "string \<Rightarrow> nat \<Rightarrow> nat" where
  "ceil_boundary s i = (if length s \<le> i \<or> char_boundary s i then i else ceil_boundary s (Suc i))"
  by pat_completeness auto
termination by (relation "measure (\<lambda>(s, i). length s - i)") auto

declare ceil_boundary.simps [simp del]

lemma floor_boundary_le: "floor_boundary s i \<le> i"
  by (induction s i rule: floor_boundary.induct) auto

lemma floor_boundary_ok: "char_boundary s (floor_boundary s i)"
  by (induction s i rule: floor_boundary.induct) (auto simp: char_boundary_def)

lemma ceil_boundary_ge: "i \<le> ceil_boundary s i"
proof (induction s i rule: ceil_boundary.induct)
  case (1 s i)
  then show ?case by (subst ceil_boundary.simps) (auto dest: Suc_leD)
qed

lemma ceil_boundary_ok: "i \<le> length s \<Longrightarrow> char_boundary s (ceil_boundary s i)"
proof (induction s i rule: ceil_boundary.induct)
  case (1 s i)
  then show ?case
    by (subst ceil_boundary.simps) (auto simp: char_boundary_def Suc_le_eq)
qed

subsection \<open>Excerpts\<close>

definition is_err_line :: "string \<Rightarrow> bool" where
  "is_err_line l =
     (let s = to_ascii_lowercase l in
      list_ex (str_contains s) [''error'', ''failed'', ''panicked'', ''assert'', ''exception'', ''traceback''])"

definition excerpt_lines :: "string \<Rightarrow> nat \<Rightarrow> nat \<Rightarrow> string" where
  "excerpt_lines t head tail =
     (let ls = lines t in
      if length ls \<le> head + tail then join nl ls
      else
        let middle = take (length ls - tail - head) (drop head ls);
            errs = take 40 (filter is_err_line middle) in
        join nl (take head ls)
        @ nl @ ellipsis @ '' ['' @ nat_str (length middle) @ '' lines omitted''
        @ (if errs \<noteq> [] then
             ''; '' @ nat_str (length errs) @ '' error-looking lines kept] '' @ ellipsis @ nl
             @ join nl errs @ nl @ ellipsis @ nl
           else ''] '' @ ellipsis @ nl)
        @ join nl (drop (length ls - tail) ls))"

definition cut_marker :: string where
  "cut_marker = nl @ ellipsis @ '' [truncated] '' @ ellipsis @ nl"

definition cut_bytes :: "string \<Rightarrow> nat \<Rightarrow> string" where
  "cut_bytes out max_bytes =
     (if length out \<le> max_bytes then out
      else
        let keep_head = max_bytes div 3;
            keep_tail = max_bytes - keep_head;
            h = floor_boundary out (min keep_head (length out));
            t = ceil_boundary out (length out - keep_tail) in
        take h out @ cut_marker @ drop t out)"

definition excerpt :: "string \<Rightarrow> nat \<Rightarrow> nat \<Rightarrow> nat \<Rightarrow> string" where
  "excerpt t head tail max_bytes = cut_bytes (excerpt_lines t head tail) max_bytes"

lemma cut_bytes_length: "length (cut_bytes out m) \<le> m + length cut_marker"
proof (cases "length out \<le> m")
  case False
  let ?h = "floor_boundary out (min (m div 3) (length out))"
  let ?t = "ceil_boundary out (length out - (m - m div 3))"
  have "?h \<le> m div 3" using floor_boundary_le [of out "min (m div 3) (length out)"] by simp
  moreover have "length out - ?t \<le> m - m div 3"
    using ceil_boundary_ge [of "length out - (m - m div 3)" out] by simp
  moreover have "cut_bytes out m = take ?h out @ cut_marker @ drop ?t out"
    using False by (simp add: cut_bytes_def Let_def)
  ultimately show ?thesis by (simp only: length_append length_take length_drop) linarith
qed (simp add: cut_bytes_def)

text \<open>What goes back to an agent or into a document as an excerpt is bounded by the configured
  number of bytes plus the cut marker, whatever the command printed, and a cut never splits a
  multi-byte character.\<close>

theorem excerpt_bounded:
  "length (excerpt t head tail m) \<le> m + 21 \<and>
   (\<exists>out h k. out = excerpt_lines t head tail \<and> char_boundary out h \<and> char_boundary out k \<and>
      (excerpt t head tail m = out \<or> excerpt t head tail m = take h out @ cut_marker @ drop k out))"
proof -
  let ?out = "excerpt_lines t head tail"
  let ?h = "floor_boundary ?out (min (m div 3) (length ?out))"
  let ?k = "ceil_boundary ?out (length ?out - (m - m div 3))"
  have "length cut_marker = 21" by (simp add: cut_marker_def nl_def ellipsis_def)
  then have "length (excerpt t head tail m) \<le> m + 21"
    using cut_bytes_length [of ?out m] by (simp add: excerpt_def)
  moreover have "char_boundary ?out ?h" "char_boundary ?out ?k"
    by (rule floor_boundary_ok, rule ceil_boundary_ok) simp
  moreover have "excerpt t head tail m = ?out \<or> excerpt t head tail m = take ?h ?out @ cut_marker @ drop ?k ?out"
    by (simp add: excerpt_def cut_bytes_def Let_def)
  ultimately show ?thesis by blast
qed

subsection \<open>Named checks\<close>

definition package_json_script ::
  "(string \<Rightarrow> string + json) \<Rightarrow> (path \<Rightarrow> string option) \<Rightarrow> path \<Rightarrow> string \<Rightarrow> bool" where
  "package_json_script parse read dir name =
     (case read (dir @ ''/package.json'') of
        None \<Rightarrow> False
      | Some s \<Rightarrow> (case parse s of
          Inl _ \<Rightarrow> False
        | Inr j \<Rightarrow> (case Option.bind (json_get j ''scripts'') (\<lambda>x. Option.bind (json_get x name) json_as_str) of
            None \<Rightarrow> False
          | Some v \<Rightarrow> \<not> str_contains v ''no test specified'')))"

definition js_runner :: "(path \<Rightarrow> bool) \<Rightarrow> path \<Rightarrow> string" where
  "js_runner there dir =
     (if there (dir @ ''/pnpm-lock.yaml'') then ''pnpm''
      else if there (dir @ ''/yarn.lock'') then ''yarn''
      else if there (dir @ ''/bun.lockb'') \<or> there (dir @ ''/bun.lock'') then ''bun''
      else ''npm'')"

definition makefile_has :: "(path \<Rightarrow> string option) \<Rightarrow> path \<Rightarrow> string \<Rightarrow> bool" where
  "makefile_has read dir t =
     (case read (dir @ ''/Makefile'') of
        None \<Rightarrow> False
      | Some s \<Rightarrow> list_ex (\<lambda>l. starts_with l (t @ '':'')) (lines s))"

type_synonym resolved_check = "string list \<times> string"

definition detected :: "string list \<Rightarrow> string \<Rightarrow> resolved_check option" where
  "detected argv why = Some (argv, ''detected: '' @ why)"

definition detect_check ::
  "(string \<Rightarrow> string + json) \<Rightarrow> (path \<Rightarrow> bool) \<Rightarrow> (path \<Rightarrow> string option) \<Rightarrow> (string \<Rightarrow> bool)
     \<Rightarrow> string \<Rightarrow> path \<Rightarrow> resolved_check option" where
  "detect_check parse there read which name dir =
     (let cargo = there (dir @ ''/Cargo.toml'');
          node = there (dir @ ''/package.json'');
          python = there (dir @ ''/pyproject.toml'') \<or> there (dir @ ''/pytest.ini'')
            \<or> there (dir @ ''/setup.cfg'') \<or> there (dir @ ''/tox.ini'');
          go = there (dir @ ''/go.mod'');
          r = js_runner there dir in
      if name = ''tests'' then
        (if cargo then detected [''cargo'', ''test'', ''--all''] ''Cargo.toml''
         else if node \<and> package_json_script parse read dir ''test'' then
           detected (if r = ''npm'' then [''npm'', ''test'', ''--silent''] else [r, ''test'']) ''package.json scripts.test''
         else if go then detected [''go'', ''test'', ''./...''] ''go.mod''
         else if python then detected [''python3'', ''-m'', ''pytest'', ''-q''] ''python project''
         else if makefile_has read dir ''test'' then detected [''make'', ''test''] ''Makefile test target''
         else None)
      else if name = ''lint'' then
        (if cargo then detected [''cargo'', ''clippy'', ''--all-targets'', ''--'', ''-D'', ''warnings''] ''Cargo.toml''
         else if node \<and> package_json_script parse read dir ''lint'' then
           detected [r, ''run'', ''lint''] ''package.json scripts.lint''
         else if go then detected [''go'', ''vet'', ''./...''] ''go.mod''
         else if python \<and> which ''ruff'' then detected [''ruff'', ''check'', ''.''] ''python + ruff''
         else if makefile_has read dir ''lint'' then detected [''make'', ''lint''] ''Makefile lint target''
         else None)
      else if name = ''security'' then
        (if cargo \<and> which ''cargo-audit'' then detected [''cargo'', ''audit''] ''Cargo.toml + cargo-audit''
         else if node \<and> there (dir @ ''/package-lock.json'') then
           detected [''npm'', ''audit'', ''--audit-level=high''] ''package-lock.json''
         else if python \<and> which ''pip-audit'' then detected [''pip-audit''] ''python + pip-audit''
         else if go \<and> which ''govulncheck'' then detected [''govulncheck'', ''./...''] ''go.mod + govulncheck''
         else None)
      else None)"

definition resolve_check ::
  "(string \<Rightarrow> string + json) \<Rightarrow> (path \<Rightarrow> bool) \<Rightarrow> (path \<Rightarrow> string option) \<Rightarrow> (string \<Rightarrow> bool)
     \<Rightarrow> string \<Rightarrow> path \<Rightarrow> (string, string list) btmap \<Rightarrow> resolved_check option" where
  "resolve_check parse there read which name dir configured =
     (case bt_get configured name of
        Some argv \<Rightarrow> if argv \<noteq> [] then Some (argv, ''config'') else None
      | None \<Rightarrow> detect_check parse there read which name dir)"

lemma resolve_check_argv:
  "resolve_check parse there read which name dir configured = Some (argv, src) \<Longrightarrow> argv \<noteq> []"
  by (auto simp: resolve_check_def detect_check_def detected_def Let_def split: option.splits if_splits)

subsection \<open>Budgets\<close>

definition run_agent_usage :: "(f64 \<Rightarrow> f64 \<Rightarrow> f64) \<Rightarrow> run \<Rightarrow> usage_record" where
  "run_agent_usage fadd r =
     usage_sum fadd (List.map_filter e_usage (filter (\<lambda>e. e_kind e = KAgent) (r_steps r)))"

definition tokens_display :: "usage_record \<Rightarrow> string" where
  "tokens_display u =
     (case (u_input_tokens u, u_output_tokens u) of
        (None, None) \<Rightarrow> ''tokens unknown''
      | (i, q) \<Rightarrow>
          (case i of Some n \<Rightarrow> nat_str n | None \<Rightarrow> ''?'') @ '' in / ''
          @ (case q of Some n \<Rightarrow> nat_str n | None \<Rightarrow> ''?'') @ '' out (''
          @ (case u_source u of UReported \<Rightarrow> ''reported'' | UMeasured \<Rightarrow> ''measured''
             | UEstimated \<Rightarrow> ''partial'' | UUnknown \<Rightarrow> ''unknown'') @ '')'')"

text \<open>\<open>cost_text\<close> renders the reported cost and the limit, which are \<open>f64\<close>.\<close>

definition budget_warning ::
  "(usage_record \<Rightarrow> f64 \<Rightarrow> string) \<Rightarrow> usage_record \<Rightarrow> f64 option \<Rightarrow> nat option \<Rightarrow> string option" where
  "budget_warning cost_text u max_cost max_tokens =
     (case (case (max_cost, u_cost_usd u) of
              (Some m, Some c) \<Rightarrow> if m < c then Some (cost_text u m) else None
            | _ \<Rightarrow> None) of
        Some t \<Rightarrow> Some t
      | None \<Rightarrow>
          (case (max_tokens, u_input_tokens u, u_output_tokens u) of
             (Some m, Some i, Some q) \<Rightarrow>
               if m < u64_add i q then
                 Some (''reported tokens '' @ nat_str (u64_add i q) @ '' exceed limits.max_tokens '' @ nat_str m)
               else None
           | _ \<Rightarrow> None))"

end
