(* ===== verification/Security.thy ===== *)
theory Security
  imports Model
begin

text \<open>
  Containment of paths, \<open>src/security/paths.rs\<close>, the environment of child processes,
  \<open>src/security/env.rs\<close>, and the sandbox seam, \<open>src/security/sandbox.rs\<close>. A path is the list of its
  components; what the file system answers about a path (its canonical form, whether it exists or is
  a symbolic link, the text of a link) is the parameter \<open>fs\<close>.
\<close>

subsection \<open>Components of a path\<close>

datatype component = RootDir | CurDir | ParentDir | Normal string

definition piece_component :: "string \<Rightarrow> component" where
  "piece_component p = (if p = ''..'' then ParentDir else Normal p)"

text \<open>\<open>Path::components\<close>: repeated slashes and inner dots disappear, a leading dot stays.\<close>

definition components :: "path \<Rightarrow> component list" where
  "components p =
     (let ps = split_on (\<lambda>c. c = CHR ''/'') p;
          rest = map piece_component (filter (\<lambda>q. q \<noteq> [] \<and> q \<noteq> ''.'') ps) in
      if starts_with p ''/'' then RootDir # rest
      else if hd ps = ''.'' then CurDir # rest
      else rest)"

fun component_str :: "component \<Rightarrow> string" where
  "component_str RootDir = []"
| "component_str CurDir = ''.''"
| "component_str ParentDir = ''..''"
| "component_str (Normal n) = n"

definition display_path :: "component list \<Rightarrow> path" where
  "display_path cs = (if cs = [RootDir] then ''/'' else join ''/'' (map component_str cs))"

definition path_absolute :: "component list \<Rightarrow> bool" where
  "path_absolute cs \<longleftrightarrow> cs \<noteq> [] \<and> hd cs = RootDir"

definition path_join :: "component list \<Rightarrow> component list \<Rightarrow> component list" where
  "path_join base p = (if path_absolute p then p else base @ filter (\<lambda>c. c \<noteq> CurDir) p)"

text \<open>One turn of the loop of \<open>normalize_lexically\<close>.\<close>

fun normal_step :: "component list \<Rightarrow> component \<Rightarrow> component list" where
  "normal_step out ParentDir =
     (if out = [RootDir] then out
      else if out = [] \<or> last out = ParentDir then out @ [ParentDir]
      else butlast out)"
| "normal_step out CurDir = out"
| "normal_step out RootDir = [RootDir]"
| "normal_step out (Normal n) = out @ [Normal n]"

definition normalize_lexically :: "component list \<Rightarrow> component list" where
  "normalize_lexically p = foldl normal_step [] p"

subsection \<open>Containment\<close>

datatype file_meta = Missing | Plain | Symlink

record fs =
  fs_canonicalize :: "component list \<Rightarrow> string + component list"
  fs_metadata :: "component list \<Rightarrow> file_meta"
  fs_read_link :: "component list \<Rightarrow> string + component list"

datatype containment = Inside "component list" | Outside
  | SymlinkEscape "component list" "component list"

text \<open>Where a link leads: its canonical form, or, when it dangles, its text resolved lexically.\<close>

definition link_target :: "fs \<Rightarrow> component list \<Rightarrow> string + component list" where
  "link_target f cur =
     (case fs_canonicalize f cur of
        Inr t \<Rightarrow> Inr t
      | Inl _ \<Rightarrow> sum_bind (fs_read_link f cur) (\<lambda>t.
          Inr (normalize_lexically (path_join (butlast cur) t))))"

fun walk_prefixes ::
  "fs \<Rightarrow> component list \<Rightarrow> component list \<Rightarrow> component list \<Rightarrow> string + containment option" where
  "walk_prefixes f base cur [] = Inr None"
| "walk_prefixes f base cur (c # cs) =
     (case fs_metadata f (cur @ [c]) of
        Symlink \<Rightarrow> sum_bind (link_target f (cur @ [c])) (\<lambda>t.
          if prefix base t then walk_prefixes f base (cur @ [c]) cs
          else Inr (Some (SymlinkEscape (cur @ [c]) t)))
      | Plain \<Rightarrow> walk_prefixes f base (cur @ [c]) cs
      | Missing \<Rightarrow> Inr None)"

definition strip_components :: "component list \<Rightarrow> component list \<Rightarrow> component list option" where
  "strip_components p base = (if prefix base p then Some (drop (length base) p) else None)"

definition check_containment :: "fs \<Rightarrow> component list \<Rightarrow> component list \<Rightarrow> string + containment" where
  "check_containment f base p =
     sum_bind (fs_canonicalize f base) (\<lambda>base_canon.
     let lex = normalize_lexically (path_join base_canon p);
         found = (case strip_components lex base_canon of
             Some r \<Rightarrow> Some r
           | None \<Rightarrow> strip_components lex (normalize_lexically base)) in
     case found of
       None \<Rightarrow> Inr Outside
     | Some rel \<Rightarrow>
         if ParentDir \<in> set rel then Inr Outside
         else sum_bind (walk_prefixes f base_canon base_canon rel) (\<lambda>esc.
           Inr (case esc of Some e \<Rightarrow> e | None \<Rightarrow> Inside rel)))"

definition ensure_inside :: "fs \<Rightarrow> component list \<Rightarrow> component list \<Rightarrow> string + component list" where
  "ensure_inside f base p =
     sum_bind (check_containment f base p) (\<lambda>c.
     case c of
       Inside rel \<Rightarrow> Inr rel
     | Outside \<Rightarrow> Inl (display_path p @ '' is outside '' @ display_path base)
     | SymlinkEscape link t \<Rightarrow> Inl (display_path p @ '' escapes '' @ display_path base
         @ '' through symlink '' @ display_path link @ '' -> '' @ display_path t))"

subsection \<open>Environment and sandbox\<close>

record environment_config =
  en_inherit :: "string list"
  en_set :: "(string, string) btmap"
  en_inherit_all :: bool

definition env_matches :: "string \<Rightarrow> string \<Rightarrow> bool" where
  "env_matches pat n =
     (case strip_suffix pat ''*'' of Some p \<Rightarrow> starts_with n p | None \<Rightarrow> pat = n)"

definition build_env ::
  "environment_config \<Rightarrow> (string \<times> string) list \<Rightarrow> (string, string) btmap \<Rightarrow> (string, string) btmap" where
  "build_env c parent extra =
     bt_extend (bt_extend
       (foldl (\<lambda>m (k, v). if en_inherit_all c \<or> list_ex (\<lambda>p. env_matches p k) (en_inherit c)
          then bt_insert k v m else m) [] parent)
       (en_set c)) extra"

datatype sandbox_kind = SandboxNone | Bubblewrap | Container | MacosProfile

definition sandbox_wrap :: "sandbox_kind \<Rightarrow> string list \<Rightarrow> string + string list" where
  "sandbox_wrap k argv =
     (case k of
        SandboxNone \<Rightarrow> Inr argv
      | _ \<Rightarrow> Inl ''sandbox backend is not implemented in this version; use `none` (see docs/SECURITY_MODEL.md)'')"

subsection \<open>What normalisation means\<close>

text \<open>The directory a walk along the components reaches from a stack of names: \<open>..\<close> leaves the last
  directory, and at the top stays there.\<close>

fun follow :: "string list \<Rightarrow> component \<Rightarrow> string list" where
  "follow st ParentDir = butlast st"
| "follow st CurDir = st"
| "follow st RootDir = []"
| "follow st (Normal n) = st @ [n]"

definition resolve_path :: "string list \<Rightarrow> component list \<Rightarrow> string list" where
  "resolve_path st p = foldl follow st p"

lemma resolve_snoc: "resolve_path st (p @ [c]) = follow (resolve_path st p) c"
  by (simp add: resolve_path_def)

lemma resolve_append: "resolve_path st (p @ q) = foldl follow (resolve_path st p) q"
  by (simp add: resolve_path_def)

text \<open>Normal form: an optional root, or leading \<open>..\<close>, then names only.\<close>

definition is_normal :: "component list \<Rightarrow> bool" where
  "is_normal p \<longleftrightarrow> CurDir \<notin> set p \<and>
     (\<exists>k ns. p = RootDir # map Normal ns \<or> p = replicate k ParentDir @ map Normal ns)"

lemma normal_step_normal:
  assumes "is_normal out"
  shows "is_normal (normal_step out c)"
proof -
  obtain k ns where o: "out = RootDir # map Normal ns \<or> out = replicate k ParentDir @ map Normal ns"
    using assms by (auto simp: is_normal_def)
  have nrm: "is_normal (RootDir # map Normal ms)" "is_normal (replicate j ParentDir @ map Normal ms)" for ms j
    by (auto simp: is_normal_def)
  show ?thesis
  proof (cases c)
    case RootDir
    then show ?thesis using nrm(1) [of "[]"] by simp
  next
    case CurDir
    then show ?thesis using assms by simp
  next
    case (Normal n)
    then show ?thesis using o nrm(1) [of "ns @ [n]"] nrm(2) [of k "ns @ [n]"] by auto
  next
    case ParentDir
    show ?thesis
    proof (cases ns rule: rev_cases)
      case Nil
      then have "out = [RootDir] \<or> out = replicate k ParentDir" using o by simp
      then show ?thesis
        using ParentDir nrm(1) [of "[]"] nrm(2) [of "Suc k" "[]"]
        by (cases k) (auto simp: replicate_append_same split: if_splits)
    next
      case (snoc ms m)
      then show ?thesis
        using o ParentDir nrm(1) [of ms] nrm(2) [of k ms] by (auto simp: butlast_append)
    qed
  qed
qed

lemma normal_step_follows:
  assumes "is_normal out"
  shows "resolve_path st (normal_step out c) = follow (resolve_path st out) c"
proof (cases c)
  case ParentDir
  show ?thesis
  proof (cases out rule: rev_cases)
    case (snoc init x)
    show ?thesis
    proof (cases x)
      case RootDir
      then have "RootDir \<in> set out" using snoc by simp
      then obtain ns where "out = RootDir # map Normal ns" using assms by (auto simp: is_normal_def)
      then have "out = [RootDir]" using snoc RootDir by (cases ns rule: rev_cases) auto
      then show ?thesis using ParentDir by (simp add: resolve_path_def)
    qed (use assms snoc ParentDir in \<open>auto simp: resolve_append is_normal_def\<close>)
  qed (use ParentDir in \<open>simp add: resolve_path_def\<close>)
qed (auto simp: resolve_snoc resolve_path_def)

lemma normalize_follows:
  "is_normal out \<Longrightarrow> is_normal (foldl normal_step out p) \<and>
     resolve_path st (foldl normal_step out p) = foldl follow (resolve_path st out) p"
  by (induction p arbitrary: out) (simp_all add: normal_step_normal normal_step_follows)

text \<open>Lexical normalisation keeps the meaning of a path: from every directory the normalised path
  leads where the path leads, and it has no dot and no \<open>..\<close> but leading ones.\<close>

theorem normalize_keeps_meaning:
  "resolve_path st (normalize_lexically p) = resolve_path st p \<and> is_normal (normalize_lexically p)"
proof -
  have "is_normal []" by (auto simp: is_normal_def)
  then show ?thesis
    using normalize_follows [of "[]" p st] by (simp add: normalize_lexically_def resolve_path_def)
qed

subsection \<open>What containment means\<close>

lemma walk_prefixes_clean:
  assumes "walk_prefixes f base cur rel = Inr None" and "q \<noteq> []" and "prefix q rel"
    and "\<And>r. r \<noteq> [] \<Longrightarrow> prefix r q \<Longrightarrow> fs_metadata f (cur @ r) \<noteq> Missing"
    and "fs_metadata f (cur @ q) = Symlink"
  shows "\<exists>t. link_target f (cur @ q) = Inr t \<and> prefix base t"
  using assms
proof (induction f base cur rel arbitrary: q rule: walk_prefixes.induct)
  case (2 f base cur c cs)
  obtain q' where q: "q = c # q'" and pre: "prefix q' cs" using 2(4,5) by (cases q) auto
  have here: "fs_metadata f (cur @ [c]) \<noteq> Missing" using 2(6) [of "[c]"] q by simp
  have next': "fs_metadata f ((cur @ [c]) @ r) \<noteq> Missing" if "r \<noteq> []" "prefix r q'" for r
    using 2(6) [of "c # r"] q that by simp
  show ?case
  proof (cases "q' = []")
    case True
    then show ?thesis using 2(3,7) q by (cases "link_target f (cur @ [c])") (auto split: if_splits)
  next
    case False
    show ?thesis
    proof (cases "fs_metadata f (cur @ [c])")
      case Plain
      then show ?thesis using 2(1) [OF Plain _ False pre next'] 2(3,7) q by simp
    next
      case Symlink
      then obtain t where "link_target f (cur @ [c]) = Inr t" "prefix base t"
        "walk_prefixes f base (cur @ [c]) cs = Inr None"
        using 2(3) by (cases "link_target f (cur @ [c])") (auto split: if_splits)
      then show ?thesis using 2(2) [OF Symlink _ _ False pre next'] 2(7) q by simp
    qed (use here in simp)
  qed
qed simp

lemma walk_not_inside: "walk_prefixes f base cur rel \<noteq> Inr (Some (Inside r))"
proof (induction f base cur rel rule: walk_prefixes.induct)
  case (2 f base cur c cs)
  then show ?case
    by (cases "link_target f (cur @ [c])") (auto split: file_meta.splits)
qed simp

lemma walk_inside:
  "sum_bind (walk_prefixes f b c x) (\<lambda>esc. Inr (case esc of None \<Rightarrow> Inside x | Some e \<Rightarrow> e)) = Inr (Inside rel)
   \<Longrightarrow> x = rel \<and> walk_prefixes f b c rel = Inr None"
  using walk_not_inside [of f b c x]
  by (cases "walk_prefixes f b c x") (auto split: option.splits)


text \<open>A worktree with a link inside it and one that leaves it.\<close>

definition sample_fs :: fs where
  "sample_fs = \<lparr>
     fs_canonicalize = (\<lambda>p. if p = components ''/wt/inner'' then Inr (components ''/wt/src'')
       else if p = components ''/wt/link'' then Inr (components ''/outside'') else Inr p),
     fs_metadata = (\<lambda>p. if p = components ''/wt/inner'' \<or> p = components ''/wt/link'' then Symlink
       else if p = components ''/wt/inner/ok.rs'' then Plain else Missing),
     fs_read_link = (\<lambda>p. Inl ''not a link'') \<rparr>"


subsection \<open>What a child process sees\<close>

lemma bt_extend_lookup:
  "bt_ok m \<Longrightarrow> bt_ok n \<Longrightarrow>
   bt_get (bt_extend m n) k = (case bt_get n k of Some v \<Rightarrow> Some v | None \<Rightarrow> bt_get m k)"
proof (induction n arbitrary: m)
  case (Cons p n)
  obtain a b where p: "p = (a, b)" by (cases p)
  have "bt_ok n" "bt_get n a = None"
    using Cons.prems(2) p by (auto simp: bt_ok_def bt_get_def map_of_eq_None_iff)
  moreover have "bt_get (p # n) k = (if k = a then Some b else bt_get n k)" using p by (simp add: bt_get_def)
  moreover have "bt_extend m (p # n) = bt_extend (bt_insert a b m) n" using p by (simp add: bt_extend_def)
  ultimately show ?case
    using Cons.IH [OF bt_ok_insert [OF Cons.prems(1)], of a b] Cons.prems(1)
    by (auto simp: bt_get_insert split: option.splits)
qed (simp add: bt_extend_def bt_get_def)

lemma bt_extend_ok: "bt_ok m \<Longrightarrow> bt_ok (bt_extend m n)"
  unfolding bt_extend_def by (rule bt.ok_puts)

lemma inherited_lookup:
  fixes m :: "(string, string) btmap"
  assumes "bt_ok m"
  shows "bt_ok (foldl (\<lambda>m (k, v). if f k then bt_insert k v m else m) m ps) \<and>
    bt_get (foldl (\<lambda>m (k, v). if f k then bt_insert k v m else m) m ps) k
      = (case if f k then map_of (rev ps) k else None of Some v \<Rightarrow> Some v | None \<Rightarrow> bt_get m k)"
  using assms
proof (induction ps arbitrary: m)
  case (Cons p ps)
  obtain a b where p: "p = (a, b)" by (cases p)
  then show ?case
    using Cons.IH [of "if f a then bt_insert a b m else m"] Cons.prems
    by (auto simp: bt_ok_insert bt_get_insert map_add_def split: option.splits)
qed simp

text \<open>C38. A child process sees a variable of the parent only when the allowlist names it (or everything
  is inherited); configured values replace inherited ones, and the orchestrator's replace both.\<close>

theorem env_allowlisted:
  assumes "bt_ok extra" and "bt_ok (en_set c)"
  shows "bt_get (build_env c parent extra) k =
    (case bt_get extra k of Some v \<Rightarrow> Some v | None \<Rightarrow>
     case bt_get (en_set c) k of Some v \<Rightarrow> Some v | None \<Rightarrow>
       if en_inherit_all c \<or> (\<exists>p \<in> set (en_inherit c). env_matches p k) then map_of (rev parent) k else None)"
proof -
  let ?f = "\<lambda>k. en_inherit_all c \<or> list_ex (\<lambda>p. env_matches p k) (en_inherit c)"
  let ?base = "foldl (\<lambda>m (k, v). if ?f k then bt_insert k v m else m) ([] :: (string, string) btmap) parent"
  have base: "bt_ok ?base" "bt_get ?base k = (if ?f k then map_of (rev parent) k else None)"
    using inherited_lookup [of "[]" ?f parent k]
    by (auto simp: bt.ok_emp bt.get_emp split: option.splits)
  show ?thesis
    unfolding build_env_def bt_extend_lookup [OF bt_extend_ok [OF base(1)] assms(1)]
      bt_extend_lookup [OF base(1) assms(2)] base(2)
    by (auto simp: list_ex_iff split: option.split)
qed

definition sample_environment :: environment_config where
  "sample_environment = \<lparr> en_inherit = [''PATH'', ''LC_*''], en_set = [(''CI'', ''1'')], en_inherit_all = False \<rparr>"

theorem env_allowlisted_witness:
  "bt_get (build_env sample_environment [(''PATH'', ''/bin''), (''LC_ALL'', ''C''), (''API_KEY'', ''sk'')]
     [(''HERDR_ORCH_RUN_ID'', ''r'')]) ''API_KEY'' = None"
proof -
  have "bt_ok [(''HERDR_ORCH_RUN_ID'', ''r'')]" "bt_ok (en_set sample_environment)"
    by (simp_all add: bt_ok_def sample_environment_def)
  from env_allowlisted [OF this] show ?thesis
    by (simp add: bt_get_def sample_environment_def env_matches_def strip_suffix_def ends_with_def starts_with_def)
qed

end
