(* ===== verification/Outputs.thy ===== *)
theory Outputs
  imports Workflow Checks Security "HOL-Library.Multiset"
begin

text \<open>
  The structured results agents write, as far as the engine trusts them: plans, acceptance,
  conformance and contract results of \<open>src/epic/mod.rs\<close> and reviews of \<open>src/engine/mod.rs\<close>, with the
  prompts that ask for them. JSON itself is parsed by \<open>serde_json\<close> (\<open>parse\<close>), and its derived readers
  turn it into plans (\<open>read_plan\<close>, \<open>read_tasks\<close>).
\<close>

subsection \<open>Plans\<close>

record verification =
  vf_checks :: "string list"
  vf_commands :: "string list list"
  vf_manual :: "string list"

record plan_task =
  k_key :: string
  k_title :: string
  k_description :: string
  k_acceptance :: "string list"
  k_verification :: verification
  k_depends_on :: "string list"
  k_adr_refs :: "string list"
  k_workflow :: "string option"
  k_risk :: "string option"
  k_scope :: "string list"

record plan =
  p_decision_summary :: string
  p_tasks :: "plan_task list"
  p_out_of_scope :: "string list"
  p_open_questions :: "string list"

record plan_rules =
  pl_max_tasks :: nat
  pl_workflows :: "string list"
  pl_existing_keys :: "string list"

definition valid_key :: "string \<Rightarrow> bool" where
  "valid_key k \<longleftrightarrow> k \<noteq> [] \<and> length k \<le> 16 \<and> list_all word_char k"

text \<open>One pass over the tasks left, in order; a task placed early in the pass counts for later ones.\<close>

fun topo_pass :: "string list \<Rightarrow> string list \<Rightarrow> plan_task list \<Rightarrow> string list \<times> plan_task list" where
  "topo_pass keys placed [] = (placed, [])"
| "topo_pass keys placed (t # ts) =
     (if list_all (\<lambda>d. d \<notin> set keys \<or> d \<in> set placed) (k_depends_on t)
      then topo_pass keys (placed @ [k_key t]) ts
      else case topo_pass keys placed ts of (d, l) \<Rightarrow> (d, t # l))"

lemma topo_pass_length: "topo_pass keys d ts = (d', l) \<Longrightarrow> length l \<le> length ts"
  by (induction keys d ts arbitrary: d' l rule: topo_pass.induct)
     (auto split: if_splits prod.splits intro: le_SucI)

definition em_dash :: string where
  "em_dash = [CHR 0xE2, CHR 0x80, CHR 0x94]"

definition arrow :: string where
  "arrow = [CHR 0x20, CHR 0xE2, CHR 0x86, CHR 0x92, CHR 0x20]"

function topo_loop :: "string list \<Rightarrow> string list \<Rightarrow> plan_task list \<Rightarrow> string + string list" where
  "topo_loop keys placed left =
     (if left = [] then Inr placed
      else case topo_pass keys placed left of (d, l) \<Rightarrow>
        if length l = length left then Inl (join arrow (map k_key l))
        else topo_loop keys d l)"
  by pat_completeness auto
termination
  by (relation "measure (\<lambda>(k, d, l). length l)")
     (simp, metis (no_types, lifting) case_prod_conv in_measure le_neq_implies_less topo_pass_length)

declare topo_loop.simps [simp del]

definition topo_order :: "plan_task list \<Rightarrow> string + string list" where
  "topo_order tasks = topo_loop (map k_key tasks) [] tasks"

text \<open>\<open>validate_plan\<close> collects every problem; \<open>key_errors\<close> is its loop over the tasks, with the keys
  seen so far.\<close>

definition says :: "bool \<Rightarrow> string \<Rightarrow> string list" where
  "says b e = (if b then [e] else [])"

definition bad_command :: "string list \<Rightarrow> bool" where
  "bad_command c \<longleftrightarrow> c = [] \<or> trim (hd c) = [] \<or> list_ex (\<lambda>a. str_contains a ''{{'') c"

definition task_errors :: "matchers \<Rightarrow> plan_rules \<Rightarrow> string list \<Rightarrow> plan_task \<Rightarrow> string list" where
  "task_errors mt rules seen t =
     says (\<not> valid_key (k_key t)) (''task key '' @ debug_str (k_key t) @ '' must be 1-16 letters, digits, '-' or '_'' @ [squote])
     @ says (k_key t \<in> set seen \<or> k_key t \<in> set (pl_existing_keys rules)) (''duplicate task key '' @ debug_str (k_key t))
     @ says (trim (k_title t) = []) (k_key t @ '': empty title'')
     @ says (list_all (\<lambda>a. trim a = []) (k_acceptance t)) (k_key t @ '': needs at least one acceptance criterion'')
     @ (case k_workflow t of
          Some w \<Rightarrow> says (w \<notin> set (pl_workflows rules)) (k_key t @ '': unknown workflow '' @ debug_str w
              @ '' (known: '' @ join '', '' (pl_workflows rules) @ '')'')
        | None \<Rightarrow> [])
     @ concat (map (\<lambda>c. says (c \<notin> set NAMED_CHECKS) (k_key t @ '': unknown named check '' @ debug_str c
           @ '' (known: [\"tests\", \"lint\", \"security\"])''))
         (vf_checks (k_verification t)))
     @ concat (map (\<lambda>c. says (bad_command c)
           (k_key t @ '': verification commands must be non-empty argv arrays without templates''))
         (vf_commands (k_verification t)))
     @ concat (map (\<lambda>g. says (\<not> glob_valid mt g \<or> starts_with g ''/'' \<or> str_contains g ''..'')
           (k_key t @ '': invalid scope glob '' @ debug_str g)) (k_scope t))"

fun key_errors :: "matchers \<Rightarrow> plan_rules \<Rightarrow> string list \<Rightarrow> plan_task list \<Rightarrow> string list" where
  "key_errors mt rules seen [] = []"
| "key_errors mt rules seen (t # ts) = task_errors mt rules seen t @ key_errors mt rules (k_key t # seen) ts"

definition dep_errors :: "plan_rules \<Rightarrow> string list \<Rightarrow> plan_task \<Rightarrow> string list" where
  "dep_errors rules keys t =
     concat (map (\<lambda>d.
         says (d \<notin> set keys \<and> d \<notin> set (pl_existing_keys rules)) (k_key t @ '': depends on unknown task '' @ debug_str d)
         @ says (d = k_key t) (k_key t @ '': depends on itself'')) (k_depends_on t))"

definition plan_errors :: "matchers \<Rightarrow> plan_rules \<Rightarrow> plan \<Rightarrow> string list" where
  "plan_errors mt rules p =
     (let ts = p_tasks p;
          errs = says (ts = []) ''plan has no tasks''
            @ says (pl_max_tasks rules < length ts) (''plan has '' @ nat_str (length ts) @ '' tasks; at most ''
                @ nat_str (pl_max_tasks rules) @ '' are allowed (epic.max_tasks) '' @ em_dash @ '' merge small tasks'')
            @ key_errors mt rules [] ts
            @ concat (map (dep_errors rules (map k_key ts)) ts) in
      if errs = [] then (case topo_order ts of Inl cycle \<Rightarrow> [''dependency cycle: '' @ cycle] | Inr _ \<Rightarrow> [])
      else errs)"

definition validate_plan :: "matchers \<Rightarrow> plan \<Rightarrow> plan_rules \<Rightarrow> string + unit" where
  "validate_plan mt p rules =
     (let errs = plan_errors mt rules p in
      if errs \<noteq> [] then Inl (''invalid plan:'' @ nl @ ''- '' @ join (nl @ ''- '') errs) else Inr ())"

definition parse_plan :: "(string \<Rightarrow> string + plan) \<Rightarrow> matchers \<Rightarrow> string \<Rightarrow> plan_rules \<Rightarrow> string + plan" where
  "parse_plan read_plan mt t rules =
     sum_bind (with_context ''plan is not valid JSON of the expected shape'' (read_plan (trim t))) (\<lambda>p.
     sum_bind (validate_plan mt p rules) (\<lambda>_. Inr p))"

subsection \<open>Acceptance\<close>

definition some_or :: "string \<Rightarrow> 'a option \<Rightarrow> string + 'a" where
  "some_or e x = (case x of Some v \<Rightarrow> Inr v | None \<Rightarrow> Inl e)"

definition json_arr_at :: "json \<Rightarrow> string \<Rightarrow> json list option" where
  "json_arr_at v k = Option.bind (json_get v k) json_as_array"

definition json_str_at :: "json \<Rightarrow> string \<Rightarrow> string option" where
  "json_str_at v k = Option.bind (json_get v k) json_as_str"

text \<open>The loop over the judgements, with the indices seen so far.\<close>

fun check_criteria :: "nat \<Rightarrow> nat list \<Rightarrow> json list \<Rightarrow> string + nat list" where
  "check_criteria i seen [] = Inr seen"
| "check_criteria i seen (c # cs) =
     sum_bind (some_or (''criterion '' @ nat_str i @ '' has no numeric index'')
         (Option.bind (json_get c ''index'') json_as_u64)) (\<lambda>idx.
     sum_bind (some_or (''criterion '' @ nat_str idx @ '' has no status'') (json_str_at c ''status'')) (\<lambda>st.
     if st \<notin> set [''met'', ''not_met'', ''unverifiable''] then
       Inl (''criterion '' @ nat_str idx @ '' has unknown status '' @ debug_str st @ '' (met, not_met, unverifiable)'')
     else if idx \<in> set seen then Inl (''criterion '' @ nat_str idx @ '' is judged twice'')
     else check_criteria (i + 1) (idx # seen) cs))"

definition count_status :: "string \<Rightarrow> json list \<Rightarrow> nat" where
  "count_status st cs = length (filter (\<lambda>c. json_index c ''status'' = JStr st) cs)"

definition check_acceptance :: "nat \<Rightarrow> json \<Rightarrow> string + json" where
  "check_acceptance expected v =
     sum_bind (some_or ''acceptance output has no `criteria` array'' (json_arr_at v ''criteria'')) (\<lambda>crit.
     sum_bind (some_or ''acceptance output has no string `verdict`'' (json_str_at v ''verdict'')) (\<lambda>verdict.
     if verdict \<notin> set [''approved'', ''changes_requested''] then
       Inl (''unknown acceptance verdict '' @ debug_str verdict)
     else
       sum_bind (check_criteria 0 [] crit) (\<lambda>seen.
       if 0 < expected \<and> set seen \<noteq> set [1..<Suc expected] then
         Inl (''expected a judgement for each of the '' @ nat_str expected @ '' criteria (indices 1..='' @ nat_str expected
           @ ''), got {'' @ join '', '' (map nat_str (sort seen)) @ ''}'')
       else
         let unmet = count_status ''not_met'' crit in
         if 0 < unmet \<and> verdict = ''approved'' then
           Inl (''verdict `approved` with '' @ nat_str unmet @ '' criterion(s) not met'')
         else Inr v)))"

definition parse_acceptance :: "(string \<Rightarrow> string + json) \<Rightarrow> string \<Rightarrow> nat \<Rightarrow> string + json" where
  "parse_acceptance parse t expected =
     sum_bind (with_context ''acceptance output is not valid JSON'' (parse (trim t))) (check_acceptance expected)"

text \<open>\<open>unmet_feedback\<close>; an index is reduced by one with \<open>wrapping_sub\<close> before the lookup.\<close>

definition unmet_line :: "string list \<Rightarrow> json \<Rightarrow> string" where
  "unmet_line criteria c =
     (let i = (case json_as_u64 (json_index c ''index'') of Some n \<Rightarrow> n | None \<Rightarrow> 0);
          k = (i + (2 ^ 64 - 1)) mod 2 ^ 64;
          t = (if k < length criteria then criteria ! k else []) in
      nat_str i @ ''. '' @ t @ nl @ ''   reviewer: ''
      @ (case json_as_str (json_index c ''evidence'') of Some s \<Rightarrow> s | None \<Rightarrow> []) @ nl)"

definition json_items :: "json \<Rightarrow> json list" where
  "json_items v = (case json_as_array v of Some a \<Rightarrow> a | None \<Rightarrow> [])"

definition unmet_feedback :: "json \<Rightarrow> string list \<Rightarrow> string" where
  "unmet_feedback v criteria = ''These acceptance criteria are not met yet:'' @ nl
     @ concat (map (unmet_line criteria)
         (filter (\<lambda>c. json_index c ''status'' = JStr ''not_met'') (json_items (json_index v ''criteria''))))"

subsection \<open>Contracts, conformance, reviews\<close>

fun json_as_object :: "json \<Rightarrow> (string \<times> json) list option" where
  "json_as_object (JObj m) = Some m"
| "json_as_object _ = None"

text \<open>\<open>from_value::<Vec<String>>\<close>.\<close>

fun json_strings :: "json list \<Rightarrow> string list option" where
  "json_strings [] = Some []"
| "json_strings (v # vs) =
     (case (json_as_str v, json_strings vs) of (Some s, Some ss) \<Rightarrow> Some (s # ss) | _ \<Rightarrow> None)"

definition json_string_list :: "json \<Rightarrow> string list option" where
  "json_string_list v = Option.bind (json_as_array v) json_strings"

definition ORCH_DIR :: string where
  "ORCH_DIR = ''.herdr-orchestrator''"

text \<open>A path a contract names: relative, without \<open>..\<close>, not in the orchestrator's directory, and an
  existing file inside the worktree (\<open>is_file\<close> is the file system's answer).\<close>

definition check_contract_file ::
  "fs \<Rightarrow> (component list \<Rightarrow> bool) \<Rightarrow> component list \<Rightarrow> json \<Rightarrow> string + unit" where
  "check_contract_file f is_file worktree v =
     sum_bind (some_or ''`files` must be paths'' (json_as_str v)) (\<lambda>p.
     let rel = components p in
     if path_absolute rel \<or> ParentDir \<in> set rel \<or> starts_with p ORCH_DIR then
       Inl (''contract file '' @ debug_str p @ '' must be a relative path inside the worktree'')
     else
       sum_bind (check_containment f worktree rel) (\<lambda>c.
       case c of
         Inside r \<Rightarrow> require (is_file (path_join worktree r))
           (''contract file '' @ debug_str p @ '' does not exist in the worktree (or escapes it)'')
       | _ \<Rightarrow> Inl (''contract file '' @ debug_str p @ '' does not exist in the worktree (or escapes it)'')))"

definition check_contract_argv :: "json \<Rightarrow> string + unit" where
  "check_contract_argv v =
     (case json_get v ''check'' of
        None \<Rightarrow> Inr ()
      | Some c \<Rightarrow> sum_bind (some_or ''`check` must be an argv array of strings'' (json_string_list c)) (\<lambda>argv.
          require (\<not> bad_command argv) ''`check` must be a non-empty argv array without templates''))"

definition missing_criteria :: "(string \<times> json) list \<Rightarrow> nat \<Rightarrow> nat list" where
  "missing_criteria m criteria =
     filter (\<lambda>i. case Option.bind (bt_get m (nat_str i)) json_as_array of None \<Rightarrow> True | Some a \<Rightarrow> a = [])
       [1..<Suc criteria]"

definition check_contract ::
  "fs \<Rightarrow> (component list \<Rightarrow> bool) \<Rightarrow> component list \<Rightarrow> nat \<Rightarrow> json \<Rightarrow> string + json" where
  "check_contract f is_file worktree criteria v =
     sum_bind (some_or ''contract output has no `files` array'' (json_arr_at v ''files'')) (\<lambda>files.
     if files = [] then Inl ''contract lists no test files''
     else if 50 < length files then
       Inl (''contract lists '' @ nat_str (length files) @ '' files; keep it small (at most 50)'')
     else
       sum_bind (check_all (check_contract_file f is_file worktree) files) (\<lambda>_.
       sum_bind (check_contract_argv v) (\<lambda>_.
       if 0 < criteria then
         sum_bind (some_or ''contract output has no `criteria_map` object''
             (Option.bind (json_get v ''criteria_map'') json_as_object)) (\<lambda>m.
         let missing = missing_criteria m criteria in
         if missing \<noteq> [] then Inl (''acceptance criteria ['' @ join '', '' (map nat_str missing)
             @ ''] have no test in `criteria_map`'')
         else Inr v)
       else Inr v)))"

definition parse_contract ::
  "(string \<Rightarrow> string + json) \<Rightarrow> fs \<Rightarrow> (component list \<Rightarrow> bool) \<Rightarrow> string \<Rightarrow> nat \<Rightarrow> component list
     \<Rightarrow> string + json" where
  "parse_contract parse f is_file t criteria worktree =
     sum_bind (with_context ''contract output is not valid JSON'' (parse (trim t)))
       (check_contract f is_file worktree criteria)"

definition check_point :: "nat \<times> json \<Rightarrow> string + unit" where
  "check_point ip = (case ip of (i, p) \<Rightarrow>
     sum_bind (some_or (''point '' @ nat_str i @ '' has no status'') (json_str_at p ''status'')) (\<lambda>st.
     if st \<notin> set [''covered'', ''partial'', ''missing''] then
       Inl (''point '' @ nat_str i @ '' has unknown status '' @ debug_str st @ '' (covered, partial, missing)'')
     else require (json_str_at p ''point'' \<noteq> None) (''point '' @ nat_str i @ '' has no `point` text'')))"

definition parse_conformance ::
  "(string \<Rightarrow> string + json) \<Rightarrow> (json \<Rightarrow> string + plan_task list) \<Rightarrow> string \<Rightarrow> string + json" where
  "parse_conformance parse read_tasks t =
     sum_bind (with_context ''conformance output is not valid JSON'' (parse (trim t))) (\<lambda>v.
     sum_bind (some_or ''conformance output has no `points` array'' (json_arr_at v ''points'')) (\<lambda>points.
     sum_bind (check_all check_point (enumerate 0 points)) (\<lambda>_.
     case json_get v ''followups'' of
       None \<Rightarrow> Inr v
     | Some f \<Rightarrow> sum_bind (with_context ''`followups` must be plan tasks'' (read_tasks f)) (\<lambda>_. Inr v))))"

definition json_line_ok :: "json \<Rightarrow> bool" where
  "json_line_ok l \<longleftrightarrow> l = JNull \<or> json_as_u64 l \<noteq> None"

definition check_finding :: "nat \<times> json \<Rightarrow> string + unit" where
  "check_finding ip = (case ip of (i, f) \<Rightarrow>
     sum_bind (some_or (''finding '' @ nat_str i @ '' has no severity'') (json_str_at f ''severity'')) (\<lambda>sev.
     if sev \<notin> set [''critical'', ''high'', ''medium'', ''low'', ''info''] then
       Inl (''finding '' @ nat_str i @ '' has unknown severity '' @ debug_str sev)
     else if json_str_at f ''description'' = None then Inl (''finding '' @ nat_str i @ '' has no description'')
     else (case json_get f ''line'' of
         Some l \<Rightarrow> require (json_line_ok l) (''finding '' @ nat_str i @ '' has a non-numeric line'')
       | None \<Rightarrow> Inr ())))"

definition check_review :: "json \<Rightarrow> string + json" where
  "check_review v =
     sum_bind (some_or ''review output has no string `verdict`'' (json_str_at v ''verdict'')) (\<lambda>verdict.
     if verdict \<notin> set [''approved'', ''changes_requested'', ''rejected''] then
       Inl (''unknown review verdict '' @ debug_str verdict)
     else
       sum_bind (some_or ''review output has no `findings` array'' (json_arr_at v ''findings'')) (\<lambda>findings.
       sum_bind (check_all check_finding (enumerate 0 findings)) (\<lambda>_. Inr v)))"

definition parse_review :: "(string \<Rightarrow> string + json) \<Rightarrow> string \<Rightarrow> string + json" where
  "parse_review parse t =
     sum_bind (with_context ''review output is not valid JSON'' (parse (trim t))) check_review"

subsection \<open>Schedules\<close>

text \<open>A schedule of a plan: all its tasks, each one after the tasks of the plan it depends on.\<close>

definition schedule :: "plan_task list \<Rightarrow> plan_task list \<Rightarrow> bool" where
  "schedule ts ps \<longleftrightarrow> mset ps = mset ts \<and>
     (\<forall>i < length ps. \<forall>x \<in> set (k_depends_on (ps ! i)).
        x \<in> k_key ` set ts \<longrightarrow> x \<in> k_key ` set (take i ps))"

lemma topo_pass_places:
  "topo_pass keys d ts = (d', l) \<Longrightarrow>
   \<exists>ps. d' = d @ map k_key ps \<and> mset ps + mset l = mset ts \<and>
     (\<forall>i < length ps. \<forall>x \<in> set (k_depends_on (ps ! i)).
        x \<in> set keys \<longrightarrow> x \<in> set d \<or> x \<in> k_key ` set (take i ps))"
proof (induction keys d ts arbitrary: d' l rule: topo_pass.induct)
  case (2 keys d t ts)
  show ?case
  proof (cases "list_all (\<lambda>x. x \<notin> set keys \<or> x \<in> set d) (k_depends_on t)")
    case True
    then obtain ps where ps: "d' = (d @ [k_key t]) @ map k_key ps" "mset ps + mset l = mset ts"
      "\<forall>i < length ps. \<forall>x \<in> set (k_depends_on (ps ! i)).
        x \<in> set keys \<longrightarrow> x \<in> set (d @ [k_key t]) \<or> x \<in> k_key ` set (take i ps)"
      using 2 by auto
    have "\<forall>i < length (t # ps). \<forall>x \<in> set (k_depends_on ((t # ps) ! i)).
        x \<in> set keys \<longrightarrow> x \<in> set d \<or> x \<in> k_key ` set (take i (t # ps))"
      using ps(3) True by (auto simp: nth_Cons list_all_iff split: nat.splits)
    then show ?thesis using ps(1,2) by (intro exI [of _ "t # ps"]) auto
  next
    case False
    then obtain l' where l: "l = t # l'" "topo_pass keys d ts = (d', l')"
      using 2(3) by (auto split: prod.splits)
    from 2(2) [OF False l(2)] show ?thesis using l(1) by auto
  qed
qed simp

lemma topo_pass_stuck:
  "topo_pass keys d ts = (d', l) \<Longrightarrow> length l = length ts \<Longrightarrow>
   d' = d \<and> (\<forall>t \<in> set ts. \<exists>x \<in> set (k_depends_on t). x \<in> set keys \<and> x \<notin> set d)"
proof (induction keys d ts arbitrary: d' l rule: topo_pass.induct)
  case (2 keys d t ts)
  show ?case
  proof (cases "list_all (\<lambda>x. x \<notin> set keys \<or> x \<in> set d) (k_depends_on t)")
    case True
    then show ?thesis using 2(3,4) topo_pass_length [of keys "d @ [k_key t]" ts d' l] by simp
  next
    case False
    then obtain l' where "l = t # l'" "topo_pass keys d ts = (d', l')"
      using 2(3) by (auto split: prod.splits)
    then show ?thesis using 2(2) [OF False] 2(4) False by (auto simp: list_all_iff)
  qed
qed simp

lemma topo_loop_schedules:
  "topo_loop keys d left = Inr ks \<Longrightarrow>
   \<exists>ps. ks = d @ map k_key ps \<and> mset ps = mset left \<and>
     (\<forall>i < length ps. \<forall>x \<in> set (k_depends_on (ps ! i)).
        x \<in> set keys \<longrightarrow> x \<in> set d \<or> x \<in> k_key ` set (take i ps))"
proof (induction keys d left rule: topo_loop.induct)
  case (1 keys d left)
  show ?case
  proof (cases "left = []")
    case False
    obtain e l where p: "topo_pass keys d left = (e, l)" by fastforce
    have "topo_loop keys e l = Inr ks" "length l \<noteq> length left"
      using 1(2) False p by (auto simp: topo_loop.simps [of keys d left] split: if_splits)
    with 1(1) [OF False p [symmetric]] p obtain qs where q: "ks = e @ map k_key qs" "mset qs = mset l"
      "\<forall>i < length qs. \<forall>x \<in> set (k_depends_on (qs ! i)).
        x \<in> set keys \<longrightarrow> x \<in> set e \<or> x \<in> k_key ` set (take i qs)" by auto
    obtain ps where ps: "e = d @ map k_key ps" "mset ps + mset l = mset left"
      "\<forall>i < length ps. \<forall>x \<in> set (k_depends_on (ps ! i)).
        x \<in> set keys \<longrightarrow> x \<in> set d \<or> x \<in> k_key ` set (take i ps)"
      using topo_pass_places [OF p] by blast
    have "\<forall>i < length (ps @ qs). \<forall>x \<in> set (k_depends_on ((ps @ qs) ! i)).
        x \<in> set keys \<longrightarrow> x \<in> set d \<or> x \<in> k_key ` set (take i (ps @ qs))"
    proof (intro allI impI ballI)
      fix i x
      assume i: "i < length (ps @ qs)" "x \<in> set (k_depends_on ((ps @ qs) ! i))" "x \<in> set keys"
      show "x \<in> set d \<or> x \<in> k_key ` set (take i (ps @ qs))"
      proof (cases "i < length ps")
        case True
        then show ?thesis using i ps(3) by (auto simp: nth_append)
      next
        case out: False
        then have "x \<in> set e \<or> x \<in> k_key ` set (take (i - length ps) qs)"
          using i q(3) by (auto simp: nth_append)
        then show ?thesis using ps(1) out by auto
      qed
    qed
    then show ?thesis using q ps by (intro exI [of _ "ps @ qs"]) simp
  qed (use 1 in \<open>auto simp: topo_loop.simps\<close>)
qed

lemma topo_loop_stuck:
  "topo_loop keys d left = Inl e \<Longrightarrow> (\<And>t. t \<in> set ts \<Longrightarrow> k_key t \<in> set d \<or> t \<in> set left) \<Longrightarrow>
   set left \<subseteq> set ts \<Longrightarrow>
   \<exists>S. S \<noteq> {} \<and> S \<subseteq> set ts \<and>
     (\<forall>t \<in> S. \<exists>x \<in> set (k_depends_on t). x \<in> set keys \<and> (\<forall>u \<in> set ts. k_key u = x \<longrightarrow> u \<in> S))"
proof (induction keys d left rule: topo_loop.induct)
  case (1 keys d left)
  have ne: "left \<noteq> []" using 1(2) by (auto simp: topo_loop.simps [of keys d left])
  obtain d' l where p: "topo_pass keys d left = (d', l)" by fastforce
  show ?case
  proof (cases "length l = length left")
    case True
    then have "\<forall>t \<in> set left. \<exists>x \<in> set (k_depends_on t). x \<in> set keys \<and> x \<notin> set d"
      using topo_pass_stuck [OF p] by simp
    then have "\<forall>t \<in> set left. \<exists>x \<in> set (k_depends_on t). x \<in> set keys \<and> (\<forall>u \<in> set ts. k_key u = x \<longrightarrow> u \<in> set left)"
      using 1(3) by (metis (mono_tags))
    then show ?thesis using 1(4) ne by (intro exI [of _ "set left"]) simp
  next
    case False
    obtain ps where ps: "d' = d @ map k_key ps" "mset ps + mset l = mset left"
      using topo_pass_places [OF p] by blast
    then have sets: "set ps \<union> set l = set left" by (metis set_mset_mset set_mset_union)
    have "topo_loop keys d' l = Inl e" using 1(2) ne p False by (auto simp: topo_loop.simps [of keys d left])
    moreover have "k_key t \<in> set d' \<or> t \<in> set l" if "t \<in> set ts" for t
      using 1(3) [OF that] ps(1) sets by auto
    ultimately show ?thesis using 1(1) [OF ne p [symmetric] False] 1(4) sets by blast
  qed
qed

lemma stuck_no_schedule:
  assumes "S \<noteq> {}" and "S \<subseteq> set ts"
    and "\<forall>t \<in> S. \<exists>x \<in> set (k_depends_on t). x \<in> k_key ` set ts \<and> (\<forall>u \<in> set ts. k_key u = x \<longrightarrow> u \<in> S)"
  shows "\<not> schedule ts ps"
proof
  assume s: "schedule ts ps"
  then have eq: "set ps = set ts" unfolding schedule_def by (metis set_mset_mset)
  let ?i = "LEAST i. i < length ps \<and> ps ! i \<in> S"
  obtain k where "k < length ps" "ps ! k \<in> S" using assms(1,2) eq by (metis ex_in_conv in_set_conv_nth subsetD)
  then have i: "?i < length ps \<and> ps ! ?i \<in> S" by (intro LeastI [of "\<lambda>i. i < length ps \<and> ps ! i \<in> S" k]) simp
  obtain x where x: "x \<in> set (k_depends_on (ps ! ?i))" "x \<in> k_key ` set ts"
    "\<forall>u \<in> set ts. k_key u = x \<longrightarrow> u \<in> S" using assms(3) i by blast
  then have "x \<in> k_key ` set (take ?i ps)" using s i unfolding schedule_def by blast
  then obtain u where u: "u \<in> set (take ?i ps)" "k_key u = x" by auto
  then obtain j where j: "j < ?i" "ps ! j = u" using i by (auto simp: in_set_conv_nth)
  have "u \<in> set ts" using u(1) eq in_set_takeD by fast
  then have "u \<in> S" using x(3) u(2) by blast
  then have "?i \<le> j" using j i by (intro Least_le) auto
  then show False using j by simp
qed

text \<open>C39. Tasks are put in dependency order exactly when such an order exists: a result is a schedule of
  all the tasks, and a refusal means the dependencies run in a cycle, so there is none.\<close>

theorem topo_order_complete:
  "case topo_order ts of
     Inr ks \<Rightarrow> (\<exists>ps. schedule ts ps \<and> ks = map k_key ps)
   | Inl _ \<Rightarrow> (\<forall>ps. \<not> schedule ts ps)"
proof (cases "topo_order ts")
  case (Inr ks)
  then show ?thesis
    using topo_loop_schedules [of "map k_key ts" "[]" ts ks] by (auto simp: topo_order_def schedule_def)
next
  case (Inl e)
  then obtain S where "S \<noteq> {}" "S \<subseteq> set ts"
    "\<forall>t \<in> S. \<exists>x \<in> set (k_depends_on t). x \<in> k_key ` set ts \<and> (\<forall>u \<in> set ts. k_key u = x \<longrightarrow> u \<in> S)"
    using topo_loop_stuck [of "map k_key ts" "[]" ts e ts] by (auto simp: topo_order_def)
  then show ?thesis using stuck_no_schedule Inl by auto
qed

subsection \<open>What an accepted plan and an accepted judgement promise\<close>

lemma says_empty [simp]: "says b e = [] \<longleftrightarrow> \<not> b"
  by (simp add: says_def)

lemma key_errors_empty:
  "key_errors mt rules seen ts = [] \<Longrightarrow>
   (\<forall>t \<in> set ts. task_errors mt rules [] t = [] \<and> k_key t \<notin> set seen) \<and> distinct (map k_key ts)"
proof (induction mt rules seen ts rule: key_errors.induct)
  case (2 mt rules seen t ts)
  then show ?case by (auto simp: task_errors_def)
qed simp

text \<open>An accepted plan is one the scheduler can carry out: between one and the allowed number of
  tasks with distinct new keys, each with a title, a criterion, known workflows and checks and
  runnable commands, depending on known tasks only, and schedulable as a whole.\<close>

theorem accepted_plan_schedulable:
  assumes "validate_plan mt p rules = Inr ()"
  shows "p_tasks p \<noteq> [] \<and> length (p_tasks p) \<le> pl_max_tasks rules \<and>
    distinct (map k_key (p_tasks p)) \<and> (\<exists>ps. schedule (p_tasks p) ps) \<and>
    (\<forall>t \<in> set (p_tasks p).
       valid_key (k_key t) \<and> k_key t \<notin> set (pl_existing_keys rules) \<and>
       trim (k_title t) \<noteq> [] \<and> (\<exists>a \<in> set (k_acceptance t). trim a \<noteq> []) \<and>
       (\<forall>w. k_workflow t = Some w \<longrightarrow> w \<in> set (pl_workflows rules)) \<and>
       set (vf_checks (k_verification t)) \<subseteq> set NAMED_CHECKS \<and>
       (\<forall>c \<in> set (vf_commands (k_verification t)). \<not> bad_command c) \<and>
       (\<forall>d \<in> set (k_depends_on t). d \<noteq> k_key t \<and>
          (d \<in> k_key ` set (p_tasks p) \<or> d \<in> set (pl_existing_keys rules))))"
proof -
  let ?ts = "p_tasks p"
  have "plan_errors mt rules p = []"
    using assms by (auto simp: validate_plan_def Let_def split: if_splits)
  then have e: "?ts \<noteq> []" "length ?ts \<le> pl_max_tasks rules" "key_errors mt rules [] ?ts = []"
    "\<forall>t \<in> set ?ts. dep_errors rules (map k_key ?ts) t = []" and o: "\<exists>ks. topo_order ?ts = Inr ks"
    by (auto simp: plan_errors_def Let_def not_less split: if_splits sum.splits)
  have t: "\<forall>t \<in> set ?ts. task_errors mt rules [] t = []" "distinct (map k_key ?ts)"
    using key_errors_empty [OF e(3)] by auto
  have "\<exists>ps. schedule ?ts ps"
    using o topo_loop_schedules [of "map k_key ?ts" "[]" ?ts] by (auto simp: topo_order_def schedule_def)
  moreover have "\<forall>t \<in> set ?ts. \<forall>d \<in> set (k_depends_on t). d \<noteq> k_key t \<and>
      (d \<in> k_key ` set ?ts \<or> d \<in> set (pl_existing_keys rules))"
    using e(4) by (auto simp: dep_errors_def)
  ultimately show ?thesis
    using e(1,2) t by (auto simp: task_errors_def list_all_iff)
qed

lemma check_criteria_indices:
  "check_criteria i seen cs = Inr out \<Longrightarrow>
   set out = set seen \<union> {n. \<exists>c \<in> set cs. json_as_u64 (json_index c ''index'') = Some n} \<and>
   (\<forall>c \<in> set cs. \<exists>st \<in> set [''met'', ''not_met'', ''unverifiable'']. json_index c ''status'' = JStr st)"
proof (induction i seen cs arbitrary: out rule: check_criteria.induct)
  case (2 i seen c cs)
  obtain idx where idx: "Option.bind (json_get c ''index'') json_as_u64 = Some idx"
    using 2(2) by (auto simp: some_or_def split: option.splits)
  obtain st where st: "json_str_at c ''status'' = Some st"
    using 2(2) idx by (auto simp: some_or_def split: option.splits)
  have in_set: "st \<in> set [''met'', ''not_met'', ''unverifiable'']" and
    step: "idx \<notin> set seen" "check_criteria (i + 1) (idx # seen) cs = Inr out"
    using 2(2) idx st by (auto simp: some_or_def split: if_splits)
  have c: "json_as_u64 (json_index c ''index'') = Some idx" "json_index c ''status'' = JStr st"
    using idx st by (auto simp: json_index_def json_str_at_def bind_eq_Some_conv elim: json_as_str.elims)
  from 2(1) idx st in_set step show ?case using c
    by (auto simp: some_or_def)
qed simp

lemma judged_row:
  assumes "set seen = set [1..<Suc n]" and "i < n" and crit: "json_index v ''criteria'' = JArr crit"
    and "check_criteria 0 [] crit = Inr seen"
  shows "\<exists>c \<in> set crit. judgement_for (Some v) i = Some c"
proof -
  have "Suc i \<in> set seen" unfolding assms(1) using assms(2) by (simp del: upt_Suc)
  then obtain c where "c \<in> set crit" "json_as_u64 (json_index c ''index'') = Some (i + 1)"
    using check_criteria_indices [OF assms(4)] by auto
  then have "find (\<lambda>x. json_as_u64 (json_index x ''index'') = Some (i + 1)) crit \<noteq> None"
    unfolding find_None_iff by blast
  then obtain d where d: "find (\<lambda>x. json_as_u64 (json_index x ''index'') = Some (i + 1)) crit = Some d" by auto
  then have "d \<in> set crit" using find_SomeD by fast
  then show ?thesis using d crit by (auto simp: judgement_for_def)
qed

text \<open>An acceptance result the engine takes over judges every criterion: the rows shown with an
  approval request and written into a pull request have no criterion left unreviewed, and with the
  verdict \<open>approved\<close> none is marked as not met.\<close>

theorem accepted_judgement_complete:
  assumes "check_acceptance (length criteria) v = Inr w" and "row \<in> set (acceptance_rows criteria (Some w))"
  shows "aw_status row \<in> set [''met'', ''not_met'', ''unverifiable''] \<and>
    (json_str_at w ''verdict'' = Some ''approved'' \<longrightarrow> aw_status row \<noteq> ''not_met'')"
proof -
  obtain i where i: "i < length criteria"
    "aw_status row = row_text (judgement_for (Some w) i) ''status'' ''not reviewed''"
    using assms(2) by (auto simp: acceptance_rows_def in_set_enumerate_eq)
  obtain crit verdict seen where c: "json_arr_at v ''criteria'' = Some crit" "json_str_at v ''verdict'' = Some verdict"
    "check_criteria 0 [] crit = Inr seen" and w: "w = v"
    and s: "set seen = set [1..<Suc (length criteria)]"
    and u: "count_status ''not_met'' crit = 0 \<or> verdict \<noteq> ''approved''"
    using assms(1) i(1)
    by (cases "json_arr_at v ''criteria''"; cases "json_str_at v ''verdict''";
        cases "check_criteria 0 [] (the (json_arr_at v ''criteria''))")
       (auto simp: check_acceptance_def some_or_def Let_def split: if_splits)
  have arr: "json_index v ''criteria'' = JArr crit"
    using c(1) by (auto simp: json_arr_at_def json_index_def bind_eq_Some_conv elim: json_as_array.elims)
  obtain x where x: "x \<in> set crit" "judgement_for (Some v) i = Some x"
    using judged_row [OF s i(1) arr c(3)] by blast
  obtain st where st: "st \<in> set [''met'', ''not_met'', ''unverifiable'']" "json_index x ''status'' = JStr st"
    using check_criteria_indices [OF c(3)] x(1) by blast
  have "aw_status row = st" using i(2) w x(2) st(2) by (simp add: row_text_def)
  moreover have "st \<noteq> ''not_met''" if "verdict = ''approved''"
    using u that x(1) st(2) by (auto simp: count_status_def filter_empty_conv)
  ultimately show ?thesis using st(1) w c(2) by auto
qed

subsection \<open>Examples\<close>

definition sample_plan_task :: "string \<Rightarrow> string list \<Rightarrow> plan_task" where
  "sample_plan_task k deps = \<lparr> k_key = k, k_title = ''do '' @ k, k_description = [], k_acceptance = [''works''],
     k_verification = \<lparr> vf_checks = [''tests''], vf_commands = [], vf_manual = [] \<rparr>, k_depends_on = deps,
     k_adr_refs = [], k_workflow = None, k_risk = None, k_scope = [] \<rparr>"

definition sample_plan :: plan where
  "sample_plan = \<lparr> p_decision_summary = [], p_tasks = [sample_plan_task ''T2'' [''T1''], sample_plan_task ''T1'' []],
     p_out_of_scope = [], p_open_questions = [] \<rparr>"

definition sample_rules :: plan_rules where
  "sample_rules = \<lparr> pl_max_tasks = 5, pl_workflows = [''epic-task''], pl_existing_keys = [] \<rparr>"

definition sample_matchers :: matchers where
  "sample_matchers = \<lparr> glob_valid = (\<lambda>p. True), glob_match = (=), regex_valid = (\<lambda>p. True), regex_match = (=) \<rparr>"

theorem accepted_plan_schedulable_witness:
  "(\<exists>ps. schedule (p_tasks sample_plan) ps) \<and>
   topo_order (p_tasks sample_plan) = Inr [''T1'', ''T2'']"
proof -
  have "validate_plan sample_matchers sample_plan sample_rules = Inr ()" by code_simp
  moreover have "topo_order (p_tasks sample_plan) = Inr [''T1'', ''T2'']" by code_simp
  ultimately show ?thesis using accepted_plan_schedulable by blast
qed

definition sample_judgement :: json where
  "sample_judgement = JObj [(''criteria'', JArr [JObj [(''index'', JInt 1), (''status'', JStr ''met'')]]),
     (''verdict'', JStr ''approved'')]"

theorem accepted_judgement_complete_witness:
  "aw_status (hd (acceptance_rows [''returns 429''] (Some sample_judgement))) \<noteq> ''not_met''"
proof -
  have "check_acceptance (length [''returns 429'']) sample_judgement = Inr sample_judgement"
    by (simp add: check_acceptance_def sample_judgement_def some_or_def json_arr_at_def json_str_at_def
        bt_get_def Let_def count_status_def json_index_def)
  moreover have "hd (acceptance_rows [''returns 429''] (Some sample_judgement))
      \<in> set (acceptance_rows [''returns 429''] (Some sample_judgement))"
    by (simp add: acceptance_rows_def enumerate_eq_zip)
  moreover have "json_str_at sample_judgement ''verdict'' = Some ''approved''"
    by (simp add: json_str_at_def sample_judgement_def bt_get_def)
  ultimately show ?thesis using accepted_judgement_complete by blast
qed

end
