(* ===== verification/Prompts.thy ===== *)
theory Prompts
  imports Outputs
begin

text \<open>
  The text an agent is sent, \<open>compose_prompt\<close> and \<open>orchestrator_instructions\<close> of \<open>src/engine/mod.rs\<close>, and
  the settings of the policy hook, \<open>src/policies/agent_hook.rs\<close>.
\<close>

subsection \<open>Prompts\<close>

fun output_format :: "agent_output \<Rightarrow> string" where
  "output_format OReview =
     ''{\"verdict\": \"approved\" | \"changes_requested\" | \"rejected\",'' @ nl @
     '' \"summary\": \"<one paragraph>\",'' @ nl @
     '' \"findings\": [{\"severity\": \"critical|high|medium|low|info\", \"file\": \"<path>\", \"line\": <number or null>,'' @
     nl @
     ''               \"description\": \"<what is wrong>\", \"recommendation\": \"<how to fix>\"}]}''"
| "output_format OPlan =
     ''{\"decision_summary\": \"<the ADR's decision in two sentences>\",'' @ nl @
     '' \"tasks\": [{\"key\": \"T1\", \"title\": \"<short imperative title>\", \"description\": \"<what to do and where>\",'' @
     nl @
     ''            \"acceptance\": [\"<criterion a reviewer can check against code and tests>\", \"...\"],'' @
     nl @
     ''            \"verification\": {\"checks\": [\"tests\" | \"lint\" | \"security\"], \"commands\": [[\"<argv>\", \"...\"]], \"manual\": [\"<only what a human can check>\"]},'' @
     nl @
     ''            \"depends_on\": [\"<keys of tasks that must land first>\"], \"adr_refs\": [\"<section of the ADR>\"],'' @
     nl @
     ''            \"scope\": [\"<path globs this task will change, e.g. src/webhooks/**>\"], \"risk\": \"low\" | \"medium\" | \"high\"}],'' @
     nl @
     '' \"out_of_scope\": [\"<what the ADR defers or excludes>\"],'' @ nl @
     '' \"open_questions\": [\"<questions a human must answer>\"]}''"
| "output_format OAcceptance =
     ''{\"criteria\": [{\"index\": <1-based number of the criterion>, \"status\": \"met\" | \"not_met\" | \"unverifiable\",'' @
     nl @
     ''               \"evidence\": \"<test name, file:line, or command and its result>\"}],'' @ nl @
     '' \"verdict\": \"approved\" | \"changes_requested\",'' @ nl @
     '' \"summary\": \"<one paragraph>\"}''"
| "output_format OConformance =
     ''{\"summary\": \"<one paragraph>\",'' @ nl @
     '' \"points\": [{\"point\": \"<one statement from the ADR's Decision or Consequences>\", \"status\": \"covered\" | \"partial\" | \"missing\",'' @
     nl @
     ''             \"evidence\": \"<files, tests or PRs that show it>\"}],'' @ nl @
     '' \"followups\": [<a task object in the same format as a plan task, for each gap; key F1, F2, ...>]}''"
| "output_format OContract =
     ''{\"files\": [\"<test files you wrote, relative to the worktree>\"],'' @ nl @
     '' \"check\": [\"<argv of the command that runs exactly these tests>\", \"...\"],'' @ nl @
     '' \"criteria_map\": {\"1\": [\"<test name>\"], \"2\": [\"...\"]},'' @ nl @
     '' \"summary\": \"<what the tests pin down>\"}''"
| "output_format OSummary =
     ''{\"summary\": \"<what you changed and why>\", \"status\": \"done\" | \"blocked\", \"notes\": \"<optional>\",'' @
     nl @
     '' \"notes_for_others\": [\"<optional: short facts other agents working in this repository should know '' @
     em_dash @ '' a decision you made, a trap you found, a change in progress>\"]}''"


definition orchestrator_instructions ::
  "run \<Rightarrow> string \<Rightarrow> nat \<Rightarrow> path \<Rightarrow> path \<Rightarrow> agent_output \<Rightarrow> string" where
  "orchestrator_instructions r sid n worktree output_file outp =
     ''Orchestrator instructions (herdr-orchestrator run '' @ display_name r @ '' step `'' @ sid @ ''`, attempt ''
     @ nat_str n @ ''):'' @ nl
     @ ''- Working directory: '' @ worktree @ '' (an isolated git worktree on branch ''
     @ (case g_branch (r_git r) of Some b \<Rightarrow> b | None \<Rightarrow> ''?'') @ ''). Stay inside it.'' @ nl
     @ ''- Do not commit, push, open pull requests or rewrite git history; the orchestrator does that.'' @ nl
     @ ''- When you are finished, write exactly one JSON object to this file (create directories as needed).'' @ nl
     @ ''Use your file-writing tool for it, not a shell command, so no permission prompt is needed:'' @ nl
     @ ''Output file: '' @ output_file @ nl
     @ ''Format:'' @ nl @ output_format outp @ nl
     @ ''- After writing the file, stop and wait.''"

definition prompt_rule :: string where
  "prompt_rule = nl @ nl @ ''---'' @ nl @ nl"

definition compose_prompt ::
  "string option \<Rightarrow> string \<Rightarrow> run \<Rightarrow> string \<Rightarrow> nat \<Rightarrow> path \<Rightarrow> path \<Rightarrow> agent_output \<Rightarrow> string" where
  "compose_prompt skill body r sid n worktree output_file outp =
     (case skill of Some s \<Rightarrow> trim s @ prompt_rule | None \<Rightarrow> [])
     @ trim body @ prompt_rule
     @ orchestrator_instructions r sid n worktree output_file outp"

subsection \<open>The policy hook of Claude\<close>

definition quotable :: "char \<Rightarrow> bool" where
  "quotable c \<longleftrightarrow> is_ascii_alphanumeric c \<or> c \<in> set ''/._-:=@+,''"

text \<open>\<open>sh_quote\<close>: a quote inside becomes quote, backslash, quote, quote.\<close>

definition quote_char :: "char \<Rightarrow> string" where
  "quote_char c = (if c = squote then [squote, backslash, squote, squote] else [c])"

definition sh_quote :: "string \<Rightarrow> string" where
  "sh_quote s = (if s \<noteq> [] \<and> list_all quotable s then s
                 else [squote] @ concat (map quote_char s) @ [squote])"

definition HOOK_MATCHER :: string where
  "HOOK_MATCHER = ''Bash|Write|Edit|MultiEdit|NotebookEdit|Read''"

definition claude_settings :: "string \<Rightarrow> json" where
  "claude_settings command =
     JObj [(''hooks'', JObj [(''PreToolUse'', JArr [JObj
       [(''hooks'', JArr [JObj [(''command'', JStr command), (''timeout'', JInt 30), (''type'', JStr ''command'')]]),
        (''matcher'', JStr HOOK_MATCHER)]])])]"

end
