(* ===== verification/Driver.thy ===== *)
theory Driver
  imports Prompts
begin

text \<open>
  The run driver's state and its small operations, \<open>src/engine/driver.rs\<close>. The driver holds the run
  document, the task, the workflow snapshot, the configuration and policy, the approval requests of
  the store, and the list of effects it has had on the outside (\<open>d_log\<close>). Everything the driver asks
  of the outside (clock, random identifiers, git, processes, agents, humans) is answered by \<open>ext\<close>,
  a record of functions of a counter that grows with each question, so every statement about all
  \<open>ext\<close> is about all behaviours of the outside. Writing the run document succeeds.

  A wait (for a human decision, or while the run is paused) is given by the finite list of what its
  polls see; when the list ends before the wait does, the process has been stopped (\<open>STOPPED\<close>).
\<close>

subsection \<open>Outcomes and effects\<close>

datatype step_outcome =
    OutSucceeded (out_output: "string option")
  | OutSkipped string
  | OutFailed (out_reason: string) (out_feedback: string)
  | OutBlocked string
  | OutNeedsHuman string
  | OutCancelled

datatype effect =
    EvSave run
  | EvApproval approval_request
  | EvAudit string "string option"
  | EvPolicy "string option" "string option" policy_decision
  | EvNotify string
  | EvRefresh
  | EvSpawn string "string list" path "(string, string) btmap"
  | EvAgent string string
  | EvCommit string
  | EvPush string string
  | EvPr string string
  | EvWorktree path string
  | EvClosePanes
  | EvRemoveWorktree path
  | EvWrite path string
  | EvRemoveFile path

definition STOPPED :: string where
  "STOPPED = ''the process was stopped''"

subsection \<open>Configuration\<close>

record run_config =
  cf_default_runner :: string
  cf_max_retries :: nat
  cf_max_agents :: nat
  cf_max_runtime :: duration
  cf_agent_timeout :: duration
  cf_command_timeout :: duration
  cf_approval_timeout :: "duration option"
  cf_max_cost :: "f64 option"
  cf_max_tokens :: "nat option"
  cf_auto_commit :: bool
  cf_commit_message :: string
  cf_remote :: string
  cf_manage_exclude :: bool
  cf_cleanup_on_success :: bool
  cf_close_panes :: bool
  cf_draft_pr :: bool
  cf_pr_base :: "string option"
  cf_push_before_pr :: bool
  cf_test_only_retry :: bool
  cf_test_paths :: "string list"
  cf_checks :: "(string, string list) btmap"
  cf_plan_max_tasks :: nat
  cf_excerpt_head :: nat
  cf_excerpt_tail :: nat
  cf_feedback_max_bytes :: nat
  cf_memory_history :: bool
  cf_claude_hook :: bool
  cf_session_logs :: bool
  cf_environment :: environment_config
  cf_sandbox :: sandbox_kind

subsection \<open>The outside\<close>

text \<open>What one poll of a wait for an approval sees: a cancel request, a decision a human recorded just
  before (approve or deny, who, note), the time, and a decision recorded after the poll has read the
  request.\<close>

type_synonym human_decision = "bool \<times> string option \<times> string option"

record poll =
  po_cancel :: bool
  po_decision :: "human_decision option"
  po_now :: timestamp
  po_late_decision :: "human_decision option"

record process_output =
  po_exit_code :: "int option"
  po_timed_out :: bool
  po_cancelled :: bool
  po_stdout :: string
  po_stderr :: string
  po_millis :: nat

definition process_success :: "process_output \<Rightarrow> bool" where
  "process_success o1 \<longleftrightarrow> po_exit_code o1 = Some 0 \<and> \<not> po_timed_out o1 \<and> \<not> po_cancelled o1"

datatype agent_event =
    Started agent_binding | PromptSending | PromptSent | AgentBlocked string | Unblocked
  | Stuck string | Progressing

datatype agent_end =
    EndCompleted | EndFailed string | EndTimedOut | EndCancelled | EndLost string | EndStalled string

record agent_result =
  ao_end :: agent_end
  ao_binding :: agent_binding
  ao_transcript :: string
  ao_output_file :: "string option"
  ao_exit_code :: "int option"
  ao_usage :: usage_record

datatype runner_mode = ModePane | ModeHeadless | ModeShell | ModeFake

record runner_profile =
  rp_name :: string
  rp_mode :: runner_mode
  rp_kind :: "string option"
  rp_pane_args :: "string list"
  rp_headless :: "string list option"
  rp_usage_format :: string
  rp_interrupt_keys :: "string list"
  rp_env_inherit :: "string list"
  rp_fake_scenario :: "string option"
  rp_model :: "string option"
  rp_effort :: "string option"
  rp_advisor :: "string option"
  rp_env :: "(string, string) btmap"

record ext =
  x_now :: "nat \<Rightarrow> timestamp"
  x_id :: "nat \<Rightarrow> string"
  x_cancel :: "nat \<Rightarrow> bool"
  x_cancel_reason :: "nat \<Rightarrow> string option"
  x_pause :: "nat \<Rightarrow> (bool \<times> bool) list"
  x_late :: "nat \<Rightarrow> bool"
  x_remaining :: "nat \<Rightarrow> duration"
  x_polls :: "nat \<Rightarrow> poll list"
  x_exists :: "nat \<Rightarrow> path \<Rightarrow> bool"
  x_file :: "nat \<Rightarrow> path \<Rightarrow> string option"
  x_write :: "nat \<Rightarrow> string + unit"
  x_plan_names :: "nat \<Rightarrow> string + (path \<times> string)"
  x_rev_parse :: "nat \<Rightarrow> string + string"
  x_ensure_excluded :: "nat \<Rightarrow> string + bool"
  x_add_worktree :: "nat \<Rightarrow> string + bool"
  x_seed_contract :: "nat \<Rightarrow> string + contract"
  x_head :: "nat \<Rightarrow> string option"
  x_dirty :: "nat \<Rightarrow> string + bool"
  x_changed :: "nat \<Rightarrow> string + diff_stat"
  x_added_lines :: "nat \<Rightarrow> changed_file \<Rightarrow> string list"
  x_commit_all :: "nat \<Rightarrow> string + string option"
  x_push :: "nat \<Rightarrow> string + unit"
  x_remove_worktree :: "nat \<Rightarrow> string + unit"
  x_workspace :: "nat \<Rightarrow> (string + string) option"
  x_herdr_required :: bool
  x_fs :: "nat \<Rightarrow> fs"
  x_is_file :: "nat \<Rightarrow> component list \<Rightarrow> bool"
  x_vars :: "nat \<Rightarrow> (string \<times> string) list"
  x_spawn :: "nat \<Rightarrow> string + nat"
  x_process :: "nat \<Rightarrow> string + process_output"
  x_build :: "nat \<Rightarrow> string \<Rightarrow> string + runner_profile"
  x_skill :: "nat \<Rightarrow> string \<Rightarrow> string + string"
  x_memory :: "nat \<Rightarrow> string option"
  x_slot :: "nat \<Rightarrow> bool"
  x_agent :: "nat \<Rightarrow> agent_event list \<times> (string + agent_result)"
  x_audit_head :: "nat \<Rightarrow> string option"
  x_epic :: "nat \<Rightarrow> (string \<times> string \<times> string) option"
  x_pane_usage :: "nat \<Rightarrow> usage_record option"
  x_gh_available :: "nat \<Rightarrow> bool"
  x_pr_for_branch :: "nat \<Rightarrow> string + string option"
  x_pr_create :: "nat \<Rightarrow> string + string"
  x_which :: "nat \<Rightarrow> string \<Rightarrow> bool"
  x_workflow_names :: "nat \<Rightarrow> string list"
  x_epic_keys :: "nat \<Rightarrow> string list"
  x_json :: "string \<Rightarrow> string + json"
  x_plan :: "string \<Rightarrow> string + plan"
  x_plan_tasks :: "json \<Rightarrow> string + plan_task list"
  x_plan_value :: "plan \<Rightarrow> json"
  x_pretty :: "json \<Rightarrow> string"
  x_redact :: "string \<Rightarrow> string"
  x_sha :: "string \<Rightarrow> string"
  x_cost_text :: "usage_record \<Rightarrow> f64 \<Rightarrow> string"
  x_fadd :: "f64 \<Rightarrow> f64 \<Rightarrow> f64"
  x_matchers :: matchers
  x_exe :: "string option"
  x_state_dir :: path
  x_config_dir :: path
  x_date :: "timestamp \<Rightarrow> string"

subsection \<open>The driver state\<close>

record driver =
  d_run :: run
  d_task :: task
  d_wf :: workflow
  d_cfg :: run_config
  d_policy :: policy_set
  d_approvals :: "(string, approval_request) btmap"
  d_log :: "effect list"
  d_tick :: nat

type_synonym 'a drv = "(driver, 'a) eff"

definition ask :: "(nat \<Rightarrow> 'a) \<Rightarrow> 'a drv" where
  "ask f = (\<lambda>s. (Inr (f (d_tick s)), s\<lparr> d_tick := Suc (d_tick s) \<rparr>))"

definition emit :: "effect \<Rightarrow> unit drv" where
  "emit e = modify (\<lambda>s. s\<lparr> d_log := d_log s @ [e] \<rparr>)"

definition the_run :: "run drv" where
  "the_run = gets d_run"

definition set_run :: "(run \<Rightarrow> run) \<Rightarrow> unit drv" where
  "set_run f = modify (\<lambda>s. s\<lparr> d_run := f (d_run s) \<rparr>)"

text \<open>A \<open>Result\<close> of the outside, propagated with \<open>?\<close>.\<close>

definition ask_result :: "(nat \<Rightarrow> string + 'a) \<Rightarrow> 'a drv" where
  "ask_result f = bnd (ask f) lift_result"

definition audit :: "string \<Rightarrow> string option \<Rightarrow> unit drv" where
  "audit event sid = emit (EvAudit event sid)"

definition notify :: "string \<Rightarrow> unit drv" where
  "notify title = emit (EvNotify title)"

definition save :: "ext \<Rightarrow> unit drv" where
  "save x =
     bnd (ask (x_now x)) (\<lambda>t.
     andthen (set_run (\<lambda>r. r\<lparr> r_updated_at := t \<rparr>))
       (bnd the_run (\<lambda>r. emit (EvSave r))))"

definition set_status :: "ext \<Rightarrow> run_status \<Rightarrow> string option \<Rightarrow> unit drv" where
  "set_status x next reason =
     bnd the_run (\<lambda>r.
     if \<not> run_can (r_status r) next then
       bail (''illegal run transition '' @ run_status_str (r_status r) @ '' to '' @ run_status_str next)
     else
       bnd (ask (x_now x)) (\<lambda>t.
       andthen (set_run (\<lambda>r. r\<lparr> r_status := next, r_status_reason := reason,
          r_completed_at := (if run_terminal next then Some t else r_completed_at r) \<rparr>))
      (andthen (save x) (emit EvRefresh))))"

text \<open>\<open>exec_mut\<close> panics on an unknown identifier; here that is an error.\<close>

definition the_exec :: "string \<Rightarrow> step_execution drv" where
  "the_exec xid =
     bnd the_run (\<lambda>r. case exec_of r xid of
       None \<Rightarrow> bail ''exec id belongs to this run''
     | Some e \<Rightarrow> ret e)"

definition set_exec :: "string \<Rightarrow> (step_execution \<Rightarrow> step_execution) \<Rightarrow> unit drv" where
  "set_exec xid f = andthen (bnd (the_exec xid) (\<lambda>_. ret ())) (set_run (exec_update xid f))"

definition exec_move :: "timestamp \<Rightarrow> step_status \<Rightarrow> step_execution \<Rightarrow> step_execution" where
  "exec_move t next e = e\<lparr> e_status := next,
     e_started_at := (if next = SRunning \<and> e_started_at e = None then Some t else e_started_at e),
     e_ended_at := (if step_terminal next then Some t else e_ended_at e) \<rparr>"

definition set_exec_status :: "ext \<Rightarrow> string \<Rightarrow> step_status \<Rightarrow> unit drv" where
  "set_exec_status x xid next =
     bnd (the_exec xid) (\<lambda>e.
     if \<not> step_can (e_status e) next then
       bail (''illegal step transition '' @ step_status_str (e_status e) @ '' to '' @ step_status_str next
             @ '' ('' @ e_step_id e @ '')'')
     else
       bnd (ask (x_now x)) (\<lambda>t.
       andthen (set_run (exec_update xid (exec_move t next))) (save x)))"

definition attempts_of :: "run \<Rightarrow> string \<Rightarrow> nat" where
  "attempts_of r sid = length (filter (\<lambda>e. e_step_id e = sid) (r_steps r))"

definition new_exec :: "ext \<Rightarrow> step \<Rightarrow> string drv" where
  "new_exec x st =
     bnd the_run (\<lambda>r.
     bnd (ask (x_id x)) (\<lambda>i.
     let e = (exec_new i (s_id st) (step_kind_of st) (attempts_of r (s_id st) + 1))
           \<lparr> e_feedback_from := map_option (\<lambda>fb. take 12 (x_sha x fb)) (r_pending_feedback r) \<rparr>
     in andthen (set_run (\<lambda>r. r\<lparr> r_steps := r_steps r @ [e] \<rparr>))
        (andthen (save x) (ret i))))"

definition the_worktree :: "path drv" where
  "the_worktree =
     bnd the_run (\<lambda>r. case g_worktree_path (r_git r) of
       None \<Rightarrow> bail ''run has no worktree yet''
     | Some w \<Rightarrow> ret w)"

text \<open>\<open>run_logs_dir\<close> and the log of an execution.\<close>

definition log_path :: "ext \<Rightarrow> run \<Rightarrow> string \<Rightarrow> path" where
  "log_path x r xid = x_state_dir x @ ''/logs/'' @ r_run_id r @ ''/'' @ xid @ ''.log''"

subsection \<open>Template variables and environment\<close>

definition ctx_set_opt :: "string \<Rightarrow> string option \<Rightarrow> context_vars \<Rightarrow> context_vars" where
  "ctx_set_opt k v c = (case v of Some x \<Rightarrow> ctx_set k x c | None \<Rightarrow> c)"

definition previous_output :: "run \<Rightarrow> workflow \<Rightarrow> string \<Rightarrow> string option" where
  "previous_output r w sid =
     (case step_index w sid of
        Some (Suc i) \<Rightarrow> bt_get (r_outputs r) (s_id (w_steps w ! i))
      | _ \<Rightarrow> None)"

definition template_ctx :: "task \<Rightarrow> run \<Rightarrow> workflow \<Rightarrow> string \<Rightarrow> path option \<Rightarrow> context_vars" where
  "template_ctx t r w sid output_file =
     (let c1 = ctx_set ''step.id'' sid (ctx_set ''repo.root'' (r_repo_root r)
           (ctx_set ''run.id'' (r_run_id r) (ctx_set ''task.id'' (t_task_id t)
           (ctx_set ''task_title'' (t_title t) (ctx_set ''task'' (t_description t) [])))));
          c2 = ctx_set_opt ''base_sha'' (g_base_sha (r_git r))
           (ctx_set_opt ''branch'' (g_branch (r_git r))
           (ctx_set_opt ''worktree.path'' (g_worktree_path (r_git r)) c1));
          c3 = ctx_set_opt ''output_file'' output_file c2;
          c4 = ctx_set_opt ''feedback''
            (map_option (\<lambda>fb. ''Feedback from the previous attempt:'' @ nl @ nl @ fb) (r_pending_feedback r)) c3;
          c5 = ctx_set ''contract'' (case r_contract r of Some k \<Rightarrow> contract_describe k | None \<Rightarrow> [])
            (ctx_set ''acceptance'' (acceptance_text t) c4);
          c6 = ctx_set_opt ''previous.output'' (previous_output r w sid) c5
      in foldl (\<lambda>c (k, v). ctx_set (''step.'' @ k @ ''.output'') v c) c6 (r_outputs r))"

definition orch_env :: "run \<Rightarrow> string \<Rightarrow> (string, string) btmap" where
  "orch_env r sid =
     (let m1 = bt_insert ''HERDR_ORCH_REPO_ROOT'' (r_repo_root r)
           (bt_insert ''HERDR_ORCH_STEP_ID'' sid
           (bt_insert ''HERDR_ORCH_TASK_ID'' (r_task_id r)
           (bt_insert ''HERDR_ORCH_RUN_ID'' (r_run_id r) [])))
      in ctx_set_opt ''HERDR_ORCH_BASE_SHA'' (g_base_sha (r_git r))
        (ctx_set_opt ''HERDR_ORCH_BRANCH'' (g_branch (r_git r))
        (ctx_set_opt ''HERDR_ORCH_WORKTREE'' (g_worktree_path (r_git r)) m1)))"

text \<open>Outputs are truncated to 8 KiB.\<close>

definition bounded_output :: "string \<Rightarrow> string" where
  "bounded_output s =
     (let t = trim s in
      if 8 * 1024 < length t
      then take (floor_boundary t (8 * 1024)) t @ nl @ ellipsis @ '' [truncated]''
      else t)"

definition record_output :: "string \<Rightarrow> string \<Rightarrow> unit drv" where
  "record_output sid txt =
     set_run (\<lambda>r. r\<lparr> r_outputs := bt_insert sid (bounded_output txt) (r_outputs r) \<rparr>)"

subsection \<open>Policy records\<close>

definition record_policy ::
  "ext \<Rightarrow> string option \<Rightarrow> string option \<Rightarrow> policy_decision \<Rightarrow> unit drv" where
  "record_policy x sid xid d =
     bnd (ask (x_now x)) (\<lambda>t.
     andthen (set_run (\<lambda>r. r\<lparr> r_policy_decisions := r_policy_decisions r @
        [\<lparr> pr_at = t, pr_step_id = sid, pr_exec_id = xid, pr_subject = pd_subject d, pr_decision = d \<rparr>] \<rparr>))
    (andthen (emit (EvPolicy sid xid d)) (audit ''policy_evaluated'' sid)))"

definition judge :: "ext \<Rightarrow> subject \<Rightarrow> policy_decision drv" where
  "judge x subj = gets (\<lambda>s. evaluate (x_matchers x) (d_policy s) subj)"

subsection \<open>Stopping\<close>

definition stop :: "ext \<Rightarrow> run_status \<Rightarrow> string \<Rightarrow> run_status drv" where
  "stop x status reason =
     andthen (set_status x status (Some reason))
    (andthen (audit (case status of RBlocked \<Rightarrow> ''run_blocked'' | RNeedsHuman \<Rightarrow> ''run_needs_human''
                     | _ \<Rightarrow> ''run_stopped'') None)
    (bnd the_run (\<lambda>r.
     andthen (notify (display_name r @ '' '' @ run_status_str status)) (ret status))))"

definition fail_run :: "ext \<Rightarrow> string \<Rightarrow> run_status drv" where
  "fail_run x reason =
     andthen (set_status x RFailed (Some reason))
    (andthen (audit ''run_failed'' None)
    (bnd the_run (\<lambda>r.
     andthen (notify (display_name r @ '' failed'')) (ret RFailed))))"

text \<open>Closing what is still open: \<open>fail\<close> on an internal error, \<open>cancelled\<close> on a cancel request.\<close>

definition close_failed :: "timestamp \<Rightarrow> string \<Rightarrow> step_execution \<Rightarrow> step_execution" where
  "close_failed t reason e =
     (if step_terminal (e_status e) then e
      else e\<lparr> e_status := SFailed, e_ended_at := Some t,
              e_error := (case e_error e of None \<Rightarrow> Some reason | Some m \<Rightarrow> Some m) \<rparr>)"

definition close_cancelled :: "timestamp \<Rightarrow> step_execution \<Rightarrow> step_execution" where
  "close_cancelled t e =
     (if step_terminal (e_status e) then e
      else e\<lparr> e_status := SCancelled, e_ended_at := Some t \<rparr>)"

definition fail :: "ext \<Rightarrow> string \<Rightarrow> unit drv" where
  "fail x reason =
     bnd the_run (\<lambda>r.
     if run_terminal (r_status r) then ret ()
     else
       bnd (ask (x_now x)) (\<lambda>t.
       andthen (set_run (\<lambda>r. r\<lparr> r_steps := map (close_failed t reason) (r_steps r) \<rparr>))
         (if run_can (r_status r) RFailed then andthen (fail_run x reason) (ret ()) else ret ())))"

definition cancel_pending :: "timestamp \<Rightarrow> approval_request \<Rightarrow> approval_request" where
  "cancel_pending t a =
     (if a_status a = APending then a\<lparr> a_status := ACancelled, a_decided_at := Some t \<rparr> else a)"

definition store_approval :: "approval_request \<Rightarrow> unit drv" where
  "store_approval a =
     andthen (modify (\<lambda>s. s\<lparr> d_approvals := bt_insert (a_approval_id a) a (d_approvals s) \<rparr>))
       (emit (EvApproval a))"

definition cancelled :: "ext \<Rightarrow> string \<Rightarrow> run_status drv" where
  "cancelled x reason =
     bnd (ask (x_now x)) (\<lambda>t.
     andthen (set_run (\<lambda>r. r\<lparr> r_steps := map (close_cancelled t) (r_steps r) \<rparr>))
    (bnd the_run (\<lambda>r.
     andthen (for_each (r_approvals r) (\<lambda>i.
        bnd (gets (\<lambda>s. bt_get (d_approvals s) i)) (\<lambda>found.
        case found of None \<Rightarrow> ret () | Some a \<Rightarrow> store_approval (cancel_pending t a))))
    (bnd (ask (x_cancel_reason x)) (\<lambda>why.
     andthen (set_status x RCancelled (Some (case why of Some w \<Rightarrow> w | None \<Rightarrow> reason)))
    (andthen (audit ''run_cancelled'' None) (ret RCancelled)))))))"

subsection \<open>Preparing the worktree\<close>

definition plan_worktree :: "ext \<Rightarrow> unit drv" where
  "plan_worktree x =
     bnd the_run (\<lambda>r.
     whenb (g_worktree_path (r_git r) = None)
       (bnd (ask_result (x_plan_names x)) (\<lambda>(path, branch).
        bnd (ask_result (x_rev_parse x)) (\<lambda>sha.
        andthen (set_run (\<lambda>r. r\<lparr> r_git := (r_git r)\<lparr> g_branch := Some branch,
           g_worktree_path := Some path, g_base_sha := Some sha \<rparr> \<rparr>))
          (save x)))))"

definition create_worktree :: "ext \<Rightarrow> path \<Rightarrow> string \<Rightarrow> unit drv" where
  "create_worktree x path branch =
     bnd (gets d_cfg) (\<lambda>cfg.
     bnd (gets d_task) (\<lambda>task.
     andthen (if cf_manage_exclude cfg then
         bnd (ask_result (x_ensure_excluded x)) (\<lambda>changed. whenb changed (audit ''git_exclude_updated'' None))
       else ret ())
    (andthen (emit (EvWorktree path branch))
    (bnd (ask_result (x_add_worktree x)) (\<lambda>created.
     bnd the_run (\<lambda>r.
     andthen (whenb (to_eval_case (t_options task) \<noteq> None \<and> r_contract r = None \<and> created)
        (bnd (ask_result (x_seed_contract x)) (\<lambda>c.
         andthen (audit ''contract_locked'' None)
           (set_run (\<lambda>r. r\<lparr> r_contract := Some c \<rparr>)))))
    (bnd (ask (x_head x)) (\<lambda>h.
     andthen (set_run (\<lambda>r. r\<lparr> r_git := (r_git r)\<lparr> g_head_sha := h, g_dirty := Some False \<rparr> \<rparr>))
    (andthen (save x)
    (andthen (audit ''worktree_created'' None)
      (whenb (r_workspace_id r = None)
        (bnd (ask (x_workspace x)) (\<lambda>ws.
         case ws of
           None \<Rightarrow> ret ()
         | Some (Inr w) \<Rightarrow>
             andthen (set_run (\<lambda>r. r\<lparr> r_workspace_id := Some w \<rparr>))
            (andthen (save x) (audit ''herdr_workspace_opened'' None))
         | Some (Inl e) \<Rightarrow>
             if x_herdr_required x then bail (''could not open Herdr workspace: '' @ e) else ret ())))))))))))))"

definition prepare :: "ext \<Rightarrow> run_status option drv" where
  "prepare x =
     andthen (plan_worktree x)
    (bnd the_worktree (\<lambda>path.
     bnd the_run (\<lambda>r.
     let branch = (case g_branch (r_git r) of Some b \<Rightarrow> b | None \<Rightarrow> []) in
     bnd (judge x (subject_default\<lparr> sj_action := Some AWorktreeCreate, sj_branch := Some branch,
        sj_repo := Some (r_repo_root r) \<rparr>)) (\<lambda>d.
     andthen (record_policy x None None d)
      (if pd_decision d = Deny then
         bnd (stop x RBlocked (''policy denied worktree creation: '' @ pd_reason d)) (\<lambda>st. ret (Some st))
       else if r_dry_run r then andthen (audit ''dry_run'' None) (ret None)
       else andthen (create_worktree x path branch) (ret None))))))"

subsection \<open>Completion and failure routing\<close>

definition refresh_git :: "ext \<Rightarrow> unit drv" where
  "refresh_git x =
     bnd the_run (\<lambda>r.
     case (g_worktree_path (r_git r), g_base_sha (r_git r)) of
       (Some w, Some b) \<Rightarrow>
         bnd (ask (x_exists x)) (\<lambda>there.
         whenb (\<not> r_dry_run r \<and> there w)
           (bnd (ask (x_changed x)) (\<lambda>ds.
            bnd (ask (x_head x)) (\<lambda>h.
            bnd (ask (x_dirty x)) (\<lambda>di.
            set_run (\<lambda>r. r\<lparr> r_diff_stat := (case ds of Inr y \<Rightarrow> Some y | Inl _ \<Rightarrow> None),
              r_git := (r_git r)\<lparr> g_head_sha := h,
                g_dirty := (case di of Inr y \<Rightarrow> Some y | Inl _ \<Rightarrow> None) \<rparr> \<rparr>))))))
     | _ \<Rightarrow> ret ())"

definition complete :: "ext \<Rightarrow> run_status drv" where
  "complete x =
     andthen (refresh_git x)
    (andthen (set_status x RSucceeded None)
    (andthen (audit ''run_completed'' None)
    (bnd the_run (\<lambda>r.
     bnd (gets d_cfg) (\<lambda>cfg.
     andthen (notify (display_name r @ '' done''))
    (andthen (whenb (cf_close_panes cfg) (emit EvClosePanes))
    (andthen (whenb (cf_cleanup_on_success cfg \<and> r_pr_url r = None \<and> r_variant_count r = 1)
        (case g_worktree_path (r_git r) of
           None \<Rightarrow> ret ()
         | Some w \<Rightarrow>
             andthen (emit (EvRemoveWorktree w))
             (bnd (ask (x_remove_worktree x)) (\<lambda>res.
              case res of Inr _ \<Rightarrow> audit ''worktree_removed'' None | Inl _ \<Rightarrow> ret ()))))
      (ret RSucceeded))))))))"

definition retry_feedback :: "on_failure \<Rightarrow> string \<Rightarrow> string \<Rightarrow> string \<Rightarrow> string option" where
  "retry_feedback f sid reason feedback =
     (if of_feedback f then
        Some (''The `'' @ sid @ ''` step failed: '' @ reason @ nl @ nl @ feedback)
      else None)"

text \<open>\<open>handle_failure\<close>: \<open>Some\<close> status when the run stops, \<open>None\<close> when it goes on.\<close>

definition handle_failure :: "ext \<Rightarrow> step \<Rightarrow> string \<Rightarrow> string \<Rightarrow> run_status option drv" where
  "handle_failure x st reason feedback =
     (if s_continue_on_failure st then
        andthen (audit ''step_failure_ignored'' (Some (s_id st)))
       (andthen (record_output (s_id st) feedback)
       (andthen (set_run (\<lambda>r. r\<lparr> r_cursor := r_cursor r + 1 \<rparr>))
       (andthen (save x) (ret None))))
      else case s_on_failure st of
        None \<Rightarrow> bnd (fail_run x (''step `'' @ s_id st @ ''` failed: '' @ reason)) (\<lambda>n. ret (Some n))
      | Some f \<Rightarrow>
        bnd the_run (\<lambda>r.
        bnd (gets d_cfg) (\<lambda>cfg.
        bnd (gets d_wf) (\<lambda>w.
        let used = (case bt_get (r_retry_counts r) (s_id st) of Some n \<Rightarrow> n | None \<Rightarrow> 0);
            cap = min (of_max_attempts f) (cf_max_retries cfg) in
        if used < cap then
          (case step_index w (of_retry_step f) of
             None \<Rightarrow> bail ''retry_step vanished''
           | Some target \<Rightarrow>
               andthen (set_run (\<lambda>r. r\<lparr>
                  r_retry_counts := bt_insert (s_id st) (used + 1) (r_retry_counts r),
                  r_pending_feedback := retry_feedback f (s_id st) reason feedback,
                  r_pending_feedback_step := Some (s_id st),
                  r_cursor := target \<rparr>))
              (andthen (save x)
              (andthen (audit ''retry_started'' (Some (s_id st))) (ret None))))
        else
          andthen (audit ''retries_exhausted'' (Some (s_id st)))
          (bnd (fail_run x (''step `'' @ s_id st @ ''` failed after '' @ nat_str used @ '' retr''
             @ (if used = 1 then ''y'' else ''ies'') @ '': '' @ reason)) (\<lambda>n. ret (Some n)))))))"

end
