(* ===== verification/Steps.thy ===== *)
theory Steps
  imports Driver
begin

text \<open>
  What the step executors share, \<open>src/engine/steps.rs\<close>: opening and finishing an execution, asking a
  human and waiting for the answer, the cover an explicit approval gives to the next step, approval
  steps themselves, the gate over the diff and commits.
\<close>

subsection \<open>Subjects\<close>

definition subject_command :: "string list \<Rightarrow> bool \<Rightarrow> subject" where
  "subject_command argv shell =
     subject_default\<lparr> sj_action := Some ACommand, sj_command := Some (normalize argv shell) \<rparr>"

definition subject_file :: "action \<Rightarrow> string \<Rightarrow> subject" where
  "subject_file act p = subject_default\<lparr> sj_action := Some act, sj_path := Some p \<rparr>"

subsection \<open>Executions\<close>

definition open_exec :: "step \<Rightarrow> step_execution option drv" where
  "open_exec st =
     bnd the_run (\<lambda>r. ret (case latest_exec r (s_id st) of
       Some e \<Rightarrow> if step_terminal (e_status e) then None else Some e
     | None \<Rightarrow> None))"

definition open_or_new :: "ext \<Rightarrow> step \<Rightarrow> string drv" where
  "open_or_new x st =
     bnd (open_exec st) (\<lambda>found. case found of
       Some e \<Rightarrow> ret (e_exec_id e)
     | None \<Rightarrow> new_exec x st)"

definition exec_status :: "string \<Rightarrow> step_status drv" where
  "exec_status xid = bnd (the_exec xid) (\<lambda>e. ret (e_status e))"

definition clear_attention :: "string option \<Rightarrow> step_execution \<Rightarrow> step_execution" where
  "clear_attention err e = e\<lparr> e_attention := None,
     e_error := (case err of Some m \<Rightarrow> Some m | None \<Rightarrow> e_error e) \<rparr>"

definition finish_exec :: "ext \<Rightarrow> string \<Rightarrow> step_status \<Rightarrow> string option \<Rightarrow> unit drv" where
  "finish_exec x xid status err =
     andthen (set_exec xid (clear_attention err))
    (andthen (bnd (exec_status xid) (\<lambda>cur.
        whenb (cur = SStarting \<and> status = SSucceeded) (set_exec_status x xid SRunning)))
    (andthen (bnd (exec_status xid) (\<lambda>cur.
        whenb (cur = SPending \<and> status = SSucceeded)
          (andthen (set_exec_status x xid SStarting) (set_exec_status x xid SRunning))))
    (andthen (set_exec_status x xid status)
    (bnd (the_exec xid) (\<lambda>e. audit ''step_completed'' (Some (e_step_id e)))))))"

text \<open>Steps without a process of their own go from pending to running at once.\<close>

definition begin_exec :: "ext \<Rightarrow> string \<Rightarrow> unit drv" where
  "begin_exec x xid =
     bnd (exec_status xid) (\<lambda>cur.
     whenb (cur = SPending)
       (andthen (set_exec_status x xid SStarting) (set_exec_status x xid SRunning)))"

text \<open>A part of a step that may end it early.\<close>

definition or_else :: "'r option drv \<Rightarrow> 'r drv \<Rightarrow> 'r drv" where
  "or_else m k = bnd m (\<lambda>o1. case o1 of Some r \<Rightarrow> ret r | None \<Rightarrow> k)"

definition stop_with :: "ext \<Rightarrow> string \<Rightarrow> string \<Rightarrow> step_outcome \<Rightarrow> step_outcome option drv" where
  "stop_with x xid why outcome = andthen (finish_exec x xid SFailed (Some why)) (ret (Some outcome))"

definition fail_with :: "ext \<Rightarrow> string \<Rightarrow> string \<Rightarrow> string \<Rightarrow> step_outcome drv" where
  "fail_with x xid why feedback =
     andthen (finish_exec x xid SFailed (Some why)) (ret (OutFailed why feedback))"

definition done_with :: "ext \<Rightarrow> string \<Rightarrow> string option \<Rightarrow> step_outcome drv" where
  "done_with x xid outp = andthen (finish_exec x xid SSucceeded None) (ret (OutSucceeded outp))"

definition runner_for :: "step \<Rightarrow> string drv" where
  "runner_for st =
     bnd the_run (\<lambda>r. bnd (gets d_wf) (\<lambda>w. bnd (gets d_cfg) (\<lambda>cfg.
     ret (case bt_get (r_step_runners r) (s_id st) of
         Some n \<Rightarrow> n
       | None \<Rightarrow> (case r_runner_override r of
           Some n \<Rightarrow> n
         | None \<Rightarrow> (case step_runner st w of Some n \<Rightarrow> n | None \<Rightarrow> cf_default_runner cfg))))))"

definition step_timeout :: "ext \<Rightarrow> step \<Rightarrow> duration \<Rightarrow> duration drv" where
  "step_timeout x st dflt =
     bnd (gets d_wf) (\<lambda>w. bnd (ask (x_remaining x)) (\<lambda>rem.
     ret (min (case s_timeout st of Some t \<Rightarrow> t | None \<Rightarrow>
            case w_default_timeout w of Some t \<Rightarrow> t | None \<Rightarrow> dflt) rem)))"

subsection \<open>What a human sees\<close>

definition latest_acceptance :: "run \<Rightarrow> json option" where
  "latest_acceptance r =
     find (\<lambda>v. json_get v ''criteria'' \<noteq> None) (List.map_filter e_structured (rev (r_steps r)))"

definition last_agent :: "run \<Rightarrow> agent_binding option" where
  "last_agent r = (case List.map_filter e_agent (rev (r_steps r)) of [] \<Rightarrow> None | a # _ \<Rightarrow> Some a)"

definition map_arrow :: string where
  "map_arrow = [CHR 0x20, CHR 0xE2, CHR 0x86, CHR 0x92, CHR 0x20]"

definition contract_shown :: "contract \<Rightarrow> contract_summary" where
  "contract_shown c = \<lparr> cs_files = bt_keys (c_files c), cs_check = display_argv (c_check c),
     cs_red_excerpt = join nl (rev (take 15 (rev (lines (c_red_excerpt c))))),
     cs_criteria_map = map (\<lambda>(k, v). k @ map_arrow @ join '', '' v) (c_criteria_map c),
     cs_approved = (c_approval_id c \<noteq> None) \<rparr>"

definition worktree_diff :: "ext \<Rightarrow> (changed_file list \<times> nat \<times> nat) drv" where
  "worktree_diff x =
     bnd the_run (\<lambda>r.
     case (g_worktree_path (r_git r), g_base_sha (r_git r)) of
       (Some w, Some b) \<Rightarrow>
         bnd (ask (x_exists x)) (\<lambda>there.
         if there w then
           bnd (ask (x_changed x)) (\<lambda>res. ret (case res of
             Inr d \<Rightarrow> (ds_files d, ds_insertions d, ds_deletions d) | Inl _ \<Rightarrow> ([], 0, 0)))
         else ret ([], 0, 0))
     | _ \<Rightarrow> ret ([], 0, 0))"

definition worktree_head :: "ext \<Rightarrow> string option drv" where
  "worktree_head x =
     bnd the_run (\<lambda>r. case g_worktree_path (r_git r) of None \<Rightarrow> ret None | Some _ \<Rightarrow> ask (x_head x))"

definition approval_context_of ::
  "ext \<Rightarrow> step \<Rightarrow> string option \<Rightarrow> policy_decision list \<Rightarrow> approval_context drv" where
  "approval_context_of x st pending policy =
     bnd (worktree_diff x) (\<lambda>(files, ins, del).
     bnd (worktree_head x) (\<lambda>head.
     bnd the_run (\<lambda>r. bnd (gets d_task) (\<lambda>t. bnd (gets d_wf) (\<lambda>w.
     ret \<lparr> ax_task_title = t_title t, ax_workflow = w_name w, ax_step_id = s_id st,
           ax_agent = Option.bind (last_agent r) ab_agent_kind,
           ax_pane_id = Option.bind (last_agent r) ab_pane_id,
           ax_repository = r_repo_root r, ax_branch = g_branch (r_git r),
           ax_worktree = g_worktree_path (r_git r), ax_base_sha = g_base_sha (r_git r),
           ax_head_sha = head, ax_changed_files = files, ax_insertions = ins, ax_deletions = del,
           ax_checks = map (\<lambda>e. e_step_id e @ '' (attempt '' @ nat_str (e_attempt e) @ ''): ''
               @ step_status_str (e_status e))
             (filter (\<lambda>e. e_kind e = KCommand \<or> e_kind e = KAgent) (r_steps r)),
           ax_policy = policy, ax_pending_action = pending,
           ax_acceptance = acceptance_rows (t_acceptance t) (latest_acceptance r),
           ax_manual_checks = t_manual_checks t,
           ax_contract = map_option contract_shown (r_contract r) \<rparr>)))))"

subsection \<open>Asking a human\<close>

datatype approval_answer = Granted | Denied string | ApprovalCancelled

definition load_request :: "string \<Rightarrow> approval_request drv" where
  "load_request i =
     bnd (gets (\<lambda>s. bt_get (d_approvals s) i)) (\<lambda>found. case found of
       Some a \<Rightarrow> ret a
     | None \<Rightarrow> bail (''approval '' @ i @ '' not found''))"

text \<open>A decision that another process records in the store; one that is refused changes nothing.\<close>

definition human_decides :: "string \<Rightarrow> timestamp \<Rightarrow> human_decision option \<Rightarrow> unit drv" where
  "human_decides i t dec =
     (case dec of
        None \<Rightarrow> ret ()
      | Some (ok, user, note) \<Rightarrow> modify (\<lambda>s.
          case bt_get (d_approvals s) i of
            None \<Rightarrow> s
          | Some a \<Rightarrow> (case decide_change None t ok user note a of
              Inl _ \<Rightarrow> s
            | Inr b \<Rightarrow> s\<lparr> d_approvals := bt_insert i b (d_approvals s) \<rparr>)))"

definition expire_request :: "string \<Rightarrow> timestamp \<Rightarrow> unit drv" where
  "expire_request i t =
     bnd (gets (\<lambda>s. bt_get (d_approvals s) i)) (\<lambda>found. case found of
       None \<Rightarrow> ret ()
     | Some a \<Rightarrow> store_approval (a\<lparr> a_status := AExpired, a_decided_at := Some t \<rparr>))"

definition denial_text :: "approval_request \<Rightarrow> string" where
  "denial_text a = ''approval denied by '' @ (case a_decided_by a of Some u \<Rightarrow> u | None \<Rightarrow> ''human'')
     @ (case a_decision_note a of Some n \<Rightarrow> '': '' @ n | None \<Rightarrow> [])"

text \<open>The loop that waits for the decision, over the polls it makes.\<close>

fun wait_approval :: "string \<Rightarrow> string \<Rightarrow> poll list \<Rightarrow> approval_answer drv" where
  "wait_approval sid i [] = bail STOPPED"
| "wait_approval sid i (p # ps) =
     andthen (human_decides i (po_now p) (po_decision p))
    (if po_cancel p then ret ApprovalCancelled
     else bnd (load_request i) (\<lambda>a.
       case a_status a of
         AApproved \<Rightarrow> andthen (audit ''approval_granted'' (Some sid)) (ret Granted)
       | ADenied \<Rightarrow> andthen (audit ''approval_denied'' (Some sid)) (ret (Denied (denial_text a)))
       | ACancelled \<Rightarrow> ret ApprovalCancelled
       | AExpired \<Rightarrow> ret (Denied ''approval expired'')
       | APending \<Rightarrow>
           if (case a_expires_at a of Some t \<Rightarrow> t \<le> po_now p | None \<Rightarrow> False) then
             andthen (human_decides i (po_now p) (po_late_decision p))
            (andthen (expire_request i (po_now p))
            (andthen (audit ''approval_expired'' (Some sid)) (ret (Denied ''approval expired''))))
           else wait_approval sid i ps))"

definition pending_request :: "string \<Rightarrow> approval_request option drv" where
  "pending_request xid =
     bnd (the_exec xid) (\<lambda>e. gets (\<lambda>s.
       case e_approval_id e of
         None \<Rightarrow> None
       | Some i \<Rightarrow> (case bt_get (d_approvals s) i of
           Some a \<Rightarrow> if a_status a = APending then Some a else None
         | None \<Rightarrow> None)))"

definition new_request ::
  "ext \<Rightarrow> step \<Rightarrow> string \<Rightarrow> approval_kind \<Rightarrow> string \<Rightarrow> string option \<Rightarrow> policy_decision list
     \<Rightarrow> approval_request drv" where
  "new_request x st xid kind reason pending policy =
     bnd (approval_context_of x st pending policy) (\<lambda>ctx.
     bnd (ask (x_id x)) (\<lambda>i. bnd (ask (x_now x)) (\<lambda>t.
     bnd the_run (\<lambda>r. bnd (gets d_cfg) (\<lambda>cfg. bnd (ask (x_now x)) (\<lambda>t2.
     let a = (approval_new i t (r_run_id r) (r_task_id r) (s_id st) kind reason ctx)
           \<lparr> a_exec_id := Some xid,
             a_expires_at := map_option (\<lambda>d. t2 + (if d < 2 ^ 63 then int d else 0)) (cf_approval_timeout cfg) \<rparr>
     in andthen (store_approval a)
       (andthen (set_run (\<lambda>r. r\<lparr> r_approvals := r_approvals r @ [a_approval_id a] \<rparr>))
       (andthen (set_exec xid (\<lambda>e. e\<lparr> e_approval_id := Some (a_approval_id a) \<rparr>))
       (andthen (audit ''approval_requested'' (Some (s_id st)))
       (andthen (notify (display_name r @ '' awaits approval'')) (ret a)))))))))))"

definition request_approval ::
  "ext \<Rightarrow> step \<Rightarrow> string \<Rightarrow> approval_kind \<Rightarrow> string \<Rightarrow> string option \<Rightarrow> policy_decision list
     \<Rightarrow> approval_answer drv" where
  "request_approval x st xid kind reason pending policy =
     bnd (pending_request xid) (\<lambda>existing.
     bnd (case existing of Some a \<Rightarrow> ret a | None \<Rightarrow> new_request x st xid kind reason pending policy) (\<lambda>a.
     andthen (bnd (exec_status xid) (\<lambda>cur.
        whenb (step_can cur SAwaitingApproval) (set_exec_status x xid SAwaitingApproval)))
    (andthen (set_status x RAwaitingApproval (Some (''approval '' @ a_approval_id a @ '' pending'')))
    (bnd (ask (x_polls x)) (\<lambda>ps.
     bnd (wait_approval (s_id st) (a_approval_id a) ps) (\<lambda>answer.
     andthen (whenb (answer \<noteq> ApprovalCancelled)
        (andthen (set_status x RRunning None)
        (bnd (exec_status xid) (\<lambda>cur.
           whenb (cur = SAwaitingApproval \<and> answer = Granted) (set_exec_status x xid SRunning)))))
       (ret answer)))))))"

text \<open>What every caller but the budget gate does with the answer.\<close>

definition ask_human ::
  "ext \<Rightarrow> step \<Rightarrow> string \<Rightarrow> string \<Rightarrow> string \<Rightarrow> policy_decision list \<Rightarrow> step_outcome option drv" where
  "ask_human x st xid reason pending policy =
     bnd (request_approval x st xid PolicyKind reason (Some pending) policy) (\<lambda>answer.
     case answer of
       Granted \<Rightarrow> ret None
     | Denied why \<Rightarrow> stop_with x xid why (OutFailed why [])
     | ApprovalCancelled \<Rightarrow> ret (Some OutCancelled))"

definition cover_applies :: "ext \<Rightarrow> string \<Rightarrow> bool drv" where
  "cover_applies x sid =
     bnd the_run (\<lambda>r. case r_approval_cover r of
       None \<Rightarrow> ret False
     | Some c \<Rightarrow>
         if ac_step_id c \<noteq> sid then ret False
         else bnd (worktree_head x) (\<lambda>head.
           if head \<noteq> ac_head_sha c then ret False
           else andthen (audit ''approval_reused'' (Some sid)) (ret True)))"

end
