(* ===== verification/Gates.thy ===== *)
theory Gates
  imports Steps
begin

text \<open>
  The gates over a run's changes, \<open>src/engine/steps.rs\<close>: the lock of an approved contract, the policy
  evaluation of every changed path, commits, and the approval, policy and git steps.
\<close>

subsection \<open>The contract lock\<close>

definition file_hash :: "ext \<Rightarrow> string \<Rightarrow> string" where
  "file_hash x content = ''sha256:'' @ x_sha x content"

text \<open>The contract files whose content differs from the locked hashes; \<open>read\<close> reads the worktree.\<close>

definition contract_violations :: "ext \<Rightarrow> (path \<Rightarrow> string option) \<Rightarrow> path \<Rightarrow> run \<Rightarrow> string list" where
  "contract_violations x read worktree r =
     (case r_contract r of
        None \<Rightarrow> []
      | Some c \<Rightarrow> map fst (filter (\<lambda>(p, h).
          case read (worktree @ ''/'' @ p) of Some b \<Rightarrow> file_hash x b \<noteq> h | None \<Rightarrow> True) (c_files c)))"

text \<open>The first approval after the lock approves the contract, as the files are at that moment.\<close>

definition amend_contract :: "ext \<Rightarrow> (path \<Rightarrow> string option) \<Rightarrow> path \<Rightarrow> string list \<Rightarrow> contract \<Rightarrow> contract" where
  "amend_contract x read worktree changed c =
     (let files = foldl (\<lambda>m p. case read (worktree @ ''/'' @ p) of
            Some b \<Rightarrow> bt_insert p (file_hash x b) m | None \<Rightarrow> m) (c_files c) changed
      in c\<lparr> c_files := files, c_sha256 := combined_hash (x_sha x) files, c_amended := True \<rparr>)"

definition approve_contract :: "ext \<Rightarrow> step \<Rightarrow> string \<Rightarrow> unit drv" where
  "approve_contract x st approval_id =
     bnd the_run (\<lambda>r.
     whenb (case r_contract r of Some c \<Rightarrow> c_approval_id c = None | None \<Rightarrow> False)
       (andthen
         (case g_worktree_path (r_git r) of
            None \<Rightarrow> ret ()
          | Some w \<Rightarrow>
              bnd (ask (x_file x)) (\<lambda>read.
              let changed = contract_violations x read w r in
              whenb (changed \<noteq> [])
                (bnd (ask (x_file x)) (\<lambda>again.
                 andthen (set_run (\<lambda>r. r\<lparr> r_contract := map_option (amend_contract x again w changed) (r_contract r) \<rparr>))
                   (audit ''contract_amended'' (Some (s_id st)))))))
       (bnd (gets (\<lambda>s. bt_get (d_approvals s) approval_id)) (\<lambda>a.
        bnd (ask (x_now x)) (\<lambda>t.
        andthen (set_run (\<lambda>r. r\<lparr> r_contract := map_option (\<lambda>c. c\<lparr> c_approval_id := Some approval_id,
            c_approved_by := Option.bind a a_decided_by,
            c_approved_at := (case Option.bind a a_decided_at of Some d \<Rightarrow> Some d | None \<Rightarrow> Some t) \<rparr>)
          (r_contract r) \<rparr>))
          (audit ''contract_approved'' (Some (s_id st))))))))"

subsection \<open>The approval step\<close>

definition next_step :: "workflow \<Rightarrow> string \<Rightarrow> step option" where
  "next_step w sid =
     (case step_index w sid of
        Some i \<Rightarrow> if i + 1 < length (w_steps w) then Some (w_steps w ! (i + 1)) else None
      | None \<Rightarrow> None)"

definition pending_action_text :: "run_config \<Rightarrow> run \<Rightarrow> step \<Rightarrow> string" where
  "pending_action_text cfg r n =
     (let branch = (case g_branch (r_git r) of Some b \<Rightarrow> b | None \<Rightarrow> []) in
      case s_spec n of
        SpGithubPr draft _ _ _ \<Rightarrow> ''push branch '' @ branch @ '' to '' @ cf_remote cfg @ '' and open a ''
          @ (if (case draft of Some d \<Rightarrow> d | None \<Rightarrow> cf_draft_pr cfg) then ''draft '' else []) @ ''PR''
      | SpGit GPush _ \<Rightarrow> ''push branch '' @ branch
      | _ \<Rightarrow> ''continue with step `'' @ s_id n @ ''` ('' @ step_kind_str (step_kind_of n) @ '')'')"

definition grant_step :: "ext \<Rightarrow> step \<Rightarrow> string \<Rightarrow> step option \<Rightarrow> step_outcome drv" where
  "grant_step x st xid nxt =
     bnd (the_exec xid) (\<lambda>e.
     let approval_id = (case e_approval_id e of Some i \<Rightarrow> i | None \<Rightarrow> []) in
     andthen (approve_contract x st approval_id)
    (andthen (case nxt of
        None \<Rightarrow> ret ()
      | Some n \<Rightarrow> bnd (worktree_head x) (\<lambda>head.
          set_run (\<lambda>r. r\<lparr> r_approval_cover := Some \<lparr> ac_step_id = s_id n, ac_approval_id = approval_id,
            ac_head_sha = head \<rparr> \<rparr>)))
      (done_with x xid None)))"

definition approval_step :: "ext \<Rightarrow> step \<Rightarrow> string \<Rightarrow> step_outcome drv" where
  "approval_step x st reason_tpl =
     bnd (gets (\<lambda>s. template_ctx (d_task s) (d_run s) (d_wf s) (s_id st) None)) (\<lambda>c.
     bnd (lift_result (render c reason_tpl)) (\<lambda>reason.
     bnd (open_or_new x st) (\<lambda>xid.
     bnd (gets d_wf) (\<lambda>w. bnd (gets d_cfg) (\<lambda>cfg. bnd the_run (\<lambda>r.
     let nxt = next_step w (s_id st);
         pending = map_option (pending_action_text cfg r) nxt in
     if r_dry_run r then andthen (audit ''dry_run'' (Some (s_id st))) (done_with x xid None)
     else
       bnd (request_approval x st xid WorkflowStep reason pending []) (\<lambda>answer.
       case answer of
         Granted \<Rightarrow> grant_step x st xid nxt
       | Denied why \<Rightarrow> fail_with x xid why []
       | ApprovalCancelled \<Rightarrow> ret OutCancelled)))))))"

subsection \<open>The gate over the diff\<close>

definition content_fingerprint :: "ext \<Rightarrow> path \<Rightarrow> changed_file \<Rightarrow> string drv" where
  "content_fingerprint x worktree f =
     (if cf_change f = ''deleted'' then ret ''deleted''
      else bnd (ask (x_file x)) (\<lambda>read. ret (case read (worktree @ ''/'' @ cf_path f) of
          Some b \<Rightarrow> file_hash x b
        | None \<Rightarrow> cf_change f @ '':'' @ nat_str (cf_insertions f) @ '':'' @ nat_str (cf_deletions f))))"

definition scope_set :: "matchers \<Rightarrow> string list \<Rightarrow> string list option" where
  "scope_set mt globs = (if globs = [] then None else Some (filter (glob_valid mt) globs))"

definition in_scope :: "matchers \<Rightarrow> string list \<Rightarrow> string \<Rightarrow> bool" where
  "in_scope mt globs p = list_ex (\<lambda>g. glob_match mt g p) globs"

definition scope_decision :: "string \<Rightarrow> string list \<Rightarrow> policy_decision" where
  "scope_decision p scope =
     (let reason = ''outside the task's scope ('' @ join '', '' scope @ '')'' in
      \<lparr> pd_decision = RequireApproval, pd_subject = ''write: '' @ p,
        pd_matched = [\<lparr> mr_rule_id = ''task-scope'', mr_decision = RequireApproval, mr_reason = Some reason,
          mr_source = ''task'' \<rparr>],
        pd_reason = ''task-scope ('' @ reason @ '')'' \<rparr>)"

fun containment_debug :: "containment \<Rightarrow> string" where
  "containment_debug (Inside r) = ''Inside('' @ debug_str (display_path r) @ '')''"
| "containment_debug Outside = ''Outside''"
| "containment_debug (SymlinkEscape l t) = ''SymlinkEscape { link: '' @ debug_str (display_path l)
     @ '', target: '' @ debug_str (display_path t) @ '' }''"

type_synonym findings = "string list \<times> (string \<times> policy_decision) list"

text \<open>Whether a changed path stays in the worktree: a path that is there is looked at, through links.\<close>

definition escape_of :: "ext \<Rightarrow> path \<Rightarrow> changed_file \<Rightarrow> containment option drv" where
  "escape_of x worktree f =
     bnd (ask (x_exists x)) (\<lambda>there. bnd (ask (x_fs x)) (\<lambda>fsys.
     let full = worktree @ ''/'' @ cf_path f in
     if there full \<or> fs_metadata fsys (components full) \<noteq> Missing then
       bnd (lift_result (check_containment fsys (components worktree) (components (cf_path f)))) (\<lambda>c.
       ret (case c of Inside _ \<Rightarrow> None | _ \<Rightarrow> Some c))
     else ret None))"

definition file_subject :: "ext \<Rightarrow> step \<Rightarrow> string option \<Rightarrow> changed_file \<Rightarrow> subject drv" where
  "file_subject x st runner f =
     bnd (gets d_policy) (\<lambda>pol. bnd the_run (\<lambda>r.
     let act = (if cf_change f = ''deleted'' then ADelete else AWrite);
         base = (subject_file act (cf_path f))\<lparr> sj_lines_changed := Some (cf_insertions f + cf_deletions f),
           sj_runner := runner, sj_step_id := Some (s_id st), sj_branch := g_branch (r_git r),
           sj_repo := Some (r_repo_root r) \<rparr> in
     if act = AWrite \<and> needs_added_lines pol then
       bnd (ask (x_added_lines x)) (\<lambda>added. ret (base\<lparr> sj_added_lines := Some (added f) \<rparr>))
     else ret base))"

definition judge_file ::
  "ext \<Rightarrow> step \<Rightarrow> string \<Rightarrow> path \<Rightarrow> string list option \<Rightarrow> changed_file \<Rightarrow> policy_decision \<Rightarrow> findings drv" where
  "judge_file x st xid worktree scope f d =
     (case pd_decision d of
        Deny \<Rightarrow> ret ([cf_path f @ '' ('' @ pd_reason d @ '')''], [])
      | RequireApproval \<Rightarrow>
          bnd (content_fingerprint x worktree f) (\<lambda>fp. bnd the_run (\<lambda>r.
          ret ([], if bt_get (r_approved_paths r) (cf_path f) \<noteq> Some fp then [(cf_path f, d)] else [])))
      | Allow \<Rightarrow> (case scope of
          None \<Rightarrow> ret ([], [])
        | Some globs \<Rightarrow>
            bnd (content_fingerprint x worktree f) (\<lambda>fp. bnd the_run (\<lambda>r. bnd (gets d_task) (\<lambda>t.
            let inside = in_scope (x_matchers x) globs (cf_path f) \<or>
                  (case cf_old_path f of Some p \<Rightarrow> in_scope (x_matchers x) globs p | None \<Rightarrow> False) in
            if \<not> inside \<and> bt_get (r_approved_paths r) (cf_path f) \<noteq> Some fp then
              let sd = scope_decision (cf_path f) (to_scope (t_options t)) in
              andthen (record_policy x (Some (s_id st)) (Some xid) sd) (ret ([], [(cf_path f, sd)]))
            else ret ([], []))))))"

definition gate_file ::
  "ext \<Rightarrow> step \<Rightarrow> string \<Rightarrow> path \<Rightarrow> string list option \<Rightarrow> string option \<Rightarrow> changed_file \<Rightarrow> findings drv" where
  "gate_file x st xid worktree scope runner f =
     bnd (escape_of x worktree f) (\<lambda>esc.
     case esc of
       Some c \<Rightarrow> ret ([cf_path f @ '' ('' @ containment_debug c @ '')''], [])
     | None \<Rightarrow>
         bnd (file_subject x st runner f) (\<lambda>s.
         bnd (judge x s) (\<lambda>d.
         andthen (whenb (pd_decision d \<noteq> Allow) (record_policy x (Some (s_id st)) (Some xid) d))
           (judge_file x st xid worktree scope f d))))"

fun gate_files ::
  "ext \<Rightarrow> step \<Rightarrow> string \<Rightarrow> path \<Rightarrow> string list option \<Rightarrow> string option \<Rightarrow> changed_file list \<Rightarrow> findings drv" where
  "gate_files x st xid worktree scope runner [] = ret ([], [])"
| "gate_files x st xid worktree scope runner (f # fs) =
     bnd (gate_file x st xid worktree scope runner f) (\<lambda>(d, a).
     bnd (gate_files x st xid worktree scope runner fs) (\<lambda>(ds, as). ret (d @ ds, a @ as)))"

definition DIFF_SUMMARY :: string where
  "DIFF_SUMMARY = ''<diff-summary>''"

definition gate_summary :: "ext \<Rightarrow> step \<Rightarrow> string \<Rightarrow> diff_stat \<Rightarrow> findings drv" where
  "gate_summary x st xid d =
     bnd the_run (\<lambda>r.
     bnd (judge x (subject_default\<lparr> sj_action := Some ADiffSummary, sj_files_changed := Some (ds_files_changed d),
        sj_deleted_files := Some (length (filter (\<lambda>f. cf_change f = ''deleted'') (ds_files d))),
        sj_deleted_lines := Some (ds_deletions d), sj_step_id := Some (s_id st),
        sj_repo := Some (r_repo_root r) \<rparr>)) (\<lambda>sd.
     andthen (record_policy x (Some (s_id st)) (Some xid) sd)
       (ret (case pd_decision sd of
           Deny \<Rightarrow> ([''diff summary ('' @ pd_reason sd @ '')''], [])
         | RequireApproval \<Rightarrow> ([], if bt_contains (r_approved_paths r) DIFF_SUMMARY then []
             else [(DIFF_SUMMARY, sd)])
         | Allow \<Rightarrow> ([], [])))))"

text \<open>After a grant: what was asked about is approved with the content the file has now.\<close>

definition approve_path :: "ext \<Rightarrow> path \<Rightarrow> string list \<Rightarrow> changed_file \<Rightarrow> unit drv" where
  "approve_path x worktree paths f =
     whenb (cf_path f \<in> set paths)
       (bnd (content_fingerprint x worktree f) (\<lambda>fp.
        set_run (\<lambda>r. r\<lparr> r_approved_paths := bt_insert (cf_path f) fp (r_approved_paths r) \<rparr>)))"

definition gate_asks ::
  "ext \<Rightarrow> step \<Rightarrow> string \<Rightarrow> path \<Rightarrow> diff_stat \<Rightarrow> (string \<times> policy_decision) list \<Rightarrow> step_outcome option drv" where
  "gate_asks x st xid worktree d asks =
     (if asks = [] then ret None
      else
        let paths = map fst asks in
        bnd (ask_human x st xid (''changes need approval: '' @ join '', '' paths)
          (''accept changes to '' @ nat_str (length paths) @ '' path(s) and continue'') (map snd asks)) (\<lambda>stopped.
        case stopped of
          Some out1 \<Rightarrow> ret (Some out1)
        | None \<Rightarrow>
            andthen (for_each (ds_files d) (approve_path x worktree paths))
           (andthen (whenb (DIFF_SUMMARY \<in> set paths)
              (set_run (\<lambda>r. r\<lparr> r_approved_paths := bt_insert DIFF_SUMMARY [] (r_approved_paths r) \<rparr>)))
           (andthen (save x) (ret None)))))"

definition gate_denies :: "ext \<Rightarrow> step \<Rightarrow> string \<Rightarrow> string list \<Rightarrow> step_outcome option drv" where
  "gate_denies x st xid denies =
     (if denies = [] then ret None
      else
        let why = ''policy violation in worktree: '' @ join ''; '' denies in
        andthen (audit ''policy_violation'' (Some (s_id st))) (stop_with x xid why (OutBlocked why)))"

definition diff_policy_gate :: "ext \<Rightarrow> step \<Rightarrow> string \<Rightarrow> step_outcome option drv" where
  "diff_policy_gate x st xid =
     bnd the_worktree (\<lambda>worktree.
     bnd the_run (\<lambda>r.
     case g_base_sha (r_git r) of
       None \<Rightarrow> bail ''no base sha''
     | Some base \<Rightarrow>
       bnd (ask_result (x_changed x)) (\<lambda>d.
       andthen (set_run (\<lambda>r. r\<lparr> r_diff_stat := Some d \<rparr>))
      (andthen (set_exec xid (\<lambda>e. e\<lparr> e_changed_files := Some (ds_files_changed d) \<rparr>))
      (andthen (audit ''files_changed'' (Some (s_id st)))
      (bnd (ask (x_file x)) (\<lambda>read.
       let locked = map (\<lambda>p. p @ '' (contract file changed after it was locked)'')
             (contract_violations x read worktree r) in
       bnd (the_exec xid) (\<lambda>e. bnd (gets d_task) (\<lambda>t.
       bnd (gate_files x st xid worktree (scope_set (x_matchers x) (to_scope (t_options t))) (e_runner e)
          (ds_files d)) (\<lambda>(ds, as).
       bnd (gate_summary x st xid d) (\<lambda>(ds2, as2).
       bnd (gate_denies x st xid (locked @ ds @ ds2)) (\<lambda>stopped.
       case stopped of
         Some out1 \<Rightarrow> ret (Some out1)
       | None \<Rightarrow> gate_asks x st xid worktree d (as @ as2)))))))))))))"

definition policy_step :: "ext \<Rightarrow> step \<Rightarrow> step_outcome drv" where
  "policy_step x st =
     bnd (open_or_new x st) (\<lambda>xid.
     andthen (begin_exec x xid)
    (bnd the_run (\<lambda>r.
     if r_dry_run r then done_with x xid None
     else or_else (diff_policy_gate x st xid) (done_with x xid None))))"

subsection \<open>Commits, pushes and git steps\<close>

definition commit_changes :: "ext \<Rightarrow> step \<Rightarrow> string \<Rightarrow> string option \<Rightarrow> step_outcome option drv" where
  "commit_changes x st xid message =
     bnd the_worktree (\<lambda>worktree.
     bnd (ask_result (x_dirty x)) (\<lambda>dirty.
     if \<not> dirty then ret None
     else
       bnd the_run (\<lambda>r.
       bnd (judge x (subject_default\<lparr> sj_action := Some AGitCommit, sj_step_id := Some (s_id st),
          sj_branch := g_branch (r_git r), sj_repo := Some (r_repo_root r) \<rparr>)) (\<lambda>d.
       andthen (record_policy x (Some (s_id st)) (Some xid) d)
        (if pd_decision d = Deny then
           let why = ''policy denied commit: '' @ pd_reason d in stop_with x xid why (OutBlocked why)
         else
           bnd (gets d_cfg) (\<lambda>cfg.
           bnd (gets (\<lambda>s. template_ctx (d_task s) (d_run s) (d_wf s) (s_id st) None)) (\<lambda>c.
           bnd (lift_result (render c (case message of Some m \<Rightarrow> m | None \<Rightarrow> cf_commit_message cfg))) (\<lambda>msg.
           andthen (emit (EvCommit msg))
          (bnd (ask_result (x_commit_all x)) (\<lambda>made.
           case made of
             None \<Rightarrow> ret None
           | Some sha \<Rightarrow>
               andthen (set_run (\<lambda>r. r\<lparr> r_git := (r_git r)\<lparr> g_commits := g_commits (r_git r) @ [sha],
                  g_head_sha := Some sha \<rparr> \<rparr>))
              (andthen (save x)
              (andthen (audit ''git_commit_created'' (Some (s_id st))) (ret None)))))))))))))"

definition push_branch :: "ext \<Rightarrow> step \<Rightarrow> string \<Rightarrow> step_outcome option drv" where
  "push_branch x st xid =
     bnd the_worktree (\<lambda>worktree.
     bnd the_run (\<lambda>r.
     case g_branch (r_git r) of
       None \<Rightarrow> bail ''no branch''
     | Some branch \<Rightarrow>
       bnd (gets d_cfg) (\<lambda>cfg.
       let remote = cf_remote cfg;
           argv = [''git'', ''push'', ''--set-upstream'', remote, branch] in
       bnd (judge x ((subject_command argv False)\<lparr> sj_action := Some AGitPush, sj_branch := Some branch,
          sj_step_id := Some (s_id st) \<rparr>)) (\<lambda>d.
       andthen (record_policy x (Some (s_id st)) (Some xid) d)
      (bnd (case pd_decision d of
          Deny \<Rightarrow> let why = ''policy denied push: '' @ pd_reason d in stop_with x xid why (OutBlocked why)
        | RequireApproval \<Rightarrow>
            bnd (cover_applies x (s_id st)) (\<lambda>covered.
            if covered then ret None
            else ask_human x st xid (''Push requires approval: '' @ pd_reason d)
              (''git push '' @ remote @ '' '' @ branch) [d])
        | Allow \<Rightarrow> ret None) (\<lambda>stopped.
       case stopped of
         Some out1 \<Rightarrow> ret (Some out1)
       | None \<Rightarrow>
           andthen (audit ''git_push_started'' (Some (s_id st)))
          (andthen (emit (EvPush remote branch))
          (andthen (bnd (ask_result (x_push x)) (\<lambda>_. ret ()))
          (andthen (audit ''git_pushed'' (Some (s_id st))) (ret None))))))))))"

definition git_step :: "ext \<Rightarrow> step \<Rightarrow> git_action \<Rightarrow> string option \<Rightarrow> step_outcome drv" where
  "git_step x st act message =
     bnd (open_or_new x st) (\<lambda>xid.
     andthen (begin_exec x xid)
    (bnd the_run (\<lambda>r.
     if r_dry_run r then andthen (audit ''dry_run'' (Some (s_id st))) (done_with x xid None)
     else
       or_else (case act of GCommit \<Rightarrow> commit_changes x st xid message | GPush \<Rightarrow> push_branch x st xid)
         (done_with x xid None))))"

end
