(* ===== verification/Command_Step.thy ===== *)
theory Command_Step
  imports Gates
begin

text \<open>
  Commands and checks, \<open>command_step\<close> of \<open>src/engine/steps.rs\<close>, and the probe that proves a contract red,
  \<open>run_probe\<close> and \<open>lock_contract\<close>.
\<close>

subsection \<open>What is to be run\<close>

definition is_check_step :: "step \<Rightarrow> bool" where
  "is_check_step st = (case s_spec st of SpCheck _ _ _ _ _ _ \<Rightarrow> True | _ \<Rightarrow> False)"

definition is_contract_check :: "step \<Rightarrow> bool" where
  "is_contract_check st = (case s_spec st of SpCheck _ _ _ _ _ locked \<Rightarrow> locked | _ \<Rightarrow> False)"

fun render_all :: "context_vars \<Rightarrow> string list \<Rightarrow> string + string list" where
  "render_all c [] = Inr []"
| "render_all c (a # as) = sum_bind (render c a) (\<lambda>v. sum_bind (render_all c as) (\<lambda>vs. Inr (v # vs)))"

definition resolve_named :: "ext \<Rightarrow> string \<Rightarrow> path \<Rightarrow> resolved_check option drv" where
  "resolve_named x name worktree =
     bnd (gets d_cfg) (\<lambda>cfg.
     ask (\<lambda>n. resolve_check (x_json x) (x_exists x n) (x_file x n) (x_which x n) name worktree (cf_checks cfg)))"

text \<open>The argument vector, or the outcome of a step that has none.\<close>

definition command_argv ::
  "ext \<Rightarrow> step \<Rightarrow> path \<Rightarrow> context_vars \<Rightarrow> string list \<Rightarrow> (step_outcome + string list) drv" where
  "command_argv x st worktree c argv_tpl =
     (if is_contract_check st then
        bnd the_run (\<lambda>r. case r_contract r of
          Some k \<Rightarrow> ret (Inr (c_check k))
        | None \<Rightarrow>
            bnd (new_exec x st) (\<lambda>xid.
            andthen (finish_exec x xid SFailed (Some ''no locked contract in this run''))
              (ret (Inl (OutBlocked ''`contract: true` check but no contract was locked'')))))
      else case spec_named_check (s_spec st) of
        Some name \<Rightarrow>
          bnd (resolve_named x name worktree) (\<lambda>res. case res of
            Some (argv, src) \<Rightarrow> ret (Inr argv)
          | None \<Rightarrow>
              bnd (new_exec x st) (\<lambda>xid.
              andthen (finish_exec x xid SSkipped (Some (''no `'' @ name @ ''` command configured or detected'')))
                (ret (Inl (OutSkipped (''no `'' @ name @ ''` check configured (set checks.'' @ name
                   @ '' in .ai/herdr-orchestrator/config.yaml) or detected''))))))
      | None \<Rightarrow> bnd (lift_result (render_all c argv_tpl)) (\<lambda>argv. ret (Inr argv)))"

subsection \<open>The policy gate\<close>

definition command_gate ::
  "ext \<Rightarrow> step \<Rightarrow> string \<Rightarrow> path \<Rightarrow> string list \<Rightarrow> bool \<Rightarrow> step_outcome option drv" where
  "command_gate x st xid worktree argv shell =
     bnd the_run (\<lambda>r.
     bnd (judge x ((subject_command argv shell)\<lparr> sj_step_id := Some (s_id st), sj_branch := g_branch (r_git r),
        sj_cwd := Some worktree, sj_repo := Some (r_repo_root r) \<rparr>)) (\<lambda>d.
     andthen (record_policy x (Some (s_id st)) (Some xid) d)
      (case pd_decision d of
         Deny \<Rightarrow>
           let why = ''policy denied `'' @ display_argv argv @ ''`: '' @ pd_reason d in
           stop_with x xid why (OutBlocked why)
       | RequireApproval \<Rightarrow>
           bnd (cover_applies x (s_id st)) (\<lambda>covered.
           if covered then ret None
           else ask_human x st xid (''Command requires approval: '' @ pd_reason d)
             (''execute `'' @ display_argv argv @ ''` in '' @ worktree) [d])
       | Allow \<Rightarrow> ret None)))"

subsection \<open>Running it\<close>

definition own_binary :: "ext \<Rightarrow> string list \<Rightarrow> string list" where
  "own_binary x argv =
     (case (argv, x_exe x) of
        (a # as, Some exe) \<Rightarrow> if a = ''herdr-orchestrator'' then exe # as else argv
      | _ \<Rightarrow> argv)"

definition shell_argv :: "bool \<Rightarrow> string list \<Rightarrow> string list" where
  "shell_argv shell argv = (if shell then [''/bin/sh'', ''-c'', join '' '' argv] else argv)"

definition command_cwd :: "ext \<Rightarrow> path \<Rightarrow> string option \<Rightarrow> path drv" where
  "command_cwd x worktree cwd_rel =
     (case cwd_rel of
        None \<Rightarrow> ret worktree
      | Some c \<Rightarrow>
          bnd (ask (x_fs x)) (\<lambda>f.
          bnd (lift_result (ensure_inside f (components worktree) (components c))) (\<lambda>rel.
          ret (display_path (path_join (components worktree) rel)))))"

fun render_env :: "context_vars \<Rightarrow> (string \<times> string) list \<Rightarrow> (string, string) btmap \<Rightarrow> string + (string, string) btmap" where
  "render_env c [] m = Inr m"
| "render_env c ((k, v) # kvs) m = sum_bind (render c v) (\<lambda>w. render_env c kvs (bt_insert k w m))"

definition combined_output :: "process_output \<Rightarrow> string" where
  "combined_output p = po_stdout p @ (if po_stderr p = [] then [] else nl @ ''[stderr]'' @ nl @ po_stderr p)"

definition code_text :: "string \<Rightarrow> int option \<Rightarrow> string" where
  "code_text dflt c = (case c of
       Some n \<Rightarrow> if n < 0 then ''-'' @ nat_str (nat (- n)) else nat_str (nat n)
     | None \<Rightarrow> dflt)"

text \<open>What the exit of the process means.\<close>

definition command_outcome ::
  "ext \<Rightarrow> step \<Rightarrow> string \<Rightarrow> string list \<Rightarrow> duration \<Rightarrow> process_output \<Rightarrow> string \<Rightarrow> step_outcome drv" where
  "command_outcome x st xid argv timeout p ex =
     (if po_cancelled p then andthen (finish_exec x xid SCancelled None) (ret OutCancelled)
      else if process_success p then
        andthen (whenb (is_check_step st) (audit ''check_passed'' (Some (s_id st))))
          (done_with x xid (Some ex))
      else
        let display = display_argv argv;
            reason = (if po_timed_out p then ''`'' @ display @ ''` timed out after '' @ display_duration timeout
              else ''`'' @ display @ ''` exited with status '' @ code_text ''?'' (po_exit_code p)) in
        andthen (whenb (is_check_step st) (audit ''check_failed'' (Some (s_id st))))
          (fail_with x xid reason (''Command: '' @ display @ nl @ ''Exit status: ''
             @ code_text ''none (timeout/signal)'' (po_exit_code p) @ nl @ ''Output (truncated):'' @ nl @ ex)))"

definition launch_command ::
  "ext \<Rightarrow> step \<Rightarrow> string \<Rightarrow> string list \<Rightarrow> path \<Rightarrow> (string, string) btmap \<Rightarrow> duration \<Rightarrow> string list
     \<Rightarrow> step_outcome drv" where
  "launch_command x st xid run_argv cwd env timeout argv =
     bnd the_run (\<lambda>r.
     andthen (set_exec xid (\<lambda>e. e\<lparr> e_intent := Some (''execute '' @ display_argv argv),
        e_log_path := Some (log_path x r xid) \<rparr>))
    (andthen (bnd (exec_status xid) (\<lambda>cur. whenb (cur = SPending) (set_exec_status x xid SStarting)))
    (andthen (audit ''step_started'' (Some (s_id st)))
    (andthen (emit (EvSpawn xid run_argv cwd env))
    (bnd (ask (x_spawn x)) (\<lambda>started.
     case started of
       Inl why \<Rightarrow> fail_with x xid why why
     | Inr pid \<Rightarrow>
         bnd (ask (x_now x)) (\<lambda>t.
         andthen (set_exec xid (\<lambda>e. e\<lparr> e_process := Some \<lparr> pb_pid = pid, pb_argv = run_argv, pb_cwd = cwd,
            pb_started_at = t \<rparr> \<rparr>))
        (andthen (set_exec_status x xid SRunning)
        (andthen (audit ''command_started'' (Some (s_id st)))
        (bnd (ask_result (x_process x)) (\<lambda>p.
         bnd (gets d_cfg) (\<lambda>cfg.
         let ex = excerpt (x_redact x (combined_output p)) (cf_excerpt_head cfg) (cf_excerpt_tail cfg)
                (cf_feedback_max_bytes cfg) in
         andthen (set_exec xid (\<lambda>e. e\<lparr> e_exit_code := po_exit_code p, e_output_excerpt := Some ex,
            e_usage := Some (usage_default\<lparr> u_source := UMeasured, u_runtime_ms := Some (po_millis p) \<rparr>) \<rparr>))
        (andthen (audit ''command_completed'' (Some (s_id st)))
          (command_outcome x st xid argv timeout p ex))))))))))))))"

definition run_command ::
  "ext \<Rightarrow> step \<Rightarrow> string \<Rightarrow> path \<Rightarrow> context_vars \<Rightarrow> string list \<Rightarrow> bool \<Rightarrow> (string, string) btmap \<Rightarrow> string option
     \<Rightarrow> step_outcome drv" where
  "run_command x st xid worktree c argv0 shell env_tpl cwd_rel =
     bnd (gets d_cfg) (\<lambda>cfg.
     let argv = own_binary x argv0 in
     bnd (lift_result (sandbox_wrap (cf_sandbox cfg) (shell_argv shell argv))) (\<lambda>run_argv.
     bnd (command_cwd x worktree cwd_rel) (\<lambda>cwd.
     bnd the_run (\<lambda>r.
     bnd (lift_result (render_env c env_tpl (orch_env r (s_id st)))) (\<lambda>extra.
     bnd (ask (x_vars x)) (\<lambda>vars.
     bnd (step_timeout x st (cf_command_timeout cfg)) (\<lambda>timeout.
     launch_command x st xid run_argv cwd (build_env (cf_environment cfg) vars extra) timeout argv)))))))"

definition command_step :: "ext \<Rightarrow> step \<Rightarrow> string list \<Rightarrow> bool \<Rightarrow> (string, string) btmap \<Rightarrow> string option \<Rightarrow> step_outcome drv" where
  "command_step x st argv_tpl shell env_tpl cwd_rel =
     bnd the_worktree (\<lambda>worktree.
     bnd (gets (\<lambda>s. template_ctx (d_task s) (d_run s) (d_wf s) (s_id st) None)) (\<lambda>c.
     bnd (command_argv x st worktree c argv_tpl) (\<lambda>res.
     case res of
       Inl out1 \<Rightarrow> ret out1
     | Inr argv \<Rightarrow>
         bnd (open_or_new x st) (\<lambda>xid.
         andthen (audit ''command_requested'' (Some (s_id st)))
        (or_else (command_gate x st xid worktree argv shell)
        (bnd the_run (\<lambda>r.
         if r_dry_run r then andthen (audit ''dry_run'' (Some (s_id st))) (done_with x xid None)
         else run_command x st xid worktree c argv shell env_tpl cwd_rel)))))))"

subsection \<open>The red proof of a contract\<close>

definition probe_gate :: "ext \<Rightarrow> step \<Rightarrow> string \<Rightarrow> string list \<Rightarrow> step_outcome option drv" where
  "probe_gate x st xid argv =
     bnd the_run (\<lambda>r.
     bnd (judge x ((subject_command argv False)\<lparr> sj_step_id := Some (s_id st), sj_branch := g_branch (r_git r) \<rparr>)) (\<lambda>d.
     andthen (record_policy x (Some (s_id st)) (Some xid) d)
      (case pd_decision d of
         Deny \<Rightarrow>
           let why = ''policy denied `'' @ display_argv argv @ ''`: '' @ pd_reason d in
           stop_with x xid why (OutBlocked why)
       | RequireApproval \<Rightarrow>
           ask_human x st xid (''Contract check requires approval: '' @ pd_reason d)
             (''execute `'' @ display_argv argv @ ''`'') [d]
       | Allow \<Rightarrow> ret None)))"

definition probe_excerpt :: "ext \<Rightarrow> process_output \<Rightarrow> string" where
  "probe_excerpt x p =
     (let both = po_stdout p @ po_stderr p;
          status = (if po_timed_out p then ''timed out'' else ''exit status '' @ code_text ''?'' (po_exit_code p)) in
      if trim both = [] then ''(no output; '' @ status @ '')''
      else excerpt (x_redact x both) 10 30 4000 @ nl @ ''('' @ status @ '')'')"

definition run_probe ::
  "ext \<Rightarrow> step \<Rightarrow> string \<Rightarrow> string list \<Rightarrow> path \<Rightarrow> (step_outcome + bool \<times> string) drv" where
  "run_probe x st xid argv worktree =
     bnd (probe_gate x st xid argv) (\<lambda>stopped.
     case stopped of
       Some out1 \<Rightarrow> ret (Inl out1)
     | None \<Rightarrow>
       bnd (gets d_cfg) (\<lambda>cfg.
       bnd (lift_result (sandbox_wrap (cf_sandbox cfg) argv)) (\<lambda>run_argv.
       bnd the_run (\<lambda>r. bnd (ask (x_vars x)) (\<lambda>vars.
       andthen (emit (EvSpawn xid run_argv worktree (build_env (cf_environment cfg) vars (orch_env r (s_id st)))))
      (bnd (ask_result (x_process x)) (\<lambda>p.
       if po_cancelled p then ret (Inl OutCancelled)
       else
         andthen (audit ''contract_probe'' (Some (s_id st)))
           (ret (Inr (process_success p, probe_excerpt x p))))))))))"

datatype contract_result = Locked | Retry string string | Stop step_outcome

fun hash_files :: "ext \<Rightarrow> (path \<Rightarrow> string option) \<Rightarrow> path \<Rightarrow> string list \<Rightarrow> (string, string) btmap \<Rightarrow> string + (string, string) btmap" where
  "hash_files x read worktree [] m = Inr m"
| "hash_files x read worktree (p # ps) m =
     (case read (worktree @ ''/'' @ p) of
        None \<Rightarrow> Inl (''reading contract file '' @ p)
      | Some b \<Rightarrow> hash_files x read worktree ps (bt_insert p (file_hash x b) m))"

fun read_criteria_map :: "(string \<times> json) list \<Rightarrow> (string, string list) btmap option" where
  "read_criteria_map [] = Some []"
| "read_criteria_map ((k, v) # kvs) =
     (case (json_string_list v, read_criteria_map kvs) of
        (Some ss, Some m) \<Rightarrow> Some ((k, ss) # m) | _ \<Rightarrow> None)"

definition criteria_map_of :: "json \<Rightarrow> (string, string list) btmap" where
  "criteria_map_of v =
     (case Option.bind (Option.bind (json_get v ''criteria_map'') json_as_object) read_criteria_map of
        Some m \<Rightarrow> m | None \<Rightarrow> [])"

definition contract_argv :: "ext \<Rightarrow> json \<Rightarrow> path \<Rightarrow> string list option drv" where
  "contract_argv x v worktree =
     (case Option.bind (json_get v ''check'') json_string_list of
        Some c \<Rightarrow> ret (Some c)
      | None \<Rightarrow> bnd (resolve_named x ''tests'' worktree) (\<lambda>res. ret (map_option fst res)))"

definition lock_contract :: "ext \<Rightarrow> step \<Rightarrow> string \<Rightarrow> json \<Rightarrow> path \<Rightarrow> contract_result drv" where
  "lock_contract x st xid v worktree =
     (let files = List.map_filter json_as_str (json_items (json_index v ''files'')) in
      bnd (contract_argv x v worktree) (\<lambda>found.
      case found of
        None \<Rightarrow> ret (Retry ''the contract names no `check` and no `tests` check is configured''
          ''Add a `check` argv to the result file: the command that runs exactly your contract tests.'')
      | Some check \<Rightarrow>
        bnd (run_probe x st xid check worktree) (\<lambda>probe.
        case probe of
          Inl out1 \<Rightarrow> ret (Stop out1)
        | Inr (passed, ex) \<Rightarrow>
            if passed then
              andthen (audit ''contract_not_red'' (Some (s_id st)))
                (ret (Retry (''contract check `'' @ display_argv check @ ''` already passes before any implementation'')
                  (''Your contract tests pass on the current code, so they do not pin down the new behaviour. Make them test what the task adds, so they fail now and pass once it is implemented.''
                   @ nl @ ''Check output:'' @ nl @ ex)))
            else
              bnd (ask (x_file x)) (\<lambda>read.
              bnd (lift_result (hash_files x read worktree files [])) (\<lambda>hashes.
              bnd (ask (x_head x)) (\<lambda>head. bnd (ask (x_now x)) (\<lambda>t.
              andthen (audit ''contract_locked'' (Some (s_id st)))
             (andthen (set_run (\<lambda>r. r\<lparr> r_contract := Some \<lparr> c_files = hashes,
                c_sha256 = combined_hash (x_sha x) hashes, c_check = check, c_criteria_map = criteria_map_of v,
                c_commit = head, c_red_excerpt = ex, c_locked_at = t, c_approval_id = None,
                c_approved_by = None, c_approved_at = None, c_amended = False \<rparr> \<rparr>))
             (andthen (save x) (ret Locked)))))))))) "

end
