(* ===== verification/Agent_Step.thy ===== *)
theory Agent_Step
  imports Command_Step
begin

text \<open>
  Agent steps, \<open>agent_step\<close> of \<open>src/engine/steps.rs\<close>: the launch gate, the budget of agents, the prompt, the
  events of the runner, the judgement of what the agent wrote, and the gates before it is committed.
  The runner (a pane, a process) is outside: it answers with the events it reported and its result.
\<close>

subsection \<open>The launch\<close>

definition hook_command :: "ext \<Rightarrow> string \<Rightarrow> string \<Rightarrow> string" where
  "hook_command x exe run_id =
     ''HERDR_ORCH_STATE_DIR='' @ sh_quote (x_state_dir x) @ '' HERDR_ORCH_CONFIG_DIR='' @ sh_quote (x_config_dir x)
     @ '' '' @ sh_quote exe @ '' hook claude-pretool --run '' @ sh_quote run_id"

definition splice_settings :: "string \<Rightarrow> string list \<Rightarrow> string list" where
  "splice_settings arg h =
     (let i = (case position (\<lambda>a. starts_with a ''{{'') h of Some k \<Rightarrow> k | None \<Rightarrow> length h)
      in take i h @ [''--settings'', arg] @ drop i h)"

definition hooked_profile :: "string \<Rightarrow> runner_profile \<Rightarrow> runner_profile" where
  "hooked_profile arg p = p\<lparr> rp_pane_args := rp_pane_args p @ [''--settings'', arg],
     rp_headless := map_option (splice_settings arg) (rp_headless p) \<rparr>"

text \<open>Failing to install the hook is only warned about; the profile is then as it was.\<close>

definition install_claude_hook :: "ext \<Rightarrow> runner_profile \<Rightarrow> path \<Rightarrow> runner_profile drv" where
  "install_claude_hook x p worktree =
     bnd (gets d_cfg) (\<lambda>cfg. bnd the_run (\<lambda>r.
     if \<not> cf_claude_hook cfg \<or> rp_kind p \<noteq> Some ''claude'' \<or> rp_mode p \<notin> set [ModePane, ModeHeadless] \<or> r_dry_run r
     then ret p
     else case x_exe x of
       None \<Rightarrow> ret p
     | Some exe \<Rightarrow>
         let fname = worktree @ ''/'' @ ORCH_DIR @ ''/claude-settings.json'' in
         andthen (emit (EvWrite fname (x_pretty x (claude_settings (hook_command x exe (r_run_id r))))))
        (bnd (ask (x_write x)) (\<lambda>res. case res of
           Inl _ \<Rightarrow> ret p
         | Inr _ \<Rightarrow> ret (hooked_profile fname p)))))"

definition launch_argv :: "string \<Rightarrow> runner_profile \<Rightarrow> string list" where
  "launch_argv name p =
     (case rp_kind p of Some k \<Rightarrow> k | None \<Rightarrow> name) # rp_pane_args p
     @ (case rp_headless p of Some h \<Rightarrow> h | None \<Rightarrow> [])"

definition launch_gate :: "ext \<Rightarrow> step \<Rightarrow> string \<Rightarrow> string \<Rightarrow> runner_profile \<Rightarrow> step_outcome option drv" where
  "launch_gate x st xid name p =
     bnd the_run (\<lambda>r.
     bnd (judge x ((subject_command (launch_argv name p) False)\<lparr> sj_action := Some AAgentStart,
        sj_runner := Some name, sj_step_id := Some (s_id st), sj_branch := g_branch (r_git r) \<rparr>)) (\<lambda>d.
     andthen (record_policy x (Some (s_id st)) (Some xid) d)
      (case pd_decision d of
         Deny \<Rightarrow> stop_with x xid (''policy denied agent launch: '' @ pd_reason d)
           (OutBlocked (''policy denied launching '' @ name @ '': '' @ pd_reason d))
       | RequireApproval \<Rightarrow>
           ask_human x st xid (''Launch '' @ name @ '': '' @ pd_reason d)
             (''start agent '' @ display_argv (launch_argv name p)) [d]
       | Allow \<Rightarrow> ret None)))"

definition pane_names :: "run \<Rightarrow> string \<Rightarrow> string list" where
  "pane_names r xid =
     remdups (List.map_filter (\<lambda>e. case e_agent e of
         Some a \<Rightarrow> if ab_mode a = ''pane'' then ab_agent_name a else None
       | None \<Rightarrow> None) (filter (\<lambda>e. e_exec_id e \<noteq> xid) (r_steps r)))"

definition previous_agent :: "run \<Rightarrow> string \<Rightarrow> string \<Rightarrow> agent_binding option" where
  "previous_agent r sid xid =
     (case List.map_filter e_agent (filter (\<lambda>e. e_step_id e = sid \<and> e_exec_id e \<noteq> xid) (rev (r_steps r))) of
        [] \<Rightarrow> None
      | b # _ \<Rightarrow> if ab_mode b = ''pane'' then Some b else None)"

definition agent_limit :: "ext \<Rightarrow> step \<Rightarrow> string \<Rightarrow> step_execution option \<Rightarrow> step_outcome option drv" where
  "agent_limit x st xid resumed =
     bnd the_run (\<lambda>r. bnd (gets d_cfg) (\<lambda>cfg.
     if previous_agent r (s_id st) xid = None \<and> Option.bind resumed e_agent = None
        \<and> cf_max_agents cfg \<le> length (pane_names r xid) then
       let why = ''limits.max_agents_per_run ('' @ nat_str (cf_max_agents cfg) @ '') reached'' in
       stop_with x xid why (OutFailed why [])
     else ret None))"

subsection \<open>The prompt\<close>

definition memory_section :: "ext \<Rightarrow> string \<Rightarrow> string option drv" where
  "memory_section x sid =
     bnd the_run (\<lambda>r. bnd (gets d_cfg) (\<lambda>cfg.
     if \<not> (case r_memory r of Some b \<Rightarrow> b | None \<Rightarrow> cf_memory_history cfg) then ret None
     else bnd (ask (x_memory x)) (\<lambda>m. case m of
       None \<Rightarrow> ret None
     | Some section1 \<Rightarrow> andthen (audit ''memory_injected'' (Some sid)) (ret (Some section1)))))"

definition output_path :: "path \<Rightarrow> string \<Rightarrow> path" where
  "output_path worktree xid = worktree @ ''/'' @ ORCH_DIR @ ''/out/'' @ xid @ ''.json''"

text \<open>The prompt, or the outcome of a step whose skill cannot be read.\<close>

definition agent_prompt ::
  "ext \<Rightarrow> step \<Rightarrow> string \<Rightarrow> nat \<Rightarrow> path \<Rightarrow> string option \<Rightarrow> string \<Rightarrow> agent_output \<Rightarrow> bool
     \<Rightarrow> (step_outcome + string) drv" where
  "agent_prompt x st xid n worktree skill prompt outp fresh =
     bnd (gets (\<lambda>s. template_ctx (d_task s) (d_run s) (d_wf s) (s_id st) (Some (output_path worktree xid)))) (\<lambda>c.
     bnd (lift_result (with_context ''rendering prompt'' (render c prompt))) (\<lambda>body.
     bnd (case skill of
         None \<Rightarrow> ret (Inr None)
       | Some s \<Rightarrow> bnd (ask (x_skill x)) (\<lambda>get. ret (case get s of Inr t \<Rightarrow> Inr (Some t) | Inl e \<Rightarrow> Inl e))) (\<lambda>skl.
     case skl of
       Inl e \<Rightarrow> ret (Inl (OutFailed e []))
     | Inr skill_text \<Rightarrow>
         bnd (if outp \<in> set [OSummary, OContract, OPlan] \<and> fresh then memory_section x (s_id st) else ret None) (\<lambda>memory.
         bnd the_run (\<lambda>r.
         let with_memory = (case memory of Some m \<Rightarrow> trim body @ nl @ nl @ m | None \<Rightarrow> body) in
         ret (Inr (compose_prompt skill_text with_memory r (s_id st) n worktree (output_path worktree xid) outp)))))))"

subsection \<open>Events of the runner\<close>

definition exec_agent :: "string \<Rightarrow> agent_binding option drv" where
  "exec_agent xid = bnd (the_exec xid) (\<lambda>e. ret (e_agent e))"

text \<open>Move to a status from one status only; from others save or do nothing.\<close>

definition move_if :: "ext \<Rightarrow> string \<Rightarrow> step_status \<Rightarrow> step_status \<Rightarrow> unit drv \<Rightarrow> unit drv" where
  "move_if x xid from_status to_status otherwise =
     bnd (exec_status xid) (\<lambda>cur. if cur = from_status then set_exec_status x xid to_status else otherwise)"

fun on_agent_event :: "ext \<Rightarrow> string \<Rightarrow> string \<Rightarrow> agent_event \<Rightarrow> unit drv" where
  "on_agent_event x xid sid (Started b) =
     bnd (exec_agent xid) (\<lambda>before.
     andthen (set_exec xid (\<lambda>e. e\<lparr> e_agent := Some b \<rparr>))
    (andthen (move_if x xid SStarting SRunning (save x))
      (if before = None then audit ''agent_started'' (Some sid)
       else whenb (ab_terminal_id b \<noteq> None \<or> ab_last_status b \<noteq> None) (audit ''agent_attached'' (Some sid)))))"
| "on_agent_event x xid sid PromptSending =
     andthen (set_exec xid (\<lambda>e. e\<lparr> e_agent := map_option (\<lambda>a. a\<lparr> ab_prompt_sent := True \<rparr>) (e_agent e) \<rparr>))
       (save x)"
| "on_agent_event x xid sid PromptSent =
     bnd (exec_agent xid) (\<lambda>a. audit ''agent_prompt_sent'' (Some sid))"
| "on_agent_event x xid sid (AgentBlocked why) =
     andthen (move_if x xid SRunning SAwaitingHuman (ret ()))
    (andthen (audit ''agent_blocked'' (Some sid))
    (bnd the_run (\<lambda>r. notify (display_name r @ '' needs you''))))"
| "on_agent_event x xid sid Unblocked =
     andthen (move_if x xid SAwaitingHuman SRunning (ret ())) (audit ''agent_unblocked'' (Some sid))"
| "on_agent_event x xid sid (Stuck why) =
     andthen (set_exec xid (\<lambda>e. e\<lparr> e_attention := Some why \<rparr>))
    (andthen (move_if x xid SRunning SAwaitingHuman (save x))
    (andthen (audit ''agent_stuck'' (Some sid))
    (bnd the_run (\<lambda>r. notify (display_name r @ '' looks stuck'')))))"
| "on_agent_event x xid sid Progressing =
     andthen (set_exec xid (\<lambda>e. e\<lparr> e_attention := None \<rparr>))
    (andthen (move_if x xid SAwaitingHuman SRunning (save x))
      (audit ''agent_progressing'' (Some sid)))"

text \<open>An event that cannot be persisted is logged and does not stop the agent.\<close>

definition handle_event :: "ext \<Rightarrow> string \<Rightarrow> string \<Rightarrow> agent_event \<Rightarrow> unit drv" where
  "handle_event x xid sid ev = bnd (attempt (on_agent_event x xid sid ev)) (\<lambda>_. ret ())"

definition run_agent ::
  "ext \<Rightarrow> string \<Rightarrow> string \<Rightarrow> agent_binding option \<Rightarrow> string \<Rightarrow> (string + agent_result) drv" where
  "run_agent x xid sid reattach prompt =
     andthen (case reattach of
         Some b \<Rightarrow> handle_event x xid sid (Started b)
       | None \<Rightarrow> emit (EvAgent xid prompt))
     (bnd (ask (x_agent x)) (\<lambda>(evs, res).
      andthen (for_each evs (handle_event x xid sid)) (ret res)))"

subsection \<open>Usage and budgets\<close>

definition pane_usage :: "ext \<Rightarrow> string \<Rightarrow> agent_result \<Rightarrow> usage_record drv" where
  "pane_usage x xid res =
     bnd (the_exec xid) (\<lambda>e. bnd (ask (x_now x)) (\<lambda>t. bnd (gets d_cfg) (\<lambda>cfg.
     let u0 = ao_usage res;
         u = (if u_runtime_ms u0 = None
              then u0\<lparr> u_runtime_ms := map_option (\<lambda>s. nat (max 0 (t - s))) (e_started_at e) \<rparr> else u0) in
     if u_source u \<noteq> UUnknown \<or> ab_mode (ao_binding res) \<noteq> ''pane'' \<or> \<not> cf_session_logs cfg
        \<or> ab_agent_kind (ao_binding res) = None
     then ret u
     else bnd (ask (x_pane_usage x)) (\<lambda>found. ret (case found of
         Some v \<Rightarrow> v\<lparr> u_runtime_ms := u_runtime_ms u \<rparr> | None \<Rightarrow> u)))))"

definition BUDGET :: string where
  "BUDGET = ''<budget>''"

definition budget_gate :: "ext \<Rightarrow> step \<Rightarrow> string \<Rightarrow> step_outcome option drv" where
  "budget_gate x st xid =
     bnd (gets d_cfg) (\<lambda>cfg. bnd the_run (\<lambda>r.
     case budget_warning (x_cost_text x) (usage_total (x_fadd x) r) (cf_max_cost cfg) (cf_max_tokens cfg) of
       None \<Rightarrow> ret None
     | Some why \<Rightarrow>
         if bt_contains (r_approved_paths r) BUDGET then ret None
         else
           andthen (audit ''budget_exceeded'' (Some (s_id st)))
          (bnd (request_approval x st xid PolicyKind (''Budget exceeded: '' @ why)
             (Some ''continue this run past its token/cost budget'') []) (\<lambda>answer.
           case answer of
             Granted \<Rightarrow>
               andthen (set_run (\<lambda>r. r\<lparr> r_approved_paths := bt_insert BUDGET why (r_approved_paths r) \<rparr>))
              (andthen (save x) (ret None))
           | Denied d \<Rightarrow> stop_with x xid d (OutBlocked (''stopped at the budget limit: '' @ d))
           | ApprovalCancelled \<Rightarrow> ret (Some OutCancelled)))))"

subsection \<open>A retry that changes only tests\<close>

definition from_check :: "run \<Rightarrow> workflow \<Rightarrow> bool" where
  "from_check r w =
     (case r_pending_feedback_step r of
        None \<Rightarrow> False
      | Some i \<Rightarrow> (case find (\<lambda>s. s_id s = i) (w_steps w) of
          Some s \<Rightarrow> step_kind_of s = KCommand | None \<Rightarrow> False))"

definition test_only_decision :: "string \<Rightarrow> string list \<Rightarrow> policy_decision" where
  "test_only_decision sid paths =
     \<lparr> pd_decision = RequireApproval, pd_subject = ''retry of `'' @ sid @ ''`: '' @ join '', '' paths,
       pd_matched = [\<lparr> mr_rule_id = ''guard-test-only-retry'', mr_decision = RequireApproval,
         mr_reason = Some ''after a failed check the agent changed only tests or test configuration'',
         mr_source = ''builtin:guard'' \<rparr>],
       pd_reason = ''guard-test-only-retry (after a failed check the agent changed only tests or test configuration)'' \<rparr>"

definition test_only_retry_gate :: "ext \<Rightarrow> step \<Rightarrow> string \<Rightarrow> string option \<Rightarrow> step_outcome option drv" where
  "test_only_retry_gate x st xid head_before =
     bnd (gets d_cfg) (\<lambda>cfg. bnd (the_exec xid) (\<lambda>e. bnd the_run (\<lambda>r. bnd (gets d_wf) (\<lambda>w.
     if \<not> cf_test_only_retry cfg \<or> e_feedback_from e = None \<or> head_before = None \<or> \<not> from_check r w
     then ret None
     else
       bnd (ask_result (x_changed x)) (\<lambda>d.
       case scope_set (x_matchers x) (cf_test_paths cfg) of
         None \<Rightarrow> ret None
       | Some tests \<Rightarrow>
           if ds_files d = [] \<or> \<not> list_all (\<lambda>f. in_scope (x_matchers x) tests (cf_path f)) (ds_files d) then ret None
           else
             let paths = map cf_path (ds_files d); pd = test_only_decision (s_id st) paths in
             andthen (audit ''test_only_retry'' (Some (s_id st)))
            (andthen (record_policy x (Some (s_id st)) (Some xid) pd)
              (ask_human x st xid (''After `'' @ (case r_pending_feedback_step r of Some i \<Rightarrow> i | None \<Rightarrow> [])
                 @ ''` failed, the agent changed only tests: '' @ join '', '' paths)
                 ''accept test-only changes and re-run the checks'' [pd])))))))"

subsection \<open>What the agent wrote\<close>

definition parse_structured :: "ext \<Rightarrow> agent_output \<Rightarrow> string \<Rightarrow> (string + json) drv" where
  "parse_structured x outp raw =
     bnd (gets d_task) (\<lambda>t. bnd (gets d_cfg) (\<lambda>cfg.
     case outp of
       OReview \<Rightarrow> ret (parse_review (x_json x) raw)
     | OAcceptance \<Rightarrow> ret (parse_acceptance (x_json x) raw (length (t_acceptance t)))
     | OConformance \<Rightarrow> ret (parse_conformance (x_json x) (x_plan_tasks x) raw)
     | OContract \<Rightarrow>
         bnd (attempt the_worktree) (\<lambda>w. case w of
           Inl e \<Rightarrow> ret (Inl e)
         | Inr worktree \<Rightarrow> bnd (ask (x_fs x)) (\<lambda>f. bnd (ask (x_is_file x)) (\<lambda>is_file.
             ret (parse_contract (x_json x) f is_file raw (length (t_acceptance t)) (components worktree)))))
     | OPlan \<Rightarrow>
         bnd (ask (x_workflow_names x)) (\<lambda>wfs. bnd (ask (x_epic_keys x)) (\<lambda>keys.
         ret (sum_bind (parse_plan (x_plan x) (x_matchers x) raw
             \<lparr> pl_max_tasks = cf_plan_max_tasks cfg, pl_workflows = wfs, pl_existing_keys = keys \<rparr>)
           (\<lambda>p. Inr (x_plan_value x p)))))
     | OSummary \<Rightarrow> bail ''internal error: entered unreachable code''))"

text \<open>The audit event of a validated output, and why a gate fails it.\<close>

definition judge_structured ::
  "ext \<Rightarrow> string list \<Rightarrow> agent_output \<Rightarrow> json \<Rightarrow> bool \<Rightarrow> string \<times> (string \<times> string) option" where
  "judge_structured x criteria outp v gate =
     (case outp of
        OReview \<Rightarrow>
          (let verdict = (case json_as_str (json_index v ''verdict'') of Some s \<Rightarrow> s | None \<Rightarrow> []);
               n = length (json_items (json_index v ''findings'')) in
           (''review_completed'', if gate \<and> verdict \<noteq> ''approved'' then
              Some (''review verdict `'' @ verdict @ ''` with '' @ nat_str n @ '' finding(s)'',
                    x_pretty x (json_index v ''findings'')) else None))
      | OAcceptance \<Rightarrow>
          (let unmet = count_status ''not_met'' (json_items (json_index v ''criteria'')) in
           (''acceptance_verified'', if gate \<and> 0 < unmet then
              Some (nat_str unmet @ '' acceptance criterion(s) not met'', unmet_feedback v criteria) else None))
      | OPlan \<Rightarrow> (''plan_proposed'', None)
      | OContract \<Rightarrow> (''contract_written'', None)
      | OConformance \<Rightarrow> (''conformance_reviewed'', None)
      | OSummary \<Rightarrow> ([], None))"

definition worktree_changed :: "ext \<Rightarrow> string option \<Rightarrow> bool drv" where
  "worktree_changed x head_before =
     bnd (ask (x_dirty x)) (\<lambda>dirty. bnd (ask (x_head x)) (\<lambda>head.
     ret ((case dirty of Inr b \<Rightarrow> b | Inl _ \<Rightarrow> True) \<or> head \<noteq> head_before)))"

definition read_only_gate ::
  "ext \<Rightarrow> step \<Rightarrow> string \<Rightarrow> agent_output \<Rightarrow> string option \<Rightarrow> step_outcome option drv" where
  "read_only_gate x st xid outp head_before =
     (if output_read_only outp then
        bnd (worktree_changed x head_before) (\<lambda>changed.
        if changed then
          let why = ''the '' @ agent_output_str outp @ '' step must not change files, but the worktree changed'' in
          andthen (audit ''read_only_violation'' (Some (s_id st))) (stop_with x xid why (OutBlocked why))
        else ret None)
      else ret None)"

type_synonym judged = "string option \<times> (string \<times> string) option"

definition agent_structured ::
  "ext \<Rightarrow> step \<Rightarrow> string \<Rightarrow> agent_output \<Rightarrow> bool \<Rightarrow> agent_result \<Rightarrow> string option \<Rightarrow> (step_outcome + judged) drv" where
  "agent_structured x st xid outp gate res head_before =
     bnd (gets d_task) (\<lambda>t.
     bnd (case ao_output_file res of
         None \<Rightarrow> ret (Inl (''agent did not write the '' @ agent_output_str outp @ '' output file''))
       | Some raw \<Rightarrow> parse_structured x outp raw) (\<lambda>parsed.
     bnd (case parsed of
         Inr v \<Rightarrow>
           let (event, failure) = judge_structured x (t_acceptance t) outp v gate in
           andthen (audit event (Some (s_id st)))
          (andthen (set_exec xid (\<lambda>e. e\<lparr> e_structured := Some v \<rparr>))
            (ret (Some (x_pretty x v), failure)))
       | Inl err \<Rightarrow>
           andthen (set_exec xid (\<lambda>e. e\<lparr> e_parse_failed := True \<rparr>))
          (andthen (audit (if outp = OReview then ''review_completed'' else agent_output_str outp @ ''_invalid'')
              (Some (s_id st)))
            (ret (Some (x_redact x (case ao_output_file res of Some raw \<Rightarrow> raw | None \<Rightarrow> ao_transcript res)),
               if gate \<or> outp \<noteq> OReview then
                 Some (agent_output_str outp @ '' output could not be validated: '' @ err,
                   ''Your '' @ agent_output_str outp @ '' output was rejected:'' @ nl @ err @ nl
                   @ ''Write a corrected result file in the required format.'')
               else None)))) (\<lambda>j.
     bnd (read_only_gate x st xid outp head_before) (\<lambda>stopped.
     ret (case stopped of Some out1 \<Rightarrow> Inl out1 | None \<Rightarrow> Inr j)))))"

definition summary_text :: "ext \<Rightarrow> agent_result \<Rightarrow> string" where
  "summary_text x res =
     (case ao_output_file res of
        None \<Rightarrow> excerpt (ao_transcript res) 0 30 4000
      | Some raw \<Rightarrow> (case x_json x raw of
          Inl _ \<Rightarrow> raw
        | Inr v \<Rightarrow> (case json_str_at v ''summary'' of Some s \<Rightarrow> s | None \<Rightarrow> raw)))"

definition agent_notes :: "json \<Rightarrow> string list" where
  "agent_notes notes =
     take 5 (filter (\<lambda>s. s \<noteq> []) (map trim (List.map_filter json_as_str (json_items notes))))"

definition store_agent_notes :: "ext \<Rightarrow> json \<Rightarrow> unit drv" where
  "store_agent_notes x notes =
     for_each (agent_notes notes) (\<lambda>t.
       bnd (ask (x_write x)) (\<lambda>res. case res of Inr _ \<Rightarrow> audit ''note_added'' None | Inl _ \<Rightarrow> ret ()))"

definition transcript_tail :: "ext \<Rightarrow> run_config \<Rightarrow> agent_result \<Rightarrow> string" where
  "transcript_tail x cfg res = excerpt (x_redact x (ao_transcript res)) 0 40 (cf_feedback_max_bytes cfg)"

definition agent_summary ::
  "ext \<Rightarrow> step \<Rightarrow> string \<Rightarrow> agent_result \<Rightarrow> string option \<Rightarrow> (step_outcome + judged) drv" where
  "agent_summary x st xid res head_before =
     bnd (gets d_cfg) (\<lambda>cfg.
     bnd (if ao_output_file res = None then
         andthen (set_exec xid (\<lambda>e. e\<lparr> e_parse_failed := True \<rparr>))
        (bnd (worktree_changed x head_before) (\<lambda>changed.
         if \<not> changed then
           let why = ''agent finished without writing its result file and without changing anything (was the prompt received?)'' in
           andthen (audit ''agent_no_result'' (Some (s_id st)))
             (stop_with x xid why (OutFailed why (transcript_tail x cfg res)))
         else ret None))
       else ret None) (\<lambda>stopped.
     case stopped of
       Some out1 \<Rightarrow> ret (Inl out1)
     | None \<Rightarrow>
         andthen (case Option.bind (ao_output_file res) (\<lambda>raw.
               case x_json x raw of Inl _ \<Rightarrow> None | Inr v \<Rightarrow> json_get v ''notes_for_others'') of
             Some notes \<Rightarrow> store_agent_notes x notes
           | None \<Rightarrow> ret ())
           (ret (Inr (Some (x_redact x (summary_text x res)), None)))))"

subsection \<open>After the agent has ended\<close>

fun mode_debug :: "runner_mode \<Rightarrow> string" where
  "mode_debug ModePane = ''Pane''"
| "mode_debug ModeHeadless = ''Headless''"
| "mode_debug ModeShell = ''Shell''"
| "mode_debug ModeFake = ''Fake''"

definition save_transcript :: "ext \<Rightarrow> string \<Rightarrow> agent_result \<Rightarrow> unit drv" where
  "save_transcript x xid res =
     whenb (ao_transcript res \<noteq> [])
       (bnd the_run (\<lambda>r. bnd (ask (x_file x)) (\<lambda>read.
        let p = log_path x r xid;
            existing = (case read p of Some s \<Rightarrow> s | None \<Rightarrow> []) in
        andthen (emit (EvWrite p ((if existing = [] then [] else existing @ nl @ ''----- transcript -----'' @ nl)
            @ x_redact x (ao_transcript res))))
          (ask_result (x_write x)))))"

definition record_usage :: "ext \<Rightarrow> step \<Rightarrow> string \<Rightarrow> agent_result \<Rightarrow> unit drv" where
  "record_usage x st xid res =
     bnd (pane_usage x xid res) (\<lambda>u.
     andthen (set_exec xid (\<lambda>e. e\<lparr> e_agent := Some (ao_binding res), e_usage := Some u,
        e_exit_code := ao_exit_code res \<rparr>))
       (audit ''usage_recorded'' (Some (s_id st))))"

text \<open>Ends other than completion.\<close>

definition agent_end_gate :: "ext \<Rightarrow> step \<Rightarrow> string \<Rightarrow> agent_result \<Rightarrow> duration \<Rightarrow> step_outcome option drv" where
  "agent_end_gate x st xid res timeout =
     bnd (gets d_cfg) (\<lambda>cfg.
     let failed = (\<lambda>why. andthen (audit ''agent_failed'' (Some (s_id st)))
           (stop_with x xid why (OutFailed why (transcript_tail x cfg res)))) in
     case ao_end res of
       EndCompleted \<Rightarrow> ret None
     | EndCancelled \<Rightarrow> andthen (finish_exec x xid SCancelled None) (ret (Some OutCancelled))
     | EndStalled why \<Rightarrow> stop_with x xid why
         (OutNeedsHuman (''agent for `'' @ s_id st @ ''` did not start working: '' @ why @ ''; inspect its pane''))
     | EndTimedOut \<Rightarrow> failed (''agent timed out after '' @ display_duration timeout)
     | EndFailed m \<Rightarrow> failed (''agent failed: '' @ m)
     | EndLost m \<Rightarrow> failed (''agent lost: '' @ m))"

definition keep_output :: "ext \<Rightarrow> string \<Rightarrow> agent_result \<Rightarrow> string option \<Rightarrow> unit drv" where
  "keep_output x xid res output_text =
     andthen (set_exec xid (\<lambda>e. e\<lparr> e_output_excerpt := map_option (\<lambda>t. excerpt t 20 20 4000) output_text \<rparr>))
    (bnd the_run (\<lambda>r. case ao_output_file res of
       Some raw \<Rightarrow> emit (EvWrite (x_state_dir x @ ''/logs/'' @ r_run_id r @ ''/'' @ xid @ ''.output.json'') (x_redact x raw))
     | None \<Rightarrow> ret ()))"

text \<open>The gates between a result and the success of the step: the diff, the test-only retry, the commit,
  the lock of a contract, and the verdict itself.\<close>

definition agent_finish ::
  "ext \<Rightarrow> step \<Rightarrow> string \<Rightarrow> path \<Rightarrow> agent_output \<Rightarrow> bool option \<Rightarrow> bool \<Rightarrow> string option \<Rightarrow> judged \<Rightarrow> step_outcome drv" where
  "agent_finish x st xid worktree outp commit policy_check head_before j =
     (let (output_text, gate_failure) = j in
      bnd (gets d_cfg) (\<lambda>cfg.
      or_else (if policy_check then diff_policy_gate x st xid else ret None)
     (or_else (test_only_retry_gate x st xid head_before)
     (or_else (if (case commit of Some b \<Rightarrow> b | None \<Rightarrow> cf_auto_commit cfg) then commit_changes x st xid None else ret None)
     (bnd (if gate_failure = None \<and> outp = OContract then
         bnd (the_exec xid) (\<lambda>e.
         lock_contract x st xid (case e_structured e of Some v \<Rightarrow> v | None \<Rightarrow> JNull) worktree)
       else ret (case gate_failure of Some (r, f) \<Rightarrow> Retry r f | None \<Rightarrow> Locked)) (\<lambda>res.
      case res of
        Stop out1 \<Rightarrow> ret out1
      | Retry reason feedback \<Rightarrow> fail_with x xid reason feedback
      | Locked \<Rightarrow> done_with x xid output_text))))))"

definition agent_work ::
  "ext \<Rightarrow> step \<Rightarrow> string \<Rightarrow> path \<Rightarrow> string \<Rightarrow> runner_profile \<Rightarrow> step_execution option \<Rightarrow> string
     \<Rightarrow> agent_output \<Rightarrow> bool \<Rightarrow> bool option \<Rightarrow> bool \<Rightarrow> step_outcome drv" where
  "agent_work x st xid worktree name profile resumed prompt outp gate commit policy_check =
     bnd (gets d_cfg) (\<lambda>cfg.
     bnd (step_timeout x st (cf_agent_timeout cfg)) (\<lambda>timeout.
     bnd the_run (\<lambda>r.
     andthen (set_exec xid (\<lambda>e. e\<lparr> e_runner := Some name,
        e_intent := Some (''run agent '' @ name @ '' ('' @ mode_debug (rp_mode profile) @ '') in '' @ worktree), e_log_path := Some (log_path x r xid) \<rparr>))
    (andthen (whenb (resumed = None) (emit (EvRemoveFile (output_path worktree xid))))
    (bnd (ask (x_head x)) (\<lambda>head_before.
     bnd (ask (x_slot x)) (\<lambda>slot.
     if \<not> slot then ret OutCancelled
     else
       andthen (bnd (exec_status xid) (\<lambda>cur. whenb (cur = SPending)
          (andthen (set_exec_status x xid SStarting) (audit ''step_started'' (Some (s_id st))))))
      (bnd (run_agent x xid (s_id st)
          (case Option.bind resumed e_agent of Some b \<Rightarrow> if ab_prompt_sent b then Some b else None | None \<Rightarrow> None)
          prompt) (\<lambda>result.
       case result of
         Inl why \<Rightarrow>
           andthen (finish_exec x xid SFailed (Some why)) (ret (OutFailed (''agent '' @ name @ '' error: '' @ why) []))
       | Inr res \<Rightarrow>
           andthen (save_transcript x xid res)
          (andthen (record_usage x st xid res)
          (or_else (agent_end_gate x st xid res timeout)
          (or_else (budget_gate x st xid)
          (bnd (if outp = OSummary then agent_summary x st xid res head_before
                else agent_structured x st xid outp gate res head_before) (\<lambda>judged.
           case judged of
             Inl out1 \<Rightarrow> ret out1
           | Inr j \<Rightarrow>
               andthen (keep_output x xid res (fst j))
                 (agent_finish x st xid worktree outp commit policy_check head_before j)))))))))))))))"

definition agent_step ::
  "ext \<Rightarrow> step \<Rightarrow> string option \<Rightarrow> string \<Rightarrow> agent_output \<Rightarrow> bool \<Rightarrow> bool option \<Rightarrow> bool \<Rightarrow> step_outcome drv" where
  "agent_step x st skill prompt outp gate commit policy_check =
     bnd (runner_for st) (\<lambda>name.
     bnd (ask (x_build x)) (\<lambda>build.
     case build name of
       Inl e \<Rightarrow> ret (OutFailed e [])
     | Inr profile0 \<Rightarrow>
       bnd the_worktree (\<lambda>worktree.
       bnd (open_exec st) (\<lambda>resumed.
       bnd (case resumed of Some e \<Rightarrow> ret (e_exec_id e) | None \<Rightarrow> new_exec x st) (\<lambda>xid.
       bnd (the_exec xid) (\<lambda>e.
       bnd (install_claude_hook x profile0 worktree) (\<lambda>profile.
       or_else (launch_gate x st xid name profile)
      (or_else (agent_limit x st xid resumed)
      (bnd the_run (\<lambda>r.
       if r_dry_run r then
         andthen (audit ''dry_run'' (Some (s_id st)))
           (done_with x xid (Some (''(dry run: '' @ name @ '' not started)'')))
       else
         bnd (agent_prompt x st xid (e_attempt e) worktree skill prompt outp (resumed = None)) (\<lambda>res.
         case res of
           Inl out1 \<Rightarrow> ret out1
         | Inr full \<Rightarrow>
             agent_work x st xid worktree name profile resumed full outp gate commit policy_check)))))))))))"

end
