(* ===== verification/Pull_Request.thy ===== *)
theory Pull_Request
  imports Gates
begin

text \<open>
  The step that opens a pull request, \<open>pr_step\<close>, \<open>record_pr\<close> and \<open>pr_body\<close> of \<open>src/engine/steps.rs\<close>. The
  GitHub command line is outside.
\<close>

subsection \<open>The body\<close>

definition middle_dot :: string where
  "middle_dot = [CHR 0x20, CHR 0xC2, CHR 0xB7, CHR 0x20]"

definition body_row :: "step_execution \<Rightarrow> string" where
  "body_row e = ''| '' @ e_step_id e @ '' | '' @ nat_str (e_attempt e) @ '' | '' @ step_status_str (e_status e)
     @ '' | '' @ (case e_runner e of Some n \<Rightarrow> n | None \<Rightarrow> []) @ '' |'' @ nl"

definition body_head :: "task \<Rightarrow> run \<Rightarrow> workflow \<Rightarrow> string" where
  "body_head t r w =
     (let (a, q, dn) = policy_summary r in
      trim (t_description t) @ nl @ nl @ ''---'' @ nl @ nl
      @ ''Generated by herdr-orchestrator run `'' @ r_run_id r @ ''` ('' @ display_name r @ middle_dot
      @ ''workflow `'' @ w_name w @ ''`).'' @ nl @ nl
      @ ''| step | attempt | status | runner |'' @ nl @ ''|---|---|---|---|'' @ nl
      @ concat (map body_row (r_steps r))
      @ nl @ ''Policy decisions: '' @ nat_str a @ '' allow'' @ middle_dot @ nat_str q @ '' approval''
      @ middle_dot @ nat_str dn @ '' deny.'' @ nl)"

definition body_verdict :: "run \<Rightarrow> string" where
  "body_verdict r =
     (case find (\<lambda>v. json_get v ''findings'' \<noteq> None) (List.map_filter e_structured (rev (r_steps r))) of
        None \<Rightarrow> []
      | Some v \<Rightarrow> (case json_str_at v ''verdict'' of
          Some s \<Rightarrow> ''Review verdict: **'' @ s @ ''**.'' @ nl | None \<Rightarrow> []))"

definition body_links :: "task \<Rightarrow> (string \<times> string \<times> string) option \<Rightarrow> string" where
  "body_links t epic =
     (case t_issue t of Some i \<Rightarrow> nl @ ''Closes #'' @ nat_str (il_number i) @ nl | None \<Rightarrow> [])
     @ (case t_source t of Some (SrcIncident _ _ url) \<Rightarrow> nl @ ''Fixes the production error '' @ url @ nl | _ \<Rightarrow> [])
     @ (case (t_epic t, epic) of
          (Some l, Some (epic_id, p, title)) \<Rightarrow> nl @ ''Part of epic '' @ epic_id @ '' (`'' @ p @ ''` '' @ em_dash @ '' ''
            @ title @ ''), plan task '' @ el_key l @ ''.'' @ nl
        | _ \<Rightarrow> [])"

definition table_cell :: "string \<Rightarrow> string" where
  "table_cell s = concat (map (\<lambda>c. if c = CHR ''|'' then [backslash, CHR ''|''] else if c = CHR 0x0A then '' '' else [c]) s)"

definition body_acceptance :: "task \<Rightarrow> run \<Rightarrow> string" where
  "body_acceptance t r =
     (if t_acceptance t = [] then []
      else nl @ ''| # | acceptance criterion | status | evidence |'' @ nl @ ''|---|---|---|---|'' @ nl
        @ concat (map (\<lambda>(i, row). ''| '' @ nat_str (i + 1) @ '' | '' @ table_cell (aw_criterion row) @ '' | ''
            @ aw_status row @ '' | '' @ table_cell (aw_evidence row) @ '' |'' @ nl)
          (enumerate 0 (acceptance_rows (t_acceptance t) (latest_acceptance r)))))
     @ (if t_manual_checks t = [] then []
        else nl @ ''Manual checks:'' @ nl @ concat (map (\<lambda>m. ''- [ ] '' @ m @ nl) (t_manual_checks t)))"

definition body_contract :: "ext \<Rightarrow> run \<Rightarrow> string option \<Rightarrow> string" where
  "body_contract x r head =
     (case r_contract r of
        None \<Rightarrow> []
      | Some c \<Rightarrow>
          nl @ ''### Contract'' @ nl @ nl @ ''Tests written before the implementation, failing on the base, approved''
          @ (if c_amended c then '' (amended by the approver)'' else [])
          @ (case (c_approved_by c, c_approved_at c) of
               (Some who, Some t) \<Rightarrow> '' by '' @ who @ '' at '' @ x_date x t | _ \<Rightarrow> [])
          @ '' and locked. The implementation did not change them.'' @ nl @ nl
          @ concat (map (\<lambda>(p, h). ''- `'' @ p @ ''` `'' @ take 19 h @ ''`'' @ nl) (c_files c))
          @ nl @ ''Check: `'' @ display_argv (c_check c) @ ''`'' @ nl
          @ nl @ ''```'' @ nl @ ''herdr-orchestrator-receipt: v1'' @ nl
          @ ''run: '' @ r_run_id r @ nl @ ''contract_sha256: '' @ c_sha256 c @ nl
          @ ''contract_commit: '' @ (case c_commit c of Some s \<Rightarrow> s | None \<Rightarrow> []) @ nl
          @ ''approval: '' @ (case c_approval_id c of Some s \<Rightarrow> s | None \<Rightarrow> []) @ nl
          @ ''audit_head: '' @ (case head of Some s \<Rightarrow> s | None \<Rightarrow> []) @ nl @ ''```'' @ nl)"

definition pr_body ::
  "ext \<Rightarrow> task \<Rightarrow> run \<Rightarrow> workflow \<Rightarrow> (string \<times> string \<times> string) option \<Rightarrow> string option \<Rightarrow> string" where
  "pr_body x t r w epic head =
     x_redact x (body_head t r w @ body_verdict r @ body_links t epic @ body_acceptance t r
       @ nl @ ''Agent usage: '' @ tokens_display (run_agent_usage (x_fadd x) r) @ ''.'' @ nl
       @ body_contract x r head
       @ nl @ ''Audit: `herdr-orchestrator audit verify '' @ r_run_id r @ ''`'' @ nl)"

subsection \<open>The step\<close>

definition record_pr :: "ext \<Rightarrow> step \<Rightarrow> string \<Rightarrow> string \<Rightarrow> unit drv" where
  "record_pr x st xid url =
     bnd (ask (x_now x)) (\<lambda>t.
     andthen (set_run (\<lambda>r. r\<lparr> r_pr_url := Some url, r_artifacts := r_artifacts r @
        [\<lparr> ar_kind = ''pull_request'', ar_name = ''PR'', ar_path = None, ar_url = Some url,
           ar_step_id = Some (s_id st), ar_created_at = t \<rparr>] \<rparr>))
    (andthen (audit ''pr_created'' (Some (s_id st)))
      (finish_exec x xid SSucceeded None)))"

definition pr_base :: "run_config \<Rightarrow> run \<Rightarrow> string option \<Rightarrow> string" where
  "pr_base cfg r base =
     (case base of Some b \<Rightarrow> b | None \<Rightarrow> (case cf_pr_base cfg of Some b \<Rightarrow> b | None \<Rightarrow>
        if g_base_ref (r_git r) = ''HEAD'' then ''main'' else g_base_ref (r_git r)))"

text \<open>Contract files that changed after the lock stop a run that is not a dry run.\<close>

definition pr_contract_gate :: "ext \<Rightarrow> string \<Rightarrow> step_outcome option drv" where
  "pr_contract_gate x xid =
     bnd the_run (\<lambda>r.
     case g_worktree_path (r_git r) of
       None \<Rightarrow> ret None
     | Some w \<Rightarrow>
         bnd (ask (x_file x)) (\<lambda>read.
         let bad = contract_violations x read w r in
         if bad \<noteq> [] \<and> \<not> r_dry_run r then
           let why = ''contract files changed after they were locked: '' @ join '', '' bad in
           stop_with x xid why (OutBlocked why)
         else ret None))"

definition pr_decision_gate ::
  "ext \<Rightarrow> step \<Rightarrow> string \<Rightarrow> policy_decision \<Rightarrow> string \<Rightarrow> string \<Rightarrow> bool \<Rightarrow> step_outcome option drv" where
  "pr_decision_gate x st xid d branch base draft =
     (case pd_decision d of
        Deny \<Rightarrow> let why = ''policy denied PR creation: '' @ pd_reason d in stop_with x xid why (OutBlocked why)
      | RequireApproval \<Rightarrow>
          bnd (cover_applies x (s_id st)) (\<lambda>covered.
          if covered then ret None
          else
            bnd (ask_human x st xid (''Opening a PR requires approval: '' @ pd_reason d)
              (''push '' @ branch @ '' and open a '' @ (if draft then ''draft '' else []) @ ''PR into '' @ base) [d]) (\<lambda>stopped.
            case stopped of
              Some out1 \<Rightarrow> ret (Some out1)
            | None \<Rightarrow>
                bnd (the_exec xid) (\<lambda>e. bnd (ask (x_head x)) (\<lambda>head.
                andthen (set_run (\<lambda>r. r\<lparr> r_approval_cover := Some \<lparr> ac_step_id = s_id st,
                   ac_approval_id = (case e_approval_id e of Some i \<Rightarrow> i | None \<Rightarrow> []), ac_head_sha = head \<rparr> \<rparr>))
                  (ret None)))))
      | Allow \<Rightarrow> ret None)"

definition pr_create ::
  "ext \<Rightarrow> step \<Rightarrow> string \<Rightarrow> string option \<Rightarrow> string option \<Rightarrow> string \<Rightarrow> string \<Rightarrow> step_outcome drv" where
  "pr_create x st xid title body branch base =
     bnd (gets (\<lambda>s. template_ctx (d_task s) (d_run s) (d_wf s) (s_id st) None)) (\<lambda>c.
     bnd (gets d_task) (\<lambda>t. bnd the_run (\<lambda>r. bnd (gets d_wf) (\<lambda>w.
     bnd (case title of Some tt \<Rightarrow> lift_result (render c tt) | None \<Rightarrow> ret (t_title t)) (\<lambda>ttl.
     bnd (ask (x_epic x)) (\<lambda>epic. bnd (ask (x_audit_head x)) (\<lambda>head.
     bnd (case body of Some b \<Rightarrow> lift_result (render c b) | None \<Rightarrow> ret (pr_body x t r w epic head)) (\<lambda>text1.
     andthen (set_exec xid (\<lambda>e. e\<lparr> e_intent := Some (''gh pr create --head '' @ branch @ '' --base '' @ base) \<rparr>))
    (andthen (save x)
    (andthen (emit (EvPr branch base))
    (bnd (ask (x_pr_create x)) (\<lambda>res.
     case res of
       Inl why \<Rightarrow> fail_with x xid why []
     | Inr url \<Rightarrow> andthen (record_pr x st xid url) (ret (OutSucceeded (Some url)))))))))))))))"

definition pr_open ::
  "ext \<Rightarrow> step \<Rightarrow> string \<Rightarrow> policy_decision \<Rightarrow> bool \<Rightarrow> string option \<Rightarrow> string option \<Rightarrow> string \<Rightarrow> string
     \<Rightarrow> step_outcome drv" where
  "pr_open x st xid d draft title body branch base =
     bnd (gets d_cfg) (\<lambda>cfg.
     or_else (pr_decision_gate x st xid d branch base draft)
    (or_else (commit_changes x st xid None)
    (or_else (if cf_push_before_pr cfg then push_branch x st xid else ret None)
      (pr_create x st xid title body branch base))))"

text \<open>A pull request that exists already completes the step; a follow-up first pushes its commits.\<close>

definition pr_existing :: "ext \<Rightarrow> step \<Rightarrow> string \<Rightarrow> string \<Rightarrow> step_outcome drv" where
  "pr_existing x st xid url =
     bnd (gets d_task) (\<lambda>t. bnd the_run (\<lambda>r.
     or_else (if to_continue_run (t_options t) \<noteq> None \<and> \<not> r_dry_run r
         then bnd (commit_changes x st xid None) (\<lambda>stopped. case stopped of
             Some out1 \<Rightarrow> ret (Some out1)
           | None \<Rightarrow> push_branch x st xid)
         else ret None)
       (andthen (record_pr x st xid url) (ret (OutSucceeded (Some url))))))"

definition pr_publish ::
  "ext \<Rightarrow> step \<Rightarrow> string \<Rightarrow> policy_decision \<Rightarrow> bool \<Rightarrow> string option \<Rightarrow> string option \<Rightarrow> string \<Rightarrow> string
     \<Rightarrow> step_outcome drv" where
  "pr_publish x st xid d draft title body branch base =
     bnd the_worktree (\<lambda>worktree.
     bnd (ask (x_gh_available x)) (\<lambda>available.
     if \<not> available then fail_with x xid ''GitHub CLI `gh` is not installed'' []
     else
       bnd (ask (x_pr_for_branch x)) (\<lambda>found.
       case found of
         Inr (Some url) \<Rightarrow> pr_existing x st xid url
       | Inr None \<Rightarrow> pr_open x st xid d draft title body branch base
       | Inl e \<Rightarrow> fail_with x xid (''could not query existing PRs: '' @ e) [])))"

definition pr_step ::
  "ext \<Rightarrow> step \<Rightarrow> bool option \<Rightarrow> string option \<Rightarrow> string option \<Rightarrow> string option \<Rightarrow> step_outcome drv" where
  "pr_step x st draft_opt title body base_opt =
     bnd (open_or_new x st) (\<lambda>xid.
     andthen (begin_exec x xid)
    (bnd (gets d_cfg) (\<lambda>cfg. bnd the_run (\<lambda>r.
     let draft = (case draft_opt of Some d \<Rightarrow> d | None \<Rightarrow> cf_draft_pr cfg) in
     case g_branch (r_git r) of
       None \<Rightarrow> bail ''no branch''
     | Some branch \<Rightarrow>
       or_else (pr_contract_gate x xid)
       (bnd (judge x (subject_default\<lparr> sj_action := Some AGithubPr, sj_branch := Some branch,
           sj_step_id := Some (s_id st), sj_repo := Some (r_repo_root r) \<rparr>)) (\<lambda>d.
        andthen (record_policy x (Some (s_id st)) (Some xid) d)
         (if r_dry_run r then andthen (audit ''dry_run'' (Some (s_id st))) (done_with x xid None)
          else pr_publish x st xid d draft title body branch (pr_base cfg r base_opt))))))))"

end
