(* ===== verification/Run_Loop.thy ===== *)
theory Run_Loop
  imports Agent_Step Pull_Request
begin

text \<open>
  The run driver's loop, \<open>execute\<close> and \<open>drive\<close> of \<open>src/engine/driver.rs\<close>, over the step executors of
  \<open>src/engine/steps.rs\<close>. The loop has fuel; \<open>Run_Facts\<close> shows how much is enough.
\<close>

fun execute_step :: "ext \<Rightarrow> step \<Rightarrow> step_outcome drv" where
  "execute_step x st =
     (case s_spec st of
        SpAgent _ skill prompt outp gate commit policy_check \<Rightarrow>
          agent_step x st skill prompt outp gate commit policy_check
      | SpCommand argv shell env cwd \<Rightarrow> command_step x st argv shell env cwd
      | SpCheck _ argv shell env cwd _ \<Rightarrow> command_step x st argv shell env cwd
      | SpApproval reason \<Rightarrow> approval_step x st reason
      | SpPolicy \<Rightarrow> policy_step x st
      | SpGit act message \<Rightarrow> git_step x st act message
      | SpGithubPr draft title body base \<Rightarrow> pr_step x st draft title body base
      | SpParallel \<Rightarrow> ret (OutFailed ''parallel steps are not supported'' []))"

text \<open>What the polls of a pause see: a pause request and a cancel request.\<close>

fun pause_loop :: "ext \<Rightarrow> bool \<Rightarrow> (bool \<times> bool) list \<Rightarrow> unit drv" where
  "pause_loop x announced [] = bail STOPPED"
| "pause_loop x announced ((paused, cancel) # ps) =
     (if \<not> paused \<or> cancel then whenb announced (audit ''run_resumed'' None)
      else
        andthen (whenb (\<not> announced)
          (andthen (set_run (\<lambda>r. r\<lparr> r_status_reason := Some ''paused'' \<rparr>))
          (andthen (save x) (audit ''run_paused'' None))))
          (pause_loop x True ps))"

definition wait_while_paused :: "ext \<Rightarrow> unit drv" where
  "wait_while_paused x = bnd (ask (x_pause x)) (pause_loop x False)"

text \<open>What the loop does with the outcome of a step: \<open>Some\<close> status when the run stops.\<close>

definition after_success :: "ext \<Rightarrow> step \<Rightarrow> string option \<Rightarrow> run_status option drv" where
  "after_success x st outp =
     andthen (case outp of Some t \<Rightarrow> record_output (s_id st) t | None \<Rightarrow> ret ())
    (andthen (set_run (\<lambda>r.
        if r_pending_feedback r \<noteq> None \<and> step_kind_of st = KAgent
        then r\<lparr> r_pending_feedback := None, r_pending_feedback_step := None \<rparr> else r))
    (andthen (set_run (\<lambda>r. r\<lparr> r_cursor := r_cursor r + 1 \<rparr>))
    (andthen (save x) (ret None))))"

definition after_step :: "ext \<Rightarrow> step \<Rightarrow> step_outcome \<Rightarrow> run_status option drv" where
  "after_step x st outcome =
     (case outcome of
        OutSucceeded outp \<Rightarrow> after_success x st outp
      | OutSkipped why \<Rightarrow>
          andthen (audit ''step_skipped'' (Some (s_id st)))
         (andthen (set_run (\<lambda>r. r\<lparr> r_cursor := r_cursor r + 1 \<rparr>))
         (andthen (save x) (ret None)))
      | OutFailed reason feedback \<Rightarrow> handle_failure x st reason feedback
      | OutBlocked why \<Rightarrow> bnd (stop x RBlocked why) (\<lambda>n. ret (Some n))
      | OutNeedsHuman why \<Rightarrow> bnd (stop x RNeedsHuman why) (\<lambda>n. ret (Some n))
      | OutCancelled \<Rightarrow> bnd (cancelled x ''cancelled during step'') (\<lambda>n. ret (Some n)))"

text \<open>One turn of the loop, before the step itself.\<close>

definition before_step :: "ext \<Rightarrow> run_status option drv" where
  "before_step x =
     bnd (ask (x_cancel x)) (\<lambda>c.
     if c then bnd (cancelled x ''cancelled by request'') (\<lambda>n. ret (Some n))
     else
       andthen (wait_while_paused x)
      (bnd (ask (x_late x)) (\<lambda>late.
       if late then
         bnd (gets d_cfg) (\<lambda>cfg.
         bnd (fail_run x (''max_runtime '' @ display_duration (cf_max_runtime cfg) @ '' exceeded'')) (\<lambda>n. ret (Some n)))
       else ret None)))"

definition one_turn :: "ext \<Rightarrow> run_status option drv" where
  "one_turn x =
     bnd (before_step x) (\<lambda>early.
     case early of
       Some n \<Rightarrow> ret (Some n)
     | None \<Rightarrow>
         bnd the_run (\<lambda>r. bnd (gets d_wf) (\<lambda>w.
         let st = w_steps w ! r_cursor r in
         bnd (execute_step x st) (after_step x st))))"

text \<open>The loop; the result is \<open>None\<close> when the fuel runs out.\<close>

fun step_loop :: "nat \<Rightarrow> ext \<Rightarrow> driver \<Rightarrow> ((string + run_status) \<times> driver) option" where
  "step_loop 0 x s = None"
| "step_loop (Suc n) x s =
     (if r_cursor (d_run s) < length (w_steps (d_wf s)) then
        (case one_turn x s of
           (Inl e, t) \<Rightarrow> Some (Inl e, t)
         | (Inr (Some status), t) \<Rightarrow> Some (Inr status, t)
         | (Inr None, t) \<Rightarrow> step_loop n x t)
      else Some (complete x s))"

text \<open>The part of \<open>execute\<close> before the loop.\<close>

definition start_run :: "ext \<Rightarrow> unit drv" where
  "start_run x =
     bnd the_run (\<lambda>r.
     andthen (whenb (r_status r = RPending) (set_status x RPreparing None))
       (whenb (r_started_at r = None)
         (bnd (ask (x_now x)) (\<lambda>t.
          andthen (set_run (\<lambda>r. r\<lparr> r_started_at := Some t \<rparr>))
         (andthen (save x) (audit ''run_started'' None))))))"

definition enter_running :: "ext \<Rightarrow> run_status option drv" where
  "enter_running x =
     bnd the_run (\<lambda>r.
     if r_status r = RPreparing then
       bnd (prepare x) (\<lambda>stopped. case stopped of
         Some n \<Rightarrow> ret (Some n)
       | None \<Rightarrow> andthen (set_status x RRunning None) (ret None))
     else if r_status r = RAwaitingApproval then andthen (set_status x RRunning None) (ret None)
     else ret None)"

definition check_worktree :: "ext \<Rightarrow> run_status option drv" where
  "check_worktree x =
     bnd the_run (\<lambda>r. case g_worktree_path (r_git r) of
       None \<Rightarrow> ret None
     | Some w \<Rightarrow>
         bnd (ask (x_exists x)) (\<lambda>there.
         if \<not> r_dry_run r \<and> \<not> there w then
           bnd (stop x RNeedsHuman (''worktree '' @ w @ '' is missing'')) (\<lambda>n. ret (Some n))
         else ret None))"

definition begin_run :: "ext \<Rightarrow> run_status option drv" where
  "begin_run x =
     bnd the_run (\<lambda>r.
     if run_terminal (r_status r) then ret (Some (r_status r))
     else
       bnd (ask (x_cancel x)) (\<lambda>c.
       if c then bnd (cancelled x ''cancelled before start'') (\<lambda>n. ret (Some n))
       else
         andthen (start_run x)
        (bnd (enter_running x) (\<lambda>stopped. case stopped of
           Some n \<Rightarrow> ret (Some n)
         | None \<Rightarrow> check_worktree x))))"

definition execute :: "nat \<Rightarrow> ext \<Rightarrow> driver \<Rightarrow> ((string + run_status) \<times> driver) option" where
  "execute n x s =
     (case begin_run x s of
        (Inl e, t) \<Rightarrow> Some (Inl e, t)
      | (Inr (Some status), t) \<Rightarrow> Some (Inr status, t)
      | (Inr None, t) \<Rightarrow> step_loop n x t)"

text \<open>\<open>drive\<close> once the run is loaded and locked: an error fails the run. A process that is stopped
  while it waits does nothing more.\<close>

definition drive :: "nat \<Rightarrow> ext \<Rightarrow> driver \<Rightarrow> ((string + run_status) \<times> driver) option" where
  "drive n x s =
     (case execute n x s of
        None \<Rightarrow> None
      | Some (Inr status, t) \<Rightarrow> Some (Inr status, t)
      | Some (Inl e, t) \<Rightarrow>
          if e = STOPPED then Some (Inl e, t)
          else (case fail x (''internal error: '' @ e) t of
              (Inl e2, u) \<Rightarrow> Some (Inl e2, u)
            | (Inr _, u) \<Rightarrow> Some (Inr RFailed, u)))"

end
