(* ===== verification/Evolution.thy ===== *)
theory Evolution
  imports Run_Loop
begin

text \<open>
  How the driver's state evolves. \<open>run_evolves\<close> relates a run document to a later one: identity and
  options stay, executions are appended and follow the status table, recorded decisions and
  approvals are appended, the worktree is chosen once. \<open>evo\<close> relates driver states: what was added
  to the log, that every saved document lies on the path from the old document to the new one, and,
  for what a step may do (\<open>K\<close>), that the loop's own variables are untouched and that every execution
  that has left its pending status has been saved that way. One lemma per operation of the driver
  and of the executors shows that it moves along \<open>evo\<close>; the locales give the class of effects the
  operation may have.
\<close>

named_theorems evo_intros \<open>operations of the driver and the order they move along\<close>

subsection \<open>Documents\<close>

definition exec_evolves :: "step_execution \<Rightarrow> step_execution \<Rightarrow> bool" where
  "exec_evolves e f \<longleftrightarrow>
     e_exec_id f = e_exec_id e \<and> e_step_id f = e_step_id e \<and> e_kind f = e_kind e \<and>
     e_attempt f = e_attempt e \<and> step_can\<^sup>*\<^sup>* (e_status e) (e_status f) \<and>
     (e_started_at e \<noteq> None \<longrightarrow> e_started_at f = e_started_at e)"

definition steps_evolve :: "step_execution list \<Rightarrow> step_execution list \<Rightarrow> bool" where
  "steps_evolve xs ys \<longleftrightarrow> (\<exists>zs ws. ys = zs @ ws \<and> list_all2 exec_evolves xs zs)"

text \<open>The attempts of a step are numbered from one, in order.\<close>

definition numbered :: "step_execution list \<Rightarrow> bool" where
  "numbered es \<longleftrightarrow> (\<forall>i < length es. e_attempt (es ! i) =
     Suc (length (filter (\<lambda>e. e_step_id e = e_step_id (es ! i)) (take i es))))"

text \<open>A driver never reopens a run.\<close>

definition driven :: "run_status \<Rightarrow> run_status \<Rightarrow> bool" where
  "driven a b \<longleftrightarrow> run_can a b \<and> (b = RPending \<longrightarrow> a = RPending)"

definition git_evolves :: "git_state \<Rightarrow> git_state \<Rightarrow> bool" where
  "git_evolves g h \<longleftrightarrow>
     (g_worktree_path g \<noteq> None \<longrightarrow> g_worktree_path h = g_worktree_path g \<and> g_branch h = g_branch g
        \<and> g_base_sha h = g_base_sha g) \<and>
     prefix (g_commits g) (g_commits h)"

definition run_evolves :: "run \<Rightarrow> run \<Rightarrow> bool" where
  "run_evolves r q \<longleftrightarrow>
     r_run_id q = r_run_id r \<and> r_task_id q = r_task_id r \<and> r_repo_root q = r_repo_root r \<and>
     r_dry_run q = r_dry_run r \<and> r_workflow_sha256 q = r_workflow_sha256 r \<and>
     git_evolves (r_git r) (r_git q) \<and> driven\<^sup>*\<^sup>* (r_status r) (r_status q) \<and>
     steps_evolve (r_steps r) (r_steps q) \<and> (numbered (r_steps r) \<longrightarrow> numbered (r_steps q)) \<and>
     prefix (r_policy_decisions r) (r_policy_decisions q) \<and> prefix (r_approvals r) (r_approvals q) \<and>
     (r_started_at r \<noteq> None \<longrightarrow> r_started_at q = r_started_at r)"

lemma exec_evolves_refl [simp]: "exec_evolves e e"
  by (simp add: exec_evolves_def)

lemma exec_evolves_trans: "exec_evolves e f \<Longrightarrow> exec_evolves f g \<Longrightarrow> exec_evolves e g"
  by (auto simp: exec_evolves_def)

lemma exec_evolves_same:
  "e_exec_id f = e_exec_id e \<Longrightarrow> e_step_id f = e_step_id e \<Longrightarrow> e_kind f = e_kind e \<Longrightarrow>
   e_attempt f = e_attempt e \<Longrightarrow> step_can (e_status e) (e_status f) \<Longrightarrow>
   (e_started_at e \<noteq> None \<Longrightarrow> e_started_at f = e_started_at e) \<Longrightarrow> exec_evolves e f"
  by (auto simp: exec_evolves_def)

lemma steps_evolve_refl [simp]: "steps_evolve xs xs"
  unfolding steps_evolve_def by (intro exI [of _ xs] exI [of _ "[]"]) (simp add: list_all2_refl)

lemma steps_evolve_all2: "list_all2 exec_evolves xs ys \<Longrightarrow> steps_evolve xs ys"
  unfolding steps_evolve_def by (intro exI [of _ ys] exI [of _ "[]"]) simp

lemma steps_evolve_trans:
  assumes "steps_evolve xs ys" and "steps_evolve ys zs"
  shows "steps_evolve xs zs"
proof -
  obtain a b c d where y: "ys = a @ b" "list_all2 exec_evolves xs a"
    and z: "zs = c @ d" "list_all2 exec_evolves (a @ b) c"
    using assms unfolding steps_evolve_def by blast
  obtain c1 c2 where c: "c = c1 @ c2" "list_all2 exec_evolves a c1"
    using z(2) by (auto simp: list_all2_append1)
  have "list_all2 exec_evolves xs c1"
    by (rule list_all2_trans [OF _ y(2) c(2)]) (rule exec_evolves_trans)
  with z(1) c(1) show ?thesis unfolding steps_evolve_def by (intro exI [of _ c1] exI [of _ "c2 @ d"]) simp
qed

lemma update_first_all2:
  "(\<And>e. R e e) \<Longrightarrow> (\<And>e. p e \<Longrightarrow> R e (f e)) \<Longrightarrow> list_all2 R es (update_first p f es)"
  by (induction es) (auto simp: list_all2_refl)

lemma numbered_all2:
  assumes "list_all2 exec_evolves xs ys"
  shows "numbered ys = numbered xs"
proof -
  have eq: "e_step_id (ys ! i) = e_step_id (xs ! i)" "e_attempt (ys ! i) = e_attempt (xs ! i)"
    if "i < length xs" for i
    using list_all2_nthD [OF assms that] by (simp_all add: exec_evolves_def)
  have len: "length ys = length xs" using assms by (simp add: list_all2_lengthD)
  have take: "length (filter (\<lambda>e. e_step_id e = s) (take i ys))
    = length (filter (\<lambda>e. e_step_id e = s) (take i xs))" if "i < length xs" for i s
  proof -
    have "map e_step_id (take i ys) = map e_step_id (take i xs)"
      using that len eq by (auto intro!: nth_equalityI)
    then have "filter (\<lambda>x. x = s) (map e_step_id (take i ys)) = filter (\<lambda>x. x = s) (map e_step_id (take i xs))"
      by simp
    then show ?thesis by (simp add: filter_map comp_def) (metis length_map)
  qed
  show ?thesis using len eq take by (auto simp: numbered_def)
qed

lemma driven_refl [simp]: "driven a a"
  by (simp add: driven_def run_can_def)

lemma git_evolves_refl [simp]: "git_evolves g g"
  by (simp add: git_evolves_def)

lemma run_evolves_refl [simp]: "run_evolves r r"
  by (simp add: run_evolves_def)

lemma git_evolves_trans: "git_evolves g h \<Longrightarrow> git_evolves h i \<Longrightarrow> git_evolves g i"
  by (auto simp: git_evolves_def)

lemma run_evolves_trans: "run_evolves r q \<Longrightarrow> run_evolves q p \<Longrightarrow> run_evolves r p"
  unfolding run_evolves_def
  by (elim conjE, intro conjI)
    (auto intro: git_evolves_trans steps_evolve_trans rtranclp_trans prefix_order.trans)

text \<open>Changes of the executions that exist, each along its own order.\<close>

lemma run_evolves_steps:
  assumes "list_all2 exec_evolves (r_steps r) es"
  shows "run_evolves r (r\<lparr> r_steps := es \<rparr>)"
  using numbered_all2 [OF assms] steps_evolve_all2 [OF assms] by (simp add: run_evolves_def)

lemma run_evolves_update:
  assumes "\<And>e. exec_of r xid = Some e \<Longrightarrow> exec_evolves e (f e)"
  shows "run_evolves r (exec_update xid f r)"
proof -
  have "list_all2 exec_evolves es (update_first (\<lambda>e. e_exec_id e = xid) f es)"
    if "\<And>e. find (\<lambda>e. e_exec_id e = xid) es = Some e \<Longrightarrow> exec_evolves e (f e)" for es
    using that by (induction es) (auto simp: list_all2_refl)
  with assms show ?thesis unfolding exec_update_def exec_of_def by (intro run_evolves_steps) blast
qed

lemma find_evolves:
  assumes "steps_evolve xs ys" and "find (\<lambda>e. e_exec_id e = xid) xs = Some e"
  shows "\<exists>f. find (\<lambda>e. e_exec_id e = xid) ys = Some f \<and> exec_evolves e f"
proof -
  obtain zs ws where y: "ys = zs @ ws" "list_all2 exec_evolves xs zs"
    using assms(1) unfolding steps_evolve_def by blast
  from y(2) assms(2) have "\<exists>f. find (\<lambda>e. e_exec_id e = xid) (zs @ ws) = Some f \<and> exec_evolves e f"
    by (induction rule: list_all2_induct) (auto simp: exec_evolves_def split: if_splits)
  with y(1) show ?thesis by simp
qed

lemma exec_of_evolves:
  "run_evolves r q \<Longrightarrow> exec_of r xid = Some e \<Longrightarrow> \<exists>f. exec_of q xid = Some f \<and> exec_evolves e f"
  unfolding exec_of_def by (rule find_evolves) (simp_all add: run_evolves_def)

lemma not_pending_stays: "step_can\<^sup>*\<^sup>* a b \<Longrightarrow> a \<noteq> SPending \<Longrightarrow> b \<noteq> SPending"
  by (induction rule: rtranclp_induct) (auto simp: step_can_def split: step_status.splits)

subsection \<open>What has been saved\<close>

fun saved :: "effect list \<Rightarrow> run list" where
  "saved [] = []"
| "saved (EvSave r # l) = r # saved l"
| "saved (_ # l) = saved l"

lemma saved_append [simp]: "saved (l @ k) = saved l @ saved k"
  by (induction l rule: saved.induct) auto

definition started :: "run \<Rightarrow> string \<Rightarrow> bool" where
  "started r xid \<longleftrightarrow> (\<exists>e. exec_of r xid = Some e \<and> e_status e \<noteq> SPending)"

text \<open>On disk, in a document loaded as \<open>r0\<close> or saved since, the execution is known to be under way.\<close>

definition durable :: "run \<Rightarrow> effect list \<Rightarrow> string \<Rightarrow> bool" where
  "durable r0 l xid \<longleftrightarrow> (\<exists>r \<in> set (r0 # saved l). started r xid)"

definition synced :: "run \<Rightarrow> driver \<Rightarrow> bool" where
  "synced r0 s \<longleftrightarrow> (\<forall>xid. started (d_run s) xid \<longrightarrow> durable r0 (d_log s) xid)"

lemma durable_append: "durable r0 l xid \<Longrightarrow> durable r0 (l @ k) xid"
  by (auto simp: durable_def)

lemma started_evolves: "run_evolves r q \<Longrightarrow> started r xid \<Longrightarrow> started q xid"
  unfolding started_def
  by (elim exE conjE, drule (1) exec_of_evolves) (auto simp: exec_evolves_def dest: not_pending_stays)

text \<open>A path through documents.\<close>

fun chain :: "('a \<Rightarrow> 'a \<Rightarrow> bool) \<Rightarrow> 'a \<Rightarrow> 'a list \<Rightarrow> 'a \<Rightarrow> bool" where
  "chain R a [] b = R a b"
| "chain R a (x # xs) b = (R a x \<and> chain R x xs b)"

lemma chain_step: "transp R \<Longrightarrow> R a b \<Longrightarrow> chain R b ys c \<Longrightarrow> chain R a ys c"
  by (cases ys) (auto dest: transpD)

lemma chain_append:
  assumes "transp R" and "chain R b ys c"
  shows "chain R a xs b \<Longrightarrow> chain R a (xs @ ys) c"
  using chain_step [OF assms(1) _ assms(2)] by (induction xs arbitrary: a) auto

lemma chain_ends:
  assumes "transp R"
  shows "chain R a xs b \<Longrightarrow> R a b"
  using assms by (induction xs arbitrary: a) (auto dest: transpD)

lemma chain_sorted:
  assumes "transp R"
  shows "chain R a xs b \<Longrightarrow> sorted_wrt R (a # xs @ [b])"
proof (induction xs arbitrary: a)
  case (Cons x xs)
  then have "sorted_wrt R (x # xs @ [b])" "R a x" by auto
  with assms show ?case by (auto dest: transpD)
qed simp

lemma transp_run_evolves: "transp run_evolves"
  by (rule transpI) (rule run_evolves_trans)

subsection \<open>Driver states\<close>

text \<open>Effects that start work outside, effects that record a policy decision, and the others.\<close>

fun launches :: "effect \<Rightarrow> bool" where
  "launches (EvSpawn _ _ _ _) = True"
| "launches (EvAgent _ _) = True"
| "launches (EvCommit _) = True"
| "launches (EvPush _ _) = True"
| "launches (EvPr _ _) = True"
| "launches (EvWorktree _ _) = True"
| "launches _ = False"

fun decides :: "effect \<Rightarrow> bool" where
  "decides (EvPolicy _ _ _) = True"
| "decides _ = False"

text \<open>Effects that start a process or an agent for an execution.\<close>

fun starts :: "effect \<Rightarrow> string option" where
  "starts (EvSpawn xid _ _ _) = Some xid"
| "starts (EvAgent xid _) = Some xid"
| "starts _ = None"

definition calm :: "effect \<Rightarrow> bool" where
  "calm e \<longleftrightarrow> \<not> launches e \<and> \<not> decides e"

definition quiet :: "effect \<Rightarrow> bool" where
  "quiet e \<longleftrightarrow> \<not> launches e"

definition same_setup :: "driver \<Rightarrow> driver \<Rightarrow> bool" where
  "same_setup s t \<longleftrightarrow> d_wf t = d_wf s \<and> d_cfg t = d_cfg s \<and> d_policy t = d_policy s \<and> d_task t = d_task s"

text \<open>What a step leaves alone.\<close>

definition loop_kept :: "driver \<Rightarrow> driver \<Rightarrow> bool" where
  "loop_kept s t \<longleftrightarrow>
     r_cursor (d_run t) = r_cursor (d_run s) \<and> r_retry_counts (d_run t) = r_retry_counts (d_run s) \<and>
     run_terminal (r_status (d_run t)) = run_terminal (r_status (d_run s)) \<and>
     (\<forall>r0. synced r0 s \<longrightarrow> synced r0 t)"

definition evo :: "bool \<Rightarrow> (effect \<Rightarrow> bool) \<Rightarrow> driver \<Rightarrow> driver \<Rightarrow> bool" where
  "evo K C s t \<longleftrightarrow>
     (\<exists>l. d_log t = d_log s @ l \<and> list_all C l \<and> chain run_evolves (d_run s) (saved l) (d_run t)) \<and>
     same_setup s t \<and> (K \<longrightarrow> loop_kept s t)"

lemma evo_refl: "evo K C s s"
  by (auto simp: evo_def same_setup_def loop_kept_def intro: exI [of _ "[]"])

lemma evo_trans:
  assumes "evo K C s t" and "evo K C t u"
  shows "evo K C s u"
proof -
  obtain l k where
    l: "d_log t = d_log s @ l" "list_all C l" "chain run_evolves (d_run s) (saved l) (d_run t)" and
    k: "d_log u = d_log t @ k" "list_all C k" "chain run_evolves (d_run t) (saved k) (d_run u)"
    using assms unfolding evo_def by blast
  have "chain run_evolves (d_run s) (saved (l @ k)) (d_run u)"
    using chain_append [OF transp_run_evolves k(3) l(3)] by simp
  moreover have "d_log u = d_log s @ (l @ k)" "list_all C (l @ k)" using l k by simp_all
  ultimately show ?thesis
    using assms unfolding evo_def same_setup_def loop_kept_def by (intro conjI exI [of _ "l @ k"]) auto
qed

lemma evo_weaken: "evo K C s t \<Longrightarrow> (\<And>e. C e \<Longrightarrow> D e) \<Longrightarrow> (L \<Longrightarrow> K) \<Longrightarrow> evo L D s t"
  unfolding evo_def by (auto intro: list.pred_mono_strong)

lemma evo_run: "evo K C s t \<Longrightarrow> run_evolves (d_run s) (d_run t)"
  unfolding evo_def by (auto dest: chain_ends [OF transp_run_evolves])

text \<open>A change of the document alone, by a function that leaves the loop's variables and keeps
  pending executions pending.\<close>

definition steady :: "run \<Rightarrow> run \<Rightarrow> bool" where
  "steady r q \<longleftrightarrow> run_evolves r q \<and> r_cursor q = r_cursor r \<and> r_retry_counts q = r_retry_counts r \<and>
     run_terminal (r_status q) = run_terminal (r_status r) \<and> (\<forall>xid. started q xid \<longrightarrow> started r xid)"

lemma evo_set_run: "steady (d_run s) q \<Longrightarrow> evo K C s (s\<lparr> d_run := q \<rparr>)"
  by (auto simp: evo_def same_setup_def loop_kept_def steady_def synced_def intro!: exI [of _ "[]"])

lemma evo_set_run_loop: "run_evolves (d_run s) q \<Longrightarrow> evo False C s (s\<lparr> d_run := q \<rparr>)"
  by (auto simp: evo_def same_setup_def intro!: exI [of _ "[]"])

lemma steady_same_steps:
  "run_evolves r q \<Longrightarrow> r_steps q = r_steps r \<Longrightarrow> r_cursor q = r_cursor r \<Longrightarrow>
   r_retry_counts q = r_retry_counts r \<Longrightarrow> run_terminal (r_status q) = run_terminal (r_status r) \<Longrightarrow> steady r q"
  by (simp add: steady_def started_def exec_of_def)

lemma steady_update:
  assumes "\<And>e. exec_of r xid = Some e \<Longrightarrow> exec_evolves e (f e) \<and> e_status (f e) = e_status e"
  shows "steady r (exec_update xid f r)"
proof -
  have ev: "run_evolves r (exec_update xid f r)"
    using assms by (intro run_evolves_update) blast
  have "started r y" if st: "started (exec_update xid f r) y" for y
  proof -
    obtain e where e: "exec_of (exec_update xid f r) y = Some e" "e_status e \<noteq> SPending"
      using st by (auto simp: started_def)
    have "\<exists>d. find (\<lambda>e. e_exec_id e = y) es = Some d \<and> e_status d = e_status e"
      if "find (\<lambda>e. e_exec_id e = y) (update_first (\<lambda>e. e_exec_id e = xid) f es) = Some e"
        "\<And>e. find (\<lambda>e. e_exec_id e = xid) es = Some e \<Longrightarrow> e_exec_id (f e) = e_exec_id e \<and> e_status (f e) = e_status e"
      for es using that by (induction es) (auto split: if_splits)
    from this [of "r_steps r"] e(1) assms show ?thesis
      using e(2) by (auto simp: started_def exec_of_def exec_update_def exec_evolves_def)
  qed
  with ev show ?thesis by (simp add: steady_def)
qed

text \<open>Saving the document as it is.\<close>

lemma evo_saved:
  assumes "d_run t = q" and "d_log t = d_log s @ [EvSave q]" and "same_setup s t"
    and "run_evolves (d_run s) q" and "C (EvSave q)"
    and "K \<Longrightarrow> r_cursor q = r_cursor (d_run s) \<and> r_retry_counts q = r_retry_counts (d_run s) \<and>
       run_terminal (r_status q) = run_terminal (r_status (d_run s))"
  shows "evo K C s t"
  using assms
  by (auto simp: evo_def loop_kept_def synced_def durable_def intro!: exI [of _ "[EvSave q]"])

end
