(* ===== verification/Operations.thy ===== *)
theory Operations
  imports Evolution
begin

text \<open>
  Every operation of the driver and of the step executors moves the driver's state along \<open>evo\<close>. The
  locale \<open>evolution\<close> is what an operation relies on: a class of effects that contains the calm ones
  (\<open>evolution\<close>), the recorded decisions too (\<open>quiet_evolution\<close>), all but the start of processes and
  agents (\<open>publish_evolution\<close>), or all (\<open>free_evolution\<close>).
\<close>

locale evolution =
  fixes K :: bool and C :: "effect \<Rightarrow> bool"
  assumes calm_ok: "calm e \<Longrightarrow> C e"

sublocale evolution < order: state_order "evo K C"
  by unfold_locales (auto intro: evo_refl evo_trans)

locale quiet_evolution = evolution +
  assumes quiet_ok: "quiet e \<Longrightarrow> C e"

locale publish_evolution = quiet_evolution +
  assumes publish_ok: "starts e = None \<Longrightarrow> C e"

locale free_evolution = publish_evolution +
  assumes any_ok: "C e"

subsection \<open>Case distinctions\<close>

lemma moves_decision [evo_intros]:
  "(d = Allow \<Longrightarrow> moves R a) \<Longrightarrow> (d = RequireApproval \<Longrightarrow> moves R b) \<Longrightarrow> (d = Deny \<Longrightarrow> moves R c) \<Longrightarrow>
   moves R (case d of Allow \<Rightarrow> a | RequireApproval \<Rightarrow> b | Deny \<Rightarrow> c)"
  by (cases d) auto

lemma moves_answer [evo_intros]:
  "(d = Granted \<Longrightarrow> moves R a) \<Longrightarrow> (\<And>w. d = Denied w \<Longrightarrow> moves R (b w)) \<Longrightarrow> (d = ApprovalCancelled \<Longrightarrow> moves R c) \<Longrightarrow>
   moves R (case d of Granted \<Rightarrow> a | Denied w \<Rightarrow> b w | ApprovalCancelled \<Rightarrow> c)"
  by (cases d) auto

lemmas [evo_intros] = moves_if moves_option moves_sum moves_prod

subsection \<open>Reading the state\<close>

named_theorems reads \<open>evaluation of operations that only read\<close>

lemma bnd_gets [reads]: "bnd (gets f) g s = g (f s) s"
  by (simp add: bnd_def gets_def)

lemma bnd_the_run [reads]: "bnd the_run g s = g (d_run s) s"
  by (simp add: the_run_def reads)

lemma bnd_the_exec [reads]:
  "bnd (the_exec xid) g s = (case exec_of (d_run s) xid of
     None \<Rightarrow> (Inl ''exec id belongs to this run'', s) | Some e \<Rightarrow> g e s)"
  by (auto simp: the_exec_def the_run_def bnd_def gets_def bail_def ret_def split: option.splits)

lemma andthen_assoc: "andthen (andthen m n) k = andthen m (andthen n k)"
  by (auto simp: andthen_def bnd_def fun_eq_iff split: prod.splits sum.splits)

lemma snd_andthen_ret [simp]: "snd (andthen m (ret v) s) = snd (m s)"
  by (auto simp: andthen_def bnd_def ret_def split: prod.splits sum.splits)

named_theorems evals \<open>evaluation of the operations that change the state\<close>

lemma bnd_ask [evals]: "bnd (ask f) g s = g (f (d_tick s)) (s\<lparr> d_tick := Suc (d_tick s) \<rparr>)"
  by (simp add: bnd_def ask_def)

lemma andthen_set_run [evals]: "andthen (set_run f) k s = k (s\<lparr> d_run := f (d_run s) \<rparr>)"
  by (simp add: andthen_def bnd_def set_run_def modify_def)

lemma set_run_at [evals]: "set_run f s = (Inr (), s\<lparr> d_run := f (d_run s) \<rparr>)"
  by (simp add: set_run_def modify_def)

lemma andthen_emit [evals]: "andthen (emit e) k s = k (s\<lparr> d_log := d_log s @ [e] \<rparr>)"
  by (simp add: andthen_def bnd_def emit_def modify_def)

lemma emit_at [evals]: "emit e s = (Inr (), s\<lparr> d_log := d_log s @ [e] \<rparr>)"
  by (simp add: emit_def modify_def)

definition touched :: "ext \<Rightarrow> driver \<Rightarrow> run" where
  "touched x s = (d_run s)\<lparr> r_updated_at := x_now x (d_tick s) \<rparr>"

lemma save_at [evals]:
  "save x s = (Inr (), s\<lparr> d_run := touched x s, d_log := d_log s @ [EvSave (touched x s)], d_tick := Suc (d_tick s) \<rparr>)"
  by (simp add: save_def touched_def bnd_ask andthen_set_run bnd_the_run emit_at)

lemma andthen_save [evals]:
  "andthen (save x) k s = k (s\<lparr> d_run := touched x s, d_log := d_log s @ [EvSave (touched x s)], d_tick := Suc (d_tick s) \<rparr>)"
  by (simp add: andthen_def bnd_def save_at)

lemma ret_at [reads]: "ret v s = (Inr v, s)"
  by (simp add: ret_def)

lemma bail_at [reads]: "bail e s = (Inl e, s)"
  by (simp add: bail_def)

lemma bnd_exec_status [reads]:
  "bnd (exec_status xid) g s = (case exec_of (d_run s) xid of
     None \<Rightarrow> (Inl ''exec id belongs to this run'', s) | Some e \<Rightarrow> g (e_status e) s)"
  by (auto simp: exec_status_def the_exec_def the_run_def bnd_def gets_def bail_def ret_def split: option.splits)

subsection \<open>The driver's operations\<close>

context evolution
begin

lemmas [evo_intros] = order.moves_rules

lemma ask_moves [evo_intros]: "moves (evo K C) (ask f)"
  by (auto simp: moves_def ask_def evo_def same_setup_def loop_kept_def synced_def intro!: exI [of _ "[]"])

lemma ask_result_moves [evo_intros]: "moves (evo K C) (ask_result f)"
  unfolding ask_result_def by (intro evo_intros)

lemma the_run_moves [evo_intros]: "moves (evo K C) the_run"
  unfolding the_run_def by (intro evo_intros)

lemma emit_moves:
  assumes "C e" and "saved [e] = []"
  shows "moves (evo K C) (emit e)"
  using assms
  by (auto simp: moves_def emit_def modify_def evo_def same_setup_def loop_kept_def synced_def durable_def
    intro!: exI [of _ "[e]"])

lemma audit_moves [evo_intros]: "moves (evo K C) (audit ev sid)"
  unfolding audit_def by (rule emit_moves) (auto intro: calm_ok simp: calm_def)

lemma notify_moves [evo_intros]: "moves (evo K C) (notify t)"
  unfolding notify_def by (rule emit_moves) (auto intro: calm_ok simp: calm_def)

lemma emit_calm_moves [evo_intros]:
  "moves (evo K C) (emit EvRefresh)" "moves (evo K C) (emit EvClosePanes)"
  "moves (evo K C) (emit (EvRemoveWorktree w))" "moves (evo K C) (emit (EvWrite w s))"
  "moves (evo K C) (emit (EvRemoveFile w))" "moves (evo K C) (emit (EvApproval a))"
  by (rule emit_moves; auto intro: calm_ok simp: calm_def)+

lemma set_run_moves: "(\<And>r. steady r (f r)) \<Longrightarrow> moves (evo K C) (set_run f)"
  by (simp add: moves_def set_run_def modify_def evo_set_run)

text \<open>A change of the document that is saved at once.\<close>

lemma saving_moves_at:
  assumes "run_evolves (d_run s) (f (d_run s))"
    and "K \<Longrightarrow> r_cursor (f (d_run s)) = r_cursor (d_run s) \<and>
       r_retry_counts (f (d_run s)) = r_retry_counts (d_run s) \<and>
       run_terminal (r_status (f (d_run s))) = run_terminal (r_status (d_run s))"
  shows "evo K C s (snd (andthen (set_run f) (save x) s))"
proof (rule evo_saved)
  have "run_evolves (f (d_run s)) ((f (d_run s))\<lparr> r_updated_at := t \<rparr>)" for t by (simp add: run_evolves_def)
  then show "run_evolves (d_run s) ((f (d_run s))\<lparr> r_updated_at := x_now x (d_tick s) \<rparr>)"
    using assms(1) run_evolves_trans by blast
qed (use assms(2) in \<open>simp_all add: eff_defs save_def ask_def set_run_def the_run_def emit_def calm_def
    same_setup_def calm_ok\<close>)

lemma save_moves [evo_intros]: "moves (evo K C) (save x)"
proof -
  have "snd (andthen (set_run (\<lambda>r. r)) (save x) s) = snd (save x s)" for s
    by (simp add: andthen_def bnd_def set_run_def modify_def)
  then show ?thesis using saving_moves_at [of _ "\<lambda>r. r" x] by (simp add: moves_def)
qed

lemma and_moves: "evo K C s (snd (m s)) \<Longrightarrow> moves (evo K C) n \<Longrightarrow> evo K C s (snd (andthen m n s))"
  using evo_trans movesD by (fastforce simp: andthen_def bnd_def split: prod.splits sum.splits)

lemma asking_at: "(\<And>v t. d_run t = d_run s \<Longrightarrow> evo K C t (snd (g v t))) \<Longrightarrow> evo K C s (snd (bnd (ask f) g s))"
  using evo_trans [OF movesD [OF ask_moves, of s f]] by (simp add: bnd_def ask_def)

lemma the_exec_moves [evo_intros]: "moves (evo K C) (the_exec xid)"
  unfolding the_exec_def by (intro evo_intros)

lemma set_exec_moves:
  assumes "\<And>e. exec_evolves e (f e) \<and> e_status (f e) = e_status e"
  shows "moves (evo K C) (set_exec xid f)"
  unfolding set_exec_def using assms by (intro evo_intros set_run_moves steady_update) blast

lemma set_exec_status_moves [evo_intros]: "moves (evo K C) (set_exec_status x xid next)"
proof -
  have "evo K C s (snd (bnd (ask (x_now x)) (\<lambda>t. andthen (set_run (exec_update xid (exec_move t next))) (save x)) s))"
    if "exec_of (d_run s) xid = Some e" "step_can (e_status e) next" for s e
    using that by (intro asking_at saving_moves_at run_evolves_update)
      (auto simp: exec_move_def intro!: exec_evolves_same)
  then show ?thesis by (auto simp: moves_def set_exec_status_def reads evo_refl split: option.splits)
qed

lemma new_exec_moves [evo_intros]: "moves (evo K C) (new_exec x st)"
proof -
  have grow: "run_evolves r (r\<lparr> r_steps := r_steps r @ [e] \<rparr>)"
    if "e_step_id e = sid" "e_attempt e = attempts_of r sid + 1" for r e sid
  proof -
    have "numbered (r_steps r @ [e])" if "numbered (r_steps r)"
      using that \<open>e_step_id e = sid\<close> \<open>e_attempt e = _\<close>
      by (auto simp: numbered_def nth_append attempts_of_def less_Suc_eq)
    moreover have "steps_evolve (r_steps r) (r_steps r @ [e])"
      unfolding steps_evolve_def by (intro exI [of _ "r_steps r"] exI [of _ "[e]"]) (simp add: list_all2_refl)
    ultimately show ?thesis by (simp add: run_evolves_def)
  qed
  have "evo K C s (snd (bnd (ask (x_id x)) (\<lambda>i.
       let e = (exec_new i (s_id st) (step_kind_of st) (attempts_of (d_run s) (s_id st) + 1))
           \<lparr> e_feedback_from := fb \<rparr>
       in andthen (set_run (\<lambda>r. r\<lparr> r_steps := r_steps r @ [e] \<rparr>)) (andthen (save x) (ret i))) s))" for s fb
  proof (rule asking_at)
    fix v and t :: driver assume "d_run t = d_run s"
    let ?e = "(exec_new v (s_id st) (step_kind_of st) (attempts_of (d_run s) (s_id st) + 1))\<lparr> e_feedback_from := fb \<rparr>"
    have "evo K C t (snd (andthen (set_run (\<lambda>r. r\<lparr> r_steps := r_steps r @ [?e] \<rparr>)) (save x) t))"
      using \<open>d_run t = d_run s\<close> by (intro saving_moves_at grow [of _ "s_id st"]) (simp_all add: exec_new_def)
    then show "evo K C t (snd ((let e = ?e in andthen (set_run (\<lambda>r. r\<lparr> r_steps := r_steps r @ [e] \<rparr>)) (andthen (save x) (ret v))) t))"
      by (simp add: andthen_assoc [symmetric])
  qed
  then show ?thesis by (simp add: moves_def new_exec_def reads)
qed

lemma the_worktree_moves [evo_intros]: "moves (evo K C) the_worktree"
  unfolding the_worktree_def by (intro evo_intros)

lemma judge_moves [evo_intros]: "moves (evo K C) (judge x subj)"
  unfolding judge_def by (intro evo_intros)

lemma record_output_moves [evo_intros]: "moves (evo K C) (record_output sid txt)"
  unfolding record_output_def by (intro set_run_moves steady_same_steps) (simp_all add: run_evolves_def)

lemma store_approval_moves [evo_intros]: "moves (evo K C) (store_approval a)"
  unfolding store_approval_def
  by (intro evo_intros moves_modify)
    (auto simp: evo_def same_setup_def loop_kept_def synced_def intro!: exI [of _ "[]"])

text \<open>Between two statuses neither of which ends the run.\<close>

lemma set_status_moves:
  assumes "\<not> run_terminal next" and "next \<noteq> RPending"
  shows "moves (evo K C) (set_status x next why)"
proof -
  have "evo K C s (snd (bnd (ask (x_now x)) (\<lambda>t.
       andthen (set_run (\<lambda>r. r\<lparr> r_status := next, r_status_reason := why,
          r_completed_at := (if run_terminal next then Some t else r_completed_at r) \<rparr>))
      (andthen (save x) (emit EvRefresh))) s))" if "run_can (r_status (d_run s)) next" for s
  proof (rule asking_at)
    fix v and t :: driver assume t: "d_run t = d_run s"
    let ?f = "\<lambda>r. r\<lparr> r_status := next, r_status_reason := why,
          r_completed_at := (if run_terminal next then Some v else r_completed_at r) \<rparr>"
    have "driven (r_status (d_run s)) next" using that assms by (simp add: driven_def)
    moreover have "\<not> run_terminal (r_status (d_run s))"
      using run_tab.terminal_final [OF _ that] assms by auto
    ultimately have "evo K C t (snd (andthen (set_run ?f) (save x) t))"
      using t assms by (intro saving_moves_at) (auto simp: run_evolves_def)
    then have "evo K C t (snd (andthen (andthen (set_run ?f) (save x)) (emit EvRefresh) t))"
      by (rule and_moves) (intro evo_intros)
    then show "evo K C t (snd (andthen (set_run ?f) (andthen (save x) (emit EvRefresh)) t))"
      by (simp add: andthen_assoc)
  qed
  then show ?thesis by (auto simp: moves_def set_status_def reads evo_refl)
qed

end

context quiet_evolution
begin

lemma record_policy_moves [evo_intros]: "moves (evo K C) (record_policy x sid xid d)"
  unfolding record_policy_def
  by (intro evo_intros set_run_moves steady_same_steps emit_moves)
    (auto simp: run_evolves_def quiet_def intro: quiet_ok)

end

end
