(* ===== verification/Step_Operations.thy ===== *)
theory Step_Operations
  imports Operations
begin

text \<open>
  The step executors move the driver's state along \<open>evo\<close>: what they share, approvals, the gates, pull
  requests, commands and agents, in the order of \<open>src/engine/steps.rs\<close>.
\<close>

lemmas doc_defs = run_evolves_def git_evolves_def

lemma moves_outcome [evo_intros]:
  "(\<And>v. d = OutSucceeded v \<Longrightarrow> moves R (a v)) \<Longrightarrow> (\<And>w. d = OutSkipped w \<Longrightarrow> moves R (b w)) \<Longrightarrow>
   (\<And>w f. d = OutFailed w f \<Longrightarrow> moves R (c w f)) \<Longrightarrow> (\<And>w. d = OutBlocked w \<Longrightarrow> moves R (n w)) \<Longrightarrow>
   (\<And>w. d = OutNeedsHuman w \<Longrightarrow> moves R (h w)) \<Longrightarrow> (d = OutCancelled \<Longrightarrow> moves R k) \<Longrightarrow>
   moves R (case d of OutSucceeded v \<Rightarrow> a v | OutSkipped w \<Rightarrow> b w | OutFailed w f \<Rightarrow> c w f
     | OutBlocked w \<Rightarrow> n w | OutNeedsHuman w \<Rightarrow> h w | OutCancelled \<Rightarrow> k)"
  by (cases d) auto

context evolution
begin

subsection \<open>What the executors share\<close>

lemma set_exec_same [evo_intros]:
  assumes "\<And>e. e_exec_id (f e) = e_exec_id e" "\<And>e. e_step_id (f e) = e_step_id e" "\<And>e. e_kind (f e) = e_kind e"
    "\<And>e. e_attempt (f e) = e_attempt e" "\<And>e. e_status (f e) = e_status e" "\<And>e. e_started_at (f e) = e_started_at e"
  shows "moves (evo K C) (set_exec xid f)"
  using assms by (intro set_exec_moves) (simp add: exec_evolves_def)

lemma or_else_moves [evo_intros]: "moves (evo K C) m \<Longrightarrow> moves (evo K C) k \<Longrightarrow> moves (evo K C) (or_else m k)"
  unfolding or_else_def by (intro evo_intros)

lemma open_exec_moves [evo_intros]: "moves (evo K C) (open_exec st)"
  unfolding open_exec_def by (intro evo_intros)

lemma open_or_new_moves [evo_intros]: "moves (evo K C) (open_or_new x st)"
  unfolding open_or_new_def by (intro evo_intros)

lemma exec_status_moves [evo_intros]: "moves (evo K C) (exec_status xid)"
  unfolding exec_status_def by (intro evo_intros)

lemma finish_exec_moves [evo_intros]: "moves (evo K C) (finish_exec x xid st err)"
  unfolding finish_exec_def by (intro evo_intros) (simp_all add: clear_attention_def)

lemma begin_exec_moves [evo_intros]: "moves (evo K C) (begin_exec x xid)"
  unfolding begin_exec_def by (intro evo_intros)

lemma ending_moves [evo_intros]:
  "moves (evo K C) (stop_with x xid why out1)" "moves (evo K C) (fail_with x xid why fb)"
  "moves (evo K C) (done_with x xid outp)"
  unfolding stop_with_def fail_with_def done_with_def by (intro evo_intros)+

lemma runner_for_moves [evo_intros]: "moves (evo K C) (runner_for st)"
  unfolding runner_for_def by (intro evo_intros)

lemma step_timeout_moves [evo_intros]: "moves (evo K C) (step_timeout x st d)"
  unfolding step_timeout_def by (intro evo_intros)

subsection \<open>Approvals\<close>

lemma worktree_reads_moves [evo_intros]:
  "moves (evo K C) (worktree_diff x)" "moves (evo K C) (worktree_head x)"
  unfolding worktree_diff_def worktree_head_def by (intro evo_intros)+

lemma approval_context_moves [evo_intros]: "moves (evo K C) (approval_context_of x st pending policy)"
  unfolding approval_context_of_def by (intro evo_intros)

lemma load_request_moves [evo_intros]: "moves (evo K C) (load_request i)"
  unfolding load_request_def by (intro evo_intros)

lemma approvals_moves: "(\<And>s. \<exists>m. f s = s\<lparr> d_approvals := m \<rparr>) \<Longrightarrow> moves (evo K C) (modify f)"
proof (rule moves_modify)
  fix s assume "\<And>s. \<exists>m. f s = s\<lparr> d_approvals := m \<rparr>"
  then obtain m where "f s = s\<lparr> d_approvals := m \<rparr>" by blast
  then show "evo K C s (f s)"
    by (auto simp: evo_def same_setup_def loop_kept_def synced_def intro!: exI [of _ "[]"])
qed

lemma human_decides_moves [evo_intros]: "moves (evo K C) (human_decides i t dec)"
proof -
  have "\<exists>m. s = s\<lparr> d_approvals := m \<rparr>" for s :: driver
    by (rule exI [of _ "d_approvals s"]) simp
  then show ?thesis
    unfolding human_decides_def by (intro evo_intros approvals_moves) (auto split: option.splits sum.splits)
qed

lemma expire_request_moves [evo_intros]: "moves (evo K C) (expire_request i t)"
  unfolding expire_request_def by (intro evo_intros)

lemma wait_approval_moves [evo_intros]: "moves (evo K C) (wait_approval sid i ps)"
proof (induction ps)
  case (Cons p ps)
  have st: "moves (evo K C) (case a_status a of APending \<Rightarrow> m1 | AApproved \<Rightarrow> m2 | ADenied \<Rightarrow> m3
      | ACancelled \<Rightarrow> m4 | AExpired \<Rightarrow> m5)"
    if "moves (evo K C) m1" "moves (evo K C) m2" "moves (evo K C) m3" "moves (evo K C) m4" "moves (evo K C) m5"
    for a m1 m2 m3 m4 m5 using that by (cases "a_status a") auto
  show ?case unfolding wait_approval.simps by (intro evo_intros st Cons.IH)
qed (simp add: order.moves_bail)

lemma pending_request_moves [evo_intros]: "moves (evo K C) (pending_request xid)"
  unfolding pending_request_def by (intro evo_intros)

lemma new_request_moves [evo_intros]: "moves (evo K C) (new_request x st xid kind reason pending policy)"
  unfolding new_request_def Let_def
  by (intro evo_intros set_run_moves steady_same_steps) (simp_all add: doc_defs)

lemma request_approval_moves [evo_intros]:
  "moves (evo K C) (request_approval x st xid kind reason pending policy)"
  unfolding request_approval_def by (intro evo_intros set_status_moves) simp_all

lemma ask_human_moves [evo_intros]: "moves (evo K C) (ask_human x st xid reason pending policy)"
  unfolding ask_human_def by (intro evo_intros)

lemma cover_applies_moves [evo_intros]: "moves (evo K C) (cover_applies x sid)"
  unfolding cover_applies_def by (intro evo_intros)

subsection \<open>The gates\<close>

lemma approve_contract_moves [evo_intros]: "moves (evo K C) (approve_contract x st i)"
  unfolding approve_contract_def Let_def
  by (intro evo_intros set_run_moves steady_same_steps) (simp_all add: doc_defs)

lemma grant_step_moves [evo_intros]: "moves (evo K C) (grant_step x st xid nxt)"
  unfolding grant_step_def Let_def
  by (intro evo_intros set_run_moves steady_same_steps) (simp_all add: doc_defs)

lemma approval_step_moves [evo_intros]: "moves (evo K C) (approval_step x st reason)"
  unfolding approval_step_def Let_def by (intro evo_intros)

lemma content_fingerprint_moves [evo_intros]: "moves (evo K C) (content_fingerprint x w f)"
  unfolding content_fingerprint_def by (intro evo_intros)

lemma escape_of_moves [evo_intros]: "moves (evo K C) (escape_of x w f)"
  unfolding escape_of_def Let_def by (intro evo_intros)

lemma file_subject_moves [evo_intros]: "moves (evo K C) (file_subject x st runner f)"
  unfolding file_subject_def Let_def by (intro evo_intros)

lemma approve_path_moves [evo_intros]: "moves (evo K C) (approve_path x w paths f)"
  unfolding approve_path_def by (intro evo_intros set_run_moves steady_same_steps) (simp_all add: doc_defs)

lemma gate_asks_moves [evo_intros]: "moves (evo K C) (gate_asks x st xid w d asks)"
  unfolding gate_asks_def Let_def by (intro evo_intros set_run_moves steady_same_steps) (simp_all add: doc_defs)

lemma gate_denies_moves [evo_intros]: "moves (evo K C) (gate_denies x st xid denies)"
  unfolding gate_denies_def Let_def by (intro evo_intros)

end

context quiet_evolution
begin

lemma judge_file_moves [evo_intros]: "moves (evo K C) (judge_file x st xid w scope f d)"
  unfolding judge_file_def Let_def by (intro evo_intros)

lemma gate_file_moves [evo_intros]: "moves (evo K C) (gate_file x st xid w scope runner f)"
  unfolding gate_file_def by (intro evo_intros)

lemma gate_files_moves [evo_intros]: "moves (evo K C) (gate_files x st xid w scope runner fs)"
  by (induction fs) (simp only: gate_files.simps, intro evo_intros; assumption)+

lemma gate_summary_moves [evo_intros]: "moves (evo K C) (gate_summary x st xid d)"
  unfolding gate_summary_def by (intro evo_intros)

lemma diff_policy_gate_moves [evo_intros]: "moves (evo K C) (diff_policy_gate x st xid)"
  unfolding diff_policy_gate_def Let_def
  by (intro evo_intros set_run_moves steady_same_steps) (simp_all add: doc_defs)

lemma policy_step_moves [evo_intros]: "moves (evo K C) (policy_step x st)"
  unfolding policy_step_def by (intro evo_intros)

end

subsection \<open>Launches: commits, pushes, pull requests\<close>

context publish_evolution
begin

lemma emit_publish_moves [evo_intros]:
  "moves (evo K C) (emit (EvCommit s))" "moves (evo K C) (emit (EvPush s b))"
  "moves (evo K C) (emit (EvPr s b))" "moves (evo K C) (emit (EvWorktree s b))"
  by (rule emit_moves; simp add: publish_ok)+

lemma commit_changes_moves [evo_intros]: "moves (evo K C) (commit_changes x st xid message)"
  unfolding commit_changes_def Let_def
  by (intro evo_intros set_run_moves steady_same_steps) (simp_all add: doc_defs)

lemma push_branch_moves [evo_intros]: "moves (evo K C) (push_branch x st xid)"
  unfolding push_branch_def Let_def by (intro evo_intros)

lemma git_step_moves [evo_intros]: "moves (evo K C) (git_step x st act message)"
  unfolding git_step_def by (cases act) (simp only: git_action.case; intro evo_intros)+

end

context evolution
begin

lemma record_pr_moves [evo_intros]: "moves (evo K C) (record_pr x st xid url)"
  unfolding record_pr_def by (intro evo_intros set_run_moves steady_same_steps) (simp_all add: doc_defs)

lemma pr_gates_moves [evo_intros]:
  "moves (evo K C) (pr_contract_gate x xid)" "moves (evo K C) (pr_decision_gate x st xid d branch base draft)"
  unfolding pr_contract_gate_def pr_decision_gate_def Let_def
  by (intro evo_intros set_run_moves steady_same_steps; simp add: doc_defs)+

end

context publish_evolution
begin

lemma pr_create_moves [evo_intros]: "moves (evo K C) (pr_create x st xid title body branch base)"
  unfolding pr_create_def by (intro evo_intros) simp_all

lemma pr_open_moves [evo_intros]: "moves (evo K C) (pr_open x st xid d draft title body branch base)"
  unfolding pr_open_def by (intro evo_intros)

lemma pr_existing_moves [evo_intros]: "moves (evo K C) (pr_existing x st xid url)"
  unfolding pr_existing_def by (intro evo_intros)

lemma pr_publish_moves [evo_intros]: "moves (evo K C) (pr_publish x st xid d draft title body branch base)"
  unfolding pr_publish_def by (intro evo_intros)

lemma pr_step_moves [evo_intros]: "moves (evo K C) (pr_step x st draft title body base)"
  unfolding pr_step_def Let_def by (intro evo_intros)

end

subsection \<open>Commands\<close>

context evolution
begin

lemma command_argv_moves [evo_intros]:
  "moves (evo K C) (resolve_named x name w)" "moves (evo K C) (command_argv x st w c argv)"
  "moves (evo K C) (command_cwd x w cwd)" "moves (evo K C) (contract_argv x v w)"
proof -
  show n: "moves (evo K C) (resolve_named x name w)" for name unfolding resolve_named_def by (intro evo_intros)
  show "moves (evo K C) (command_argv x st w c argv)" unfolding command_argv_def by (intro evo_intros n)
  show "moves (evo K C) (command_cwd x w cwd)" unfolding command_cwd_def by (intro evo_intros)
  show "moves (evo K C) (contract_argv x v w)" unfolding contract_argv_def by (intro evo_intros n)
qed

lemma command_outcome_moves [evo_intros]: "moves (evo K C) (command_outcome x st xid argv timeout p ex)"
  unfolding command_outcome_def Let_def by (intro evo_intros)

end

context quiet_evolution
begin

lemma command_gates_moves [evo_intros]:
  "moves (evo K C) (command_gate x st xid w argv shell)" "moves (evo K C) (probe_gate x st xid argv)"
  unfolding command_gate_def probe_gate_def Let_def by (intro evo_intros)+

end

context free_evolution
begin

lemma emit_start_moves [evo_intros]:
  "moves (evo K C) (emit (EvSpawn i a c e))" "moves (evo K C) (emit (EvAgent i s))"
  by (rule emit_moves; simp add: any_ok)+

lemma launch_command_moves [evo_intros]:
  "moves (evo K C) (launch_command x st xid run_argv cwd env timeout argv)"
  unfolding launch_command_def Let_def by (intro evo_intros) simp_all

lemma run_command_moves [evo_intros]: "moves (evo K C) (run_command x st xid w c argv shell env cwd)"
  unfolding run_command_def Let_def by (intro evo_intros)

lemma command_step_moves [evo_intros]: "moves (evo K C) (command_step x st argv shell env cwd)"
  unfolding command_step_def by (intro evo_intros)

lemma run_probe_moves [evo_intros]: "moves (evo K C) (run_probe x st xid argv w)"
  unfolding run_probe_def by (intro evo_intros)

lemma lock_contract_moves [evo_intros]: "moves (evo K C) (lock_contract x st xid v w)"
  unfolding lock_contract_def Let_def
  by (intro evo_intros set_run_moves steady_same_steps) (simp_all add: doc_defs)

end

subsection \<open>Agents\<close>

context evolution
begin

lemma moves_agent_output:
  "moves R a \<Longrightarrow> moves R b \<Longrightarrow> moves R c \<Longrightarrow> moves R d \<Longrightarrow> moves R e \<Longrightarrow> moves R f \<Longrightarrow>
   moves R (case k of OSummary \<Rightarrow> a | OReview \<Rightarrow> b | OPlan \<Rightarrow> c | OAcceptance \<Rightarrow> d | OConformance \<Rightarrow> e
     | OContract \<Rightarrow> f)"
  by (cases k) auto

lemma install_hook_moves [evo_intros]: "moves (evo K C) (install_claude_hook x p w)"
  unfolding install_claude_hook_def Let_def by (intro evo_intros)

lemma agent_reads_moves [evo_intros]:
  "moves (evo K C) (agent_limit x st xid resumed)" "moves (evo K C) (memory_section x sid)"
  "moves (evo K C) (exec_agent xid)" "moves (evo K C) (pane_usage x xid res)"
  "moves (evo K C) (worktree_changed x h)"
  unfolding agent_limit_def memory_section_def exec_agent_def pane_usage_def worktree_changed_def Let_def
  by (intro evo_intros)+

lemma agent_prompt_moves [evo_intros]: "moves (evo K C) (agent_prompt x st xid n w skill prompt outp fresh)"
  unfolding agent_prompt_def Let_def by (intro evo_intros)

lemma move_if_moves [evo_intros]:
  "moves (evo K C) m \<Longrightarrow> moves (evo K C) (move_if x xid a b m)"
  unfolding move_if_def by (intro evo_intros)

lemma on_agent_event_moves [evo_intros]: "moves (evo K C) (on_agent_event x xid sid ev)"
  by (cases ev) (simp only: on_agent_event.simps, intro evo_intros; simp)+

lemma handle_event_moves [evo_intros]: "moves (evo K C) (handle_event x xid sid ev)"
  unfolding handle_event_def by (intro evo_intros)

lemma budget_gate_moves [evo_intros]: "moves (evo K C) (budget_gate x st xid)"
  unfolding budget_gate_def by (intro evo_intros set_run_moves steady_same_steps) (simp_all add: doc_defs)

lemma parse_structured_moves [evo_intros]: "moves (evo K C) (parse_structured x outp raw)"
  unfolding parse_structured_def by (intro evo_intros moves_agent_output)

lemma read_only_gate_moves [evo_intros]: "moves (evo K C) (read_only_gate x st xid outp h)"
  unfolding read_only_gate_def Let_def by (intro evo_intros)

lemma agent_structured_moves [evo_intros]: "moves (evo K C) (agent_structured x st xid outp gate res h)"
  unfolding agent_structured_def Let_def by (intro evo_intros) simp_all

lemma store_agent_notes_moves [evo_intros]: "moves (evo K C) (store_agent_notes x notes)"
  unfolding store_agent_notes_def by (intro evo_intros)

lemma agent_summary_moves [evo_intros]: "moves (evo K C) (agent_summary x st xid res h)"
  unfolding agent_summary_def Let_def by (intro evo_intros) simp_all

lemma agent_records_moves [evo_intros]:
  "moves (evo K C) (save_transcript x xid res)" "moves (evo K C) (record_usage x st xid res)"
  "moves (evo K C) (keep_output x xid res txt)"
  unfolding save_transcript_def record_usage_def keep_output_def Let_def by (intro evo_intros; simp)+

lemma agent_end_gate_moves [evo_intros]: "moves (evo K C) (agent_end_gate x st xid res timeout)"
proof -
  have ends: "moves (evo K C) (case e of EndCompleted \<Rightarrow> m1 | EndFailed w \<Rightarrow> m2 w | EndTimedOut \<Rightarrow> m3
      | EndCancelled \<Rightarrow> m4 | EndLost w \<Rightarrow> m5 w | EndStalled w \<Rightarrow> m6 w)"
    if "moves (evo K C) m1" "\<And>w. moves (evo K C) (m2 w)" "moves (evo K C) m3" "moves (evo K C) m4"
      "\<And>w. moves (evo K C) (m5 w)" "\<And>w. moves (evo K C) (m6 w)" for e m1 m2 m3 m4 m5 m6
    using that by (cases e) auto
  show ?thesis unfolding agent_end_gate_def Let_def by (intro evo_intros ends)
qed

end

context quiet_evolution
begin

lemma launch_gate_moves [evo_intros]: "moves (evo K C) (launch_gate x st xid name p)"
  unfolding launch_gate_def by (intro evo_intros)

lemma test_only_retry_gate_moves [evo_intros]: "moves (evo K C) (test_only_retry_gate x st xid h)"
  unfolding test_only_retry_gate_def Let_def by (intro evo_intros)

end

context free_evolution
begin

lemma run_agent_moves [evo_intros]: "moves (evo K C) (run_agent x xid sid reattach prompt)"
  unfolding run_agent_def by (intro evo_intros)

lemma agent_finish_moves [evo_intros]: "moves (evo K C) (agent_finish x st xid w outp commit policy_check h j)"
proof -
  have locks: "moves (evo K C) (case r of Locked \<Rightarrow> m1 | Retry a b \<Rightarrow> m2 a b | Stop out1 \<Rightarrow> m3 out1)"
    if "moves (evo K C) m1" "\<And>a b. moves (evo K C) (m2 a b)" "\<And>out1. moves (evo K C) (m3 out1)" for r m1 m2 m3
    using that by (cases r) auto
  show ?thesis unfolding agent_finish_def Let_def by (intro evo_intros locks)
qed

lemma agent_work_moves [evo_intros]:
  "moves (evo K C) (agent_work x st xid w name profile resumed prompt outp gate commit policy_check)"
  unfolding agent_work_def Let_def by (intro evo_intros) simp_all

lemma agent_step_moves [evo_intros]: "moves (evo K C) (agent_step x st skill prompt outp gate commit policy_check)"
  unfolding agent_step_def by (intro evo_intros)

text \<open>Every step.\<close>

lemma execute_step_moves [evo_intros]: "moves (evo K C) (execute_step x st)"
  by (cases "s_spec st") (simp only: execute_step.simps step_spec.case, intro evo_intros)+

end

end
