(* ===== verification/Loop_Operations.thy ===== *)
theory Loop_Operations
  imports Step_Operations
begin

text \<open>
  The run loop moves the driver's state along \<open>evo\<close> too, without keeping the loop's own variables
  (\<open>loop_evolution\<close>): the driver changes the status of the run only along the table and never reopens it.
\<close>

text \<open>What a change of status does.\<close>

definition with_status :: "ext \<Rightarrow> run_status \<Rightarrow> string option \<Rightarrow> driver \<Rightarrow> run" where
  "with_status x next why s =
     (d_run s)\<lparr> r_status := next, r_status_reason := why,
        r_completed_at := (if run_terminal next then Some (x_now x (d_tick s)) else r_completed_at (d_run s)),
        r_updated_at := x_now x (Suc (d_tick s)) \<rparr>"

lemma set_status_eval:
  "set_status x next why s =
     (if run_can (r_status (d_run s)) next then
        (Inr (), s\<lparr> d_run := with_status x next why s, d_tick := Suc (Suc (d_tick s)),
           d_log := d_log s @ [EvSave (with_status x next why s), EvRefresh] \<rparr>)
      else (Inl (''illegal run transition '' @ run_status_str (r_status (d_run s)) @ '' to '' @ run_status_str next), s))"
  by (simp add: set_status_def with_status_def touched_def reads evals)

context evolution
begin

lemma pause_loop_moves [evo_intros]: "moves (evo K C) (pause_loop x announced ps)"
proof (induction ps arbitrary: announced)
  case (Cons p ps)
  obtain a b where p: "p = (a, b)" by (cases p)
  show ?case unfolding p pause_loop.simps
    by (intro evo_intros Cons.IH set_run_moves steady_same_steps) (simp_all add: doc_defs)
qed (simp add: order.moves_bail)

lemma wait_while_paused_moves [evo_intros]: "moves (evo K C) (wait_while_paused x)"
  unfolding wait_while_paused_def by (intro evo_intros)

lemma refresh_git_moves [evo_intros]: "moves (evo K C) (refresh_git x)"
  unfolding refresh_git_def by (intro evo_intros set_run_moves steady_same_steps) (simp_all add: doc_defs)

lemma plan_worktree_moves [evo_intros]: "moves (evo K C) (plan_worktree x)"
proof -
  have "evo K C s (snd (bnd (ask_result (x_plan_names x)) (\<lambda>(path, branch).
        bnd (ask_result (x_rev_parse x)) (\<lambda>sha.
        andthen (set_run (\<lambda>r. r\<lparr> r_git := (r_git r)\<lparr> g_branch := Some branch,
           g_worktree_path := Some path, g_base_sha := Some sha \<rparr> \<rparr>))
          (save x))) s))" if "g_worktree_path (r_git (d_run s)) = None" for s
  proof -
    have asking: "evo K C s (snd (bnd (ask_result f) g s))"
      if "\<And>v t. d_run t = d_run s \<Longrightarrow> evo K C t (snd (g v t))" for f g and s :: driver
      using that evo_trans [OF movesD [OF ask_moves, of s f]]
      by (auto simp: ask_result_def bnd_def ask_def lift_result_def movesD [OF ask_moves] split: sum.splits)
        (metis (no_types, lifting) ask_def ask_moves movesD snd_conv)
    from that show ?thesis
      by (intro asking) (auto simp: doc_defs split: prod.splits intro!: asking saving_moves_at)
  qed
  then show ?thesis by (auto simp: moves_def plan_worktree_def reads whenb_def evo_refl)
qed

lemma start_run_moves [evo_intros]: "moves (evo K C) (start_run x)"
proof -
  have "moves (evo K C) (set_status x RPreparing None)" by (intro set_status_moves) simp_all
  then have first: "evo K C s (snd (whenb b (set_status x RPreparing None) s))" for s b
    by (cases b) (simp_all add: movesD evo_refl ret_def)
  have kept: "r_started_at (d_run (snd (whenb b (set_status x RPreparing None) s))) = r_started_at (d_run s)" for s b
    by (cases b) (simp_all add: set_status_eval with_status_def ret_def)
  have "evo K C s (snd (bnd (ask (x_now x)) (\<lambda>t. andthen (set_run (\<lambda>r. r\<lparr> r_started_at := Some t \<rparr>))
         (andthen (save x) (audit ''run_started'' None))) s))" if "r_started_at (d_run s) = None" for s
    using that
    by (intro asking_at) (simp only: andthen_assoc [symmetric], intro and_moves evo_intros saving_moves_at, simp_all add: doc_defs)
  then have second: "evo K C s (snd (whenb b (bnd (ask (x_now x)) (\<lambda>t. andthen (set_run (\<lambda>r. r\<lparr> r_started_at := Some t \<rparr>))
         (andthen (save x) (audit ''run_started'' None)))) s))" if "b \<Longrightarrow> r_started_at (d_run s) = None" for s b
    using that by (cases b) (simp_all add: evo_refl ret_def)
  have seq: "evo K C s (snd (andthen m n s))" if "evo K C s (snd (m s))" "evo K C (snd (m s)) (snd (n (snd (m s))))"
    for m n :: "unit drv" and s
    using that evo_trans by (auto simp: andthen_def bnd_def split: prod.splits sum.splits)
  show ?thesis unfolding start_run_def moves_def reads
    by (intro allI seq first second) (simp add: kept)
qed

end

context publish_evolution
begin

lemma create_worktree_moves [evo_intros]: "moves (evo K C) (create_worktree x path branch)"
  unfolding create_worktree_def by (intro evo_intros set_run_moves steady_same_steps) (simp_all add: doc_defs)

end

locale loop_evolution = quiet_evolution +
  assumes loop: "\<not> K"

locale free_loop = free_evolution + loop_evolution

context loop_evolution
begin

lemma loop_set_run: "(\<And>r. run_evolves r (f r)) \<Longrightarrow> moves (evo K C) (set_run f)"
  using loop by (simp add: moves_def set_run_def modify_def evo_set_run_loop)

lemma set_status_loop:
  assumes "next \<noteq> RPending"
  shows "moves (evo K C) (set_status x next why)"
proof -
  have "evo K C s (snd (bnd (ask (x_now x)) (\<lambda>t.
       andthen (set_run (\<lambda>r. r\<lparr> r_status := next, r_status_reason := why,
          r_completed_at := (if run_terminal next then Some t else r_completed_at r) \<rparr>))
      (andthen (save x) (emit EvRefresh))) s))" if "run_can (r_status (d_run s)) next" for s
  proof (rule asking_at)
    fix v and t :: driver assume t: "d_run t = d_run s"
    let ?f = "\<lambda>r. r\<lparr> r_status := next, r_status_reason := why,
          r_completed_at := (if run_terminal next then Some v else r_completed_at r) \<rparr>"
    have "driven (r_status (d_run s)) next" using that assms by (simp add: driven_def)
    then have "evo K C t (snd (andthen (set_run ?f) (save x) t))"
      using t loop by (intro saving_moves_at) (auto simp: run_evolves_def)
    then have "evo K C t (snd (andthen (andthen (set_run ?f) (save x)) (emit EvRefresh) t))"
      by (rule and_moves) (intro evo_intros)
    then show "evo K C t (snd (andthen (set_run ?f) (andthen (save x) (emit EvRefresh)) t))"
      by (simp add: andthen_assoc)
  qed
  then show ?thesis by (auto simp: moves_def set_status_def reads evo_refl)
qed

lemma stop_moves [evo_intros]: "status \<noteq> RPending \<Longrightarrow> moves (evo K C) (stop x status why)"
  unfolding stop_def by (intro evo_intros set_status_loop)

lemma fail_run_moves [evo_intros]: "moves (evo K C) (fail_run x why)"
  unfolding fail_run_def by (intro evo_intros set_status_loop) simp

text \<open>Closing the executions that are open.\<close>

lemma close_evolves:
  assumes "\<And>e. step_terminal (e_status e) \<Longrightarrow> f e = e" and "\<And>e. exec_evolves e (f e)"
  shows "run_evolves r (r\<lparr> r_steps := map f (r_steps r) \<rparr>)"
  using assms by (intro run_evolves_steps) (simp add: list_all2_conv_all_nth)

lemma close_failed_evolves: "exec_evolves e (close_failed t why e)"
  by (auto simp: close_failed_def intro!: exec_evolves_same dest: step_tab.can_fail)

lemma close_cancelled_evolves: "exec_evolves e (close_cancelled t e)"
  by (auto simp: close_cancelled_def intro!: exec_evolves_same dest: step_tab.can_cancel)

lemma closing_moves [evo_intros]:
  "moves (evo K C) (set_run (\<lambda>r. r\<lparr> r_steps := map (close_failed t why) (r_steps r) \<rparr>))"
  "moves (evo K C) (set_run (\<lambda>r. r\<lparr> r_steps := map (close_cancelled t) (r_steps r) \<rparr>))"
  by (intro loop_set_run run_evolves_steps; simp add: list_all2_conv_all_nth close_failed_evolves close_cancelled_evolves)+

lemma fail_moves [evo_intros]: "moves (evo K C) (fail x why)"
  unfolding fail_def by (intro evo_intros)

lemma cancelled_moves [evo_intros]: "moves (evo K C) (cancelled x why)"
  unfolding cancelled_def by (intro evo_intros set_status_loop) simp

lemma complete_moves [evo_intros]: "moves (evo K C) (complete x)"
  unfolding complete_def by (intro evo_intros set_status_loop) simp_all

lemma handle_failure_moves [evo_intros]: "moves (evo K C) (handle_failure x st reason feedback)"
  unfolding handle_failure_def Let_def by (intro evo_intros loop_set_run) (simp_all add: doc_defs)

lemma after_step_moves [evo_intros]:
  "moves (evo K C) (after_success x st outp)" "moves (evo K C) (after_step x st outcome)"
proof -
  show s: "moves (evo K C) (after_success x st outp)" for outp
    unfolding after_success_def by (intro evo_intros loop_set_run) (auto simp: doc_defs)
  show "moves (evo K C) (after_step x st outcome)"
    unfolding after_step_def by (intro evo_intros loop_set_run s) (simp_all add: doc_defs)
qed

lemma before_step_moves [evo_intros]: "moves (evo K C) (before_step x)"
  unfolding before_step_def by (intro evo_intros)

end

context free_loop
begin

lemma prepare_moves [evo_intros]: "moves (evo K C) (prepare x)"
  unfolding prepare_def Let_def by (intro evo_intros) simp_all

lemma begin_run_moves [evo_intros]: "moves (evo K C) (begin_run x)"
  unfolding begin_run_def enter_running_def check_worktree_def
  by (intro evo_intros set_status_loop) simp_all

lemma one_turn_moves [evo_intros]: "moves (evo K C) (one_turn x)"
  unfolding one_turn_def Let_def by (intro evo_intros)

lemma step_loop_moves: "step_loop n x s = Some (r, t) \<Longrightarrow> evo K C s t"
proof (induction n arbitrary: s)
  case (Suc n)
  have turn: "evo K C s (snd (one_turn x s))" by (rule movesD) (intro evo_intros)
  have fin: "evo K C s (snd (complete x s))" by (rule movesD) (intro evo_intros)
  show ?case
  proof (cases "one_turn x s")
    case (Pair res u)
    then have "evo K C s u" using turn by simp
    with Suc.IH [of u] Suc.prems Pair fin show ?thesis
      by (auto split: if_splits sum.splits option.splits intro: evo_trans)
  qed
qed simp

lemma drive_moves: "drive n x s = Some (r, t) \<Longrightarrow> evo K C s t"
proof -
  have exe: "evo K C s t" if ex: "execute n x s = Some (r, t)" for r t
  proof (cases "begin_run x s")
    case (Pair res u)
    have "evo K C s (snd (begin_run x s))" by (rule movesD) (intro evo_intros)
    with Pair have "evo K C s u" by simp
    with Pair ex step_loop_moves [of n x u] show ?thesis
      by (auto simp: execute_def split: sum.splits option.splits intro: evo_trans)
  qed
  have fin: "evo K C u (snd (fail x w u))" for u w by (rule movesD) (intro evo_intros)
  assume d: "drive n x s = Some (r, t)"
  then obtain res u where e: "execute n x s = Some (res, u)" by (auto simp: drive_def split: option.splits)
  show "evo K C s t"
  proof (cases res)
    case (Inl w)
    obtain res2 v where f: "fail x (''internal error: '' @ w) u = (res2, v)" by (cases "fail x (''internal error: '' @ w) u")
    have "evo K C u v" using fin [of u "''internal error: '' @ w"] f by simp
    with d e f Inl exe [OF e] show ?thesis
      by (auto simp: drive_def split: if_splits sum.splits intro: evo_trans)
  qed (use d e exe [OF e] in \<open>simp add: drive_def\<close>)
qed

end

end
