(* ===== verification/Triples.thy ===== *)
theory Triples
  imports Loop_Operations
begin

text \<open>
  Triples for operations with errors: from \<open>P\<close>, a result \<open>v\<close> ends in \<open>Q v\<close> and an error in \<open>E\<close>. The rules
  follow the structure of an operation; an operation that moves along a preorder keeps whatever the
  preorder keeps. Also the interpretations of the evolution locales that the properties use.
\<close>

named_theorems triple_intros \<open>rules of triples\<close>

interpretation calm_steps: evolution True calm
  by unfold_locales

interpretation quiet_steps: quiet_evolution True quiet
  by unfold_locales (auto simp: calm_def quiet_def)

interpretation publish_steps: publish_evolution True "\<lambda>e. starts e = None"
  by unfold_locales (auto simp: calm_def quiet_def elim: launches.elims)

interpretation any_steps: free_evolution True "\<lambda>_. True"
  by unfold_locales auto

interpretation quiet_loop: loop_evolution False quiet
  by unfold_locales (auto simp: calm_def quiet_def)

interpretation any_loop: free_loop False "\<lambda>_. True"
  by unfold_locales auto

definition triple :: "('s \<Rightarrow> bool) \<Rightarrow> ('s, 'a) eff \<Rightarrow> ('a \<Rightarrow> 's \<Rightarrow> bool) \<Rightarrow> ('s \<Rightarrow> bool) \<Rightarrow> bool" where
  "triple P m Q E \<longleftrightarrow> (\<forall>s. P s \<longrightarrow> (case m s of (Inl e, t) \<Rightarrow> E t | (Inr v, t) \<Rightarrow> Q v t))"

lemma triple_value: "triple P m Q E \<Longrightarrow> P s \<Longrightarrow> m s = (Inr v, t) \<Longrightarrow> Q v t"
  by (auto simp: triple_def)

lemma triple_error: "triple P m Q E \<Longrightarrow> P s \<Longrightarrow> m s = (Inl e, t) \<Longrightarrow> E t"
  by (auto simp: triple_def)

lemma triple_weaken:
  "triple P' m Q' E' \<Longrightarrow> (\<And>s. P s \<Longrightarrow> P' s) \<Longrightarrow> (\<And>v s. Q' v s \<Longrightarrow> Q v s) \<Longrightarrow> (\<And>s. E' s \<Longrightarrow> E s) \<Longrightarrow> triple P m Q E"
  by (fastforce simp: triple_def split: prod.splits sum.splits)

lemma triple_pre: "triple P' m Q E \<Longrightarrow> (\<And>s. P s \<Longrightarrow> P' s) \<Longrightarrow> triple P m Q E"
  by (auto simp: triple_def)

lemma triple_post: "triple P m Q' E \<Longrightarrow> (\<And>v s. Q' v s \<Longrightarrow> Q v s) \<Longrightarrow> triple P m Q E"
  by (fastforce simp: triple_def split: prod.splits sum.splits)

lemma triple_case: "(\<And>s. P s \<Longrightarrow> triple (\<lambda>t. t = s) m Q E) \<Longrightarrow> triple P m Q E"
  by (auto simp: triple_def)

lemma triple_bnd [triple_intros]:
  "triple P m R E \<Longrightarrow> (\<And>v. triple (R v) (f v) Q E) \<Longrightarrow> triple P (bnd m f) Q E"
  by (fastforce simp: triple_def bnd_def split: prod.splits sum.splits)

lemma triple_andthen [triple_intros]:
  "triple P m (\<lambda>_. R) E \<Longrightarrow> triple R n Q E \<Longrightarrow> triple P (andthen m n) Q E"
  unfolding andthen_def by (rule triple_bnd)

lemma triple_or_else:
  "triple P m (\<lambda>o1 s. case o1 of None \<Rightarrow> R s | Some v \<Rightarrow> Q v s) E \<Longrightarrow> triple R k Q E \<Longrightarrow> triple P (or_else m k) Q E"
  unfolding or_else_def
  by (rule triple_bnd, assumption) (auto simp: triple_def ret_def split: option.splits)

lemma triple_ret: "(\<And>s. P s \<Longrightarrow> Q v s) \<Longrightarrow> triple P (ret v) Q E"
  by (simp add: triple_def ret_def)

lemma triple_bail: "(\<And>s. P s \<Longrightarrow> E s) \<Longrightarrow> triple P (bail e) Q E"
  by (simp add: triple_def bail_def)

lemma triple_gets: "(\<And>s. P s \<Longrightarrow> Q (f s) s) \<Longrightarrow> triple P (gets f) Q E"
  by (simp add: triple_def gets_def)

lemma triple_if [triple_intros]:
  "(b \<Longrightarrow> triple P m Q E) \<Longrightarrow> (\<not> b \<Longrightarrow> triple P n Q E) \<Longrightarrow> triple P (if b then m else n) Q E"
  by simp

lemma triple_option [triple_intros]:
  "(x = None \<Longrightarrow> triple P m Q E) \<Longrightarrow> (\<And>y. x = Some y \<Longrightarrow> triple P (f y) Q E) \<Longrightarrow>
   triple P (case x of None \<Rightarrow> m | Some y \<Rightarrow> f y) Q E"
  by (cases x) auto

lemma triple_prod [triple_intros]:
  "(\<And>a b. x = (a, b) \<Longrightarrow> triple P (f a b) Q E) \<Longrightarrow> triple P (case x of (a, b) \<Rightarrow> f a b) Q E"
  by (cases x) auto

lemma triple_sum [triple_intros]:
  "(\<And>a. x = Inl a \<Longrightarrow> triple P (f a) Q E) \<Longrightarrow> (\<And>b. x = Inr b \<Longrightarrow> triple P (g b) Q E) \<Longrightarrow>
   triple P (case x of Inl a \<Rightarrow> f a | Inr b \<Rightarrow> g b) Q E"
  by (cases x) auto

lemma triple_moves:
  "moves R m \<Longrightarrow> (\<And>s t. P s \<Longrightarrow> R s t \<Longrightarrow> Q t) \<Longrightarrow> (\<And>s t. P s \<Longrightarrow> R s t \<Longrightarrow> E t) \<Longrightarrow> triple P m (\<lambda>_. Q) E"
  by (fastforce simp: triple_def moves_def split: prod.splits sum.splits)

lemma triple_moves_if: "moves R m \<Longrightarrow> (\<And>s t. P s \<Longrightarrow> R s t \<Longrightarrow> P t) \<Longrightarrow> (\<And>s. P s \<Longrightarrow> E s) \<Longrightarrow> triple P m (\<lambda>_. P) E"
  by (rule triple_moves [where R = R]) auto

lemma triple_conj:
  "triple P m Q E \<Longrightarrow> triple P m Q' E' \<Longrightarrow> triple P m (\<lambda>v s. Q v s \<and> Q' v s) (\<lambda>s. E s \<and> E' s)"
  by (fastforce simp: triple_def split: prod.splits sum.splits)

text \<open>A step leaves a run as ended or as open as it was.\<close>

lemma steps_keep_live:
  assumes "evo True C s t"
  shows "run_terminal (r_status (d_run t)) = run_terminal (r_status (d_run s))"
    "r_cursor (d_run t) = r_cursor (d_run s)" "r_retry_counts (d_run t) = r_retry_counts (d_run s)"
    "synced r0 s \<Longrightarrow> synced r0 t"
  using assms by (auto simp: evo_def loop_kept_def)

lemma evo_setup: "evo K C s t \<Longrightarrow> same_setup s t"
  by (simp add: evo_def)

subsection \<open>Results taken apart\<close>

lemma or_else_Inr:
  "or_else m k s = (Inr v, t) \<longleftrightarrow> (\<exists>o1 u. m s = (Inr o1, u) \<and> (case o1 of None \<Rightarrow> k u = (Inr v, t) | Some w \<Rightarrow> v = w \<and> t = u))"
  by (auto simp: or_else_def bnd_Inr ret_def split: option.splits)

lemma bnd_Inl: "bnd m f s = (Inl e, t) \<longleftrightarrow> m s = (Inl e, t) \<or> (\<exists>a u. m s = (Inr a, u) \<and> f a u = (Inl e, t))"
  by (auto simp: bnd_def split: prod.splits sum.splits)

lemma andthen_Inl: "andthen m n s = (Inl e, t) \<longleftrightarrow> m s = (Inl e, t) \<or> (\<exists>a u. m s = (Inr a, u) \<and> n u = (Inl e, t))"
  by (simp add: andthen_def bnd_Inl)

lemma or_else_Inl:
  "or_else m k s = (Inl e, t) \<longleftrightarrow> m s = (Inl e, t) \<or> (\<exists>u. m s = (Inr None, u) \<and> k u = (Inl e, t))"
  by (auto simp: or_else_def bnd_Inl ret_def split: option.splits)

lemmas results = bnd_Inr andthen_Inr or_else_Inr bnd_Inl andthen_Inl or_else_Inl

end
