(* ===== verification/Run_Facts.thy ===== *)
theory Run_Facts
  imports Triples
begin

text \<open>
  What holds of every driven run: it returns (with the fuel \<open>enough\<close>, whatever the outside answers),
  it ends in a settled status that is the one it reports, every document it saves lies on one path
  of \<open>run_evolves\<close>, and executions that have ended stay as they ended.
\<close>

subsection \<open>The measure of the loop\<close>

text \<open>How often a step may still send the run back.\<close>

definition retry_cap :: "run_config \<Rightarrow> step \<Rightarrow> nat" where
  "retry_cap cfg st =
     (case s_on_failure st of None \<Rightarrow> 0 | Some f \<Rightarrow> min (of_max_attempts f) (cf_max_retries cfg))"

definition retries_used :: "run \<Rightarrow> step \<Rightarrow> nat" where
  "retries_used r st = (case bt_get (r_retry_counts r) (s_id st) of Some n \<Rightarrow> n | None \<Rightarrow> 0)"

definition turns_left :: "workflow \<Rightarrow> run_config \<Rightarrow> run \<Rightarrow> nat" where
  "turns_left w cfg r =
     sum_list (map (\<lambda>st. retry_cap cfg st - retries_used r st) (w_steps w)) * Suc (length (w_steps w))
     + (length (w_steps w) - r_cursor r)"

definition enough :: "workflow \<Rightarrow> run_config \<Rightarrow> nat" where
  "enough w cfg = Suc (sum_list (map (retry_cap cfg) (w_steps w)) * Suc (length (w_steps w)) + length (w_steps w))"

lemma sum_list_less:
  fixes f g :: "'a \<Rightarrow> nat"
  assumes "\<And>y. y \<in> set xs \<Longrightarrow> f y \<le> g y" and "x \<in> set xs" and "f x < g x"
  shows "sum_list (map f xs) < sum_list (map g xs)"
  using assms
proof (induction xs)
  case (Cons y ys)
  have le: "sum_list (map f ys) \<le> sum_list (map g ys)"
    using Cons.prems(1) by (intro sum_list_mono) simp
  show ?case
  proof (cases "x \<in> set ys")
    case True
    then have "sum_list (map f ys) < sum_list (map g ys)" using Cons by simp
    then show ?thesis using Cons.prems(1) [of y] by simp
  qed (use Cons le in \<open>auto intro: add_less_le_mono\<close>)
qed simp

lemma turns_left_le: "turns_left w cfg r < enough w cfg"
proof -
  have "sum_list (map (\<lambda>st. retry_cap cfg st - retries_used r st) (w_steps w)) \<le> sum_list (map (retry_cap cfg) (w_steps w))"
    by (rule sum_list_mono) simp
  then have "sum_list (map (\<lambda>st. retry_cap cfg st - retries_used r st) (w_steps w)) * Suc (length (w_steps w))
    \<le> sum_list (map (retry_cap cfg) (w_steps w)) * Suc (length (w_steps w))" by (rule mult_le_mono1)
  then show ?thesis unfolding turns_left_def enough_def by linarith
qed

lemma turns_left_next:
  assumes "r_cursor r < length (w_steps w)" and "r_cursor q = Suc (r_cursor r)"
    and "r_retry_counts q = r_retry_counts r"
  shows "turns_left w cfg q < turns_left w cfg r"
  using assms by (simp add: turns_left_def retries_used_def)

lemma turns_left_retry:
  assumes "st \<in> set (w_steps w)" and "retries_used r st < retry_cap cfg st"
    and "r_retry_counts q = bt_insert (s_id st) (retries_used r st + 1) (r_retry_counts r)"
  shows "turns_left w cfg q < turns_left w cfg r"
proof -
  have used: "retries_used q s = (if s_id s = s_id st then retries_used r s + 1 else retries_used r s)" for s
    using assms(3) by (simp add: retries_used_def bt_get_insert)
  let ?A = "\<lambda>r. sum_list (map (\<lambda>st. retry_cap cfg st - retries_used r st) (w_steps w))" and ?n = "length (w_steps w)"
  have "?A q < ?A r" using assms(1,2) by (intro sum_list_less [where x = st]) (auto simp: used)
  then have "Suc (?A q) * Suc ?n \<le> ?A r * Suc ?n" by (intro mult_le_mono1) simp
  then show ?thesis unfolding turns_left_def by (simp only: mult_Suc)
qed

subsection \<open>One turn\<close>

definition loop_vars :: "driver \<Rightarrow> nat \<times> (string, nat) btmap \<times> workflow \<times> run_config" where
  "loop_vars s = (r_cursor (d_run s), r_retry_counts (d_run s), d_wf s, d_cfg s)"

lemma loop_vars_evo: "evo True C s t \<Longrightarrow> loop_vars t = loop_vars s"
  by (auto simp: loop_vars_def steps_keep_live dest: evo_setup simp: same_setup_def)

lemmas plain_evals = evals reads audit_def record_output_def notify_def touched_def

lemma after_step_progress:
  assumes "after_step x st outcome s = (Inr None, t)"
  shows "(r_cursor (d_run t) = Suc (r_cursor (d_run s)) \<and> r_retry_counts (d_run t) = r_retry_counts (d_run s)) \<or>
     (retries_used (d_run s) st < retry_cap (d_cfg s) st \<and>
      r_retry_counts (d_run t) = bt_insert (s_id st) (retries_used (d_run s) st + 1) (r_retry_counts (d_run s)))"
proof (cases outcome)
  case (OutSucceeded v)
  with assms show ?thesis
    by (cases v) (auto simp: after_step_def after_success_def plain_evals)
next
  case (OutFailed why fb)
  with assms show ?thesis
    by (auto simp: after_step_def handle_failure_def plain_evals Let_def retries_used_def retry_cap_def
        bnd_def [of "fail_run _ _"] split: if_splits option.splits prod.splits sum.splits)
qed (use assms in \<open>auto simp: after_step_def plain_evals bnd_def [of "stop _ _ _"] bnd_def [of "cancelled _ _"]
   split: prod.splits sum.splits\<close>)

lemma before_step_kept:
  assumes "before_step x s = (Inr None, t)"
  shows "evo True (\<lambda>_. True) s t"
proof -
  have "moves (evo True (\<lambda>_. True)) (wait_while_paused x)" by (intro evo_intros)
  then have w: "evo True (\<lambda>_. True) s (snd (wait_while_paused x s))" for s by (rule movesD)
  have a: "evo True (\<lambda>_. True) s (s\<lparr> d_tick := n \<rparr>)" for s :: driver and n
    by (auto simp: evo_def same_setup_def loop_kept_def synced_def intro!: exI [of _ "[]"])
  obtain u where "wait_while_paused x (s\<lparr> d_tick := Suc (d_tick s) \<rparr>) = (Inr (), u)" "t = u\<lparr> d_tick := Suc (d_tick u) \<rparr>"
    using assms by (auto simp: before_step_def evals reads andthen_Inr bnd_Inr [of "cancelled _ _"]
        bnd_Inr [of "fail_run _ _"] split: if_splits)
  then show ?thesis using evo_trans [OF a evo_trans [OF w a]] by (metis snd_conv)
qed

text \<open>A turn that goes on decreases the measure.\<close>

lemma one_turn_decreases:
  assumes "one_turn x s = (Inr None, t)" and "r_cursor (d_run s) < length (w_steps (d_wf s))"
  shows "turns_left (d_wf s) (d_cfg s) (d_run t) < turns_left (d_wf s) (d_cfg s) (d_run s)"
proof -
  obtain u where u: "before_step x s = (Inr None, u)"
    and go: "bnd (execute_step x (w_steps (d_wf u) ! r_cursor (d_run u))) (after_step x (w_steps (d_wf u) ! r_cursor (d_run u))) u = (Inr None, t)"
    using assms(1) unfolding one_turn_def bnd_def [of "before_step x"]
    by (auto simp: reads Let_def split: prod.splits sum.splits option.splits)
  define st where "st = w_steps (d_wf u) ! r_cursor (d_run u)"
  obtain outcome v where v: "execute_step x st u = (Inr outcome, v)" and after: "after_step x st outcome v = (Inr None, t)"
    using go unfolding bnd_def by (auto simp: st_def split: prod.splits sum.splits)
  have "moves (evo True (\<lambda>_. True)) (execute_step x st)" by (intro evo_intros)
  then have "evo True (\<lambda>_. True) u v" using movesD [of _ "execute_step x st" u] v by simp
  then have kept: "loop_vars v = loop_vars s"
    using loop_vars_evo before_step_kept [OF u] evo_trans by blast
  then have vars: "r_cursor (d_run v) = r_cursor (d_run s)" "r_retry_counts (d_run v) = r_retry_counts (d_run s)"
    "d_cfg v = d_cfg s" by (simp_all add: loop_vars_def)
  have used: "retries_used (d_run v) st = retries_used (d_run s) st"
    using vars by (simp add: retries_used_def)
  have "st \<in> set (w_steps (d_wf s))"
    using loop_vars_evo [OF before_step_kept [OF u]] assms(2) by (simp add: st_def loop_vars_def)
  with after_step_progress [OF after] show ?thesis
    using turns_left_next turns_left_retry assms(2) vars used by metis
qed

lemma step_loop_returns:
  "turns_left (d_wf s) (d_cfg s) (d_run s) < n \<Longrightarrow> \<exists>r. step_loop n x s = Some r"
proof (induction n arbitrary: s)
  case (Suc n)
  show ?case
  proof (cases "one_turn x s")
    case (Pair res t)
    have "moves (evo False (\<lambda>_. True)) (one_turn x)" by (intro evo_intros)
    then have "same_setup s t" using evo_setup movesD Pair by (metis snd_conv)
    then have "\<exists>r. step_loop n x t = Some r" if "res = Inr None" "r_cursor (d_run s) < length (w_steps (d_wf s))"
      using Suc.IH [of t] Suc.prems one_turn_decreases [of x s t] Pair that by (simp add: same_setup_def)
    with Pair show ?thesis by (auto split: sum.splits option.splits)
  qed
qed simp

lemma step_loop_more: "step_loop n x s = Some r \<Longrightarrow> n \<le> m \<Longrightarrow> step_loop m x s = Some r"
proof (induction n arbitrary: s m)
  case (Suc n)
  then obtain k where m: "m = Suc k" "n \<le> k" by (cases m) auto
  show ?case
  proof (cases "r_cursor (d_run s) < length (w_steps (d_wf s))")
    case True
    obtain res t where turn: "one_turn x s = (res, t)" by (cases "one_turn x s")
    show ?thesis
    proof (cases "res = Inr None")
      case go: True
      with turn True Suc.prems(1) have "step_loop n x t = Some r" by simp
      then have "step_loop k x t = Some r" using Suc.IH m(2) by blast
      with turn True go m(1) show ?thesis by simp
    qed (use turn True Suc.prems(1) m(1) in \<open>auto split: sum.splits option.splits\<close>)
  qed (use Suc.prems(1) m(1) in simp)
qed simp

lemma execute_returns:
  assumes "enough (d_wf s) (d_cfg s) \<le> n"
  shows "\<exists>r. execute n x s = Some r"
proof -
  obtain res t where b: "begin_run x s = (res, t)" by (cases "begin_run x s")
  have "moves (evo False (\<lambda>_. True)) (begin_run x)" by (intro evo_intros)
  from movesD [OF this, of s] have "same_setup s t" using evo_setup b by simp
  then have "turns_left (d_wf t) (d_cfg t) (d_run t) < n"
    using assms turns_left_le [of "d_wf s" "d_cfg s" "d_run t"] by (simp add: same_setup_def)
  then obtain r where "step_loop n x t = Some r" using step_loop_returns by blast
  with b show ?thesis unfolding execute_def by (auto split: sum.splits option.splits)
qed

lemma drive_result:
  "execute n x s = Some r \<Longrightarrow> drive n x s = Some
     (case r of
        (Inr st, t) \<Rightarrow> (Inr st, t)
      | (Inl e, t) \<Rightarrow> if e = STOPPED then (Inl e, t)
          else (case fail x (''internal error: '' @ e) t of (Inl e2, u) \<Rightarrow> (Inl e2, u) | (Inr _, u) \<Rightarrow> (Inr RFailed, u)))"
  by (auto simp: drive_def split: prod.splits sum.splits)

lemma drive_returns: "enough (d_wf s) (d_cfg s) \<le> n \<Longrightarrow> \<exists>r t. drive n x s = Some (r, t)"
proof -
  assume "enough (d_wf s) (d_cfg s) \<le> n"
  from execute_returns [OF this, of x] obtain r where "execute n x s = Some r" ..
  from drive_result [OF this] show ?thesis by (cases "drive n x s") auto
qed

lemma execute_more:
  assumes "execute n x s = Some r" and "n \<le> m"
  shows "execute m x s = Some r"
proof -
  obtain res t where b: "begin_run x s = (res, t)" by (cases "begin_run x s")
  show ?thesis
  proof (cases "res = Inr None")
    case True
    with b assms(1) have "step_loop n x t = Some r" by (simp add: execute_def)
    from step_loop_more [OF this assms(2)] True b show ?thesis by (simp add: execute_def)
  next
    case other: False
    show ?thesis
    proof (cases res)
      case (Inr o1)
      with other obtain st where "res = Inr (Some st)" by (cases o1) auto
      with b assms(1) show ?thesis by (simp add: execute_def)
    qed (use b assms(1) in \<open>simp add: execute_def\<close>)
  qed
qed

lemma drive_more: "drive n x s = Some r \<Longrightarrow> n \<le> m \<Longrightarrow> drive m x s = Some r"
proof (cases "execute n x s")
  case (Some q)
  assume "drive n x s = Some r" "n \<le> m"
  with drive_result [OF Some] drive_result [OF execute_more [OF Some]] show ?thesis by simp
qed (simp add: drive_def)

subsection \<open>How a run ends\<close>

definition live :: "driver \<Rightarrow> bool" where
  "live s \<longleftrightarrow> \<not> run_terminal (r_status (d_run s))"

text \<open>What an operation that may stop the run has done: reported the status it set, or gone on.\<close>

definition ended :: "run_status option \<Rightarrow> driver \<Rightarrow> bool" where
  "ended o1 s = (case o1 of None \<Rightarrow> live s | Some st \<Rightarrow> r_status (d_run s) = st \<and> \<not> run_active st)"

lemma live_step: "evo True C s t \<Longrightarrow> live s \<Longrightarrow> live t"
  by (simp add: live_def steps_keep_live)

lemma live_moves: "moves (evo True (\<lambda>_. True)) m \<Longrightarrow> triple live m (\<lambda>_. live) live"
  by (rule triple_moves_if [where R = "evo True (\<lambda>_. True)"]) (auto dest: live_step)

lemma live_fail: "live s \<Longrightarrow> run_can (r_status (d_run s)) RFailed"
  unfolding live_def by (rule run_tab.can_fail)

lemma live_cancel: "live s \<Longrightarrow> run_can (r_status (d_run s)) RCancelled"
  unfolding live_def by (rule run_tab.can_cancel)

lemmas ending = set_status_eval with_status_def plain_evals results ended_def live_def

lemma stop_ends:
  "status \<in> {RBlocked, RNeedsHuman} \<Longrightarrow> triple live (bnd (stop x status why) (\<lambda>n. ret (Some n))) ended live"
  unfolding triple_def by (auto simp: stop_def ending split: prod.splits sum.splits if_splits)

lemma fail_run_ends: "triple live (bnd (fail_run x why) (\<lambda>n. ret (Some n))) ended live"
  unfolding triple_def by (auto simp: fail_run_def ending split: prod.splits sum.splits if_splits)

lemma set_status_ends: "triple live (set_status x next why) (\<lambda>_ s. r_status (d_run s) = next) live"
  unfolding triple_def by (auto simp: set_status_eval with_status_def split: if_splits)

lemma triple_set_run: "(\<And>s. P s \<Longrightarrow> Q (s\<lparr> d_run := f (d_run s) \<rparr>)) \<Longrightarrow> triple P (set_run f) (\<lambda>_. Q) E"
  by (simp add: triple_def evals)

lemma cancelled_ends: "triple live (bnd (cancelled x why) (\<lambda>n. ret (Some n))) ended live"
proof -
  have "triple live (cancelled x why) (\<lambda>v s. v = RCancelled \<and> r_status (d_run s) = RCancelled) live"
    unfolding cancelled_def
  proof (rule triple_bnd [OF live_moves], rule any_steps.ask_moves, rule triple_andthen)
    show "triple live (set_run (\<lambda>r. r\<lparr> r_steps := map (close_cancelled t) (r_steps r) \<rparr>)) (\<lambda>_. live) live" for t
      by (rule triple_set_run) (simp add: live_def)
    show "triple live (bnd the_run (\<lambda>r.
       andthen (for_each (r_approvals r) (\<lambda>i.
          bnd (gets (\<lambda>s. bt_get (d_approvals s) i)) (\<lambda>found.
          case found of None \<Rightarrow> ret () | Some a \<Rightarrow> store_approval (cancel_pending t a))))
      (bnd (ask (x_cancel_reason x)) (\<lambda>why1.
       andthen (set_status x RCancelled (Some (case why1 of Some w \<Rightarrow> w | None \<Rightarrow> why)))
      (andthen (audit ''run_cancelled'' None) (ret RCancelled))))))
      (\<lambda>v s. v = RCancelled \<and> r_status (d_run s) = RCancelled) live" for t
      by (rule triple_bnd [OF live_moves], intro evo_intros, rule triple_andthen [OF live_moves], intro evo_intros,
          rule triple_bnd [OF live_moves], intro evo_intros, rule triple_andthen [OF set_status_ends],
          simp add: triple_def plain_evals)
  qed
  then show ?thesis
    by (rule triple_bnd) (simp add: triple_def reads ended_def)
qed

lemma handle_failure_ends: "triple live (handle_failure x st why fb) ended live"
proof -
  have f: "fail_run x w s = (Inr v, t) \<Longrightarrow> live s \<Longrightarrow> v = RFailed \<and> r_status (d_run t) = RFailed"
    "fail_run x w s = (Inl e, t) \<Longrightarrow> live s \<Longrightarrow> live t" for w v e s t
    by (auto simp: fail_run_def ending split: if_splits)
  show ?thesis
    unfolding triple_def handle_failure_def Let_def
    by (auto simp: plain_evals results ended_def live_def f split: prod.splits sum.splits if_splits option.splits
        dest!: f)
qed

lemma after_step_ends: "triple live (after_step x st outcome) ended live"
proof (cases outcome)
  case (OutSucceeded v)
  then show ?thesis
    by (cases v) (auto simp: triple_def after_step_def after_success_def plain_evals ended_def live_def)
next
  case (OutSkipped v)
  then show ?thesis by (auto simp: triple_def after_step_def plain_evals ended_def live_def)
qed (simp_all add: after_step_def handle_failure_ends stop_ends cancelled_ends)

lemma before_step_ends: "triple live (before_step x) ended live"
  unfolding before_step_def
  by (rule triple_bnd [OF live_moves], intro evo_intros, intro triple_if cancelled_ends,
      rule triple_andthen [OF live_moves], intro evo_intros, rule triple_bnd [OF live_moves], intro evo_intros,
      intro triple_if, rule triple_bnd [OF live_moves], intro evo_intros, rule fail_run_ends, rule triple_ret,
      simp add: ended_def)

lemma one_turn_ends: "triple live (one_turn x) ended live"
  unfolding one_turn_def
proof (rule triple_bnd [OF before_step_ends])
  fix early
  have go: "triple live (bnd the_run (\<lambda>r. bnd (gets d_wf) (\<lambda>w. let st = w_steps w ! r_cursor r in
     bnd (execute_step x st) (after_step x st)))) ended live"
    unfolding Let_def
    by (rule triple_bnd [OF live_moves], intro evo_intros, rule triple_bnd [OF live_moves], intro evo_intros,
        rule triple_bnd [OF live_moves], intro evo_intros, rule after_step_ends)
  show "triple (ended early) (case early of Some n \<Rightarrow> ret (Some n) | None \<Rightarrow>
     bnd the_run (\<lambda>r. bnd (gets d_wf) (\<lambda>w. let st = w_steps w ! r_cursor r in
     bnd (execute_step x st) (after_step x st)))) ended live"
  proof (cases early)
    case None
    have "ended None = live" by (simp add: ended_def fun_eq_iff)
    with None go show ?thesis by simp
  qed (simp add: triple_def reads)
qed

lemma andthen_bnd: "andthen (bnd m f) k = bnd m (\<lambda>v. andthen (f v) k)"
  by (auto simp: andthen_def bnd_def fun_eq_iff split: prod.splits sum.splits)

lemma andthen_set_status:
  "andthen (set_status x next why) k s =
     (if run_can (r_status (d_run s)) next then
        k (s\<lparr> d_run := with_status x next why s, d_tick := Suc (Suc (d_tick s)),
           d_log := d_log s @ [EvSave (with_status x next why s), EvRefresh] \<rparr>)
      else (Inl (''illegal run transition '' @ run_status_str (r_status (d_run s)) @ '' to '' @ run_status_str next), s))"
  by (simp add: andthen_def bnd_def set_status_eval)

lemmas flat_evals = plain_evals andthen_assoc andthen_bnd whenb_def

lemma refresh_git_status:
  "refresh_git x s = (r, t) \<Longrightarrow> r = Inr () \<and> r_status (d_run t) = r_status (d_run s)"
  by (auto simp: refresh_git_def flat_evals split: option.splits if_splits)

lemma complete_cases:
  assumes "live s" and "complete x s = (r, t)"
  shows "case r of Inr st \<Rightarrow> st = RSucceeded \<and> r_status (d_run t) = RSucceeded | Inl e \<Rightarrow> live t"
proof -
  obtain u where u: "refresh_git x s = (Inr (), u)" "r_status (d_run u) = r_status (d_run s)"
    using refresh_git_status [of x s] by (cases "refresh_git x s") auto
  show ?thesis
  proof (cases "run_can (r_status (d_run u)) RSucceeded")
    case True
    with assms(2) u show ?thesis
      by (auto simp: complete_def andthen_def [of "refresh_git x"] bnd_def [of "refresh_git x"]
          andthen_set_status with_status_def flat_evals split: if_splits option.splits sum.splits)
  next
    case False
    with assms u show ?thesis
      by (auto simp: complete_def andthen_def [of "refresh_git x"] bnd_def [of "refresh_git x"]
          andthen_set_status live_def)
  qed
qed

lemma live_set_status: "\<not> run_terminal next \<Longrightarrow> triple live (set_status x next why) (\<lambda>_. live) live"
  by (rule triple_weaken [OF set_status_ends]) (auto simp: live_def)

lemma going: "triple P m (\<lambda>_. live) live \<Longrightarrow> triple P (andthen m (ret None)) ended live"
  by (rule triple_andthen) (auto simp: triple_def reads ended_def)

lemma prepare_ends: "triple live (prepare x) ended live"
  unfolding prepare_def Let_def
  by (rule triple_andthen [OF live_moves], intro evo_intros, rule triple_bnd [OF live_moves], intro evo_intros,
      rule triple_bnd [OF live_moves], intro evo_intros, rule triple_bnd [OF live_moves], intro evo_intros,
      rule triple_andthen [OF live_moves], intro evo_intros,
      intro triple_if going live_moves evo_intros stop_ends) simp

lemma triple_ended:
  assumes "triple live k ended live"
  shows "triple (ended o1) (case o1 of Some n \<Rightarrow> ret (Some n) | None \<Rightarrow> k) ended live"
proof (cases o1)
  case None
  then show ?thesis using triple_pre [OF assms, of "ended o1"] by (simp add: ended_def)
qed (simp add: triple_def reads)

lemma enter_running_ends: "triple live (enter_running x) ended live"
  unfolding enter_running_def
  by (intro triple_bnd [OF live_moves [OF any_steps.the_run_moves]] triple_if triple_bnd [OF prepare_ends]
      triple_ended going live_set_status) (auto simp: triple_def reads ended_def)

lemma check_worktree_ends: "triple live (check_worktree x) ended live"
  unfolding check_worktree_def
  by (intro triple_bnd [OF live_moves [OF any_steps.the_run_moves]] triple_option
      triple_bnd [OF live_moves [OF any_steps.ask_moves]] triple_if stop_ends)
    (auto simp: triple_def reads ended_def)

lemma begin_run_ends: "triple live (begin_run x) ended live"
  unfolding begin_run_def
proof (rule triple_bnd [where R = "\<lambda>r s. live s \<and> d_run s = r"])
  show "triple live the_run (\<lambda>r s. live s \<and> d_run s = r) live"
    by (simp add: triple_def the_run_def gets_def)
  have go: "triple live (bnd (ask (x_cancel x)) (\<lambda>c.
     if c then bnd (cancelled x ''cancelled before start'') (\<lambda>n. ret (Some n))
     else andthen (start_run x) (bnd (enter_running x) (\<lambda>stopped. case stopped of
         Some n \<Rightarrow> ret (Some n) | None \<Rightarrow> check_worktree x)))) ended live"
    by (intro triple_bnd [OF live_moves [OF any_steps.ask_moves]] triple_if cancelled_ends
        triple_andthen [OF live_moves [OF any_steps.start_run_moves]]
        triple_bnd [OF enter_running_ends] triple_ended check_worktree_ends)
  show "triple (\<lambda>s. live s \<and> d_run s = r) (if run_terminal (r_status r) then ret (Some (r_status r)) else
     bnd (ask (x_cancel x)) (\<lambda>c.
     if c then bnd (cancelled x ''cancelled before start'') (\<lambda>n. ret (Some n))
     else andthen (start_run x) (bnd (enter_running x) (\<lambda>stopped. case stopped of
         Some n \<Rightarrow> ret (Some n) | None \<Rightarrow> check_worktree x)))) ended live" for r
  proof (cases "run_terminal (r_status r)")
    case False
    then show ?thesis by (simp only: if_False) (rule triple_pre [OF go], simp)
  qed (auto simp: triple_def live_def)
qed

lemma fail_ends: "live s \<Longrightarrow> fail x why s = (r, t) \<Longrightarrow> r = Inr () \<and> r_status (d_run t) = RFailed"
proof -
  assume s: "live s" and f: "fail x why s = (r, t)"
  from s have "run_can (r_status (d_run s)) RFailed" by (rule live_fail)
  with f s show ?thesis
    by (auto simp: fail_def fail_run_def live_def flat_evals andthen_set_status with_status_def)
qed

text \<open>The rule of the loop: an invariant of the turns, what holds when the run stops with a status, and
  what holds on an error.\<close>

definition or_stop :: "(driver \<Rightarrow> bool) \<Rightarrow> (run_status \<Rightarrow> driver \<Rightarrow> bool) \<Rightarrow> run_status option \<Rightarrow> driver \<Rightarrow> bool" where
  "or_stop I Q o1 s = (case o1 of None \<Rightarrow> I s | Some st \<Rightarrow> Q st s)"

lemma step_loop_rule:
  assumes turn: "triple I (one_turn x) (or_stop I Q) E" and fin: "triple I (complete x) Q E"
  shows "I s \<Longrightarrow> step_loop n x s = Some (r, t) \<Longrightarrow> case r of Inr st \<Rightarrow> Q st t | Inl e \<Rightarrow> E t"
proof (induction n arbitrary: s)
  case (Suc n)
  obtain res u where one: "one_turn x s = (res, u)" by (cases "one_turn x s")
  have u: "case res of Inr o1 \<Rightarrow> or_stop I Q o1 u | Inl e \<Rightarrow> E u"
    using turn Suc.prems(1) one by (auto simp: triple_def split: sum.splits)
  show ?case
  proof (cases "r_cursor (d_run s) < length (w_steps (d_wf s))")
    case True
    show ?thesis
    proof (cases "res = Inr None")
      case go: True
      with u have "I u" by (simp add: or_stop_def)
      with Suc.IH [of u] Suc.prems(2) True one go show ?thesis by simp
    next
      case False
      with Suc.prems(2) True one u show ?thesis by (auto simp: or_stop_def split: sum.splits option.splits)
    qed
  next
    case False
    with Suc.prems fin show ?thesis by (auto simp: triple_def split: sum.splits)
  qed
qed simp

lemma execute_rule:
  assumes "triple I (begin_run x) (or_stop J Q) E"
    and "triple J (one_turn x) (or_stop J Q) E" and "triple J (complete x) Q E"
    and "I s" and "execute n x s = Some (r, t)"
  shows "case r of Inr st \<Rightarrow> Q st t | Inl e \<Rightarrow> E t"
proof -
  obtain res u where b: "begin_run x s = (res, u)" by (cases "begin_run x s")
  have u: "case res of Inr o1 \<Rightarrow> or_stop J Q o1 u | Inl e \<Rightarrow> E u"
    using assms(1,4) b by (auto simp: triple_def split: sum.splits)
  show ?thesis
  proof (cases "res = Inr None")
    case True
    with u have "J u" by (simp add: or_stop_def)
    with step_loop_rule [OF assms(2,3), of u n r t] assms(5) b True show ?thesis by (simp add: execute_def)
  next
    case other: False
    show ?thesis
    proof (cases res)
      case (Inr o1)
      with other obtain st where "res = Inr (Some st)" by (cases o1) auto
      with b u assms(5) show ?thesis by (auto simp: execute_def or_stop_def)
    qed (use b u assms(5) in \<open>auto simp: execute_def\<close>)
  qed
qed

lemma drive_rule:
  assumes "triple I (begin_run x) (or_stop J Q) E"
    and "triple J (one_turn x) (or_stop J Q) E" and "triple J (complete x) Q E"
    and fail: "\<And>w. triple E (fail x w) (\<lambda>_. Q RFailed) F"
    and "I s" and "drive n x s = Some (r, t)"
  shows "case r of Inr st \<Rightarrow> Q st t | Inl e \<Rightarrow> (e = STOPPED \<and> E t) \<or> F t"
proof -
  obtain q u where e: "execute n x s = Some (q, u)" using assms(6) by (auto simp: drive_def split: option.splits)
  have u: "case q of Inr st \<Rightarrow> Q st u | Inl e \<Rightarrow> E u" by (rule execute_rule [OF assms(1,2,3,5) e])
  show ?thesis
  proof (cases q)
    case (Inl w)
    obtain f v where f: "fail x (''internal error: '' @ w) u = (f, v)" by (cases "fail x (''internal error: '' @ w) u")
    have "case f of Inr _ \<Rightarrow> Q RFailed v | Inl _ \<Rightarrow> F v"
      using fail [of "''internal error: '' @ w"] u Inl f by (auto simp: triple_def split: sum.splits)
    with drive_result [OF e] assms(6) f u Inl show ?thesis by (auto split: if_splits sum.splits)
  qed (use drive_result [OF e] assms(6) u in simp)
qed

subsection \<open>Every driven run\<close>

lemma ended_or_stop: "ended = or_stop live (\<lambda>st s. r_status (d_run s) = st \<and> \<not> run_active st)"
  by (auto simp: fun_eq_iff ended_def or_stop_def)

lemma drive_ends:
  assumes "drive n x s = Some (r, t)"
  shows "case r of Inr st \<Rightarrow> r_status (d_run t) = st \<and> \<not> run_active st | Inl e \<Rightarrow> e = STOPPED \<and> live t"
proof (cases "live s")
  case True
  let ?Q = "\<lambda>st s. r_status (d_run s) = st \<and> \<not> run_active st"
  have fin: "triple live (complete x) ?Q live"
    unfolding triple_def
  proof (intro allI impI)
    fix s assume "live s"
    then show "case complete x s of (Inl e, t) \<Rightarrow> live t | (Inr v, t) \<Rightarrow> ?Q v t"
      by (cases "complete x s") (use complete_cases [of s x] in \<open>auto split: sum.splits\<close>)
  qed
  have f: "triple live (fail x w) (\<lambda>_. ?Q RFailed) (\<lambda>_. False)" for w
    unfolding triple_def
  proof (intro allI impI)
    fix s assume "live s"
    then show "case fail x w s of (Inl e, t) \<Rightarrow> False | (Inr v, t) \<Rightarrow> ?Q RFailed t"
      by (cases "fail x w s") (use fail_ends [of s x w] in \<open>auto split: sum.splits\<close>)
  qed
  from drive_rule [OF begin_run_ends [of x, unfolded ended_or_stop] one_turn_ends [of x, unfolded ended_or_stop] fin f True assms]
  show ?thesis by (cases r) simp_all
next
  case False
  then have t: "run_terminal (r_status (d_run s))" by (simp add: live_def)
  then have "drive n x s = Some (Inr (r_status (d_run s)), s)"
    by (simp add: drive_def execute_def begin_run_def reads)
  with assms t show ?thesis by (cases "r_status (d_run s)") auto
qed

text \<open>C3. Driving a run returns, whatever the outside answers: the retries of the workflow bound the
  turns of the loop, and more fuel than \<open>enough\<close> changes nothing.\<close>

theorem drive_terminates:
  "\<exists>r t. \<forall>n. drive (enough (d_wf s) (d_cfg s) + n) x s = Some (r, t)"
proof -
  obtain r t where d: "drive (enough (d_wf s) (d_cfg s)) x s = Some (r, t)"
    using drive_returns [of s "enough (d_wf s) (d_cfg s)" x] by auto
  have "drive (enough (d_wf s) (d_cfg s) + n) x s = Some (r, t)" for n
    by (rule drive_more [OF d]) simp
  then show ?thesis by blast
qed

text \<open>C4. The status a driver reports is the status of the run it leaves, and it is a settled one:
  succeeded, failed, cancelled, blocked or waiting for a human. A driver that is stopped while it
  waits leaves the run open, to be taken up again; there is no other error.\<close>

theorem drive_settles:
  "case drive (enough (d_wf s) (d_cfg s)) x s of
     None \<Rightarrow> False
   | Some (Inr st, t) \<Rightarrow> r_status (d_run t) = st \<and> \<not> run_active st
   | Some (Inl e, t) \<Rightarrow> e = STOPPED \<and> \<not> run_terminal (r_status (d_run t))"
proof -
  obtain r t where d: "drive (enough (d_wf s) (d_cfg s)) x s = Some (r, t)"
    using drive_returns [of s "enough (d_wf s) (d_cfg s)" x] by auto
  from drive_ends [OF d] d show ?thesis by (auto simp: live_def split: sum.splits)
qed

text \<open>C6. All documents of a run that reach the disk, from the one the driver loaded to the one it
  leaves, are in one order: identity, options and snapshot stay; the worktree is chosen once;
  executions are only appended, numbered by attempt, and move along their status table; policy
  decisions and approvals are only appended; the status of the run moves along its table and is
  never reopened.\<close>

theorem run_history:
  "\<exists>r t l. drive (enough (d_wf s) (d_cfg s)) x s = Some (r, t) \<and> d_log t = d_log s @ l \<and>
     sorted_wrt run_evolves (d_run s # saved l @ [d_run t])"
proof -
  obtain r t where d: "drive (enough (d_wf s) (d_cfg s)) x s = Some (r, t)"
    using drive_returns [of s "enough (d_wf s) (d_cfg s)" x] by auto
  from any_loop.drive_moves [OF d] obtain l where
    "d_log t = d_log s @ l" "chain run_evolves (d_run s) (saved l) (d_run t)"
    by (auto simp: evo_def)
  with d chain_sorted [OF transp_run_evolves] show ?thesis by blast
qed

end
