(* ===== verification/Write_Ahead.thy ===== *)
theory Write_Ahead
  imports Run_Facts
begin

text \<open>
  Write-ahead: no process and no agent is started for an execution that the documents on disk still
  show as pending. A property of the log of a driver: what each effect may assume of the effects
  before it (\<open>each\<close>), kept by every operation that starts nothing, and shown at the three places
  that start something.
\<close>

subsection \<open>Properties of logs\<close>

definition each :: "(effect list \<Rightarrow> effect \<Rightarrow> bool) \<Rightarrow> effect list \<Rightarrow> bool" where
  "each G l \<longleftrightarrow> (\<forall>i < length l. G (take i l) (l ! i))"

lemma each_Nil [simp]: "each G []"
  by (simp add: each_def)

lemma each_snoc: "each G (l @ [e]) \<longleftrightarrow> each G l \<and> G l e"
  by (auto simp: each_def nth_append less_Suc_eq)

lemma each_append: "each G l \<Longrightarrow> (\<And>a e. e \<in> set k \<Longrightarrow> G a e) \<Longrightarrow> each G (l @ k)"
proof (induction k rule: rev_induct)
  case (snoc e k)
  then have "each G ((l @ k) @ [e])" by (subst each_snoc) simp
  then show ?case by simp
qed simp

definition start_recorded :: "run \<Rightarrow> effect list \<Rightarrow> effect \<Rightarrow> bool" where
  "start_recorded r0 before e = (case starts e of None \<Rightarrow> True | Some xid \<Rightarrow> durable r0 before xid)"

abbreviation no_start :: "effect \<Rightarrow> bool" where
  "no_start \<equiv> \<lambda>e. starts e = None"

definition logged :: "run \<Rightarrow> driver \<Rightarrow> bool" where
  "logged r0 s \<longleftrightarrow> each (start_recorded r0) (d_log s)"

definition ready :: "run \<Rightarrow> driver \<Rightarrow> bool" where
  "ready r0 s \<longleftrightarrow> logged r0 s \<and> synced r0 s"

definition ready_for :: "run \<Rightarrow> string \<Rightarrow> driver \<Rightarrow> bool" where
  "ready_for r0 xid s \<longleftrightarrow> ready r0 s \<and> started (d_run s) xid"

lemma evo_logged: "evo K no_start s t \<Longrightarrow> logged r0 s \<Longrightarrow> logged r0 t"
  by (auto simp: evo_def logged_def start_recorded_def list_all_iff intro!: each_append)

lemma evo_ready: "evo True no_start s t \<Longrightarrow> ready r0 s \<Longrightarrow> ready r0 t"
  using evo_logged steps_keep_live(4) unfolding ready_def by blast

lemma evo_ready_for: "evo True no_start s t \<Longrightarrow> ready_for r0 xid s \<Longrightarrow> ready_for r0 xid t"
  using evo_ready started_evolves [OF evo_run] unfolding ready_for_def by blast

lemma ready_moves: "moves (evo True no_start) m \<Longrightarrow> triple (ready r0) m (\<lambda>_. ready r0) (logged r0)"
  by (rule triple_moves_if [where R = "evo True no_start"]) (auto dest: evo_ready simp: ready_def)

lemma ready_for_moves: "moves (evo True no_start) m \<Longrightarrow> triple (ready_for r0 xid) m (\<lambda>_. ready_for r0 xid) (logged r0)"
  by (rule triple_moves_if [where R = "evo True no_start"]) (auto dest: evo_ready_for simp: ready_def ready_for_def)

lemma ready_forget: "triple (ready r0) m (\<lambda>_. ready r0) (logged r0) \<Longrightarrow> triple (ready_for r0 xid) m (\<lambda>_. ready r0) (logged r0)"
  by (erule triple_pre) (simp add: ready_for_def)

subsection \<open>The places that start something\<close>

lemma start_at: "starts e = Some xid \<Longrightarrow> triple (ready_for r0 xid) (emit e) (\<lambda>_. ready_for r0 xid) (logged r0)"
  by (auto simp: triple_def evals ready_for_def ready_def logged_def each_snoc start_recorded_def
      synced_def durable_append)

lemma set_exec_status_started:
  "set_exec_status x xid next s = (Inr v, t) \<Longrightarrow> next \<noteq> SPending \<Longrightarrow> started (d_run t) xid"
  by (auto simp: set_exec_status_def reads evals touched_def started_def exec_of_def exec_update_def find_update_first
      exec_move_def split: option.splits if_splits)

text \<open>The step that makes a pending execution a starting one, saved.\<close>

lemma starting:
  assumes "moves (evo True no_start) n"
  shows "triple (ready r0)
    (bnd (exec_status xid) (\<lambda>cur. whenb (cur = SPending) (andthen (set_exec_status x xid SStarting) n)))
    (\<lambda>_. ready_for r0 xid) (logged r0)"
proof -
  have "triple (ready r0) (set_exec_status x xid SStarting) (\<lambda>_. ready_for r0 xid) (logged r0)"
    unfolding triple_def
  proof (intro allI impI)
    fix s assume r: "ready r0 s"
    show "case set_exec_status x xid SStarting s of (Inl e, t) \<Rightarrow> logged r0 t | (Inr v, t) \<Rightarrow> ready_for r0 xid t"
    proof (cases "set_exec_status x xid SStarting s")
      case (Pair res t)
      have "ready r0 t"
        using evo_ready [OF movesD [OF publish_steps.set_exec_status_moves, of s x xid SStarting] r] Pair by simp
      with Pair set_exec_status_started [of x xid SStarting s _ t] show ?thesis
        by (auto simp: ready_for_def ready_def split: sum.splits)
    qed
  qed
  then have set: "triple (ready r0) (andthen (set_exec_status x xid SStarting) n) (\<lambda>_. ready_for r0 xid) (logged r0)"
    by (rule triple_andthen) (rule ready_for_moves [OF assms])
  show ?thesis
    unfolding triple_def
  proof (intro allI impI)
    fix s assume r: "ready r0 s"
    show "case bnd (exec_status xid) (\<lambda>cur. whenb (cur = SPending) (andthen (set_exec_status x xid SStarting) n)) s of
        (Inl e, t) \<Rightarrow> logged r0 t | (Inr v, t) \<Rightarrow> ready_for r0 xid t"
    proof (cases "exec_of (d_run s) xid")
      case (Some e)
      show ?thesis
      proof (cases "e_status e = SPending")
        case True
        with set r Some show ?thesis by (auto simp: triple_def reads)
      qed (use r Some in \<open>simp add: reads ready_for_def started_def\<close>)
    qed (use r in \<open>simp add: reads ready_def\<close>)
  qed
qed

lemma starting_alone:
  "triple (ready r0) (bnd (exec_status xid) (\<lambda>cur. whenb (cur = SPending) (set_exec_status x xid SStarting)))
    (\<lambda>_. ready_for r0 xid) (logged r0)"
proof -
  have "andthen m (ret ()) = m" for m :: "unit drv"
    by (auto simp: andthen_def bnd_def ret_def fun_eq_iff split: prod.splits sum.splits)
  with starting [OF publish_steps.order.moves_ret, of r0 xid x "()"] show ?thesis by simp
qed

subsection \<open>Commands\<close>

lemma ready_or_else:
  "moves (evo True no_start) m \<Longrightarrow> triple (ready r0) k (\<lambda>_. ready r0) (logged r0) \<Longrightarrow>
   triple (ready r0) (or_else m k) (\<lambda>_. ready r0) (logged r0)"
  by (rule triple_or_else, rule triple_post [OF ready_moves]) (auto split: option.splits)

lemmas ready_bnd = triple_bnd [OF ready_moves]
lemmas ready_then = triple_andthen [OF ready_moves]
lemmas ready_for_bnd = triple_bnd [OF ready_for_moves]
lemmas ready_for_then = triple_andthen [OF ready_for_moves]

lemma launch_command_ready:
  "triple (ready r0) (launch_command x st xid run_argv cwd env timeout argv) (\<lambda>_. ready r0) (logged r0)"
  unfolding launch_command_def Let_def
  by (rule ready_bnd, intro evo_intros, rule ready_then, intro evo_intros, (simp; fail)+,
      rule triple_andthen [OF starting_alone], rule ready_for_then, intro evo_intros,
      rule triple_andthen [OF start_at], simp, rule ready_forget, rule ready_moves, intro evo_intros) simp_all

lemma run_command_ready:
  "triple (ready r0) (run_command x st xid w c argv shell env cwd) (\<lambda>_. ready r0) (logged r0)"
  unfolding run_command_def Let_def by (intro ready_bnd launch_command_ready evo_intros)

lemma command_step_ready: "triple (ready r0) (command_step x st argv shell env cwd) (\<lambda>_. ready r0) (logged r0)"
  unfolding command_step_def
  by (intro ready_bnd triple_sum) ((intro evo_intros ready_moves; fail)+,
      intro ready_bnd ready_then ready_or_else triple_if run_command_ready, (intro evo_intros ready_moves; fail)+)

subsection \<open>Contract probes and agents\<close>

lemma run_probe_ready:
  "triple (ready_for r0 xid) (run_probe x st xid argv w) (\<lambda>_. ready_for r0 xid) (logged r0)"
  unfolding run_probe_def
  by (rule ready_for_bnd, intro evo_intros, rule triple_option,
      intro ready_for_bnd evo_intros, rule triple_andthen [OF start_at], simp, rule ready_for_moves, intro evo_intros,
      rule ready_for_moves, intro evo_intros)

lemma lock_contract_ready:
  "triple (ready_for r0 xid) (lock_contract x st xid v w) (\<lambda>_. ready_for r0 xid) (logged r0)"
  unfolding lock_contract_def Let_def
  by (rule ready_for_bnd, intro evo_intros, rule triple_option, rule ready_for_moves, intro evo_intros,
      rule triple_bnd [OF run_probe_ready], rule ready_for_moves,
      intro evo_intros publish_steps.set_run_moves steady_same_steps) (simp_all add: doc_defs)

lemma run_agent_ready:
  "triple (ready_for r0 xid) (run_agent x xid sid reattach prompt) (\<lambda>_. ready_for r0 xid) (logged r0)"
  unfolding run_agent_def
  by (rule triple_andthen, rule triple_option, rule start_at, simp, rule ready_for_moves, intro evo_intros,
      rule ready_for_moves, intro evo_intros)

lemma ready_for_or_else:
  "moves (evo True no_start) m \<Longrightarrow> triple (ready_for r0 xid) k (\<lambda>_. ready_for r0 xid) (logged r0) \<Longrightarrow>
   triple (ready_for r0 xid) (or_else m k) (\<lambda>_. ready_for r0 xid) (logged r0)"
  by (rule triple_or_else, rule triple_post [OF ready_for_moves]) (auto split: option.splits)

lemma agent_finish_ready:
  "triple (ready_for r0 xid) (agent_finish x st xid w outp commit policy_check h j) (\<lambda>_. ready_for r0 xid) (logged r0)"
proof -
  obtain out1 gf where j: "j = (out1, gf)" by (cases j)
  have last: "triple (ready_for r0 xid) (case res of Stop out2 \<Rightarrow> ret out2 | Retry reason feedback \<Rightarrow> fail_with x xid reason feedback
      | Locked \<Rightarrow> done_with x xid out1) (\<lambda>_. ready_for r0 xid) (logged r0)" for res
    by (cases res) (simp_all add: ready_for_moves publish_steps.ending_moves publish_steps.order.moves_ret)
  show ?thesis unfolding agent_finish_def j Let_def prod.case
    by (rule ready_for_bnd, intro evo_intros, (rule ready_for_or_else, intro evo_intros)+, rule triple_bnd,
        rule triple_if, rule ready_for_bnd, intro evo_intros, rule lock_contract_ready, rule ready_for_moves,
        intro evo_intros, rule last)
qed

lemma agent_work_ready:
  "triple (ready r0) (agent_work x st xid w name profile resumed prompt outp gate commit policy_check) (\<lambda>_. ready r0) (logged r0)"
proof -
  have result: "triple (ready_for r0 xid) (case result of
         Inl why \<Rightarrow> andthen (finish_exec x xid SFailed (Some why)) (ret (OutFailed (''agent '' @ name @ '' error: '' @ why) []))
       | Inr res \<Rightarrow>
           andthen (save_transcript x xid res)
          (andthen (record_usage x st xid res)
          (or_else (agent_end_gate x st xid res timeout)
          (or_else (budget_gate x st xid)
          (bnd (if outp = OSummary then agent_summary x st xid res head_before
                else agent_structured x st xid outp gate res head_before) (\<lambda>judged.
           case judged of
             Inl out1 \<Rightarrow> ret out1
           | Inr j \<Rightarrow> andthen (keep_output x xid res (fst j))
                 (agent_finish x st xid w outp commit policy_check head_before j)))))))
     (\<lambda>_. ready r0) (logged r0)" for result timeout head_before
    by (rule triple_post [where Q' = "\<lambda>_. ready_for r0 xid"],
        intro triple_sum ready_for_then ready_for_or_else ready_for_bnd agent_finish_ready evo_intros;
        (intro ready_for_moves evo_intros; fail)?)
      (auto simp: ready_for_def)
  show ?thesis
    unfolding agent_work_def Let_def
    by (intro ready_bnd ready_then evo_intros; (simp; fail)?)
      (intro triple_if, rule ready_moves, intro evo_intros, rule triple_andthen [OF starting], intro evo_intros,
       rule triple_bnd [OF run_agent_ready], rule result)
qed

lemma agent_step_ready:
  "triple (ready r0) (agent_step x st skill prompt outp gate commit policy_check) (\<lambda>_. ready r0) (logged r0)"
  unfolding agent_step_def
  by (rule ready_bnd, intro evo_intros, rule ready_bnd, intro evo_intros, rule triple_sum, rule ready_moves,
      intro evo_intros, (rule ready_bnd, intro evo_intros)+, (rule ready_or_else, intro evo_intros)+,
      rule ready_bnd, intro evo_intros, rule triple_if, rule ready_moves, intro evo_intros,
      rule ready_bnd, intro evo_intros, rule triple_sum, rule ready_moves, intro evo_intros, rule agent_work_ready)

lemma execute_step_ready: "triple (ready r0) (execute_step x st) (\<lambda>_. ready r0) (logged r0)"
proof (cases "s_spec st")
  case (SpAgent a b c d e f g)
  then show ?thesis by (simp add: agent_step_ready)
next
  case (SpCommand a b c d)
  then show ?thesis by (simp add: command_step_ready)
next
  case (SpCheck a b c d e f)
  then show ?thesis by (simp add: command_step_ready)
qed (simp_all, (intro ready_moves evo_intros)+)

subsection \<open>The loop\<close>

interpretation publish_loop: loop_evolution False no_start
  by unfold_locales (auto simp: calm_def quiet_def elim: launches.elims)

text \<open>What the loop does after a step that lets it go on touches no execution.\<close>

lemma after_step_steps:
  assumes "after_step x st outcome s = (Inr None, t)"
  shows "r_steps (d_run t) = r_steps (d_run s)"
proof (cases outcome)
  case (OutSucceeded v)
  with assms show ?thesis
    by (cases v) (auto simp: after_step_def after_success_def plain_evals)
next
  case (OutFailed why fb)
  with assms show ?thesis
    by (auto simp: after_step_def handle_failure_def plain_evals Let_def bnd_Inr [of "fail_run _ _"]
        split: if_splits option.splits)
qed (use assms in \<open>auto simp: after_step_def plain_evals bnd_Inr [of "stop _ _ _"] bnd_Inr [of "cancelled _ _"]\<close>)

lemma after_step_ready: "triple (ready r0) (after_step x st outcome) (or_stop (ready r0) (\<lambda>_. logged r0)) (logged r0)"
  unfolding triple_def
proof (intro allI impI)
  fix s assume r: "ready r0 s"
  show "case after_step x st outcome s of (Inl e, t) \<Rightarrow> logged r0 t
      | (Inr v, t) \<Rightarrow> or_stop (ready r0) (\<lambda>_. logged r0) v t"
  proof (cases "after_step x st outcome s")
    case (Pair res t)
    have ev: "evo False no_start s t"
      using movesD [OF publish_loop.after_step_moves(2), of s x st outcome] Pair by simp
    then have "logged r0 t" using evo_logged r by (auto simp: ready_def)
    moreover have "ready r0 t" if "res = Inr None"
    proof -
      have same: "r_steps (d_run t) = r_steps (d_run s)"
        using after_step_steps [of x st outcome s t] Pair that by simp
      then have "started (d_run t) = started (d_run s)" by (simp add: started_def exec_of_def fun_eq_iff)
      with ev r \<open>logged r0 t\<close> show ?thesis
        by (auto simp: ready_def synced_def evo_def durable_append)
    qed
    ultimately show ?thesis using Pair by (auto simp: or_stop_def split: sum.splits option.splits)
  qed
qed

lemma before_step_ready: "triple (ready r0) (before_step x) (or_stop (ready r0) (\<lambda>_. logged r0)) (logged r0)"
  unfolding triple_def
proof (intro allI impI)
  fix s assume r: "ready r0 s"
  show "case before_step x s of (Inl e, t) \<Rightarrow> logged r0 t | (Inr v, t) \<Rightarrow> or_stop (ready r0) (\<lambda>_. logged r0) v t"
  proof (cases "before_step x s")
    case (Pair res t)
    have "evo False no_start s t"
      using movesD [OF publish_loop.before_step_moves, of s x] Pair by simp
    then have "logged r0 t" using evo_logged r by (auto simp: ready_def)
    moreover have "ready r0 t" if "res = Inr None"
      using before_step_kept [of x s t] that Pair r \<open>logged r0 t\<close> steps_keep_live(4) by (auto simp: ready_def)
    ultimately show ?thesis using Pair by (auto simp: or_stop_def split: sum.splits option.splits)
  qed
qed

lemma or_stop_bnd:
  assumes "triple I m (or_stop J Q) E" and "triple J k (or_stop I' Q) E"
  shows "triple I (bnd m (\<lambda>early. case early of Some n \<Rightarrow> ret (Some n) | None \<Rightarrow> k)) (or_stop I' Q) E"
proof (rule triple_bnd [OF assms(1)])
  show "triple (or_stop J Q early) (case early of Some n \<Rightarrow> ret (Some n) | None \<Rightarrow> k) (or_stop I' Q) E" for early
  proof (cases early)
    case None
    then show ?thesis using triple_pre [OF assms(2), of "or_stop J Q None"] by (simp add: or_stop_def)
  qed (simp add: triple_def reads or_stop_def)
qed

lemma one_turn_ready: "triple (ready r0) (one_turn x) (or_stop (ready r0) (\<lambda>_. logged r0)) (logged r0)"
  unfolding one_turn_def
  by (rule or_stop_bnd [OF before_step_ready], rule ready_bnd, intro evo_intros, rule ready_bnd, intro evo_intros,
      unfold Let_def, rule triple_bnd [OF execute_step_ready], rule after_step_ready)

lemma logged_moves: "moves (evo False no_start) m \<Longrightarrow> triple (logged r0) m (\<lambda>_. logged r0) (logged r0)"
  by (rule triple_moves_if [where R = "evo False no_start"]) (auto dest: evo_logged)

lemma stopping:
  "moves (evo False no_start) m \<Longrightarrow> triple (ready r0) (bnd m (\<lambda>n. ret (Some n))) (or_stop (ready r0) (\<lambda>_. logged r0)) (logged r0)"
  by (rule triple_bnd, rule triple_pre [OF logged_moves]) (auto simp: ready_def triple_def reads or_stop_def)

lemma going_on:
  "moves (evo True no_start) m \<Longrightarrow> triple (ready r0) (andthen m (ret None)) (or_stop (ready r0) (\<lambda>_. logged r0)) (logged r0)"
  by (rule triple_andthen, rule ready_moves) (auto simp: triple_def reads or_stop_def)

lemma staying: "triple (ready r0) (ret None) (or_stop (ready r0) Q) (logged r0)"
  by (auto simp: triple_def reads or_stop_def)

lemma begin_run_ready: "triple (ready r0) (begin_run x) (or_stop (ready r0) (\<lambda>_. logged r0)) (logged r0)"
proof -
  have prep: "triple (ready r0) (prepare x) (or_stop (ready r0) (\<lambda>_. logged r0)) (logged r0)"
    unfolding prepare_def Let_def
    by (rule ready_then, intro evo_intros, rule ready_bnd, intro evo_intros, rule ready_bnd, intro evo_intros,
        rule ready_bnd, intro evo_intros, rule ready_then, intro evo_intros,
        intro triple_if going_on evo_intros, rule stopping, intro evo_intros) simp
  have enter: "triple (ready r0) (enter_running x) (or_stop (ready r0) (\<lambda>_. logged r0)) (logged r0)"
    unfolding enter_running_def
    by (rule ready_bnd, intro evo_intros, intro triple_if or_stop_bnd [OF prep] going_on staying
        publish_steps.set_status_moves) simp_all
  have check: "triple (ready r0) (check_worktree x) (or_stop (ready r0) (\<lambda>_. logged r0)) (logged r0)"
    unfolding check_worktree_def
    by (rule ready_bnd, intro evo_intros, rule triple_option, rule staying, rule ready_bnd, intro evo_intros,
        intro triple_if stopping staying evo_intros) simp
  show ?thesis
    unfolding begin_run_def
    by (rule ready_bnd, intro evo_intros, rule triple_if, simp add: triple_def reads or_stop_def ready_def,
        rule ready_bnd, intro evo_intros, rule triple_if, rule stopping, intro evo_intros,
        rule ready_then, intro evo_intros, rule or_stop_bnd [OF enter check])
qed

text \<open>C2. Write-ahead. Whenever the driver starts a command, a probe or an agent for an execution, a
  document in which that execution has left the pending status is already on disk: the one it loaded,
  or one it saved earlier. A driver that takes over later sees the execution, and does not start
  the step as if nothing had happened.\<close>

theorem starts_recorded:
  "\<exists>r t. drive (enough (d_wf s) (d_cfg s)) x (s\<lparr> d_log := [] \<rparr>) = Some (r, t) \<and>
     each (start_recorded (d_run s)) (d_log t)"
proof -
  let ?s = "s\<lparr> d_log := [] \<rparr>" and ?r = "d_run s"
  obtain r t where d: "drive (enough (d_wf s) (d_cfg s)) x ?s = Some (r, t)"
    using drive_returns [of ?s "enough (d_wf s) (d_cfg s)" x] by auto
  have start: "ready ?r ?s" by (simp add: ready_def logged_def synced_def durable_def)
  have fin: "triple (ready ?r) (complete x) (\<lambda>_. logged ?r) (logged ?r)"
    by (rule triple_pre [OF logged_moves]) (intro evo_intros, simp add: ready_def)
  have f: "triple (logged ?r) (fail x w) (\<lambda>_. logged ?r) (logged ?r)" for w
    by (rule logged_moves) (intro evo_intros)
  have "case r of Inr st \<Rightarrow> logged ?r t | Inl e \<Rightarrow> (e = STOPPED \<and> logged ?r t) \<or> logged ?r t"
    by (rule drive_rule [OF begin_run_ready one_turn_ready fin f start d])
  then have "logged ?r t" by (auto split: sum.splits)
  with d show ?thesis by (auto simp: logged_def)
qed

end
