(* ===== verification/Policy_Gates.thy ===== *)
theory Policy_Gates
  imports Write_Ahead
begin

text \<open>
  Policy before effects: whatever the driver launches (a command, a probe, an agent, a commit, a push,
  a pull request, a worktree) follows a recorded decision of the policy on a subject that describes it;
  the decision is not a denial; and where it asks for approval, a human has approved in between.
\<close>

subsection \<open>What a launch has behind it\<close>

text \<open>The subject of the decision describes the effect.\<close>

fun covers :: "ext \<Rightarrow> effect \<Rightarrow> subject \<Rightarrow> bool" where
  "covers x (EvSpawn xid argv cwd env) j \<longleftrightarrow> sj_action j = Some ACommand \<and>
     (\<exists>words shell. sj_command j = Some (normalize words shell) \<and>
        (argv = shell_argv shell (own_binary x words) \<or> (argv = words \<and> \<not> shell)))"
| "covers x (EvAgent xid prompt) j \<longleftrightarrow> sj_action j = Some AAgentStart \<and>
     (\<exists>argv. sj_command j = Some (normalize argv False))"
| "covers x (EvCommit msg) j \<longleftrightarrow> sj_action j = Some AGitCommit"
| "covers x (EvPush remote branch) j \<longleftrightarrow> sj_action j = Some AGitPush \<and> sj_branch j = Some branch \<and>
     sj_command j = Some (normalize [''git'', ''push'', ''--set-upstream'', remote, branch] False)"
| "covers x (EvPr branch base) j \<longleftrightarrow> sj_action j = Some AGithubPr \<and> sj_branch j = Some branch"
| "covers x (EvWorktree p branch) j \<longleftrightarrow> sj_action j = Some AWorktreeCreate \<and> sj_branch j = Some branch"
| "covers x _ j \<longleftrightarrow> False"

text \<open>Commits and worktrees are only ever denied; the others also wait for a human.\<close>

fun asks_human :: "effect \<Rightarrow> bool" where
  "asks_human (EvCommit _) = False"
| "asks_human (EvWorktree _ _) = False"
| "asks_human _ = True"

text \<open>Between decision and launch nothing else is decided or launched, but for a pull request, whose
  commit and push come in between.\<close>

fun adjacent :: "effect \<Rightarrow> bool" where
  "adjacent (EvPr _ _) = False"
| "adjacent _ = True"

definition human_ok :: "effect list \<Rightarrow> bool" where
  "human_ok l \<longleftrightarrow> (\<exists>sid. EvAudit ''approval_granted'' sid \<in> set l \<or> EvAudit ''approval_reused'' sid \<in> set l)"

text \<open>A decision of the policy on a subject, in a log, and the effects after it.\<close>

definition decided ::
  "ext \<Rightarrow> policy_set \<Rightarrow> subject \<Rightarrow> string option \<Rightarrow> policy_decision \<Rightarrow> effect list \<Rightarrow> effect list \<Rightarrow> bool" where
  "decided x pol j who d after trail \<longleftrightarrow>
     (\<exists>sid before. trail = before @ EvPolicy sid who d # after) \<and> d = evaluate (x_matchers x) pol j"

definition judged :: "ext \<Rightarrow> policy_set \<Rightarrow> effect list \<Rightarrow> effect \<Rightarrow> bool" where
  "judged x pol trail e \<longleftrightarrow>
     (\<exists>j who d after. decided x pol j who d after trail \<and> covers x e j \<and>
        (case starts e of Some xid \<Rightarrow> who = Some xid | None \<Rightarrow> True) \<and> pd_decision d \<noteq> Deny \<and>
        (asks_human e \<longrightarrow> pd_decision d = RequireApproval \<longrightarrow> human_ok after) \<and>
        (adjacent e \<longrightarrow> list_all calm after))"

definition launch_judged :: "ext \<Rightarrow> policy_set \<Rightarrow> effect list \<Rightarrow> effect \<Rightarrow> bool" where
  "launch_judged x pol trail e \<longleftrightarrow> (launches e \<longrightarrow> judged x pol trail e)"

definition lawful :: "ext \<Rightarrow> driver \<Rightarrow> bool" where
  "lawful x s \<longleftrightarrow> each (launch_judged x (d_policy s)) (d_log s)"

text \<open>The state after a recorded decision: \<open>ok\<close> when a human has approved since.\<close>

definition noted :: "ext \<Rightarrow> subject \<Rightarrow> string option \<Rightarrow> policy_decision \<Rightarrow> bool \<Rightarrow> driver \<Rightarrow> bool" where
  "noted x j who d ok s \<longleftrightarrow> lawful x s \<and>
     (\<exists>after. decided x (d_policy s) j who d after (d_log s) \<and> list_all calm after \<and> (ok \<longrightarrow> human_ok after))"

text \<open>The same when more has been decided since.\<close>

definition settled :: "ext \<Rightarrow> subject \<Rightarrow> policy_decision \<Rightarrow> bool \<Rightarrow> driver \<Rightarrow> bool" where
  "settled x j d ok s \<longleftrightarrow>
     (\<exists>who after. decided x (d_policy s) j who d after (d_log s) \<and> (ok \<longrightarrow> human_ok after))"

lemma human_ok_append: "human_ok l \<Longrightarrow> human_ok (l @ k)" "human_ok k \<Longrightarrow> human_ok (l @ k)"
  by (auto simp: human_ok_def)

lemma decided_append: "decided x pol j who d after trail \<Longrightarrow> decided x pol j who d (after @ k) (trail @ k)"
  by (auto simp: decided_def)

lemma evo_lawful: "evo K quiet s t \<Longrightarrow> lawful x s \<Longrightarrow> lawful x t"
  by (auto simp: evo_def lawful_def launch_judged_def same_setup_def quiet_def list_all_iff intro!: each_append)

lemma calm_quiet: "evo K calm s t \<Longrightarrow> evo K quiet s t"
  by (rule evo_weaken [of K calm]) (auto simp: calm_def quiet_def)

lemma evo_noted:
  assumes "evo K calm s t" and "noted x j who d ok s"
  shows "noted x j who d ok t"
proof -
  obtain after where a: "decided x (d_policy s) j who d after (d_log s)" "list_all calm after" "ok \<longrightarrow> human_ok after"
    using assms(2) by (auto simp: noted_def)
  obtain l where l: "d_log t = d_log s @ l" "list_all calm l" "d_policy t = d_policy s"
    using assms(1) by (auto simp: evo_def same_setup_def)
  have "lawful x t" using evo_lawful [OF calm_quiet [OF assms(1)]] assms(2) by (simp add: noted_def)
  then show ?thesis
    using a l decided_append [OF a(1), of l] human_ok_append(1)
    unfolding noted_def by (intro conjI exI [of _ "after @ l"]) auto
qed

lemma evo_settled:
  assumes "evo K C s t" and "settled x j d ok s"
  shows "settled x j d ok t"
proof -
  obtain who after where a: "decided x (d_policy s) j who d after (d_log s)" "ok \<longrightarrow> human_ok after"
    using assms(2) by (auto simp: settled_def)
  obtain l where l: "d_log t = d_log s @ l" "d_policy t = d_policy s"
    using assms(1) by (auto simp: evo_def same_setup_def)
  then show ?thesis
    using a decided_append [OF a(1), of l] human_ok_append(1)
    unfolding settled_def by (intro exI [of _ who] exI [of _ "after @ l"]) auto
qed

lemma lawful_moves: "moves (evo True quiet) m \<Longrightarrow> triple (lawful x) m (\<lambda>_. lawful x) (lawful x)"
  by (rule triple_moves_if [where R = "evo True quiet"]) (auto dest: evo_lawful)

lemma lawful_loop: "moves (evo False quiet) m \<Longrightarrow> triple (lawful x) m (\<lambda>_. lawful x) (lawful x)"
  by (rule triple_moves_if [where R = "evo False quiet"]) (auto dest: evo_lawful)

lemma noted_is_lawful: "noted x j who d ok s \<Longrightarrow> lawful x s"
  by (simp add: noted_def)

lemma noted_moves: "moves (evo True calm) m \<Longrightarrow> triple (noted x j who d ok) m (\<lambda>_. noted x j who d ok) (lawful x)"
  by (rule triple_moves_if [where R = "evo True calm"]) (auto dest: evo_noted noted_is_lawful)

lemma noted_lawful: "triple (lawful x) m Q E \<Longrightarrow> triple (noted x j who d ok) m Q E"
  by (erule triple_pre) (rule noted_is_lawful)

lemmas lawful_bnd = triple_bnd [OF lawful_moves]
lemmas lawful_then = triple_andthen [OF lawful_moves]
lemmas noted_bnd = triple_bnd [OF noted_moves]
lemmas noted_then = triple_andthen [OF noted_moves]

subsection \<open>Deciding and asking\<close>

lemma judging:
  assumes "\<And>d. triple (noted x j who d False) (k d) Q (lawful x)"
  shows "triple (lawful x) (bnd (judge x j) (\<lambda>d. andthen (record_policy x sid who d) (k d))) Q (lawful x)"
  unfolding triple_def
proof (intro allI impI)
  fix s assume s: "lawful x s"
  let ?d = "evaluate (x_matchers x) (d_policy s) j"
  obtain t where t: "record_policy x sid who ?d s = (Inr (), t)" and
    l: "d_log t = d_log s @ [EvPolicy sid who ?d, EvAudit ''policy_evaluated'' sid]" "d_policy t = d_policy s"
    by (simp add: record_policy_def plain_evals)
  have "lawful x t"
    using evo_lawful [OF movesD [OF quiet_steps.record_policy_moves, of s x sid who ?d] s] t by simp
  then have "noted x j who ?d False t"
    using l unfolding noted_def decided_def
    by (intro conjI exI [of _ "[EvAudit ''policy_evaluated'' sid]"]) (auto simp: calm_def)
  from assms [of ?d, unfolded triple_def, rule_format, OF this] t
  show "case bnd (judge x j) (\<lambda>d. andthen (record_policy x sid who d) (k d)) s of (Inl e, t) \<Rightarrow> lawful x t
      | (Inr v, t) \<Rightarrow> Q v t"
    by (simp add: judge_def reads andthen_def bnd_def [of "record_policy _ _ _ _"])
qed

lemma noted_audit:
  assumes "ev \<in> {''approval_granted'', ''approval_reused''}"
  shows "triple (noted x j who d ok) (audit ev sid) (\<lambda>_. noted x j who d True) (lawful x)"
  unfolding triple_def
proof (intro allI impI)
  fix s assume s: "noted x j who d ok s"
  then obtain after where a: "decided x (d_policy s) j who d after (d_log s)" "list_all calm after"
    by (auto simp: noted_def)
  have "lawful x (s\<lparr> d_log := d_log s @ [EvAudit ev sid] \<rparr>)"
    using s by (auto simp: noted_def lawful_def launch_judged_def each_snoc)
  then have "noted x j who d True (s\<lparr> d_log := d_log s @ [EvAudit ev sid] \<rparr>)"
    using a decided_append [OF a(1), of "[EvAudit ev sid]"] assms
    unfolding noted_def by (intro conjI exI [of _ "after @ [EvAudit ev sid]"]) (auto simp: calm_def human_ok_def)
  then show "case audit ev sid s of (Inl e, t) \<Rightarrow> lawful x t | (Inr v, t) \<Rightarrow> noted x j who d True t"
    by (simp add: audit_def evals)
qed

lemma triple_status:
  "triple P m1 Q E \<Longrightarrow> triple P m2 Q E \<Longrightarrow> triple P m3 Q E \<Longrightarrow> triple P m4 Q E \<Longrightarrow> triple P m5 Q E \<Longrightarrow>
   triple P (case st of APending \<Rightarrow> m1 | AApproved \<Rightarrow> m2 | ADenied \<Rightarrow> m3 | AExpired \<Rightarrow> m4 | ACancelled \<Rightarrow> m5) Q E"
  by (cases st) auto

lemma wait_approval_noted:
  "triple (noted x j who d False) (wait_approval sid i ps) (\<lambda>a. noted x j who d (a = Granted)) (lawful x)"
proof (induction ps)
  case Nil
  then show ?case by (simp add: triple_def bail_def noted_def)
next
  case (Cons p ps)
  have plain: "triple (noted x j who d False) (ret v) (\<lambda>a. noted x j who d (a = Granted)) (lawful x)"
    if "v \<noteq> Granted" for v using that by (simp add: triple_def reads)
  have granted: "triple (noted x j who d False) (andthen (audit ''approval_granted'' (Some sid)) (ret Granted))
      (\<lambda>a. noted x j who d (a = Granted)) (lawful x)"
    by (rule triple_andthen [OF noted_audit]) (simp_all add: triple_def reads)
  show ?case
    unfolding wait_approval.simps
    by (rule noted_then, intro evo_intros, rule triple_if, rule plain, simp, rule noted_bnd, intro evo_intros,
        intro triple_status triple_if granted Cons.IH noted_then plain evo_intros) simp_all
qed

lemma request_approval_noted:
  "triple (noted x j who d False) (request_approval x st xid kind reason pending policy)
     (\<lambda>a. noted x j who d (a = Granted)) (lawful x)"
  unfolding request_approval_def
proof (rule noted_bnd, intro evo_intros, rule noted_bnd, intro evo_intros, rule noted_then, intro evo_intros,
    rule noted_then, rule calm_steps.set_status_moves, simp, simp, rule noted_bnd, intro evo_intros,
    rule triple_bnd [OF wait_approval_noted])
  show "triple (noted x j who d (answer = Granted)) (andthen (whenb (answer \<noteq> ApprovalCancelled)
        (andthen (set_status x RRunning None)
        (bnd (exec_status xid) (\<lambda>cur.
           whenb (cur = SAwaitingApproval \<and> answer = Granted) (set_exec_status x xid SRunning)))))
       (ret answer)) (\<lambda>a. noted x j who d (a = Granted)) (lawful x)" for answer
    by (rule noted_then, intro evo_intros calm_steps.set_status_moves) (simp_all add: triple_def reads)
qed

text \<open>The state in which a launch is due: judged on a subject with \<open>P\<close>, not denied, and approved where
  that is asked.\<close>

definition cleared :: "ext \<Rightarrow> string option \<Rightarrow> (subject \<Rightarrow> bool) \<Rightarrow> driver \<Rightarrow> bool" where
  "cleared x who P s \<longleftrightarrow>
     (\<exists>j d. P j \<and> pd_decision d \<noteq> Deny \<and> noted x j who d (pd_decision d = RequireApproval) s)"

definition gate_post :: "ext \<Rightarrow> string option \<Rightarrow> (subject \<Rightarrow> bool) \<Rightarrow> 'a option \<Rightarrow> driver \<Rightarrow> bool" where
  "gate_post x who P o1 s = (case o1 of None \<Rightarrow> cleared x who P s | Some _ \<Rightarrow> lawful x s)"

lemma cleared_lawful: "cleared x who P s \<Longrightarrow> lawful x s"
  by (auto simp: cleared_def noted_def)

lemma cleared_moves: "moves (evo True calm) m \<Longrightarrow> triple (cleared x who P) m (\<lambda>_. cleared x who P) (lawful x)"
  by (rule triple_moves_if [where R = "evo True calm"]) (auto simp: cleared_def dest: evo_noted noted_is_lawful)

lemmas cleared_bnd = triple_bnd [OF cleared_moves]
lemmas cleared_then = triple_andthen [OF cleared_moves]

lemma cleared_forget: "triple (lawful x) m Q E \<Longrightarrow> triple (cleared x who P) m Q E"
  by (erule triple_pre) (rule cleared_lawful)

lemma stop_with_gate: "triple (noted x j who d ok) (stop_with x xid why out1) (gate_post x who P) (lawful x)"
  by (rule noted_lawful, unfold stop_with_def, rule lawful_then, intro evo_intros)
    (simp add: triple_def reads gate_post_def)

lemma pass_gate:
  "P j \<Longrightarrow> pd_decision d \<noteq> Deny \<Longrightarrow> (pd_decision d = RequireApproval \<Longrightarrow> ok) \<Longrightarrow>
   triple (noted x j who d ok) (ret None) (gate_post x who P) (lawful x)"
  by (auto simp: triple_def reads gate_post_def cleared_def noted_def)

lemma ask_human_gate:
  assumes "P j" and "pd_decision d \<noteq> Deny"
  shows "triple (noted x j who d False) (ask_human x st xid reason pending policy) (gate_post x who P) (lawful x)"
  unfolding ask_human_def
proof (rule triple_bnd [OF request_approval_noted])
  show "triple (noted x j who d (answer = Granted)) (case answer of
       Granted \<Rightarrow> ret None
     | Denied why \<Rightarrow> stop_with x xid why (OutFailed why [])
     | ApprovalCancelled \<Rightarrow> ret (Some OutCancelled)) (gate_post x who P) (lawful x)" for answer
  proof (cases answer)
    case ApprovalCancelled
    then show ?thesis by (auto simp: triple_def reads gate_post_def noted_def)
  qed (simp_all add: pass_gate assms stop_with_gate)
qed

lemma cover_applies_noted:
  "triple (noted x j who d False) (cover_applies x sid) (\<lambda>b. noted x j who d b) (lawful x)"
proof -
  have no: "triple (noted x j who d False) (ret False) (\<lambda>b. noted x j who d b) (lawful x)"
    by (simp add: triple_def reads)
  show ?thesis
    unfolding cover_applies_def
    by (rule noted_bnd, intro evo_intros, rule triple_option, rule no, rule triple_if, rule no, rule noted_bnd,
        intro evo_intros, rule triple_if, rule no, rule triple_andthen [OF noted_audit]) (simp_all add: triple_def reads)
qed

lemma covered_gate:
  assumes "P j" and "pd_decision d \<noteq> Deny" and "triple (noted x j who d False) k (gate_post x who P) (lawful x)"
  shows "triple (noted x j who d False) (bnd (cover_applies x sid) (\<lambda>covered. if covered then ret None else k))
    (gate_post x who P) (lawful x)"
proof (rule triple_bnd [OF cover_applies_noted])
  show "triple (noted x j who d covered) (if covered then ret None else k) (gate_post x who P) (lawful x)" for covered
    using assms by (cases covered) (auto intro: pass_gate)
qed

lemma deciding:
  assumes "pd_decision d = Deny \<Longrightarrow> triple (noted x j who d False) a Q (lawful x)"
    and "pd_decision d = RequireApproval \<Longrightarrow> triple (noted x j who d False) b Q (lawful x)"
    and "pd_decision d = Allow \<Longrightarrow> triple (noted x j who d False) c Q (lawful x)"
  shows "triple (noted x j who d False) (case pd_decision d of Deny \<Rightarrow> a | RequireApproval \<Rightarrow> b | Allow \<Rightarrow> c) Q (lawful x)"
  using assms by (cases "pd_decision d") auto

subsection \<open>The gates of the executors\<close>

definition about_command :: "string list \<Rightarrow> bool \<Rightarrow> subject \<Rightarrow> bool" where
  "about_command argv shell j \<longleftrightarrow> sj_action j = Some ACommand \<and> sj_command j = Some (normalize argv shell)"

lemma about_commandI:
  "sj_action j = Some ACommand \<Longrightarrow> sj_command j = Some (normalize argv shell) \<Longrightarrow> about_command argv shell j"
  by (simp add: about_command_def)

lemma command_gate_lawful:
  "triple (lawful x) (command_gate x st xid w argv shell) (gate_post x (Some xid) (about_command argv shell)) (lawful x)"
  unfolding command_gate_def Let_def
  by (rule lawful_bnd, intro evo_intros, rule judging, rule deciding, rule stop_with_gate, rule covered_gate,
      simp add: about_command_def subject_command_def, simp, rule ask_human_gate, simp add: about_command_def subject_command_def,
      simp, rule pass_gate) (simp_all add: about_command_def subject_command_def)

lemma probe_gate_lawful:
  "triple (lawful x) (probe_gate x st xid argv) (gate_post x (Some xid) (about_command argv False)) (lawful x)"
  unfolding probe_gate_def Let_def
  by (rule lawful_bnd, intro evo_intros, rule judging, rule deciding, rule stop_with_gate, rule ask_human_gate,
      simp add: about_command_def subject_command_def, simp, rule pass_gate)
    (simp_all add: about_command_def subject_command_def)

definition about_agent :: "subject \<Rightarrow> bool" where
  "about_agent j \<longleftrightarrow> sj_action j = Some AAgentStart \<and> (\<exists>argv. sj_command j = Some (normalize argv False))"

lemma launch_gate_lawful: "triple (lawful x) (launch_gate x st xid name p) (gate_post x (Some xid) about_agent) (lawful x)"
  unfolding launch_gate_def
  by (rule lawful_bnd, intro evo_intros, rule judging, rule deciding, rule stop_with_gate, rule ask_human_gate,
      simp add: about_agent_def subject_command_def, blast, simp, rule pass_gate)
    (simp_all add: about_agent_def subject_command_def, blast?)

subsection \<open>Launches\<close>

lemma launch_noted:
  assumes "covers x e j" and "\<And>xid. starts e = Some xid \<Longrightarrow> who = Some xid" and "pd_decision d \<noteq> Deny"
    and "asks_human e \<Longrightarrow> pd_decision d = RequireApproval \<Longrightarrow> ok"
  shows "triple (noted x j who d ok) (emit e) (\<lambda>_. lawful x) (lawful x)"
proof -
  have "lawful x (s\<lparr> d_log := d_log s @ [e] \<rparr>)" if n: "noted x j who d ok s" for s
  proof -
    obtain after where a: "lawful x s" "decided x (d_policy s) j who d after (d_log s)"
      "list_all calm after" "ok \<longrightarrow> human_ok after" using n by (auto simp: noted_def)
    have "judged x (d_policy s) (d_log s) e"
      unfolding judged_def
      by (rule exI [of _ j], rule exI [of _ who], rule exI [of _ d], rule exI [of _ after])
        (use a assms in \<open>auto split: option.splits\<close>)
    with a(1) show ?thesis by (simp add: lawful_def launch_judged_def each_snoc)
  qed
  then show ?thesis by (simp add: triple_def evals)
qed

lemma launch_at:
  assumes "\<And>j. P j \<Longrightarrow> covers x e j" and "\<And>xid. starts e = Some xid \<Longrightarrow> who = Some xid"
  shows "triple (cleared x who P) (emit e) (\<lambda>_. lawful x) (lawful x)"
  unfolding triple_def
proof (intro allI impI)
  fix s assume "cleared x who P s"
  then obtain j d where j: "P j" "pd_decision d \<noteq> Deny" "noted x j who d (pd_decision d = RequireApproval) s"
    by (auto simp: cleared_def)
  have "triple (noted x j who d (pd_decision d = RequireApproval)) (emit e) (\<lambda>_. lawful x) (lawful x)"
    by (rule launch_noted [OF assms(1) [OF j(1)] assms(2) j(2)])
  from this [unfolded triple_def, rule_format, OF j(3)]
  show "case emit e s of (Inl _, t) \<Rightarrow> lawful x t | (Inr _, t) \<Rightarrow> lawful x t" .
qed

lemma gate_then:
  assumes "triple (lawful x) m (gate_post x who P) (lawful x)" and "triple (cleared x who P) k (\<lambda>_. lawful x) (lawful x)"
  shows "triple (lawful x) (or_else m k) (\<lambda>_. lawful x) (lawful x)"
  by (rule triple_or_else [OF triple_post [OF assms(1)] assms(2)]) (auto simp: gate_post_def split: option.splits)

lemma lawful_or_else:
  "moves (evo True quiet) m \<Longrightarrow> triple (lawful x) k (\<lambda>_. lawful x) (lawful x) \<Longrightarrow>
   triple (lawful x) (or_else m k) (\<lambda>_. lawful x) (lawful x)"
  by (rule triple_or_else, rule triple_post [OF lawful_moves]) (auto split: option.splits)

lemma lawful_option_then:
  assumes "triple (lawful x) m (\<lambda>_. lawful x) (lawful x)" and "triple (lawful x) k (\<lambda>_. lawful x) (lawful x)"
  shows "triple (lawful x) (or_else m k) (\<lambda>_. lawful x) (lawful x)"
  by (rule triple_or_else [OF triple_post [OF assms(1)] assms(2)]) (auto split: option.splits)

lemma cleared_or_else:
  "moves (evo True calm) m \<Longrightarrow> triple (cleared x who P) k (\<lambda>_. lawful x) (lawful x) \<Longrightarrow>
   triple (cleared x who P) (or_else m k) (\<lambda>_. lawful x) (lawful x)"
  by (rule triple_or_else, rule triple_post [OF cleared_moves]) (auto dest: cleared_lawful split: option.splits)

lemma cleared_end: "moves (evo True quiet) m \<Longrightarrow> triple (cleared x who P) m (\<lambda>_. lawful x) (lawful x)"
  by (rule cleared_forget [OF lawful_moves])

lemma sandbox_id: "sandbox_wrap k argv = Inr v \<Longrightarrow> v = argv"
  by (auto simp: sandbox_wrap_def split: sandbox_kind.splits)

lemma lift_value: "(\<And>v. r = Inr v \<Longrightarrow> triple P (f v) Q E) \<Longrightarrow> (\<And>s. P s \<Longrightarrow> E s) \<Longrightarrow> triple P (bnd (lift_result r) f) Q E"
  by (cases r) (auto simp: triple_def bnd_def lift_result_def)

lemma launch_command_lawful:
  assumes "run_argv = shell_argv shell (own_binary x words)"
  shows "triple (cleared x (Some xid) (about_command words shell))
    (launch_command x st xid run_argv cwd env timeout argv) (\<lambda>_. lawful x) (lawful x)"
  unfolding launch_command_def Let_def
  by (rule cleared_bnd, intro evo_intros, rule cleared_then, intro evo_intros, (simp; fail)+,
      (rule cleared_then, intro evo_intros)+, rule triple_andthen [OF launch_at],
      use assms in \<open>auto simp: about_command_def\<close>, rule lawful_moves, intro evo_intros) simp_all

lemma run_command_lawful:
  "triple (cleared x (Some xid) (about_command words shell)) (run_command x st xid w c words shell env cwd)
    (\<lambda>_. lawful x) (lawful x)"
  unfolding run_command_def Let_def
  by (rule cleared_bnd, intro evo_intros, rule lift_value, drule sandbox_id, (rule cleared_bnd, intro evo_intros)+,
      rule launch_command_lawful, simp, erule cleared_lawful)

lemma command_step_lawful: "triple (lawful x) (command_step x st argv shell env cwd) (\<lambda>_. lawful x) (lawful x)"
  unfolding command_step_def
  by (rule lawful_bnd, intro evo_intros, rule lawful_bnd, intro evo_intros, rule lawful_bnd, intro evo_intros,
      rule triple_sum, rule lawful_moves, intro evo_intros, rule lawful_bnd, intro evo_intros,
      rule lawful_then, intro evo_intros, rule gate_then [OF command_gate_lawful], rule cleared_bnd, intro evo_intros,
      rule triple_if, rule cleared_end, intro evo_intros, rule run_command_lawful)

lemma run_probe_lawful: "triple (lawful x) (run_probe x st xid argv w) (\<lambda>_. lawful x) (lawful x)"
  unfolding run_probe_def
proof (rule triple_bnd [OF probe_gate_lawful])
  show "triple (gate_post x (Some xid) (about_command argv False) stopped) (case stopped of
       Some out1 \<Rightarrow> ret (Inl out1)
     | None \<Rightarrow>
       bnd (gets d_cfg) (\<lambda>cfg.
       bnd (lift_result (sandbox_wrap (cf_sandbox cfg) argv)) (\<lambda>run_argv.
       bnd the_run (\<lambda>r. bnd (ask (x_vars x)) (\<lambda>vars.
       andthen (emit (EvSpawn xid run_argv w (build_env (cf_environment cfg) vars (orch_env r (s_id st)))))
      (bnd (ask_result (x_process x)) (\<lambda>p.
       if po_cancelled p then ret (Inl OutCancelled)
       else
         andthen (audit ''contract_probe'' (Some (s_id st)))
           (ret (Inr (process_success p, probe_excerpt x p)))))))))) (\<lambda>_. lawful x) (lawful x)" for stopped
  proof (cases stopped)
    case None
    have post: "gate_post x (Some xid) (about_command argv False) None = cleared x (Some xid) (about_command argv False)"
      by (simp add: gate_post_def fun_eq_iff)
    show ?thesis
      unfolding None option.case post
      by (rule cleared_bnd, intro evo_intros, rule lift_value, drule sandbox_id, (rule cleared_bnd, intro evo_intros)+,
          rule triple_andthen [OF launch_at], auto simp: about_command_def; (rule lawful_moves, intro evo_intros; fail)?)
        (auto dest: cleared_lawful)
  qed (simp add: triple_def reads gate_post_def)
qed

lemma lock_contract_lawful: "triple (lawful x) (lock_contract x st xid v w) (\<lambda>_. lawful x) (lawful x)"
  unfolding lock_contract_def Let_def
  by (rule lawful_bnd, intro evo_intros, rule triple_option, rule lawful_moves, intro evo_intros,
      rule triple_bnd [OF run_probe_lawful], rule lawful_moves,
      intro evo_intros quiet_steps.set_run_moves steady_same_steps) (simp_all add: doc_defs)

end
