(* ===== verification/Policy_First.thy ===== *)
theory Policy_First
  imports Policy_Gates
begin

text \<open>
  Policy before effects, continued: commits, pushes, pull requests, agents and worktrees, the steps
  that contain them, and the run loop.
\<close>

subsection \<open>Commits and pushes\<close>

lemma noted_end: "moves (evo True quiet) m \<Longrightarrow> triple (noted x j who d ok) m (\<lambda>_. lawful x) (lawful x)"
  by (rule noted_lawful [OF lawful_moves])

lemma commit_changes_lawful: "triple (lawful x) (commit_changes x st xid m) (\<lambda>_. lawful x) (lawful x)"
  unfolding commit_changes_def Let_def
  by (rule lawful_bnd, intro evo_intros, rule lawful_bnd, intro evo_intros, rule triple_if, rule lawful_moves,
      intro evo_intros, rule lawful_bnd, intro evo_intros, rule judging, rule triple_if, rule noted_end,
      intro evo_intros, (rule noted_bnd, intro evo_intros)+, rule triple_andthen [OF launch_noted],
      simp, simp, simp, simp, rule lawful_moves, intro evo_intros quiet_steps.set_run_moves steady_same_steps)
    (simp_all add: doc_defs)

lemma stopped_then:
  assumes "triple P k (\<lambda>_. lawful x) (lawful x)" and "P = gate_post x who G None"
  shows "triple (gate_post x who G v) (case v of Some out1 \<Rightarrow> ret (Some out1) | None \<Rightarrow> k) (\<lambda>_. lawful x) (lawful x)"
  using assms by (cases v) (simp_all add: triple_def reads gate_post_def)

lemma gate_open: "cleared x who G = gate_post x who G None"
  by (simp add: gate_post_def fun_eq_iff)

definition about_push :: "string \<Rightarrow> string \<Rightarrow> subject \<Rightarrow> bool" where
  "about_push remote branch j \<longleftrightarrow> sj_action j = Some AGitPush \<and> sj_branch j = Some branch \<and>
     sj_command j = Some (normalize [''git'', ''push'', ''--set-upstream'', remote, branch] False)"

lemma push_branch_lawful: "triple (lawful x) (push_branch x st xid) (\<lambda>_. lawful x) (lawful x)"
proof -
  have rest: "triple (cleared x (Some xid) (about_push remote branch))
      (andthen (audit ''git_push_started'' (Some (s_id st)))
          (andthen (emit (EvPush remote branch))
          (andthen (bnd (ask_result (x_push x)) (\<lambda>_. ret ()))
          (andthen (audit ''git_pushed'' (Some (s_id st))) (ret None))))) (\<lambda>_. lawful x) (lawful x)" for remote branch
    by (rule cleared_then, intro evo_intros, rule triple_andthen [OF launch_at], simp add: about_push_def, simp,
        rule lawful_moves, intro evo_intros)
  have gate: "triple (noted x j (Some xid) d False) (case pd_decision d of
          Deny \<Rightarrow> stop_with x xid (''policy denied push: '' @ pd_reason d) (OutBlocked (''policy denied push: '' @ pd_reason d))
        | RequireApproval \<Rightarrow>
            bnd (cover_applies x (s_id st)) (\<lambda>covered.
            if covered then ret None
            else ask_human x st xid (''Push requires approval: '' @ pd_reason d)
              (''git push '' @ remote @ '' '' @ branch) [d])
        | Allow \<Rightarrow> ret None) (gate_post x (Some xid) (about_push remote branch)) (lawful x)"
    if "about_push remote branch j" for j d remote branch
    using that
    by (intro deciding) (rule stop_with_gate, rule covered_gate, simp, simp, rule ask_human_gate, simp, simp,
        rule pass_gate, simp_all)
  show ?thesis
    unfolding push_branch_def Let_def
    by (rule lawful_bnd, intro evo_intros, rule lawful_bnd, intro evo_intros, rule triple_option, rule lawful_moves,
        intro evo_intros, rule lawful_bnd, intro evo_intros, rule judging, rule triple_bnd [OF gate],
        simp add: about_push_def subject_command_def, rule stopped_then [OF rest gate_open])
qed

lemma git_step_lawful: "triple (lawful x) (git_step x st act m) (\<lambda>_. lawful x) (lawful x)"
  unfolding git_step_def
  by (rule lawful_bnd, intro evo_intros, rule lawful_then, intro evo_intros, rule lawful_bnd, intro evo_intros,
      rule triple_if, rule lawful_moves, intro evo_intros, rule lawful_option_then,
      cases act, simp add: commit_changes_lawful, simp add: push_branch_lawful, rule lawful_moves, intro evo_intros)

subsection \<open>Pull requests\<close>

text \<open>The decision on a pull request, kept while the run commits and pushes.\<close>

definition published :: "ext \<Rightarrow> string \<Rightarrow> driver \<Rightarrow> bool" where
  "published x branch s \<longleftrightarrow> lawful x s \<and>
     (\<exists>j d. sj_action j = Some AGithubPr \<and> sj_branch j = Some branch \<and> pd_decision d \<noteq> Deny \<and>
        settled x j d (pd_decision d = RequireApproval) s)"

definition about_pr :: "string \<Rightarrow> subject \<Rightarrow> bool" where
  "about_pr branch j \<longleftrightarrow> sj_action j = Some AGithubPr \<and> sj_branch j = Some branch"

lemma cleared_published: "cleared x who (about_pr branch) s \<Longrightarrow> published x branch s"
  unfolding cleared_def noted_def published_def settled_def about_pr_def by blast

lemma published_keeps:
  assumes "moves (evo True (\<lambda>_. True)) m" and "triple (lawful x) m (\<lambda>_. lawful x) (lawful x)"
  shows "triple (published x branch) m (\<lambda>_. published x branch) (lawful x)"
  unfolding triple_def
proof (intro allI impI)
  fix s assume p: "published x branch s"
  obtain r t where m: "m s = (r, t)" by (cases "m s")
  have ev: "evo True (\<lambda>_. True) s t" using movesD [OF assms(1), of s] m by simp
  have "lawful x t"
    using assms(2) p m by (auto simp: triple_def published_def split: sum.splits)
  then have "published x branch t"
    using p evo_settled [OF ev] unfolding published_def by blast
  then show "case m s of (Inl e, t) \<Rightarrow> lawful x t | (Inr v, t) \<Rightarrow> published x branch t"
    using m \<open>lawful x t\<close> by (simp split: sum.splits)
qed

lemma published_or_else:
  assumes "moves (evo True (\<lambda>_. True)) m" and "triple (lawful x) m (\<lambda>_. lawful x) (lawful x)"
    and "triple (published x branch) k (\<lambda>_. lawful x) (lawful x)"
  shows "triple (published x branch) (or_else m k) (\<lambda>_. lawful x) (lawful x)"
  by (rule triple_or_else [OF triple_post [OF published_keeps [OF assms(1,2)]] assms(3)])
    (auto simp: published_def split: option.splits)

lemma published_quiet: "moves (evo True quiet) m \<Longrightarrow> triple (published x branch) m (\<lambda>_. published x branch) (lawful x)"
  by (rule published_keeps) (auto simp: moves_def intro: evo_weaken lawful_moves)

lemmas published_bnd = triple_bnd [OF published_quiet]
lemmas published_then = triple_andthen [OF published_quiet]

lemma launch_pr: "triple (published x branch) (emit (EvPr branch base)) (\<lambda>_. lawful x) (lawful x)"
proof -
  have "lawful x (s\<lparr> d_log := d_log s @ [EvPr branch base] \<rparr>)" if p: "published x branch s" for s
  proof -
    obtain j d who after where j: "lawful x s" "sj_action j = Some AGithubPr" "sj_branch j = Some branch"
      "pd_decision d \<noteq> Deny" "decided x (d_policy s) j who d after (d_log s)"
      "pd_decision d = RequireApproval \<longrightarrow> human_ok after"
      using p by (auto simp: published_def settled_def)
    have "judged x (d_policy s) (d_log s) (EvPr branch base)"
      unfolding judged_def
      by (rule exI [of _ j], rule exI [of _ who], rule exI [of _ d], rule exI [of _ after]) (use j in auto)
    with j(1) show ?thesis by (simp add: lawful_def launch_judged_def each_snoc)
  qed
  then show ?thesis by (simp add: triple_def evals)
qed

lemma pr_create_lawful: "triple (published x branch) (pr_create x st xid title body branch base) (\<lambda>_. lawful x) (lawful x)"
  unfolding pr_create_def
  by ((rule published_bnd, intro evo_intros)+, rule published_then, intro evo_intros, (simp; fail)+, rule published_then,
      intro evo_intros, rule triple_andthen [OF launch_pr], rule lawful_moves, intro evo_intros)

lemma pr_decision_gate_cleared:
  assumes "about_pr branch j"
  shows "triple (noted x j (Some xid) d False) (pr_decision_gate x st xid d branch base draft)
    (gate_post x (Some xid) (about_pr branch)) (lawful x)"
proof -
  have cover: "triple (cleared x (Some xid) (about_pr branch)) (bnd (the_exec xid) (\<lambda>e. bnd (ask (x_head x)) (\<lambda>head.
        andthen (set_run (\<lambda>r. r\<lparr> r_approval_cover := Some \<lparr> ac_step_id = s_id st,
           ac_approval_id = (case e_approval_id e of Some i \<Rightarrow> i | None \<Rightarrow> []), ac_head_sha = head \<rparr> \<rparr>)) (ret None))))
      (gate_post x (Some xid) (about_pr branch)) (lawful x)"
    by (rule cleared_bnd, intro evo_intros, rule cleared_bnd, intro evo_intros, rule cleared_then,
        intro evo_intros calm_steps.set_run_moves steady_same_steps)
      (simp_all add: doc_defs triple_def reads gate_post_def)
  have asked: "triple (gate_post x (Some xid) (about_pr branch) stopped) (case stopped of
              Some out1 \<Rightarrow> ret (Some out1)
            | None \<Rightarrow>
                bnd (the_exec xid) (\<lambda>e. bnd (ask (x_head x)) (\<lambda>head.
                andthen (set_run (\<lambda>r. r\<lparr> r_approval_cover := Some \<lparr> ac_step_id = s_id st,
                   ac_approval_id = (case e_approval_id e of Some i \<Rightarrow> i | None \<Rightarrow> []), ac_head_sha = head \<rparr> \<rparr>))
                  (ret None))))
      (gate_post x (Some xid) (about_pr branch)) (lawful x)" for stopped
  proof (cases stopped)
    case None
    show ?thesis unfolding None option.case gate_open [symmetric] by (rule cover)
  qed (simp add: triple_def reads gate_post_def)
  show ?thesis
    unfolding pr_decision_gate_def Let_def
    by (rule deciding, rule stop_with_gate, rule covered_gate, rule assms, simp,
        rule triple_bnd [OF ask_human_gate], rule assms, simp, rule asked, rule pass_gate) (simp_all add: assms)
qed

lemma pr_open_lawful:
  assumes "about_pr branch j"
  shows "triple (noted x j (Some xid) d False) (pr_open x st xid d draft title body branch base) (\<lambda>_. lawful x) (lawful x)"
proof -
  have rest: "triple (published x branch) (or_else (commit_changes x st xid None)
    (or_else (if cf_push_before_pr cfg then push_branch x st xid else ret None)
      (pr_create x st xid title body branch base))) (\<lambda>_. lawful x) (lawful x)" for cfg
    by (rule published_or_else, intro evo_intros, rule commit_changes_lawful, rule published_or_else, intro evo_intros,
        intro triple_if, rule push_branch_lawful, rule lawful_moves, intro evo_intros, rule pr_create_lawful)
  show ?thesis
    unfolding pr_open_def
    by (rule noted_bnd, intro evo_intros, rule triple_or_else [OF triple_post [OF pr_decision_gate_cleared [OF assms]]],
        rule_tac [2] triple_pre [OF rest])
      (auto simp: gate_post_def dest: cleared_published split: option.splits)
qed

lemma pr_existing_lawful: "triple (lawful x) (pr_existing x st xid url) (\<lambda>_. lawful x) (lawful x)"
proof -
  have "triple (lawful x) (case stopped of Some out1 \<Rightarrow> ret (Some out1) | None \<Rightarrow> push_branch x st xid)
      (\<lambda>_. lawful x) (lawful x)" for stopped
    by (rule triple_option, rule push_branch_lawful, rule lawful_moves, intro evo_intros)
  then show ?thesis
    unfolding pr_existing_def
    by (intro lawful_bnd lawful_option_then triple_if triple_bnd [OF commit_changes_lawful])
      (assumption | (intro evo_intros; fail) | (rule lawful_moves, intro evo_intros; fail))+
qed

lemma pr_step_lawful: "triple (lawful x) (pr_step x st draft title body base) (\<lambda>_. lawful x) (lawful x)"
proof -
  have publish: "triple (noted x j (Some xid) d False) (pr_publish x st xid d draft title body branch base)
      (\<lambda>_. lawful x) (lawful x)" if "about_pr branch j" for j xid d draft branch base
  proof -
    have "triple (noted x j (Some xid) d False) (case found of
         Inr (Some url) \<Rightarrow> pr_existing x st xid url
       | Inr None \<Rightarrow> pr_open x st xid d draft title body branch base
       | Inl e \<Rightarrow> fail_with x xid (''could not query existing PRs: '' @ e) []) (\<lambda>_. lawful x) (lawful x)" for found
      by (intro triple_sum triple_option pr_open_lawful that noted_lawful [OF pr_existing_lawful])
        (rule noted_end, intro evo_intros)
    then show ?thesis
      unfolding pr_publish_def
      by (intro noted_bnd triple_if) (assumption | (intro evo_intros; fail) | (rule noted_end, intro evo_intros; fail))+
  qed
  show ?thesis
    unfolding pr_step_def Let_def
    by (rule lawful_bnd, intro evo_intros, rule lawful_then, intro evo_intros, rule lawful_bnd, intro evo_intros,
        rule lawful_bnd, intro evo_intros, rule triple_option, rule lawful_moves, intro evo_intros,
        rule lawful_or_else, intro evo_intros, rule judging, rule triple_if, rule noted_end, intro evo_intros,
        rule publish, simp add: about_pr_def)
qed

subsection \<open>Agents\<close>

lemma run_agent_lawful:
  "triple (cleared x (Some xid) about_agent) (run_agent x xid sid reattach prompt) (\<lambda>_. lawful x) (lawful x)"
  unfolding run_agent_def
  by (rule triple_andthen, rule triple_option, rule launch_at, simp add: about_agent_def, simp, rule cleared_end,
      intro evo_intros, rule lawful_moves, intro evo_intros)

lemma agent_finish_lawful:
  "triple (lawful x) (agent_finish x st xid w outp commit policy_check h j) (\<lambda>_. lawful x) (lawful x)"
proof -
  obtain out1 gf where j: "j = (out1, gf)" by (cases j)
  have last: "triple (lawful x) (case res of Stop out2 \<Rightarrow> ret out2 | Retry reason feedback \<Rightarrow> fail_with x xid reason feedback
      | Locked \<Rightarrow> done_with x xid out1) (\<lambda>_. lawful x) (lawful x)" for res
    by (cases res) (simp_all add: lawful_moves quiet_steps.ending_moves quiet_steps.order.moves_ret)
  show ?thesis unfolding agent_finish_def j Let_def prod.case
    by (rule lawful_bnd, intro evo_intros, rule lawful_or_else, intro evo_intros, rule lawful_or_else,
        intro evo_intros, rule lawful_option_then,
        rule triple_if, rule commit_changes_lawful, rule lawful_moves, intro evo_intros, rule triple_bnd,
        rule triple_if, rule lawful_bnd, intro evo_intros, rule lock_contract_lawful, rule lawful_moves,
        intro evo_intros, rule last)
qed

lemma agent_work_lawful:
  "triple (cleared x (Some xid) about_agent)
     (agent_work x st xid w name profile resumed prompt outp gate commit policy_check) (\<lambda>_. lawful x) (lawful x)"
proof -
  have result: "triple (lawful x) (case result of
         Inl why \<Rightarrow> andthen (finish_exec x xid SFailed (Some why)) (ret (OutFailed (''agent '' @ name @ '' error: '' @ why) []))
       | Inr res \<Rightarrow>
           andthen (save_transcript x xid res)
          (andthen (record_usage x st xid res)
          (or_else (agent_end_gate x st xid res timeout)
          (or_else (budget_gate x st xid)
          (bnd (if outp = OSummary then agent_summary x st xid res head_before
                else agent_structured x st xid outp gate res head_before) (\<lambda>judged.
           case judged of
             Inl out1 \<Rightarrow> ret out1
           | Inr j \<Rightarrow> andthen (keep_output x xid res (fst j))
                 (agent_finish x st xid w outp commit policy_check head_before j)))))))
     (\<lambda>_. lawful x) (lawful x)" for result timeout head_before
    by (intro triple_sum lawful_then lawful_or_else lawful_bnd agent_finish_lawful evo_intros;
        (intro lawful_moves evo_intros; fail)?)
  show ?thesis
    unfolding agent_work_def Let_def
    by (intro cleared_bnd cleared_then evo_intros; (simp; fail)?)
      (intro triple_if, rule cleared_end, intro evo_intros, rule cleared_then, intro evo_intros,
       rule triple_bnd [OF run_agent_lawful], rule result)
qed

lemma agent_step_lawful:
  "triple (lawful x) (agent_step x st skill prompt outp gate commit policy_check) (\<lambda>_. lawful x) (lawful x)"
  unfolding agent_step_def
  by (rule lawful_bnd, intro evo_intros, rule lawful_bnd, intro evo_intros, rule triple_sum, rule lawful_moves,
      intro evo_intros, (rule lawful_bnd, intro evo_intros)+, rule gate_then [OF launch_gate_lawful],
      rule cleared_or_else, intro evo_intros,
      rule cleared_bnd, intro evo_intros, rule triple_if, rule cleared_end, intro evo_intros,
      rule cleared_bnd, intro evo_intros, rule triple_sum, rule cleared_end, intro evo_intros, rule agent_work_lawful)

lemma execute_step_lawful: "triple (lawful x) (execute_step x st) (\<lambda>_. lawful x) (lawful x)"
proof (cases "s_spec st")
  case (SpAgent a b c d e f g)
  then show ?thesis by (simp add: agent_step_lawful)
next
  case (SpCommand a b c d)
  then show ?thesis by (simp add: command_step_lawful)
next
  case (SpCheck a b c d e f)
  then show ?thesis by (simp add: command_step_lawful)
next
  case (SpGit a b)
  then show ?thesis by (simp add: git_step_lawful)
next
  case (SpGithubPr a b c d)
  then show ?thesis by (simp add: pr_step_lawful)
qed (simp_all, (intro lawful_moves evo_intros)+)

subsection \<open>The loop\<close>

lemma lawful_stop:
  assumes "triple (lawful x) m (\<lambda>_. lawful x) (lawful x)"
  shows "triple (lawful x) m (or_stop (lawful x) (\<lambda>_. lawful x)) (lawful x)"
  by (rule triple_post [OF assms]) (simp add: or_stop_def split: option.splits)

lemma create_worktree_lawful:
  assumes "sj_action j = Some AWorktreeCreate" and "sj_branch j = Some branch" and "pd_decision d \<noteq> Deny"
  shows "triple (noted x j None d False) (create_worktree x path branch) (\<lambda>_. lawful x) (lawful x)"
  unfolding create_worktree_def
  by (rule noted_bnd, intro evo_intros, rule noted_bnd, intro evo_intros, rule noted_then, intro evo_intros,
      rule triple_andthen [OF launch_noted], simp add: assms, simp, rule assms, simp, rule lawful_moves,
      intro evo_intros quiet_steps.set_run_moves steady_same_steps) (simp_all add: doc_defs)

lemma lawful_stopping:
  "moves (evo False quiet) m \<Longrightarrow> triple (lawful x) (bnd m (\<lambda>n. ret (Some n))) (\<lambda>_. lawful x) (lawful x)"
  by (rule triple_bnd, rule lawful_loop) (simp_all add: triple_def reads)

lemma prepare_lawful: "triple (lawful x) (prepare x) (\<lambda>_. lawful x) (lawful x)"
proof -
  have stopping: "triple (noted x j who d False) (bnd (stop x RBlocked why) (\<lambda>n. ret (Some n))) (\<lambda>_. lawful x) (lawful x)"
    for j who d why by (rule noted_lawful, rule lawful_stopping, intro evo_intros) simp
  show ?thesis
    unfolding prepare_def Let_def
    by (rule lawful_then, intro evo_intros, rule lawful_bnd, intro evo_intros, rule lawful_bnd, intro evo_intros,
        rule judging, rule triple_if, rule stopping, rule triple_if, rule noted_end, intro evo_intros,
        rule triple_andthen [OF create_worktree_lawful], simp, simp, simp, rule lawful_moves, intro evo_intros)
qed

lemma begin_run_lawful: "triple (lawful x) (begin_run x) (\<lambda>_. lawful x) (lawful x)"
proof -
  have prep: "triple (lawful x) (case stopped of Some n \<Rightarrow> ret (Some n) | None \<Rightarrow> andthen (set_status x RRunning None) (ret None))
      (\<lambda>_. lawful x) (lawful x)" for stopped
    by (rule triple_option, rule lawful_moves, intro evo_intros quiet_steps.set_status_moves, simp_all,
        rule lawful_moves, intro evo_intros)
  have enter: "triple (lawful x) (enter_running x) (\<lambda>_. lawful x) (lawful x)"
    unfolding enter_running_def
    by (rule lawful_bnd, intro evo_intros, rule triple_if, rule triple_bnd [OF prepare_lawful prep], rule lawful_moves,
        intro evo_intros quiet_steps.set_status_moves) simp_all
  have rest: "triple (lawful x) (check_worktree x) (\<lambda>_. lawful x) (lawful x)"
    unfolding check_worktree_def
    by (rule lawful_bnd, intro evo_intros, rule triple_option, rule lawful_moves, intro evo_intros, rule lawful_bnd,
        intro evo_intros, rule triple_if, rule lawful_stopping, intro evo_intros, simp, rule lawful_moves, intro evo_intros)
  have stopped: "triple (lawful x) (case stopped of Some n \<Rightarrow> ret (Some n) | None \<Rightarrow> check_worktree x) (\<lambda>_. lawful x) (lawful x)"
    for stopped by (rule triple_option, rule rest, rule lawful_moves, intro evo_intros)
  show ?thesis
    unfolding begin_run_def
    by (rule lawful_bnd, intro evo_intros, rule triple_if, rule lawful_moves, intro evo_intros, rule lawful_bnd,
        intro evo_intros, rule triple_if, rule lawful_stopping, intro evo_intros, rule lawful_then, intro evo_intros,
        rule triple_bnd [OF enter stopped])
qed

lemma one_turn_lawful: "triple (lawful x) (one_turn x) (\<lambda>_. lawful x) (lawful x)"
proof -
  have before: "triple (lawful x) (before_step x) (\<lambda>_. lawful x) (lawful x)"
    by (rule lawful_loop) (intro evo_intros)
  have after: "triple (lawful x) (after_step x st out1) (\<lambda>_. lawful x) (lawful x)" for st out1
    by (rule lawful_loop) (intro evo_intros)
  have stopped: "triple (lawful x) (case early of Some n \<Rightarrow> ret (Some n) | None \<Rightarrow>
         bnd the_run (\<lambda>r. bnd (gets d_wf) (\<lambda>w.
         let st = w_steps w ! r_cursor r in bnd (execute_step x st) (after_step x st)))) (\<lambda>_. lawful x) (lawful x)" for early
    unfolding Let_def
    by (rule triple_option, rule lawful_bnd, intro evo_intros, rule lawful_bnd, intro evo_intros,
        rule triple_bnd [OF execute_step_lawful after], rule lawful_moves, intro evo_intros)
  show ?thesis unfolding one_turn_def by (rule triple_bnd [OF before stopped])
qed


end
