(* ===== verification/Audit_Trail.thy ===== *)
theory Audit_Trail
  imports Store
begin

text \<open>
  The audit trail, \<open>src/audit/mod.rs\<close> and \<open>redact_value\<close> of \<open>src/audit/redact.rs\<close>: events in a file per
  run, one per line, each with the hash of its content and of the event before it. JSON text, SHA-256,
  the clock, fresh identifiers and the patterns of the redaction are parameters.
\<close>

subsection \<open>Events\<close>

record actor =
  at_kind :: string
  at_runner :: "string option"
  at_pane_id :: "string option"
  at_user :: "string option"

definition actor_orchestrator :: actor where
  "actor_orchestrator = \<lparr> at_kind = ''orchestrator'', at_runner = None, at_pane_id = None, at_user = None \<rparr>"

definition actor_human :: "string option \<Rightarrow> actor" where
  "actor_human u = \<lparr> at_kind = ''human'', at_runner = None, at_pane_id = None, at_user = u \<rparr>"

definition actor_agent :: "string \<Rightarrow> string option \<Rightarrow> actor" where
  "actor_agent r p = \<lparr> at_kind = ''agent'', at_runner = Some r, at_pane_id = p, at_user = None \<rparr>"

definition actor_policy :: actor where
  "actor_policy = \<lparr> at_kind = ''policy'', at_runner = None, at_pane_id = None, at_user = None \<rparr>"

record audit_event =
  v_event_id :: string
  v_seq :: nat
  v_timestamp :: timestamp
  v_run_id :: "string option"
  v_task_id :: "string option"
  v_step_id :: "string option"
  v_actor :: actor
  v_event :: string
  v_data :: json
  v_previous_hash :: string
  v_hash :: string
  v_signature :: "string option"

record event_draft =
  dr_run_id :: "string option"
  dr_task_id :: "string option"
  dr_step_id :: "string option"
  dr_actor :: actor
  dr_event :: string
  dr_data :: json

definition draft_new :: "string \<Rightarrow> actor \<Rightarrow> event_draft" where
  "draft_new ev a = \<lparr> dr_run_id = None, dr_task_id = None, dr_step_id = None, dr_actor = a,
     dr_event = ev, dr_data = JObj [] \<rparr>"

definition draft_run :: "string \<Rightarrow> string \<Rightarrow> event_draft \<Rightarrow> event_draft" where
  "draft_run r t d = d\<lparr> dr_run_id := Some r, dr_task_id := Some t \<rparr>"

definition draft_task :: "string \<Rightarrow> event_draft \<Rightarrow> event_draft" where
  "draft_task t d = d\<lparr> dr_task_id := Some t \<rparr>"

definition draft_step :: "string \<Rightarrow> event_draft \<Rightarrow> event_draft" where
  "draft_step s d = d\<lparr> dr_step_id := Some s \<rparr>"

definition draft_data :: "json \<Rightarrow> event_draft \<Rightarrow> event_draft" where
  "draft_data v d = d\<lparr> dr_data := v \<rparr>"

text \<open>\<open>serde_json\<close> on events: the value, with optional fields left out when they are \<open>None\<close>.\<close>

definition opt_field :: "string \<Rightarrow> string option \<Rightarrow> (string, json) btmap \<Rightarrow> (string, json) btmap" where
  "opt_field k v m = (case v of None \<Rightarrow> m | Some s \<Rightarrow> bt_insert k (JStr s) m)"

definition actor_json :: "actor \<Rightarrow> json" where
  "actor_json a = JObj (opt_field ''runner'' (at_runner a) (opt_field ''pane_id'' (at_pane_id a)
     (opt_field ''user'' (at_user a) [(''type'', JStr (at_kind a))])))"

text \<open>What the trail needs from outside: the text of a line, the canonical text of a value, the hash, the
  text of a time, the redaction patterns.\<close>

record trail_env =
  te_line :: "audit_event \<Rightarrow> string"
  te_parse :: "string \<Rightarrow> string + audit_event"
  te_canonical :: "json \<Rightarrow> string"
  te_sha256 :: "string \<Rightarrow> string"
  te_time :: "timestamp \<Rightarrow> string"
  te_redact :: "string \<Rightarrow> string"
  te_sensitive :: "string \<Rightarrow> bool"
  te_dir :: path

definition event_fields :: "trail_env \<Rightarrow> audit_event \<Rightarrow> (string, json) btmap" where
  "event_fields te e =
     opt_field ''run_id'' (v_run_id e) (opt_field ''task_id'' (v_task_id e) (opt_field ''step_id'' (v_step_id e)
       (opt_field ''signature'' (v_signature e)
       (bt_insert ''event_id'' (JStr (v_event_id e)) (bt_insert ''seq'' (JInt (int (v_seq e)))
       (bt_insert ''timestamp'' (JStr (te_time te (v_timestamp e))) (bt_insert ''actor'' (actor_json (v_actor e))
       (bt_insert ''event'' (JStr (v_event e)) (bt_insert ''data'' (v_data e)
       (bt_insert ''previous_hash'' (JStr (v_previous_hash e)) (bt_insert ''hash'' (JStr (v_hash e)) [])))))))))))"

definition hash_input :: "trail_env \<Rightarrow> audit_event \<Rightarrow> string" where
  "hash_input te e =
     te_canonical te (JObj (bt_retain (\<lambda>k _. k \<noteq> ''hash'') (event_fields te e))) @ v_previous_hash e"

definition compute_hash :: "trail_env \<Rightarrow> audit_event \<Rightarrow> string" where
  "compute_hash te e = te_sha256 te (hash_input te e)"

definition GENESIS :: string where
  "GENESIS = replicate 64 CHR ''0''"

subsection \<open>Redaction\<close>

definition REDACTED :: string where
  "REDACTED = ''[REDACTED]''"

fun redact_value :: "trail_env \<Rightarrow> json \<Rightarrow> json" where
  "redact_value te (JStr s) = JStr (te_redact te s)"
| "redact_value te (JArr vs) = JArr (map (redact_value te) vs)"
| "redact_value te (JObj kvs) = JObj (map (\<lambda>(k, v). (k,
     if te_sensitive te k \<and> (case v of JStr _ \<Rightarrow> True | _ \<Rightarrow> False) then JStr REDACTED else redact_value te v)) kvs)"
| "redact_value te v = v"

subsection \<open>Appending\<close>

definition path_for :: "trail_env \<Rightarrow> string option \<Rightarrow> path" where
  "path_for te run_id = te_dir te @ ''/'' @ (case run_id of Some r \<Rightarrow> r | None \<Rightarrow> ''global'') @ ''.jsonl''"

text \<open>The last line, found in a window at the end of the file that grows until it holds one. Bytes that
  are not UTF-8 do not occur in the files the engine writes.\<close>

definition after_last_nl :: "string \<Rightarrow> string" where
  "after_last_nl s = rev (takeWhile (\<lambda>c. c \<noteq> CHR 0x0A) (rev s))"

function last_line :: "nat \<Rightarrow> string \<Rightarrow> string" where
  "last_line window content =
     (let start = length content - window;
          trimmed = trim_end_matches CHR 0x0A (drop start content)
      in if CHR 0x0A \<in> set trimmed then after_last_nl trimmed
         else if start = 0 \<or> window = 0 then trimmed
         else last_line (4 * window) content)"
  by pat_completeness auto

termination
  by (relation "measure (\<lambda>(w, s). length s - w)") (simp, simp, arith)

declare last_line.simps [simp del]

text \<open>The hash an event is to be linked to, and the sequence number before its own.\<close>

definition last_link :: "trail_env \<Rightarrow> path \<Rightarrow> string option \<Rightarrow> string + string \<times> nat option" where
  "last_link te p found =
     (case found of
        None \<Rightarrow> Inr (GENESIS, None)
      | Some content \<Rightarrow>
          if content = [] then Inr (GENESIS, None)
          else sum_bind (with_context (''audit log '' @ p @ '' has a corrupt last line'')
                 (te_parse te (last_line (64 * 1024) content))) (\<lambda>ev.
            Inr (if v_hash ev = [] then GENESIS else v_hash ev, Some (v_seq ev))))"

definition append_event ::
  "trail_env \<Rightarrow> bool \<Rightarrow> string \<Rightarrow> timestamp \<Rightarrow> event_draft \<Rightarrow> (files, audit_event) eff" where
  "append_event te hash_chain fresh t d =
     (let p = path_for te (dr_run_id d) in
      bnd (gets (\<lambda>fs. bt_get fs p)) (\<lambda>found.
      bnd (lift_result (last_link te p found)) (\<lambda>(prev_hash, prev_seq).
      let ev = \<lparr> v_event_id = fresh, v_seq = (case prev_seq of Some s \<Rightarrow> u64_add s 1 | None \<Rightarrow> 0),
                 v_timestamp = t, v_run_id = dr_run_id d, v_task_id = dr_task_id d, v_step_id = dr_step_id d,
                 v_actor = dr_actor d, v_event = dr_event d, v_data = redact_value te (dr_data d),
                 v_previous_hash = (if hash_chain then prev_hash else []), v_hash = [], v_signature = None \<rparr>;
          sealed = (if hash_chain then ev\<lparr> v_hash := compute_hash te ev \<rparr> else ev) in
      andthen (modify (bt_insert p ((case found of Some content \<Rightarrow> content | None \<Rightarrow> []) @ te_line te sealed @ nl)))
        (ret sealed))))"

text \<open>\<open>EngineCtx::audit\<close>: an event that cannot be appended is only logged.\<close>

definition engine_audit ::
  "trail_env \<Rightarrow> bool \<Rightarrow> string \<Rightarrow> timestamp \<Rightarrow> event_draft \<Rightarrow> (files, unit) eff" where
  "engine_audit te hash_chain fresh t d = bnd (attempt (append_event te hash_chain fresh t d)) (\<lambda>_. ret ())"

subsection \<open>Reading and verifying\<close>

definition blank :: "string \<Rightarrow> bool" where
  "blank l \<longleftrightarrow> trim l = []"

fun parse_events :: "trail_env \<Rightarrow> path \<Rightarrow> nat \<Rightarrow> string list \<Rightarrow> string + audit_event list" where
  "parse_events te p i [] = Inr []"
| "parse_events te p i (l # ls) =
     (if blank l then parse_events te p (i + 1) ls
      else sum_bind (with_context (p @ '':'' @ nat_str i @ '': invalid audit event'') (te_parse te l)) (\<lambda>e.
           sum_bind (parse_events te p (i + 1) ls) (\<lambda>es. Inr (e # es))))"

definition read_events :: "trail_env \<Rightarrow> path \<Rightarrow> (files, audit_event list) eff" where
  "read_events te p =
     bnd (gets (\<lambda>fs. bt_get fs p)) (\<lambda>found.
     case found of None \<Rightarrow> ret [] | Some content \<Rightarrow> lift_result (parse_events te p 1 (lines content)))"

record verify_state =
  vs_prev :: string
  vs_expected_seq :: nat
  vs_events :: nat
  vs_chained :: bool
  vs_problems :: "string list"

definition verify_start :: verify_state where
  "verify_start = \<lparr> vs_prev = GENESIS, vs_expected_seq = 0, vs_events = 0, vs_chained = True, vs_problems = [] \<rparr>"

definition event_problems :: "trail_env \<Rightarrow> nat \<Rightarrow> verify_state \<Rightarrow> audit_event \<Rightarrow> string list" where
  "event_problems te i s ev =
     (if v_seq ev \<noteq> vs_expected_seq s
      then [''line '' @ nat_str i @ '': sequence gap (expected '' @ nat_str (vs_expected_seq s) @ '', found ''
            @ nat_str (v_seq ev) @ '')''] else [])
     @ (if v_previous_hash ev \<noteq> vs_prev s
        then [''line '' @ nat_str i @ '': previous_hash does not link to the prior event (event '' @ v_event_id ev @ '')'']
        else [])
     @ (if compute_hash te ev = v_hash ev then []
        else [''line '' @ nat_str i @ '': hash mismatch '' @ [CHR 0xE2, CHR 0x80, CHR 0x94] @ '' event ''
            @ v_event_id ev @ '' was modified''])"

definition verify_event :: "trail_env \<Rightarrow> nat \<Rightarrow> audit_event \<Rightarrow> verify_state \<Rightarrow> verify_state" where
  "verify_event te i ev s =
     (if v_hash ev = [] then s\<lparr> vs_chained := False \<rparr>
      else s\<lparr> vs_problems := vs_problems s @ event_problems te i s ev, vs_prev := v_hash ev,
              vs_expected_seq := u64_add (v_seq ev) 1 \<rparr>)"

fun verify_lines :: "trail_env \<Rightarrow> nat \<Rightarrow> string list \<Rightarrow> verify_state \<Rightarrow> verify_state" where
  "verify_lines te i [] s = s"
| "verify_lines te i (l # ls) s =
     (if blank l then verify_lines te (i + 1) ls s
      else
        let s1 = s\<lparr> vs_events := vs_events s + 1 \<rparr> in
        verify_lines te (i + 1) ls
          (case te_parse te l of
             Inl e \<Rightarrow> s1\<lparr> vs_problems := vs_problems s @ [''line '' @ nat_str i @ '': unparseable event: '' @ e] \<rparr>
           | Inr ev \<Rightarrow> verify_event te i ev s1))"

record verify_report =
  vr_path :: path
  vr_events :: nat
  vr_ok :: bool
  vr_chained :: bool
  vr_problems :: "string list"

definition verify_file :: "trail_env \<Rightarrow> path \<Rightarrow> (files, verify_report) eff" where
  "verify_file te p =
     bnd (gets (\<lambda>fs. bt_get fs p)) (\<lambda>found.
     case found of
       None \<Rightarrow> bail (''opening '' @ p)
     | Some content \<Rightarrow>
         (let s = verify_lines te 1 (lines content) verify_start in
          ret \<lparr> vr_path = p, vr_events = vs_events s, vr_ok = (vs_problems s = []), vr_chained = vs_chained s,
                vr_problems = vs_problems s \<rparr>))"

end
