(* ===== verification/Audit_Facts.thy ===== *)
theory Audit_Facts
  imports Audit_Trail Store_Facts
begin

text \<open>
  Facts on the audit trail: a verified trail is exactly a linked list of events (\<open>linked\<close>), appending
  keeps it one, and the hash of its last event commits to all of it.
\<close>

subsection \<open>What is relied on outside\<close>

definition one_line :: "string \<Rightarrow> bool" where
  "one_line l \<longleftrightarrow> CHR 0x0A \<notin> set l \<and> \<not> blank l \<and> last l \<noteq> CHR 0x0D"

definition trail_ok :: "trail_env \<Rightarrow> bool" where
  "trail_ok te \<longleftrightarrow> (\<forall>e. te_parse te (te_line te e) = Inr e \<and> one_line (te_line te e)) \<and>
     (\<forall>s. length (te_sha256 te s) = 64)"

text \<open>Distinct values have distinct texts, up to the order of the fields of an object.\<close>

definition texts_distinct :: "trail_env \<Rightarrow> bool" where
  "texts_distinct te \<longleftrightarrow> inj (te_canonical te) \<and> inj (te_time te)"

subsection \<open>Lines\<close>

lemma split_on_line: "CHR 0x0A \<notin> set l \<Longrightarrow> split_on (\<lambda>c. c = CHR 0x0A) (l @ nl @ s) = l # split_on (\<lambda>c. c = CHR 0x0A) s"
  by (induction l) (auto simp: nl_def)

lemma split_on_nonempty: "split_on f s \<noteq> []"
  by (induction s) (auto split: list.splits)

abbreviation file_of :: "string list \<Rightarrow> string" where
  "file_of ls \<equiv> concat (map (\<lambda>l. l @ nl) ls)"

lemma split_on_file: "\<forall>l \<in> set ls. one_line l \<Longrightarrow> split_on (\<lambda>c. c = CHR 0x0A) (file_of ls) = ls @ [[]]"
  by (induction ls) (auto simp: one_line_def split_on_line)

lemma lines_file: "\<forall>l \<in> set ls. one_line l \<Longrightarrow> lines (file_of ls) = ls"
  by (auto simp: lines_def Let_def split_on_file strip_cr_def one_line_def intro: map_idI)

lemma trim_end_keep: "list_ex (\<lambda>x. x \<noteq> c) d \<Longrightarrow> trim_end_matches c (a @ d) = a @ trim_end_matches c d"
  by (auto simp: trim_end_matches_def dropWhile_append list_ex_iff dest: set_dropWhileD)

lemma after_last_nl_keep: "CHR 0x0A \<in> set x \<Longrightarrow> after_last_nl (a @ x) = after_last_nl x"
  by (auto simp: after_last_nl_def takeWhile_append)

lemma after_last_nl_none:
  assumes "CHR 0x0A \<notin> set x"
  shows "after_last_nl x = x"
proof -
  have "takeWhile (\<lambda>c. c \<noteq> CHR 0x0A) (rev x) = rev x"
    using assms by (subst takeWhile_eq_all_conv) auto
  then show ?thesis unfolding after_last_nl_def by (simp only: rev_rev_ident)
qed

text \<open>The window does not matter.\<close>

lemma last_line_window:
  "0 < w \<Longrightarrow> last_line w s = after_last_nl (trim_end_matches CHR 0x0A s)"
proof (induction w s rule: last_line.induct)
  case (1 w s)
  let ?start = "length s - w"
  let ?t = "trim_end_matches CHR 0x0A (drop ?start s)"
  have s: "s = take ?start s @ drop ?start s" by simp
  show ?case
  proof (cases "CHR 0x0A \<in> set ?t")
    case True
    then have "?t \<noteq> []" by auto
    then have "list_ex (\<lambda>x. x \<noteq> CHR 0x0A) (drop ?start s)"
      by (auto simp: trim_end_matches_def list_ex_iff dropWhile_eq_Nil_conv)
    then have "trim_end_matches CHR 0x0A s = take ?start s @ ?t"
      using trim_end_keep [of "CHR 0x0A" "drop ?start s" "take ?start s"] by simp
    then show ?thesis using True by (simp add: last_line.simps [of w s] after_last_nl_keep Let_def)
  next
    case False
    show ?thesis
    proof (cases "?start = 0")
      case True
      then show ?thesis using False by (simp add: last_line.simps [of w s] after_last_nl_none Let_def)
    next
      case start: False
      then have "last_line w s = last_line (4 * w) s"
        using False 1(2) by (simp add: last_line.simps [of w s] Let_def)
      then show ?thesis using 1(1) [OF refl refl False] start 1(2) by simp
    qed
  qed
qed

lemma last_line_file:
  assumes "one_line l"
  shows "last_line (64 * 1024) (file_of ls @ l @ nl) = l"
proof -
  have l: "l \<noteq> []" "CHR 0x0A \<notin> set l" using assms by (auto simp: one_line_def blank_def trim_def)
  have "trim_end_matches CHR 0x0A (l @ nl) = l"
    using l by (auto simp: trim_end_matches_def nl_def) (metis dropWhile_eq_self_iff hd_rev last_in_set rev_rev_ident)
  then have "trim_end_matches CHR 0x0A (file_of ls @ l @ nl) = file_of ls @ l"
    using l trim_end_keep [of "CHR 0x0A" "l @ nl" "file_of ls"] by (cases l) auto
  moreover have "after_last_nl (file_of ls @ l) = l"
  proof (cases ls rule: rev_cases)
    case Nil
    then show ?thesis using l by (simp add: after_last_nl_none)
  next
    case (snoc ks k)
    have "after_last_nl (nl @ l) = l"
      using l(2) by (auto simp: after_last_nl_def nl_def takeWhile_append)
    then show ?thesis
      using snoc after_last_nl_keep [of "nl @ l" "file_of ks @ k"] by (simp add: nl_def)
  qed
  ultimately show ?thesis by (simp add: last_line_window)
qed

subsection \<open>Linked events\<close>

fun linked :: "trail_env \<Rightarrow> string \<Rightarrow> nat \<Rightarrow> audit_event list \<Rightarrow> bool" where
  "linked te prev n [] = True"
| "linked te prev n (e # es) =
     (v_hash e \<noteq> [] \<and> v_seq e = n \<and> v_previous_hash e = prev \<and> compute_hash te e = v_hash e \<and>
      linked te (v_hash e) (u64_add n 1) es)"

lemma linked_snoc:
  "linked te prev n (es @ [e]) \<longleftrightarrow> linked te prev n es \<and> v_hash e \<noteq> [] \<and> compute_hash te e = v_hash e \<and>
     v_previous_hash e = (if es = [] then prev else v_hash (last es)) \<and>
     v_seq e = (if es = [] then n else u64_add (v_seq (last es)) 1)"
  by (induction es arbitrary: prev n) auto

lemma linked_seq: "linked te prev 0 es \<Longrightarrow> length es \<le> 2 ^ 64 \<Longrightarrow> i < length es \<Longrightarrow> v_seq (es ! i) = i"
proof (induction es arbitrary: i rule: rev_induct)
  case (snoc e es)
  show ?case
  proof (cases "i < length es")
    case False
    then have i: "i = length es" using snoc.prems by simp
    show ?thesis
    proof (cases "es = []")
      case ne: False
      then have "v_seq (last es) = length es - 1"
        using snoc by (simp add: linked_snoc last_conv_nth)
      moreover have "length es - 1 + 1 < 2 ^ 64" using ne snoc.prems(2) by (cases es) auto
      ultimately show ?thesis using snoc.prems(1) i ne by (simp add: linked_snoc u64_add_def)
    qed (use snoc.prems(1) i in \<open>simp add: linked_snoc\<close>)
  qed (use snoc in \<open>simp add: linked_snoc nth_append\<close>)
qed simp

definition sound :: "verify_state \<Rightarrow> bool" where
  "sound s \<longleftrightarrow> vs_problems s = [] \<and> vs_chained s"

lemma verify_lines_unsound: "\<not> sound s \<Longrightarrow> \<not> sound (verify_lines te i ls s)"
proof (induction te i ls s rule: verify_lines.induct)
  case (2 te i l ls s)
  show ?case
  proof (cases "blank l")
    case False
    show ?thesis
      using 2(2) [OF False refl] 2(3) False
      by (cases "te_parse te l") (auto simp: sound_def verify_event_def Let_def)
  qed (use 2 in simp)
qed simp

lemma verify_event_sound:
  assumes "sound s"
  shows "sound (verify_event te i e s) \<longleftrightarrow>
    v_hash e \<noteq> [] \<and> v_seq e = vs_expected_seq s \<and> v_previous_hash e = vs_prev s \<and> compute_hash te e = v_hash e"
    and "sound (verify_event te i e s) \<Longrightarrow> vs_prev (verify_event te i e s) = v_hash e \<and>
      vs_expected_seq (verify_event te i e s) = u64_add (v_seq e) 1"
  using assms by (auto simp: sound_def verify_event_def event_problems_def)

lemma verify_lines_sound:
  assumes "sound s"
  shows "sound (verify_lines te i ls s) \<longleftrightarrow>
    (\<exists>es. parse_events te p i ls = Inr es \<and> linked te (vs_prev s) (vs_expected_seq s) es)"
  using assms
proof (induction te i ls s rule: verify_lines.induct)
  case (2 te i l ls s)
  show ?case
  proof (cases "blank l")
    case False
    let ?s1 = "s\<lparr> vs_events := vs_events s + 1 \<rparr>"
    have s1: "sound ?s1" "vs_prev ?s1 = vs_prev s" "vs_expected_seq ?s1 = vs_expected_seq s"
      using 2(3) by (simp_all add: sound_def)
    show ?thesis
    proof (cases "te_parse te l")
      case (Inl e)
      have "\<not> sound (?s1\<lparr> vs_problems := vs_problems s @ [''line '' @ nat_str i @ '': unparseable event: '' @ e] \<rparr>)"
        by (simp add: sound_def)
      from verify_lines_unsound [OF this, of te "i + 1" ls] show ?thesis
        using False Inl by (simp add: Let_def with_context_def)
    next
      case (Inr e)
      let ?s2 = "verify_event te i e ?s1"
      show ?thesis
      proof (cases "sound ?s2")
        case True
        have "sound (verify_lines te (i + 1) ls ?s2) \<longleftrightarrow>
            (\<exists>es. parse_events te p (i + 1) ls = Inr es \<and> linked te (v_hash e) (u64_add (v_seq e) 1) es)"
          using 2(2) [OF False refl] True Inr verify_event_sound(2) [OF s1(1) True] by simp
        then show ?thesis
          using False Inr True verify_event_sound(1) [OF s1(1), of te i e] s1
          by (auto simp: Let_def with_context_def sum_bind_Inr)
      next
        case unsound: False
        then show ?thesis
          using False Inr verify_lines_unsound [OF unsound, of te "i + 1" ls]
            verify_event_sound(1) [OF s1(1), of te i e] s1
          by (auto simp: Let_def with_context_def sum_bind_Inr)
      qed
    qed
  qed (use 2 in simp)
qed simp

subsection \<open>What is hashed\<close>

lemma bt_insert_first: "\<forall>j \<in> set (map fst m). k < j \<Longrightarrow> bt_insert k v m = (k, v) # m"
  by (cases m) auto

lemma bt_retain_insert:
  assumes "bt_ok m"
  shows "bt_retain (\<lambda>k _. P k) (bt_insert k v m) =
    (if P k then bt_insert k v (bt_retain (\<lambda>k _. P k) m) else bt_retain (\<lambda>k _. P k) m)"
  using assms
proof (induction m)
  case (Cons a m)
  obtain j w where a: "a = (j, w)" by (cases a)
  have "bt_ok m" "\<forall>i \<in> set (map fst m). j < i" using Cons.prems a by (auto simp: bt_ok_def)
  moreover have "bt_insert k v (bt_retain (\<lambda>k _. P k) m) = (k, v) # bt_retain (\<lambda>k _. P k) m"
    if "k < j" using that calculation(2) by (intro bt_insert_first) (auto simp: bt_retain_def)
  ultimately show ?case using Cons.IH a by (auto simp: bt_retain_def)
qed (simp add: bt_retain_def)

lemma opt_field_ok [simp]: "bt_ok m \<Longrightarrow> bt_ok (opt_field k v m)"
  by (auto simp: opt_field_def bt_ok_insert split: option.splits)

lemma bt_ok_Nil [simp]: "bt_ok []"
  by (simp add: bt_ok_def)

lemma bt_retain_opt_field:
  "bt_ok m \<Longrightarrow> P k \<Longrightarrow> bt_retain (\<lambda>k _. P k) (opt_field k v m) = opt_field k v (bt_retain (\<lambda>k _. P k) m)"
  by (auto simp: opt_field_def bt_retain_insert split: option.splits)

lemma hash_input_unhashed: "hash_input te (e\<lparr> v_hash := h \<rparr>) = hash_input te e"
  by (simp add: hash_input_def event_fields_def bt_retain_insert bt_retain_opt_field bt_ok_insert del: bt_insert.simps)

lemma bt_get_opt_field:
  "bt_get (opt_field k v m) j = (if j = k then (case v of Some s \<Rightarrow> Some (JStr s) | None \<Rightarrow> bt_get m j) else bt_get m j)"
  by (auto simp: opt_field_def bt_get_insert split: option.splits)

lemma opt_field_inj: "bt_get m k = None \<Longrightarrow> bt_get m' k = None \<Longrightarrow>
  bt_get (opt_field k v m) k = bt_get (opt_field k w m') k \<longleftrightarrow> v = w"
  by (cases v; cases w) (auto simp: bt_get_opt_field)

lemma actor_json_inj: "actor_json a = actor_json b \<longleftrightarrow> a = b"
proof
  assume eq: "actor_json a = actor_json b"
  let ?f = "\<lambda>a. opt_field ''runner'' (at_runner a) (opt_field ''pane_id'' (at_pane_id a)
     (opt_field ''user'' (at_user a) [(''type'', JStr (at_kind a))]))"
  have f: "bt_get (?f a) k = bt_get (?f b) k" for k using eq by (simp add: actor_json_def)
  have g: "bt_get [(''type'', JStr s)] k = (if k = ''type'' then Some (JStr s) else None)" for s k
    by (simp add: bt_get_def)
  show "a = b"
    using f [of "''runner''"] f [of "''pane_id''"] f [of "''user''"] f [of "''type''"]
    by (intro actor.equality) (auto simp: bt_get_opt_field g split: option.splits)
qed simp

lemma event_fields_inj:
  assumes "inj (te_time te)" and "\<And>k. k \<noteq> ''hash'' \<Longrightarrow> bt_get (event_fields te e) k = bt_get (event_fields te f) k"
    and "v_hash e = v_hash f"
  shows "e = f"
proof (intro audit_event.equality)
  note g = event_fields_def bt_get_opt_field bt_get_insert
  have n: "bt_get [] k = None" for k :: string by (simp add: bt_get_def)
  show "v_event_id e = v_event_id f" using assms(2) [of "''event_id''"] by (simp add: g del: bt_insert.simps)
  show "v_seq e = v_seq f" using assms(2) [of "''seq''"] by (simp add: g del: bt_insert.simps)
  show "v_timestamp e = v_timestamp f" using assms(2) [of "''timestamp''"] assms(1) by (simp add: g inj_eq del: bt_insert.simps)
  show "v_run_id e = v_run_id f" using assms(2) [of "''run_id''"] by (auto simp: g n simp del: bt_insert.simps split: option.splits)
  show "v_task_id e = v_task_id f" using assms(2) [of "''task_id''"] by (auto simp: g n simp del: bt_insert.simps split: option.splits)
  show "v_step_id e = v_step_id f" using assms(2) [of "''step_id''"] by (auto simp: g n simp del: bt_insert.simps split: option.splits)
  show "v_actor e = v_actor f" using assms(2) [of "''actor''"] by (simp add: g actor_json_inj del: bt_insert.simps)
  show "v_event e = v_event f" using assms(2) [of "''event''"] by (simp add: g del: bt_insert.simps)
  show "v_data e = v_data f" using assms(2) [of "''data''"] by (simp add: g del: bt_insert.simps)
  show "v_previous_hash e = v_previous_hash f" using assms(2) [of "''previous_hash''"] by (simp add: g del: bt_insert.simps)
  show "v_signature e = v_signature f" using assms(2) [of "''signature''"] by (auto simp: g n simp del: bt_insert.simps split: option.splits)
qed (use assms(3) in simp_all)

lemma hash_input_inj:
  assumes "texts_distinct te" and "hash_input te e = hash_input te f" and "v_hash e = v_hash f"
    and "length (v_previous_hash e) = length (v_previous_hash f)"
  shows "e = f"
proof (rule event_fields_inj)
  show "inj (te_time te)" using assms(1) by (simp add: texts_distinct_def)
  have "bt_retain (\<lambda>k _. k \<noteq> ''hash'') (event_fields te e) = bt_retain (\<lambda>k _. k \<noteq> ''hash'') (event_fields te f)"
    using assms by (auto simp: hash_input_def texts_distinct_def inj_eq)
  then have "bt_get (bt_retain (\<lambda>k _. k \<noteq> ''hash'') (event_fields te e)) k
      = bt_get (bt_retain (\<lambda>k _. k \<noteq> ''hash'') (event_fields te f)) k" for k by simp
  then show "bt_get (event_fields te e) k = bt_get (event_fields te f) k" if "k \<noteq> ''hash''" for k
    using that by (metis bt_get_retain)
qed (rule assms(3))

subsection \<open>Appending\<close>

definition holds :: "trail_env \<Rightarrow> path \<Rightarrow> audit_event list \<Rightarrow> files \<Rightarrow> bool" where
  "holds te p es fs \<longleftrightarrow> linked te GENESIS 0 es \<and>
     bt_get fs p = (if es = [] then None else Some (file_of (map (te_line te) es)))"

lemma parse_events_lines: "trail_ok te \<Longrightarrow> parse_events te p i (map (te_line te) es) = Inr es"
  by (induction es arbitrary: i) (auto simp: trail_ok_def one_line_def with_context_def)

lemma verify_lines_count:
  "trail_ok te \<Longrightarrow> vs_events (verify_lines te i (map (te_line te) es) s) = vs_events s + length es"
  by (induction es arbitrary: i s) (auto simp: trail_ok_def one_line_def Let_def verify_event_def)

lemma holds_reads:
  assumes "trail_ok te" and "holds te p es fs" and "es \<noteq> []"
  shows "read_events te p fs = (Inr es, fs)"
    and "verify_file te p fs = (Inr \<lparr> vr_path = p, vr_events = length es, vr_ok = True, vr_chained = True,
      vr_problems = [] \<rparr>, fs)"
proof -
  have "\<forall>l \<in> set (map (te_line te) es). one_line l" using assms(1) by (auto simp: trail_ok_def)
  then have ls: "lines (file_of (map (te_line te) es)) = map (te_line te) es" by (rule lines_file)
  have f: "bt_get fs p = Some (file_of (map (te_line te) es))" using assms(2,3) by (simp add: holds_def)
  show "read_events te p fs = (Inr es, fs)"
    using f ls parse_events_lines [OF assms(1)]
    by (simp add: read_events_def eff_defs)
  have "sound verify_start" by (simp add: sound_def verify_start_def)
  from verify_lines_sound [OF this, of te 1 "map (te_line te) es" p]
  have "sound (verify_lines te 1 (map (te_line te) es) verify_start)"
    using parse_events_lines [OF assms(1)] assms(2) by (simp add: verify_start_def holds_def)
  then show "verify_file te p fs = (Inr \<lparr> vr_path = p, vr_events = length es, vr_ok = True, vr_chained = True,
      vr_problems = [] \<rparr>, fs)"
    using f ls verify_lines_count [OF assms(1), of 1 es verify_start]
    by (simp add: verify_file_def eff_defs Let_def sound_def verify_start_def)
qed

text \<open>What an event keeps of its draft.\<close>

definition records :: "trail_env \<Rightarrow> string \<times> timestamp \<times> event_draft \<Rightarrow> audit_event \<Rightarrow> bool" where
  "records te d e = (case d of (fresh, t, d) \<Rightarrow>
     v_event_id e = fresh \<and> v_timestamp e = t \<and> v_run_id e = dr_run_id d \<and> v_task_id e = dr_task_id d \<and>
     v_step_id e = dr_step_id d \<and> v_actor e = dr_actor d \<and> v_event e = dr_event d \<and>
     v_data e = redact_value te (dr_data d))"

lemma last_link_holds:
  assumes "trail_ok te" and "holds te p es fs"
  shows "last_link te p (bt_get fs p) =
    Inr (if es = [] then (GENESIS, None) else (v_hash (last es), Some (v_seq (last es))))"
proof (cases es rule: rev_cases)
  case Nil
  then show ?thesis using assms(2) by (simp add: holds_def last_link_def)
next
  case (snoc ks e)
  have "one_line (te_line te e)" "te_parse te (te_line te e) = Inr e"
    using assms(1) by (auto simp: trail_ok_def)
  moreover have "v_hash e \<noteq> []" using assms(2) snoc by (auto simp: holds_def linked_snoc)
  moreover have "bt_get fs p = Some (file_of (map (te_line te) ks) @ te_line te e @ nl)"
    using assms(2) snoc by (simp add: holds_def)
  ultimately show ?thesis
    using snoc last_line_file [of "te_line te e" "map (te_line te) ks"]
    by (simp add: last_link_def with_context_def nl_def)
qed

lemma append_holds:
  assumes "trail_ok te" and "holds te (path_for te (dr_run_id d)) es fs"
  shows "\<exists>e fs'. append_event te True fresh t d fs = (Inr e, fs') \<and> holds te (path_for te (dr_run_id d)) (es @ [e]) fs' \<and>
    records te (fresh, t, d) e"
proof -
  let ?p = "path_for te (dr_run_id d)"
  let ?prev = "if es = [] then GENESIS else v_hash (last es)"
  let ?ev = "\<lparr> v_event_id = fresh, v_seq = (if es = [] then 0 else u64_add (v_seq (last es)) 1),
     v_timestamp = t, v_run_id = dr_run_id d, v_task_id = dr_task_id d, v_step_id = dr_step_id d,
     v_actor = dr_actor d, v_event = dr_event d, v_data = redact_value te (dr_data d),
     v_previous_hash = ?prev, v_hash = [], v_signature = None \<rparr>"
  let ?e = "?ev\<lparr> v_hash := compute_hash te ?ev \<rparr>"
  let ?fs = "bt_insert ?p ((case bt_get fs ?p of Some c \<Rightarrow> c | None \<Rightarrow> []) @ te_line te ?e @ nl) fs"
  have link: "last_link te ?p (bt_get fs ?p) =
    Inr (if es = [] then (GENESIS, None) else (v_hash (last es), Some (v_seq (last es))))"
    by (rule last_link_holds [OF assms])
  have run: "append_event te True fresh t d fs = (Inr ?e, ?fs)"
    using link by (cases "es = []") (simp_all add: append_event_def Let_def eff_defs)
  have "hash_input te ?e = hash_input te ?ev" by (rule hash_input_unhashed)
  then have "compute_hash te ?e = v_hash ?e" by (simp add: compute_hash_def)
  moreover have "v_hash ?e \<noteq> []"
  proof -
    have "length (v_hash ?e) = 64" using assms(1) by (simp add: trail_ok_def compute_hash_def)
    then show ?thesis by auto
  qed
  ultimately have "linked te GENESIS 0 (es @ [?e])"
    using assms(2) by (auto simp: linked_snoc holds_def)
  then have "holds te ?p (es @ [?e]) ?fs"
    using assms(2) by (auto simp: holds_def bt_get_insert)
  then show ?thesis using run by (auto simp: records_def)
qed

fun append_all :: "trail_env \<Rightarrow> (string \<times> timestamp \<times> event_draft) list \<Rightarrow> (files, unit) eff" where
  "append_all te [] = ret ()"
| "append_all te ((fresh, t, d) # ds) = bnd (append_event te True fresh t d) (\<lambda>_. append_all te ds)"

lemma append_all_holds:
  assumes "trail_ok te" and "holds te (path_for te rid) es fs" and "\<forall>(_, _, d) \<in> set ds. dr_run_id d = rid"
  shows "\<exists>es' fs'. append_all te ds fs = (Inr (), fs') \<and> holds te (path_for te rid) (es @ es') fs' \<and>
    list_all2 (records te) ds es'"
  using assms(2,3)
proof (induction ds arbitrary: es fs)
  case Nil
  then show ?case by (auto simp: ret_def intro: exI [of _ "[]"])
next
  case (Cons a ds)
  obtain fresh t d where a: "a = (fresh, t, d)" by (cases a)
  have d: "dr_run_id d = rid" using Cons.prems(2) a by auto
  obtain e fs1 where e: "append_event te True fresh t d fs = (Inr e, fs1)"
    "holds te (path_for te rid) (es @ [e]) fs1" "records te (fresh, t, d) e"
    using append_holds [OF assms(1), of d es fs fresh t] Cons.prems(1) d by auto
  obtain es' fs' where "append_all te ds fs1 = (Inr (), fs')"
    "holds te (path_for te rid) ((es @ [e]) @ es') fs'" "list_all2 (records te) ds es'"
    using Cons.IH [OF e(2)] Cons.prems(2) by auto
  then show ?case using a e by (intro exI [of _ "e # es'"] exI [of _ fs']) (simp add: bnd_def)
qed


subsection \<open>The last hash commits to the trail\<close>

definition collide :: "trail_env \<Rightarrow> audit_event \<Rightarrow> audit_event \<Rightarrow> bool" where
  "collide te a b \<longleftrightarrow> hash_input te a \<noteq> hash_input te b \<and> te_sha256 te (hash_input te a) = te_sha256 te (hash_input te b)"

lemma linked_same_head:
  assumes "trail_ok te" and "texts_distinct te"
  shows "linked te GENESIS 0 xs \<Longrightarrow> linked te GENESIS 0 ys \<Longrightarrow> length xs \<le> 2 ^ 64 \<Longrightarrow> length ys \<le> 2 ^ 64 \<Longrightarrow>
    xs \<noteq> [] \<Longrightarrow> ys \<noteq> [] \<Longrightarrow> v_hash (last xs) = v_hash (last ys) \<Longrightarrow>
    xs = ys \<or> (\<exists>a \<in> set xs. \<exists>b \<in> set ys. collide te a b)"
proof (induction xs arbitrary: ys rule: rev_induct)
  case (snoc e xs)
  obtain zs f where ys: "ys = zs @ [f]" using snoc.prems(6) by (cases ys rule: rev_cases) auto
  have len: "length (v_hash a) = 64" if "compute_hash te a = v_hash a" for a
    using assms(1) that [symmetric] by (simp add: trail_ok_def compute_hash_def)
  have prev: "length (v_previous_hash (last as)) = 64" if "linked te GENESIS 0 as" "as \<noteq> []" for as
  proof (cases as rule: rev_cases)
    case (snoc bs a)
    then have "v_previous_hash a = (if bs = [] then GENESIS else v_hash (last bs))" "linked te GENESIS 0 bs"
      using that(1) by (simp_all add: linked_snoc)
    moreover have "bs \<noteq> [] \<Longrightarrow> linked te GENESIS 0 bs \<Longrightarrow> length (v_hash (last bs)) = 64"
      by (cases bs rule: rev_cases) (auto simp: linked_snoc len)
    ultimately show ?thesis using snoc by (simp add: GENESIS_def)
  qed (use that(2) in simp)
  show ?case
  proof (cases "hash_input te e = hash_input te f")
    case True
    have "e = f"
      using snoc.prems ys True prev [of "xs @ [e]"] prev [of ys]
      by (intro hash_input_inj [OF assms(2) True]) auto
    then have "length xs = length zs"
      using linked_seq [OF snoc.prems(1,3), of "length xs"] linked_seq [OF snoc.prems(2,4), of "length zs"] ys by simp
    show ?thesis
    proof (cases "xs = []")
      case False
      then have "v_hash (last xs) = v_hash (last zs)" "zs \<noteq> []"
        using snoc.prems(1,2) ys \<open>e = f\<close> \<open>length xs = length zs\<close> by (auto simp: linked_snoc)
      then have "xs = zs \<or> (\<exists>a \<in> set xs. \<exists>b \<in> set zs. collide te a b)"
        using snoc.IH [of zs] snoc.prems False ys by (auto simp: linked_snoc)
      then show ?thesis using \<open>e = f\<close> ys by auto
    qed (use \<open>length xs = length zs\<close> \<open>e = f\<close> ys in simp)
  next
    case False
    then have "collide te e f"
      using snoc.prems ys by (auto simp: collide_def linked_snoc compute_hash_def)
    then show ?thesis using ys by auto
  qed
qed simp

definition verified :: "trail_env \<Rightarrow> path \<Rightarrow> files \<Rightarrow> audit_event list \<Rightarrow> bool" where
  "verified te p fs es \<longleftrightarrow>
     (\<exists>r. verify_file te p fs = (Inr r, fs) \<and> vr_ok r \<and> vr_chained r) \<and> read_events te p fs = (Inr es, fs)"

lemma verified_linked:
  assumes "verified te p fs es"
  shows "linked te GENESIS 0 es"
proof -
  obtain c where c: "bt_get fs p = Some c" using assms by (auto simp: verified_def verify_file_def eff_defs split: option.splits)
  have "sound (verify_lines te 1 (lines c) verify_start)" and e: "parse_events te p 1 (lines c) = Inr es"
    using assms c by (auto simp: verified_def verify_file_def read_events_def eff_defs Let_def sound_def)
  moreover have "sound verify_start" by (simp add: sound_def verify_start_def)
  ultimately show ?thesis using verify_lines_sound [of verify_start te 1 "lines c" p] by (auto simp: verify_start_def)
qed


text \<open>A last line that is no event, as a write cut short leaves it, silences the trail: every later event of
  the run is dropped, and the engine goes on.\<close>

lemma torn_line_silences:
  assumes "bt_get fs (path_for te (dr_run_id d)) = Some c" and "c \<noteq> []" and "te_parse te (last_line (64 * 1024) c) = Inl e"
  shows "engine_audit te hash_chain fresh t d fs = (Inr (), fs)"
  using assms by (simp add: engine_audit_def append_event_def Let_def eff_defs last_link_def with_context_def)

subsection \<open>Witnesses\<close>

definition event_number :: "audit_event \<Rightarrow> nat" where
  "event_number e = to_nat (v_event_id e, v_seq e, v_timestamp e, (v_run_id e, v_task_id e, v_step_id e),
     (at_kind (v_actor e), at_runner (v_actor e), at_pane_id (v_actor e), at_user (v_actor e)),
     v_event e, v_data e, v_previous_hash e, v_hash e, v_signature e)"

definition numbered_event :: "nat \<Rightarrow> audit_event" where
  "numbered_event n = (case from_nat n of
     (i, s, t, (r, k, st), (a, b, c, d), ev, dat, ph, h, sg) \<Rightarrow>
       \<lparr> v_event_id = i, v_seq = s, v_timestamp = t, v_run_id = r, v_task_id = k, v_step_id = st,
         v_actor = \<lparr> at_kind = a, at_runner = b, at_pane_id = c, at_user = d \<rparr>, v_event = ev, v_data = dat,
         v_previous_hash = ph, v_hash = h, v_signature = sg \<rparr>)"

definition sample_trail :: trail_env where
  "sample_trail = \<lparr> te_line = (\<lambda>e. nat_str (event_number e)), te_parse = (\<lambda>s. Inr (numbered_event (digits_value s))),
     te_canonical = (\<lambda>j. nat_str (to_nat j)), te_sha256 = (\<lambda>s. replicate 64 CHR ''a''),
     te_time = (\<lambda>t. nat_str (to_nat t)), te_redact = (\<lambda>s. s), te_sensitive = (\<lambda>k. k = ''token''),
     te_dir = ''/st/audit'' \<rparr>"

lemma numbered_event_number: "numbered_event (event_number e) = e"
  by (simp add: numbered_event_def event_number_def)

lemma one_line_number: "one_line (nat_str n)"
proof -
  have d: "list_all is_ascii_digit (nat_str n)" "nat_str n \<noteq> []" using digits_nat_str [of n] by auto
  have "CHR 0x0A \<notin> set (nat_str n)" using d(1) by (auto simp: list_all_iff is_ascii_digit_def byte_def)
  moreover have "last (nat_str n) \<noteq> CHR 0x0D"
    using d(1) last_in_set [OF d(2)] by (force simp: list_all_iff is_ascii_digit_def byte_def)
  ultimately show ?thesis using d(2) by (simp add: one_line_def blank_def trim_nat_str)
qed

lemma sample_trail_ok: "trail_ok sample_trail"
  by (simp add: trail_ok_def sample_trail_def numbered_event_number one_line_number)

lemma sample_texts: "texts_distinct sample_trail"
  by (auto simp: texts_distinct_def sample_trail_def inj_def dest: nat_str_inj)

definition sample_draft :: "string \<Rightarrow> event_draft" where
  "sample_draft ev = draft_run ''run-1'' ''1'' (draft_new ev actor_orchestrator)"



end
