(* ===== verification/Watchdog.thy ===== *)
theory Watchdog
  imports Template
begin

text \<open>
  The watchdog over agents in panes, \<open>src/runners/watchdog.rs\<close>: a state machine that is fed observations
  of the screen, the worktree and the tokens used, and says when the agent gets nowhere. Instants are
  milliseconds; the hash of the screen is a parameter.
\<close>

record watchdog_config =
  wc_enabled :: bool
  wc_check_every :: duration
  wc_stall_after :: duration
  wc_idle_after :: duration
  wc_burn_tokens :: nat
  wc_repeat_threshold :: nat

definition watchdog_config_default :: watchdog_config where
  "watchdog_config_default = \<lparr> wc_enabled = True, wc_check_every = 60 * 1000, wc_stall_after = 20 * 60 * 1000,
     wc_idle_after = 15 * 60 * 1000, wc_burn_tokens = 150000, wc_repeat_threshold = 4 \<rparr>"

record observation =
  ob_at :: nat
  ob_tail :: string
  ob_worktree :: string
  ob_tokens :: "nat option"

record watchdog =
  wd_cfg :: watchdog_config
  wd_tail :: "(nat \<times> nat) option"
  wd_worktree :: "(string \<times> nat \<times> nat option) option"
  wd_errors :: "(string, nat \<times> nat) btmap"
  wd_fired :: bool

definition watchdog_new :: "watchdog_config \<Rightarrow> watchdog" where
  "watchdog_new cfg = \<lparr> wd_cfg = cfg, wd_tail = None, wd_worktree = None, wd_errors = [], wd_fired = False \<rparr>"

definition check_every :: "watchdog \<Rightarrow> duration" where
  "check_every w = max (wc_check_every (wd_cfg w)) 200"

definition ERROR_WORDS :: "string list" where
  "ERROR_WORDS = [''error'', ''failed'', ''panicked'', ''exception'', ''traceback'', ''cannot find'', ''not found'',
     ''permission denied'']"

definition error_lines :: "string \<Rightarrow> string list" where
  "error_lines s = remdups_adj (sort (map (map (\<lambda>c. if is_ascii_digit c then CHR ''#'' else c))
     (filter (\<lambda>l. list_ex (str_contains (to_ascii_lowercase l)) ERROR_WORDS)
       (filter (\<lambda>l. 12 \<le> length l) (map trim (lines s))))))"

definition note_errors :: "nat \<Rightarrow> string list \<Rightarrow> (string, nat \<times> nat) btmap \<Rightarrow> (string, nat \<times> nat) btmap" where
  "note_errors now es m =
     foldl (\<lambda>m e. case bt_get m e of Some (n, first) \<Rightarrow> bt_insert e (n + 1, first) m | None \<Rightarrow> bt_insert e (1, now) m) m es"

definition stall_reason :: "nat \<Rightarrow> nat \<Rightarrow> string \<Rightarrow> string" where
  "stall_reason stalled idle_min tokens_note = ''no output change for '' @ nat_str (stalled div 1000 div 60)
     @ '' min and no file changes for '' @ nat_str idle_min @ '' min ('' @ tokens_note @ '')''"

definition repeat_reason :: "nat \<Rightarrow> string \<Rightarrow> nat \<Rightarrow> string \<Rightarrow> string" where
  "repeat_reason n line idle_min tokens_note = ''the same error keeps coming back ('' @ nat_str n
     @ [CHR 0xC3, CHR 0x97] @ ''): '' @ [dquote] @ first_chars 120 line @ [dquote] @ ''; no file changes for ''
     @ nat_str idle_min @ '' min ('' @ tokens_note @ '')''"

definition observe :: "(string \<Rightarrow> nat) \<Rightarrow> observation \<Rightarrow> watchdog \<Rightarrow> watchdog \<times> string option" where
  "observe hash ob w =
     (let now = ob_at ob;
          th = hash (trim (ob_tail ob));
          screen_changed = (case wd_tail w of Some (h, _) \<Rightarrow> h \<noteq> th | None \<Rightarrow> True);
          w1 = (if screen_changed then w\<lparr> wd_tail := Some (th, now) \<rparr> else w);
          stalled_for = (case wd_tail w1 of Some (_, t) \<Rightarrow> now - t | None \<Rightarrow> 0);
          worktree_changed = (case wd_worktree w1 of Some (x, _, _) \<Rightarrow> x \<noteq> ob_worktree ob | None \<Rightarrow> True)
      in if worktree_changed then
           (w1\<lparr> wd_worktree := Some (ob_worktree ob, now, ob_tokens ob), wd_errors := [], wd_fired := False \<rparr>, None)
         else case wd_worktree w1 of
           None \<Rightarrow> (w1, None)
         | Some (_, since, tokens_at) \<Rightarrow>
           let idle_for = now - since;
               burned = (case (ob_tokens ob, tokens_at) of
                   (Some t, Some t0) \<Rightarrow> Some (t - t0) | (Some t, None) \<Rightarrow> Some t | _ \<Rightarrow> None);
               w2 = (if screen_changed
                  then w1\<lparr> wd_errors := note_errors now (error_lines (ob_tail ob)) (wd_errors w1) \<rparr> else w1)
           in if wd_fired w2 then (w2, None)
           else if \<not> (wc_idle_after (wd_cfg w2) \<le> idle_for \<and>
                (case burned of None \<Rightarrow> True | Some b \<Rightarrow> wc_burn_tokens (wd_cfg w2) \<le> b)) then (w2, None)
           else
             let tokens_note = (case burned of Some b \<Rightarrow> nat_str b @ '' tokens used'' | None \<Rightarrow> ''token usage unknown'');
                 idle_min = idle_for div 1000 div 60
             in if wc_stall_after (wd_cfg w2) \<le> stalled_for then
                  (w2\<lparr> wd_fired := True \<rparr>, Some (stall_reason stalled_for idle_min tokens_note))
                else case find (\<lambda>(line, n, first). wc_repeat_threshold (wd_cfg w2) \<le> n \<and>
                    wc_stall_after (wd_cfg w2) \<le> 4 * (now - first)) (wd_errors w2) of
                  Some (line, n, _) \<Rightarrow> (w2\<lparr> wd_fired := True \<rparr>, Some (repeat_reason n line idle_min tokens_note))
                | None \<Rightarrow> (w2, None))"

subsection \<open>The histories it fires on\<close>

text \<open>Over a history of observations, the newest first: since when a view of it has not changed, and
  which observations show an error line on a screen that has just changed.\<close>

definition stretch :: "(observation \<Rightarrow> 'k) \<Rightarrow> observation list \<Rightarrow> observation list" where
  "stretch f hs = takeWhile (\<lambda>p. f p = f (hd hs)) hs"

definition since_when :: "(observation \<Rightarrow> 'k) \<Rightarrow> observation list \<Rightarrow> observation" where
  "since_when f hs = last (stretch f hs)"

abbreviation screen :: "(string \<Rightarrow> nat) \<Rightarrow> observation \<Rightarrow> nat" where
  "screen hash ob \<equiv> hash (trim (ob_tail ob))"

fun sightings :: "(string \<Rightarrow> nat) \<Rightarrow> string \<Rightarrow> observation list \<Rightarrow> observation list" where
  "sightings hash e (a # b # hs) =
     (if ob_worktree a \<noteq> ob_worktree b then []
      else (if screen hash a \<noteq> screen hash b \<and> e \<in> set (error_lines (ob_tail a)) then [a] else [])
        @ sightings hash e (b # hs))"
| "sightings hash e _ = []"

definition burned_since :: "observation \<Rightarrow> observation \<Rightarrow> nat option" where
  "burned_since a b = (case (ob_tokens a, ob_tokens b) of
     (Some t, Some t0) \<Rightarrow> Some (t - t0) | (Some t, None) \<Rightarrow> Some t | _ \<Rightarrow> None)"

text \<open>The signals of the module's header: no file has changed for long and tokens were burned, or may have
  been; and the screen stands still, or an error keeps coming back.\<close>

definition stuck :: "(string \<Rightarrow> nat) \<Rightarrow> watchdog_config \<Rightarrow> observation list \<Rightarrow> bool" where
  "stuck hash cfg hs =
     (let now = hd hs; idle = since_when ob_worktree hs; still = since_when (screen hash) hs in
      tl hs \<noteq> [] \<and> ob_worktree now = ob_worktree (hd (tl hs)) \<and>
      wc_idle_after cfg \<le> ob_at now - ob_at idle \<and>
      (case burned_since now idle of None \<Rightarrow> True | Some b \<Rightarrow> wc_burn_tokens cfg \<le> b) \<and>
      (wc_stall_after cfg \<le> ob_at now - ob_at still \<or>
       (\<exists>e. sightings hash e hs \<noteq> [] \<and> wc_repeat_threshold cfg \<le> length (sightings hash e hs) \<and>
          wc_stall_after cfg \<le> 4 * (ob_at now - ob_at (last (sightings hash e hs))))))"

text \<open>It has fired since the worktree last changed.\<close>

fun alarmed :: "(string \<Rightarrow> nat) \<Rightarrow> watchdog_config \<Rightarrow> observation list \<Rightarrow> bool" where
  "alarmed hash cfg (a # b # hs) =
     (ob_worktree a = ob_worktree b \<and> (stuck hash cfg (a # b # hs) \<or> alarmed hash cfg (b # hs)))"
| "alarmed hash cfg _ = False"

definition watch :: "(string \<Rightarrow> nat) \<Rightarrow> watchdog_config \<Rightarrow> observation list \<Rightarrow> watchdog" where
  "watch hash cfg hs = foldr (\<lambda>ob w. fst (observe hash ob w)) hs (watchdog_new cfg)"

definition tracks :: "(string \<Rightarrow> nat) \<Rightarrow> watchdog_config \<Rightarrow> observation list \<Rightarrow> watchdog \<Rightarrow> bool" where
  "tracks hash cfg hs w \<longleftrightarrow> wd_cfg w = cfg \<and>
     wd_tail w = Some (screen hash (hd hs), ob_at (since_when (screen hash) hs)) \<and>
     wd_worktree w = Some (ob_worktree (hd hs), ob_at (since_when ob_worktree hs), ob_tokens (since_when ob_worktree hs)) \<and>
     (\<forall>e. bt_get (wd_errors w) e = (case sightings hash e hs of [] \<Rightarrow> None | ss \<Rightarrow> Some (length ss, ob_at (last ss)))) \<and>
     bt_ok (wd_errors w) \<and> wd_fired w = alarmed hash cfg hs"

lemma since_when_Cons:
  "since_when f [a] = a"
  "since_when f (a # b # hs) = (if f a = f b then since_when f (b # hs) else a)"
  by (auto simp: since_when_def stretch_def)

lemma note_errors_get:
  "distinct es \<Longrightarrow> bt_get (note_errors now es m) e =
    (if e \<in> set es then Some (case bt_get m e of Some (n, first) \<Rightarrow> (n + 1, first) | None \<Rightarrow> (1, now)) else bt_get m e)"
  unfolding note_errors_def
  by (induction es arbitrary: m) (auto simp: bt_get_insert split: option.splits prod.splits)

lemma note_errors_ok: "bt_ok m \<Longrightarrow> bt_ok (note_errors now es m)"
  unfolding note_errors_def
  by (induction es arbitrary: m) (auto simp: bt_ok_insert split: option.splits prod.splits)

lemma distinct_remdups_adj_sorted: "sorted xs \<Longrightarrow> distinct (remdups_adj xs)"
  by (induction xs rule: remdups_adj.induct) auto

lemma error_lines_distinct: "distinct (error_lines s)"
  unfolding error_lines_def by (rule distinct_remdups_adj_sorted) simp

lemma bt_ok_member: "bt_ok m \<Longrightarrow> (k, v) \<in> set m \<longleftrightarrow> bt_get m k = Some v"
  by (auto simp: bt_ok_def bt_get_def strict_sorted_iff intro: map_of_is_SomeI dest: map_of_SomeD)

lemma find_error:
  assumes "bt_ok m"
  shows "find (\<lambda>(line, n, first). P n first) m = None \<longleftrightarrow> (\<nexists>e n first. bt_get m e = Some (n, first) \<and> P n first)"
  by (auto simp: find_None_iff bt_ok_member [OF assms])

subsection \<open>One observation\<close>

lemma observe_first:
  "snd (observe hash a (watchdog_new cfg)) = None"
  "tracks hash cfg [a] (fst (observe hash a (watchdog_new cfg)))"
  by (auto simp: observe_def watchdog_new_def Let_def tracks_def since_when_Cons bt_ok_def bt_get_def)

lemma observe_progress:
  assumes "tracks hash cfg (b # hs) w" and "ob_worktree a \<noteq> ob_worktree b"
  shows "snd (observe hash a w) = None" and "tracks hash cfg (a # b # hs) (fst (observe hash a w))"
  using assms
  by (auto simp: observe_def Let_def tracks_def since_when_Cons bt_ok_def bt_get_def)

text \<open>The state after the screen and the errors have been noted.\<close>

definition noted_state :: "(string \<Rightarrow> nat) \<Rightarrow> observation \<Rightarrow> watchdog \<Rightarrow> watchdog" where
  "noted_state hash a w =
     (let changed = (case wd_tail w of Some (h, _) \<Rightarrow> h \<noteq> screen hash a | None \<Rightarrow> True) in
      if changed then w\<lparr> wd_tail := Some (screen hash a, ob_at a),
        wd_errors := note_errors (ob_at a) (error_lines (ob_tail a)) (wd_errors w) \<rparr> else w)"

lemma noted_state_tracks:
  assumes "tracks hash cfg (b # hs) w" and "ob_worktree a = ob_worktree b"
  shows "tracks hash cfg (a # b # hs) ((noted_state hash a w)\<lparr> wd_fired := alarmed hash cfg (a # b # hs) \<rparr>)"
proof -
  have err: "bt_get (wd_errors w) e = (case sightings hash e (b # hs) of [] \<Rightarrow> None | ss \<Rightarrow> Some (length ss, ob_at (last ss)))"
    for e using assms(1) by (simp add: tracks_def)
  have ok: "bt_ok (wd_errors w)" using assms(1) by (simp add: tracks_def)
  show ?thesis
  proof (cases "screen hash b = screen hash a")
    case True
    then show ?thesis using assms err by (auto simp: tracks_def noted_state_def since_when_Cons)
  next
    case False
    have "bt_get (note_errors (ob_at a) (error_lines (ob_tail a)) (wd_errors w)) e =
        (case sightings hash e (a # b # hs) of [] \<Rightarrow> None | ss \<Rightarrow> Some (length ss, ob_at (last ss)))" for e
      using False assms(2) by (auto simp: note_errors_get [OF error_lines_distinct] err split: list.splits)
    then show ?thesis
      using False assms ok by (auto simp: tracks_def noted_state_def since_when_Cons note_errors_ok)
  qed
qed

definition alarm :: "observation \<Rightarrow> watchdog \<Rightarrow> watchdog \<times> string option" where
  "alarm a w = (case (wd_tail w, wd_worktree w) of
     (Some (_, still), Some (_, since, tokens_at)) \<Rightarrow>
       let burned = (case (ob_tokens a, tokens_at) of
             (Some t, Some t0) \<Rightarrow> Some (t - t0) | (Some t, None) \<Rightarrow> Some t | _ \<Rightarrow> None);
           tokens_note = (case burned of Some b \<Rightarrow> nat_str b @ '' tokens used'' | None \<Rightarrow> ''token usage unknown'');
           idle_min = (ob_at a - since) div 1000 div 60
       in if wd_fired w \<or> \<not> (wc_idle_after (wd_cfg w) \<le> ob_at a - since \<and>
            (case burned of None \<Rightarrow> True | Some b \<Rightarrow> wc_burn_tokens (wd_cfg w) \<le> b)) then (w, None)
       else if wc_stall_after (wd_cfg w) \<le> ob_at a - still
         then (w\<lparr> wd_fired := True \<rparr>, Some (stall_reason (ob_at a - still) idle_min tokens_note))
       else (case find (\<lambda>(line, n, first). wc_repeat_threshold (wd_cfg w) \<le> n \<and>
            wc_stall_after (wd_cfg w) \<le> 4 * (ob_at a - first)) (wd_errors w) of
          Some (line, n, _) \<Rightarrow> (w\<lparr> wd_fired := True \<rparr>, Some (repeat_reason n line idle_min tokens_note))
        | None \<Rightarrow> (w, None))
   | _ \<Rightarrow> (w, None))"

lemma observe_alarm:
  assumes "tracks hash cfg (b # hs) w" and "ob_worktree a = ob_worktree b"
  shows "observe hash a w = alarm a (noted_state hash a w)"
  using assms by (auto simp: observe_def alarm_def noted_state_def tracks_def Let_def)

lemma alarm_fires:
  assumes "wd_tail w = Some (h, still)" and "wd_worktree w = Some (x, ob_at since, ob_tokens since)" and "bt_ok (wd_errors w)"
  shows "alarm a w = (if snd (alarm a w) = None then w else w\<lparr> wd_fired := True \<rparr>, snd (alarm a w))"
    and "snd (alarm a w) \<noteq> None \<longleftrightarrow> \<not> wd_fired w \<and> wc_idle_after (wd_cfg w) \<le> ob_at a - ob_at since \<and>
      (case burned_since a since of None \<Rightarrow> True | Some b \<Rightarrow> wc_burn_tokens (wd_cfg w) \<le> b) \<and>
      (wc_stall_after (wd_cfg w) \<le> ob_at a - still \<or>
       (\<exists>e n first. bt_get (wd_errors w) e = Some (n, first) \<and> wc_repeat_threshold (wd_cfg w) \<le> n \<and>
          wc_stall_after (wd_cfg w) \<le> 4 * (ob_at a - first)))"
proof -
  let ?P = "\<lambda>n first. wc_repeat_threshold (wd_cfg w) \<le> n \<and> wc_stall_after (wd_cfg w) \<le> 4 * (ob_at a - first)"
  note found = find_error [OF assms(3), of ?P]
  show "alarm a w = (if snd (alarm a w) = None then w else w\<lparr> wd_fired := True \<rparr>, snd (alarm a w))"
    using assms by (auto simp: alarm_def Let_def split: option.splits prod.splits)
  show "snd (alarm a w) \<noteq> None \<longleftrightarrow> \<not> wd_fired w \<and> wc_idle_after (wd_cfg w) \<le> ob_at a - ob_at since \<and>
      (case burned_since a since of None \<Rightarrow> True | Some b \<Rightarrow> wc_burn_tokens (wd_cfg w) \<le> b) \<and>
      (wc_stall_after (wd_cfg w) \<le> ob_at a - still \<or> (\<exists>e n first. bt_get (wd_errors w) e = Some (n, first) \<and> ?P n first))"
  proof (cases "find (\<lambda>(line, n, first). ?P n first) (wd_errors w)")
    case None
    then show ?thesis using assms found by (auto simp: alarm_def Let_def burned_since_def)
  next
    case (Some r)
    then have "\<exists>e n first. bt_get (wd_errors w) e = Some (n, first) \<and> ?P n first"
      using found by (metis option.distinct(1))
    then show ?thesis using assms Some by (auto simp: alarm_def Let_def burned_since_def split: prod.splits)
  qed
qed

lemma observe_same:
  assumes "tracks hash cfg (b # hs) w" and "ob_worktree a = ob_worktree b"
  shows "snd (observe hash a w) \<noteq> None \<longleftrightarrow> stuck hash cfg (a # b # hs) \<and> \<not> alarmed hash cfg (b # hs)"
    and "fst (observe hash a w) = (noted_state hash a w)\<lparr> wd_fired := alarmed hash cfg (a # b # hs) \<rparr>"
proof -
  let ?w = "noted_state hash a w"
  have t: "wd_cfg ?w = cfg" "wd_tail ?w = Some (screen hash a, ob_at (since_when (screen hash) (a # b # hs)))"
    "wd_worktree ?w = Some (ob_worktree a, ob_at (since_when ob_worktree (a # b # hs)), ob_tokens (since_when ob_worktree (a # b # hs)))"
    "bt_ok (wd_errors ?w)"
    "bt_get (wd_errors ?w) e = (case sightings hash e (a # b # hs) of [] \<Rightarrow> None | ss \<Rightarrow> Some (length ss, ob_at (last ss)))" for e
    using noted_state_tracks [OF assms] by (simp_all add: tracks_def)
  have f: "wd_fired ?w = alarmed hash cfg (b # hs)"
    using assms(1) by (simp add: noted_state_def tracks_def Let_def)
  have some: "(case ss of [] \<Rightarrow> None | s # rs \<Rightarrow> Some (length (s # rs), ob_at (last (s # rs)))) = Some (n, first) \<longleftrightarrow>
      ss \<noteq> [] \<and> n = length ss \<and> first = ob_at (last ss)" for ss n first by (cases ss) auto
  have sight: "(\<exists>e n first. bt_get (wd_errors ?w) e = Some (n, first) \<and> P n first) \<longleftrightarrow>
      (\<exists>e. sightings hash e (a # b # hs) \<noteq> [] \<and> P (length (sightings hash e (a # b # hs)))
         (ob_at (last (sightings hash e (a # b # hs)))))" for P
    unfolding t(5) some by blast
  note fires = alarm_fires [OF t(2,3,4), of a]
  show fire: "snd (observe hash a w) \<noteq> None \<longleftrightarrow> stuck hash cfg (a # b # hs) \<and> \<not> alarmed hash cfg (b # hs)"
    unfolding observe_alarm [OF assms] fires(2) sight t(1) f stuck_def Let_def list.sel
    using assms(2) by blast
  have "fst (observe hash a w) = (if snd (observe hash a w) = None then ?w else ?w\<lparr> wd_fired := True \<rparr>)"
    using arg_cong [OF fires(1), of fst] unfolding observe_alarm [OF assms] fst_conv .
  then show "fst (observe hash a w) = ?w\<lparr> wd_fired := alarmed hash cfg (a # b # hs) \<rparr>"
    using fire f assms(2) by auto
qed

lemma watch_tracks: "hs \<noteq> [] \<Longrightarrow> tracks hash cfg hs (watch hash cfg hs)"
proof (induction hs)
  case (Cons a hs)
  show ?case
  proof (cases hs)
    case Nil
    then show ?thesis using observe_first(2) by (simp add: watch_def)
  next
    case (Cons b rest)
    then have w: "tracks hash cfg (b # rest) (watch hash cfg (b # rest))" using Cons.IH by simp
    have "watch hash cfg (a # b # rest) = fst (observe hash a (watch hash cfg (b # rest)))" by (simp add: watch_def)
    then show ?thesis
      using observe_progress(2) [OF w, of a] observe_same(2) [OF w, of a] noted_state_tracks [OF w, of a] Cons
      by (cases "ob_worktree a = ob_worktree b") auto
  qed
qed simp


text \<open>A stuck agent is noticed. When the screen and the worktree have stood still over a history that is
  longer than both limits, and the tokens used are not known, then the watchdog has fired by its end.\<close>

theorem watchdog_notices:
  assumes "hs \<noteq> []" and "\<forall>ob \<in> set hs. ob_worktree ob = x \<and> screen hash ob = h"
    and "ob_tokens a = None" and "ob_worktree a = x" and "screen hash a = h"
    and "max (wc_idle_after cfg) (wc_stall_after cfg) \<le> ob_at a - ob_at (last hs)"
  shows "wd_fired (watch hash cfg (a # hs))"
proof -
  have all: "stretch f (a # hs) = a # hs" if "\<forall>ob \<in> set (a # hs). f ob = f a" for f :: "observation \<Rightarrow> 'k"
    using that by (simp add: stretch_def)
  have "since_when ob_worktree (a # hs) = last hs" "since_when (screen hash) (a # hs) = last hs"
    using assms by (simp_all add: since_when_def all)
  moreover have "ob_worktree (hd hs) = x" using assms(1,2) by (cases hs) auto
  ultimately have "stuck hash cfg (a # hs)"
    using assms(1,3-6) by (simp add: stuck_def Let_def burned_since_def)
  moreover obtain b rest where "hs = b # rest" using assms(1) by (cases hs) auto
  ultimately have "alarmed hash cfg (a # hs)" using \<open>ob_worktree (hd hs) = x\<close> assms(4) by simp
  then show ?thesis using watch_tracks [of "a # hs" hash cfg] by (simp add: tracks_def)
qed

definition sample_observation :: "nat \<Rightarrow> observation" where
  "sample_observation t = \<lparr> ob_at = t, ob_tail = ''waiting'', ob_worktree = ''clean'', ob_tokens = None \<rparr>"

theorem watchdog_notices_witness:
  "wd_fired (watch length watchdog_config_default [sample_observation 1200000, sample_observation 0])"
  using watchdog_notices [of "[sample_observation 0]" "''clean''" length 7 "sample_observation 1200000"
      watchdog_config_default]
  by (simp add: sample_observation_def watchdog_config_default_def trim_def str_defs byte_def)

end
