(* ===== verification/Agent_Hook.thy ===== *)
theory Agent_Hook
  imports Steps Prompts Store_Facts
begin

text \<open>
  The policy of an agent's own tool calls, \<open>src/policies/agent_hook.rs\<close> and \<open>claude_pretool\<close> of
  \<open>src/cli/hooks.rs\<close>: which calls are judged, on which subject, and which are blocked.
\<close>

subsection \<open>Paths relative to the worktree\<close>

text \<open>\<open>Path::strip_prefix\<close> compares components, and what it leaves is the text after them: redundant
  separators and dots go at its ends only. A worktree is an absolute path.\<close>

definition named :: "string \<Rightarrow> bool" where
  "named s \<longleftrightarrow> s \<noteq> [] \<and> s \<noteq> ''.''"

fun drop_named :: "nat \<Rightarrow> string list \<Rightarrow> string list" where
  "drop_named 0 ss = ss"
| "drop_named n [] = []"
| "drop_named (Suc n) (s # ss) = drop_named (if named s then n else Suc n) ss"

definition trim_segments :: "string list \<Rightarrow> string list" where
  "trim_segments ss = rev (dropWhile (\<lambda>s. \<not> named s) (rev (dropWhile (\<lambda>s. \<not> named s) ss)))"

definition strip_base :: "path \<Rightarrow> path \<Rightarrow> path option" where
  "strip_base base p =
     (if prefix (components base) (components p)
      then Some (join ''/'' (trim_segments (drop_named (length (filter (\<lambda>c. c \<noteq> RootDir) (components base)))
        (split_on (\<lambda>c. c = CHR ''/'') p))))
      else None)"

definition relative_to :: "path \<Rightarrow> path \<Rightarrow> path" where
  "relative_to base p = (case strip_base base p of Some r \<Rightarrow> r | None \<Rightarrow> p)"

subsection \<open>The subject of a call\<close>

definition str_at :: "json \<Rightarrow> string \<Rightarrow> string option" where
  "str_at v k = Option.bind (json_get v k) json_as_str"

definition subject_for :: "json \<Rightarrow> path \<Rightarrow> subject option" where
  "subject_for input worktree =
     Option.bind (str_at input ''tool_name'') (\<lambda>tool.
     Option.bind (json_get input ''tool_input'') (\<lambda>ti.
     if tool = ''Bash'' then
       map_option (\<lambda>cmd. (subject_command [cmd] True)\<lparr> sj_action := None \<rparr>) (str_at ti ''command'')
     else if tool \<in> {''Write'', ''Edit'', ''MultiEdit''} then
       map_option (\<lambda>p. subject_file AWrite (relative_to worktree p)) (str_at ti ''file_path'')
     else if tool = ''NotebookEdit'' then
       map_option (\<lambda>p. subject_file AWrite (relative_to worktree p))
         (Option.bind (case json_get ti ''notebook_path'' of Some v \<Rightarrow> Some v | None \<Rightarrow> json_get ti ''file_path'') json_as_str)
     else if tool = ''Read'' then
       map_option (\<lambda>p. subject_file ARead (relative_to worktree p)) (str_at ti ''file_path'')
     else None))"

subsection \<open>The decision\<close>

definition lock_reason :: string where
  "lock_reason = ''contract-lock (this test file is part of the approved contract; make the code pass it instead of changing it)''"

definition lock_rule :: matched_rule where
  "lock_rule = \<lparr> mr_rule_id = ''contract-lock'', mr_decision = Deny, mr_reason = Some ''approved contract'', mr_source = ''run'' \<rparr>"

definition hook_output :: "string \<Rightarrow> json" where
  "hook_output reason = JObj [(''hookSpecificOutput'', JObj [
     (''hookEventName'', JStr ''PreToolUse''), (''permissionDecision'', JStr ''deny''),
     (''permissionDecisionReason'', JStr (''herdr-orchestrator policy denies this: '' @ reason
        @ ''. Do not try to work around it; if it is needed, say so in your result.''))])]"

definition decide_in_repo ::
  "matchers \<Rightarrow> policy_set \<Rightarrow> json \<Rightarrow> path \<Rightarrow> string list \<Rightarrow> path option \<Rightarrow> (policy_decision \<times> json option) option" where
  "decide_in_repo mt pol input worktree locked repo =
     map_option (\<lambda>s.
       let s = s\<lparr> sj_repo := repo \<rparr>;
           d0 = evaluate mt pol s;
           writes = (sj_action s = Some AWrite \<or> sj_action s = Some ADelete);
           d = (if writes \<and> (case sj_path s of Some p \<Rightarrow> p \<in> set locked | None \<Rightarrow> False)
                then d0\<lparr> pd_decision := Deny, pd_reason := lock_reason, pd_matched := pd_matched d0 @ [lock_rule] \<rparr>
                else d0)
       in (d, if pd_decision d = Deny then Some (hook_output (pd_reason d)) else None))
     (subject_for input worktree)"

definition decide_with_locks ::
  "matchers \<Rightarrow> policy_set \<Rightarrow> json \<Rightarrow> path \<Rightarrow> string list \<Rightarrow> (policy_decision \<times> json option) option" where
  "decide_with_locks mt pol input worktree locked = decide_in_repo mt pol input worktree locked None"

text \<open>The command the hook runs: what it prints, and whether it records an event. The contract's files
  are locked.\<close>

definition claude_pretool :: "matchers \<Rightarrow> policy_set \<Rightarrow> run \<Rightarrow> json \<Rightarrow> json option \<times> bool" where
  "claude_pretool mt pol r input =
     (let worktree = (case g_worktree_path (r_git r) of Some w \<Rightarrow> w | None \<Rightarrow> r_repo_root r);
          locked = (case r_contract r of Some c \<Rightarrow> bt_keys (c_files c) | None \<Rightarrow> [])
      in case decide_in_repo mt pol input worktree locked (Some (r_repo_root r)) of
           None \<Rightarrow> (None, False)
         | Some (d, out) \<Rightarrow> (out, pd_decision d \<noteq> Allow))"

subsection \<open>Facts\<close>

lemma hook_output_iff:
  "decide_in_repo mt pol input w locked repo = Some (d, out) \<Longrightarrow> out = None \<longleftrightarrow> pd_decision d \<noteq> Deny"
  by (auto simp: decide_in_repo_def Let_def split: if_splits)

text \<open>Paths without redundant separators and dots, relative and absolute.\<close>

abbreviation segments :: "path \<Rightarrow> string list" where
  "segments p \<equiv> split_on (\<lambda>c. c = CHR ''/'') p"

definition tidy :: "path \<Rightarrow> bool" where
  "tidy p \<longleftrightarrow> list_all named (segments p)"

definition tidy_absolute :: "path \<Rightarrow> bool" where
  "tidy_absolute p \<longleftrightarrow> (case p of c # r \<Rightarrow> c = CHR ''/'' \<and> tidy r | [] \<Rightarrow> False)"

lemma segments_nonempty: "segments p \<noteq> []"
  by (induction p) (auto split: list.splits)

lemma join_segments: "join ''/'' (segments p) = p"
proof (induction p)
  case (Cons c p)
  obtain s ss where s: "segments p = s # ss" using segments_nonempty [of p] by (cases "segments p") auto
  with Cons show ?case by (cases ss) auto
qed simp

lemma segments_append: "segments (p @ ''/'' @ q) = segments p @ segments q"
proof (induction p)
  case (Cons c p)
  obtain s ss where s: "segments p = s # ss" using segments_nonempty [of p] by (cases "segments p") auto
  with Cons show ?case by (auto split: list.splits)
qed simp

lemma drop_named_all: "list_all named ss \<Longrightarrow> drop_named (length ss) (ss @ ts) = ts"
  by (induction ss) auto

lemma trim_segments_all:
  assumes "list_all named ss"
  shows "trim_segments ss = ss"
proof -
  have "dropWhile (\<lambda>s. \<not> named s) ts = ts" if "list_all named ts" for ts using that by (cases ts) auto
  from this [OF assms] this [of "rev ss"] assms show ?thesis by (simp add: trim_segments_def)
qed

lemma strip_base_tidy:
  assumes "tidy_absolute w" and "tidy l"
  shows "strip_base w (w @ ''/'' @ l) = Some l"
proof -
  obtain r where w: "w = ''/'' @ r" "list_all named (segments r)"
    using assms(1) by (cases w) (auto simp: tidy_absolute_def tidy_def)
  have l: "list_all named (segments l)" using assms(2) by (simp add: tidy_def)
  have rel: "filter (\<lambda>q. q \<noteq> [] \<and> q \<noteq> ''.'') ss = ss" if "list_all named ss" for ss
    using that by (auto simp: named_def list_all_iff)
  have seg: "segments (w @ ''/'' @ l) = [] # segments r @ segments l" "segments w = [] # segments r"
    using segments_append [of r l] by (simp_all add: w(1))
  have comp: "components w = RootDir # map piece_component (segments r)"
    "components (w @ ''/'' @ l) = RootDir # map piece_component (segments r @ segments l)"
    unfolding components_def Let_def seg using w l rel by (simp_all add: starts_with_def)
  have "length (filter (\<lambda>c. c \<noteq> RootDir) (components w)) = length (segments r)"
    unfolding comp(1) by (induction "segments r") (auto simp: piece_component_def)
  moreover have "drop_named (length (segments r)) ([] # segments r @ segments l) = segments l"
    using drop_named_all [OF w(2), of "segments l"] segments_nonempty [of r]
    by (cases "segments r") (auto simp: named_def)
  ultimately have "strip_base w (w @ ''/'' @ l) = Some (join ''/'' (trim_segments (segments l)))"
    unfolding strip_base_def seg(1) by (simp only: comp) simp
  then show ?thesis using l by (simp add: trim_segments_all join_segments)
qed

text \<open>A call that writes a file.\<close>

definition writes_file :: "json \<Rightarrow> path \<Rightarrow> bool" where
  "writes_file input p \<longleftrightarrow>
     (\<exists>tool ti. str_at input ''tool_name'' = Some tool \<and> json_get input ''tool_input'' = Some ti \<and>
        ((tool \<in> {''Write'', ''Edit'', ''MultiEdit''} \<and> str_at ti ''file_path'' = Some p) \<or>
         (tool = ''NotebookEdit'' \<and> str_at ti ''notebook_path'' = Some p)))"

lemma writes_file_subject: "writes_file input p \<Longrightarrow> subject_for input w = Some (subject_file AWrite (relative_to w p))"
  by (auto simp: writes_file_def subject_for_def str_at_def bind_eq_Some_conv)



subsection \<open>Witnesses\<close>

definition sample_edit :: "path \<Rightarrow> json" where
  "sample_edit p = JObj [(''tool_input'', JObj [(''file_path'', JStr p)]), (''tool_name'', JStr ''Edit'')]"

definition sample_contract :: contract where
  "sample_contract = \<lparr> c_files = [(''tests/a.rs'', ''sha256:x'')], c_sha256 = ''y'', c_check = [''cargo'', ''test''],
     c_criteria_map = [], c_commit = None, c_red_excerpt = [], c_locked_at = 0, c_approval_id = None,
     c_approved_by = None, c_approved_at = None, c_amended = False \<rparr>"


text \<open>A second separator in the path gets past the lock, and past every rule on the plain path.\<close>

lemma doubled_separator_unlocked:
  "map_option (\<lambda>(d, out). (pd_decision d, out))
     (decide_with_locks mt (policy_empty Allow) (sample_edit ''/w/tests//a.rs'') ''/w'' [''tests/a.rs'']) = Some (Allow, None)"
proof -
  have "relative_to ''/w'' ''/w/tests//a.rs'' = ''tests//a.rs''" by code_simp
  then show ?thesis
    by (simp add: decide_with_locks_def decide_in_repo_def subject_for_def str_at_def sample_edit_def bt_get_def
      subject_file_def policy_empty_def evaluate_def Let_def)
qed

end
