(* ===== verification/Epics.thy ===== *)
theory Epics
  imports Outputs Store
begin

text \<open>
  Epics, the document of \<open>src/epic/mod.rs\<close> and its operations in the store: an architecture decision,
  the plan an agent proposed for it, the tasks made of the accepted part and the keys a human declined.
\<close>

subsection \<open>The document\<close>

record adr =
  ad_path :: string
  ad_title :: string
  ad_status :: "string option"
  ad_sha256 :: string

datatype epic_status = EPlanning | EProposed | EPlanFailed | EAccepted | EDone | ERejected

fun epic_status_str :: "epic_status \<Rightarrow> string" where
  "epic_status_str EPlanning = ''planning''"
| "epic_status_str EProposed = ''proposed''"
| "epic_status_str EPlanFailed = ''plan_failed''"
| "epic_status_str EAccepted = ''accepted''"
| "epic_status_str EDone = ''done''"
| "epic_status_str ERejected = ''rejected''"

record epic =
  ep_epic_id :: string
  ep_repo_root :: path
  ep_adr :: adr
  ep_status :: epic_status
  ep_status_reason :: "string option"
  ep_planner_runner :: "string option"
  ep_planning_tasks :: "string list"
  ep_plan :: "plan option"
  ep_plan_sha256 :: "string option"
  ep_tasks :: "(string, string) btmap"
  ep_declined :: "string list"
  ep_conformance_task :: "string option"
  ep_conformance :: "json option"
  ep_created_at :: timestamp
  ep_updated_at :: timestamp
  ep_decided_by :: "string option"
  ep_note :: "string option"

definition open_keys :: "epic \<Rightarrow> string list" where
  "open_keys e =
     (case ep_plan e of
        None \<Rightarrow> []
      | Some p \<Rightarrow> filter (\<lambda>k. \<not> bt_contains (ep_tasks e) k \<and> k \<notin> set (ep_declined e)) (map k_key (p_tasks p)))"

definition find_plan_task :: "epic \<Rightarrow> string \<Rightarrow> plan_task option" where
  "find_plan_task e k = Option.bind (ep_plan e) (\<lambda>p. find (\<lambda>t. k_key t = k) (p_tasks p))"

subsection \<open>In the store\<close>

text \<open>\<open>load_epic\<close> accepts \<open>#E3\<close>, \<open>E3\<close> and \<open>3\<close>.\<close>

definition epic_ref :: "string \<Rightarrow> string" where
  "epic_ref s =
     (let s' = trim_start_matches CHR ''#'' s in if list_all is_ascii_digit s' then ''E'' @ s' else s')"

definition epic_number :: "string \<Rightarrow> nat" where
  "epic_number s = numeric_key (trim_start_matches CHR ''E'' s)"

definition save_epic :: "store_env \<Rightarrow> epic doc_type \<Rightarrow> epic \<Rightarrow> (files, unit) eff" where
  "save_epic se dt e = save_doc se dt (dir_epics (se_base se)) (ep_epic_id e) e"

definition load_epic :: "store_env \<Rightarrow> epic doc_type \<Rightarrow> string \<Rightarrow> string \<Rightarrow> (files, epic) eff" where
  "load_epic se dt stamp s = load_doc se stamp dt (dir_epics (se_base se)) (epic_ref s)"

fun load_epics :: "store_env \<Rightarrow> epic doc_type \<Rightarrow> string \<Rightarrow> string list \<Rightarrow> (files, epic list) eff" where
  "load_epics se dt stamp [] = ret []"
| "load_epics se dt stamp (s # ss) =
     bnd (attempt (load_epic se dt stamp s)) (\<lambda>r.
     bnd (load_epics se dt stamp ss) (\<lambda>vs.
     ret (case r of Inl _ \<Rightarrow> vs | Inr v \<Rightarrow> v # vs)))"

definition list_epics :: "store_env \<Rightarrow> epic doc_type \<Rightarrow> string \<Rightarrow> (files, epic list) eff" where
  "list_epics se dt stamp =
     bnd (gets (list_ids (dir_epics (se_base se)))) (\<lambda>ids.
     bnd (load_epics se dt stamp ids) (\<lambda>vs. ret (sort_key (\<lambda>e. epic_number (ep_epic_id e)) vs)))"

definition update_epic ::
  "store_env \<Rightarrow> epic doc_type \<Rightarrow> string \<Rightarrow> timestamp \<Rightarrow> string \<Rightarrow> (epic \<Rightarrow> string + epic) \<Rightarrow> (files, epic) eff" where
  "update_epic se dt stamp now s f =
     bnd (load_epic se dt stamp s) (\<lambda>e0.
     bnd (load_epic se dt stamp (ep_epic_id e0)) (\<lambda>e.
     bnd (lift_result (f e)) (\<lambda>e'.
     let e'' = e'\<lparr> ep_updated_at := now \<rparr> in
     andthen (save_epic se dt e'') (ret e''))))"

end
