(* ===== verification/Repository.thy ===== *)
theory Repository
  imports Epics
begin

text \<open>
  What the engine relies on of its store: documents by identifier, and counters that grow. The operations
  of \<open>src/store\<close> on these maps, in the same shape as the operations on files of \<open>Store\<close> and \<open>Epics\<close>;
  \<open>Repository_Facts\<close> shows that the files implement them, document by document, when none is corrupt.
\<close>

record repository =
  rp_tasks :: "(string, task) btmap"
  rp_runs :: "(string, run) btmap"
  rp_approvals :: "(string, approval_request) btmap"
  rp_controls :: "(string, run_control) btmap"
  rp_epics :: "(string, epic) btmap"
  rp_scheduler :: scheduler_state
  rp_task_counter :: nat
  rp_epic_counter :: nat

subsection \<open>Documents by identifier\<close>

definition id_error :: "string \<Rightarrow> string" where
  "id_error s = ''invalid identifier '' @ debug_str s"

definition fetch :: "string \<Rightarrow> ('s \<Rightarrow> (string, 'a) btmap) \<Rightarrow> string \<Rightarrow> ('s, 'a) eff" where
  "fetch kind sel s =
     (if \<not> valid_id s then bail (id_error s)
      else bnd (gets (\<lambda>st. bt_get (sel st) s)) (\<lambda>d.
        case d of None \<Rightarrow> bail (''document '' @ kind @ '' '' @ s @ '' not found'') | Some v \<Rightarrow> ret v))"

definition put :: "(((string, 'a) btmap \<Rightarrow> (string, 'a) btmap) \<Rightarrow> 's \<Rightarrow> 's) \<Rightarrow> string \<Rightarrow> 'a \<Rightarrow> ('s, unit) eff" where
  "put upd s v = (if \<not> valid_id s then bail (id_error s) else modify (upd (bt_insert s v)))"

definition documents :: "('s \<Rightarrow> (string, 'a) btmap) \<Rightarrow> ('a \<Rightarrow> 'k::linorder) \<Rightarrow> 's \<Rightarrow> 'a list" where
  "documents sel key st = sort_key key (bt_values (sel st))"

subsection \<open>Tasks\<close>

definition get_task :: "string \<Rightarrow> ('x repository_scheme, task) eff" where
  "get_task s = fetch ''task'' rp_tasks s"

definition put_task :: "task \<Rightarrow> ('x repository_scheme, unit) eff" where
  "put_task t = put rp_tasks_update (t_task_id t) t"

definition all_tasks :: "('x repository_scheme, task list) eff" where
  "all_tasks = gets (documents rp_tasks (\<lambda>t. numeric_key (t_task_id t)))"

definition change_task :: "timestamp \<Rightarrow> string \<Rightarrow> (task \<Rightarrow> string + task) \<Rightarrow> ('x repository_scheme, task) eff" where
  "change_task now s f =
     bnd (get_task s) (\<lambda>t.
     bnd (lift_result (f t)) (\<lambda>t'.
     let t'' = t'\<lparr> t_updated_at := now \<rparr> in
     andthen (put_task t'') (ret t'')))"

definition new_task_number :: "('x repository_scheme, nat) eff" where
  "new_task_number =
     bnd (gets (\<lambda>rp. next_number (rp_task_counter rp) (List.map_filter parse_u64 (bt_keys (rp_tasks rp))))) (\<lambda>n.
     andthen (modify (rp_task_counter_update (\<lambda>_. n))) (ret n))"

subsection \<open>Runs\<close>

definition get_run :: "string \<Rightarrow> ('x repository_scheme, run) eff" where
  "get_run s = fetch ''run'' rp_runs s"

definition put_run :: "run \<Rightarrow> ('x repository_scheme, unit) eff" where
  "put_run r = put rp_runs_update (r_run_id r) r"

definition all_runs :: "('x repository_scheme, run list) eff" where
  "all_runs = gets (documents rp_runs r_created_at)"

text \<open>The documents of these identifiers that load (\<open>filter_map(|id| load_run(id).ok())\<close>).\<close>

definition loaded_runs :: "string list \<Rightarrow> ('x repository_scheme, run list) eff" where
  "loaded_runs ids = gets (\<lambda>rp. List.map_filter (\<lambda>s. if valid_id s then bt_get (rp_runs rp) s else None) ids)"

subsection \<open>Approvals\<close>

definition get_approval :: "string \<Rightarrow> ('x repository_scheme, approval_request) eff" where
  "get_approval s = fetch ''approval'' rp_approvals s"

definition put_approval :: "approval_request \<Rightarrow> ('x repository_scheme, unit) eff" where
  "put_approval a = put rp_approvals_update (a_approval_id a) a"

definition all_approvals :: "('x repository_scheme, approval_request list) eff" where
  "all_approvals = gets (documents rp_approvals a_requested_at)"

definition change_approval ::
  "string \<Rightarrow> (approval_request \<Rightarrow> string + approval_request) \<Rightarrow> ('x repository_scheme, approval_request) eff" where
  "change_approval s f =
     bnd (get_approval s) (\<lambda>a.
     bnd (lift_result (f a)) (\<lambda>a'.
     andthen (put_approval a') (ret a')))"

subsection \<open>Control requests and the scheduler switch\<close>

definition get_control :: "string \<Rightarrow> ('x repository_scheme, run_control) eff" where
  "get_control s =
     (if \<not> valid_id s then bail (id_error s)
      else gets (\<lambda>rp. case bt_get (rp_controls rp) s of Some c \<Rightarrow> c | None \<Rightarrow> run_control_default))"

definition change_control :: "string \<Rightarrow> (run_control \<Rightarrow> run_control) \<Rightarrow> ('x repository_scheme, run_control) eff" where
  "change_control s f =
     bnd (get_control s) (\<lambda>c.
     andthen (put rp_controls_update s (f c)) (ret (f c)))"

definition get_scheduler :: "('x repository_scheme, scheduler_state) eff" where
  "get_scheduler = gets rp_scheduler"

definition put_scheduler :: "scheduler_state \<Rightarrow> ('x repository_scheme, unit) eff" where
  "put_scheduler s = modify (rp_scheduler_update (\<lambda>_. s))"

subsection \<open>Epics\<close>

definition get_epic :: "string \<Rightarrow> ('x repository_scheme, epic) eff" where
  "get_epic s = fetch ''epic'' rp_epics (epic_ref s)"

definition put_epic :: "epic \<Rightarrow> ('x repository_scheme, unit) eff" where
  "put_epic e = put rp_epics_update (ep_epic_id e) e"

definition all_epics :: "('x repository_scheme, epic list) eff" where
  "all_epics = gets (documents rp_epics (\<lambda>e. epic_number (ep_epic_id e)))"

definition change_epic :: "timestamp \<Rightarrow> string \<Rightarrow> (epic \<Rightarrow> string + epic) \<Rightarrow> ('x repository_scheme, epic) eff" where
  "change_epic now s f =
     bnd (get_epic s) (\<lambda>e0.
     bnd (get_epic (ep_epic_id e0)) (\<lambda>e.
     bnd (lift_result (f e)) (\<lambda>e'.
     let e'' = e'\<lparr> ep_updated_at := now \<rparr> in
     andthen (put_epic e'') (ret e''))))"

definition new_epic_id :: "('x repository_scheme, string) eff" where
  "new_epic_id =
     bnd (gets (\<lambda>rp. next_number (rp_epic_counter rp)
            (List.map_filter (\<lambda>s. parse_u64 (trim_start_matches CHR ''E'' s)) (bt_keys (rp_epics rp))))) (\<lambda>n.
     andthen (modify (rp_epic_counter_update (\<lambda>_. n))) (ret (''E'' @ nat_str n)))"

end
