(* ===== verification/Repository_Facts.thy ===== *)
theory Repository_Facts
  imports Repository Store_Facts
begin

text \<open>
  The refinement of the repository by files: when a set of files represents a repository, every operation
  of the store does on the files what the operation of \<open>Repository\<close> does on the maps, with the same
  result and the same error, and leaves files that represent the new repository.
\<close>

subsection \<open>A directory of documents\<close>

definition document_text :: "store_env \<Rightarrow> 'a doc_type \<Rightarrow> 'a \<Rightarrow> string" where
  "document_text se dt v = enc_env (se_codec se) (seal (se_codec se) (dt_kind dt) (dt_to dt v))"

definition in_dir :: "path \<Rightarrow> path \<Rightarrow> bool" where
  "in_dir dir p \<longleftrightarrow> (\<exists>n. p = dir @ ''/'' @ n \<and> CHR ''/'' \<notin> set n)"

definition filed :: "store_env \<Rightarrow> 'a doc_type \<Rightarrow> path \<Rightarrow> (string, 'a) btmap \<Rightarrow> files \<Rightarrow> bool" where
  "filed se dt dir m fs \<longleftrightarrow> bt_ok m \<and> list_ids dir fs = bt_keys m
     \<and> (\<forall>(s, v) \<in> set m. valid_id s \<and> doc_ok dt v \<and> bt_get fs (dir @ ''/'' @ s @ ''.json'') = Some (document_text se dt v))"

definition listed :: "path \<Rightarrow> path \<Rightarrow> string option" where
  "listed dir p = (case strip_prefix p (dir @ ''/'') of
       Some n \<Rightarrow> (if CHR ''/'' \<in> set n then None else strip_suffix n ''.json'') | None \<Rightarrow> None)"

lemma list_ids_listed: "list_ids dir fs = sort (List.map_filter (listed dir) (bt_keys fs))"
  by (simp add: list_ids_def listed_def [abs_def])

lemma listed_doc: "valid_id s \<Longrightarrow> listed dir (dir @ ''/'' @ s @ ''.json'') = Some s"
  using valid_id_no_slash [of s]
  by (auto simp: listed_def strip_prefix_def starts_with_def strip_suffix_def ends_with_def)

lemma listed_Some: "listed dir p = Some s \<longleftrightarrow> p = dir @ ''/'' @ s @ ''.json'' \<and> CHR ''/'' \<notin> set s"
proof
  assume l: "listed dir p = Some s"
  then obtain n where n: "strip_prefix p (dir @ ''/'') = Some n" "CHR ''/'' \<notin> set n" "strip_suffix n ''.json'' = Some s"
    by (auto simp: listed_def split: option.splits if_splits)
  then have "p = dir @ ''/'' @ n"
    by (auto simp: strip_prefix_def starts_with_iff split: if_splits)
  moreover have "n = s @ ''.json''"
    using n(3) by (auto simp: strip_suffix_def ends_with_def split: if_splits)
       (metis append_eq_conv_conj append_take_drop_id length_Cons list.size(3) length_append_singleton)
  ultimately show "p = dir @ ''/'' @ s @ ''.json'' \<and> CHR ''/'' \<notin> set s" using n(2) by auto
qed (auto simp: listed_def strip_prefix_def starts_with_def strip_suffix_def ends_with_def)


lemma filed_get:
  assumes "filed se dt dir m fs" and "bt_get m s = Some v"
  shows "valid_id s \<and> doc_ok dt v \<and> bt_get fs (dir @ ''/'' @ s @ ''.json'') = Some (document_text se dt v)"
proof -
  have "(s, v) \<in> set m" using assms(2) by (auto simp: bt_get_def dest: map_of_SomeD)
  then show ?thesis using assms(1) by (auto simp: filed_def)
qed

lemma filed_none:
  assumes "filed se dt dir m fs" and "bt_get m s = None" and "valid_id s"
  shows "\<not> bt_contains fs (dir @ ''/'' @ s @ ''.json'')"
  using assms list_ids_saved [OF assms(3), of fs dir]
  by (auto simp: filed_def bt_get_def bt_keys_def map_of_eq_None_iff)

lemma load_filed:
  assumes "codec_ok (se_codec se)" and "filed se dt dir m fs"
  shows "load_doc se stamp dt dir s fs = (fst (fetch (dt_kind dt) (\<lambda>m. m) s m), fs)"
proof (cases "valid_id s")
  case True
  show ?thesis
  proof (cases "bt_get m s")
    case None
    then show ?thesis
      using True filed_none [OF assms(2) None True]
      by (simp add: load_doc_def fetch_def eff_defs doc_path_Inr)
  next
    case (Some v)
    then show ?thesis
      using True filed_get [OF assms(2) Some] load_saved [OF assms(1), of dt v s fs dir]
      by (simp add: fetch_def eff_defs document_text_def)
  qed
qed (simp add: load_doc_def fetch_def eff_defs doc_path_def id_error_def)

lemma map_filter_mem: "s \<in> set (List.map_filter f xs) \<longleftrightarrow> (\<exists>x \<in> set xs. f x = Some s)"
  by (force simp: List.map_filter_def)

lemma list_ids_mem: "s \<in> set (list_ids dir fs) \<longleftrightarrow> CHR ''/'' \<notin> set s \<and> bt_contains fs (dir @ ''/'' @ s @ ''.json'')"
  by (auto simp: list_ids_listed map_filter_mem listed_Some bt_keys_contains)

lemma distinct_map_filter: "distinct xs \<Longrightarrow> inj_on f {x. f x \<noteq> None} \<Longrightarrow> distinct (List.map_filter f xs)"
proof (induction xs)
  case (Cons x xs)
  then show ?case
    by (cases "f x") (auto simp: map_filter_mem inj_on_def, metis option.distinct(1))
qed simp

lemma bt_ok_keys: "bt_ok m \<longleftrightarrow> sorted (bt_keys m) \<and> distinct (bt_keys m)"
  by (simp add: bt_ok_def bt_keys_def strict_sorted_iff)

lemma listed_inj: "inj_on (listed dir) {p. listed dir p \<noteq> None}"
proof (rule inj_onI)
  fix p q assume "p \<in> {p. listed dir p \<noteq> None}" and eq: "listed dir p = listed dir q"
  then obtain s where "listed dir p = Some s" by auto
  with eq show "p = q" by (metis listed_Some)
qed

lemma list_ids_strict: "bt_ok fs \<Longrightarrow> sorted (list_ids dir fs) \<and> distinct (list_ids dir fs)"
  using distinct_map_filter [OF _ listed_inj, of "bt_keys fs" dir] by (simp add: list_ids_listed bt_ok_keys)

lemma list_ids_keys:
  assumes "bt_ok fs" and "bt_ok m" and "set (list_ids dir fs) = set (bt_keys m)"
  shows "list_ids dir fs = bt_keys m"
  using list_ids_strict [OF assms(1), of dir] assms(2,3)
  by (intro sorted_distinct_set_unique) (auto simp: bt_ok_keys)

lemma bt_get_member: "bt_ok m \<Longrightarrow> (s, v) \<in> set m \<longleftrightarrow> bt_get m s = Some v"
  by (auto simp: bt_get_def bt_ok_keys bt_keys_def dest: map_of_SomeD)

lemma bt_keys_insert: "set (bt_keys (bt_insert k v m)) = insert k (set (bt_keys m))"
  by (simp add: bt_keys_def bt_insert_keys del: set_map)

lemma bt_contains_insert: "bt_contains (bt_insert k v m) j \<longleftrightarrow> j = k \<or> bt_contains m j"
  by (simp add: bt_contains_def bt_get_insert)

lemma save_filed:
  assumes "filed se dt dir m fs" and "bt_ok fs" and "valid_id s" and "doc_ok dt v"
  shows "filed se dt dir (bt_insert s v m) (bt_insert (dir @ ''/'' @ s @ ''.json'') (document_text se dt v) fs)"
proof -
  have m: "bt_ok m" using assms(1) by (simp add: filed_def)
  have "set (list_ids dir (bt_insert (dir @ ''/'' @ s @ ''.json'') (document_text se dt v) fs)) = insert s (set (list_ids dir fs))"
    using valid_id_no_slash [OF assms(3)] by (auto simp: list_ids_mem bt_contains_insert)
  then have "list_ids dir (bt_insert (dir @ ''/'' @ s @ ''.json'') (document_text se dt v) fs) = bt_keys (bt_insert s v m)"
    using assms(1,2) m by (intro list_ids_keys bt_ok_insert) (auto simp: bt_keys_insert filed_def)
  moreover have "valid_id j \<and> doc_ok dt w \<and>
      bt_get (bt_insert (dir @ ''/'' @ s @ ''.json'') (document_text se dt v) fs) (dir @ ''/'' @ j @ ''.json'') = Some (document_text se dt w)"
    if "(j, w) \<in> set (bt_insert s v m)" for j w
    using that filed_get [OF assms(1), of j w] assms(3,4)
    by (auto simp: bt_get_member [OF bt_ok_insert [OF m]] bt_get_insert split: if_splits)
  ultimately show ?thesis using m by (auto simp: filed_def bt_ok_insert)
qed

lemma filed_other:
  assumes "filed se dt dir m fs" and "bt_ok fs" and "\<not> in_dir dir p"
  shows "filed se dt dir m (bt_insert p b fs)"
proof -
  have p: "p \<noteq> dir @ ''/'' @ s @ ''.json''" if "CHR ''/'' \<notin> set s" for s
  proof
    assume "p = dir @ ''/'' @ s @ ''.json''"
    then have "in_dir dir p"
      using that unfolding in_dir_def by (intro exI [of _ "s @ ''.json''"]) auto
    with assms(3) show False ..
  qed
  have "s \<in> set (list_ids dir (bt_insert p b fs)) \<longleftrightarrow> s \<in> set (list_ids dir fs)" for s
    using p [of s] by (auto simp: list_ids_mem bt_contains_insert)
  then have "set (list_ids dir (bt_insert p b fs)) = set (list_ids dir fs)" by blast
  then have "list_ids dir (bt_insert p b fs) = bt_keys m"
    using assms(1,2) by (intro list_ids_keys bt_ok_insert) (auto simp: filed_def)
  then show ?thesis
    using assms(1) p valid_id_no_slash by (fastforce simp: filed_def bt_get_insert)
qed

lemma load_all_filed:
  assumes "codec_ok (se_codec se)" and "filed se dt dir m fs" and "\<forall>(s, v) \<in> set kvs. bt_get m s = Some v"
  shows "load_all se stamp dt dir (bt_keys kvs) fs = (Inr (bt_values kvs), fs)"
  using assms(3)
proof (induction kvs)
  case (Cons kv kvs)
  obtain s v where kv: "kv = (s, v)" by (cases kv)
  have "load_doc se stamp dt dir s fs = (Inr v, fs)"
    using Cons.prems kv filed_get [OF assms(2), of s v] load_filed [OF assms(1,2), of stamp s]
    by (simp add: fetch_def eff_defs)
  then show ?case using Cons by (simp add: kv bt_keys_def bt_values_def eff_defs)
qed (simp add: bt_keys_def bt_values_def eff_defs)

lemma list_filed:
  assumes "codec_ok (se_codec se)" and "filed se dt dir m fs"
  shows "list_docs se stamp dt dir key fs = (Inr (documents (\<lambda>m. m) key m), fs)"
proof -
  have "bt_ok m" "list_ids dir fs = bt_keys m" using assms(2) by (auto simp: filed_def)
  moreover from this have "\<forall>(s, v) \<in> set m. bt_get m s = Some v" by (auto simp: bt_get_member)
  ultimately have "load_all se stamp dt dir (list_ids dir fs) fs = (Inr (bt_values m), fs)"
    using load_all_filed [OF assms, of m stamp] by simp
  then show ?thesis by (simp add: list_docs_def documents_def eff_defs)
qed

subsection \<open>A whole store\<close>

definition switch_filed :: "store_env \<Rightarrow> scheduler_state \<Rightarrow> files \<Rightarrow> bool" where
  "switch_filed se s fs \<longleftrightarrow>
     (case bt_get fs (scheduler_file (se_base se)) of
        None \<Rightarrow> s = \<lparr> sched_paused = False \<rparr>
      | Some c \<Rightarrow> doc_ok (se_scheduler se) s \<and> c = document_text se (se_scheduler se) s)"

definition represents :: "store_env \<Rightarrow> epic doc_type \<Rightarrow> files \<Rightarrow> repository \<Rightarrow> bool" where
  "represents se dt fs rp \<longleftrightarrow> bt_ok fs
     \<and> filed se (se_task se) (dir_tasks (se_base se)) (rp_tasks rp) fs
     \<and> filed se (se_run se) (dir_runs (se_base se)) (rp_runs rp) fs
     \<and> filed se (se_approval se) (dir_approvals (se_base se)) (rp_approvals rp) fs
     \<and> filed se (se_control se) (dir_control (se_base se)) (rp_controls rp) fs
     \<and> filed se dt (dir_epics (se_base se)) (rp_epics rp) fs \<and> (\<forall>k \<in> set (bt_keys (rp_epics rp)). epic_ref k = k)
     \<and> switch_filed se (rp_scheduler rp) fs
     \<and> read_counter (counter_file (se_base se)) fs = rp_task_counter rp
     \<and> read_counter (epic_counter_file (se_base se)) fs = rp_epic_counter rp"

text \<open>\<open>agrees\<close>: from files that represent a repository, the operation on the files and the one on the
  repository give the same result and leave files that represent the new repository. It is kept by
  sequencing, so it extends to every program of these operations.\<close>

definition agrees ::
  "store_env \<Rightarrow> epic doc_type \<Rightarrow> (files, 'a) eff \<Rightarrow> (repository, 'a) eff \<Rightarrow> bool" where
  "agrees se dt m n \<longleftrightarrow> (\<forall>fs rp. represents se dt fs rp \<longrightarrow>
     fst (m fs) = fst (n rp) \<and> represents se dt (snd (m fs)) (snd (n rp)))"

named_theorems agree_intros \<open>operations on files that implement operations on the repository\<close>

lemma agreesI:
  "(\<And>fs rp. represents se dt fs rp \<Longrightarrow> \<exists>fs' rp' r. m fs = (r, fs') \<and> n rp = (r, rp') \<and> represents se dt fs' rp') \<Longrightarrow>
   agrees se dt m n"
  by (fastforce simp: agrees_def)

lemma agreesD:
  "agrees se dt m n \<Longrightarrow> represents se dt fs rp \<Longrightarrow> \<exists>fs' rp' r. m fs = (r, fs') \<and> n rp = (r, rp') \<and> represents se dt fs' rp'"
  by (metis agrees_def prod.collapse)

lemma agrees_ret [agree_intros]: "agrees se dt (ret x) (ret x)"
  by (simp add: agrees_def ret_def)

lemma agrees_lift [agree_intros]: "agrees se dt (lift_result x) (lift_result x)"
  by (simp add: agrees_def lift_result_def)

lemma agrees_bail [agree_intros]: "agrees se dt (bail e) (bail e)"
  by (simp add: agrees_def bail_def)

lemma agrees_bnd [agree_intros]:
  assumes "agrees se dt m n" and "\<And>x. agrees se dt (f x) (g x)"
  shows "agrees se dt (bnd m f) (bnd n g)"
proof (rule agreesI)
  fix fs rp assume "represents se dt fs rp"
  from agreesD [OF assms(1) this] obtain fs' rp' r where
    1: "m fs = (r, fs')" "n rp = (r, rp')" "represents se dt fs' rp'" by blast
  show "\<exists>fs' rp' r. bnd m f fs = (r, fs') \<and> bnd n g rp = (r, rp') \<and> represents se dt fs' rp'"
    using 1 agreesD [OF assms(2) 1(3)] by (cases r) (auto simp: bnd_def)
qed

lemma agrees_andthen [agree_intros]:
  "agrees se dt m n \<Longrightarrow> agrees se dt m' n' \<Longrightarrow> agrees se dt (andthen m m') (andthen n n')"
  unfolding andthen_def by (rule agrees_bnd)

lemma agrees_attempt [agree_intros]: "agrees se dt m n \<Longrightarrow> agrees se dt (attempt m) (attempt n)"
  by (simp add: agrees_def attempt_def case_prod_beta)


subsection \<open>The operations\<close>

text \<open>A document in one directory is no file of another one, nor of the counters and the switch.\<close>

abbreviation doc_file :: "path \<Rightarrow> string \<Rightarrow> path" where
  "doc_file dir s \<equiv> dir @ ''/'' @ s @ ''.json''"

lemmas layout_defs = dir_tasks_def dir_runs_def dir_approvals_def dir_control_def dir_epics_def
  scheduler_file_def counter_file_def epic_counter_file_def in_dir_def

lemma apart_tasks:
  "\<not> in_dir (dir_runs b) (doc_file (dir_tasks b) s)" "\<not> in_dir (dir_approvals b) (doc_file (dir_tasks b) s)"
  "\<not> in_dir (dir_control b) (doc_file (dir_tasks b) s)" "\<not> in_dir (dir_epics b) (doc_file (dir_tasks b) s)"
  "scheduler_file b \<noteq> doc_file (dir_tasks b) s" "counter_file b \<noteq> doc_file (dir_tasks b) s" "epic_counter_file b \<noteq> doc_file (dir_tasks b) s"
  by (auto simp: layout_defs)

lemma apart_runs:
  "\<not> in_dir (dir_tasks b) (doc_file (dir_runs b) s)" "\<not> in_dir (dir_approvals b) (doc_file (dir_runs b) s)"
  "\<not> in_dir (dir_control b) (doc_file (dir_runs b) s)" "\<not> in_dir (dir_epics b) (doc_file (dir_runs b) s)"
  "scheduler_file b \<noteq> doc_file (dir_runs b) s" "counter_file b \<noteq> doc_file (dir_runs b) s" "epic_counter_file b \<noteq> doc_file (dir_runs b) s"
  by (auto simp: layout_defs)

lemma apart_approvals:
  "\<not> in_dir (dir_tasks b) (doc_file (dir_approvals b) s)" "\<not> in_dir (dir_runs b) (doc_file (dir_approvals b) s)"
  "\<not> in_dir (dir_control b) (doc_file (dir_approvals b) s)" "\<not> in_dir (dir_epics b) (doc_file (dir_approvals b) s)"
  "scheduler_file b \<noteq> doc_file (dir_approvals b) s" "counter_file b \<noteq> doc_file (dir_approvals b) s" "epic_counter_file b \<noteq> doc_file (dir_approvals b) s"
  by (auto simp: layout_defs)

lemma apart_control:
  "\<not> in_dir (dir_tasks b) (doc_file (dir_control b) s)" "\<not> in_dir (dir_runs b) (doc_file (dir_control b) s)"
  "\<not> in_dir (dir_approvals b) (doc_file (dir_control b) s)" "\<not> in_dir (dir_epics b) (doc_file (dir_control b) s)"
  "scheduler_file b \<noteq> doc_file (dir_control b) s" "counter_file b \<noteq> doc_file (dir_control b) s" "epic_counter_file b \<noteq> doc_file (dir_control b) s"
  by (auto simp: layout_defs)

lemma apart_epics:
  "\<not> in_dir (dir_tasks b) (doc_file (dir_epics b) s)" "\<not> in_dir (dir_runs b) (doc_file (dir_epics b) s)"
  "\<not> in_dir (dir_approvals b) (doc_file (dir_epics b) s)" "\<not> in_dir (dir_control b) (doc_file (dir_epics b) s)"
  "scheduler_file b \<noteq> doc_file (dir_epics b) s" "counter_file b \<noteq> doc_file (dir_epics b) s" "epic_counter_file b \<noteq> doc_file (dir_epics b) s"
  by (auto simp: layout_defs)

lemma apart_plain:
  "p \<in> {scheduler_file b, counter_file b, epic_counter_file b} \<Longrightarrow>
   \<not> in_dir (dir_tasks b) p \<and> \<not> in_dir (dir_runs b) p \<and> \<not> in_dir (dir_approvals b) p \<and> \<not> in_dir (dir_control b) p
     \<and> \<not> in_dir (dir_epics b) p"
  "scheduler_file b \<noteq> counter_file b" "scheduler_file b \<noteq> epic_counter_file b" "counter_file b \<noteq> epic_counter_file b"
  by (auto simp: layout_defs)

lemma read_counter_insert: "p \<noteq> q \<Longrightarrow> read_counter p (bt_insert q b fs) = read_counter p fs"
  by (simp add: read_counter_def bt_get_insert)

lemma switch_filed_insert:
  "scheduler_file (se_base se) \<noteq> p \<Longrightarrow> switch_filed se s (bt_insert p b fs) = switch_filed se s fs"
  by (simp add: switch_filed_def bt_get_insert)

lemmas filing = save_filed filed_other bt_ok_insert read_counter_insert switch_filed_insert bt_keys_insert

lemma represents_task:
  "represents se dt fs rp \<Longrightarrow> valid_id s \<Longrightarrow> doc_ok (se_task se) v \<Longrightarrow>
   represents se dt (bt_insert (doc_file (dir_tasks (se_base se)) s) (document_text se (se_task se) v) fs)
     (rp_tasks_update (bt_insert s v) rp)"
  unfolding represents_def by (simp add: filing apart_tasks del: append.simps)

lemma represents_run:
  "represents se dt fs rp \<Longrightarrow> valid_id s \<Longrightarrow> doc_ok (se_run se) v \<Longrightarrow>
   represents se dt (bt_insert (doc_file (dir_runs (se_base se)) s) (document_text se (se_run se) v) fs)
     (rp_runs_update (bt_insert s v) rp)"
  unfolding represents_def by (simp add: filing apart_runs del: append.simps)

lemma represents_approval:
  "represents se dt fs rp \<Longrightarrow> valid_id s \<Longrightarrow> doc_ok (se_approval se) v \<Longrightarrow>
   represents se dt (bt_insert (doc_file (dir_approvals (se_base se)) s) (document_text se (se_approval se) v) fs)
     (rp_approvals_update (bt_insert s v) rp)"
  unfolding represents_def by (simp add: filing apart_approvals del: append.simps)

lemma represents_control:
  "represents se dt fs rp \<Longrightarrow> valid_id s \<Longrightarrow> doc_ok (se_control se) v \<Longrightarrow>
   represents se dt (bt_insert (doc_file (dir_control (se_base se)) s) (document_text se (se_control se) v) fs)
     (rp_controls_update (bt_insert s v) rp)"
  unfolding represents_def by (simp add: filing apart_control del: append.simps)

lemma represents_epic:
  "represents se dt fs rp \<Longrightarrow> valid_id s \<Longrightarrow> doc_ok dt v \<Longrightarrow> epic_ref s = s \<Longrightarrow>
   represents se dt (bt_insert (doc_file (dir_epics (se_base se)) s) (document_text se dt v) fs)
     (rp_epics_update (bt_insert s v) rp)"
  unfolding represents_def by (simp add: filing apart_epics del: append.simps)

lemma represents_scheduler:
  "represents se dt fs rp \<Longrightarrow> doc_ok (se_scheduler se) v \<Longrightarrow>
   represents se dt (bt_insert (scheduler_file (se_base se)) (document_text se (se_scheduler se) v) fs)
     (rp\<lparr> rp_scheduler := v \<rparr>)"
  unfolding represents_def by (simp add: filing apart_plain apart_plain(2,3) [symmetric] switch_filed_def bt_get_insert)

lemma represents_counter:
  "represents se dt fs rp \<Longrightarrow> n < 2 ^ 64 \<Longrightarrow>
   represents se dt (bt_insert (counter_file (se_base se)) (nat_str n) fs) (rp\<lparr> rp_task_counter := n \<rparr>)"
  "represents se dt fs rp \<Longrightarrow> n < 2 ^ 64 \<Longrightarrow>
   represents se dt (bt_insert (epic_counter_file (se_base se)) (nat_str n) fs) (rp\<lparr> rp_epic_counter := n \<rparr>)"
  unfolding represents_def
  by (simp_all add: filing apart_plain apart_plain(4) [symmetric])
     (simp_all add: read_counter_def bt_get_insert trim_nat_str parse_nat_str)


definition store_laws :: "store_env \<Rightarrow> epic doc_type \<Rightarrow> bool" where
  "store_laws se dt \<longleftrightarrow> codec_ok (se_codec se) \<and> dt_kind (se_task se) = ''task'' \<and> dt_kind (se_run se) = ''run''
     \<and> dt_kind (se_approval se) = ''approval'' \<and> dt_kind dt = ''epic''"

lemma fetch_at: "fetch kind sel s st = (fst (fetch kind (\<lambda>m. m) s (sel st)), st)"
  by (simp add: fetch_def eff_defs split: option.splits)

lemma agrees_fetch:
  assumes "codec_ok (se_codec se)" and "\<And>fs rp. represents se dt fs rp \<Longrightarrow> filed se dt' dir (sel rp) fs"
  shows "agrees se dt (load_doc se stamp dt' dir s) (fetch (dt_kind dt') sel s)"
proof (rule agreesI)
  fix fs rp assume r: "represents se dt fs rp"
  show "\<exists>fs' rp' r. load_doc se stamp dt' dir s fs = (r, fs') \<and> fetch (dt_kind dt') sel s rp = (r, rp')
      \<and> represents se dt fs' rp'"
    using r load_filed [OF assms(1) assms(2) [OF r], of stamp s] fetch_at [of "dt_kind dt'" sel s rp] by auto
qed

lemma represents_filed:
  assumes "represents se dt fs rp"
  shows "filed se (se_task se) (dir_tasks (se_base se)) (rp_tasks rp) fs"
    and "filed se (se_run se) (dir_runs (se_base se)) (rp_runs rp) fs"
    and "filed se (se_approval se) (dir_approvals (se_base se)) (rp_approvals rp) fs"
    and "filed se (se_control se) (dir_control (se_base se)) (rp_controls rp) fs"
    and "filed se dt (dir_epics (se_base se)) (rp_epics rp) fs"
  using assms by (simp_all add: represents_def)

lemma agrees_load:
  assumes "store_laws se dt"
  shows "agrees se dt (load_task se stamp s) (get_task s)"
    and "agrees se dt (load_run se stamp s) (get_run s)"
    and "agrees se dt (load_approval se stamp s) (get_approval s)"
    and "agrees se dt (load_epic se dt stamp s) (get_epic s)"
proof -
  have c: "codec_ok (se_codec se)" using assms by (simp add: store_laws_def)
  show "agrees se dt (load_task se stamp s) (get_task s)"
    using agrees_fetch [OF c, of dt "se_task se" "dir_tasks (se_base se)" rp_tasks stamp s] represents_filed(1) assms
    by (simp add: store_laws_def load_task_def get_task_def)
  show "agrees se dt (load_run se stamp s) (get_run s)"
    using agrees_fetch [OF c, of dt "se_run se" "dir_runs (se_base se)" rp_runs stamp s] represents_filed(2) assms
    by (simp add: store_laws_def load_run_def get_run_def)
  show "agrees se dt (load_approval se stamp s) (get_approval s)"
    using agrees_fetch [OF c, of dt "se_approval se" "dir_approvals (se_base se)" rp_approvals stamp s]
      represents_filed(3) assms by (simp add: store_laws_def load_approval_def get_approval_def)
  show "agrees se dt (load_epic se dt stamp s) (get_epic s)"
    using agrees_fetch [OF c, of dt dt "dir_epics (se_base se)" rp_epics stamp "epic_ref s"] represents_filed(5) assms
    by (simp add: store_laws_def load_epic_def get_epic_def)
qed

lemma agrees_docs:
  assumes "codec_ok (se_codec se)" and "\<And>fs rp. represents se dt fs rp \<Longrightarrow> filed se dt' dir (sel rp) fs"
  shows "agrees se dt (list_docs se stamp dt' dir key) (gets (documents sel key))"
proof (rule agreesI)
  fix fs rp assume r: "represents se dt fs rp"
  have "list_docs se stamp dt' dir key fs = (Inr (documents sel key rp), fs)"
    using list_filed [OF assms(1) assms(2) [OF r], of stamp key] by (simp add: documents_def)
  then show "\<exists>fs' rp' r. list_docs se stamp dt' dir key fs = (r, fs') \<and> gets (documents sel key) rp = (r, rp')
      \<and> represents se dt fs' rp'"
    using r by (simp add: gets_def)
qed

lemma agrees_list:
  assumes "store_laws se dt"
  shows "agrees se dt (list_tasks se stamp) all_tasks"
    and "agrees se dt (list_runs se stamp) all_runs"
    and "agrees se dt (list_approvals se stamp) all_approvals"
  using assms
  by (auto simp: store_laws_def list_tasks_def all_tasks_def list_runs_def all_runs_def
      list_approvals_def all_approvals_def intro!: agrees_docs intro: represents_filed)

lemma load_epics_all:
  "\<forall>k \<in> set ks. epic_ref k = k \<Longrightarrow> load_epics se dt stamp ks = load_all se stamp dt (dir_epics (se_base se)) ks"
  by (induction ks) (simp_all add: load_epic_def)

lemma agrees_list_epics:
  assumes "store_laws se dt"
  shows "agrees se dt (list_epics se dt stamp) all_epics"
proof (rule agreesI)
  fix fs rp assume r: "represents se dt fs rp"
  then have f: "filed se dt (dir_epics (se_base se)) (rp_epics rp) fs" by (simp add: represents_def)
  moreover have "load_epics se dt stamp (list_ids (dir_epics (se_base se)) fs)
      = load_all se stamp dt (dir_epics (se_base se)) (list_ids (dir_epics (se_base se)) fs)"
    using r by (intro load_epics_all) (auto simp: represents_def filed_def)
  ultimately have "list_epics se dt stamp fs = list_docs se stamp dt (dir_epics (se_base se)) (\<lambda>e. epic_number (ep_epic_id e)) fs"
    by (simp add: list_epics_def list_docs_def eff_defs)
  also have "\<dots> = (Inr (documents rp_epics (\<lambda>e. epic_number (ep_epic_id e)) rp), fs)"
    using list_filed [of se, OF _ f] assms by (simp add: store_laws_def documents_def)
  finally show "\<exists>fs' rp' r. list_epics se dt stamp fs = (r, fs') \<and> all_epics rp = (r, rp') \<and> represents se dt fs' rp'"
    using r by (simp add: all_epics_def gets_def)
qed

lemma put_at:
  "put upd s v st = (if valid_id s then (Inr (), upd (bt_insert s v) st) else (Inl (id_error s), st))"
  by (simp add: put_def eff_defs)

lemma save_doc_at:
  "save_doc se dt dir s v fs = (if valid_id s then (Inr (), bt_insert (doc_file dir s) (document_text se dt v) fs)
     else (Inl (id_error s), fs))"
  using save_doc_valid [of s se dt dir v fs]
  by (simp add: document_text_def) (simp add: save_doc_def doc_path_def eff_defs id_error_def)

lemma agrees_save:
  "doc_ok (se_task se) t \<Longrightarrow> agrees se dt (save_task se t) (put_task t)"
  "doc_ok (se_run se) r \<Longrightarrow> agrees se dt (save_run se r) (put_run r)"
  "doc_ok (se_approval se) a \<Longrightarrow> agrees se dt (save_approval se a) (put_approval a)"
  "doc_ok dt e \<Longrightarrow> epic_ref (ep_epic_id e) = ep_epic_id e \<Longrightarrow> agrees se dt (save_epic se dt e) (put_epic e)"
  by (auto simp: agrees_def save_task_def put_task_def save_run_def put_run_def save_approval_def put_approval_def
      save_epic_def put_epic_def save_doc_at put_at represents_task represents_run represents_approval represents_epic
      simp del: append.simps append_Cons)


lemma agrees_control:
  assumes "codec_ok (se_codec se)"
  shows "agrees se dt (load_control se stamp s) (get_control s)"
proof (rule agreesI)
  fix fs rp assume r: "represents se dt fs rp"
  note f = represents_filed(4) [OF r]
  have "load_control se stamp s fs = (fst (get_control s rp), fs)"
  proof (cases "valid_id s")
    case True
    show ?thesis
    proof (cases "bt_get (rp_controls rp) s")
      case None
      then show ?thesis
        using True filed_none [OF f None True] by (simp add: load_control_def get_control_def eff_defs doc_path_Inr)
    next
      case (Some c)
      then show ?thesis
        using True filed_get [OF f Some] read_written [OF assms, of "se_control se" c fs]
        by (simp add: load_control_def get_control_def eff_defs doc_path_Inr bt_contains_def document_text_def)
    qed
  qed (simp add: load_control_def get_control_def eff_defs doc_path_def id_error_def)
  moreover have "snd (get_control s rp) = rp" by (simp add: get_control_def eff_defs)
  ultimately show "\<exists>fs' rp' r. load_control se stamp s fs = (r, fs') \<and> get_control s rp = (r, rp') \<and> represents se dt fs' rp'"
    using r by (metis prod.collapse)
qed

lemma agrees_save_control:
  "doc_ok (se_control se) c \<Longrightarrow>
   agrees se dt (save_doc se (se_control se) (dir_control (se_base se)) s c) (put rp_controls_update s c)"
  by (auto simp: agrees_def save_doc_at put_at represents_control simp del: append.simps append_Cons)

lemma agrees_scheduler:
  assumes "codec_ok (se_codec se)"
  shows "agrees se dt (load_scheduler se stamp) get_scheduler"
    and "doc_ok (se_scheduler se) s \<Longrightarrow> agrees se dt (save_scheduler se s) (put_scheduler s)"
proof -
  have "load_scheduler se stamp fs = (Inr (rp_scheduler rp), fs)" if "represents se dt fs rp" for fs rp
    using that read_written [OF assms, of "se_scheduler se" "rp_scheduler rp" fs]
    by (auto simp: represents_def switch_filed_def load_scheduler_def bt_contains_def eff_defs document_text_def
        split: option.splits)
  then show "agrees se dt (load_scheduler se stamp) get_scheduler"
    by (simp add: agrees_def get_scheduler_def gets_def)
  show "doc_ok (se_scheduler se) s \<Longrightarrow> agrees se dt (save_scheduler se s) (put_scheduler s)"
    by (simp add: agrees_def save_scheduler_def put_scheduler_def write_doc_def write_value_def atomic_write_def
        modify_def represents_scheduler [unfolded document_text_def])
qed

lemma next_number_bound: "next_number cur ns < 2 ^ 64"
  by (simp add: next_number_def u64_add_def)

lemma represents_numbers:
  assumes "represents se dt fs rp"
  shows "read_counter (counter_file (se_base se)) fs = rp_task_counter rp"
    and "read_counter (epic_counter_file (se_base se)) fs = rp_epic_counter rp"
    and "list_ids (dir_tasks (se_base se)) fs = bt_keys (rp_tasks rp)"
    and "list_ids (dir_epics (se_base se)) fs = bt_keys (rp_epics rp)"
  using assms by (simp_all add: represents_def filed_def)

lemma agrees_counters:
  "agrees se dt (next_task_number se) new_task_number"
  "agrees se dt (next_epic_id se) new_epic_id"
  by (auto simp: agrees_def next_task_number_def new_task_number_def next_epic_id_def new_epic_id_def atomic_write_def
      eff_defs represents_numbers intro!: represents_counter next_number_bound)

lemma agrees_value:
  "(\<And>x. r = Inr x \<Longrightarrow> agrees se dt (f x) (g x)) \<Longrightarrow> agrees se dt (bnd (lift_result r) f) (bnd (lift_result r) g)"
  by (cases r) (simp_all add: agrees_def bnd_def lift_result_def)

lemma agrees_update:
  assumes "store_laws se dt"
  shows "\<forall>t t'. ft t = Inr t' \<longrightarrow> doc_ok (se_task se) (t'\<lparr> t_updated_at := now \<rparr>) \<Longrightarrow>
      agrees se dt (update_task se stamp now s ft) (change_task now s ft)"
    and "\<forall>a a'. fa a = Inr a' \<longrightarrow> doc_ok (se_approval se) a' \<Longrightarrow>
      agrees se dt (update_approval se stamp s fa) (change_approval s fa)"
    and "\<forall>c. doc_ok (se_control se) (fc c) \<Longrightarrow> agrees se dt (update_control se stamp s fc) (change_control s fc)"
    and "\<forall>e e'. fe e = Inr e' \<longrightarrow> doc_ok dt (e'\<lparr> ep_updated_at := now \<rparr>) \<and> epic_ref (ep_epic_id e') = ep_epic_id e' \<Longrightarrow>
      agrees se dt (update_epic se dt stamp now s fe) (change_epic now s fe)"
proof -
  have c: "codec_ok (se_codec se)" using assms by (simp add: store_laws_def)
  show "\<forall>t t'. ft t = Inr t' \<longrightarrow> doc_ok (se_task se) (t'\<lparr> t_updated_at := now \<rparr>) \<Longrightarrow>
      agrees se dt (update_task se stamp now s ft) (change_task now s ft)"
    unfolding update_task_def change_task_def Let_def
    by (rule agrees_bnd, rule agrees_load [OF assms], rule agrees_value, rule agrees_andthen, rule agrees_save, simp, rule agrees_ret)
  show "\<forall>a a'. fa a = Inr a' \<longrightarrow> doc_ok (se_approval se) a' \<Longrightarrow>
      agrees se dt (update_approval se stamp s fa) (change_approval s fa)"
    unfolding update_approval_def change_approval_def
    by (rule agrees_bnd, rule agrees_load [OF assms], rule agrees_value, rule agrees_andthen, rule agrees_save, simp, rule agrees_ret)
  show "\<forall>c. doc_ok (se_control se) (fc c) \<Longrightarrow> agrees se dt (update_control se stamp s fc) (change_control s fc)"
    unfolding update_control_def change_control_def
    by (rule agrees_bnd, rule agrees_control [OF c], rule agrees_andthen, rule agrees_save_control, simp, rule agrees_ret)
  show "\<forall>e e'. fe e = Inr e' \<longrightarrow> doc_ok dt (e'\<lparr> ep_updated_at := now \<rparr>) \<and> epic_ref (ep_epic_id e') = ep_epic_id e' \<Longrightarrow>
      agrees se dt (update_epic se dt stamp now s fe) (change_epic now s fe)"
    unfolding update_epic_def change_epic_def Let_def
    by (rule agrees_bnd, rule agrees_load [OF assms], rule agrees_bnd, rule agrees_load [OF assms], rule agrees_value,
        rule agrees_andthen, rule agrees_save, simp, simp, rule agrees_ret)
qed


subsection \<open>Witness\<close>

definition sample_epics :: "epic doc_type" where
  "sample_epics = \<lparr> dt_kind = ''epic'', dt_to = (\<lambda>_. JNull), dt_from = (\<lambda>_. Inl ''none'') \<rparr>"

definition empty_repository :: repository where
  "empty_repository = \<lparr> rp_tasks = [], rp_runs = [], rp_approvals = [], rp_controls = [], rp_epics = [],
     rp_scheduler = \<lparr> sched_paused = False \<rparr>, rp_task_counter = 0, rp_epic_counter = 0 \<rparr>"

lemma sample_laws: "store_laws sample_store sample_epics"
  using sample_codec by (simp add: store_laws_def sample_epics_def) (simp add: sample_store_def)

lemma sample_represents: "represents sample_store sample_epics [] empty_repository"
  by (simp add: represents_def filed_def empty_repository_def list_ids_def bt_keys_def bt_ok_def switch_filed_def
      read_counter_def bt_get_def List.map_filter_def)


end
