(* ===== verification/Profiles.thy ===== *)
theory Profiles
  imports Driver
begin

text \<open>
  Runner profiles, \<open>src/runners/profiles.rs\<close> and the factory of \<open>src/runners/mod.rs\<close>: the built-in
  profiles, the overrides of the configuration, the flags that choose a model, and which runner a
  name stands for.
\<close>

definition HERDR_AGENT_KINDS :: "string list" where
  "HERDR_AGENT_KINDS = [''pi'', ''claude'', ''codex'', ''gemini'', ''cursor'', ''devin'', ''agy'', ''cline'', ''omp'',
     ''mastracode'', ''opencode'', ''copilot'', ''kimi'', ''kiro'', ''droid'', ''amp'', ''grok'', ''hermes'', ''kilo'',
     ''qodercli'', ''qwen'', ''letta'', ''maki'', ''muse'']"

definition FAKE_SCENARIOS :: "string list" where
  "FAKE_SCENARIOS = [''success'', ''fail'', ''timeout'', ''review-findings'', ''review-approve'', ''review-fix'',
     ''review-invalid'', ''fix-on-retry'', ''touch-secret'', ''touch-migration'', ''crash'', ''noop'', ''skip-test'',
     ''tests-only-on-retry'', ''touch-agent-config'', ''plan'', ''plan-invalid'', ''plan-fix'', ''plan-writes'',
     ''acceptance-met'', ''acceptance-unmet'', ''acceptance-fix'', ''conformance'', ''contract'', ''contract-green'',
     ''fix-contract'', ''contract-tamper'', ''resolve-conflicts'', ''leave-note'']"

text \<open>The overrides of a runner in the configuration (\<open>RunnerProfileConfig\<close>).\<close>

record profile_config =
  pc_mode :: "string option"
  pc_kind :: "string option"
  pc_args :: "string list option"
  pc_command :: "string list option"
  pc_env_inherit :: "string list option"
  pc_model :: "string option"
  pc_effort :: "string option"
  pc_advisor :: "string option"

subsection \<open>Built-in profiles\<close>

definition base_profile :: "string \<Rightarrow> string \<Rightarrow> runner_profile" where
  "base_profile name kind = \<lparr> rp_name = name, rp_mode = ModePane, rp_kind = Some kind, rp_pane_args = [],
     rp_headless = None, rp_usage_format = ''none'', rp_interrupt_keys = [''esc''], rp_env_inherit = [],
     rp_fake_scenario = None, rp_model = None, rp_effort = None, rp_advisor = None, rp_env = [] \<rparr>"

definition claude_profile :: "string \<Rightarrow> runner_profile" where
  "claude_profile name = (base_profile name ''claude'')\<lparr>
     rp_pane_args := [''--permission-mode'', ''acceptEdits''],
     rp_headless := Some [''claude'', ''-p'', ''--output-format'', ''json'', ''--permission-mode'', ''acceptEdits''],
     rp_usage_format := ''claude-json'', rp_env_inherit := [''ANTHROPIC_*'', ''CLAUDE_*''] \<rparr>"

definition builtin_profile :: "string \<Rightarrow> runner_profile option" where
  "builtin_profile name =
     (if name = ''claude'' then Some (claude_profile name)
      else if name = ''codex'' then Some ((base_profile name ''codex'')\<lparr>
        rp_pane_args := [''--sandbox'', ''workspace-write'', ''--ask-for-approval'', ''on-request''],
        rp_headless := Some [''codex'', ''exec'', ''--json'', ''--sandbox'', ''workspace-write'', ''--skip-git-repo-check'',
          ''--output-last-message'', ''{{output_file}}'', ''-''],
        rp_usage_format := ''codex-jsonl'', rp_interrupt_keys := [''esc''], rp_env_inherit := [''OPENAI_*'', ''CODEX_*''] \<rparr>)
      else if name = ''opencode'' then Some ((base_profile name ''opencode'')\<lparr>
        rp_headless := Some [''opencode'', ''run'', ''{{prompt}}''] \<rparr>)
      else if name = ''gemini'' then Some ((base_profile name ''gemini'')\<lparr>
        rp_headless := Some [''gemini'', ''-p'', ''{{prompt}}''], rp_env_inherit := [''GEMINI_*'', ''GOOGLE_*''] \<rparr>)
      else if name = ''claude-deep'' then Some ((claude_profile name)\<lparr>
        rp_model := Some ''opus'', rp_effort := Some ''xhigh'', rp_advisor := Some ''opus'' \<rparr>)
      else if name = ''claude-fast'' then Some ((claude_profile name)\<lparr>
        rp_model := Some ''sonnet'', rp_effort := Some ''medium'', rp_advisor := Some ''off'' \<rparr>)
      else if name = ''copilot'' then Some (base_profile name ''copilot'')
      else if name = ''shell'' then Some ((base_profile name ''shell'')\<lparr> rp_mode := ModeShell, rp_kind := None \<rparr>)
      else if starts_with name ''fake-'' then
        (let sc = drop 5 name in
         if sc \<notin> set FAKE_SCENARIOS then None
         else Some ((base_profile name ''fake'')\<lparr> rp_mode := ModeFake, rp_kind := Some ''fake'',
            rp_fake_scenario := Some sc \<rparr>))
      else if name \<in> set HERDR_AGENT_KINDS then Some (base_profile name name)
      else None)"

definition builtin_names :: "string list" where
  "builtin_names = [''claude'', ''claude-deep'', ''claude-fast'', ''codex'', ''opencode'', ''gemini'', ''copilot'', ''shell'']
     @ map (\<lambda>s. ''fake-'' @ s) FAKE_SCENARIOS"

subsection \<open>Model settings\<close>

definition safe_value :: "string \<Rightarrow> bool" where
  "safe_value v \<longleftrightarrow> v \<noteq> [] \<and> length v \<le> 80 \<and> \<not> starts_with v ''-''
     \<and> list_all (\<lambda>c. is_ascii_alphanumeric c \<or> c \<in> set ''._:/-[]'') v"

definition check_settings :: "runner_profile \<Rightarrow> string + unit" where
  "check_settings p =
     check_all (\<lambda>(what, v). case v of None \<Rightarrow> Inr () | Some v \<Rightarrow>
         if safe_value v then Inr () else Inl (''invalid '' @ what @ '' '' @ debug_str v))
       [(''model'', rp_model p), (''effort'', rp_effort p), (''advisor'', rp_advisor p)]"

definition model_flags :: "string \<Rightarrow> string option \<Rightarrow> string + string list" where
  "model_flags kind m =
     (case m of None \<Rightarrow> Inr []
      | Some m \<Rightarrow>
        if kind \<in> {''claude'', ''opencode''} then Inr [''--model'', m]
        else if kind \<in> {''codex'', ''gemini''} then Inr [''-m'', m]
        else Inl (''`model` is not supported for agent kind '' @ debug_str kind @ ''; use `args`''))"

definition effort_flags :: "string \<Rightarrow> string option \<Rightarrow> string + string list" where
  "effort_flags kind e =
     (case e of None \<Rightarrow> Inr []
      | Some e \<Rightarrow>
        if kind = ''claude'' then
          (if e \<in> {''low'', ''medium'', ''high'', ''xhigh'', ''max''} then Inr [''--effort'', e]
           else Inl (''effort '' @ debug_str e @ '': use low, medium, high, xhigh or max''))
        else if kind = ''codex'' then
          (if e \<in> {''minimal'', ''low'', ''medium'', ''high'', ''xhigh''} then Inr [''-c'', ''model_reasoning_effort='' @ e]
           else Inl (''effort '' @ debug_str e @ '': use minimal, low, medium, high or xhigh''))
        else Inl (''`effort` is not supported for agent kind '' @ debug_str kind))"

text \<open>The flags of the advisor, and whether it is switched off in the environment.\<close>

definition advisor_flags :: "string \<Rightarrow> string option \<Rightarrow> string + string list \<times> bool" where
  "advisor_flags kind a =
     (case a of None \<Rightarrow> Inr ([], False)
      | Some a \<Rightarrow>
        if kind \<noteq> ''claude'' then Inl ''`advisor` is only supported for Claude''
        else if a = ''off'' then Inr ([], True)
        else Inr ([''--advisor'', a], False))"

definition flag_position :: "string \<Rightarrow> string list \<Rightarrow> nat" where
  "flag_position kind h =
     (if kind = ''codex'' then min 2 (length h)
      else case position (\<lambda>a. starts_with a ''{{'' \<or> a = ''-'') h of Some i \<Rightarrow> i | None \<Rightarrow> length h)"

definition splice_at :: "nat \<Rightarrow> 'a list \<Rightarrow> 'a list \<Rightarrow> 'a list" where
  "splice_at i new xs = take i xs @ new @ drop i xs"

definition apply_model_settings :: "runner_profile \<Rightarrow> string + runner_profile" where
  "apply_model_settings p =
     (let kind = (case rp_kind p of Some k \<Rightarrow> k | None \<Rightarrow> []) in
      sum_bind (check_settings p) (\<lambda>_.
      if rp_mode p = ModeFake \<or> rp_mode p = ModeShell then Inr p
      else
        sum_bind (model_flags kind (rp_model p)) (\<lambda>mf.
        sum_bind (effort_flags kind (rp_effort p)) (\<lambda>ef.
        sum_bind (advisor_flags kind (rp_advisor p)) (\<lambda>(af, off).
        let flags = mf @ ef @ af;
            p1 = (if off then p\<lparr> rp_env := bt_insert ''CLAUDE_CODE_DISABLE_ADVISOR_TOOL'' ''1'' (rp_env p) \<rparr> else p)
        in if flags = [] then Inr p1
           else Inr (p1\<lparr> rp_pane_args := rp_pane_args p1 @ flags,
                  rp_headless := map_option (\<lambda>h. splice_at (flag_position kind h) flags h) (rp_headless p1) \<rparr>))))))"

subsection \<open>Resolution\<close>

definition unknown_runner :: "string \<Rightarrow> string" where
  "unknown_runner name = ''unknown runner '' @ debug_str name @ '' (built-in: '' @ join '', '' builtin_names @ '')''"

text \<open>The profile the overrides start from.\<close>

definition initial_profile :: "string \<Rightarrow> profile_config option \<Rightarrow> string + runner_profile" where
  "initial_profile name ov =
     (case (builtin_profile name, ov) of
        (Some p, _) \<Rightarrow> Inr p
      | (None, None) \<Rightarrow> Inl (unknown_runner name)
      | (None, Some c) \<Rightarrow>
          if pc_mode c = None \<and> (case pc_kind c of Some k \<Rightarrow> k \<in> set HERDR_AGENT_KINDS | None \<Rightarrow> False) then
            (case Option.bind (pc_kind c) builtin_profile of
               Some b \<Rightarrow> Inr (b\<lparr> rp_name := name \<rparr>)
             | None \<Rightarrow> Inl (''unknown runner '' @ debug_str name))
          else if pc_mode c \<noteq> None then
            Inr \<lparr> rp_name = name, rp_mode = ModeShell, rp_kind = None, rp_pane_args = [], rp_headless = None,
              rp_usage_format = ''none'', rp_interrupt_keys = [''ctrl+c''], rp_env_inherit = [],
              rp_fake_scenario = None, rp_model = None, rp_effort = None, rp_advisor = None, rp_env = [] \<rparr>
          else Inl (unknown_runner name))"

definition parse_mode :: "string \<Rightarrow> string \<Rightarrow> string + runner_mode" where
  "parse_mode name m =
     (if m = ''pane'' then Inr ModePane else if m = ''headless'' then Inr ModeHeadless
      else if m = ''shell'' then Inr ModeShell
      else Inl (''runner '' @ name @ '': unknown mode '' @ debug_str m @ '' (pane, headless, shell)''))"

definition override_profile :: "string \<Rightarrow> profile_config \<Rightarrow> runner_profile \<Rightarrow> string + runner_profile" where
  "override_profile name c p =
     sum_bind (case pc_mode c of None \<Rightarrow> Inr (rp_mode p) | Some m \<Rightarrow> parse_mode name m) (\<lambda>mode.
     Inr (p\<lparr> rp_mode := mode,
        rp_kind := (case pc_kind c of Some k \<Rightarrow> Some k | None \<Rightarrow> rp_kind p),
        rp_pane_args := (case pc_args c of Some a \<Rightarrow> a | None \<Rightarrow> rp_pane_args p),
        rp_headless := (case pc_command c of Some a \<Rightarrow> Some a | None \<Rightarrow> rp_headless p),
        rp_env_inherit := (case pc_env_inherit c of Some a \<Rightarrow> a | None \<Rightarrow> rp_env_inherit p),
        rp_model := (case pc_model c of Some a \<Rightarrow> Some a | None \<Rightarrow> rp_model p),
        rp_effort := (case pc_effort c of Some a \<Rightarrow> Some a | None \<Rightarrow> rp_effort p),
        rp_advisor := (case pc_advisor c of Some a \<Rightarrow> Some a | None \<Rightarrow> rp_advisor p) \<rparr>))"

fun mode_debug :: "runner_mode \<Rightarrow> string" where
  "mode_debug ModePane = ''Pane''"
| "mode_debug ModeHeadless = ''Headless''"
| "mode_debug ModeShell = ''Shell''"
| "mode_debug ModeFake = ''Fake''"

definition check_profile :: "string \<Rightarrow> runner_profile \<Rightarrow> string + unit" where
  "check_profile name p =
     (case rp_mode p of
        ModePane \<Rightarrow>
          (let k = (case rp_kind p of Some k \<Rightarrow> k | None \<Rightarrow> []) in
           if k \<in> set HERDR_AGENT_KINDS then Inr ()
           else Inl (''runner '' @ name @ '': Herdr cannot start agent kind '' @ debug_str k))
      | ModeFake \<Rightarrow> Inr ()
      | m \<Rightarrow>
          if (case rp_headless p of Some (c # _) \<Rightarrow> \<not> str_contains c ''{{'' | _ \<Rightarrow> False) then Inr ()
          else Inl (''runner '' @ name @ '': mode '' @ mode_debug m @ '' needs `command` (argv array)''))"

definition resolve_profile :: "string \<Rightarrow> profile_config option \<Rightarrow> string + runner_profile" where
  "resolve_profile name ov =
     sum_bind (initial_profile name ov) (\<lambda>p0.
     sum_bind (case ov of None \<Rightarrow> Inr p0 | Some c \<Rightarrow> override_profile name c p0) (\<lambda>p1.
     sum_bind (with_context (''runner '' @ name) (apply_model_settings p1)) (\<lambda>p2.
     sum_bind (check_profile name p2) (\<lambda>_. Inr p2))))"

subsection \<open>The factory\<close>

record runner_factory =
  rf_herdr :: bool
  rf_herdr_required :: bool
  rf_overrides :: "(string, profile_config) btmap"

definition factory_profile :: "runner_factory \<Rightarrow> string \<Rightarrow> string + runner_profile" where
  "factory_profile f name = resolve_profile name (bt_get (rf_overrides f) name)"

text \<open>The runner that a name stands for is the mode of the profile that is returned; without Herdr a
  pane runner falls back to its headless command. A fake runner is always built here: its scenarios
  were checked by the profile.\<close>

definition build_runner :: "runner_factory \<Rightarrow> string \<Rightarrow> string + runner_profile" where
  "build_runner f name =
     sum_bind (factory_profile f name) (\<lambda>p.
     if rp_mode p = ModePane \<and> \<not> rf_herdr f then
       (if rf_herdr_required f then
          Inl (''runner '' @ name @ '' needs Herdr (herdr.mode: required) but Herdr is not reachable'')
        else if rp_headless p \<noteq> None then Inr (p\<lparr> rp_mode := ModeHeadless \<rparr>)
        else Inl (''runner '' @ name @ '' needs a Herdr pane but Herdr is not reachable and no headless command is configured''))
     else Inr p)"

subsection \<open>What a setting can add to a command line\<close>

definition setting_flags :: "string list" where
  "setting_flags = [''--model'', ''-m'', ''--effort'', ''-c'', ''--advisor'']"

definition setting_word :: "string \<Rightarrow> bool" where
  "setting_word x \<longleftrightarrow> x \<in> set setting_flags \<or> safe_value x
     \<or> (\<exists>e. x = ''model_reasoning_effort='' @ e \<and> safe_value e)"

definition launchable :: "runner_profile \<Rightarrow> bool" where
  "launchable p \<longleftrightarrow> (case rp_mode p of
      ModePane \<Rightarrow> (\<exists>k. rp_kind p = Some k \<and> k \<in> set HERDR_AGENT_KINDS)
    | ModeFake \<Rightarrow> True
    | _ \<Rightarrow> (\<exists>c cs. rp_headless p = Some (c # cs) \<and> \<not> str_contains c ''{{''))"

lemma check_settings_safe:
  assumes "check_settings p = Inr ()"
  shows "rp_model p = Some v \<Longrightarrow> safe_value v" and "rp_effort p = Some v \<Longrightarrow> safe_value v"
    and "rp_advisor p = Some v \<Longrightarrow> safe_value v"
  using assms by (auto simp: check_settings_def sum_bind_Inr split: option.splits if_splits)

lemma model_flags_words: "model_flags k m = Inr fs \<Longrightarrow> (\<And>v. m = Some v \<Longrightarrow> safe_value v) \<Longrightarrow> x \<in> set fs \<Longrightarrow> setting_word x"
  by (auto simp: model_flags_def setting_word_def setting_flags_def split: option.splits if_splits)

lemma effort_flags_words: "effort_flags k m = Inr fs \<Longrightarrow> (\<And>v. m = Some v \<Longrightarrow> safe_value v) \<Longrightarrow> x \<in> set fs \<Longrightarrow> setting_word x"
  by (auto simp: effort_flags_def setting_word_def setting_flags_def split: option.splits if_splits)

lemma advisor_flags_words: "advisor_flags k m = Inr (fs, off) \<Longrightarrow> (\<And>v. m = Some v \<Longrightarrow> safe_value v) \<Longrightarrow> x \<in> set fs \<Longrightarrow> setting_word x"
  by (auto simp: advisor_flags_def setting_word_def setting_flags_def split: option.splits if_splits)

text \<open>The command lines of a profile after its settings are those before, with words of settings inside.\<close>

definition with_settings :: "runner_profile \<Rightarrow> string list \<Rightarrow> runner_profile \<Rightarrow> bool" where
  "with_settings p fs q \<longleftrightarrow> rp_mode q = rp_mode p \<and> rp_kind q = rp_kind p \<and> rp_pane_args q = rp_pane_args p @ fs
     \<and> (case rp_headless p of None \<Rightarrow> rp_headless q = None | Some h \<Rightarrow> \<exists>i. rp_headless q = Some (splice_at i fs h))"

lemma splice_nothing: "splice_at i [] h = h"
  by (simp add: splice_at_def)

lemma apply_settings_words:
  assumes "apply_model_settings p = Inr q"
  shows "\<exists>fs. with_settings p fs q \<and> (\<forall>x \<in> set fs. setting_word x)"
proof -
  define kind where "kind = (case rp_kind p of Some k \<Rightarrow> k | None \<Rightarrow> [])"
  have ok: "check_settings p = Inr ()"
    using assms by (auto simp: apply_model_settings_def Let_def sum_bind_Inr)
  show ?thesis
  proof (cases "rp_mode p = ModeFake \<or> rp_mode p = ModeShell")
    case True
    then have "q = p" using assms ok by (auto simp: apply_model_settings_def Let_def)
    then show ?thesis by (intro exI [of _ "[]"]) (simp add: with_settings_def splice_nothing split: option.split)
  next
    case False
    then obtain mf ef af off where f: "model_flags kind (rp_model p) = Inr mf" "effort_flags kind (rp_effort p) = Inr ef"
        "advisor_flags kind (rp_advisor p) = Inr (af, off)"
      using assms ok by (auto simp: apply_model_settings_def Let_def sum_bind_Inr kind_def)
    have "with_settings p (mf @ ef @ af) q"
      using assms ok f False
      by (auto simp: apply_model_settings_def Let_def kind_def [symmetric] with_settings_def splice_nothing
          split: if_splits option.split)
    moreover have "\<forall>x \<in> set (mf @ ef @ af). setting_word x"
      using model_flags_words [OF f(1)] effort_flags_words [OF f(2)] advisor_flags_words [OF f(3)]
        check_settings_safe [OF ok] by auto
    ultimately show ?thesis by blast
  qed
qed

lemma checked_launchable: "check_profile n p = Inr () \<Longrightarrow> launchable p"
  by (auto simp: check_profile_def launchable_def Let_def HERDR_AGENT_KINDS_def
      split: runner_mode.splits option.splits list.splits if_splits)



end
