(* ===== verification/Catalog.thy ===== *)
theory Catalog
  imports Outputs Store
begin

text \<open>
  The catalog of workflows and skills, \<open>src/workflow/catalog.rs\<close>: built-in, global and project sources,
  the later overriding the earlier by name. Directories and file contents are parameters
  (\<open>catalog_files\<close>), as are YAML itself and the texts of the built-in files.
\<close>

record catalog_files =
  ca_dir :: "path \<Rightarrow> string list option"
  ca_read :: "path \<Rightarrow> string + string"
  ca_is_file :: "path \<Rightarrow> bool"
  ca_yaml_name :: "string \<Rightarrow> string option"
  ca_yaml_workflow :: "string \<Rightarrow> string + workflow"
  ca_builtin_text :: "string \<Rightarrow> string"

definition PROJECT_DIR :: path where
  "PROJECT_DIR = ''.ai/herdr-orchestrator''"

definition builtin_workflow_names :: "string list" where
  "builtin_workflow_names = [''quick-task'', ''implement-review'', ''secure-change'', ''variant-review'', ''dual-review'',
     ''contract-first'', ''eval-task'', ''update-verify'', ''update-resolve'', ''epic-task'', ''epic-plan'',
     ''epic-conformance'']"

definition builtin_skill_names :: "string list" where
  "builtin_skill_names = [''implementation'', ''code-review'', ''security-review'', ''adr-planning'',
     ''acceptance-review'', ''adr-conformance'', ''contract-writing'']"

record workflow_source =
  ws_name :: string
  ws_origin :: string
  ws_yaml :: string

record catalog =
  cg_global_dir :: path
  cg_repo_root :: "path option"

definition valid_name :: "string \<Rightarrow> bool" where
  "valid_name n \<longleftrightarrow> n \<noteq> [] \<and> length n \<le> 64
     \<and> list_all (\<lambda>c. is_ascii_alphanumeric c \<or> c = CHR ''-'' \<or> c = CHR ''_'') n"

definition parse_workflow :: "catalog_files \<Rightarrow> string \<Rightarrow> string + workflow" where
  "parse_workflow ca yaml =
     sum_bind (with_context ''parsing workflow YAML'' (ca_yaml_workflow ca yaml)) (\<lambda>wfl.
     sum_bind (validate wfl) (\<lambda>_. Inr wfl))"

text \<open>\<open>Path::file_stem\<close> and \<open>Path::extension\<close> of a file name.\<close>

definition split_name :: "string \<Rightarrow> string \<times> string option" where
  "split_name n =
     (let e = takeWhile (\<lambda>c. c \<noteq> CHR ''.'') (rev n); rest = dropWhile (\<lambda>c. c \<noteq> CHR ''.'') (rev n)
      in if rest = [] \<or> tl rest = [] then (n, None) else (rev (tl rest), Some (rev e)))"

definition entries :: "catalog_files \<Rightarrow> path \<Rightarrow> string list" where
  "entries ca dir = (case ca_dir ca dir of Some ns \<Rightarrow> ns | None \<Rightarrow> [])"

definition yaml_files :: "catalog_files \<Rightarrow> path \<Rightarrow> string list" where
  "yaml_files ca dir =
     sort (filter (\<lambda>n. snd (split_name n) = Some ''yaml'' \<or> snd (split_name n) = Some ''yml'') (entries ca dir))"

definition workflow_dirs :: "catalog \<Rightarrow> (string \<times> path) list" where
  "workflow_dirs cg = (''global'', cg_global_dir cg @ ''/workflows'')
     # (case cg_repo_root cg of Some r \<Rightarrow> [(''project'', r @ ''/'' @ PROJECT_DIR @ ''/workflows'')] | None \<Rightarrow> [])"

definition skill_dirs :: "catalog \<Rightarrow> path list" where
  "skill_dirs cg = (cg_global_dir cg @ ''/skills'')
     # (case cg_repo_root cg of Some r \<Rightarrow> [r @ ''/.ai/skills'', r @ ''/'' @ PROJECT_DIR @ ''/skills''] | None \<Rightarrow> [])"

subsection \<open>Workflows\<close>

text \<open>One file: it replaces the source of its name, or is added at the end.\<close>

definition override :: "workflow_source \<Rightarrow> workflow_source list \<Rightarrow> workflow_source list" where
  "override w ws = (if list_ex (\<lambda>x. ws_name x = ws_name w) ws
     then update_first (\<lambda>x. ws_name x = ws_name w) (\<lambda>_. w) ws else ws @ [w])"

definition file_source :: "catalog_files \<Rightarrow> string \<Rightarrow> path \<Rightarrow> string \<Rightarrow> string + workflow_source" where
  "file_source ca origin dir n =
     (let p = dir @ ''/'' @ n in
      sum_bind (with_context (''reading '' @ p) (ca_read ca p)) (\<lambda>yaml.
      Inr \<lparr> ws_name = (case ca_yaml_name ca yaml of Some x \<Rightarrow> x | None \<Rightarrow> fst (split_name n)),
            ws_origin = origin @ '':'' @ p, ws_yaml = yaml \<rparr>))"

fun add_files :: "catalog_files \<Rightarrow> (string \<times> path \<times> string) list \<Rightarrow> workflow_source list \<Rightarrow> string + workflow_source list" where
  "add_files ca [] out = Inr out"
| "add_files ca ((origin, dir, n) # fs) out =
     sum_bind (file_source ca origin dir n) (\<lambda>w. add_files ca fs (override w out))"

definition workflow_files :: "catalog_files \<Rightarrow> catalog \<Rightarrow> (string \<times> path \<times> string) list" where
  "workflow_files ca cg = concat (map (\<lambda>(origin, dir). map (\<lambda>n. (origin, dir, n)) (yaml_files ca dir)) (workflow_dirs cg))"

definition builtin_sources :: "catalog_files \<Rightarrow> workflow_source list" where
  "builtin_sources ca = map (\<lambda>n. \<lparr> ws_name = n, ws_origin = ''builtin'', ws_yaml = ca_builtin_text ca n \<rparr>) builtin_workflow_names"

definition catalog_workflows :: "catalog_files \<Rightarrow> catalog \<Rightarrow> string + workflow_source list" where
  "catalog_workflows ca cg = add_files ca (workflow_files ca cg) (builtin_sources ca)"

definition catalog_workflow :: "catalog_files \<Rightarrow> catalog \<Rightarrow> string \<Rightarrow> string + workflow \<times> workflow_source" where
  "catalog_workflow ca cg n =
     (if ends_with n ''.yaml'' \<or> ends_with n ''.yml'' \<or> CHR ''/'' \<in> set n then
        sum_bind (with_context (''reading workflow '' @ n) (ca_read ca n)) (\<lambda>yaml.
        sum_bind (with_context (''in '' @ n) (parse_workflow ca yaml)) (\<lambda>wfl.
        Inr (wfl, \<lparr> ws_name = w_name wfl, ws_origin = ''file:'' @ n, ws_yaml = yaml \<rparr>)))
      else
        sum_bind (catalog_workflows ca cg) (\<lambda>ws.
        sum_bind (some_or (''no workflow named '' @ debug_str n @ '' (see `herdr-orchestrator workflow list`)'')
          (find (\<lambda>w. ws_name w = n) ws)) (\<lambda>src.
        sum_bind (with_context (''workflow '' @ ws_name src @ '' ('' @ ws_origin src @ '')'') (parse_workflow ca (ws_yaml src))) (\<lambda>wfl.
        Inr (wfl, src)))))"

subsection \<open>Skills\<close>

fun first_skill :: "catalog_files \<Rightarrow> string \<Rightarrow> path list \<Rightarrow> string + string \<times> string" where
  "first_skill ca n [] =
     (if n \<in> set builtin_skill_names then Inr (ca_builtin_text ca n, ''builtin:'' @ n)
      else Inl (''no skill named '' @ debug_str n))"
| "first_skill ca n (dir # dirs) =
     (let p = dir @ ''/'' @ n @ ''.md'' in
      if ca_is_file ca p then
        sum_bind (ca_read ca p) (\<lambda>t.
        if 256 * 1024 < length t then Inl (''skill '' @ p @ '' is larger than 256 KiB'') else Inr (t, p))
      else first_skill ca n dirs)"

definition catalog_skill :: "catalog_files \<Rightarrow> catalog \<Rightarrow> string \<Rightarrow> string + string \<times> string" where
  "catalog_skill ca cg n =
     (if \<not> valid_name n then Inl (''invalid skill name '' @ debug_str n) else first_skill ca n (rev (skill_dirs cg)))"

text \<open>\<open>skills\<close>: names with their origin; the order inside a directory is that of the file system.\<close>

definition put_skill :: "string \<times> string \<Rightarrow> (string \<times> string) list \<Rightarrow> (string \<times> string) list" where
  "put_skill e out = (if list_ex (\<lambda>x. fst x = fst e) out
     then update_first (\<lambda>x. fst x = fst e) (\<lambda>_. e) out else out @ [e])"

definition catalog_skills :: "catalog_files \<Rightarrow> catalog \<Rightarrow> (string \<times> string) list" where
  "catalog_skills ca cg =
     foldl (\<lambda>out e. put_skill e out) (map (\<lambda>n. (n, ''builtin'')) builtin_skill_names)
       (concat (map (\<lambda>dir. map (\<lambda>n. (fst (split_name n), dir @ ''/'' @ n))
          (filter (\<lambda>n. snd (split_name n) = Some ''md'') (entries ca dir))) (skill_dirs cg)))"

subsection \<open>Which source a name stands for\<close>

lemma find_append: "find P (xs @ ys) = (case find P xs of Some x \<Rightarrow> Some x | None \<Rightarrow> find P ys)"
  by (induction xs) auto

lemma find_override:
  "find (\<lambda>x. ws_name x = n) (override w ws) = (if n = ws_name w then Some w else find (\<lambda>x. ws_name x = n) ws)"
proof (cases "list_ex (\<lambda>x. ws_name x = ws_name w) ws")
  case True
  then have "find (\<lambda>x. ws_name x = n) (update_first (\<lambda>x. ws_name x = ws_name w) (\<lambda>_. w) ws)
      = (if n = ws_name w then Some w else find (\<lambda>x. ws_name x = n) ws)"
    by (induction ws) auto
  then show ?thesis using True by (simp add: override_def)
next
  case False
  then have "find (\<lambda>x. ws_name x = ws_name w) ws = None"
    by (auto simp: list_ex_iff find_None_iff)
  then show ?thesis using False by (auto simp: override_def find_append split: option.splits)
qed

lemma find_overridden:
  "find (\<lambda>x. ws_name x = n) (foldl (\<lambda>ws w. override w ws) out new)
     = (case find (\<lambda>x. ws_name x = n) (rev new) of Some w \<Rightarrow> Some w | None \<Rightarrow> find (\<lambda>x. ws_name x = n) out)"
proof (induction new arbitrary: out)
  case (Cons w new)
  then show ?case by (auto simp: find_override find_append split: option.splits)
qed simp

lemma add_files_sources:
  "add_files ca fs out = Inr res \<Longrightarrow>
   \<exists>ws. map (\<lambda>(origin, dir, n). file_source ca origin dir n) fs = map Inr ws
     \<and> res = foldl (\<lambda>ws w. override w ws) out ws"
proof (induction ca fs out rule: add_files.induct)
  case (2 ca origin dir n fs out)
  then obtain w where w: "file_source ca origin dir n = Inr w" and "add_files ca fs (override w out) = Inr res"
    by (auto simp: sum_bind_Inr)
  with 2 obtain ws where "map (\<lambda>(origin, dir, n). file_source ca origin dir n) fs = map Inr ws"
    "res = foldl (\<lambda>ws w. override w ws) (override w out) ws" by blast
  with w show ?case by (intro exI [of _ "w # ws"]) simp
qed simp

lemma find_rev_distinct:
  "distinct (map f xs) \<Longrightarrow> find (\<lambda>x. f x = n) (rev xs) = find (\<lambda>x. f x = n) xs"
proof (induction xs)
  case (Cons x xs)
  have "f x = n \<Longrightarrow> find (\<lambda>y. f y = n) (rev xs) = None"
    using Cons.prems by (auto simp: find_None_iff image_iff)
  then show ?case using Cons by (auto simp: find_append split: option.splits)
qed simp

lemma builtin_names_distinct: "distinct (map ws_name (builtin_sources ca))"
proof -
  have "map ws_name (builtin_sources ca) = builtin_workflow_names" by (simp add: builtin_sources_def comp_def)
  moreover have "distinct builtin_workflow_names" by code_simp
  ultimately show ?thesis by simp
qed

text \<open>A workflow name stands for the last source that bears it, in the order built-in, global, project:
  a file of the project overrides a global one, a later file an earlier one, and any file a built-in
  workflow. Nothing is listed that is neither built in nor a file of these directories.\<close>

theorem workflow_last_wins:
  assumes "catalog_workflows ca cg = Inr out"
  shows "\<exists>ws. map (\<lambda>(origin, dir, n). file_source ca origin dir n) (workflow_files ca cg) = map Inr ws
    \<and> (\<forall>n. find (\<lambda>w. ws_name w = n) out = find (\<lambda>w. ws_name w = n) (rev (builtin_sources ca @ ws)))"
proof -
  from add_files_sources [OF assms [unfolded catalog_workflows_def]] obtain ws where
    ws: "map (\<lambda>(origin, dir, n). file_source ca origin dir n) (workflow_files ca cg) = map Inr ws"
    and out: "out = foldl (\<lambda>ws w. override w ws) (builtin_sources ca) ws" by blast
  have "find (\<lambda>w. ws_name w = n) out = find (\<lambda>w. ws_name w = n) (rev (builtin_sources ca @ ws))" for n
    by (simp add: out find_overridden find_append find_rev_distinct [OF builtin_names_distinct] split: option.split)
  with ws show ?thesis by blast
qed

text \<open>A skill is read from one of the skill directories, under its own name.\<close>

lemma first_skill_file:
  "first_skill ca n dirs = Inr (t, origin) \<Longrightarrow>
   (\<exists>dir \<in> set dirs. origin = dir @ ''/'' @ n @ ''.md'' \<and> ca_is_file ca origin \<and> ca_read ca origin = Inr t \<and> length t \<le> 256 * 1024)
     \<or> origin = ''builtin:'' @ n"
  by (induction dirs) (auto simp: Let_def sum_bind_Inr split: if_splits)

definition sample_files :: catalog_files where
  "sample_files = \<lparr> ca_dir = (\<lambda>d. if d = ''/r/.ai/herdr-orchestrator/workflows'' then Some [''q.yaml'', ''notes.md''] else None),
     ca_read = (\<lambda>p. if p = ''/r/.ai/herdr-orchestrator/workflows/q.yaml'' then Inr ''mine'' else Inl ''no file''),
     ca_is_file = (\<lambda>_. False), ca_yaml_name = (\<lambda>y. if y = ''mine'' then Some ''quick-task'' else None),
     ca_yaml_workflow = (\<lambda>_. Inl ''none''), ca_builtin_text = (\<lambda>n. ''builtin '' @ n) \<rparr>"

theorem workflow_last_wins_witness:
  "\<exists>out. catalog_workflows sample_files \<lparr> cg_global_dir = ''/g'', cg_repo_root = Some ''/r'' \<rparr> = Inr out
     \<and> map_option ws_yaml (find (\<lambda>w. ws_name w = ''quick-task'') out) = Some ''mine''"
proof -
  let ?cg = "\<lparr> cg_global_dir = ''/g'', cg_repo_root = Some ''/r'' \<rparr>"
  have f: "workflow_files sample_files ?cg = [(''project'', ''/r/.ai/herdr-orchestrator/workflows'', ''q.yaml'')]" by code_simp
  have s: "file_source sample_files ''project'' ''/r/.ai/herdr-orchestrator/workflows'' ''q.yaml''
      = Inr \<lparr> ws_name = ''quick-task'', ws_origin = ''project:/r/.ai/herdr-orchestrator/workflows/q.yaml'', ws_yaml = ''mine'' \<rparr>"
    by code_simp
  have "catalog_workflows sample_files ?cg = Inr (override
      \<lparr> ws_name = ''quick-task'', ws_origin = ''project:/r/.ai/herdr-orchestrator/workflows/q.yaml'', ws_yaml = ''mine'' \<rparr>
      (builtin_sources sample_files))"
    using f s by (simp add: catalog_workflows_def)
  moreover from workflow_last_wins [OF this] f s have
    "map_option ws_yaml (find (\<lambda>w. ws_name w = ''quick-task'') (override
      \<lparr> ws_name = ''quick-task'', ws_origin = ''project:/r/.ai/herdr-orchestrator/workflows/q.yaml'', ws_yaml = ''mine'' \<rparr>
      (builtin_sources sample_files))) = Some ''mine''"
    by (auto simp: map_eq_Cons_conv Cons_eq_map_conv)
  ultimately show ?thesis by blast
qed

end
