(* ===== verification/Adr.thy ===== *)
theory Adr
  imports Catalog Epics
begin

text \<open>
  Architecture decision records, \<open>src/epic/mod.rs\<close>: the title and the status of a record in one of the
  usual layouts, and reading a record that a human names, which must lie inside the repository. Resolving
  links and reading files are parameters.
\<close>

definition adr_inactive :: "adr \<Rightarrow> bool" where
  "adr_inactive a =
     (case ad_status a of
        None \<Rightarrow> False
      | Some s \<Rightarrow> list_ex (starts_with (to_ascii_lowercase s)) [''superseded'', ''rejected'', ''deprecated'', ''withdrawn''])"

subsection \<open>Parsing\<close>

definition trim_quotes :: "string \<Rightarrow> string" where
  "trim_quotes s = rev (dropWhile (\<lambda>c. c = dquote) (rev (dropWhile (\<lambda>c. c = dquote) s)))"

fun drop_stars :: "string \<Rightarrow> string" where
  "drop_stars (c # d # s) = (if c = CHR ''*'' \<and> d = CHR ''*'' then drop_stars s else c # drop_stars (d # s))"
| "drop_stars s = s"

definition bare :: "string \<Rightarrow> string" where
  "bare s = drop_stars (dropWhile (\<lambda>c. c \<in> set ''*- '') s)"

text \<open>The front matter: its fields, and the lines after it.\<close>

fun front_matter :: "string list \<Rightarrow> string option \<Rightarrow> string option \<Rightarrow> string option \<times> string option \<times> string list" where
  "front_matter [] title status = (title, status, [])"
| "front_matter (l # ls) title status =
     (if trim l = ''---'' then (title, status, ls)
      else
        let status1 = (case strip_prefix l ''status:'' of Some v \<Rightarrow> Some (trim_quotes (trim v)) | None \<Rightarrow> status);
            title1 = (case strip_prefix l ''title:'' of Some v \<Rightarrow> Some (trim_quotes (trim v)) | None \<Rightarrow> title)
        in front_matter ls title1 status1)"

text \<open>One line of the body: the title, the status and whether the next line may be the status.\<close>

definition adr_line :: "string \<Rightarrow> string option \<times> string option \<times> bool \<Rightarrow> string option \<times> string option \<times> bool" where
  "adr_line l st =
     (case st of (title, status, in_status) \<Rightarrow>
      let t = trim l; lower = to_ascii_lowercase t in
      if title = None \<and> starts_with t ''# '' then (Some (trim (drop 2 t)), status, in_status)
      else if status \<noteq> None then (title, status, in_status)
      else case strip_prefix (bare lower) ''status:'' of
        Some v \<Rightarrow>
          (let orig = bare t; v2 = trim (drop (length orig - length v) orig) in
           if v2 \<noteq> [] then (title, Some v2, in_status) else (title, status, True))
      | None \<Rightarrow>
          if starts_with lower ''#'' \<and> trim (dropWhile (\<lambda>c. c = CHR ''#'') lower) = ''status'' then (title, status, True)
          else if in_status \<and> t \<noteq> [] then (title, Some (dropWhile (\<lambda>c. c \<in> set ''*- '') t), False)
          else (title, status, in_status))"

definition parse_adr :: "(string \<Rightarrow> string) \<Rightarrow> path \<Rightarrow> string \<Rightarrow> adr" where
  "parse_adr sha rel txt0 =
     (let ls = lines txt0;
          (title0, status0, body) =
            (if ls \<noteq> [] \<and> trim (hd ls) = ''---'' then front_matter (tl ls) None None else (None, None, ls));
          (title, status, _) = foldl (\<lambda>st l. adr_line l st) (title0, status0, False) body
      in \<lparr> ad_path = rel, ad_title = (case title of Some t \<Rightarrow> t | None \<Rightarrow> fst (split_name (file_name rel))),
           ad_status = status, ad_sha256 = sha txt0 \<rparr>)"

subsection \<open>Reading\<close>

record adr_files =
  af_canonical :: "path \<Rightarrow> string + path"
  af_is_file :: "path \<Rightarrow> bool"
  af_length :: "path \<Rightarrow> nat"
  af_read :: "path \<Rightarrow> string + string"

definition load_adr :: "(string \<Rightarrow> string) \<Rightarrow> adr_files \<Rightarrow> path \<Rightarrow> path \<Rightarrow> string + adr \<times> string" where
  "load_adr sha af repo p =
     (let full = (if starts_with p ''/'' then p else repo @ ''/'' @ p) in
      sum_bind (with_context (''ADR '' @ full @ '' not found'') (af_canonical af full)) (\<lambda>canon.
      sum_bind (af_canonical af repo) (\<lambda>r.
      if \<not> prefix (components r) (components canon) then
        Inl (''ADR '' @ canon @ '' is outside the repository'')
      else if \<not> af_is_file af canon \<or> 256 * 1024 < af_length af canon then
        Inl (''ADR '' @ canon @ '' must be a file of at most 256 KiB'')
      else
        sum_bind (af_read af canon) (\<lambda>body.
        Inr (parse_adr sha (display_path (drop (length (components r)) (components canon))) body, body)))))"

text \<open>Whether the record changed since the epic was planned (\<open>adr_drifted\<close>); nothing when it cannot be read.\<close>

definition adr_drifted :: "(string \<Rightarrow> string) \<Rightarrow> adr_files \<Rightarrow> epic \<Rightarrow> bool option" where
  "adr_drifted sha af e =
     (case af_read af (ep_repo_root e @ ''/'' @ ad_path (ep_adr e)) of
        Inl _ \<Rightarrow> None
      | Inr t \<Rightarrow> Some (sha t \<noteq> ad_sha256 (ep_adr e)))"

lemma load_adr_inside:
  "load_adr sha af repo p = Inr (a, body) \<Longrightarrow>
   \<exists>canon r. af_canonical af repo = Inr r \<and> prefix (components r) (components canon) \<and> af_is_file af canon
     \<and> af_length af canon \<le> 256 * 1024 \<and> af_read af canon = Inr body \<and> ad_sha256 a = sha body"
  by (auto simp: load_adr_def Let_def sum_bind_Inr parse_adr_def split: if_splits prod.splits)

end
