(* ===== verification/Github.thy ===== *)
theory Github
  imports Outputs Approvals
begin

text \<open>
  GitHub through the command line program \<open>gh\<close>, \<open>src/github/mod.rs\<close>. The program is a parameter that
  answers a command in a directory; what it may answer depends on the commands given before, which the
  state records. Reading the answers is modelled, except for the derived deserializers.
\<close>

subsection \<open>Feedback on a pull request\<close>

record pr_feedback =
  pf_url :: string
  pf_state :: string
  pf_failing_checks :: "string list"
  pf_pending_checks :: nat
  pf_comments :: nat
  pf_text :: string

definition actionable :: "pr_feedback \<Rightarrow> bool" where
  "actionable f \<longleftrightarrow> pf_failing_checks f \<noteq> [] \<or> 0 < pf_comments f"

definition fingerprint :: "(string \<Rightarrow> string) \<Rightarrow> pr_feedback \<Rightarrow> string" where
  "fingerprint sha f = take 16 (sha (pf_text f))"

definition ascii_upper :: "char \<Rightarrow> char" where
  "ascii_upper c = (if is_ascii_lower c then char_of (byte c - 32) else c)"

definition to_ascii_uppercase :: "string \<Rightarrow> string" where
  "to_ascii_uppercase s = map ascii_upper s"

definition slug_part :: "string \<Rightarrow> bool" where
  "slug_part s \<longleftrightarrow> s \<noteq> [] \<and> list_all (\<lambda>c. is_ascii_alphanumeric c \<or> c \<in> set ''-_.'') s"

text \<open>The second piece of a text split at \<open>://\<close>.\<close>

definition after_scheme :: "string \<Rightarrow> string option" where
  "after_scheme s =
     map_option (\<lambda>i. let r = drop (i + 3) s in case str_find ''://'' r of Some j \<Rightarrow> take j r | None \<Rightarrow> r)
       (str_find ''://'' s)"

fun pull_parts :: "string list \<Rightarrow> (string \<times> nat) option" where
  "pull_parts (host # owner # r # k # n # rest) =
     (if k \<noteq> ''pull'' \<or> \<not> slug_part owner \<or> \<not> slug_part r then None
      else map_option (\<lambda>n. (owner @ ''/'' @ r, n)) (parse_u64 n))"
| "pull_parts ps = None"

definition parse_pr_url :: "string \<Rightarrow> (string \<times> nat) option" where
  "parse_pr_url url =
     Option.bind (after_scheme (trim_end_matches (CHR ''/'') (trim url))) (\<lambda>rest.
     pull_parts (split_on (\<lambda>c. c = CHR ''/'') rest))"

definition check_failed :: "string \<Rightarrow> bool" where
  "check_failed conclusion \<longleftrightarrow> to_ascii_uppercase conclusion \<in>
     {''FAILURE'', ''ERROR'', ''TIMED_OUT'', ''CANCELLED'', ''ACTION_REQUIRED'', ''STARTUP_FAILURE''}"

definition check_pending :: "string \<Rightarrow> bool" where
  "check_pending concl \<longleftrightarrow> concl = [] \<or> to_ascii_uppercase concl \<in> {''PENDING'', ''IN_PROGRESS'', ''QUEUED'', ''EXPECTED''}"

definition str_of :: "json \<Rightarrow> string \<Rightarrow> string option" where
  "str_of v k = json_as_str (json_index v k)"

definition items_of :: "json \<Rightarrow> json list" where
  "items_of v = (case json_as_array v of Some xs \<Rightarrow> xs | None \<Rightarrow> [])"

definition first_str :: "string option \<Rightarrow> string option \<Rightarrow> string \<Rightarrow> string" where
  "first_str x y d = (case x of Some s \<Rightarrow> s | None \<Rightarrow> (case y of Some s \<Rightarrow> s | None \<Rightarrow> d))"

definition conclusion_of :: "json \<Rightarrow> string" where
  "conclusion_of c = first_str (case str_of c ''conclusion'' of Some s \<Rightarrow> if s = [] then None else Some s | None \<Rightarrow> None)
     (str_of c ''state'') []"

definition author_of :: "json \<Rightarrow> string" where
  "author_of v = first_str (str_of (json_index v ''author'') ''login'') (str_of (json_index v ''user'') ''login'') ''someone''"

definition add_check :: "pr_feedback \<Rightarrow> json \<Rightarrow> pr_feedback" where
  "add_check f c =
     (let name = first_str (str_of c ''name'') (str_of c ''context'') ''check''; concl = conclusion_of c in
      if check_failed concl then
        f\<lparr> pf_failing_checks := pf_failing_checks f @ [name],
           pf_text := pf_text f @ ''- CI check `'' @ name @ ''` '' @ to_ascii_lowercase concl @ '': ''
             @ first_str (str_of c ''detailsUrl'') (str_of c ''targetUrl'') [] @ nl \<rparr>
      else if check_pending concl then f\<lparr> pf_pending_checks := pf_pending_checks f + 1 \<rparr>
      else f)"

definition add_comment :: "pr_feedback \<Rightarrow> string \<Rightarrow> pr_feedback" where
  "add_comment f line = f\<lparr> pf_comments := pf_comments f + 1, pf_text := pf_text f @ line \<rparr>"

definition body_of :: "json \<Rightarrow> string" where
  "body_of c = trim (first_str (str_of c ''body'') None [])"

definition add_pr_review :: "pr_feedback \<Rightarrow> json \<Rightarrow> pr_feedback" where
  "add_pr_review f r =
     (let state = first_str (str_of r ''state'') None [] in
      if body_of r \<noteq> [] \<or> state = ''CHANGES_REQUESTED'' then
        add_comment f (''- Review by '' @ author_of r @ '' (''
          @ map (\<lambda>c. if c = CHR ''_'' then CHR '' '' else c) (to_ascii_lowercase state) @ ''): '' @ body_of r @ nl)
      else f)"

definition add_pr_comment :: "pr_feedback \<Rightarrow> json \<Rightarrow> pr_feedback" where
  "add_pr_comment f c =
     (if body_of c \<noteq> [] then add_comment f (''- Comment by '' @ author_of c @ '': '' @ body_of c @ nl) else f)"

definition line_of :: "json \<Rightarrow> string" where
  "line_of c = (case json_as_u64 (json_index c ''line'') of Some n \<Rightarrow> '':'' @ nat_str n
     | None \<Rightarrow> (case json_as_u64 (json_index c ''original_line'') of Some n \<Rightarrow> '':'' @ nat_str n | None \<Rightarrow> []))"

definition add_inline :: "pr_feedback \<Rightarrow> json \<Rightarrow> pr_feedback" where
  "add_inline f c =
     (if body_of c \<noteq> [] then
        add_comment f (''- '' @ first_str (str_of c ''path'') None ''?'' @ line_of c @ '' '' @ em_dash @ '' '' @ author_of c
          @ '': '' @ body_of c @ nl)
      else f)"

definition feedback_from_json :: "string \<Rightarrow> json \<Rightarrow> json \<Rightarrow> pr_feedback" where
  "feedback_from_json url view inline =
     (let f0 = \<lparr> pf_url = url, pf_state = first_str (str_of view ''state'') None [], pf_failing_checks = [],
            pf_pending_checks = 0, pf_comments = 0, pf_text = [] \<rparr>;
          f1 = foldl add_check f0 (items_of (json_index view ''statusCheckRollup''));
          f2 = foldl add_pr_review f1 (items_of (json_index view ''reviews''));
          f3 = foldl add_pr_comment f2 (items_of (json_index view ''comments''))
      in foldl add_inline f3 (items_of inline))"

definition issue_number :: "string \<Rightarrow> nat option" where
  "issue_number url = parse_u64 (last (split_on (\<lambda>c. c = CHR ''/'') (trim_end_matches (CHR ''/'') (trim url))))"

subsection \<open>Commands\<close>

record issue =
  is_number :: nat
  is_title :: string
  is_body :: string
  is_url :: string

record pr_ref =
  pf_number :: "nat option"
  pf_ref_url :: string
  pf_ref_state :: "string option"
  pf_is_draft :: "bool option"

type_synonym gh_log = "(path \<times> string list) list"

type_synonym 'a gh_op = "(gh_log, 'a) eff"

record gh =
  gh_run :: "gh_log \<Rightarrow> path \<Rightarrow> string list \<Rightarrow> string + string"
  gh_json :: "string \<Rightarrow> string + json"
  gh_issue :: "string \<Rightarrow> string + issue"
  gh_issues :: "string \<Rightarrow> string + issue list"
  gh_prs :: "string \<Rightarrow> string + pr_ref list"

definition gh_call :: "gh \<Rightarrow> path \<Rightarrow> string list \<Rightarrow> string gh_op" where
  "gh_call g cwd args =
     bnd (gets (\<lambda>l. gh_run g l cwd args)) (\<lambda>r.
     andthen (modify (\<lambda>l. l @ [(cwd, args)])) (lift_result r))"

definition gh_version :: "gh \<Rightarrow> string gh_op" where
  "gh_version g =
     bnd (gh_call g ''.'' [''--version'']) (\<lambda>out. ret (case lines out of l # _ \<Rightarrow> l | [] \<Rightarrow> []))"

definition issue_view :: "gh \<Rightarrow> path \<Rightarrow> nat \<Rightarrow> issue gh_op" where
  "issue_view g dir n =
     bnd (gh_call g dir [''issue'', ''view'', nat_str n, ''--json'', ''number,title,body,url'']) (\<lambda>out.
     lift_result (with_context ''parsing gh issue view output'' (gh_issue g out)))"

definition pr_for_branch :: "gh \<Rightarrow> path \<Rightarrow> string \<Rightarrow> pr_ref option gh_op" where
  "pr_for_branch g dir branch =
     bnd (gh_call g dir [''pr'', ''list'', ''--head'', branch, ''--state'', ''all'', ''--json'', ''number,url,state,isDraft'',
       ''--limit'', ''1'']) (\<lambda>out.
     bnd (lift_result (with_context ''parsing gh pr list output'' (gh_prs g (trim out)))) (\<lambda>ps.
     ret (case ps of p # _ \<Rightarrow> Some p | [] \<Rightarrow> None)))"

text \<open>The last line of an output that is a link.\<close>

definition printed_url :: "string \<Rightarrow> string option" where
  "printed_url out = map_option trim (find (\<lambda>l. starts_with (trim_start_ws l) ''https://'') (rev (lines out)))"

definition gh_pr_create :: "gh \<Rightarrow> path \<Rightarrow> string \<Rightarrow> string \<Rightarrow> string \<Rightarrow> string \<Rightarrow> bool \<Rightarrow> string gh_op" where
  "gh_pr_create g dir base head title body draft =
     andthen (for_each [base, head] (\<lambda>a. if starts_with a ''-'' then bail (''refusing suspicious PR argument '' @ debug_str a)
         else ret ()))
    (bnd (gh_call g dir ([''pr'', ''create'', ''--base'', base, ''--head'', head, ''--title'', title, ''--body'', body]
         @ (if draft then [''--draft''] else []))) (\<lambda>out.
     lift_result (some_or ''gh pr create did not print a PR URL'' (printed_url out))))"

definition repo_slug :: "gh \<Rightarrow> path \<Rightarrow> string gh_op" where
  "repo_slug g dir =
     bnd (gh_call g dir [''repo'', ''view'', ''--json'', ''nameWithOwner'', ''--jq'', ''.nameWithOwner'']) (\<lambda>out.
     let s = trim out in
     if length (split_on (\<lambda>c. c = CHR ''/'') s) \<noteq> 2 \<or> list_ex is_ws s
     then bail (''unexpected repository name '' @ debug_str s) else ret s)"

definition json_or_null :: "gh \<Rightarrow> string \<Rightarrow> json" where
  "json_or_null g s = (case gh_json g s of Inr v \<Rightarrow> v | Inl _ \<Rightarrow> JNull)"

definition ensure_milestone :: "gh \<Rightarrow> path \<Rightarrow> string \<Rightarrow> string \<Rightarrow> string \<Rightarrow> nat gh_op" where
  "ensure_milestone g dir slug title description =
     bnd (gh_call g dir [''api'', ''repos/'' @ slug @ ''/milestones?state=all&per_page=100'']) (\<lambda>out.
     case Option.bind (find (\<lambda>m. json_index m ''title'' = JStr title) (items_of (json_or_null g (trim out))))
         (\<lambda>m. json_as_u64 (json_index m ''number'')) of
       Some n \<Rightarrow> ret n
     | None \<Rightarrow>
         bnd (gh_call g dir [''api'', ''repos/'' @ slug @ ''/milestones'', ''-f'', ''title='' @ title, ''-f'',
           ''description='' @ description]) (\<lambda>out2.
         bnd (lift_result (with_context ''parsing milestone'' (gh_json g (trim out2)))) (\<lambda>v.
         lift_result (some_or ''milestone without number'' (json_as_u64 (json_index v ''number''))))))"

definition ensure_label :: "gh \<Rightarrow> path \<Rightarrow> string \<Rightarrow> unit gh_op" where
  "ensure_label g dir label =
     bnd (gh_call g dir [''label'', ''create'', label, ''--force'', ''--color'', ''1f6feb'', ''--description'',
       ''managed by herdr-orchestrator'']) (\<lambda>_. ret ())"

definition issue_create :: "gh \<Rightarrow> path \<Rightarrow> string \<Rightarrow> string \<Rightarrow> string \<Rightarrow> string option \<Rightarrow> issue_link gh_op" where
  "issue_create g dir title body label milestone =
     bnd (gh_call g dir ([''issue'', ''create'', ''--title'', title, ''--body'', body, ''--label'', label]
       @ (case milestone of Some m \<Rightarrow> [''--milestone'', m] | None \<Rightarrow> []))) (\<lambda>out.
     bnd (lift_result (some_or ''gh issue create did not print a URL'' (printed_url out))) (\<lambda>url.
     bnd (lift_result (some_or ''issue URL without number'' (issue_number url))) (\<lambda>n.
     ret \<lparr> il_number = n, il_url = url \<rparr>)))"

definition issue_comment :: "gh \<Rightarrow> path \<Rightarrow> nat \<Rightarrow> string \<Rightarrow> unit gh_op" where
  "issue_comment g dir n body =
     bnd (gh_call g dir [''issue'', ''comment'', nat_str n, ''--body'', body]) (\<lambda>_. ret ())"

definition issue_list :: "gh \<Rightarrow> path \<Rightarrow> string \<Rightarrow> issue list gh_op" where
  "issue_list g dir label =
     bnd (gh_call g dir [''issue'', ''list'', ''--label'', label, ''--state'', ''open'', ''--limit'', ''50'', ''--json'',
       ''number,title,body,url'']) (\<lambda>out.
     lift_result (with_context ''parsing gh issue list'' (gh_issues g (trim out))))"

definition project_add :: "gh \<Rightarrow> path \<Rightarrow> string \<Rightarrow> nat \<Rightarrow> string \<Rightarrow> unit gh_op" where
  "project_add g dir owner n url =
     bnd (gh_call g dir [''project'', ''item-add'', nat_str n, ''--owner'', owner, ''--url'', url]) (\<lambda>_. ret ())"

definition gh_pr_feedback :: "gh \<Rightarrow> path \<Rightarrow> string \<Rightarrow> pr_feedback gh_op" where
  "gh_pr_feedback g dir url =
     bnd (lift_result (some_or (''not a GitHub pull request URL: '' @ url) (parse_pr_url url))) (\<lambda>(slug, n).
     bnd (gh_call g dir [''pr'', ''view'', url, ''--json'', ''number,url,state,reviews,comments,statusCheckRollup'']) (\<lambda>out.
     bnd (lift_result (with_context ''parsing gh pr view output'' (gh_json g (trim out)))) (\<lambda>view.
     bnd (attempt (gh_call g dir [''api'', ''repos/'' @ slug @ ''/pulls/'' @ nat_str n @ ''/comments'', ''--paginate'']))
       (\<lambda>r. ret (feedback_from_json url view (case r of Inr s \<Rightarrow> json_or_null g (trim s) | Inl _ \<Rightarrow> JNull))))))"

subsection \<open>What reaches a command line\<close>

lemma pull_parts_slug:
  "pull_parts ps = Some (s, n) \<Longrightarrow> \<exists>owner r. s = owner @ ''/'' @ r \<and> slug_part owner \<and> slug_part r"
  by (induction ps rule: pull_parts.induct) (auto split: if_splits)

lemma parse_pr_url_slug:
  "parse_pr_url u = Some (s, n) \<Longrightarrow> \<exists>owner r. s = owner @ ''/'' @ r \<and> slug_part owner \<and> slug_part r"
  unfolding parse_pr_url_def bind_eq_Some_conv using pull_parts_slug by blast

text \<open>A base or head that would be read as an option never reaches \<open>gh\<close>.\<close>

lemma gh_pr_create_calls:
  assumes "snd (gh_pr_create g dir base head title body draft l) \<noteq> l"
  shows "\<not> starts_with base ''-''" and "\<not> starts_with head ''-''"
  using assms by (auto simp: gh_pr_create_def eff_defs split: if_splits)

end
