(* ===== verification/Engine.thy ===== *)
theory Engine
  imports Repository Audit_Trail Profiles Adr Github
begin

text \<open>
  Tasks and runs, \<open>src/engine/mod.rs\<close>: a task is validated and queued, its runs are created when it is
  claimed, its status is recomputed from its runs, and a human asks for a cancellation or a retry.
  The state is the repository of documents with the audit trail and the notifications; git, the files
  of the catalog, the clock and the other processes answer through the record \<open>world\<close>, whose functions
  take the number of the question, so that no statement assumes two answers to be equal.
\<close>

subsection \<open>State and outside\<close>

record shift =
  sh_started_at :: timestamp
  sh_until :: "timestamp option"
  sh_budget_tokens :: "nat option"
  sh_ended :: "string option"

record engine = repository +
  eg_shift :: "shift option"
  eg_trail :: "event_draft list"
  eg_notes :: "(string \<times> string \<times> bool) list"
  eg_killed :: "nat list"
  eg_tick :: nat

datatype dependency_mode = DepMerged | DepStacked

datatype herdr_mode = HerdrAuto | HerdrRequired | HerdrDisabled

record engine_config =
  ec_workflow :: string
  ec_runner :: string
  ec_base_branch :: "string option"
  ec_max_variants :: nat
  ec_avoid_conflicts :: bool
  ec_herdr_mode :: herdr_mode
  ec_runners :: "(string, profile_config) btmap"
  ec_plan_max_tasks :: nat
  ec_planner_runner :: "string option"
  ec_task_workflow :: string
  ec_dependency_mode :: dependency_mode

record world =
  wd_now :: "nat \<Rightarrow> timestamp"
  wd_time :: "timestamp \<Rightarrow> string"
  wd_id :: "nat \<Rightarrow> string"
  wd_user :: "string option"
  wd_herdr :: bool
  wd_repo_root :: "nat \<Rightarrow> path \<Rightarrow> string + path"
  wd_config :: "nat \<Rightarrow> path \<Rightarrow> string + engine_config"
  wd_global_dir :: path
  wd_files :: "nat \<Rightarrow> catalog_files"
  wd_rev_parse :: "nat \<Rightarrow> path \<Rightarrow> string \<Rightarrow> string + string"
  wd_branch :: "nat \<Rightarrow> path \<Rightarrow> string + string option"
  wd_ancestor :: "nat \<Rightarrow> path \<Rightarrow> string \<Rightarrow> string \<Rightarrow> bool"
  wd_globs :: matchers
  wd_workflow_text :: "workflow \<Rightarrow> string + string"
  wd_sha :: "string \<Rightarrow> string"
  wd_locked :: "nat \<Rightarrow> string \<Rightarrow> bool"
  wd_exists :: "nat \<Rightarrow> path \<Rightarrow> bool"
  wd_get_agent :: "nat \<Rightarrow> string \<Rightarrow> string + string option"
  wd_pid_alive :: "nat \<Rightarrow> nat \<Rightarrow> bool"
  wd_gh :: "nat \<Rightarrow> bool"
  wd_pr_for_branch :: "nat \<Rightarrow> path \<Rightarrow> string \<Rightarrow> string + string option"
  wd_pr_feedback :: "nat \<Rightarrow> path \<Rightarrow> string \<Rightarrow> string + pr_feedback"
  wd_finished :: "nat \<Rightarrow> string \<Rightarrow> bool"
  wd_attach :: "nat \<Rightarrow> path \<Rightarrow> path \<Rightarrow> string \<Rightarrow> string + unit"
  wd_dirty :: "nat \<Rightarrow> path \<Rightarrow> string + bool"
  wd_merge :: "nat \<Rightarrow> path \<Rightarrow> string \<Rightarrow> string \<Rightarrow> string + string list"
  wd_adr_files :: "nat \<Rightarrow> adr_files"
  wd_plan_of_json :: "json \<Rightarrow> string + plan"
  wd_plan_task_of_json :: "json \<Rightarrow> string + plan_task"
  wd_plan_of_text :: "string \<Rightarrow> string + plan"
  wd_plan_json :: "plan \<Rightarrow> json"
  wd_canonical :: "json \<Rightarrow> string"
  wd_plan_pretty :: "plan \<Rightarrow> string"

type_synonym ('x, 'a) engine_op = "('x engine_scheme, 'a) eff"

definition inquire :: "(nat \<Rightarrow> 'a) \<Rightarrow> ('x, 'a) engine_op" where
  "inquire f = (\<lambda>s. (Inr (f (eg_tick s)), s\<lparr> eg_tick := Suc (eg_tick s) \<rparr>))"

definition inquire_result :: "(nat \<Rightarrow> string + 'a) \<Rightarrow> ('x, 'a) engine_op" where
  "inquire_result f = bnd (inquire f) lift_result"

text \<open>\<open>EngineCtx::audit\<close> and \<open>notify\<close>: what is appended to the trail and shown.\<close>

definition log_event :: "event_draft \<Rightarrow> ('x, unit) engine_op" where
  "log_event d = modify (\<lambda>s. s\<lparr> eg_trail := eg_trail s @ [d] \<rparr>)"

definition show_note :: "string \<Rightarrow> string \<Rightarrow> bool \<Rightarrow> ('x, unit) engine_op" where
  "show_note title body urgent = modify (\<lambda>s. s\<lparr> eg_notes := eg_notes s @ [(title, body, urgent)] \<rparr>)"

definition json_object :: "(string \<times> json) list \<Rightarrow> json" where
  "json_object kvs = JObj (bt_extend [] kvs)"

definition json_opt :: "('a \<Rightarrow> json) \<Rightarrow> 'a option \<Rightarrow> json" where
  "json_opt f x = (case x of Some v \<Rightarrow> f v | None \<Rightarrow> JNull)"

definition json_strs :: "string list \<Rightarrow> json" where
  "json_strs ss = JArr (map JStr ss)"

definition json_map :: "(string, string) btmap \<Rightarrow> json" where
  "json_map m = JObj (map (\<lambda>(k, v). (k, JStr v)) m)"

text \<open>Updates of documents read the clock.\<close>

definition modify_task :: "world \<Rightarrow> string \<Rightarrow> (task \<Rightarrow> string + task) \<Rightarrow> ('x, task) engine_op" where
  "modify_task w s f = bnd (inquire (wd_now w)) (\<lambda>t. change_task t s f)"

definition modify_epic :: "world \<Rightarrow> string \<Rightarrow> (epic \<Rightarrow> string + epic) \<Rightarrow> ('x, epic) engine_op" where
  "modify_epic w s f = bnd (inquire (wd_now w)) (\<lambda>t. change_epic t s f)"

definition load_config :: "world \<Rightarrow> path \<Rightarrow> ('x, engine_config) engine_op" where
  "load_config w repo = bnd (inquire (wd_config w)) (\<lambda>load. lift_result (load repo))"

definition engine_factory :: "world \<Rightarrow> engine_config \<Rightarrow> runner_factory" where
  "engine_factory w cfg = \<lparr> rf_herdr = (ec_herdr_mode cfg \<noteq> HerdrDisabled \<and> wd_herdr w),
     rf_herdr_required = (ec_herdr_mode cfg = HerdrRequired), rf_overrides = ec_runners cfg \<rparr>"

definition engine_workflow :: "world \<Rightarrow> path \<Rightarrow> string \<Rightarrow> ('x, workflow \<times> workflow_source) engine_op" where
  "engine_workflow w repo n =
     bnd (inquire (wd_files w)) (\<lambda>ca.
     lift_result (catalog_workflow ca \<lparr> cg_global_dir = wd_global_dir w, cg_repo_root = Some repo \<rparr> n))"

definition engine_workflow_names :: "world \<Rightarrow> path \<Rightarrow> ('x, string list) engine_op" where
  "engine_workflow_names w repo =
     bnd (inquire (wd_files w)) (\<lambda>ca.
     bnd (lift_result (catalog_workflows ca \<lparr> cg_global_dir = wd_global_dir w, cg_repo_root = Some repo \<rparr>)) (\<lambda>ws.
     ret (map ws_name ws)))"

definition reparse :: "world \<Rightarrow> string \<Rightarrow> ('x, workflow) engine_op" where
  "reparse w yaml = bnd (inquire (wd_files w)) (\<lambda>ca. lift_result (parse_workflow ca yaml))"

text \<open>\<open>git::default_base\<close>.\<close>

definition default_base :: "world \<Rightarrow> path \<Rightarrow> string option \<Rightarrow> ('x, string) engine_op" where
  "default_base w repo configured =
     (case configured of
        Some b \<Rightarrow> ret b
      | None \<Rightarrow> bnd (inquire (wd_branch w)) (\<lambda>cur.
          bnd (lift_result (cur repo)) (\<lambda>b. ret (case b of Some b \<Rightarrow> b | None \<Rightarrow> ''HEAD''))))"

definition first_some :: "'a option \<Rightarrow> 'a option \<Rightarrow> 'a option" where
  "first_some x y = (case x of Some v \<Rightarrow> Some v | None \<Rightarrow> y)"

subsection \<open>Creating a task\<close>

record new_task =
  nw_text :: string
  nw_title :: "string option"
  nw_repo :: path
  nw_options :: task_options
  nw_via :: string
  nw_source :: "task_source option"
  nw_epic :: "epic_link option"
  nw_depends_on :: "string list"
  nw_acceptance :: "string list"
  nw_manual_checks :: "string list"

definition new_task_default :: new_task where
  "new_task_default = \<lparr> nw_text = [], nw_title = None, nw_repo = [], nw_options = task_options_default, nw_via = [],
     nw_source = None, nw_epic = None, nw_depends_on = [], nw_acceptance = [], nw_manual_checks = [] \<rparr>"

text \<open>The number of characters of a text in UTF-8.\<close>

definition count_chars :: "string \<Rightarrow> nat" where
  "count_chars s = length (filter (\<lambda>c. \<not> (128 \<le> byte c \<and> byte c < 192)) s)"

definition derive_title :: "string \<Rightarrow> string" where
  "derive_title t =
     (let first = trim (case find (\<lambda>l. trim l \<noteq> []) (lines t) of Some l \<Rightarrow> l | None \<Rightarrow> ''task'')
      in first_chars 80 first @ (if 80 < count_chars first then ellipsis else []))"

fun source_json :: "task_source \<Rightarrow> json" where
  "source_json SrcManual = json_object [(''type'', JStr ''manual'')]"
| "source_json (SrcGithubIssue r n u) =
     json_object [(''type'', JStr ''github_issue''), (''repo'', JStr r), (''number'', JInt (int n)), (''url'', JStr u)]"
| "source_json (SrcEpic e p s u) =
     json_object [(''type'', JStr ''epic''), (''epic_id'', JStr e), (''adr_path'', JStr p), (''adr_sha256'', JStr s),
       (''purpose'', JStr u)]"
| "source_json (SrcPrFeedback r u) = json_object [(''type'', JStr ''pr_feedback''), (''run_id'', JStr r), (''pr_url'', JStr u)]"
| "source_json (SrcEval e c) = json_object [(''type'', JStr ''eval''), (''eval_id'', JStr e), (''case_id'', JStr c)]"
| "source_json (SrcIncident p i u) =
     json_object [(''type'', JStr ''incident''), (''provider'', JStr p), (''id'', JStr i), (''url'', JStr u)]"

definition check_options :: "world \<Rightarrow> path \<Rightarrow> engine_config \<Rightarrow> workflow \<Rightarrow> task_options \<Rightarrow> ('x, unit) engine_op" where
  "check_options w repo cfg wfl opts =
     (let variants = max 1 (to_variants opts);
          runners = to_variant_runners opts @ (case to_runner opts of Some r \<Rightarrow> [r] | None \<Rightarrow> [])
            @ bt_values (to_step_runners opts) @ List.map_filter (\<lambda>s. step_runner s wfl) (w_steps wfl) @ [ec_runner cfg]
      in
      if ec_max_variants cfg < variants then
        bail (nat_str variants @ '' variants requested; limits.max_variants is '' @ nat_str (ec_max_variants cfg))
      else if to_variant_runners opts \<noteq> [] \<and> length (to_variant_runners opts) \<noteq> variants then
        bail (''--variant-runners lists '' @ nat_str (length (to_variant_runners opts)) @ '' runners for ''
              @ nat_str variants @ '' variants'')
      else
        andthen (for_each runners (\<lambda>r. bnd (lift_result (with_context (''runner '' @ r)
            (factory_profile (engine_factory w cfg) r))) (\<lambda>_. ret ())))
       (andthen (for_each (bt_keys (to_step_runners opts)) (\<lambda>i.
            if step_index wfl i = None
            then bail (''--step-runner names unknown step '' @ debug_str i @ '' in workflow '' @ w_name wfl) else ret ()))
       (andthen (case to_base_ref opts of
            None \<Rightarrow> ret ()
          | Some b \<Rightarrow> bnd (inquire (wd_rev_parse w)) (\<lambda>rev. bnd (lift_result (rev repo b)) (\<lambda>_. ret ())))
          (for_each (to_scope opts) (\<lambda>g.
             if glob_valid (wd_globs w) g then ret () else bail (''invalid --scope glob '' @ debug_str g))))))"

definition task_of :: "world \<Rightarrow> nat \<Rightarrow> timestamp \<Rightarrow> path \<Rightarrow> workflow \<Rightarrow> new_task \<Rightarrow> task" where
  "task_of w n t repo wfl nt = \<lparr>
     t_task_id = nat_str n,
     t_title = (case nw_title nt of Some x \<Rightarrow> x | None \<Rightarrow> derive_title (nw_text nt)),
     t_description = nw_text nt, t_repo_root = repo, t_status = TQueued,
     t_options = (nw_options nt)\<lparr> to_workflow := Some (w_name wfl), to_variants := max 1 (to_variants (nw_options nt)) \<rparr>,
     t_initiator = \<lparr> in_via = nw_via nt, in_user = wd_user w \<rparr>, t_source = nw_source nt, t_run_ids = [],
     t_selected_run = None, t_created_at = t, t_updated_at = t, t_epic = nw_epic nt, t_depends_on = nw_depends_on nt,
     t_acceptance = nw_acceptance nt, t_manual_checks = nw_manual_checks nt, t_waiting_on = None,
     t_issue = (case nw_source nt of Some (SrcGithubIssue _ k u) \<Rightarrow> Some \<lparr> il_number = k, il_url = u \<rparr> | _ \<Rightarrow> None),
     t_issue_synced = None \<rparr>"

definition task_events :: "workflow \<Rightarrow> string \<Rightarrow> task \<Rightarrow> event_draft list" where
  "task_events wfl via t =
     [draft_data (json_object [(''title'', JStr (t_title t)), (''repo'', JStr (t_repo_root t)), (''workflow'', JStr (w_name wfl)),
         (''variants'', JInt (int (to_variants (t_options t)))), (''via'', JStr via), (''source'', json_opt source_json (t_source t))])
        (draft_task (t_task_id t) (draft_new ''task_created'' (actor_human (in_user (t_initiator t))))),
      draft_task (t_task_id t) (draft_new ''task_queued'' actor_orchestrator)]"

definition create_task :: "world \<Rightarrow> new_task \<Rightarrow> ('x, task) engine_op" where
  "create_task w nt =
     (if trim (nw_text nt) = [] then bail ''task text is empty''
      else if 64 * 1024 < length (nw_text nt) then bail ''task text is larger than 64 KiB''
      else
        bnd (inquire (wd_repo_root w)) (\<lambda>root_of.
        bnd (lift_result (with_context (nw_repo nt @ '' is not a git repository'') (root_of (nw_repo nt)))) (\<lambda>repo.
        bnd (load_config w repo) (\<lambda>cfg.
        bnd (engine_workflow w repo (case to_workflow (nw_options nt) of Some n \<Rightarrow> n | None \<Rightarrow> ec_workflow cfg)) (\<lambda>(wfl, _).
        andthen (check_options w repo cfg wfl (nw_options nt))
       (bnd new_task_number (\<lambda>n.
        bnd (inquire (wd_now w)) (\<lambda>t.
        let tk = task_of w n t repo wfl nt in
        andthen (put_task tk)
       (andthen (for_each (task_events wfl (nw_via nt) tk) log_event)
          (ret tk))))))))))"

subsection \<open>Creating its runs\<close>

definition reviews :: "step \<Rightarrow> bool" where
  "reviews s = (case s_spec s of
       SpAgent _ _ _ outp _ _ _ \<Rightarrow> outp = OReview \<or> outp = OAcceptance
     | SpApproval _ \<Rightarrow> True
     | SpGithubPr _ _ _ _ \<Rightarrow> True
     | _ \<Rightarrow> False)"

definition insert_position :: "step list \<Rightarrow> nat" where
  "insert_position ss =
     (case position (\<lambda>s. step_kind_of s = KAgent) ss of
        None \<Rightarrow> length ss
      | Some a \<Rightarrow> (case position reviews (drop (Suc a) ss) of
            Some i \<Rightarrow> Suc a + i
          | None \<Rightarrow> length ss))"

definition first_agent :: "workflow \<Rightarrow> string option" where
  "first_agent wfl = map_option s_id (find (\<lambda>s. step_kind_of s = KAgent) (w_steps wfl))"

definition check_steps :: "on_failure option \<Rightarrow> string list \<Rightarrow> string list list \<Rightarrow> step list" where
  "check_steps retry checks commands =
     map (\<lambda>(i, c). \<lparr> s_id = ''plan-'' @ c @ ''-'' @ nat_str (i + 1), s_spec = SpCheck (Some c) [] False [] None False,
        s_timeout = None, s_on_failure = retry, s_continue_on_failure = False,
        s_description = Some ''verification from the accepted plan'' \<rparr>) (enumerate 0 checks)
   @ map (\<lambda>(i, argv). \<lparr> s_id = ''plan-check-'' @ nat_str (i + 1), s_spec = SpCheck None argv False [] None False,
        s_timeout = None, s_on_failure = retry, s_continue_on_failure = False,
        s_description = Some ''verification command from the accepted plan'' \<rparr>) (enumerate 0 commands)"

definition augment_with_checks :: "workflow \<Rightarrow> string list \<Rightarrow> string list list \<Rightarrow> string + workflow option" where
  "augment_with_checks wfl checks commands =
     (let present = List.map_filter (\<lambda>s. spec_named_check (s_spec s)) (w_steps wfl);
          checks = filter (\<lambda>c. c \<notin> set present) checks
      in if checks = [] \<and> commands = [] then Inr None
         else
           let retry = map_option (\<lambda>i. \<lparr> of_retry_step = i, of_max_attempts = 2, of_feedback = True \<rparr>) (first_agent wfl);
               wfl' = wfl\<lparr> w_steps := splice_at (insert_position (w_steps wfl)) (check_steps retry checks commands) (w_steps wfl) \<rparr>
           in sum_bind (validate wfl') (\<lambda>_. Inr (Some wfl')))"


text \<open>The workflow of the task, with the verification a human accepted added as check steps.\<close>

definition run_workflow :: "world \<Rightarrow> engine_config \<Rightarrow> task \<Rightarrow> ('x, workflow \<times> string) engine_op" where
  "run_workflow w cfg tk =
     bnd (engine_workflow w (t_repo_root tk)
        (case to_workflow (t_options tk) of Some n \<Rightarrow> n | None \<Rightarrow> ec_workflow cfg)) (\<lambda>(wfl, src).
     bnd (lift_result (augment_with_checks wfl (to_extra_checks (t_options tk)) (to_extra_commands (t_options tk)))) (\<lambda>more.
     case more of
       None \<Rightarrow> ret (wfl, ws_yaml src)
     | Some wfl1 \<Rightarrow>
         bnd (lift_result (wd_workflow_text w wfl1)) (\<lambda>body.
         let yaml = ''# '' @ w_name wfl1 @ '' + verification from the accepted plan'' @ nl @ body in
         bnd (attempt (reparse w yaml)) (\<lambda>r.
         bnd (lift_result (with_context ''augmented workflow is invalid'' r)) (\<lambda>wfl2. ret (wfl2, yaml))))))"

text \<open>The run whose branch and worktree a follow-up continues.\<close>

definition continued_run :: "task \<Rightarrow> ('x, run option) engine_op" where
  "continued_run tk =
     (case to_continue_run (t_options tk) of
        None \<Rightarrow> ret None
      | Some i \<Rightarrow>
          bnd (get_run i) (\<lambda>prev.
          if \<not> run_terminal (r_status prev) then
            bail (''run '' @ display_name prev @ '' is still '' @ run_status_str (r_status prev))
          else
            bnd all_runs (\<lambda>runs.
            case find (\<lambda>r. \<not> run_terminal (r_status r) \<and> g_worktree_path (r_git r) \<noteq> None
                \<and> g_worktree_path (r_git r) = g_worktree_path (r_git prev)) runs of
              Some b \<Rightarrow> bail (''worktree of '' @ display_name prev @ '' is in use by '' @ display_name b)
            | None \<Rightarrow> ret (Some prev))))"

definition fresh_git :: "string \<Rightarrow> git_state" where
  "fresh_git base = \<lparr> g_base_ref = base, g_base_sha = None, g_branch = None, g_worktree_path = None,
     g_head_sha = None, g_dirty = None, g_commits = [] \<rparr>"

definition run_git :: "string \<Rightarrow> run option \<Rightarrow> (string \<times> string) option \<Rightarrow> git_state" where
  "run_git base continued upd =
     (case continued of
        None \<Rightarrow> fresh_git base
      | Some p \<Rightarrow> (fresh_git (case upd of Some (b, _) \<Rightarrow> b | None \<Rightarrow> g_base_ref (r_git p)))\<lparr>
          g_base_sha := (case upd of Some (_, s) \<Rightarrow> Some s | None \<Rightarrow> g_base_sha (r_git p)),
          g_branch := g_branch (r_git p), g_worktree_path := g_worktree_path (r_git p) \<rparr>)"

definition nth_option :: "'a list \<Rightarrow> nat \<Rightarrow> 'a option" where
  "nth_option xs i = (if i < length xs then Some (xs ! i) else None)"

definition run_step_runners :: "task \<Rightarrow> workflow \<Rightarrow> nat \<Rightarrow> (string, string) btmap" where
  "run_step_runners tk wfl v =
     (let m = to_step_runners (t_options tk) in
      case (nth_option (to_variant_runners (t_options tk)) v, first_agent wfl) of
        (Some r, Some first) \<Rightarrow> (if bt_contains m first then m else bt_insert first r m)
      | _ \<Rightarrow> m)"

definition new_run :: "world \<Rightarrow> task \<Rightarrow> workflow \<Rightarrow> string \<Rightarrow> git_state \<Rightarrow> nat \<Rightarrow> timestamp \<Rightarrow> string \<Rightarrow> run" where
  "new_run w tk wfl yaml git v t rid = \<lparr>
     r_run_id = rid, r_task_id = t_task_id tk, r_variant_index = v, r_variant_count = max 1 (to_variants (t_options tk)),
     r_workflow_name = w_name wfl, r_workflow_sha256 = wd_sha w yaml, r_workflow_yaml = yaml,
     r_runner_override = to_runner (t_options tk), r_repo_root = t_repo_root tk, r_git = git, r_workspace_id = None,
     r_status = RPending, r_status_reason = None, r_initiator = t_initiator tk, r_dry_run = to_dry_run (t_options tk),
     r_created_at = t, r_started_at = None, r_updated_at = t, r_completed_at = None, r_cursor = 0, r_steps = [],
     r_policy_decisions = [], r_approvals = [], r_artifacts = [], r_retry_counts = [], r_pr_url = None,
     r_diff_stat = None, r_pending_feedback = None, r_pending_feedback_step = None, r_outputs = [],
     r_approved_paths = [], r_approval_cover = None, r_step_runners = run_step_runners tk wfl v, r_recovered = False,
     r_selected = False, r_pr_feedback_seen = None, r_contract = None,
     r_memory = nth_option (to_variant_memory (t_options tk)) v \<rparr>"

fun create_variants :: "world \<Rightarrow> task \<Rightarrow> workflow \<Rightarrow> string \<Rightarrow> git_state \<Rightarrow> nat list \<Rightarrow> ('x, run list) engine_op" where
  "create_variants w tk wfl yaml git [] = ret []"
| "create_variants w tk wfl yaml git (v # vs) =
     bnd (inquire (wd_now w)) (\<lambda>t.
     bnd (inquire (wd_id w)) (\<lambda>rid.
     let r = new_run w tk wfl yaml git v t rid in
     andthen (put_run r)
       (bnd (create_variants w tk wfl yaml git vs) (\<lambda>rs. ret (r # rs)))))"

definition create_runs :: "world \<Rightarrow> task \<Rightarrow> ('x, run list) engine_op" where
  "create_runs w tk =
     bnd (load_config w (t_repo_root tk)) (\<lambda>cfg.
     bnd (run_workflow w cfg tk) (\<lambda>(wfl, yaml).
     bnd (default_base w (t_repo_root tk) (first_some (to_base_ref (t_options tk)) (ec_base_branch cfg))) (\<lambda>base.
     bnd (continued_run tk) (\<lambda>continued.
     bnd (case (continued, to_base_ref (t_options tk)) of
            (Some _, Some b) \<Rightarrow> bnd (inquire (wd_rev_parse w)) (\<lambda>rev.
               bnd (lift_result (rev (t_repo_root tk) b)) (\<lambda>s. ret (Some (b, s))))
          | _ \<Rightarrow> ret None) (\<lambda>upd.
     bnd (create_variants w tk wfl yaml (run_git base continued upd) [0..<max 1 (to_variants (t_options tk))]) (\<lambda>runs.
     bnd (modify_task w (t_task_id tk) (\<lambda>t. Inr (t\<lparr> t_run_ids := t_run_ids t @ map r_run_id runs, t_status := TRunning \<rparr>))) (\<lambda>_.
     ret runs)))))))"

subsection \<open>The status of a task\<close>

fun task_status_str :: "task_status \<Rightarrow> string" where
  "task_status_str TQueued = ''queued''"
| "task_status_str TRunning = ''running''"
| "task_status_str TBlocked = ''blocked''"
| "task_status_str TAwaitingApproval = ''awaiting_approval''"
| "task_status_str TSucceeded = ''succeeded''"
| "task_status_str TFailed = ''failed''"
| "task_status_str TCancelled = ''cancelled''"

definition status_of_runs :: "run_status list \<Rightarrow> task_status" where
  "status_of_runs ss =
     (if RAwaitingApproval \<in> set ss then TAwaitingApproval
      else if list_ex (\<lambda>s. s \<in> {RPending, RPreparing, RRunning}) ss then TRunning
      else if list_ex (\<lambda>s. s \<in> {RBlocked, RNeedsHuman}) ss then TBlocked
      else if RSucceeded \<in> set ss then TSucceeded
      else if list_all (\<lambda>s. s = RCancelled) ss then TCancelled
      else TFailed)"

definition refresh_task_status :: "world \<Rightarrow> string \<Rightarrow> ('x, task) engine_op" where
  "refresh_task_status w s =
     bnd (get_task s) (\<lambda>tk.
     if t_run_ids tk = [] then ret tk
     else
       bnd (loaded_runs (t_run_ids tk)) (\<lambda>runs.
       let st = status_of_runs (map r_status runs) in
       if st = t_status tk then ret tk
       else modify_task w s (\<lambda>t. Inr (t\<lparr> t_status := st \<rparr>))))"

subsection \<open>Requests of a human\<close>

definition request_cancel :: "string \<Rightarrow> string \<Rightarrow> string option \<Rightarrow> ('x, unit) engine_op" where
  "request_cancel rid reason user =
     bnd (get_run rid) (\<lambda>r.
     if run_terminal (r_status r) then
       bail (''run '' @ display_name r @ '' is already '' @ run_status_str (r_status r))
     else
       andthen (bnd (change_control rid (\<lambda>c. c\<lparr> rc_cancel_requested := True, rc_cancel_reason := Some reason,
          rc_requested_by := user \<rparr>)) (\<lambda>_. ret ()))
         (log_event (draft_data (json_object [(''reason'', JStr reason)])
            (draft_run rid (r_task_id r) (draft_new ''cancel_requested'' (actor_human user))))))"

definition request_retry :: "world \<Rightarrow> string \<Rightarrow> string option \<Rightarrow> string option \<Rightarrow> ('x, unit) engine_op" where
  "request_retry w rid from_step user =
     bnd (get_run rid) (\<lambda>r.
     if \<not> run_can_resume (r_status r) then
       bail (''run '' @ display_name r @ '' is '' @ run_status_str (r_status r)
             @ ''; only failed, cancelled, blocked or needs_human runs can be retried'')
     else
       andthen (case from_step of
           None \<Rightarrow> ret ()
         | Some s \<Rightarrow> bnd (reparse w (r_workflow_yaml r)) (\<lambda>wfl.
             if step_index wfl s = None then bail (''workflow '' @ w_name wfl @ '' has no step '' @ debug_str s) else ret ()))
      (andthen (bnd (change_control rid (\<lambda>c. c\<lparr> rc_resume_requested := True, rc_resume_from_step := from_step,
           rc_cancel_requested := False, rc_requested_by := user \<rparr>)) (\<lambda>_. ret ()))
         (log_event (draft_data (json_object [(''from_step'', json_opt JStr from_step)])
            (draft_run rid (r_task_id r) (draft_new ''retry_requested'' (actor_human user)))))))"

end
