(* ===== verification/Epic_Engine.thy ===== *)
theory Epic_Engine
  imports Engine
begin

text \<open>
  The life of an epic, \<open>src/epic/engine.rs\<close>: planning and conformance reviews are tasks with built-in
  workflows, an accepted plan task becomes a task with its dependencies, and the scheduler asks here
  whether the dependencies of a queued task are done. Two processes that work on one epic at the same
  time are not modelled here; each operation is one step.
\<close>

definition PLAN_WORKFLOW :: string where "PLAN_WORKFLOW = ''epic-plan''"
definition CONFORMANCE_WORKFLOW :: string where "CONFORMANCE_WORKFLOW = ''epic-conformance''"

definition epic_audit :: "string \<Rightarrow> actor \<Rightarrow> epic \<Rightarrow> (string \<times> json) list \<Rightarrow> ('x, unit) engine_op" where
  "epic_audit ev who e data =
     log_event (draft_data (json_object ([(''epic_id'', JStr (ep_epic_id e)), (''adr'', JStr (ad_path (ep_adr e)))] @ data))
       (draft_new ev who))"

definition epic_note :: "epic \<Rightarrow> string \<Rightarrow> bool \<Rightarrow> ('x, unit) engine_op" where
  "epic_note e msg urgent = show_note (''epic '' @ ad_title (ep_adr e)) msg urgent"

definition epic_adr :: "world \<Rightarrow> epic \<Rightarrow> ('x, adr \<times> string) engine_op" where
  "epic_adr w e =
     bnd (inquire (wd_adr_files w)) (\<lambda>af. lift_result (load_adr (wd_sha w) af (ep_repo_root e) (ad_path (ep_adr e))))"

definition plan_sha :: "world \<Rightarrow> plan \<Rightarrow> string" where
  "plan_sha w p = wd_sha w (wd_canonical w (wd_plan_json w p))"

subsection \<open>Planning\<close>

definition plan_prompt ::
  "world \<Rightarrow> string \<Rightarrow> string \<Rightarrow> nat \<Rightarrow> string list \<Rightarrow> plan option \<Rightarrow> string option \<Rightarrow> (string, string) btmap \<Rightarrow> string" where
  "plan_prompt w adr_path adr_text max_tasks workflows previous feedback accepted =
     ''Plan the implementation of the Architecture Decision Record below.'' @ nl @ nl @
     ''Break its Decision into small, independently reviewable tasks (at most '' @ nat_str max_tasks @ ''). '' @
     ''Each task must be something one agent can finish and a reviewer can verify in one pull request.'' @ nl @
     ''For every task give acceptance criteria a reviewer can check against the code and the tests '' @
     ''(behaviour, not effort), how to verify it (named checks: tests, lint, security; extra check '' @
     ''commands as argv arrays; manual checks only when a human is really needed), the keys of the '' @
     ''tasks it depends on, the ADR sections it implements, and path globs for the files it will change.'' @ nl @
     ''Workflows you may name per task (omit for the default): '' @ join '', '' workflows @ ''.'' @ nl @
     ''List what the ADR defers or excludes under out_of_scope, and anything a human must decide under open_questions.'' @
     nl @ nl @
     ''This is a planning step: read the repository as much as you need, but do not change any file. '' @
     ''The orchestrator fails this step if the worktree changes.'' @ nl @ nl @
     ''ADR: '' @ adr_path @ nl @ ''----- ADR begins -----'' @ nl @ trim adr_text @ nl @ ''----- ADR ends -----'' @ nl @
     (if accepted = [] then [] else
        nl @ ''These plan tasks are already accepted and must keep their keys; do not propose them again, '' @
        ''but new tasks may depend on them: '' @ join '', '' (bt_keys accepted) @ nl) @
     (case previous of None \<Rightarrow> [] | Some p \<Rightarrow> nl @ ''Your previous plan:'' @ nl @ wd_plan_pretty w p @ nl) @
     (case feedback of None \<Rightarrow> [] | Some f \<Rightarrow>
        nl @ ''The human reviewing the plan asks for these changes:'' @ nl @ trim f @ nl)"

definition helper_task :: "epic \<Rightarrow> string \<Rightarrow> string \<Rightarrow> string \<Rightarrow> string \<Rightarrow> string \<Rightarrow> new_task" where
  "helper_task e wfl title purpose body via = new_task_default\<lparr>
     nw_text := body, nw_title := Some (''['' @ ep_epic_id e @ ''] '' @ title @ '': '' @ ad_title (ep_adr e)),
     nw_repo := ep_repo_root e,
     nw_options := task_options_default\<lparr> to_workflow := Some wfl, to_runner := ep_planner_runner e \<rparr>,
     nw_via := via,
     nw_source := Some (SrcEpic (ep_epic_id e) (ad_path (ep_adr e)) (ad_sha256 (ep_adr e)) purpose) \<rparr>"

definition start_planning :: "world \<Rightarrow> epic \<Rightarrow> string \<Rightarrow> string option \<Rightarrow> string \<Rightarrow> ('x, string) engine_op" where
  "start_planning w e adr_text feedback via =
     bnd (load_config w (ep_repo_root e)) (\<lambda>cfg.
     bnd (engine_workflow_names w (ep_repo_root e)) (\<lambda>names.
     let workflows = filter (\<lambda>n. n \<noteq> PLAN_WORKFLOW \<and> n \<noteq> CONFORMANCE_WORKFLOW) names;
         body = plan_prompt w (ad_path (ep_adr e)) adr_text (ec_plan_max_tasks cfg) workflows (ep_plan e) feedback (ep_tasks e)
     in bnd (create_task w (helper_task e PLAN_WORKFLOW ''plan'' ''plan'' body via)) (\<lambda>tk. ret (t_task_id tk))))"

definition create_epic :: "world \<Rightarrow> path \<Rightarrow> path \<Rightarrow> string option \<Rightarrow> string \<Rightarrow> ('x, epic) engine_op" where
  "create_epic w repo0 adr_path runner via =
     bnd (inquire (wd_repo_root w)) (\<lambda>root_of.
     bnd (lift_result (root_of repo0)) (\<lambda>repo.
     bnd (load_config w repo) (\<lambda>cfg.
     bnd (inquire (wd_adr_files w)) (\<lambda>af.
     bnd (lift_result (load_adr (wd_sha w) af repo adr_path)) (\<lambda>(a, body).
     bnd (inquire (wd_now w)) (\<lambda>t.
     bnd new_epic_id (\<lambda>i.
     let e = \<lparr> ep_epic_id = i, ep_repo_root = repo, ep_adr = a, ep_status = EPlanning, ep_status_reason = None,
           ep_planner_runner = first_some runner (ec_planner_runner cfg), ep_planning_tasks = [], ep_plan = None,
           ep_plan_sha256 = None, ep_tasks = [], ep_declined = [], ep_conformance_task = None, ep_conformance = None,
           ep_created_at = t, ep_updated_at = t, ep_decided_by = None, ep_note = None \<rparr>
     in andthen (put_epic e)
       (andthen (epic_audit ''epic_created'' (actor_human (wd_user w)) e
           [(''adr_sha256'', JStr (ad_sha256 a)), (''title'', JStr (ad_title a))])
         (bnd (start_planning w e body None via) (\<lambda>tk.
          let e' = e\<lparr> ep_planning_tasks := [tk] \<rparr> in
          andthen (put_epic e') (ret e')))))))))))"

subsection \<open>Following the tasks of an epic\<close>

text \<open>What a helper task produced: the latest structured output of the first of its runs that
  succeeded with one, and the first reason given by any of them.\<close>

definition task_result :: "string \<Rightarrow> ('x, task_status \<times> json option \<times> string option) engine_op" where
  "task_result s =
     bnd (get_task s) (\<lambda>tk.
     bnd (loaded_runs (t_run_ids tk)) (\<lambda>runs.
     let outs = List.map_filter e_structured (concat (map (\<lambda>r. rev (r_steps r)) (filter (\<lambda>r. r_status r = RSucceeded) runs)));
         reasons = List.map_filter r_status_reason runs
     in ret (t_status tk, nth_option outs 0, nth_option reasons 0)))"

definition merge_plan :: "epic \<Rightarrow> plan \<Rightarrow> plan" where
  "merge_plan e p =
     (case ep_plan e of
        None \<Rightarrow> p
      | Some old \<Rightarrow> foldl (\<lambda>m t. if list_ex (\<lambda>n. k_key n = k_key t) (p_tasks m) then m else m\<lparr> p_tasks := t # p_tasks m \<rparr>) p
          (filter (\<lambda>t. bt_contains (ep_tasks e) (k_key t)) (p_tasks old)))"

definition planned :: "world \<Rightarrow> string \<Rightarrow> task_status \<Rightarrow> plan option \<Rightarrow> string option \<Rightarrow> epic \<Rightarrow> epic" where
  "planned w tid st pl reason e =
     (if ep_status e \<noteq> EPlanning \<or> ep_planning_tasks e = [] \<or> last (ep_planning_tasks e) \<noteq> tid then e
      else case pl of
        Some p \<Rightarrow> e\<lparr> ep_plan_sha256 := Some (plan_sha w p), ep_plan := Some (merge_plan e p), ep_status := EProposed,
          ep_status_reason := None \<rparr>
      | None \<Rightarrow> e\<lparr> ep_status := EPlanFailed, ep_status_reason := Some (case reason of Some r \<Rightarrow> r
          | None \<Rightarrow> ''planning task #'' @ tid @ '' ended '' @ task_status_str st) \<rparr>)"

text \<open>Follow-ups a conformance review proposes become open plan tasks.\<close>

definition f_key :: "nat \<Rightarrow> string" where
  "f_key n = ''F'' @ nat_str n"

definition has_key :: "plan_task list \<Rightarrow> string \<Rightarrow> bool" where
  "has_key ts k \<longleftrightarrow> list_ex (\<lambda>t. k_key t = k) ts"

text \<open>The first free number from \<open>n\<close>; a plan of \<open>fuel\<close> tasks cannot take \<open>fuel + 1\<close> of them.\<close>

fun free_key :: "nat \<Rightarrow> plan_task list \<Rightarrow> nat \<Rightarrow> nat" where
  "free_key 0 ts n = n"
| "free_key (Suc fuel) ts n = (if has_key ts (f_key n) then free_key fuel ts (n + 1) else n)"

fun add_followup :: "(json \<Rightarrow> string + plan_task) \<Rightarrow> json list \<Rightarrow> nat \<Rightarrow> plan_task list \<Rightarrow> plan_task list" where
  "add_followup rd [] n ts = ts"
| "add_followup rd (f # fs) n ts =
     (case rd f of
        Inl _ \<Rightarrow> add_followup rd fs n ts
      | Inr t \<Rightarrow>
          if trim (k_title t) = [] \<or> k_acceptance t = [] then add_followup rd fs n ts
          else
            let i = free_key (length ts) ts n;
                t' = t\<lparr> k_key := f_key i, k_depends_on := filter (has_key ts) (k_depends_on t) \<rparr>
            in add_followup rd fs (i + 1) (ts @ [t']))"

definition plan_default :: plan where
  "plan_default = \<lparr> p_decision_summary = [], p_tasks = [], p_out_of_scope = [], p_open_questions = [] \<rparr>"

definition add_followups :: "(json \<Rightarrow> string + plan_task) \<Rightarrow> json \<Rightarrow> epic \<Rightarrow> epic" where
  "add_followups rd v e =
     (case json_arr_at v ''followups'' of
        None \<Rightarrow> e
      | Some fs \<Rightarrow>
          let p = (case ep_plan e of Some p \<Rightarrow> p | None \<Rightarrow> plan_default);
              n = length (filter (\<lambda>t. starts_with (k_key t) ''F'') (p_tasks p)) + 1
          in e\<lparr> ep_plan := Some (p\<lparr> p_tasks := add_followup rd fs n (p_tasks p) \<rparr>) \<rparr>)"

definition reviewed :: "world \<Rightarrow> string \<Rightarrow> task_status \<Rightarrow> json option \<Rightarrow> string option \<Rightarrow> epic \<Rightarrow> epic" where
  "reviewed w tid st value reason e =
     (if ep_conformance e \<noteq> None \<or> ep_conformance_task e \<noteq> Some tid then e
      else case value of
        Some v \<Rightarrow> add_followups (wd_plan_task_of_json w) v (e\<lparr> ep_conformance := Some v \<rparr>)
      | None \<Rightarrow> e\<lparr> ep_conformance := Some (json_object [(''error'', JStr (case reason of Some r \<Rightarrow> r
          | None \<Rightarrow> ''conformance task #'' @ tid @ '' ended '' @ task_status_str st))]) \<rparr>)"


definition sync_planning :: "world \<Rightarrow> epic \<Rightarrow> ('x, unit) engine_op" where
  "sync_planning w e =
     (if ep_planning_tasks e = [] then ret ()
      else
        let tid = last (ep_planning_tasks e) in
        bnd (task_result tid) (\<lambda>(st, value, reason).
        if \<not> task_terminal st \<and> st \<noteq> TBlocked then ret ()
        else
          let pl = (if st \<noteq> TSucceeded then None
             else Option.bind value (\<lambda>v. case wd_plan_of_json w v of Inr p \<Rightarrow> Some p | Inl _ \<Rightarrow> None)) in
          bnd (get_epic (ep_epic_id e)) (\<lambda>before.
          bnd (modify_epic w (ep_epic_id e) (\<lambda>x. Inr (planned w tid st pl reason x))) (\<lambda>e2.
          if ep_status before \<noteq> EPlanning \<or> ep_planning_tasks before = [] \<or> last (ep_planning_tasks before) \<noteq> tid then ret ()
          else
            andthen (epic_audit (if pl \<noteq> None then ''plan_proposed'' else ''plan_failed'') actor_orchestrator e2
                [(''plan_sha256'', json_opt JStr (ep_plan_sha256 e2)), (''reason'', json_opt JStr (ep_status_reason e2))])
              (epic_note e2 (if pl \<noteq> None
                 then ep_epic_id e2 @ '': plan ready '' @ em_dash @ '' '' @ nat_str (length (open_keys e2)) @ '' task(s) to review''
                 else ep_epic_id e2 @ '': planning failed'') (pl \<noteq> None))))))"

definition sync_conformance :: "world \<Rightarrow> epic \<Rightarrow> ('x, unit) engine_op" where
  "sync_conformance w e =
     (case (ep_conformance_task e, ep_conformance e) of
        (Some tid, None) \<Rightarrow>
          bnd (task_result tid) (\<lambda>(st, value, reason).
          if \<not> task_terminal st \<and> st \<noteq> TBlocked then ret ()
          else
            bnd (get_epic (ep_epic_id e)) (\<lambda>before.
            bnd (modify_epic w (ep_epic_id e) (\<lambda>x. Inr (reviewed w tid st value reason x))) (\<lambda>e2.
            if ep_conformance before \<noteq> None \<or> ep_conformance_task before \<noteq> Some tid then ret ()
            else
              let n = length (open_keys e2) in
              andthen (epic_audit ''conformance_reviewed'' actor_orchestrator e2 [(''followups'', json_strs (open_keys e2))])
                (epic_note e2 (ep_epic_id e2 @ '': conformance review done''
                   @ (if 0 < n then '', '' @ nat_str n @ '' follow-up(s) proposed'' else [])) (0 < n)))))
      | _ \<Rightarrow> ret ())"

text \<open>Every task of the epic that can be loaded has ended.\<close>

definition tasks_ended :: "epic \<Rightarrow> ('x, bool) engine_op" where
  "tasks_ended e = gets (\<lambda>s. list_all (\<lambda>i. \<not> valid_id i \<or>
     (case bt_get (rp_tasks s) i of Some t \<Rightarrow> task_terminal (t_status t) | None \<Rightarrow> True)) (bt_values (ep_tasks e)))"

definition sync_done :: "world \<Rightarrow> epic \<Rightarrow> ('x, unit) engine_op" where
  "sync_done w e =
     (if ep_status e \<noteq> EAccepted \<or> ep_tasks e = [] then ret ()
      else
        bnd (tasks_ended e) (\<lambda>ended.
        if \<not> ended \<or> open_keys e \<noteq> [] then ret ()
        else
          bnd (get_epic (ep_epic_id e)) (\<lambda>before.
          bnd (modify_epic w (ep_epic_id e) (\<lambda>x. Inr (if ep_status x = EAccepted then x\<lparr> ep_status := EDone \<rparr> else x))) (\<lambda>e2.
          if ep_status before \<noteq> EAccepted then ret ()
          else
            andthen (epic_audit ''epic_done'' actor_orchestrator e2 [(''tasks'', json_map (ep_tasks e2))])
              (epic_note e2 (ep_epic_id e2 @ '': all tasks finished '' @ em_dash @ '' run `epic verify '' @ ep_epic_id e2
                 @ ''` to check the result against the ADR'') False)))))"

definition sync_one :: "world \<Rightarrow> epic \<Rightarrow> ('x, unit) engine_op" where
  "sync_one w e =
     (case ep_status e of
        EPlanning \<Rightarrow> sync_planning w e
      | EAccepted \<Rightarrow> andthen (sync_conformance w e) (sync_done w e)
      | EDone \<Rightarrow> andthen (sync_conformance w e) (sync_done w e)
      | _ \<Rightarrow> ret ())"

text \<open>Errors of one epic are logged, not propagated.\<close>

definition tolerate :: "('x, 'a) engine_op \<Rightarrow> ('x, unit) engine_op" where
  "tolerate m = bnd (attempt m) (\<lambda>_. ret ())"

definition sync :: "world \<Rightarrow> ('x, unit) engine_op" where
  "sync w = bnd all_epics (\<lambda>es. for_each es (\<lambda>e. tolerate (sync_one w e)))"

end
