(* ===== verification/Epic_Decisions.thy ===== *)
theory Epic_Decisions
  imports Epic_Engine
begin

text \<open>
  What a human decides about an epic, and the dependencies between its tasks, \<open>src/epic/engine.rs\<close>:
  accepting, declining, editing and regenerating the plan, the review of the result, and the state of
  the dependencies of a task.
\<close>

subsection \<open>Accepting\<close>

record accept_options =
  ao_only :: "string list option"
  ao_runner :: "string option"
  ao_step_runners :: "(string, string) btmap"
  ao_base_ref :: "string option"
  ao_note :: "string option"
  ao_user :: "string option"
  ao_via :: string

definition task_text :: "epic \<Rightarrow> plan \<Rightarrow> plan_task \<Rightarrow> string" where
  "task_text e p t =
     k_title t @ nl @ nl @ trim (k_description t) @ nl
     @ nl @ ''This task is part of epic '' @ ep_epic_id e @ '' implementing '' @ ad_path (ep_adr e)
     @ '' ('' @ [dquote] @ ad_title (ep_adr e) @ [dquote] @ '')''
     @ (if k_adr_refs t = [] then [] else '', sections: '' @ join '', '' (k_adr_refs t))
     @ ''.'' @ nl
     @ (if trim (p_decision_summary p) = [] then [] else ''ADR decision: '' @ trim (p_decision_summary p) @ nl)
     @ (if k_scope t = [] then [] else ''Expected to change: '' @ join '', '' (k_scope t) @ nl)
     @ (if p_out_of_scope p = [] then [] else ''Out of scope for the whole epic: '' @ join ''; '' (p_out_of_scope p) @ nl)"

definition select_keys :: "epic \<Rightarrow> string list option \<Rightarrow> string + string list" where
  "select_keys e only =
     sum_bind (case only of
         None \<Rightarrow> Inr (open_keys e)
       | Some ks \<Rightarrow> sum_bind (check_all (\<lambda>k. require (k \<in> set (open_keys e))
             (k @ '' is not an open task of epic '' @ ep_epic_id e @ '' (open: '' @ join '', '' (open_keys e) @ '')'')) ks)
           (\<lambda>_. Inr ks)) (\<lambda>selected.
     if selected = [] then Inl (''nothing to accept in epic '' @ ep_epic_id e) else Inr selected)"

text \<open>Every dependency must be accepted already or accepted now.\<close>

definition check_dependencies :: "epic \<Rightarrow> string list \<Rightarrow> string + unit" where
  "check_dependencies e selected =
     check_all (\<lambda>k. case find_plan_task e k of
         None \<Rightarrow> Inl ''selected keys are tasks of the plan''
       | Some t \<Rightarrow> check_all (\<lambda>d. require (d \<in> set selected \<or> bt_contains (ep_tasks e) d)
           (k @ '' depends on '' @ d @ '', which is not accepted; accept both (--only '' @ k @ '','' @ d @ '') or decline '' @ k))
         (k_depends_on t)) selected"

definition accepted_task :: "epic \<Rightarrow> plan \<Rightarrow> engine_config \<Rightarrow> accept_options \<Rightarrow> (string, string) btmap \<Rightarrow> plan_task \<Rightarrow> new_task" where
  "accepted_task e p cfg ao created t = \<lparr>
     nw_text = task_text e p t, nw_title = Some (''['' @ ep_epic_id e @ ''/'' @ k_key t @ ''] '' @ k_title t),
     nw_repo = ep_repo_root e,
     nw_options = task_options_default\<lparr>
       to_workflow := Some (case k_workflow t of Some x \<Rightarrow> x | None \<Rightarrow> ec_task_workflow cfg),
       to_runner := ao_runner ao, to_base_ref := ao_base_ref ao, to_step_runners := ao_step_runners ao,
       to_scope := k_scope t, to_extra_checks := vf_checks (k_verification t),
       to_extra_commands := vf_commands (k_verification t) \<rparr>,
     nw_via = ao_via ao, nw_source = None, nw_epic = Some \<lparr> el_epic_id = ep_epic_id e, el_key = k_key t \<rparr>,
     nw_depends_on = List.map_filter (\<lambda>d. first_some (bt_get created d) (bt_get (ep_tasks e) d)) (k_depends_on t),
     nw_acceptance = k_acceptance t, nw_manual_checks = vf_manual (k_verification t) \<rparr>"

fun create_accepted ::
  "world \<Rightarrow> epic \<Rightarrow> plan \<Rightarrow> engine_config \<Rightarrow> accept_options \<Rightarrow> plan_task list \<Rightarrow> string list \<Rightarrow> (string, string) btmap
     \<Rightarrow> ('x, (string, string) btmap) engine_op" where
  "create_accepted w e p cfg ao chosen [] created = ret created"
| "create_accepted w e p cfg ao chosen (k # ks) created =
     (case find (\<lambda>t. k_key t = k) chosen of
        None \<Rightarrow> bail ''ordered keys are chosen tasks''
      | Some t \<Rightarrow>
          bnd (create_task w (accepted_task e p cfg ao created t)) (\<lambda>tk.
          create_accepted w e p cfg ao chosen ks (bt_insert k (t_task_id tk) created)))"

definition accept_update :: "accept_options \<Rightarrow> (string, string) btmap \<Rightarrow> epic \<Rightarrow> epic" where
  "accept_update ao created x = x\<lparr> ep_tasks := bt_extend (ep_tasks x) created, ep_status := EAccepted,
     ep_decided_by := ao_user ao, ep_note := first_some (ao_note ao) (ep_note x) \<rparr>"

definition accept :: "world \<Rightarrow> string \<Rightarrow> accept_options \<Rightarrow> ('x, epic) engine_op" where
  "accept w s ao =
     andthen (sync w)
    (bnd (get_epic s) (\<lambda>e.
     if ep_status e \<notin> {EProposed, EAccepted, EDone} then
       bail (''epic '' @ ep_epic_id e @ '' is '' @ epic_status_str (ep_status e)
             @ ''; only a proposed plan (or open follow-ups) can be accepted'')
     else
       bnd (lift_result (some_or ''epic has no plan'' (ep_plan e))) (\<lambda>p.
       bnd (lift_result (select_keys e (ao_only ao))) (\<lambda>selected.
       andthen (lift_result (check_dependencies e selected))
      (bnd (load_config w (ep_repo_root e)) (\<lambda>cfg.
       bnd (engine_workflow_names w (ep_repo_root e)) (\<lambda>names.
       andthen (lift_result (validate_plan (wd_globs w) p
           \<lparr> pl_max_tasks = max (ec_plan_max_tasks cfg) (length (p_tasks p)), pl_workflows = names, pl_existing_keys = [] \<rparr>))
      (let chosen = filter (\<lambda>t. k_key t \<in> set selected) (p_tasks p) in
       bnd (lift_result (with_context ''dependency cycle'' (topo_order chosen))) (\<lambda>order.
       bnd (create_accepted w e p cfg ao chosen order []) (\<lambda>created.
       bnd (modify_epic w (ep_epic_id e) (\<lambda>x. Inr (accept_update ao created x))) (\<lambda>e2.
       andthen (epic_audit ''plan_accepted'' (actor_human (ao_user ao)) e2
           [(''keys'', json_strs order), (''tasks'', json_map created),
            (''approved_commands'', json_strs (concat (map (\<lambda>t. map display_argv (vf_commands (k_verification t))) chosen))),
            (''plan_sha256'', json_opt JStr (ep_plan_sha256 e2)), (''note'', json_opt JStr (ao_note ao))])
         (ret e2))))))))))))"

subsection \<open>Declining\<close>

fun decline_keys :: "string list \<Rightarrow> string list \<Rightarrow> string list \<Rightarrow> string + string list" where
  "decline_keys opn [] declined = Inr declined"
| "decline_keys opn (k # ks) declined =
     (if k \<notin> set opn then Inl (k @ '' is not an open task'') else decline_keys opn ks (declined @ [k]))"

definition reject_update :: "string list option \<Rightarrow> string option \<Rightarrow> string option \<Rightarrow> epic \<Rightarrow> string + epic" where
  "reject_update only note user x =
     sum_bind (case only of
         Some ks \<Rightarrow> sum_bind (decline_keys (open_keys x) ks (ep_declined x)) (\<lambda>d. Inr (x\<lparr> ep_declined := d \<rparr>))
       | None \<Rightarrow> if ep_tasks x = [] then Inr (x\<lparr> ep_status := ERejected \<rparr>)
           else Inr (x\<lparr> ep_declined := ep_declined x @ open_keys x \<rparr>)) (\<lambda>x1.
     Inr (x1\<lparr> ep_note := first_some note (ep_note x1), ep_decided_by := user \<rparr>))"

definition reject :: "world \<Rightarrow> string \<Rightarrow> string list option \<Rightarrow> string option \<Rightarrow> string option \<Rightarrow> ('x, epic) engine_op" where
  "reject w s only note user =
     bnd (get_epic s) (\<lambda>e.
     bnd (modify_epic w (ep_epic_id e) (reject_update only note user)) (\<lambda>e2.
     andthen (epic_audit ''plan_rejected'' (actor_human user) e2
         [(''keys'', json_opt json_strs only), (''note'', json_opt JStr note)])
       (ret e2)))"

subsection \<open>Planning again\<close>

definition replan_update :: "adr \<Rightarrow> string \<Rightarrow> epic \<Rightarrow> epic" where
  "replan_update a tk x = x\<lparr> ep_adr := a, ep_planning_tasks := ep_planning_tasks x @ [tk], ep_status := EPlanning,
     ep_declined := [] \<rparr>"

definition replan :: "world \<Rightarrow> string \<Rightarrow> string option \<Rightarrow> string \<Rightarrow> ('x, epic) engine_op" where
  "replan w s feedback via =
     bnd (get_epic s) (\<lambda>e.
     if ep_status e = EPlanning then bail (''epic '' @ ep_epic_id e @ '' is already planning'')
     else
       bnd (epic_adr w e) (\<lambda>(a, body).
       bnd (start_planning w (e\<lparr> ep_adr := a \<rparr>) body feedback via) (\<lambda>tk.
       bnd (modify_epic w (ep_epic_id e) (\<lambda>x. Inr (replan_update a tk x))) (\<lambda>e2.
       andthen (epic_audit ''plan_regenerated'' (actor_human (wd_user w)) e2
           [(''feedback'', json_opt JStr feedback), (''adr_changed'', JBool (ad_sha256 a \<noteq> ad_sha256 (ep_adr e))),
            (''task'', JStr tk)])
         (ret e2)))))"

definition edit_update :: "world \<Rightarrow> plan \<Rightarrow> epic \<Rightarrow> epic" where
  "edit_update w p x = x\<lparr> ep_plan_sha256 := Some (plan_sha w p), ep_plan := Some p,
     ep_status := (if ep_status x = EPlanFailed \<or> ep_status x = EPlanning then EProposed else ep_status x) \<rparr>"

definition set_plan :: "world \<Rightarrow> string \<Rightarrow> string \<Rightarrow> string option \<Rightarrow> ('x, epic) engine_op" where
  "set_plan w s body user =
     bnd (get_epic s) (\<lambda>e.
     bnd (lift_result (with_context ''plan must be YAML or JSON in the plan format'' (wd_plan_of_text w body))) (\<lambda>p.
     bnd (load_config w (ep_repo_root e)) (\<lambda>cfg.
     bnd (engine_workflow_names w (ep_repo_root e)) (\<lambda>names.
     andthen (lift_result (validate_plan (wd_globs w) p
         \<lparr> pl_max_tasks = ec_plan_max_tasks cfg, pl_workflows = names, pl_existing_keys = [] \<rparr>))
    (andthen (lift_result (check_all (\<lambda>k. require (has_key (p_tasks p) k)
         (k @ '' is already accepted and cannot be removed from the plan'')) (bt_keys (ep_tasks e))))
    (bnd (modify_epic w (ep_epic_id e) (\<lambda>x. Inr (edit_update w p x))) (\<lambda>e2.
     andthen (epic_audit ''plan_edited'' (actor_human user) e2 [(''plan_sha256'', json_opt JStr (ep_plan_sha256 e2))])
       (ret e2))))))))"

subsection \<open>Reviewing the result\<close>

definition task_line :: "epic \<Rightarrow> string \<Rightarrow> ('x, string option) engine_op" where
  "task_line e k =
     (case bt_get (ep_tasks e) k of
        None \<Rightarrow> ret None
      | Some tid \<Rightarrow>
          bnd (get_task tid) (\<lambda>t.
          bnd (loaded_runs (t_run_ids t)) (\<lambda>runs.
          let r = find (\<lambda>r. r_status r = RSucceeded) runs;
              part = (\<lambda>x. case x of Some b \<Rightarrow> '' '' @ em_dash @ '' '' @ b | None \<Rightarrow> [])
          in ret (Some (''- '' @ k @ '' (task #'' @ tid @ '', '' @ task_status_str (t_status t) @ ''): '' @ t_title t
               @ part (map_option (\<lambda>b. ''branch '' @ b) (Option.bind r (\<lambda>r. g_branch (r_git r))))
               @ part (Option.bind r r_pr_url))))))"

fun task_lines :: "epic \<Rightarrow> string list \<Rightarrow> ('x, string list) engine_op" where
  "task_lines e [] = ret []"
| "task_lines e (k # ks) =
     bnd (task_line e k) (\<lambda>l.
     bnd (task_lines e ks) (\<lambda>ls. ret (case l of Some x \<Rightarrow> x # ls | None \<Rightarrow> ls)))"

definition conformance_text :: "epic \<Rightarrow> string list \<Rightarrow> string \<Rightarrow> string" where
  "conformance_text e ls adr_text =
     ''Check whether the implemented work fulfils the Architecture Decision Record below.'' @ nl @ nl @
     ''Go through every statement in its Decision and Consequences sections and mark it covered, '' @
     ''partial or missing, with evidence (files, tests, PRs). For every gap propose a follow-up task '' @
     ''with acceptance criteria. Do not change any file.'' @ nl @ nl @
     ''You are on the base branch. Work that is not merged yet is on the task branches below; '' @
     ''inspect it with `git log` / `git diff HEAD...<branch>` (read-only).'' @ nl @ nl @
     ''Accepted tasks of epic '' @ ep_epic_id e @ '':'' @ nl @ join nl ls @ nl @ nl @
     ''ADR: '' @ ad_path (ep_adr e) @ nl @ ''----- ADR begins -----'' @ nl @ trim adr_text @ nl
     @ ''----- ADR ends -----'' @ nl"

definition verify_epic :: "world \<Rightarrow> string \<Rightarrow> string \<Rightarrow> ('x, epic) engine_op" where
  "verify_epic w s via =
     andthen (sync w)
    (bnd (get_epic s) (\<lambda>e.
     if ep_tasks e = [] then bail (''epic '' @ ep_epic_id e @ '' has no accepted tasks yet'')
     else
       bnd (epic_adr w e) (\<lambda>(_, body).
       let p = (case ep_plan e of Some p \<Rightarrow> p | None \<Rightarrow> plan_default);
           order = (case topo_order (filter (\<lambda>t. bt_contains (ep_tasks e) (k_key t)) (p_tasks p)) of Inr ks \<Rightarrow> ks | Inl _ \<Rightarrow> [])
       in bnd (task_lines e order) (\<lambda>ls.
       bnd (create_task w (helper_task e CONFORMANCE_WORKFLOW ''conformance'' ''conformance'' (conformance_text e ls body) via)) (\<lambda>tk.
       bnd (modify_epic w (ep_epic_id e) (\<lambda>x. Inr (x\<lparr> ep_conformance_task := Some (t_task_id tk), ep_conformance := None \<rparr>))) (\<lambda>e2.
       andthen (epic_audit ''conformance_requested'' (actor_human (wd_user w)) e2 [(''task'', JStr (t_task_id tk))])
         (ret e2)))))))"

subsection \<open>Dependencies\<close>

datatype dep_state = DepReady "string option" | DepWaiting string | DepBlocked string

text \<open>The run that stands for a finished dependency.\<close>

definition dependency_run :: "task \<Rightarrow> ('x, run option) engine_op" where
  "dependency_run dep =
     bnd (loaded_runs (case t_selected_run dep of Some i \<Rightarrow> [i] | None \<Rightarrow> [])) (\<lambda>sel.
     bnd (loaded_runs (t_run_ids dep)) (\<lambda>runs.
     ret (first_some (nth_option sel 0) (find (\<lambda>r. r_status r = RSucceeded) runs))))"

text \<open>The branch of a run that is not merged into the base yet; nothing was committed when there is no head.\<close>

definition unmerged_branch :: "world \<Rightarrow> task \<Rightarrow> string \<Rightarrow> run \<Rightarrow> ('x, string option) engine_op" where
  "unmerged_branch w tk base r =
     (case first_some (g_head_sha (r_git r)) (if g_commits (r_git r) = [] then None else Some (last (g_commits (r_git r)))) of
        None \<Rightarrow> ret None
      | Some h \<Rightarrow>
          if g_base_sha (r_git r) = Some h then ret None
          else
            bnd (inquire (wd_ancestor w)) (\<lambda>anc.
            ret (if anc (t_repo_root tk) h base then None
               else Some (case g_branch (r_git r) of Some b \<Rightarrow> b | None \<Rightarrow> []))))"

text \<open>One dependency: it decides the state, or adds an unmerged branch.\<close>

definition judge_dependency ::
  "world \<Rightarrow> task \<Rightarrow> string \<Rightarrow> string \<Rightarrow> task \<Rightarrow> ('x, dep_state + (string \<times> string) option) engine_op" where
  "judge_dependency w tk base d dep =
     (if t_status dep \<in> {TFailed, TCancelled} then
       ret (Inl (DepBlocked (''dependency #'' @ d @ '' '' @ task_status_str (t_status dep))))
     else if t_status dep \<noteq> TSucceeded then
       ret (Inl (DepWaiting (''waiting for #'' @ d @ '' (''
         @ map (\<lambda>c. if c = CHR ''_'' then CHR '' '' else c) (task_status_str (t_status dep)) @ '')'')))
     else
       bnd (dependency_run dep) (\<lambda>r.
       case r of
         None \<Rightarrow> ret (Inl (DepWaiting (''#'' @ d @ '' has no successful run selected'')))
       | Some r \<Rightarrow> bnd (unmerged_branch w tk base r) (\<lambda>b. ret (Inr (map_option (Pair d) b)))))"

definition check_dependency ::
  "world \<Rightarrow> task \<Rightarrow> string \<Rightarrow> string \<Rightarrow> ('x, dep_state + (string \<times> string) option) engine_op" where
  "check_dependency w tk base d =
     bnd (attempt (get_task d)) (\<lambda>found.
     bnd (lift_result (with_context (''dependency #'' @ d) found)) (\<lambda>dep. judge_dependency w tk base d dep))"

fun check_dependencies_of ::
  "world \<Rightarrow> task \<Rightarrow> string \<Rightarrow> string list \<Rightarrow> (string \<times> string) list \<Rightarrow> ('x, dep_state + (string \<times> string) list) engine_op" where
  "check_dependencies_of w tk base [] unmerged = ret (Inr unmerged)"
| "check_dependencies_of w tk base (d # ds) unmerged =
     bnd (check_dependency w tk base d) (\<lambda>r.
     case r of
       Inl st \<Rightarrow> ret (Inl st)
     | Inr None \<Rightarrow> check_dependencies_of w tk base ds unmerged
     | Inr (Some u) \<Rightarrow> check_dependencies_of w tk base ds (unmerged @ [u]))"

definition unmerged_state :: "engine_config \<Rightarrow> task \<Rightarrow> (string \<times> string) list \<Rightarrow> dep_state" where
  "unmerged_state cfg tk unmerged =
     (let ids = join '', '' (map (\<lambda>(i, _). ''#'' @ i) unmerged) in
      case unmerged of
        [] \<Rightarrow> DepReady None
      | (_, b) # rest \<Rightarrow>
          (case ec_dependency_mode cfg of
             DepMerged \<Rightarrow> DepWaiting (''waiting for '' @ ids @ '' to be merged into ''
               @ (case first_some (to_base_ref (t_options tk)) (ec_base_branch cfg) of Some x \<Rightarrow> x | None \<Rightarrow> ''the base branch'')
               @ '' (merge the PR and update the local branch, or `task unblock`)'')
           | DepStacked \<Rightarrow>
               if rest = [] then DepReady (Some b)
               else DepWaiting (''stacked mode can build on one unmerged branch, but '' @ ids
                 @ '' are unmerged; merge all but one'')))"

definition dependency_state :: "world \<Rightarrow> task \<Rightarrow> ('x, dep_state) engine_op" where
  "dependency_state w tk =
     (if t_depends_on tk = [] then ret (DepReady None)
      else
        bnd (load_config w (t_repo_root tk)) (\<lambda>cfg.
        bnd (default_base w (t_repo_root tk) (first_some (to_base_ref (t_options tk)) (ec_base_branch cfg))) (\<lambda>base.
        bnd (check_dependencies_of w tk base (t_depends_on tk) []) (\<lambda>r.
        ret (case r of Inl st \<Rightarrow> st | Inr unmerged \<Rightarrow> unmerged_state cfg tk unmerged)))))"

definition unblock :: "world \<Rightarrow> string \<Rightarrow> string option \<Rightarrow> ('x, task) engine_op" where
  "unblock w s user =
     bnd (get_task s) (\<lambda>t.
     if t_depends_on t = [] then bail (''task #'' @ t_task_id t @ '' has no dependencies'')
     else if t_run_ids t \<noteq> [] then bail (''task #'' @ t_task_id t @ '' has already started'')
     else
       bnd (modify_task w (t_task_id t) (\<lambda>x. Inr (x\<lparr> t_depends_on := [], t_waiting_on := None,
           t_status := (if t_status x = TBlocked then TQueued else t_status x) \<rparr>))) (\<lambda>t2.
       andthen (log_event (draft_data (json_object [(''depends_on'', json_strs (t_depends_on t))])
           (draft_task (t_task_id t2) (draft_new ''dependencies_overridden'' (actor_human user)))))
         (ret t2)))"

end
