(* ===== verification/Digest.thy ===== *)
theory Digest
  imports Engine Store_Facts
begin

text \<open>
  The inbox of a human and the shift of unattended work, \<open>src/engine/digest.rs\<close>: the risk of a run from
  recorded facts, what needs a human in order of urgency, approval in bulk, and the end of a shift.
  Parsing a time of day (\<open>parse_until\<close>) needs the local calendar and is not modelled.
\<close>

subsection \<open>Risk\<close>

datatype risk_level = RiskLow | RiskMedium | RiskHigh

fun risk_rank :: "risk_level \<Rightarrow> nat" where
  "risk_rank RiskLow = 0"
| "risk_rank RiskMedium = 1"
| "risk_rank RiskHigh = 2"

instantiation risk_level :: linorder
begin

definition less_eq_risk_level :: "risk_level \<Rightarrow> risk_level \<Rightarrow> bool" where
  "a \<le> b \<longleftrightarrow> risk_rank a \<le> risk_rank b"

definition less_risk_level :: "risk_level \<Rightarrow> risk_level \<Rightarrow> bool" where
  "a < b \<longleftrightarrow> risk_rank a < risk_rank b"

instance
proof
  fix a b :: risk_level
  show "a \<le> b \<Longrightarrow> b \<le> a \<Longrightarrow> a = b"
    by (cases a; cases b) (simp_all add: less_eq_risk_level_def)
qed (auto simp: less_eq_risk_level_def less_risk_level_def)

end

fun risk_level_str :: "risk_level \<Rightarrow> string" where
  "risk_level_str RiskLow = ''low''"
| "risk_level_str RiskMedium = ''medium''"
| "risk_level_str RiskHigh = ''high''"

record risk =
  rk_level :: risk_level
  rk_reasons :: "string list"

definition HIGH_RULES :: "string list" where
  "HIGH_RULES = [''approve-migrations'', ''approve-infra'', ''approve-ci-cd'', ''approve-auth-security-config'',
     ''approve-agent-instructions-and-orchestrator-config'', ''approve-infra-commands'', ''approve-history-rewrite'',
     ''approve-privilege-escalation'', ''approve-large-deletes'', ''approve-large-line-deletes'']"

definition MEDIUM_RULES :: "string list" where
  "MEDIUM_RULES = [''approve-test-deletion'', ''approve-test-runner-config'', ''approve-disabled-tests'',
     ''guard-test-only-retry'', ''task-scope'', ''approve-large-lockfile-changes'', ''approve-network-commands'',
     ''approve-shell-mode'']"

definition bump :: "risk_level \<Rightarrow> string \<Rightarrow> risk \<Rightarrow> risk" where
  "bump l why k = k\<lparr> rk_level := max (rk_level k) l,
     rk_reasons := (if why \<in> set (rk_reasons k) then rk_reasons k else rk_reasons k @ [why]) \<rparr>"

text \<open>The rules that fired, in order.\<close>

definition fired_rules :: "run \<Rightarrow> string list" where
  "fired_rules r = sort (remdups (concat (map (\<lambda>d. map mr_rule_id (pd_matched (pr_decision d)))
     (filter (\<lambda>d. pd_decision (pr_decision d) \<noteq> Allow) (r_policy_decisions r)))))"

definition rule_risk :: "risk \<Rightarrow> string \<Rightarrow> risk" where
  "rule_risk k i =
     (if i \<in> set HIGH_RULES then bump RiskHigh (''touches a sensitive area ('' @ i @ '')'') k
      else if i \<in> set MEDIUM_RULES then bump RiskMedium (''guardrail fired ('' @ i @ '')'') k
      else k)"

definition size_risk :: "diff_stat option \<Rightarrow> risk \<Rightarrow> risk" where
  "size_risk ds k =
     (case ds of
        None \<Rightarrow> k
      | Some d \<Rightarrow>
          let ls = u64_add (ds_insertions d) (ds_deletions d);
              what = nat_str (ds_files_changed d) @ '' files, '' @ nat_str ls @ '' lines''
          in if 1500 < ls \<or> 40 < ds_files_changed d then bump RiskHigh (''large change: '' @ what) k
             else if 400 < ls \<or> 15 < ds_files_changed d then bump RiskMedium (''sizeable change: '' @ what) k
             else k)"

definition count_with :: "json list \<Rightarrow> string \<Rightarrow> string \<Rightarrow> nat" where
  "count_with xs key v = length (filter (\<lambda>x. json_index x key = JStr v) xs)"

definition findings_risk :: "json list \<Rightarrow> risk \<Rightarrow> risk" where
  "findings_risk fs k =
     (let severe = count_with fs ''severity'' ''critical'' + count_with fs ''severity'' ''high'';
          medium = count_with fs ''severity'' ''medium''
      in if 0 < severe then bump RiskHigh (''review found '' @ nat_str severe @ '' critical/high issue(s)'') k
         else if 0 < medium then bump RiskMedium (''review found '' @ nat_str medium @ '' medium issue(s)'') k
         else k)"

definition criteria_risk :: "json list \<Rightarrow> risk \<Rightarrow> risk" where
  "criteria_risk cs k =
     (let unmet = count_with cs ''status'' ''not_met''; unknown = count_with cs ''status'' ''unverifiable'' in
      if 0 < unmet then bump RiskHigh (nat_str unmet @ '' acceptance criterion(s) not met'') k
      else if 0 < unknown then bump RiskMedium (nat_str unknown @ '' acceptance criterion(s) need a human check'') k
      else k)"

definition output_risk :: "risk \<Rightarrow> json \<Rightarrow> risk" where
  "output_risk k v =
     (let k1 = (case json_arr_at v ''findings'' of Some fs \<Rightarrow> findings_risk fs k | None \<Rightarrow> k)
      in case json_arr_at v ''criteria'' of Some cs \<Rightarrow> criteria_risk cs k1 | None \<Rightarrow> k1)"

definition outputs_of :: "run \<Rightarrow> json list" where
  "outputs_of r = List.map_filter e_structured (r_steps r)"

definition was_reviewed :: "run \<Rightarrow> bool" where
  "was_reviewed r \<longleftrightarrow> list_ex (\<lambda>v. json_arr_at v ''findings'' \<noteq> None \<or> json_arr_at v ''criteria'' \<noteq> None) (outputs_of r)"

text \<open>The latest review decides.\<close>

definition verdict_risk :: "run \<Rightarrow> risk \<Rightarrow> risk" where
  "verdict_risk r k =
     (case find (\<lambda>v. json_get v ''verdict'' \<noteq> None) (rev (outputs_of r)) of
        None \<Rightarrow> k
      | Some v \<Rightarrow>
          if json_index v ''verdict'' = JStr ''approved'' then k
          else bump RiskHigh (''last review verdict: ''
            @ (case json_as_str (json_index v ''verdict'') of Some s \<Rightarrow> s | None \<Rightarrow> ''?'')) k)"

definition retry_total :: "run \<Rightarrow> nat" where
  "retry_total r = sum_list (bt_values (r_retry_counts r)) mod 2 ^ 32"

definition retry_risk :: "run \<Rightarrow> risk \<Rightarrow> risk" where
  "retry_risk r k = (if 2 \<le> retry_total r then bump RiskMedium (''needed '' @ nat_str (retry_total r) @ '' retries'') k else k)"

definition attention_risk :: "run \<Rightarrow> risk \<Rightarrow> risk" where
  "attention_risk r k = (if list_ex (\<lambda>e. e_attention e \<noteq> None) (r_steps r)
     then bump RiskMedium ''the watchdog flagged the agent as stuck'' k else k)"

definition reason :: "string \<Rightarrow> risk \<Rightarrow> risk" where
  "reason why k = k\<lparr> rk_reasons := rk_reasons k @ [why] \<rparr>"

definition contract_risk :: "run \<Rightarrow> risk \<Rightarrow> risk" where
  "contract_risk r k =
     (case r_contract r of
        Some c \<Rightarrow>
          if c_approval_id c = None then reason ''contract written and proven red; waiting for your approval'' k
          else reason (''held to an approved contract ('' @ nat_str (length (c_files c)) @ '' file(s))'') k
      | None \<Rightarrow>
          if \<not> was_reviewed r \<and> (case r_diff_stat r of Some d \<Rightarrow> 0 < ds_files_changed d | None \<Rightarrow> False)
          then bump RiskMedium ''nobody reviewed it and no contract holds it'' k else k)"

definition assess :: "run \<Rightarrow> risk" where
  "assess r =
     (let k0 = \<lparr> rk_level = RiskLow, rk_reasons = [] \<rparr>;
          k1 = size_risk (r_diff_stat r) (foldl rule_risk k0 (fired_rules r));
          k2 = verdict_risk r (foldl output_risk k1 (outputs_of r));
          k3 = contract_risk r (attention_risk r (retry_risk r k2))
      in if rk_reasons k3 = [] then reason ''small, reviewed, no guardrail fired'' k3 else k3)"

definition risk_json :: "risk \<Rightarrow> json" where
  "risk_json k = json_object [(''level'', JStr (risk_level_str (rk_level k))), (''reasons'', json_strs (rk_reasons k))]"

subsection \<open>The inbox\<close>

datatype inbox_item =
    ItApproval string string string string string bool risk
  | ItStopped string string string string
  | ItAgent string string string string
  | ItPlan string string nat
  | ItReady string string string "string option" risk

fun item_rank :: "inbox_item \<Rightarrow> nat" where
  "item_rank (ItAgent _ _ _ _) = 0"
| "item_rank (ItApproval _ _ _ _ _ _ k) = 10 + (2 - risk_rank (rk_level k))"
| "item_rank (ItStopped _ _ _ _) = 20"
| "item_rank (ItPlan _ _ _) = 30"
| "item_rank (ItReady _ _ _ _ k) = 40 + (2 - risk_rank (rk_level k))"

definition pending_approvals :: "('x, approval_request list) engine_op" where
  "pending_approvals = bnd all_approvals (\<lambda>as. ret (filter (\<lambda>a. a_status a = APending) as))"

definition approval_items :: "run list \<Rightarrow> approval_request list \<Rightarrow> inbox_item list" where
  "approval_items runs as =
     List.map_filter (\<lambda>a. map_option (\<lambda>r. ItApproval (a_approval_id a) (display_name r) (r_run_id r) (a_step_id a) (a_reason a)
         (a_kind a = WorkflowStep) (assess r)) (find (\<lambda>r. r_run_id r = a_run_id a) runs)) as"

definition agent_item :: "run \<Rightarrow> inbox_item option" where
  "agent_item r = map_option (\<lambda>e. ItAgent (display_name r) (r_run_id r) (e_step_id e)
       (case e_attention e of Some w \<Rightarrow> w | None \<Rightarrow> ''the agent is asking something in its pane''))
     (find (\<lambda>e. e_status e = SAwaitingHuman) (rev (r_steps r)))"

definition run_title :: "task list \<Rightarrow> run \<Rightarrow> string" where
  "run_title tasks r = (case find (\<lambda>t. t_task_id t = r_task_id r) tasks of Some t \<Rightarrow> t_title t | None \<Rightarrow> [])"

definition status_reason :: "run \<Rightarrow> string" where
  "status_reason r = (case r_status_reason r of Some w \<Rightarrow> w | None \<Rightarrow> [])"

definition run_item :: "task list \<Rightarrow> timestamp \<Rightarrow> run \<Rightarrow> inbox_item option" where
  "run_item tasks cutoff r =
     (let recent = ((case r_completed_at r of Some t \<Rightarrow> cutoff \<le> t | None \<Rightarrow> True) \<and> cutoff \<le> r_updated_at r) in
      if r_status r \<in> {RBlocked, RNeedsHuman} then
        Some (ItStopped (display_name r) (r_run_id r) (run_status_str (r_status r)) (status_reason r))
      else if r_status r = RFailed \<and> recent then
        Some (ItStopped (display_name r) (r_run_id r) ''failed'' (status_reason r))
      else if r_status r = RSucceeded \<and> recent \<and> (case r_diff_stat r of Some d \<Rightarrow> 0 < ds_files_changed d | None \<Rightarrow> False) then
        Some (ItReady (display_name r) (r_run_id r) (run_title tasks r) (r_pr_url r) (assess r))
      else None)"

definition option_list :: "'a option \<Rightarrow> 'a list" where
  "option_list x = (case x of Some v \<Rightarrow> [v] | None \<Rightarrow> [])"

definition plan_item :: "epic \<Rightarrow> inbox_item option" where
  "plan_item e = (if 0 < length (open_keys e) \<and> ep_status e \<in> {EProposed, EAccepted, EDone}
     then Some (ItPlan (ep_epic_id e) (ad_title (ep_adr e)) (length (open_keys e))) else None)"

definition inbox :: "world \<Rightarrow> int \<Rightarrow> ('x, inbox_item list) engine_op" where
  "inbox w since =
     bnd all_runs (\<lambda>runs.
     bnd all_tasks (\<lambda>tasks.
     bnd pending_approvals (\<lambda>as.
     bnd (inquire (wd_now w)) (\<lambda>t.
     bnd all_epics (\<lambda>es.
     ret (sort_key item_rank
       (approval_items runs as
        @ concat (map (\<lambda>r. option_list (agent_item r) @ option_list (run_item tasks (t - since) r)) runs)
        @ List.map_filter plan_item es)))))))"

subsection \<open>Approval in bulk\<close>

definition decide :: "world \<Rightarrow> string \<Rightarrow> bool \<Rightarrow> string option \<Rightarrow> string option \<Rightarrow> ('x, approval_request) engine_op" where
  "decide w aid ok user note =
     bnd (inquire (wd_now w)) (\<lambda>t. change_approval aid (decide_change (wd_user w) t ok user note))"

definition batch_note :: "risk \<Rightarrow> string" where
  "batch_note k = ''batch approval (risk '' @ risk_level_str (rk_level k) @ '': '' @ join ''; '' (rk_reasons k) @ '')''"

text \<open>One pending request; the result is its identifier when it was approved.\<close>

definition approve_one :: "world \<Rightarrow> risk_level \<Rightarrow> string option \<Rightarrow> approval_request \<Rightarrow> ('x, string option) engine_op" where
  "approve_one w most user a =
     (if a_kind a \<noteq> WorkflowStep then ret None
      else
        bnd (attempt (get_run (a_run_id a))) (\<lambda>found.
        case found of
          Inl _ \<Rightarrow> ret None
        | Inr r \<Rightarrow>
            let k = assess r in
            if most < rk_level k then ret None
            else
              bnd (decide w (a_approval_id a) True user (Some (batch_note k))) (\<lambda>a2.
              if a_status a2 = AApproved then
                andthen (log_event (draft_data (json_object [(''approval_id'', JStr (a_approval_id a2)), (''risk'', risk_json k)])
                    (draft_run (r_run_id r) (r_task_id r) (draft_new ''approval_batch'' (actor_human user)))))
                  (ret (Some (a_approval_id a2)))
              else ret None)))"

fun approve_all :: "world \<Rightarrow> risk_level \<Rightarrow> string option \<Rightarrow> approval_request list \<Rightarrow> ('x, string list) engine_op" where
  "approve_all w most user [] = ret []"
| "approve_all w most user (a # as) =
     bnd (approve_one w most user a) (\<lambda>r.
     bnd (approve_all w most user as) (\<lambda>ids. ret (option_list r @ ids)))"

definition approve_batch :: "world \<Rightarrow> risk_level \<Rightarrow> string option \<Rightarrow> ('x, string list) engine_op" where
  "approve_batch w most user = bnd pending_approvals (\<lambda>as. approve_all w most user as)"

subsection \<open>The shift\<close>

definition shift_json :: "world \<Rightarrow> shift \<Rightarrow> json" where
  "shift_json w s = json_object [(''started_at'', JStr (wd_time w (sh_started_at s))),
     (''until'', json_opt (\<lambda>t. JStr (wd_time w t)) (sh_until s)),
     (''budget_tokens'', json_opt (\<lambda>n. JInt (int n)) (sh_budget_tokens s)), (''ended'', json_opt JStr (sh_ended s))]"

definition put_shift :: "shift \<Rightarrow> ('x, unit) engine_op" where
  "put_shift s = modify (\<lambda>e. e\<lparr> eg_shift := Some s \<rparr>)"

definition start_shift :: "world \<Rightarrow> timestamp option \<Rightarrow> nat option \<Rightarrow> string option \<Rightarrow> ('x, shift) engine_op" where
  "start_shift w until budget user =
     (if until = None \<and> budget = None then bail ''give --until and/or --budget''
      else
        bnd (inquire (wd_now w)) (\<lambda>t.
        let s = \<lparr> sh_started_at = t, sh_until = until, sh_budget_tokens = budget, sh_ended = None \<rparr> in
        andthen (put_shift s)
       (andthen (put_scheduler \<lparr> sched_paused = False \<rparr>)
       (andthen (log_event (draft_data (shift_json w s) (draft_new ''shift_started'' (actor_human user))))
         (ret s)))))"

definition stop_shift :: "string \<Rightarrow> ('x, shift option) engine_op" where
  "stop_shift why =
     bnd (gets eg_shift) (\<lambda>found.
     case found of
       None \<Rightarrow> ret None
     | Some s \<Rightarrow>
         if sh_ended s \<noteq> None then ret (Some s)
         else let s' = s\<lparr> sh_ended := Some why \<rparr> in andthen (put_shift s') (ret (Some s')))"

definition tokens_of :: "timestamp \<Rightarrow> step_execution \<Rightarrow> nat" where
  "tokens_of start e =
     (if e_kind e = KAgent \<and> (case e_started_at e of Some t \<Rightarrow> start \<le> t | None \<Rightarrow> False) then
        (case e_usage e of
           None \<Rightarrow> 0
         | Some u \<Rightarrow> u64_add (case u_input_tokens u of Some n \<Rightarrow> n | None \<Rightarrow> 0) (case u_output_tokens u of Some n \<Rightarrow> n | None \<Rightarrow> 0))
      else 0)"

definition shift_tokens :: "shift \<Rightarrow> ('x, nat) engine_op" where
  "shift_tokens s =
     bnd all_runs (\<lambda>runs.
     ret (foldl u64_add 0 (concat (map (\<lambda>r. map (tokens_of (sh_started_at s)) (r_steps r)) runs))))"

definition shift_over :: "world \<Rightarrow> shift \<Rightarrow> ('x, string option) engine_op" where
  "shift_over w s =
     bnd (case sh_until s of
            None \<Rightarrow> ret False
          | Some u \<Rightarrow> bnd (inquire (wd_now w)) (\<lambda>t. ret (u \<le> t))) (\<lambda>late.
     if late then ret (Some ''shift time is over'')
     else case sh_budget_tokens s of
       None \<Rightarrow> ret None
     | Some b \<Rightarrow>
         bnd (shift_tokens s) (\<lambda>used.
         ret (if b \<le> used then Some (''shift token budget reached ('' @ nat_str used @ '' of '' @ nat_str b @ '')'') else None)))"

definition enforce_shift :: "world \<Rightarrow> ('x, bool) engine_op" where
  "enforce_shift w =
     bnd (gets eg_shift) (\<lambda>found.
     case found of
       None \<Rightarrow> ret False
     | Some s \<Rightarrow>
         if sh_ended s \<noteq> None then ret False
         else
           bnd (shift_over w s) (\<lambda>over.
           case over of
             None \<Rightarrow> ret False
           | Some why \<Rightarrow>
               andthen (put_scheduler \<lparr> sched_paused = True \<rparr>)
              (bnd (stop_shift why) (\<lambda>_.
               bnd (inquire (wd_now w)) (\<lambda>t.
               bnd (inbox w (t - sh_started_at s)) (\<lambda>items.
               andthen (log_event (draft_data (json_object [(''reason'', JStr why), (''inbox'', JInt (int (length items)))])
                   (draft_new ''shift_ended'' actor_orchestrator)))
              (andthen (show_note ''herdr-orchestrator: shift ended'' (why @ ''; queue paused. '' @ nat_str (length items)
                   @ '' item(s) in your inbox '' @ em_dash @ '' `herdr-orchestrator inbox` or [i] in the pane'') True)
                (ret True))))))))"

subsection \<open>What is approved in bulk\<close>

definition approvals_named :: "'x engine_scheme \<Rightarrow> bool" where
  "approvals_named s \<longleftrightarrow> bt_ok (rp_approvals s) \<and> (\<forall>i a. bt_get (rp_approvals s) i = Some a \<longrightarrow> a_approval_id a = i)"

text \<open>A request that bulk approval may decide, and the step from one set of documents to the next.\<close>

definition batchable :: "(string, run) btmap \<Rightarrow> risk_level \<Rightarrow> approval_request \<Rightarrow> bool" where
  "batchable runs most a \<longleftrightarrow> a_status a = APending \<and> a_kind a = WorkflowStep
     \<and> (\<exists>r. bt_get runs (a_run_id a) = Some r \<and> rk_level (assess r) \<le> most)"

definition same_request :: "approval_request \<Rightarrow> approval_request \<Rightarrow> bool" where
  "same_request a b \<longleftrightarrow> a_approval_id b = a_approval_id a \<and> a_kind b = a_kind a \<and> a_run_id b = a_run_id a
     \<and> a_context b = a_context a"

definition batch_rel :: "risk_level \<Rightarrow> 'x engine_scheme \<Rightarrow> 'x engine_scheme \<Rightarrow> bool" where
  "batch_rel most s s' \<longleftrightarrow> rp_runs s' = rp_runs s \<and> rp_tasks s' = rp_tasks s \<and> rp_epics s' = rp_epics s
     \<and> (\<forall>i. case bt_get (rp_approvals s) i of
          None \<Rightarrow> bt_get (rp_approvals s') i = None
        | Some a \<Rightarrow> \<exists>b. bt_get (rp_approvals s') i = Some b
            \<and> (b = a \<or> batchable (rp_runs s) most a \<and> a_status b = AApproved \<and> same_request a b))"

lemma batch_rel_refl: "batch_rel most s s"
  by (simp add: batch_rel_def split: option.split)

lemma batch_rel_fields:
  assumes "batch_rel most s t" and "rp_runs u = rp_runs t" and "rp_tasks u = rp_tasks t" and "rp_epics u = rp_epics t"
    and "rp_approvals u = rp_approvals t"
  shows "batch_rel most s u"
  using assms by (simp add: batch_rel_def cong: option.case_cong)

lemma batch_rel_get:
  assumes "batch_rel most s t" and "bt_get (rp_approvals s) i = Some a"
  shows "\<exists>b. bt_get (rp_approvals t) i = Some b
    \<and> (b = a \<or> batchable (rp_runs s) most a \<and> a_status b = AApproved \<and> same_request a b)"
proof -
  have "case bt_get (rp_approvals s) i of None \<Rightarrow> bt_get (rp_approvals t) i = None
        | Some a \<Rightarrow> \<exists>b. bt_get (rp_approvals t) i = Some b
            \<and> (b = a \<or> batchable (rp_runs s) most a \<and> a_status b = AApproved \<and> same_request a b)"
    using assms(1) unfolding batch_rel_def by blast
  with assms(2) show ?thesis by simp
qed

lemma batch_rel_same: "batch_rel most s t \<Longrightarrow> bt_get (rp_approvals s) i = Some a \<Longrightarrow>
  \<exists>b. bt_get (rp_approvals t) i = Some b \<and> same_request a b"
  using batch_rel_get [of most s t i a] by (auto simp: same_request_def)

lemma batch_rel_none: "batch_rel most s t \<Longrightarrow> bt_get (rp_approvals s) i = None \<Longrightarrow> bt_get (rp_approvals t) i = None"
proof -
  assume st: "batch_rel most s t" and n: "bt_get (rp_approvals s) i = None"
  have "case bt_get (rp_approvals s) i of None \<Rightarrow> bt_get (rp_approvals t) i = None
        | Some a \<Rightarrow> \<exists>b. bt_get (rp_approvals t) i = Some b
            \<and> (b = a \<or> batchable (rp_runs s) most a \<and> a_status b = AApproved \<and> same_request a b)"
    using st unfolding batch_rel_def by blast
  with n show "bt_get (rp_approvals t) i = None" by simp
qed

lemma batch_rel_trans:
  assumes st: "batch_rel most s t" and tu: "batch_rel most t u"
  shows "batch_rel most s u"
proof -
  have runs: "rp_runs t = rp_runs s" using st by (simp add: batch_rel_def)
  have "case bt_get (rp_approvals s) i of None \<Rightarrow> bt_get (rp_approvals u) i = None
        | Some a \<Rightarrow> \<exists>b. bt_get (rp_approvals u) i = Some b
            \<and> (b = a \<or> batchable (rp_runs s) most a \<and> a_status b = AApproved \<and> same_request a b)" for i
  proof (cases "bt_get (rp_approvals s) i")
    case None
    then show ?thesis using batch_rel_none [OF st] batch_rel_none [OF tu] by simp
  next
    case (Some a)
    from batch_rel_get [OF st this] obtain b where b: "bt_get (rp_approvals t) i = Some b"
      "b = a \<or> batchable (rp_runs s) most a \<and> a_status b = AApproved \<and> same_request a b" by blast
    from batch_rel_get [OF tu b(1)] obtain c where c: "bt_get (rp_approvals u) i = Some c"
      "c = b \<or> batchable (rp_runs s) most b \<and> a_status c = AApproved \<and> same_request b c"
      unfolding runs by blast
    from b(2) c Some show ?thesis by (auto simp: batchable_def)
  qed
  then show ?thesis using st tu unfolding batch_rel_def by simp
qed

text \<open>Deciding one request.\<close>

lemma get_run_state: "get_run i s = (r, s') \<Longrightarrow> s' = s"
  by (auto simp: get_run_def fetch_def eff_defs split: if_splits option.splits)

lemma get_run_Inr: "get_run i s = (Inr r, s') \<longleftrightarrow> s' = s \<and> valid_id i \<and> bt_get (rp_runs s) i = Some r"
  by (auto simp: get_run_def fetch_def eff_defs split: if_splits option.splits)

lemma change_approval_eq:
  "change_approval i f s =
     (if \<not> valid_id i then (Inl (id_error i), s)
      else case bt_get (rp_approvals s) i of
        None \<Rightarrow> (Inl (''document approval '' @ i @ '' not found''), s)
      | Some a \<Rightarrow> (case f a of
            Inl e \<Rightarrow> (Inl e, s)
          | Inr b \<Rightarrow> if \<not> valid_id (a_approval_id b) then (Inl (id_error (a_approval_id b)), s)
              else (Inr b, rp_approvals_update (bt_insert (a_approval_id b) b) s)))"
  by (simp add: change_approval_def get_approval_def put_approval_def fetch_def put_def eff_defs
      split: option.split sum.split)

lemma change_approval_cases:
  assumes "change_approval i f s = (res, s')"
  obtains "s' = s"
  | a b where "bt_get (rp_approvals s) i = Some a" "f a = Inr b" "s' = rp_approvals_update (bt_insert (a_approval_id b) b) s"
proof (cases "s' = s")
  case False
  then obtain a b where "bt_get (rp_approvals s) i = Some a" "f a = Inr b"
      "s' = rp_approvals_update (bt_insert (a_approval_id b) b) s"
    using assms unfolding change_approval_eq by (cases "bt_get (rp_approvals s) i"; cases "f (the (bt_get (rp_approvals s) i))") (auto split: if_splits, metis)
  then show ?thesis by (rule that(2))
qed (rule that(1))

lemma decide_rel:
  assumes "approvals_named s" and "decide w i True user note s = (res, s')"
    and "bt_get (rp_approvals s) i = Some a" and "a_status a = APending \<Longrightarrow> batchable (rp_runs s) most a"
  shows "batch_rel most s s' \<and> approvals_named s'"
proof -
  obtain t s1 where s1: "s1 = s\<lparr> eg_tick := Suc (eg_tick s) \<rparr>"
    and c: "change_approval i (decide_change (wd_user w) t True user note) s1 = (res, s')"
    using assms(2) by (auto simp: decide_def inquire_def bnd_def)
  from c show ?thesis
  proof (cases rule: change_approval_cases)
    case 1
    then show ?thesis using assms(1) s1 by (simp add: batch_rel_def approvals_named_def split: option.split)
  next
    case (2 a0 b)
    then have a0: "a0 = a" using assms(3) s1 by simp
    have b: "a_status b = AApproved" "same_request a b" "batchable (rp_runs s) most a" "a_approval_id b = i"
      using 2(2) assms(1,3,4) by (auto simp: a0 decide_change_def same_request_def approvals_named_def split: if_splits)
    have "batch_rel most s s'"
      unfolding batch_rel_def using 2(3) s1 b assms(3)
      by (auto simp: bt_get_insert split: option.split)
    moreover have "approvals_named s'"
      using 2(3) s1 b assms(1) by (auto simp: approvals_named_def bt_get_insert bt_ok_insert split: if_splits)
    ultimately show ?thesis by blast
  qed
qed

lemma approve_one_rel:
  assumes "approvals_named s" and "approve_one w most user a s = (res, s')"
    and a: "bt_get (rp_approvals s) (a_approval_id a) = Some b" "same_request a b"
  shows "batch_rel most s s' \<and> approvals_named s'"
proof (cases "a_kind a \<noteq> WorkflowStep")
  case True
  then show ?thesis using assms(1,2) by (simp add: approve_one_def ret_def batch_rel_refl)
next
  case False
  show ?thesis
  proof (cases "get_run (a_run_id a) s")
    case (Pair found s0)
    then have s0: "s0 = s" by (rule get_run_state)
    show ?thesis
    proof (cases "\<exists>r. found = Inr r \<and> \<not> most < rk_level (assess r)")
      case False
      then have "s' = s"
        using assms(2) Pair s0 \<open>\<not> a_kind a \<noteq> WorkflowStep\<close>
        by (auto simp: approve_one_def eff_defs Let_def split: sum.splits if_splits)
      then show ?thesis using assms(1) by (simp add: batch_rel_refl)
    next
      case True
      then obtain r where r: "found = Inr r" "rk_level (assess r) \<le> most" by auto
      have run: "bt_get (rp_runs s) (a_run_id a) = Some r" using Pair r(1) by (simp add: get_run_Inr)
      obtain d t where d: "decide w (a_approval_id a) True user (Some (batch_note (assess r))) s = (d, t)" by (cases "decide w (a_approval_id a) True user (Some (batch_note (assess r))) s")
      have rel: "batch_rel most s t \<and> approvals_named t"
        using decide_rel [OF assms(1) d a(1)] a(2) run r(2) False
        by (auto simp: batchable_def same_request_def)
      have "rp_runs s' = rp_runs t \<and> rp_tasks s' = rp_tasks t \<and> rp_epics s' = rp_epics t \<and> rp_approvals s' = rp_approvals t"
        using assms(2) Pair s0 r False d
        by (auto simp: approve_one_def eff_defs Let_def log_event_def split: sum.splits if_splits)
      then show ?thesis using rel by (auto intro: batch_rel_fields simp: approvals_named_def)
    qed
  qed
qed

lemma approve_all_rel:
  "approvals_named s \<Longrightarrow> (\<And>a. a \<in> set as \<Longrightarrow> \<exists>b. bt_get (rp_approvals s) (a_approval_id a) = Some b \<and> same_request a b) \<Longrightarrow>
   batch_rel most s (snd (approve_all w most user as s))"
proof (induction as arbitrary: s)
  case Nil
  then show ?case by (simp add: ret_def batch_rel_refl)
next
  case (Cons a as)
  obtain b where b: "bt_get (rp_approvals s) (a_approval_id a) = Some b" "same_request a b" using Cons.prems(2) by auto
  obtain res t where t: "approve_one w most user a s = (res, t)" by (cases "approve_one w most user a s")
  note first = approve_one_rel [OF Cons.prems(1) t b]
  have "\<exists>b. bt_get (rp_approvals t) (a_approval_id c) = Some b \<and> same_request c b" if c: "c \<in> set as" for c
  proof -
    obtain x where x: "bt_get (rp_approvals s) (a_approval_id c) = Some x" "same_request c x" using Cons.prems(2) [of c] c by auto
    obtain y where "bt_get (rp_approvals t) (a_approval_id c) = Some y" "same_request x y"
      using batch_rel_same [OF _ x(1)] first by blast
    with x(2) show ?thesis by (auto simp: same_request_def)
  qed
  then have rest: "batch_rel most t (snd (approve_all w most user as t))"
    using Cons.IH [of t] first by blast
  show ?case
  proof (cases res)
    case (Inl e)
    then show ?thesis using t first by (simp add: bnd_def)
  next
    case (Inr x)
    then have "snd (approve_all w most user (a # as) s) = snd (approve_all w most user as t)"
      using t by (simp add: bnd_def ret_def split: prod.split sum.split)
    then show ?thesis using rest first batch_rel_trans by fastforce
  qed
qed

lemma sort_key_set_values: "x \<in> set (documents sel key s) \<longleftrightarrow> x \<in> set (bt_values (sel s))"
  by (simp add: documents_def)

text \<open>C18. Bulk approval decides only requests of workflow steps that were pending, of runs whose risk is at
  most the level given, and approves them as they were asked; a request of the policy, a decided request
  and every run, task and epic stay as they are.\<close>

theorem batch_approval_bounded:
  assumes "approvals_named s"
  shows "batch_rel most s (snd (approve_batch w most user s))"
proof -
  let ?as = "filter (\<lambda>a. a_status a = APending) (documents rp_approvals a_requested_at s)"
  have eq: "approve_batch w most user s = approve_all w most user ?as s"
    by (simp add: approve_batch_def pending_approvals_def all_approvals_def eff_defs)
  have "\<exists>b. bt_get (rp_approvals s) (a_approval_id a) = Some b \<and> same_request a b" if "a \<in> set ?as" for a
  proof -
    have "a \<in> set (bt_values (rp_approvals s))" using that by (simp add: sort_key_set_values)
    then obtain k where "(k, a) \<in> set (rp_approvals s)" by (auto simp: bt_values_def)
    moreover have "distinct (map fst (rp_approvals s))"
      using assms by (simp add: approvals_named_def bt_ok_def strict_sorted_iff)
    ultimately have "bt_get (rp_approvals s) k = Some a" by (simp add: bt_get_def)
    with assms show ?thesis by (auto simp: approvals_named_def same_request_def)
  qed
  then show ?thesis unfolding eq by (rule approve_all_rel [OF assms])
qed

definition idle_engine :: engine where
  "idle_engine = \<lparr> rp_tasks = [], rp_runs = [], rp_approvals = [], rp_controls = [], rp_epics = [],
     rp_scheduler = \<lparr> sched_paused = False \<rparr>, rp_task_counter = 0, rp_epic_counter = 0, eg_shift = None, eg_trail = [],
     eg_notes = [], eg_killed = [], eg_tick = 0 \<rparr>"

theorem batch_approval_bounded_witness:
  "\<forall>w ctx. let ask = \<lambda>i k. approval_new i 0 ''run-1'' ''1'' ''ship'' k ''ok?'' ctx;
       s = idle_engine\<lparr> rp_runs := [(''run-1'', sample_run)],
             rp_approvals := [(''a1'', ask ''a1'' WorkflowStep), (''a2'', ask ''a2'' PolicyKind)] \<rparr>
     in batch_rel RiskLow s (snd (approve_batch w RiskLow None s))
       \<and> bt_get (rp_approvals (snd (approve_batch w RiskLow None s))) ''a2'' = Some (ask ''a2'' PolicyKind)"
proof (intro allI, unfold Let_def, goal_cases)
  case (1 w ctx)
  let ?ask = "\<lambda>i k. approval_new i 0 ''run-1'' ''1'' ''ship'' k ''ok?'' ctx"
  let ?s = "idle_engine\<lparr> rp_runs := [(''run-1'', sample_run)],
             rp_approvals := [(''a1'', ?ask ''a1'' WorkflowStep), (''a2'', ?ask ''a2'' PolicyKind)] \<rparr>"
  have "bt_ok [(''a1'', ?ask ''a1'' WorkflowStep), (''a2'', ?ask ''a2'' PolicyKind)]"
    by (simp add: bt_ok_def)
  then have n: "approvals_named ?s"
    by (auto simp: approvals_named_def bt_get_def approval_new_def split: if_splits)
  note b = batch_approval_bounded [OF this, of RiskLow w None]
  have "bt_get (rp_approvals ?s) ''a2'' = Some (?ask ''a2'' PolicyKind)" by (simp add: bt_get_def)
  from batch_rel_get [OF b this] b show ?case by (auto simp: batchable_def approval_new_def)
qed

end
