(* ===== verification/Branches.thy ===== *)
theory Branches
  imports Engine Gates
begin

text \<open>
  Work on branches that already exist, \<open>src/engine/update.rs\<close> and \<open>src/engine/followup.rs\<close>: why a queued
  task waits for an active run, the merge of a moved base into the branch of a finished run, and the
  follow-up on feedback to its pull request. Git and GitHub answer through \<open>world\<close>.
\<close>

subsection \<open>Conflicts\<close>

definition literal_prefix :: "string \<Rightarrow> string" where
  "literal_prefix g = takeWhile (\<lambda>c. c \<notin> set ''*?[{'') g"

definition prefixes_overlap :: "string \<Rightarrow> string \<Rightarrow> bool" where
  "prefixes_overlap a b \<longleftrightarrow> starts_with a b \<or> starts_with b a"

text \<open>Why the task waits for one active run.\<close>

definition scope_conflict :: "string list \<Rightarrow> task \<Rightarrow> string option" where
  "scope_conflict mine t =
     map_option (\<lambda>g. ''may conflict with #'' @ t_task_id t @ '' (both change '' @ literal_prefix g @ '')'')
       (find (\<lambda>g. literal_prefix g \<noteq> [] \<and> list_ex (\<lambda>m. m \<noteq> [] \<and> prefixes_overlap m (literal_prefix g)) mine)
         (to_scope (t_options t)))"

definition file_conflict :: "matchers \<Rightarrow> task \<Rightarrow> task \<Rightarrow> run \<Rightarrow> string option" where
  "file_conflict mt tk t r =
     (case (scope_set mt (to_scope (t_options tk)), r_diff_stat r) of
        (Some globs, Some d) \<Rightarrow>
          map_option (\<lambda>f. ''may conflict with #'' @ t_task_id t @ '' (it already changed '' @ cf_path f @ '')'')
            (find (\<lambda>f. in_scope mt globs (cf_path f)) (ds_files d))
      | _ \<Rightarrow> None)"

definition conflict_with_run :: "matchers \<Rightarrow> task \<Rightarrow> task \<Rightarrow> run \<Rightarrow> string option" where
  "conflict_with_run mt tk t r =
     (if t_task_id t = t_task_id tk then None
      else first_some (scope_conflict (map literal_prefix (to_scope (t_options tk))) t) (file_conflict mt tk t r))"

fun first_conflict :: "matchers \<Rightarrow> task \<Rightarrow> (task \<times> run) list \<Rightarrow> string option" where
  "first_conflict mt tk [] = None"
| "first_conflict mt tk (x # xs) =
     (case conflict_with_run mt tk (fst x) (snd x) of Some w \<Rightarrow> Some w | None \<Rightarrow> first_conflict mt tk xs)"

definition conflict_with_active :: "matchers \<Rightarrow> task \<Rightarrow> (task \<times> run) list \<Rightarrow> string option" where
  "conflict_with_active mt tk act = (if to_scope (t_options tk) = [] then None else first_conflict mt tk act)"

subsection \<open>References to runs\<close>

definition find_run :: "string \<Rightarrow> ('x, run) engine_op" where
  "find_run ref0 =
     (let ref = trim ref0; name = trim_start_matches CHR ''#'' ref in
      bnd (attempt (get_run ref)) (\<lambda>res.
      case res of
        Inr r \<Rightarrow> ret r
      | Inl _ \<Rightarrow>
        bnd all_runs (\<lambda>runs.
        let by_name = filter (\<lambda>r. trim_start_matches CHR ''#'' (display_name r) = name) runs;
            by_prefix = filter (\<lambda>r. starts_with (r_run_id r) ref) runs in
        if by_name \<noteq> [] then ret (last by_name)
        else (case by_prefix of
            [] \<Rightarrow> bail (''document run '' @ ref @ '' not found'')
          | [r] \<Rightarrow> ret r
          | rs \<Rightarrow> bail (''run reference '' @ debug_str ref @ '' is ambiguous ('' @ nat_str (length rs) @ '' matches)'')))))"

subsection \<open>Updating a branch\<close>

definition update_text :: "string \<Rightarrow> string \<Rightarrow> task \<Rightarrow> string list \<Rightarrow> string \<times> string" where
  "update_text onto branch tk conflicts =
     (if conflicts = [] then
        (''update-verify'', ''The branch of task #'' @ t_task_id tk @ '' was updated with '' @ onto
          @ '' (clean merge). Verify it still works.'' @ nl @ nl @ ''Original task:'' @ nl @ trim (t_description tk))
      else
        (''update-resolve'', ''Merging '' @ onto @ '' into this branch ('' @ branch @ '') produced conflicts in:'' @ nl
          @ join nl (map (\<lambda>c. ''- '' @ c) conflicts) @ nl @ nl
          @ ''Resolve every conflict so that both this branch's change and the incoming changes keep working: ''
          @ ''edit the files, remove all conflict markers. Do not abort the merge, do not rebase, do not reset. ''
          @ ''The orchestrator commits the merge and runs the tests.'' @ nl @ nl @ ''This branch's original task:'' @ nl
          @ trim (t_description tk)))"

definition still_running :: "run \<Rightarrow> ('x, unit) engine_op" where
  "still_running r = (if run_terminal (r_status r) then ret ()
     else bail (''run '' @ display_name r @ '' is still '' @ run_status_str (r_status r)))"

definition update_task_of :: "run \<Rightarrow> task \<Rightarrow> string \<Rightarrow> string \<Rightarrow> string \<Rightarrow> string list \<Rightarrow> string option \<Rightarrow> string \<Rightarrow> new_task" where
  "update_task_of r tk onto onto_sha branch conflicts runner via =
     (case update_text onto branch tk conflicts of (wfl, body) \<Rightarrow> new_task_default\<lparr>
        nw_text := body, nw_title := Some (''update '' @ display_name r @ '' with '' @ onto), nw_repo := r_repo_root r,
        nw_options := task_options_default\<lparr> to_workflow := Some wfl, to_continue_run := Some (r_run_id r),
          to_base_ref := Some onto_sha, to_runner := first_some runner (r_runner_override r) \<rparr>,
        nw_via := via, nw_acceptance := t_acceptance tk \<rparr>)"

definition update_branch ::
  "world \<Rightarrow> string \<Rightarrow> string option \<Rightarrow> string option \<Rightarrow> string \<Rightarrow> ('x, task \<times> string list) engine_op" where
  "update_branch w ref onto0 runner via =
     bnd (find_run ref) (\<lambda>r.
     andthen (still_running r)
    (bnd (lift_result (some_or ''run has no worktree'' (g_worktree_path (r_git r)))) (\<lambda>wt.
     bnd (lift_result (some_or ''run has no branch'' (g_branch (r_git r)))) (\<lambda>branch.
     bnd (inquire (wd_exists w)) (\<lambda>ex.
     andthen (if ex wt then ret () else inquire_result (\<lambda>n. wd_attach w n (r_repo_root r) wt branch))
    (bnd (inquire_result (\<lambda>n. wd_dirty w n wt)) (\<lambda>dirty.
     if dirty then bail (''worktree of '' @ display_name r @ '' has uncommitted changes; commit or discard them first'')
     else
       let onto = (case onto0 of Some b \<Rightarrow> b | None \<Rightarrow> g_base_ref (r_git r)) in
       bnd (inquire_result (\<lambda>n. wd_rev_parse w n (r_repo_root r) onto)) (\<lambda>sha.
       bnd (inquire (\<lambda>n. wd_ancestor w n wt sha ''HEAD'')) (\<lambda>there.
       if there then bail (display_name r @ '' already contains '' @ onto)
       else
         bnd (inquire_result (\<lambda>n. wd_merge w n wt sha (''Merge '' @ onto @ '' into '' @ branch @ '' (herdr-orchestrator)''))) (\<lambda>conflicts.
         bnd (get_task (r_task_id r)) (\<lambda>tk.
         andthen (log_event (draft_data (json_object [(''onto'', JStr onto), (''onto_sha'', JStr sha), (''conflicts'', json_strs conflicts)])
             (draft_run (r_run_id r) (r_task_id r) (draft_new ''branch_update_merged'' (actor_human (wd_user w))))))
        (bnd (create_task w (update_task_of r tk onto sha branch conflicts runner via)) (\<lambda>t.
         ret (t, conflicts))))))))))))))"

subsection \<open>Following up on a pull request\<close>

definition followup_text :: "string \<Rightarrow> task \<Rightarrow> pr_feedback \<Rightarrow> string option \<Rightarrow> string" where
  "followup_text url tk fb extra =
     ''Address the review feedback and CI failures on pull request '' @ url @ ''.'' @ nl @ nl
     @ ''The original task was:'' @ nl @ trim (t_description tk) @ nl @ nl
     @ ''Change only what the feedback asks for. Where you disagree with a comment, leave the code ''
     @ ''and explain why in your summary.'' @ nl
     @ (if pf_text fb = [] then [] else nl @ ''Feedback on the PR (from GitHub):'' @ nl @ pf_text fb)
     @ (case extra of Some e \<Rightarrow> (if trim e = [] then [] else nl @ ''Additional instructions:'' @ nl @ trim e @ nl) | None \<Rightarrow> [])"

definition followup_task :: "run \<Rightarrow> task \<Rightarrow> string \<Rightarrow> pr_feedback \<Rightarrow> string option \<Rightarrow> string option \<Rightarrow> string \<Rightarrow> new_task" where
  "followup_task r tk url fb extra runner via = new_task_default\<lparr>
     nw_text := followup_text url tk fb extra,
     nw_title := Some (''follow-up '' @ display_name r @ '': '' @ t_title tk), nw_repo := r_repo_root r,
     nw_options := task_options_default\<lparr> to_workflow := Some (r_workflow_name r), to_continue_run := Some (r_run_id r),
       to_scope := to_scope (t_options tk), to_runner := first_some runner (r_runner_override r),
       to_step_runners := r_step_runners r \<rparr>,
     nw_via := via, nw_source := Some (SrcPrFeedback (r_run_id r) url), nw_epic := t_epic tk,
     nw_acceptance := t_acceptance tk, nw_manual_checks := t_manual_checks tk \<rparr>"

definition check_feedback :: "string \<Rightarrow> pr_feedback \<Rightarrow> string option \<Rightarrow> ('x, unit) engine_op" where
  "check_feedback url fb extra =
     (let state = to_ascii_lowercase (pf_state fb) in
      if state = ''merged'' \<or> state = ''closed'' then bail (''PR '' @ url @ '' is '' @ state)
      else if \<not> actionable fb \<and> (case extra of Some e \<Rightarrow> trim e = [] | None \<Rightarrow> True) then
        bail (''PR '' @ url @ '' has no failing checks or review comments''
          @ (if 0 < pf_pending_checks fb then '' ('' @ nat_str (pf_pending_checks fb) @ '' check(s) still running)'' else []))
      else ret ())"

definition mark_seen :: "world \<Rightarrow> string \<Rightarrow> pr_feedback \<Rightarrow> ('x, unit) engine_op" where
  "mark_seen w rid fb =
     bnd (get_run rid) (\<lambda>r. put_run (r\<lparr> r_pr_feedback_seen := Some (fingerprint (wd_sha w) fb) \<rparr>))"

definition pr_followup ::
  "world \<Rightarrow> string \<Rightarrow> string option \<Rightarrow> string option \<Rightarrow> string \<Rightarrow> ('x, task) engine_op" where
  "pr_followup w ref extra runner via =
     bnd (find_run ref) (\<lambda>r.
     andthen (still_running r)
    (bnd (lift_result (some_or ''this run has no pull request'' (r_pr_url r))) (\<lambda>url.
     bnd (get_task (r_task_id r)) (\<lambda>tk.
     bnd all_tasks (\<lambda>tasks.
     case find (\<lambda>t. \<not> task_terminal (t_status t) \<and> to_continue_run (t_options t) = Some (r_run_id r)) tasks of
       Some opn \<Rightarrow> bail (''follow-up #'' @ t_task_id opn @ '' of '' @ display_name r @ '' is still '' @ task_status_str (t_status opn))
     | None \<Rightarrow>
         bnd (inquire_result (\<lambda>n. wd_pr_feedback w n (r_repo_root r) url)) (\<lambda>fb.
         andthen (check_feedback url fb extra)
        (bnd (create_task w (followup_task r tk url fb extra runner via)) (\<lambda>t.
         andthen (mark_seen w (r_run_id r) fb)
        (andthen (log_event (draft_data (json_object [(''task'', JStr (t_task_id t)), (''pr'', JStr url),
             (''failing_checks'', json_strs (pf_failing_checks fb)), (''comments'', JInt (int (pf_comments fb)))])
             (draft_run (r_run_id r) (r_task_id r) (draft_new ''pr_followup_created'' (actor_human (wd_user w))))))
          (ret t))))))))))"

definition feedback_summary :: "pr_feedback \<Rightarrow> string" where
  "feedback_summary fb =
     (let f = length (pf_failing_checks fb); c = pf_comments fb in
      if f = 0 then nat_str c @ '' review comment(s)''
      else if c = 0 then nat_str f @ '' failing check(s)''
      else nat_str f @ '' failing check(s), '' @ nat_str c @ '' comment(s)'')"

definition superseded :: "task list \<Rightarrow> run \<Rightarrow> bool" where
  "superseded tasks r = list_ex (\<lambda>t. (case t_source t of Some (SrcPrFeedback i _) \<Rightarrow> i = r_run_id r | _ \<Rightarrow> False)
     \<and> \<not> task_terminal (t_status t)) tasks"

text \<open>One run of the watcher: the identifier when new feedback was reported.\<close>

definition watch_one :: "world \<Rightarrow> timestamp \<Rightarrow> run \<Rightarrow> ('x, string option) engine_op" where
  "watch_one w since r =
     (if r_status r \<noteq> RSucceeded \<or> (case r_completed_at r of Some t \<Rightarrow> t < since | None \<Rightarrow> True) then ret None
      else case r_pr_url r of
        None \<Rightarrow> ret None
      | Some url \<Rightarrow>
          bnd all_tasks (\<lambda>tasks.
          if superseded tasks r then ret None
          else
            bnd (inquire (\<lambda>n. wd_pr_feedback w n (r_repo_root r) url)) (\<lambda>got.
            case got of
              Inl _ \<Rightarrow> ret None
            | Inr fb \<Rightarrow>
                if to_ascii_lowercase (pf_state fb) \<noteq> ''open'' \<or> \<not> actionable fb then ret None
                else if r_pr_feedback_seen r = Some (fingerprint (wd_sha w) fb) then ret None
                else
                  andthen (mark_seen w (r_run_id r) fb)
                 (andthen (log_event (draft_data (json_object [(''pr'', JStr url),
                      (''failing_checks'', json_strs (pf_failing_checks fb)), (''comments'', JInt (int (pf_comments fb)))])
                      (draft_run (r_run_id r) (r_task_id r) (draft_new ''pr_feedback_detected'' actor_orchestrator))))
                 (andthen (show_note (display_name r @ '' PR feedback'') (feedback_summary fb @ '' '' @ em_dash
                      @ '' follow up with `herdr-orchestrator run followup '' @ display_name r @ ''` or [F] in the pane'') True)
                   (ret (Some (r_run_id r))))))))"

fun watch_runs :: "world \<Rightarrow> timestamp \<Rightarrow> run list \<Rightarrow> ('x, string list) engine_op" where
  "watch_runs w since [] = ret []"
| "watch_runs w since (r # rs) =
     bnd (watch_one w since r) (\<lambda>x.
     bnd (watch_runs w since rs) (\<lambda>ids. ret (case x of Some i \<Rightarrow> i # ids | None \<Rightarrow> ids)))"

definition watch_prs :: "world \<Rightarrow> nat \<Rightarrow> ('x, string list) engine_op" where
  "watch_prs w days =
     bnd (inquire (wd_gh w)) (\<lambda>available.
     if \<not> available then ret []
     else
       bnd (inquire (wd_now w)) (\<lambda>t.
       bnd all_runs (\<lambda>runs. watch_runs w (t - int days * 86400000) runs)))"

end
