(* ===== verification/Scheduler.thy ===== *)
theory Scheduler
  imports Epic_Decisions Digest Branches
begin

text \<open>
  The queue, \<open>src/engine/scheduler.rs\<close>. A tick reaps the drivers that ended, applies the requests of
  humans, follows the epics and the shift, claims queued tasks and starts pending runs. The drivers are
  threads: the scheduler knows which runs they drive (\<open>sd_active\<close>) and may set their cancellation flag.
  A tick is one step here; what the drivers write meanwhile belongs to \<open>Driver\<close>, and the file lock of the
  queue, under which a task is loaded again, is not modelled. One reading of the clock stands for the
  several of one operation.
\<close>

record scheduler = engine +
  sd_active :: "(string \<times> bool) list"

type_synonym ('x, 'a) sched_op = "('x scheduler_scheme, 'a) eff"

definition is_active :: "'x scheduler_scheme \<Rightarrow> string \<Rightarrow> bool" where
  "is_active s i \<longleftrightarrow> i \<in> fst ` set (sd_active s)"

definition scheduler_limit :: "nat \<Rightarrow> nat" where
  "scheduler_limit max_parallel = max 1 max_parallel"

definition is_idle :: "('x, bool) sched_op" where
  "is_idle =
     bnd (gets sd_active) (\<lambda>act.
     if act \<noteq> [] then ret False
     else
       bnd all_tasks (\<lambda>tasks.
       bnd all_runs (\<lambda>runs.
       ret (\<not> list_ex (\<lambda>t. t_status t = TQueued) tasks \<and> \<not> list_ex (\<lambda>r. r_status r = RPending) runs))))"

record tick_report =
  tr_claimed_tasks :: "string list"
  tr_started_runs :: "string list"
  tr_finished_runs :: "string list"
  tr_cancelled_runs :: "string list"
  tr_resumed_runs :: "string list"

subsection \<open>Ended drivers\<close>

definition reap :: "world \<Rightarrow> ('x, string list) sched_op" where
  "reap w =
     bnd (inquire (wd_finished w)) (\<lambda>finished.
     bnd (gets (\<lambda>s. filter finished (map fst (sd_active s)))) (\<lambda>ended.
     andthen (modify (\<lambda>s. s\<lparr> sd_active := filter (\<lambda>(i, c). i \<notin> set ended) (sd_active s) \<rparr>))
       (ret ended)))"

subsection \<open>Requests\<close>

definition close_step :: "timestamp \<Rightarrow> string option \<Rightarrow> step_execution \<Rightarrow> step_execution" where
  "close_step t why e =
     (if step_terminal (e_status e) then e
      else e\<lparr> e_status := SCancelled, e_ended_at := Some t, e_error := first_some (e_error e) why \<rparr>)"

definition cancelled_run :: "timestamp \<Rightarrow> string option \<Rightarrow> run \<Rightarrow> run" where
  "cancelled_run t why r = r\<lparr> r_steps := map (close_step t None) (r_steps r), r_status := RCancelled,
     r_status_reason := first_some why (Some ''cancelled''), r_completed_at := Some t, r_updated_at := t \<rparr>"

definition withdraw :: "approval_request \<Rightarrow> string + approval_request" where
  "withdraw a = Inr (if a_status a = APending then a\<lparr> a_status := ACancelled \<rparr> else a)"

definition cancel_idle_run :: "world \<Rightarrow> run \<Rightarrow> string option \<Rightarrow> ('x, unit) engine_op" where
  "cancel_idle_run w run0 why =
     bnd (get_run (r_run_id run0)) (\<lambda>r0.
     bnd (inquire (wd_now w)) (\<lambda>t.
     let r = cancelled_run t why r0 in
     andthen (put_run r)
    (andthen (for_each (r_approvals r) (\<lambda>i. tolerate (change_approval i withdraw)))
    (andthen (log_event (draft_data (json_object [(''reason'', json_opt JStr why)])
        (draft_run (r_run_id r) (r_task_id r) (draft_new ''run_cancelled'' actor_orchestrator))))
    (bnd (refresh_task_status w (r_task_id r)) (\<lambda>_. ret ()))))))"

definition resumed_run :: "timestamp \<Rightarrow> workflow \<Rightarrow> string option \<Rightarrow> run \<Rightarrow> run" where
  "resumed_run t wfl from_step r =
     (let cur = (case Option.bind from_step (step_index wfl) of Some i \<Rightarrow> i | None \<Rightarrow> r_cursor r);
          later = map s_id (drop (min cur (length (w_steps wfl))) (w_steps wfl))
      in r\<lparr> r_cursor := cur, r_steps := map (close_step t (Some ''superseded by human retry'')) (r_steps r),
            r_retry_counts := bt_retain (\<lambda>k _. k \<notin> set later) (r_retry_counts r), r_status := RPending,
            r_status_reason := Some ''retry requested'', r_completed_at := None, r_recovered := False,
            r_updated_at := t \<rparr>)"

definition resume_run :: "world \<Rightarrow> run \<Rightarrow> string option \<Rightarrow> ('x, unit) engine_op" where
  "resume_run w run0 from_step =
     bnd (get_run (r_run_id run0)) (\<lambda>r0.
     bnd (reparse w (r_workflow_yaml r0)) (\<lambda>wfl.
     bnd (inquire (wd_now w)) (\<lambda>t.
     let r = resumed_run t wfl from_step r0 in
     andthen (put_run r)
    (bnd (change_control (r_run_id r) (\<lambda>c. c\<lparr> rc_cancel_requested := False, rc_cancel_reason := None \<rparr>)) (\<lambda>_.
     andthen (log_event (draft_data (json_object
         [(''from_step'', json_opt JStr (map_option s_id (nth_option (w_steps wfl) (r_cursor r)))), (''human'', JBool True)])
        (draft_run (r_run_id r) (r_task_id r) (draft_new ''retry_started'' (actor_human None)))))
    (bnd (refresh_task_status w (r_task_id r)) (\<lambda>_. ret ())))))))"

text \<open>The cancellation flag of a driver.\<close>

definition flag_cancel :: "string \<Rightarrow> ('x, unit) sched_op" where
  "flag_cancel i = modify (\<lambda>s. s\<lparr> sd_active := map (\<lambda>(j, c). (j, c \<or> j = i)) (sd_active s) \<rparr>)"

definition apply_cancel :: "world \<Rightarrow> run_control \<Rightarrow> run \<Rightarrow> ('x, string list) sched_op" where
  "apply_cancel w ctl r =
     (if \<not> rc_cancel_requested ctl \<or> run_terminal (r_status r) then ret []
      else
        bnd (gets (\<lambda>s. is_active s (r_run_id r))) (\<lambda>driven.
        if driven then andthen (flag_cancel (r_run_id r)) (ret [])
        else if r_status r \<in> {RPending, RBlocked, RNeedsHuman} then
          andthen (cancel_idle_run w r (rc_cancel_reason ctl)) (ret [r_run_id r])
        else ret []))"

definition apply_resume :: "world \<Rightarrow> run_control \<Rightarrow> run \<Rightarrow> ('x, string list) sched_op" where
  "apply_resume w ctl r =
     bnd (gets (\<lambda>s. is_active s (r_run_id r))) (\<lambda>driven.
     if \<not> rc_resume_requested ctl \<or> driven then ret []
     else
       bnd (if run_can_resume (r_status r)
            then andthen (resume_run w r (rc_resume_from_step ctl)) (ret [r_run_id r]) else ret []) (\<lambda>ids.
       bnd (change_control (r_run_id r) (\<lambda>c. c\<lparr> rc_resume_requested := False, rc_resume_from_step := None \<rparr>)) (\<lambda>_.
       ret ids)))"

fun apply_requests :: "world \<Rightarrow> run list \<Rightarrow> ('x, string list \<times> string list) sched_op" where
  "apply_requests w [] = ret ([], [])"
| "apply_requests w (r # rs) =
     bnd (get_control (r_run_id r)) (\<lambda>ctl.
     bnd (apply_cancel w ctl r) (\<lambda>cs.
     bnd (apply_resume w ctl r) (\<lambda>us.
     bnd (apply_requests w rs) (\<lambda>(cs', us'). ret (cs @ cs', us @ us')))))"

subsection \<open>Claiming tasks\<close>

definition dependency_verdict :: "dep_state \<Rightarrow> task_status \<times> string option \<times> string option" where
  "dependency_verdict st = (case st of
       DepReady base \<Rightarrow> (TQueued, None, base)
     | DepWaiting why \<Rightarrow> (TQueued, Some why, None)
     | DepBlocked why \<Rightarrow> (TBlocked, Some why, None))"

definition put_verdict :: "task_status \<Rightarrow> string option \<Rightarrow> string option \<Rightarrow> task \<Rightarrow> task" where
  "put_verdict st why base t = t\<lparr> t_status := st, t_waiting_on := why,
     t_options := (case base of Some b \<Rightarrow> (t_options t)\<lparr> to_base_ref := Some b \<rparr> | None \<Rightarrow> t_options t) \<rparr>"

definition dep_ready :: "dep_state \<Rightarrow> bool" where
  "dep_ready st = (case st of DepReady _ \<Rightarrow> True | _ \<Rightarrow> False)"

definition note_verdict :: "world \<Rightarrow> task \<Rightarrow> dep_state \<Rightarrow> ('x, unit) engine_op" where
  "note_verdict w tk state =
     (case dependency_verdict state of (st, why, base) \<Rightarrow>
        whenb (t_status tk \<noteq> st \<or> t_waiting_on tk \<noteq> why \<or> base \<noteq> None)
          (andthen (tolerate (modify_task w (t_task_id tk) (\<lambda>t. Inr (put_verdict st why base t))))
            (whenb (t_status tk \<noteq> st)
              (log_event (draft_data (json_object [(''reason'', json_opt JStr why)])
                (draft_task (t_task_id tk) (draft_new
                  (if st = TBlocked then ''task_blocked_by_dependency'' else ''task_unblocked'') actor_orchestrator)))))))"

definition dependencies_ready :: "world \<Rightarrow> task \<Rightarrow> ('x, bool) engine_op" where
  "dependencies_ready w tk =
     bnd (attempt (dependency_state w tk)) (\<lambda>res.
     let state = (case res of Inr st \<Rightarrow> st | Inl e \<Rightarrow> DepWaiting (''cannot check dependencies: '' @ e)) in
     andthen (note_verdict w tk state) (ret (dep_ready state)))"

definition conflict_remark :: "string option \<Rightarrow> bool" where
  "conflict_remark w = (case w of Some x \<Rightarrow> starts_with x ''may conflict'' | None \<Rightarrow> False)"

fun with_tasks :: "run list \<Rightarrow> ('x, (task \<times> run) list) engine_op" where
  "with_tasks [] = ret []"
| "with_tasks (r # rs) =
     bnd (attempt (get_task (r_task_id r))) (\<lambda>found.
     bnd (with_tasks rs) (\<lambda>xs. ret (case found of Inr t \<Rightarrow> (t, r) # xs | Inl _ \<Rightarrow> xs)))"

definition held_back_by_conflict :: "world \<Rightarrow> task \<Rightarrow> ('x, bool) engine_op" where
  "held_back_by_conflict w tk =
     bnd (load_config w (t_repo_root tk)) (\<lambda>cfg.
     if \<not> ec_avoid_conflicts cfg then ret False
     else
       bnd all_runs (\<lambda>runs.
       bnd (with_tasks (filter (\<lambda>r. \<not> run_terminal (r_status r) \<and> r_repo_root r = t_repo_root tk) runs)) (\<lambda>act.
       let why = conflict_with_active (wd_globs w) tk act in
       andthen (whenb (why \<noteq> t_waiting_on tk \<and> (why \<noteq> None \<or> conflict_remark (t_waiting_on tk)))
           (tolerate (modify_task w (t_task_id tk) (\<lambda>t. Inr (t\<lparr> t_waiting_on := why \<rparr>)))))
         (ret (why \<noteq> None)))))"

definition fail_claim :: "world \<Rightarrow> string \<Rightarrow> string \<Rightarrow> ('x, unit) engine_op" where
  "fail_claim w i e =
     andthen (tolerate (modify_task w i (\<lambda>t. Inr (t\<lparr> t_status := TFailed \<rparr>))))
       (log_event (draft_data (json_object [(''error'', JStr e)])
          (draft_task i (draft_new ''task_failed'' actor_orchestrator))))"

definition unclaimed :: "task \<Rightarrow> bool" where
  "unclaimed t \<longleftrightarrow> t_status t = TQueued \<and> t_run_ids t = []"

definition start_task :: "world \<Rightarrow> task \<Rightarrow> ('x, string list) engine_op" where
  "start_task w tk0 =
     bnd (get_task (t_task_id tk0)) (\<lambda>tk.
     if \<not> unclaimed tk then ret []
     else
       bnd (attempt (create_runs w tk)) (\<lambda>res.
       case res of
         Inr _ \<Rightarrow> ret [t_task_id tk]
       | Inl e \<Rightarrow> andthen (fail_claim w (t_task_id tk) e) (ret [])))"

definition claim_task :: "world \<Rightarrow> task \<Rightarrow> ('x, string list) engine_op" where
  "claim_task w tk =
     (let waiting = (t_status tk \<in> {TQueued, TBlocked} \<and> t_run_ids tk = [] \<and> t_depends_on tk \<noteq> []) in
      bnd (if waiting then dependencies_ready w tk else ret True) (\<lambda>ready.
      if \<not> ready then ret []
      else
        bnd (if unclaimed tk \<and> to_scope (t_options tk) \<noteq> [] then held_back_by_conflict w tk else ret False) (\<lambda>held.
        if held \<or> \<not> unclaimed tk then ret [] else start_task w tk)))"

fun claim_tasks :: "world \<Rightarrow> task list \<Rightarrow> ('x, string list) engine_op" where
  "claim_tasks w [] = ret []"
| "claim_tasks w (t # ts) =
     bnd (claim_task w t) (\<lambda>xs. bnd (claim_tasks w ts) (\<lambda>ys. ret (xs @ ys)))"

subsection \<open>Starting runs\<close>

text \<open>By the number of the task, then the variant; the sorts are stable.\<close>

definition start_order :: "run list \<Rightarrow> run list" where
  "start_order rs = sort_key (\<lambda>r. numeric_key (r_task_id r)) (sort_key r_variant_index rs)"

definition spawn :: "string \<Rightarrow> ('x, unit) sched_op" where
  "spawn i = modify (\<lambda>s. s\<lparr> sd_active := sd_active s @ [(i, False)] \<rparr>)"

fun start_runs :: "nat \<Rightarrow> run list \<Rightarrow> ('x, string list) sched_op" where
  "start_runs limit [] = ret []"
| "start_runs limit (r # rs) =
     bnd (gets (\<lambda>s. length (sd_active s))) (\<lambda>n.
     if limit \<le> n then ret []
     else andthen (spawn (r_run_id r)) (bnd (start_runs limit rs) (\<lambda>ids. ret (r_run_id r # ids))))"

definition start_pending :: "nat \<Rightarrow> ('x, string list) sched_op" where
  "start_pending limit =
     bnd all_runs (\<lambda>runs.
     bnd (gets is_active) (\<lambda>act.
     start_runs limit (start_order (filter (\<lambda>r. r_status r = RPending \<and> \<not> act (r_run_id r)) runs))))"

subsection \<open>A tick\<close>

text \<open>Requests, epics and the shift; errors of the latter two are logged.\<close>

definition attend :: "world \<Rightarrow> ('x, string list \<times> string list) sched_op" where
  "attend w =
     bnd all_runs (\<lambda>runs.
     bnd (apply_requests w runs) (\<lambda>req.
     andthen (tolerate (sync w))
    (andthen (tolerate (enforce_shift w)) (ret req))))"

definition claim_and_start :: "world \<Rightarrow> nat \<Rightarrow> ('x, string list \<times> string list) sched_op" where
  "claim_and_start w limit =
     bnd get_scheduler (\<lambda>sch.
     if sched_paused sch then ret ([], [])
     else
       bnd all_tasks (\<lambda>tasks.
       bnd (claim_tasks w tasks) (\<lambda>claimed.
       bnd (start_pending limit) (\<lambda>started. ret (claimed, started)))))"

definition tick :: "world \<Rightarrow> nat \<Rightarrow> ('x, tick_report) sched_op" where
  "tick w limit =
     bnd (reap w) (\<lambda>finished.
     bnd (attend w) (\<lambda>(cancelled, resumed).
     bnd (claim_and_start w limit) (\<lambda>(claimed, started).
     ret \<lparr> tr_claimed_tasks = claimed, tr_started_runs = started, tr_finished_runs = finished,
       tr_cancelled_runs = cancelled, tr_resumed_runs = resumed \<rparr>)))"

definition cancel_all :: "('x, unit) sched_op" where
  "cancel_all = modify (\<lambda>s. s\<lparr> sd_active := map (\<lambda>(i, _). (i, True)) (sd_active s) \<rparr>)"

end
