(* ===== verification/Engine_Facts.thy ===== *)
theory Engine_Facts
  imports Scheduler
begin

text \<open>
  What no operation of the engine does to the documents: lose one, take back an event, change a request
  that was decided, or write the document of a run it did not create, unless it cancels, resumes or
  recovers that run. Shown for every operation by the rules for \<open>moves\<close>.
\<close>

named_theorems eng_intros

lemmas [eng_intros] = moves_if moves_option moves_sum moves_prod

subsection \<open>What an operation returns\<close>

definition yields :: "('a \<Rightarrow> bool) \<Rightarrow> ('s, 'a) eff \<Rightarrow> bool" where
  "yields P m \<longleftrightarrow> (\<forall>s x s'. m s = (Inr x, s') \<longrightarrow> P x)"

named_theorems yields_intros

lemma yields_ret [yields_intros]: "P x \<Longrightarrow> yields P (ret x)"
  by (simp add: yields_def ret_def)

lemma yields_bnd [yields_intros]: "(\<And>x. yields P (f x)) \<Longrightarrow> yields P (bnd m f)"
  by (auto simp: yields_def bnd_def split: prod.splits sum.splits)

lemma yields_andthen [yields_intros]: "yields P n \<Longrightarrow> yields P (andthen m n)"
  by (simp add: andthen_def yields_bnd)

lemma yields_if [yields_intros]: "(b \<Longrightarrow> yields P m) \<Longrightarrow> (\<not> b \<Longrightarrow> yields P n) \<Longrightarrow> yields P (if b then m else n)"
  by simp

lemma yields_option [yields_intros]:
  "(x = None \<Longrightarrow> yields P m) \<Longrightarrow> (\<And>y. x = Some y \<Longrightarrow> yields P (f y)) \<Longrightarrow> yields P (case x of None \<Rightarrow> m | Some y \<Rightarrow> f y)"
  by (cases x) auto

lemma yieldsD: "yields P m \<Longrightarrow> m s = (Inr x, s') \<Longrightarrow> P x"
  unfolding yields_def by blast

text \<open>A condition on what was returned, and how the state was left.\<close>

lemma yields_bnd_strong: "yields Q m \<Longrightarrow> (\<And>x. Q x \<Longrightarrow> yields P (f x)) \<Longrightarrow> yields P (bnd m f)"
  unfolding yields_def bnd_Inr by blast

lemma log_event_andthen: "andthen (log_event d) m s = m (s\<lparr> eg_trail := eg_trail s @ [d] \<rparr>)"
  by (simp add: andthen_def bnd_def log_event_def modify_def)

lemma attempt_bnd: "m s = (res, s') \<Longrightarrow> bnd (attempt m) g s = g res s'"
  by (simp add: bnd_def attempt_def)

lemma inquire_bnd: "bnd (inquire f) g s = g (f (eg_tick s)) (s\<lparr> eg_tick := Suc (eg_tick s) \<rparr>)"
  by (simp add: bnd_def inquire_def)

subsection \<open>The relation\<close>

definition still_there :: "(string, 'a) btmap \<Rightarrow> (string, 'a) btmap \<Rightarrow> bool" where
  "still_there m m' \<longleftrightarrow> (\<forall>i. bt_get m i \<noteq> None \<longrightarrow> bt_get m' i \<noteq> None)"

definition decisions_kept :: "'x engine_scheme \<Rightarrow> 'x engine_scheme \<Rightarrow> bool" where
  "decisions_kept s s' \<longleftrightarrow> (approvals_named s \<longrightarrow> approvals_named s' \<and>
     (\<forall>i a. bt_get (rp_approvals s) i = Some a \<longrightarrow> (\<exists>b. bt_get (rp_approvals s') i = Some b \<and> same_request a b
        \<and> (b = a \<or> a_status a = APending))))"

definition runs_named :: "'x engine_scheme \<Rightarrow> bool" where
  "runs_named s \<longleftrightarrow> bt_ok (rp_runs s) \<and> (\<forall>i r. bt_get (rp_runs s) i = Some r \<longrightarrow> r_run_id r = i)"

definition runs_kept :: "string set \<Rightarrow> 'x engine_scheme \<Rightarrow> 'x engine_scheme \<Rightarrow> bool" where
  "runs_kept new s s' \<longleftrightarrow> (runs_named s \<longrightarrow> runs_named s' \<and>
     (\<forall>i. i \<notin> new \<longrightarrow> bt_get (rp_runs s') i = bt_get (rp_runs s) i))"

definition engine_rel :: "string set \<Rightarrow> 'x engine_scheme \<Rightarrow> 'x engine_scheme \<Rightarrow> bool" where
  "engine_rel new s s' \<longleftrightarrow> engine.more s' = engine.more s \<and> prefix (eg_trail s) (eg_trail s')
     \<and> still_there (rp_tasks s) (rp_tasks s') \<and> still_there (rp_epics s) (rp_epics s')
     \<and> still_there (rp_runs s) (rp_runs s') \<and> decisions_kept s s' \<and> runs_kept new s s'
     \<and> (sched_paused (rp_scheduler s) \<longrightarrow> sched_paused (rp_scheduler s'))"

lemma still_there_refl: "still_there m m" by (simp add: still_there_def)

lemma still_there_trans: "still_there a b \<Longrightarrow> still_there b c \<Longrightarrow> still_there a c" by (simp add: still_there_def)

lemma still_there_insert: "still_there m (bt_insert k v m)" by (simp add: still_there_def bt_get_insert)

lemma decisions_kept_refl: "decisions_kept s s" by (auto simp: decisions_kept_def same_request_def)

lemma decisions_kept_trans: "decisions_kept s t \<Longrightarrow> decisions_kept t u \<Longrightarrow> decisions_kept s u"
proof -
  assume st: "decisions_kept s t" and tu: "decisions_kept t u"
  have "\<exists>c. bt_get (rp_approvals u) i = Some c \<and> same_request a c \<and> (c = a \<or> a_status a = APending)"
    if s: "approvals_named s" and a: "bt_get (rp_approvals s) i = Some a" for i a
  proof -
    from st s a obtain b where t: "approvals_named t" and b: "bt_get (rp_approvals t) i = Some b" "same_request a b"
      "b = a \<or> a_status a = APending" unfolding decisions_kept_def by blast
    from tu t b(1) obtain c where "bt_get (rp_approvals u) i = Some c" "same_request b c" "c = b \<or> a_status b = APending"
      unfolding decisions_kept_def by blast
    with b show ?thesis by (auto simp: same_request_def)
  qed
  with st tu show ?thesis unfolding decisions_kept_def by blast
qed

lemma decisions_kept_same: "rp_approvals s' = rp_approvals s \<Longrightarrow> decisions_kept s s'"
  by (auto simp: decisions_kept_def approvals_named_def same_request_def)

lemma runs_kept_same: "rp_runs s' = rp_runs s \<Longrightarrow> runs_kept new s s'"
  by (simp add: runs_kept_def runs_named_def)

lemma runs_kept_put: "r_run_id r \<in> new \<Longrightarrow> runs_kept new s (rp_runs_update (bt_insert (r_run_id r) r) s)"
  by (auto simp: runs_kept_def runs_named_def bt_get_insert bt_ok_insert split: if_splits)

lemma runs_kept_unnamed: "runs_kept UNIV s s' \<Longrightarrow> \<not> runs_named s \<Longrightarrow> runs_kept new s s'"
  by (simp add: runs_kept_def)

lemma runs_kept_mono: "runs_kept new s s' \<Longrightarrow> new \<subseteq> new' \<Longrightarrow> runs_kept new' s s'"
  by (auto simp: runs_kept_def)

interpretation engine: state_order "engine_rel new"
  by unfold_locales
    (auto simp: engine_rel_def runs_kept_def still_there_refl decisions_kept_refl
      intro: still_there_trans decisions_kept_trans prefix_order.trans)

lemmas [eng_intros] = engine.moves_rules

subsection \<open>Basic operations\<close>

lemma engine_moves_modify:
  assumes "\<And>s. engine.more (f s) = engine.more s" and "\<And>s. prefix (eg_trail s) (eg_trail (f s))"
    and "\<And>s. still_there (rp_tasks s) (rp_tasks (f s))" and "\<And>s. still_there (rp_epics s) (rp_epics (f s))"
    and "\<And>s. rp_runs (f s) = rp_runs s" and "\<And>s. rp_approvals (f s) = rp_approvals s"
    and "\<And>s. sched_paused (rp_scheduler s) \<Longrightarrow> sched_paused (rp_scheduler (f s))"
  shows "moves (engine_rel new) (modify f)"
  by (rule moves_modify)
    (simp add: engine_rel_def assms still_there_refl decisions_kept_same runs_kept_same)

lemma inquire_moves [eng_intros]: "moves (engine_rel new) (inquire f)"
proof -
  have "moves (engine_rel new) (modify (\<lambda>s. s\<lparr> eg_tick := Suc (eg_tick s) \<rparr>))"
    by (rule engine_moves_modify) (simp_all add: still_there_refl)
  then show ?thesis by (simp add: moves_def inquire_def modify_def)
qed

lemma inquire_result_moves [eng_intros]: "moves (engine_rel new) (inquire_result f)"
  unfolding inquire_result_def by (intro eng_intros)

lemma log_event_moves [eng_intros]: "moves (engine_rel new) (log_event d)"
  unfolding log_event_def by (rule engine_moves_modify) (simp_all add: still_there_refl)

lemma show_note_moves [eng_intros]: "moves (engine_rel new) (show_note a b c)"
  unfolding show_note_def by (rule engine_moves_modify) (simp_all add: still_there_refl)

lemma fetch_moves [eng_intros]: "moves (engine_rel new) (fetch k sel s)"
  unfolding fetch_def by (intro eng_intros)

lemma put_task_moves [eng_intros]: "moves (engine_rel new) (put_task t)"
  unfolding put_task_def put_def by (intro eng_intros engine_moves_modify) (simp_all add: still_there_refl still_there_insert)

lemma put_epic_moves [eng_intros]: "moves (engine_rel new) (put_epic e)"
  unfolding put_epic_def put_def by (intro eng_intros engine_moves_modify) (simp_all add: still_there_refl still_there_insert)

text \<open>Pausing the queue; only a human starts it again (\<open>start_shift\<close>, \<open>resume\<close>).\<close>

lemma put_scheduler_moves [eng_intros]: "sched_paused e \<Longrightarrow> moves (engine_rel new) (put_scheduler e)"
  unfolding put_scheduler_def by (intro engine_moves_modify) (simp_all add: still_there_refl)

lemma put_shift_moves [eng_intros]: "moves (engine_rel new) (put_shift e)"
  unfolding put_shift_def by (intro engine_moves_modify) (simp_all add: still_there_refl)

lemma control_moves [eng_intros]: "moves (engine_rel new) (put rp_controls_update s c)"
  unfolding put_def by (intro eng_intros engine_moves_modify) (simp_all add: still_there_refl)

lemma put_run_moves:
  assumes "r_run_id r \<in> new" shows "moves (engine_rel new) (put_run r)"
  unfolding put_run_def put_def
  by (intro eng_intros moves_modify)
    (use assms in \<open>auto simp: engine_rel_def still_there_refl still_there_insert decisions_kept_same runs_kept_put\<close>)

lemmas document_defs = get_task_def get_run_def get_approval_def get_epic_def get_control_def get_scheduler_def
  all_tasks_def all_runs_def all_approvals_def all_epics_def loaded_runs_def

lemma reading_moves [eng_intros]:
  "moves (engine_rel new) (get_task i)" "moves (engine_rel new) (get_run i)" "moves (engine_rel new) (get_approval i)"
  "moves (engine_rel new) (get_epic i)" "moves (engine_rel new) (get_control i)" "moves (engine_rel new) get_scheduler"
  "moves (engine_rel new) all_tasks" "moves (engine_rel new) all_runs" "moves (engine_rel new) all_approvals"
  "moves (engine_rel new) all_epics" "moves (engine_rel new) (loaded_runs is)"
  unfolding document_defs by (intro eng_intros)+

lemma counter_moves [eng_intros]: "moves (engine_rel new) new_task_number" "moves (engine_rel new) new_epic_id"
  unfolding new_task_number_def new_epic_id_def
  by (intro eng_intros engine_moves_modify; simp add: still_there_refl)+

lemma changing_moves [eng_intros]:
  "moves (engine_rel new) (change_task t i f)" "moves (engine_rel new) (change_epic t i g)"
  "moves (engine_rel new) (change_control i h)" "moves (engine_rel new) (modify_task w i f)"
  "moves (engine_rel new) (modify_epic w i g)"
  unfolding change_task_def change_epic_def change_control_def modify_task_def modify_epic_def Let_def
  by (intro eng_intros)+

lemma tolerate_moves [eng_intros]: "moves (engine_rel new) m \<Longrightarrow> moves (engine_rel new) (tolerate m)"
  unfolding tolerate_def by (intro eng_intros)

subsection \<open>Tasks and runs\<close>

lemma config_moves [eng_intros]:
  "moves (engine_rel new) (load_config w p)" "moves (engine_rel new) (engine_workflow w p n)"
  "moves (engine_rel new) (engine_workflow_names w p)" "moves (engine_rel new) (reparse w y)"
  "moves (engine_rel new) (default_base w p b)"
  unfolding load_config_def engine_workflow_def engine_workflow_names_def reparse_def default_base_def Let_def
  by (intro eng_intros)+

lemma create_task_moves [eng_intros]: "moves (engine_rel new) (create_task w nt)"
  unfolding create_task_def check_options_def Let_def by (intro eng_intros)

lemma answer_moves: "(\<And>n. moves (engine_rel new) (g (f n))) \<Longrightarrow> moves (engine_rel new) (bnd (inquire f) g)"
proof -
  assume g: "\<And>n. moves (engine_rel new) (g (f n))"
  have "engine_rel new s (snd (bnd (inquire f) g s))" for s
  proof -
    have "engine_rel new s (snd (inquire f s))" using inquire_moves by (rule movesD)
    moreover have "engine_rel new (snd (inquire f s)) (snd (g (f (eg_tick s)) (snd (inquire f s))))" using g by (rule movesD)
    ultimately show ?thesis by (auto simp: bnd_def inquire_def intro: engine.trans)
  qed
  then show ?thesis by (simp add: moves_def)
qed

lemma create_variants_moves:
  "range (wd_id w) \<subseteq> new \<Longrightarrow> moves (engine_rel new) (create_variants w tk wfl yaml git vs)"
proof (induction vs)
  case (Cons v vs)
  then have "r_run_id (new_run w tk wfl yaml git v t (wd_id w n)) \<in> new" for t n by (auto simp: new_run_def)
  with Cons show ?case
    by (auto simp: Let_def intro!: engine.moves_bnd [OF inquire_moves] answer_moves engine.moves_andthen put_run_moves eng_intros)
qed (simp add: engine.moves_ret)

lemma create_runs_moves: "range (wd_id w) \<subseteq> new \<Longrightarrow> moves (engine_rel new) (create_runs w tk)"
  unfolding create_runs_def run_workflow_def continued_run_def Let_def
  by (intro eng_intros create_variants_moves)

lemma refresh_moves [eng_intros]: "moves (engine_rel new) (refresh_task_status w s)"
  unfolding refresh_task_status_def Let_def by (intro eng_intros)

lemma request_moves [eng_intros]:
  "moves (engine_rel new) (request_cancel i why u)" "moves (engine_rel new) (request_retry w i f u)"
  unfolding request_cancel_def request_retry_def by (intro eng_intros)+

subsection \<open>Epics\<close>

lemma epic_moves [eng_intros]:
  "moves (engine_rel new) (epic_audit ev a e d)" "moves (engine_rel new) (epic_note e m u)" "moves (engine_rel new) (epic_adr w e)"
  "moves (engine_rel new) (start_planning w e b f v)" "moves (engine_rel new) (task_result i)" "moves (engine_rel new) (tasks_ended e)"
  unfolding epic_audit_def epic_note_def epic_adr_def start_planning_def task_result_def tasks_ended_def Let_def
  by (intro eng_intros)+

lemma create_epic_moves [eng_intros]: "moves (engine_rel new) (create_epic w p a r v)"
  unfolding create_epic_def Let_def by (intro eng_intros)

lemma sync_moves [eng_intros]:
  "moves (engine_rel new) (sync_planning w e)" "moves (engine_rel new) (sync_conformance w e)" "moves (engine_rel new) (sync_done w e)"
  unfolding sync_planning_def sync_conformance_def sync_done_def Let_def by (intro eng_intros)+

lemma sync_one_moves [eng_intros]: "moves (engine_rel new) (sync_one w e)"
  unfolding sync_one_def by (cases "ep_status e"; simp; intro eng_intros)

lemma sync_all_moves [eng_intros]: "moves (engine_rel new) (sync w)"
  unfolding sync_def by (intro eng_intros)

lemma create_accepted_moves [eng_intros]: "moves (engine_rel new) (create_accepted w e p cfg ao ch ks cr)"
  by (induction ks arbitrary: cr) (auto intro!: eng_intros)

lemma task_lines_moves [eng_intros]: "moves (engine_rel new) (task_line e k)" "moves (engine_rel new) (task_lines e ks)"
proof -
  show l: "moves (engine_rel new) (task_line e k)" for k
    unfolding task_line_def Let_def by (intro eng_intros)
  show "moves (engine_rel new) (task_lines e ks)"
    by (induction ks) (auto intro!: eng_intros l)
qed

lemma decision_moves [eng_intros]:
  "moves (engine_rel new) (accept w i ao)" "moves (engine_rel new) (reject w i only r u)" "moves (engine_rel new) (replan w i fb v)"
  "moves (engine_rel new) (set_plan w i b u)" "moves (engine_rel new) (verify_epic w i v)" "moves (engine_rel new) (unblock w i u)"
  unfolding accept_def reject_def replan_def set_plan_def verify_epic_def unblock_def Let_def
  by (intro eng_intros)+

lemma check_dependencies_moves [eng_intros]: "moves (engine_rel new) (check_dependencies_of w tk b ds u)"
  by (induction ds arbitrary: u)
    (auto simp: check_dependency_def judge_dependency_def dependency_run_def unmerged_branch_def intro!: eng_intros)

lemma dependency_state_moves [eng_intros]: "moves (engine_rel new) (dependency_state w tk)"
  unfolding dependency_state_def by (intro eng_intros)

subsection \<open>Inbox, shift and branches\<close>

lemma pending_moves [eng_intros]: "moves (engine_rel new) pending_approvals"
  unfolding pending_approvals_def by (intro eng_intros)

lemma shift_moves [eng_intros]:
  "moves (engine_rel new) (inbox w d)" "moves (engine_rel new) (stop_shift y)"
  "moves (engine_rel new) (shift_tokens z)" "moves (engine_rel new) (shift_over w z)" "moves (engine_rel new) (enforce_shift w)"
  unfolding inbox_def stop_shift_def shift_tokens_def shift_over_def enforce_shift_def Let_def
  by (intro eng_intros; simp)+

lemma find_run_moves [eng_intros]: "moves (engine_rel new) (find_run r)"
  unfolding find_run_def Let_def by (intro eng_intros; simp split: list.split; intro conjI allI impI eng_intros)

lemma update_branch_moves [eng_intros]: "moves (engine_rel new) (update_branch w r b rn v)"
  unfolding update_branch_def still_running_def Let_def by (intro eng_intros)

subsection \<open>Operations that write runs and approvals\<close>

lemma engine_rel_mono: "engine_rel new s s' \<Longrightarrow> new \<subseteq> new' \<Longrightarrow> engine_rel new' s s'"
  by (auto simp: engine_rel_def intro: runs_kept_mono)

lemma moves_mono: "moves (engine_rel new) m \<Longrightarrow> new \<subseteq> new' \<Longrightarrow> moves (engine_rel new') m"
  unfolding moves_def by (blast intro: engine_rel_mono)

text \<open>What is done with a run that was fetched: its document bears the name it was fetched by.\<close>

lemma fetched_moves:
  assumes any: "\<And>r. moves (engine_rel UNIV) (g r)" and own: "\<And>r. r_run_id r = i \<Longrightarrow> moves (engine_rel new) (g r)"
  shows "moves (engine_rel new) (bnd (get_run i) g)"
proof -
  have "engine_rel new s (snd (bnd (get_run i) g s))" for s
  proof (cases "get_run i s")
    case (Pair res s0)
    then have s0: "s0 = s" by (rule get_run_state)
    show ?thesis
    proof (cases res)
      case (Inl e)
      then show ?thesis using Pair s0 by (simp add: bnd_def engine.refl)
    next
      case (Inr r)
      have r: "bt_get (rp_runs s) i = Some r"
        using Pair s0 Inr get_run_Inr by fastforce
      have eq: "snd (bnd (get_run i) g s) = snd (g r s)" using Pair s0 Inr by (simp add: bnd_def)
      show ?thesis
      proof (cases "runs_named s")
        case True
        then have "r_run_id r = i" using r by (simp add: runs_named_def)
        then show ?thesis unfolding eq by (intro movesD [OF own])
      next
        case False
        have "engine_rel UNIV s (snd (g r s))" by (rule movesD [OF any])
        then show ?thesis unfolding eq using False runs_kept_unnamed unfolding engine_rel_def by blast
      qed
    qed
  qed
  then show ?thesis by (simp add: moves_def)
qed

lemma change_approval_rel:
  assumes "\<And>a b. f a = Inr b \<Longrightarrow> same_request a b \<and> (b = a \<or> a_status a = APending)"
    and "change_approval i f s = (res, s')"
  shows "engine_rel new s s'"
  using assms(2)
proof (cases rule: change_approval_cases)
    case 1
    then show ?thesis by (simp add: engine.refl)
  next
    case (2 a b)
    note f = assms(1) [OF 2(2)]
    have "decisions_kept s s'"
      unfolding decisions_kept_def
    proof
      assume n: "approvals_named s"
      then have i: "a_approval_id a = i" "a_approval_id b = i" using 2(1) f by (auto simp: approvals_named_def same_request_def)
      have "approvals_named s'"
        using n 2(3) i by (auto simp: approvals_named_def bt_get_insert bt_ok_insert split: if_splits)
      moreover have "\<exists>c. bt_get (rp_approvals s') j = Some c \<and> same_request x c \<and> (c = x \<or> a_status x = APending)"
        if "bt_get (rp_approvals s) j = Some x" for j x
        using that 2(1,3) f i by (cases "j = i") (auto simp: bt_get_insert same_request_def)
      ultimately show "approvals_named s' \<and> (\<forall>i a. bt_get (rp_approvals s) i = Some a \<longrightarrow>
          (\<exists>b. bt_get (rp_approvals s') i = Some b \<and> same_request a b \<and> (b = a \<or> a_status a = APending)))" by blast
    qed
    then show ?thesis using 2(3) by (simp add: engine_rel_def still_there_refl runs_kept_same)
  qed

lemma change_approval_moves:
  "(\<And>a b. f a = Inr b \<Longrightarrow> same_request a b \<and> (b = a \<or> a_status a = APending)) \<Longrightarrow>
   moves (engine_rel new) (change_approval i f)"
  unfolding moves_def by (metis change_approval_rel prod.collapse)

lemma withdraw_moves [eng_intros]: "moves (engine_rel new) (change_approval i withdraw)"
  by (rule change_approval_moves) (auto simp: withdraw_def same_request_def split: if_splits)

lemma decide_moves [eng_intros]: "moves (engine_rel new) (decide w i ok u n)"
  unfolding decide_def
  by (intro eng_intros change_approval_moves) (auto simp: decide_change_def same_request_def split: if_splits)

lemma approve_moves [eng_intros]: "moves (engine_rel new) (approve_batch w m u)"
proof -
  have one: "moves (engine_rel new) (approve_one w m u a)" for a
    unfolding approve_one_def Let_def by (intro eng_intros)
  have "moves (engine_rel new) (approve_all w m u as)" for as
    by (induction as) (auto intro!: eng_intros one)
  then show ?thesis unfolding approve_batch_def by (intro eng_intros)
qed

lemma cancel_idle_moves:
  assumes "r_run_id r \<in> new" shows "moves (engine_rel new) (cancel_idle_run w r why)"
proof -
  have body: "r_run_id r0 \<in> new' \<Longrightarrow> moves (engine_rel new')
     (bnd (inquire (wd_now w)) (\<lambda>t. let r = cancelled_run t why r0 in
        andthen (put_run r) (andthen (for_each (r_approvals r) (\<lambda>i. tolerate (change_approval i withdraw)))
          (andthen (log_event (draft_data (json_object [(''reason'', json_opt JStr why)])
             (draft_run (r_run_id r) (r_task_id r) (draft_new ''run_cancelled'' actor_orchestrator))))
          (bnd (refresh_task_status w (r_task_id r)) (\<lambda>_. ret ()))))))" for r0 new'
    unfolding Let_def by (intro eng_intros put_run_moves) (simp add: cancelled_run_def)
  show ?thesis unfolding cancel_idle_run_def
    by (rule fetched_moves; rule body) (use assms in auto)
qed

lemma resume_moves:
  assumes "r_run_id r \<in> new" shows "moves (engine_rel new) (resume_run w r f)"
proof -
  have id: "r_run_id (resumed_run t wfl f r0) = r_run_id r0" for t wfl r0 by (simp add: resumed_run_def Let_def)
  show ?thesis unfolding resume_run_def Let_def
    by (rule fetched_moves; intro eng_intros put_run_moves; use assms in \<open>simp add: id\<close>)
qed

lemma mark_seen_moves: "i \<in> new \<Longrightarrow> moves (engine_rel new) (mark_seen w i fb)"
  unfolding mark_seen_def by (rule fetched_moves; intro eng_intros put_run_moves; simp)

lemma followup_moves:
  "moves (engine_rel UNIV) (pr_followup w r x rn v)"
  unfolding pr_followup_def still_running_def check_feedback_def Let_def
  by (intro eng_intros mark_seen_moves UNIV_I)

lemma watch_moves: "moves (engine_rel UNIV) (watch_prs w d)"
proof -
  have one: "moves (engine_rel UNIV) (watch_one w t r)" for t r
    unfolding watch_one_def Let_def by (intro eng_intros mark_seen_moves UNIV_I)
  have "moves (engine_rel UNIV) (watch_runs w t rs)" for t rs
    by (induction rs) (auto intro!: eng_intros one)
  then show ?thesis unfolding watch_prs_def by (intro eng_intros)
qed

subsection \<open>Listed runs\<close>

lemma listed_runs:
  assumes "runs_named s" and "r \<in> set (documents rp_runs r_created_at s)"
  shows "bt_get (rp_runs s) (r_run_id r) = Some r"
proof -
  obtain k where k: "(k, r) \<in> set (rp_runs s)" using assms(2) by (auto simp: documents_def bt_values_def)
  have "distinct (map fst (rp_runs s))"
    using assms(1) by (simp add: runs_named_def bt_ok_def strict_sorted_iff)
  then have "bt_get (rp_runs s) k = Some r" using k by (simp add: bt_get_def)
  with assms(1) show ?thesis by (auto simp: runs_named_def)
qed

lemma run_listed: "bt_get (rp_runs s) i = Some r \<Longrightarrow> r \<in> set (documents rp_runs r_created_at s)"
  by (force simp: documents_def bt_values_def bt_get_def dest: map_of_SomeD)

lemma listed_distinct:
  assumes "runs_named s"
  shows "distinct (map r_run_id (documents rp_runs r_created_at s))"
proof -
  have keys: "map r_run_id (bt_values (rp_runs s)) = map fst (rp_runs s)"
  proof -
    have "r_run_id v = k" if "(k, v) \<in> set (rp_runs s)" for k v
      using that assms by (auto simp: runs_named_def bt_get_def bt_ok_def strict_sorted_iff)
    then show ?thesis by (auto simp: bt_values_def)
  qed
  have "distinct (map fst (rp_runs s))" using assms by (simp add: runs_named_def bt_ok_def strict_sorted_iff)
  then have "distinct (map r_run_id (bt_values (rp_runs s)))" unfolding keys .
  then show ?thesis unfolding documents_def distinct_map by (simp add: distinct_map)
qed

end
