(* ===== verification/Recovery.thy ===== *)
theory Recovery
  imports Engine_Facts
begin

text \<open>
  Runs left active when the engine stopped, \<open>src/recovery/mod.rs\<close>: each is classified by what its document
  and the outside show, and continued, finished or handed to a human. The lock of a run and whether its
  agent, its process or its pull request exist are answers of the outside. The document that is written is
  the one that was listed, as in the code, which does not load it again under the lock.
\<close>

datatype classification = Recoverable | NeedsHuman | Stale | CompletedExternally | Unrecoverable

fun classification_str :: "classification \<Rightarrow> string" where
  "classification_str Recoverable = ''recoverable''"
| "classification_str NeedsHuman = ''needs_human''"
| "classification_str Stale = ''stale''"
| "classification_str CompletedExternally = ''completed_externally''"
| "classification_str Unrecoverable = ''failed''"

record recovery_report =
  rr_run_id :: string
  rr_display :: string
  rr_previous_status :: string
  rr_classification :: classification
  rr_reason :: string

subsection \<open>What is still there\<close>

datatype recovery_assessment = AgentAlive string | AgentGone | AgentUnknown string

text \<open>\<open>recover\<close> of the runners: only a pane outlives the engine.\<close>

definition recover_agent :: "world \<Rightarrow> runner_mode \<Rightarrow> agent_binding \<Rightarrow> ('x, recovery_assessment) engine_op" where
  "recover_agent w mode b =
     (case (mode, ab_agent_name b) of
        (ModePane, Some n) \<Rightarrow>
          bnd (inquire (wd_get_agent w)) (\<lambda>ask.
          ret (case ask n of
                 Inr (Some st) \<Rightarrow> AgentAlive st
               | Inr None \<Rightarrow> AgentGone
               | Inl e \<Rightarrow> AgentUnknown e))
      | _ \<Rightarrow> ret AgentGone)"

definition kill_orphan :: "world \<Rightarrow> step_execution \<Rightarrow> ('x, unit) engine_op" where
  "kill_orphan w e =
     (case e_process e of
        None \<Rightarrow> ret ()
      | Some p \<Rightarrow>
          bnd (inquire (\<lambda>n. wd_pid_alive w n (pb_pid p))) (\<lambda>alive.
          whenb alive (modify (\<lambda>s. s\<lparr> eg_killed := eg_killed s @ [pb_pid p] \<rparr>))))"

subsection \<open>Classification\<close>

definition open_step :: "run \<Rightarrow> step_execution option" where
  "open_step r = find (\<lambda>e. \<not> step_terminal (e_status e)) (rev (r_steps r))"

text \<open>An agent step, by whether the agent lives and whether it got its prompt.\<close>

definition agent_class :: "recovery_assessment \<Rightarrow> agent_binding \<Rightarrow> string \<Rightarrow> classification \<times> string" where
  "agent_class a b sid =
     (case a of
        AgentAlive st \<Rightarrow>
          if ab_prompt_sent b then
            (Recoverable, ''agent '' @ (case ab_agent_name b of Some n \<Rightarrow> n | None \<Rightarrow> []) @ '' is alive ('' @ st
               @ ''); reattaching without resending'')
          else (Recoverable, ''agent alive ('' @ st @ '') and never prompted; sending the prompt'')
      | AgentGone \<Rightarrow>
          if ab_prompt_sent b then
            (NeedsHuman, ''agent for `'' @ sid @ ''` was prompted and is gone; its partial work is in the worktree. Inspect, then `run retry`.'')
          else (Recoverable, ''agent never received its prompt; relaunching'')
      | AgentUnknown e \<Rightarrow> (NeedsHuman, ''cannot reach the agent to verify its state: '' @ e))"

definition classify_agent :: "world \<Rightarrow> run \<Rightarrow> step_execution \<Rightarrow> ('x, classification \<times> string) engine_op" where
  "classify_agent w r e =
     (case e_agent e of
        None \<Rightarrow> ret (Recoverable, ''agent had not been launched; launching now'')
      | Some b \<Rightarrow>
          bnd (load_config w (r_repo_root r)) (\<lambda>cfg.
          bnd (case build_runner (engine_factory w cfg) (case e_runner e of Some n \<Rightarrow> n | None \<Rightarrow> []) of
                 Inr p \<Rightarrow> recover_agent w (rp_mode p) b
               | Inl err \<Rightarrow> ret (AgentUnknown err)) (\<lambda>a.
          ret (agent_class a b (e_step_id e)))))"

definition classify_command :: "world \<Rightarrow> step_execution \<Rightarrow> ('x, classification \<times> string) engine_op" where
  "classify_command w e =
     bnd (case e_process e of None \<Rightarrow> ret False | Some p \<Rightarrow> inquire (\<lambda>n. wd_pid_alive w n (pb_pid p))) (\<lambda>alive.
     if e_status e = SStarting \<and> e_process e = None then ret (Recoverable, ''command was never spawned; running it'')
     else
       andthen (kill_orphan w e)
         (ret (NeedsHuman, ''command step `'' @ e_step_id e @ ''` was interrupted''
            @ (if alive then '' (orphaned process terminated)'' else [])
            @ ''; it may have had side effects. Use `run retry` to re-run or `run retry --from-step <next>` to skip.'')))"

definition classify_pr :: "world \<Rightarrow> run \<Rightarrow> ('x, classification \<times> string \<times> run) engine_op" where
  "classify_pr w r =
     (case (g_worktree_path (r_git r), g_branch (r_git r)) of
        (Some wt, Some b) \<Rightarrow>
          bnd (inquire (wd_gh w)) (\<lambda>available.
          if \<not> available then ret (NeedsHuman, ''cannot verify whether the PR was created'', r)
          else
            bnd (inquire (wd_pr_for_branch w)) (\<lambda>ask.
            ret (case ask wt b of
                   Inr (Some url) \<Rightarrow> (CompletedExternally, ''PR already exists: '' @ url, r\<lparr> r_pr_url := Some url \<rparr>)
                 | Inr None \<Rightarrow> (Recoverable, ''no PR exists yet; the step re-checks before creating'', r)
                 | Inl e \<Rightarrow> (NeedsHuman, ''cannot verify PR state: '' @ e, r))))
      | _ \<Rightarrow> ret (NeedsHuman, ''cannot verify whether the PR was created'', r))"

definition classify_step :: "world \<Rightarrow> run \<Rightarrow> step_execution \<Rightarrow> step \<Rightarrow> ('x, classification \<times> string \<times> run) engine_op" where
  "classify_step w r e st =
     (let keep = (\<lambda>m. bnd m (\<lambda>(c, why). ret (c, why, r))) in
      case s_spec st of
        SpAgent _ _ _ _ _ _ _ \<Rightarrow> keep (classify_agent w r e)
      | SpCheck _ _ _ _ _ _ \<Rightarrow> andthen (kill_orphan w e) (ret (Recoverable, ''read-only check interrupted; re-running it'', r))
      | SpCommand _ _ _ _ \<Rightarrow> keep (classify_command w e)
      | SpGithubPr _ _ _ _ \<Rightarrow> classify_pr w r
      | SpParallel \<Rightarrow> ret (Unrecoverable, ''unsupported step'', r)
      | _ \<Rightarrow> ret (Recoverable, ''idempotent step; re-running'', r))"

text \<open>A pending approval can always be awaited again.\<close>

definition rewait :: "step_execution \<Rightarrow> ('x, string option) engine_op" where
  "rewait e =
     (case e_approval_id e of
        None \<Rightarrow> ret None
      | Some i \<Rightarrow>
          bnd (attempt (get_approval i)) (\<lambda>found.
          ret (case found of
                 Inr a \<Rightarrow> if a_status a = APending \<or> e_status e = SAwaitingApproval
                   then Some (''re-waiting on approval '' @ i) else None
               | Inl _ \<Rightarrow> None)))"

definition classify_open :: "world \<Rightarrow> workflow \<Rightarrow> run \<Rightarrow> step_execution \<Rightarrow> ('x, classification \<times> string \<times> run) engine_op" where
  "classify_open w wfl r e =
     (case find (\<lambda>s. s_id s = e_step_id e) (w_steps wfl) of
        None \<Rightarrow> ret (NeedsHuman, ''in-flight step '' @ e_step_id e @ '' is not in the workflow snapshot'', r)
      | Some st \<Rightarrow>
          bnd (rewait e) (\<lambda>again.
          case again of
            Some why \<Rightarrow> ret (Recoverable, why, r)
          | None \<Rightarrow> classify_step w r e st))"

definition classify_steps :: "world \<Rightarrow> workflow \<Rightarrow> run \<Rightarrow> ('x, classification \<times> string \<times> run) engine_op" where
  "classify_steps w wfl r =
     (case open_step r of
        Some e \<Rightarrow> classify_open w wfl r e
      | None \<Rightarrow>
          if r_status r = RPreparing then ret (Recoverable, ''worktree preparation is idempotent'', r)
          else if length (w_steps wfl) \<le> r_cursor r then ret (Stale, ''all steps finished; completing'', r)
          else ret (Recoverable, ''no step was in flight; resuming at the next step'', r))"

definition worktree_gone :: "world \<Rightarrow> run \<Rightarrow> ('x, path option) engine_op" where
  "worktree_gone w r =
     (case g_worktree_path (r_git r) of
        None \<Rightarrow> ret None
      | Some wt \<Rightarrow>
          if r_dry_run r \<or> r_status r = RPreparing then ret None
          else bnd (inquire (wd_exists w)) (\<lambda>ex. ret (if ex wt then None else Some wt)))"

definition classify :: "world \<Rightarrow> run \<Rightarrow> ('x, classification \<times> string \<times> run) engine_op" where
  "classify w r =
     bnd (worktree_gone w r) (\<lambda>gone.
     case gone of
       Some wt \<Rightarrow> ret (Unrecoverable, ''worktree '' @ wt @ '' no longer exists'', r)
     | None \<Rightarrow> bnd (reparse w (r_workflow_yaml r)) (\<lambda>wfl. classify_steps w wfl r))"

subsection \<open>Recovery\<close>

fun update_last :: "('a \<Rightarrow> bool) \<Rightarrow> ('a \<Rightarrow> 'a) \<Rightarrow> 'a list \<Rightarrow> 'a list" where
  "update_last P f [] = []"
| "update_last P f (x # xs) = (if P x \<and> \<not> list_ex P xs then f x # xs else x # update_last P f xs)"

definition pending_again :: "string \<Rightarrow> run \<Rightarrow> run" where
  "pending_again why r = r\<lparr> r_status := RPending, r_recovered := True, r_status_reason := Some why \<rparr>"

definition recovered_run :: "timestamp \<Rightarrow> classification \<Rightarrow> string \<Rightarrow> run \<Rightarrow> run" where
  "recovered_run t c why r =
     (case c of
        Recoverable \<Rightarrow> pending_again (''recovered: '' @ why) r
      | Stale \<Rightarrow> pending_again (''recovered: '' @ why) r
      | CompletedExternally \<Rightarrow> pending_again why (r\<lparr>
          r_steps := update_last (\<lambda>e. \<not> step_terminal (e_status e))
            (\<lambda>e. e\<lparr> e_status := SSucceeded, e_ended_at := Some t, e_error := Some (''completed externally: '' @ why) \<rparr>) (r_steps r),
          r_cursor := r_cursor r + 1 \<rparr>)
      | NeedsHuman \<Rightarrow> r\<lparr> r_status := RNeedsHuman, r_status_reason := Some why \<rparr>
      | Unrecoverable \<Rightarrow> r\<lparr>
          r_steps := map (\<lambda>e. if step_terminal (e_status e) then e else e\<lparr> e_status := SFailed, e_ended_at := Some t \<rparr>) (r_steps r),
          r_status := RFailed, r_completed_at := Some t, r_status_reason := Some why \<rparr>)"

definition left_active :: "run \<Rightarrow> bool" where
  "left_active r \<longleftrightarrow> r_status r \<in> {RPreparing, RRunning, RAwaitingApproval}"

text \<open>The verdict of a recovery: the classification, or a human when it cannot be made.\<close>

definition verdict_of :: "run \<Rightarrow> string + classification \<times> string \<times> run \<Rightarrow> classification \<times> string \<times> run" where
  "verdict_of r res = (case res of Inr x \<Rightarrow> x | Inl e \<Rightarrow> (NeedsHuman, ''recovery check failed: '' @ e, r))"

definition finish_recovery :: "world \<Rightarrow> run_status \<Rightarrow> run \<Rightarrow> classification \<Rightarrow> string \<Rightarrow> ('x, recovery_report) engine_op" where
  "finish_recovery w prev r c why =
     andthen (log_event (draft_data (json_object [(''classification'', JStr (classification_str c)), (''reason'', JStr why),
           (''previous_status'', JStr (run_status_str prev)), (''new_status'', JStr (run_status_str (r_status r)))])
         (draft_run (r_run_id r) (r_task_id r) (draft_new ''recovery_completed'' actor_orchestrator))))
    (andthen (tolerate (refresh_task_status w (r_task_id r)))
    (andthen (whenb (c = NeedsHuman) (show_note (display_name r @ '' needs you after restart'') why True))
      (ret \<lparr> rr_run_id = r_run_id r, rr_display = display_name r, rr_previous_status = run_status_str prev,
         rr_classification = c, rr_reason = why \<rparr>)))"

definition recover_run :: "world \<Rightarrow> run \<Rightarrow> ('x, recovery_report) engine_op" where
  "recover_run w r =
     andthen (log_event (draft_data (json_object [(''status'', JStr (run_status_str (r_status r)))])
         (draft_run (r_run_id r) (r_task_id r) (draft_new ''recovery_started'' actor_orchestrator))))
    (bnd (attempt (classify w r)) (\<lambda>res.
     case verdict_of r res of (c, why, r1) \<Rightarrow>
     bnd (inquire (wd_now w)) (\<lambda>t.
     let r2 = (recovered_run t c why r1)\<lparr> r_updated_at := t \<rparr> in
     andthen (put_run r2) (finish_recovery w (r_status r) r2 c why))))"

fun recover_runs :: "world \<Rightarrow> run list \<Rightarrow> ('x, recovery_report list) engine_op" where
  "recover_runs w [] = ret []"
| "recover_runs w (r # rs) =
     bnd (inquire (wd_locked w)) (\<lambda>locked.
     if locked (r_run_id r) then recover_runs w rs
     else
       bnd (recover_run w r) (\<lambda>rep.
       bnd (recover_runs w rs) (\<lambda>reps. ret (rep # reps))))"

definition recover_all :: "world \<Rightarrow> ('x, recovery_report list) engine_op" where
  "recover_all w = bnd all_runs (\<lambda>runs. recover_runs w (filter left_active runs))"

end
