(* ===== verification/Samples.thy ===== *)
theory Samples
  imports Digest Workflow_Facts
begin

text \<open>Concrete inputs of the witnesses: a configuration, files, and an outside that answers the same every time.\<close>

definition sample_config :: engine_config where
  "sample_config = \<lparr> ec_workflow = ''quick-task'', ec_runner = ''claude'', ec_base_branch = None, ec_max_variants = 4,
     ec_avoid_conflicts = True, ec_herdr_mode = HerdrAuto, ec_runners = [], ec_plan_max_tasks = 12,
     ec_planner_runner = None, ec_task_workflow = ''quick-task'', ec_dependency_mode = DepMerged \<rparr>"

definition sample_texts :: catalog_files where
  "sample_texts = \<lparr> ca_dir = (\<lambda>_. None), ca_read = (\<lambda>_. Inl ''no file''), ca_is_file = (\<lambda>_. False),
     ca_yaml_name = (\<lambda>_. None), ca_yaml_workflow = (\<lambda>_. Inr sample_workflow), ca_builtin_text = (\<lambda>n. n) \<rparr>"

definition quiet_world :: world where
  "quiet_world = \<lparr> wd_now = (\<lambda>_. 5), wd_time = (\<lambda>_. []), wd_id = (\<lambda>n. ''run-x'' @ nat_str n), wd_user = Some ''me'', wd_herdr = True,
     wd_repo_root = (\<lambda>_. Inr), wd_config = (\<lambda>_ _. Inr sample_config), wd_global_dir = ''/g'', wd_files = (\<lambda>_. sample_texts),
     wd_rev_parse = (\<lambda>_ _ _. Inr ''sha''), wd_branch = (\<lambda>_ _. Inr (Some ''main'')), wd_ancestor = (\<lambda>_ _ _ _. True),
     wd_globs = sample_matchers, wd_workflow_text = (\<lambda>_. Inr []), wd_sha = (\<lambda>s. s), wd_locked = (\<lambda>_ _. False),
     wd_exists = (\<lambda>_ _. True), wd_get_agent = (\<lambda>_ _. Inr None), wd_pid_alive = (\<lambda>_ _. False), wd_gh = (\<lambda>_. False),
     wd_pr_for_branch = (\<lambda>_ _ _. Inr None), wd_pr_feedback = (\<lambda>_ _ _. Inl ''no gh''), wd_finished = (\<lambda>_ _. False),
     wd_attach = (\<lambda>_ _ _ _. Inr ()), wd_dirty = (\<lambda>_ _. Inr False), wd_merge = (\<lambda>_ _ _ _. Inr []),
     wd_adr_files = (\<lambda>_. \<lparr> af_canonical = Inr, af_is_file = (\<lambda>_. True), af_length = (\<lambda>_. 1), af_read = (\<lambda>_. Inr ''x'') \<rparr>),
     wd_plan_of_json = (\<lambda>_. Inl ''none''), wd_plan_task_of_json = (\<lambda>_. Inl ''none''), wd_plan_of_text = (\<lambda>_. Inl ''none''),
     wd_plan_json = (\<lambda>_. JNull), wd_canonical = (\<lambda>_. []), wd_plan_pretty = (\<lambda>_. []) \<rparr>"

lemma sample_workflow_valid: "validate sample_workflow = Inr ()"
  by code_simp

lemma sample_texts_parse: "parse_workflow (wd_files quiet_world n) yaml = Inr sample_workflow"
  by (simp add: parse_workflow_def quiet_world_def sample_texts_def sample_workflow_valid with_context_def)

text \<open>A run in which the command of the second step of that workflow has been spawned.\<close>

definition spawned_exec :: step_execution where
  "spawned_exec = (exec_new ''x1'' ''test'' KCommand 1)\<lparr> e_status := SRunning,
     e_process := Some \<lparr> pb_pid = 7, pb_argv = [''make''], pb_cwd = ''/w'', pb_started_at = 1 \<rparr> \<rparr>"

definition spawned_run :: run where
  "spawned_run = sample_run\<lparr> r_status := RRunning, r_steps := [spawned_exec], r_cursor := 1 \<rparr>"

definition spawned_engine :: engine where
  "spawned_engine = idle_engine\<lparr> rp_runs := [(''run-1'', spawned_run)] \<rparr>"

end
