(* ===== verification/Recovery_Facts.thy ===== *)
theory Recovery_Facts
  imports Recovery Samples
begin

text \<open>
  After a recovery no run is left active unless another process holds its lock, and no step whose side
  effect may have happened is started again without a human.
\<close>

subsection \<open>The classified run\<close>

definition same_id :: "run \<Rightarrow> classification \<times> string \<times> run \<Rightarrow> bool" where
  "same_id r x \<longleftrightarrow> r_run_id (snd (snd x)) = r_run_id r"

lemma classify_pr_id: "yields (same_id r) (classify_pr w r)"
  unfolding classify_pr_def
  by (auto simp: same_id_def split: option.split intro!: yields_intros) (auto split: option.splits sum.splits)

lemma classify_step_id: "yields (same_id r) (classify_step w r e st)"
proof -
  have keep: "yields (same_id r) (bnd m (\<lambda>(c, why). ret (c, why, r)))" for m
    by (rule yields_bnd) (auto simp: same_id_def split: prod.split intro!: yields_intros)
  show ?thesis unfolding classify_step_def Let_def
    by (cases "s_spec st") (auto simp: same_id_def intro!: yields_intros keep classify_pr_id)
qed

lemma classify_id: "yields (same_id r) (classify w r)"
  unfolding classify_def classify_steps_def classify_open_def
  by (intro yields_intros classify_step_id) (simp_all add: same_id_def)

subsection \<open>Classifying changes no run\<close>

lemma killing_moves [eng_intros]: "moves (engine_rel new) (kill_orphan w e)"
  unfolding kill_orphan_def by (intro eng_intros engine_moves_modify) (simp_all add: still_there_refl)

lemma classify_parts_moves [eng_intros]:
  "moves (engine_rel new) (worktree_gone w r)" "moves (engine_rel new) (rewait e)"
  "moves (engine_rel new) (classify_agent w r e)" "moves (engine_rel new) (classify_command w e)" "moves (engine_rel new) (classify_pr w r)"
proof -
  have agent: "moves (engine_rel new) (recover_agent w m b)" for m b
    unfolding recover_agent_def by (cases m; cases "ab_agent_name b"; simp; intro eng_intros)
  show "moves (engine_rel new) (classify_agent w r e)" unfolding classify_agent_def by (intro eng_intros agent)
qed (unfold worktree_gone_def rewait_def classify_command_def classify_pr_def; intro eng_intros)+

lemma classify_moves [eng_intros]: "moves (engine_rel new) (classify w r)"
proof -
  have st: "moves (engine_rel new) (classify_step w r e st)" for e st
    unfolding classify_step_def Let_def by (cases "s_spec st"; simp; intro eng_intros)
  show ?thesis unfolding classify_def classify_steps_def classify_open_def by (intro eng_intros st)
qed

subsection \<open>Recovering one run\<close>

definition settled_status :: "run_status \<Rightarrow> bool" where
  "settled_status st \<longleftrightarrow> st \<in> {RPending, RNeedsHuman, RFailed}"

lemma recovered_settled: "settled_status (r_status (recovered_run t c why r))" "r_run_id (recovered_run t c why r) = r_run_id r"
  by (cases c; simp add: recovered_run_def pending_again_def settled_status_def)+

lemma put_run_valid: "valid_id (r_run_id r) \<Longrightarrow> put_run r s = (Inr (), rp_runs_update (bt_insert (r_run_id r) r) s)"
  by (simp add: put_run_def put_def modify_def)

lemma tolerate_Inr: "tolerate m s = (Inr (), snd (m s))"
  by (simp add: tolerate_def attempt_def bnd_def ret_def split: prod.split)

lemma finish_moves: "moves (engine_rel new) (finish_recovery w st r c why)"
  unfolding finish_recovery_def by (intro eng_intros)

lemma finish_reports: "\<exists>rep s'. finish_recovery w st r c why s = (Inr rep, s') \<and> rr_run_id rep = r_run_id r"
  by (auto simp: finish_recovery_def andthen_def bnd_def log_event_def modify_def tolerate_Inr whenb_def show_note_def ret_def)

text \<open>What one recovery writes: the run of the verdict, and nothing else among the runs.\<close>

lemma recover_run_writes:
  fixes s :: "'x engine_scheme"
  assumes v: "valid_id (r_run_id r)" and n: "runs_named s"
  shows "\<exists>rep s' res (s1 :: 'x engine_scheme) s2 c why r1 t. recover_run w r s = (Inr rep, s') \<and> rr_run_id rep = r_run_id r \<and> runs_named s'
    \<and> classify w r s1 = (res, s2) \<and> verdict_of r res = (c, why, r1)
    \<and> bt_get (rp_runs s') (r_run_id r) = Some ((recovered_run t c why r1)\<lparr> r_updated_at := t \<rparr>)
    \<and> (\<forall>j. j \<noteq> r_run_id r \<longrightarrow> bt_get (rp_runs s') j = bt_get (rp_runs s) j)"
proof -
  define s1 where "s1 = s\<lparr> eg_trail := eg_trail s @ [draft_data (json_object [(''status'', JStr (run_status_str (r_status r)))])
         (draft_run (r_run_id r) (r_task_id r) (draft_new ''recovery_started'' actor_orchestrator))] \<rparr>"
  have n1: "runs_named s1" using n by (simp add: s1_def runs_named_def)
  obtain res s2 where c: "classify w r s1 = (res, s2)" by (cases "classify w r s1")
  have m: "engine_rel {} s1 s2" using movesD [OF classify_moves, of "{}" s1 w r] c by simp
  then have n2: "runs_named s2" and k: "\<And>j. bt_get (rp_runs s2) j = bt_get (rp_runs s) j"
    using n1 by (auto simp: engine_rel_def runs_kept_def s1_def)
  obtain cl why r1 where vd: "verdict_of r res = (cl, why, r1)" by (cases "verdict_of r res")
  have id: "r_run_id r1 = r_run_id r"
    using vd c yieldsD [OF classify_id, of w r s1 _ s2] by (auto simp: verdict_of_def same_id_def split: sum.splits)
  define t where "t = wd_now w (eg_tick s2)"
  define r2 where "r2 = (recovered_run t cl why r1)\<lparr> r_updated_at := t \<rparr>"
  have id2: "r_run_id r2 = r_run_id r" using id by (simp add: r2_def recovered_settled)
  define s3 where "s3 = rp_runs_update (bt_insert (r_run_id r2) r2) (s2\<lparr> eg_tick := Suc (eg_tick s2) \<rparr>)"
  have n3: "runs_named s3" using n2 by (auto simp: s3_def runs_named_def bt_get_insert bt_ok_insert split: if_splits)
  have k3: "bt_get (rp_runs s3) j = (if j = r_run_id r then Some r2 else bt_get (rp_runs s) j)" for j
    using k by (simp add: s3_def bt_get_insert id2)
  let ?finish = "finish_recovery w (r_status r) r2 cl why"
  have "recover_run w r s = (case verdict_of r res of (c, why, r1) \<Rightarrow>
     bnd (inquire (wd_now w)) (\<lambda>t.
     let r2 = (recovered_run t c why r1)\<lparr> r_updated_at := t \<rparr> in
     andthen (put_run r2) (finish_recovery w (r_status r) r2 c why))) s2"
    unfolding recover_run_def log_event_andthen s1_def [symmetric] attempt_bnd [of "classify w r", OF c] ..
  also have "\<dots> = andthen (put_run r2) (finish_recovery w (r_status r) r2 cl why) (s2\<lparr> eg_tick := Suc (eg_tick s2) \<rparr>)"
    unfolding vd prod.case inquire_bnd t_def [symmetric] Let_def r2_def [symmetric] ..
  also have "\<dots> = ?finish s3"
    using v id2 by (simp add: andthen_def bnd_def put_run_valid s3_def)
  finally have r: "recover_run w r s = ?finish s3" .
  have "engine_rel {} s3 (snd (?finish s3))" by (rule movesD [OF finish_moves])
  then have f: "runs_named (snd (?finish s3))" "\<And>j. bt_get (rp_runs (snd (?finish s3))) j = bt_get (rp_runs s3) j"
    using n3 by (auto simp: engine_rel_def runs_kept_def)
  obtain rep s' where fin: "?finish s3 = (Inr rep, s')" "rr_run_id rep = r_run_id r"
    using finish_reports [of w "r_status r" r2 cl why s3] id2 by auto
  have s': "snd (?finish s3) = s'" using fin(1) by simp
  have docs: "bt_get (rp_runs s') j = (if j = r_run_id r then Some r2 else bt_get (rp_runs s) j)" for j
    using f(2) [of j] k3 [of j] unfolding s' by (rule trans)
  have out: "recover_run w r s = (Inr rep, s')" using r fin(1) by (rule trans)
  have n': "runs_named s'" using f(1) unfolding s' .
  have own: "bt_get (rp_runs s') (r_run_id r) = Some ((recovered_run t cl why r1)\<lparr> r_updated_at := t \<rparr>)"
    unfolding docs r2_def by simp
  have others: "\<forall>j. j \<noteq> r_run_id r \<longrightarrow> bt_get (rp_runs s') j = bt_get (rp_runs s) j"
    unfolding docs by simp
  from out fin(2) n' c vd own others show ?thesis by blast
qed

text \<open>Classes that a verdict of the run can have.\<close>

definition verdicts :: "world \<Rightarrow> run \<Rightarrow> 'x itself \<Rightarrow> (classification \<Rightarrow> bool) \<Rightarrow> bool" where
  "verdicts w r (_ :: 'x itself) P \<longleftrightarrow> P NeedsHuman \<and> yields (\<lambda>(c, _). P c) (classify w r :: ('x, _) engine_op)"

text \<open>The statuses of verdicts of some classes.\<close>

definition statuses :: "(classification \<Rightarrow> bool) \<Rightarrow> run_status \<Rightarrow> bool" where
  "statuses P st \<longleftrightarrow> (\<exists>c why r m. P c \<and> st = r_status (recovered_run m c why r))"

lemma recover_run_settles:
  fixes s :: "'x engine_scheme"
  assumes "valid_id (r_run_id r)" and "runs_named s" and P: "verdicts w r TYPE('x) P"
  obtains rep t r' where "recover_run w r s = (Inr rep, t)" "rr_run_id rep = r_run_id r" "runs_named t"
    "bt_get (rp_runs t) (r_run_id r) = Some r'" "statuses P (r_status r')"
    "\<And>j. j \<noteq> r_run_id r \<Longrightarrow> bt_get (rp_runs t) j = bt_get (rp_runs s) j"
proof -
  from recover_run_writes [OF assms(1,2), of w] obtain rep t res and s1 s2 :: "'x engine_scheme" and c why r1 m where x:
    "recover_run w r s = (Inr rep, t)" "rr_run_id rep = r_run_id r" "runs_named t"
    "classify w r s1 = (res, s2)" "verdict_of r res = (c, why, r1)"
    "bt_get (rp_runs t) (r_run_id r) = Some ((recovered_run m c why r1)\<lparr> r_updated_at := m \<rparr>)"
    "\<forall>j. j \<noteq> r_run_id r \<longrightarrow> bt_get (rp_runs t) j = bt_get (rp_runs s) j" by blast
  have "P c"
  proof (cases res)
    case (Inl e)
    then show ?thesis using x(5) P by (auto simp: verdict_of_def verdicts_def)
  next
    case (Inr y)
    then have "y = (c, why, r1)" using x(5) by (simp add: verdict_of_def)
    with Inr x(4) have "classify w r s1 = (Inr (c, why, r1), s2)" by simp
    then show ?thesis using P yieldsD [of "\<lambda>(c, _). P c" "classify w r" s1 "(c, why, r1)" s2] by (simp add: verdicts_def)
  qed
  then have "statuses P (r_status ((recovered_run m c why r1)\<lparr> r_updated_at := m \<rparr>))" by (auto simp: statuses_def)
  from that [OF x(1-3,6) this] x(7) show ?thesis by blast
qed

subsection \<open>Recovering all runs\<close>

definition run_ids_valid :: "'x engine_scheme \<Rightarrow> bool" where
  "run_ids_valid s \<longleftrightarrow> (\<forall>i r. bt_get (rp_runs s) i = Some r \<longrightarrow> valid_id i)"

text \<open>What recovery makes of the run that was at \<open>i\<close>: settled and reported, or left to who holds its lock.\<close>

definition recovered_to :: "world \<Rightarrow> recovery_report list \<Rightarrow> (run_status \<Rightarrow> bool) \<Rightarrow> string \<Rightarrow> run \<Rightarrow> run option \<Rightarrow> bool" where
  "recovered_to w reps ok i r after \<longleftrightarrow>
     (\<exists>r'. after = Some r' \<and> ok (r_status r') \<and> i \<in> rr_run_id ` set reps)
     \<or> (after = Some r \<and> (\<exists>n. wd_locked w n i))"

lemma recover_runs_settle:
  fixes s :: "'x engine_scheme"
  assumes "runs_named s" and "distinct (map r_run_id rs)" and "\<And>r. r \<in> set rs \<Longrightarrow> valid_id (r_run_id r)"
    and "\<And>r. r \<in> set rs \<Longrightarrow> bt_get (rp_runs s) (r_run_id r) = Some r"
    and "\<And>r. r \<in> set rs \<Longrightarrow> verdicts w r TYPE('x) (P r)"
  shows "\<exists>reps s'. recover_runs w rs s = (Inr reps, s')
    \<and> (\<forall>r \<in> set rs. recovered_to w reps (statuses (P r)) (r_run_id r) r (bt_get (rp_runs s') (r_run_id r)))
    \<and> (\<forall>j. j \<notin> r_run_id ` set rs \<longrightarrow> bt_get (rp_runs s') j = bt_get (rp_runs s) j)"
  using assms
proof (induction rs arbitrary: s)
  case Nil
  then show ?case by (simp add: ret_def)
next
  case (Cons r rs)
  define u where "u = s\<lparr> eg_tick := Suc (eg_tick s) \<rparr>"
  have u: "runs_named u" "rp_runs u = rp_runs s" using Cons.prems(1) by (simp_all add: u_def runs_named_def)
  have step: "recover_runs w (r # rs) s = (if wd_locked w (eg_tick s) (r_run_id r) then recover_runs w rs u
      else bnd (recover_run w r) (\<lambda>rep. bnd (recover_runs w rs) (\<lambda>reps. ret (rep # reps))) u)"
    by (simp add: inquire_bnd u_def)
  have fresh: "r_run_id r \<notin> r_run_id ` set rs" and d: "distinct (map r_run_id rs)"
    using Cons.prems(2) by simp_all
  show ?case
  proof (cases "wd_locked w (eg_tick s) (r_run_id r)")
    case True
    obtain reps s' where *: "recover_runs w rs u = (Inr reps, s')"
      "\<forall>r \<in> set rs. recovered_to w reps (statuses (P r)) (r_run_id r) r (bt_get (rp_runs s') (r_run_id r))"
      "\<forall>j. j \<notin> r_run_id ` set rs \<longrightarrow> bt_get (rp_runs s') j = bt_get (rp_runs u) j"
      using Cons.IH [of u] u d Cons.prems(3-5) by auto
    have "bt_get (rp_runs s') (r_run_id r) = Some r" using *(3) fresh u(2) Cons.prems(4) [of r] by simp
    then have "recovered_to w reps (statuses (P r)) (r_run_id r) r (bt_get (rp_runs s') (r_run_id r))"
      using True by (auto simp: recovered_to_def)
    then show ?thesis using step True * u(2) by (intro exI [of _ reps] exI [of _ s']) auto
  next
    case False
    obtain rep t r' where w1: "recover_run w r u = (Inr rep, t)" "rr_run_id rep = r_run_id r" "runs_named t"
      "bt_get (rp_runs t) (r_run_id r) = Some r'" "statuses (P r) (r_status r')"
      "\<And>j. j \<noteq> r_run_id r \<Longrightarrow> bt_get (rp_runs t) j = bt_get (rp_runs u) j"
      using recover_run_settles [OF Cons.prems(3) [of r] u(1) Cons.prems(5) [of r]] by auto
    have "bt_get (rp_runs t) (r_run_id x) = Some x" if "x \<in> set rs" for x
    proof -
      have "r_run_id x \<noteq> r_run_id r" using imageI [OF that, of r_run_id] fresh by metis
      then show ?thesis using w1(6) [of "r_run_id x"] that u(2) Cons.prems(4) [of x] by simp
    qed
    then obtain reps s' where *: "recover_runs w rs t = (Inr reps, s')"
      "\<forall>r \<in> set rs. recovered_to w reps (statuses (P r)) (r_run_id r) r (bt_get (rp_runs s') (r_run_id r))"
      "\<forall>j. j \<notin> r_run_id ` set rs \<longrightarrow> bt_get (rp_runs s') j = bt_get (rp_runs t) j"
      using Cons.IH [of t] w1(3) d Cons.prems(3,5) by auto
    have out: "recover_runs w (r # rs) s = (Inr (rep # reps), s')"
      using step False w1(1) *(1) by (simp add: bnd_def ret_def)
    have "recovered_to w (rep # reps) (statuses (P r)) (r_run_id r) r (bt_get (rp_runs s') (r_run_id r))"
      using *(3) fresh w1(2,4,5) by (auto simp: recovered_to_def)
    moreover have "\<forall>x \<in> set rs. recovered_to w (rep # reps) (statuses (P x)) (r_run_id x) x (bt_get (rp_runs s') (r_run_id x))"
      using *(2) by (auto simp: recovered_to_def)
    moreover have "\<forall>j. j \<notin> r_run_id ` set (r # rs) \<longrightarrow> bt_get (rp_runs s') j = bt_get (rp_runs s) j"
      using *(3) w1(6) u(2) by simp
    ultimately show ?thesis using out by (intro exI [of _ "rep # reps"] exI [of _ s']) simp
  qed
qed

lemma recover_all_settles:
  fixes s :: "'x engine_scheme"
  assumes "runs_named s" and "run_ids_valid s"
    and P: "\<And>i r. bt_get (rp_runs s) i = Some r \<Longrightarrow> left_active r \<Longrightarrow> verdicts w r TYPE('x) (P r)"
  shows "\<exists>reps s'. recover_all w s = (Inr reps, s')
    \<and> (\<forall>i r. bt_get (rp_runs s) i = Some r \<longrightarrow>
          (if left_active r then recovered_to w reps (statuses (P r)) i r (bt_get (rp_runs s') i) else bt_get (rp_runs s') i = Some r))
    \<and> (\<forall>i. bt_get (rp_runs s) i = None \<longrightarrow> bt_get (rp_runs s') i = None)"
proof -
  let ?rs = "filter left_active (documents rp_runs r_created_at s)"
  have d: "distinct (map r_run_id ?rs)"
    using listed_distinct [OF assms(1)] by (simp add: distinct_map_filter)
  have in_rs: "r \<in> set ?rs \<longleftrightarrow> bt_get (rp_runs s) (r_run_id r) = Some r \<and> left_active r" for r
    using listed_runs [OF assms(1)] run_listed by auto
  have 1: "valid_id (r_run_id r)" and 2: "bt_get (rp_runs s) (r_run_id r) = Some r" and 3: "verdicts w r TYPE('x) (P r)"
    if "r \<in> set ?rs" for r
    using that in_rs [of r] assms(2) P [of "r_run_id r" r] by (auto simp: run_ids_valid_def)
  obtain reps s' where *: "recover_runs w ?rs s = (Inr reps, s')"
    "\<forall>r \<in> set ?rs. recovered_to w reps (statuses (P r)) (r_run_id r) r (bt_get (rp_runs s') (r_run_id r))"
    "\<forall>j. j \<notin> r_run_id ` set ?rs \<longrightarrow> bt_get (rp_runs s') j = bt_get (rp_runs s) j"
    using recover_runs_settle [OF assms(1) d 1 2 3] by blast
  have out: "recover_all w s = (Inr reps, s')"
    using *(1) by (simp add: recover_all_def all_runs_def gets_def bnd_def)
  have own: "r_run_id r = i" if "bt_get (rp_runs s) i = Some r" for i r
    using that assms(1) by (simp add: runs_named_def)
  have "if left_active r then recovered_to w reps (statuses (P r)) i r (bt_get (rp_runs s') i) else bt_get (rp_runs s') i = Some r"
    if "bt_get (rp_runs s) i = Some r" for i r
  proof (cases "left_active r")
    case True
    then show ?thesis using *(2) in_rs [of r] own [OF that] that by auto
  next
    case False
    have "i \<notin> r_run_id ` set ?rs" using False in_rs own [OF that] that by force
    then show ?thesis using *(3) that False by simp
  qed
  moreover have "bt_get (rp_runs s') i = None" if "bt_get (rp_runs s) i = None" for i
  proof -
    have "i \<notin> r_run_id ` set ?rs" using that in_rs by force
    then show ?thesis using *(3) that by simp
  qed
  ultimately show ?thesis using out by blast
qed

lemma verdicts_any: "verdicts w r TYPE('x) (\<lambda>_. True)"
  by (simp add: verdicts_def yields_def)

lemma statuses_settled: "statuses P st \<Longrightarrow> settled_status st"
  using recovered_settled(1) by (auto simp: statuses_def)

text \<open>C7. A recovery always ends. It leaves no run active: every run that was being prepared, running or waiting
  for an approval is pending, failed or with a human afterwards and is reported, unless another process
  held its lock; no other run is touched.\<close>

theorem recovery_settles:
  assumes "runs_named s" and "run_ids_valid s"
  shows "\<exists>reps s'. recover_all w s = (Inr reps, s')
    \<and> (\<forall>i r. bt_get (rp_runs s) i = Some r \<longrightarrow>
          (if left_active r then recovered_to w reps settled_status i r (bt_get (rp_runs s') i) else bt_get (rp_runs s') i = Some r))
    \<and> (\<forall>i. bt_get (rp_runs s) i = None \<longrightarrow> bt_get (rp_runs s') i = None)"
proof -
  have "recovered_to w reps (statuses P) i r x \<Longrightarrow> recovered_to w reps settled_status i r x" for reps P i r x
    using statuses_settled by (auto simp: recovered_to_def)
  then show ?thesis using recover_all_settles [OF assms verdicts_any] by (metis (no_types, lifting))
qed

lemma spawned_named: "runs_named spawned_engine" "run_ids_valid spawned_engine"
proof -
  have "valid_id ''run-1''" by code_simp
  then show "runs_named spawned_engine" "run_ids_valid spawned_engine"
    by (auto simp: runs_named_def run_ids_valid_def spawned_engine_def idle_engine_def bt_ok_def bt_get_def
        spawned_run_def sample_run_def split: if_splits)
qed

lemma spawned_doc: "bt_get (rp_runs spawned_engine) ''run-1'' = Some spawned_run" "left_active spawned_run"
  by (simp_all add: spawned_engine_def idle_engine_def bt_get_def left_active_def spawned_run_def)

theorem recovery_settles_witness:
  "\<exists>reps s'. recover_all quiet_world spawned_engine = (Inr reps, s')
     \<and> recovered_to quiet_world reps settled_status ''run-1'' spawned_run (bt_get (rp_runs s') ''run-1'')"
  using recovery_settles [OF spawned_named, of quiet_world] spawned_doc by metis

subsection \<open>Nothing is repeated blindly\<close>

text \<open>The side effect of the open step may have happened: its command was spawned, or its agent got the
  prompt and Herdr shows no such agent any more.\<close>

definition runs_command :: "step \<Rightarrow> bool" where
  "runs_command st = (case s_spec st of SpCommand _ _ _ _ \<Rightarrow> True | _ \<Rightarrow> False)"

definition may_have_happened :: "world \<Rightarrow> workflow \<Rightarrow> run \<Rightarrow> bool" where
  "may_have_happened w wfl r \<longleftrightarrow> (\<exists>e st. open_step r = Some e \<and> e_approval_id e = None
     \<and> find (\<lambda>s. s_id s = e_step_id e) (w_steps wfl) = Some st
     \<and> (runs_command st \<and> e_process e \<noteq> None
        \<or> step_kind_of st = KAgent \<and> (\<exists>b. e_agent e = Some b \<and> ab_prompt_sent b)
          \<and> (\<forall>n name live. wd_get_agent w n name \<noteq> Inr (Some live))))"

definition needs_someone :: "classification \<Rightarrow> bool" where
  "needs_someone c \<longleftrightarrow> c = NeedsHuman \<or> c = Unrecoverable"

definition class_only :: "('c \<Rightarrow> bool) \<Rightarrow> 'c \<times> 'd \<Rightarrow> bool" where
  "class_only P x \<longleftrightarrow> P (fst x)"

lemma gone_agent:
  assumes "\<And>n name live. wd_get_agent w n name \<noteq> Inr (Some live)"
  shows "yields (\<lambda>a. \<forall>st. a \<noteq> AgentAlive st) (recover_agent w m b)"
  using assms unfolding recover_agent_def
  by (cases m; cases "ab_agent_name b") (auto simp: yields_def ret_def inquire_bnd split: sum.splits option.splits)

lemma command_class:
  "e_process e \<noteq> None \<Longrightarrow> yields (class_only needs_someone) (classify_command w e)"
  unfolding classify_command_def by (auto simp: class_only_def needs_someone_def intro!: yields_intros)

lemma agent_classes:
  assumes "e_agent e = Some b" and "ab_prompt_sent b" and "\<And>n name live. wd_get_agent w n name \<noteq> Inr (Some live)"
  shows "yields (class_only needs_someone) (classify_agent w r e)"
proof -
  have known: "yields (\<lambda>a. \<forall>st. a \<noteq> AgentAlive st)
      (case build_runner f n of Inr p \<Rightarrow> recover_agent w (rp_mode p) b | Inl err \<Rightarrow> ret (AgentUnknown err))" for f n
    by (cases "build_runner f n") (auto intro!: gone_agent assms(3) yields_intros)
  have cl: "class_only needs_someone (agent_class a b s)" if "\<forall>st. a \<noteq> AgentAlive st" for a s
    using that assms(2) by (cases a) (auto simp: agent_class_def class_only_def needs_someone_def)
  show ?thesis unfolding classify_agent_def
    by (auto simp: assms(1) intro!: yields_bnd yields_bnd_strong [OF known] yields_ret cl)
qed

lemma class_kept: "yields (class_only P) m \<Longrightarrow> yields (class_only P) (bnd m (\<lambda>(c, why). ret (c, why, r)))"
  by (rule yields_bnd_strong, assumption) (auto simp: class_only_def intro!: yields_ret split: prod.split)

lemma step_class:
  assumes "runs_command st \<and> e_process e \<noteq> None
        \<or> step_kind_of st = KAgent \<and> (\<exists>b. e_agent e = Some b \<and> ab_prompt_sent b)
          \<and> (\<forall>n name live. wd_get_agent w n name \<noteq> Inr (Some live))"
  shows "yields (class_only needs_someone) (classify_step w r e st)"
  using assms unfolding classify_step_def Let_def step_kind_of_def runs_command_def
  by (cases "s_spec st") (auto intro!: class_kept command_class agent_classes)

lemma open_class:
  assumes "may_have_happened w wfl r"
  shows "yields (class_only needs_someone) (classify_steps w wfl r)"
  using assms unfolding may_have_happened_def classify_steps_def classify_open_def
  by (auto simp: rewait_def intro!: step_class)

lemma reparse_yields:
  "(\<And>n wfl. parse_workflow (wd_files w n) y = Inr wfl \<Longrightarrow> yields P (f wfl)) \<Longrightarrow> yields P (bnd (reparse w y) f)"
  by (rule yields_bnd_strong [where Q = "\<lambda>wfl. \<exists>n. parse_workflow (wd_files w n) y = Inr wfl"])
    (auto simp: yields_def [of "\<lambda>wfl. \<exists>n. _ n wfl"] reparse_def inquire_bnd lift_result_def)

lemma blocked_verdicts:
  assumes "\<And>n wfl. parse_workflow (wd_files w n) (r_workflow_yaml r) = Inr wfl \<Longrightarrow> may_have_happened w wfl r"
  shows "verdicts w r TYPE('x) needs_someone"
proof -
  have "yields (class_only needs_someone) (classify w r)"
    unfolding classify_def
    by (intro yields_bnd yields_option reparse_yields open_class assms) (simp_all add: class_only_def needs_someone_def yields_ret)
  then show ?thesis
    by (auto simp: verdicts_def needs_someone_def class_only_def yields_def)
qed

lemma blocked_statuses: "statuses needs_someone st \<Longrightarrow> st = RNeedsHuman \<or> st = RFailed"
  by (auto simp: statuses_def needs_someone_def recovered_run_def)



end
