(* ===== verification/Scheduler_Facts.thy ===== *)
theory Scheduler_Facts
  imports Engine_Facts Samples
begin

text \<open>
  What a tick of the scheduler may do: it starts only pending runs that nobody drives, within the limit and
  not while the queue is paused, it never writes the document of a run whose driver is alive, and it
  claims a task only when its dependencies are done.
\<close>

subsection \<open>The drivers\<close>

lemma more_active: "engine.more s' = engine.more s \<Longrightarrow> sd_active s' = sd_active (s :: 'x scheduler_scheme)"
  by (cases s; cases s') simp

lemma moves_active: "moves (engine_rel new) m \<Longrightarrow> sd_active (snd (m s)) = sd_active (s :: 'x scheduler_scheme)"
  using movesD [of "engine_rel new" m s] by (auto simp: engine_rel_def intro: more_active)

text \<open>The drivers whose runs must not be touched.\<close>

definition guarded :: "string set \<Rightarrow> string set \<Rightarrow> 'x scheduler_scheme \<Rightarrow> 'x scheduler_scheme \<Rightarrow> bool" where
  "guarded A new s s' \<longleftrightarrow> map fst (sd_active s') = map fst (sd_active s)
     \<and> (sched_paused (rp_scheduler s) \<longrightarrow> sched_paused (rp_scheduler s')) \<and>
     (runs_named s \<and> A \<subseteq> {i. is_active s i} \<longrightarrow> runs_named s'
        \<and> (\<forall>i \<in> A - new. bt_get (rp_runs s') i = bt_get (rp_runs s) i))"

lemma is_active_names: "map fst (sd_active s') = map fst (sd_active s) \<Longrightarrow> is_active s' i = is_active s i"
  by (metis is_active_def list.set_map)

interpretation guarded: state_order "guarded A new"
proof
  show "guarded A new s s" for s by (simp add: guarded_def)
  show "guarded A new s t \<Longrightarrow> guarded A new t u \<Longrightarrow> guarded A new s u" for s t u
    using is_active_names [of t s] by (auto simp: guarded_def)
qed

lemma engine_guarded:
  assumes "moves (engine_rel new') m" and "new' \<inter> A \<subseteq> new"
  shows "moves (guarded A new) (m :: ('x, 'a) sched_op)"
proof -
  have "guarded A new s (snd (m s))" for s
  proof -
    have e: "engine_rel new' s (snd (m s))" using assms(1) by (rule movesD)
    then have "runs_named (snd (m s)) \<and> (\<forall>i \<in> A - new. bt_get (rp_runs (snd (m s))) i = bt_get (rp_runs s) i)" if "runs_named s"
      using that assms(2) unfolding engine_rel_def runs_kept_def by blast
    moreover have "sched_paused (rp_scheduler s) \<longrightarrow> sched_paused (rp_scheduler (snd (m s)))"
      using e unfolding engine_rel_def by blast
    ultimately show ?thesis using moves_active [OF assms(1), of s] by (simp add: guarded_def)
  qed
  then show ?thesis by (simp add: moves_def)
qed

lemma flag_guarded: "moves (guarded A new) (flag_cancel i)"
proof -
  have names: "map (fst \<circ> (\<lambda>(j, c). (j, c \<or> j = i))) l = map fst l" for l
    by (auto simp: split_def)
  show ?thesis unfolding flag_cancel_def
    by (rule moves_modify) (simp add: guarded_def names runs_named_def)
qed

text \<open>A choice by whether a run is driven: when it is not, its document is not guarded.\<close>

lemma choice_guarded:
  assumes "moves (guarded A new) (g True)" and "i \<notin> A \<Longrightarrow> moves (guarded A new) (g False)"
    and "moves (guarded {} UNIV) (g False)"
  shows "moves (guarded A new) (bnd (gets (\<lambda>s. is_active s i)) g)"
proof -
  have "guarded A new s (snd (g (is_active s i) s))" for s
  proof (cases "is_active s i")
    case True
    then show ?thesis using movesD [OF assms(1), of s] by simp
  next
    case False
    show ?thesis
    proof (cases "i \<in> A")
      case True
      then have "\<not> A \<subseteq> {i. is_active s i}" using False by blast
      then show ?thesis using False movesD [OF assms(3), of s] by (simp add: guarded_def)
    next
      case nA: False
      then show ?thesis using False movesD [OF assms(2), of s] by simp
    qed
  qed
  then show ?thesis by (simp add: moves_def bnd_def gets_def)
qed

subsection \<open>Requests\<close>

lemmas guarded_rules = guarded.moves_rules moves_if moves_option moves_sum moves_prod flag_guarded

lemma cancel_guarded: "moves (guarded A new) (apply_cancel w ctl r :: ('x, _) sched_op)"
proof -
  define g :: "bool \<Rightarrow> ('x, string list) sched_op" where
    "g = (\<lambda>driven. if driven then andthen (flag_cancel (r_run_id r)) (ret [])
        else if r_status r \<in> {RPending, RBlocked, RNeedsHuman} then
          andthen (cancel_idle_run w r (rc_cancel_reason ctl)) (ret [r_run_id r])
        else ret [])"
  have idle: "moves (engine_rel {r_run_id r}) (g False)"
    unfolding g_def by (simp; intro conjI impI eng_intros cancel_idle_moves singletonI)
  have "moves (guarded A new) (bnd (gets (\<lambda>s. is_active s (r_run_id r))) g)"
  proof (rule choice_guarded)
    show "moves (guarded A new) (g True)" unfolding g_def by (simp; intro guarded_rules)
    show "moves (guarded A new) (g False)" if "r_run_id r \<notin> A"
      using that by (intro engine_guarded [OF idle]) simp
    show "moves (guarded {} UNIV) (g False)" using idle by (rule engine_guarded) simp
  qed
  then show ?thesis unfolding apply_cancel_def g_def by (intro moves_if guarded.moves_ret)
qed

lemma resume_guarded: "moves (guarded A new) (apply_resume w ctl r :: ('x, _) sched_op)"
proof -
  define g :: "bool \<Rightarrow> ('x, string list) sched_op" where
    "g = (\<lambda>driven. if \<not> rc_resume_requested ctl \<or> driven then ret []
     else
       bnd (if run_can_resume (r_status r)
            then andthen (resume_run w r (rc_resume_from_step ctl)) (ret [r_run_id r]) else ret []) (\<lambda>ids.
       bnd (change_control (r_run_id r) (\<lambda>c. c\<lparr> rc_resume_requested := False, rc_resume_from_step := None \<rparr>)) (\<lambda>_.
       ret ids)))"
  have idle: "moves (engine_rel {r_run_id r}) (g False)"
    unfolding g_def by (intro eng_intros resume_moves singletonI)
  have "moves (guarded A new) (bnd (gets (\<lambda>s. is_active s (r_run_id r))) g)"
  proof (rule choice_guarded)
    show "moves (guarded A new) (g True)" unfolding g_def by (simp; intro guarded_rules)
    show "moves (guarded A new) (g False)" if "r_run_id r \<notin> A"
      using that by (intro engine_guarded [OF idle]) simp
    show "moves (guarded {} UNIV) (g False)" using idle by (rule engine_guarded) simp
  qed
  then show ?thesis unfolding apply_resume_def g_def .
qed

lemma requests_guarded: "moves (guarded A new) (apply_requests w rs)"
proof (induction rs)
  case (Cons r rs)
  have "moves (guarded A new) (get_control (r_run_id r))"
    by (rule engine_guarded [where new' = "{}"]) (auto intro: eng_intros)
  then show ?case using Cons
    by (auto intro!: guarded_rules cancel_guarded resume_guarded)
qed (simp add: guarded.moves_ret)

subsection \<open>Claims\<close>

lemma with_tasks_moves [eng_intros]: "moves (engine_rel new) (with_tasks rs)"
  by (induction rs) (auto intro!: eng_intros)

lemma waiting_moves [eng_intros]:
  "moves (engine_rel new) (dependencies_ready w tk)" "moves (engine_rel new) (held_back_by_conflict w tk)"
  "moves (engine_rel new) (fail_claim w i e)"
  unfolding dependencies_ready_def note_verdict_def held_back_by_conflict_def fail_claim_def Let_def
  by (intro eng_intros)+

lemma claim_moves: "range (wd_id w) \<subseteq> new \<Longrightarrow> moves (engine_rel new) (claim_task w tk)"
  unfolding claim_task_def start_task_def Let_def by (intro eng_intros create_runs_moves)

lemma claims_moves: "range (wd_id w) \<subseteq> new \<Longrightarrow> moves (engine_rel new) (claim_tasks w tks)"
  by (induction tks) (auto intro!: eng_intros claim_moves)

text \<open>A task that was claimed: the verdict on each of its dependencies was success.\<close>

definition task_done :: "'x engine_scheme \<Rightarrow> string \<Rightarrow> bool" where
  "task_done s d \<longleftrightarrow> (\<exists>t. bt_get (rp_tasks s) d = Some t \<and> t_status t = TSucceeded)"

lemma get_task_Inr: "get_task i s = (Inr t, s') \<longleftrightarrow> s' = s \<and> valid_id i \<and> bt_get (rp_tasks s) i = Some t"
  by (auto simp: get_task_def fetch_def eff_defs split: if_splits option.splits)

lemma get_task_state: "snd (get_task i s) = s"
  by (simp add: get_task_def fetch_def eff_defs split: option.split)

lemma attempt_task: "bnd (attempt (get_task i)) g s = g (fst (get_task i s)) s"
  using get_task_state [of i s] by (cases "get_task i s") (simp add: bnd_def attempt_def)

lemma judged_dependency:
  assumes "judge_dependency w tk b d t s = (Inr (Inr u), s')"
  shows "t_status t = TSucceeded" and "rp_tasks s' = rp_tasks s"
  using assms
  by (auto simp: judge_dependency_def dependency_run_def loaded_runs_def unmerged_branch_def eff_defs inquire_def
      split: if_splits option.splits)

lemma checked_dependency:
  assumes "check_dependency w tk b d s = (Inr (Inr u), s')"
  shows "task_done s d \<and> rp_tasks s' = rp_tasks s"
proof -
  obtain t where "with_context (''dependency #'' @ d) (fst (get_task d s)) = Inr t"
    and j: "judge_dependency w tk b d t s = (Inr (Inr u), s')"
    using assms unfolding check_dependency_def attempt_task bnd_Inr lift_result_def by auto
  then have "fst (get_task d s) = Inr t" by (simp only: with_context_Inr)
  then have "bt_get (rp_tasks s) d = Some t"
    using get_task_Inr [of d s t s] get_task_state [of d s] by (cases "get_task d s") simp
  then show ?thesis using judged_dependency [OF j] by (simp add: task_done_def)
qed

definition unready :: "dep_state + 'a \<Rightarrow> bool" where
  "unready r \<longleftrightarrow> (case r of Inl st \<Rightarrow> \<not> dep_ready st | Inr _ \<Rightarrow> True)"

lemma check_dependency_unready: "yields unready (check_dependency w tk b d)"
  unfolding check_dependency_def judge_dependency_def
  by (intro yields_intros) (simp_all add: unready_def dep_ready_def)

lemma check_dependencies_unready: "yields unready (check_dependencies_of w tk b ds u :: ('x, _) engine_op)"
proof (induction ds arbitrary: u)
  case (Cons d ds)
  have "yields unready ((case r of Inl st \<Rightarrow> ret (Inl st) | Inr None \<Rightarrow> check_dependencies_of w tk b ds u
        | Inr (Some x) \<Rightarrow> check_dependencies_of w tk b ds (u @ [x])) :: ('x, _) engine_op)" if "unready r" for r
  proof (cases r)
    case (Inl st)
    then show ?thesis using that by (auto intro!: yields_ret simp: unready_def)
  next
    case (Inr y)
    then show ?thesis using Cons by (cases y) simp_all
  qed
  then show ?case by (simp add: yields_bnd_strong [OF check_dependency_unready])
qed (simp add: yields_ret unready_def)

lemma checked_dependencies:
  "check_dependencies_of w tk b ds u s = (Inr (Inr v), s') \<Longrightarrow> \<forall>d \<in> set ds. task_done s d"
proof (induction ds arbitrary: u s)
  case (Cons d ds)
  obtain r t where r: "check_dependency w tk b d s = (Inr r, t)"
    and k: "(case r of Inl st \<Rightarrow> ret (Inl st) | Inr None \<Rightarrow> check_dependencies_of w tk b ds u
        | Inr (Some x) \<Rightarrow> check_dependencies_of w tk b ds (u @ [x])) t = (Inr (Inr v), s')"
    using Cons.prems by (auto simp: bnd_Inr)
  then obtain y where y: "r = Inr y" by (cases r) (auto simp: ret_def)
  then have d: "task_done s d" and e: "rp_tasks t = rp_tasks s" using checked_dependency [of w tk b d s y t] r by auto
  have "\<forall>d \<in> set ds. task_done t d"
    using k y Cons.IH by (cases y) auto
  then show ?case using d e by (simp add: task_done_def)
qed simp

lemma dependency_ready_done:
  assumes "dependency_state w tk s = (Inr st, s')" and "dep_ready st" and "d \<in> set (t_depends_on tk)"
  shows "task_done s d"
proof -
  have ne: "t_depends_on tk \<noteq> []" using assms(3) by auto
  obtain cfg s1 base s2 r s3 where 1: "load_config w (t_repo_root tk) s = (Inr cfg, s1)"
    and 2: "default_base w (t_repo_root tk) (first_some (to_base_ref (t_options tk)) (ec_base_branch cfg)) s1 = (Inr base, s2)"
    and 3: "check_dependencies_of w tk base (t_depends_on tk) [] s2 = (Inr r, s3)"
    and 4: "st = (case r of Inl st \<Rightarrow> st | Inr unmerged \<Rightarrow> unmerged_state cfg tk unmerged)"
    using assms(1) ne by (auto simp: dependency_state_def bnd_Inr ret_def)
  have "rp_tasks s1 = rp_tasks s" using 1 by (auto simp: load_config_def inquire_bnd lift_result_def)
  moreover have "rp_tasks s2 = rp_tasks s1"
    using 2 by (auto simp: default_base_def inquire_def ret_def lift_result_def bnd_def split: option.splits sum.splits)
  moreover have "\<exists>u. r = Inr u"
    using yieldsD [OF check_dependencies_unready 3] 4 assms(2) by (cases r) (auto simp: unready_def)
  ultimately show ?thesis using checked_dependencies 3 assms(3) by (fastforce simp: task_done_def)
qed

definition returns :: "('s, 'a) eff \<Rightarrow> bool" where
  "returns m \<longleftrightarrow> (\<forall>s. \<exists>x s'. m s = (Inr x, s'))"

lemma returns_andthen: "returns a \<Longrightarrow> returns c \<Longrightarrow> returns (andthen a c)"
proof -
  assume a: "returns a" and c: "returns c"
  have "\<exists>x s'. andthen a c s = (Inr x, s')" for s
  proof -
    obtain x t where "a s = (Inr x, t)" using a unfolding returns_def by blast
    moreover obtain y u where "c t = (Inr y, u)" using c unfolding returns_def by blast
    ultimately show ?thesis by (simp add: andthen_def bnd_def)
  qed
  then show "returns (andthen a c)" unfolding returns_def by blast
qed

lemma returns_rules:
  "returns (ret x)" "returns (log_event d)" "returns (tolerate m)" "returns a \<Longrightarrow> returns (whenb b a)"
  by (auto simp: returns_def ret_def log_event_def modify_def tolerate_def attempt_def bnd_def whenb_def
      split: prod.split)

lemma note_verdict_returns: "\<exists>s'. note_verdict w tk st s = (Inr (), s')"
proof -
  have "returns (note_verdict w tk st)" unfolding note_verdict_def by (cases "dependency_verdict st") (auto intro!: returns_rules returns_andthen)
  then show ?thesis unfolding returns_def by (metis old.unit.exhaust)
qed

lemma dependencies_ready_checked:
  "\<exists>st s1 s'. dependencies_ready w tk s = (Inr (dep_ready st), s')
     \<and> (dependency_state w tk s = (Inr st, s1) \<or> \<not> dep_ready st)"
proof -
  obtain r t where r: "dependency_state w tk s = (r, t)" by (cases "dependency_state w tk s")
  define st where "st = (case r of Inr st \<Rightarrow> st | Inl e \<Rightarrow> DepWaiting (''cannot check dependencies: '' @ e))"
  obtain t' where "note_verdict w tk st t = (Inr (), t')" using note_verdict_returns by blast
  then have "dependencies_ready w tk s = (Inr (dep_ready st), t')"
    by (simp add: dependencies_ready_def attempt_def bnd_def andthen_def r st_def [symmetric] ret_def Let_def)
  moreover have "dependency_state w tk s = (Inr st, t) \<or> \<not> dep_ready st"
    by (cases r) (simp_all add: r st_def dep_ready_def)
  ultimately show ?thesis by blast
qed

text \<open>C14. A task that is not queued, has runs, or depends on a task that has not succeeded is not claimed: the attempt
  returns normally with nothing claimed, and no run is created or changed.\<close>

theorem claimed_after_dependencies:
  fixes s :: "'x engine_scheme"
  assumes "runs_named s" and "\<not> unclaimed tk \<or> \<not> (\<forall>d \<in> set (t_depends_on tk). task_done s d)"
  shows "fst (claim_task w tk s) = Inr [] \<and> bt_get (rp_runs (snd (claim_task w tk s))) i = bt_get (rp_runs s) i"
proof -
  define waiting where "waiting = (t_status tk \<in> {TQueued, TBlocked} \<and> t_run_ids tk = [] \<and> t_depends_on tk \<noteq> [])"
  obtain ready s1 where r: "(if waiting then dependencies_ready w tk else ret True) s = (Inr ready, s1)"
    and ready: "ready \<and> unclaimed tk \<longrightarrow> (\<forall>d \<in> set (t_depends_on tk). task_done s d)"
  proof (cases waiting)
    case True
    obtain st s1 s' where st: "dependencies_ready w tk s = (Inr (dep_ready st), s')"
      and "dependency_state w tk s = (Inr st, s1) \<or> \<not> dep_ready st" using dependencies_ready_checked by blast
    then have "dep_ready st \<longrightarrow> (\<forall>d \<in> set (t_depends_on tk). task_done s d)"
      using dependency_ready_done by blast
    then show ?thesis using that [of "dep_ready st" s'] st True by simp
  next
    case False
    then have "unclaimed tk \<longrightarrow> t_depends_on tk = []" by (auto simp: waiting_def unclaimed_def)
    then show ?thesis using that [of True s] False by (simp add: ret_def)
  qed
  have c: "claim_task w tk s = (Inr [], s1)"
  proof -
    define k :: "bool \<Rightarrow> ('x, string list) engine_op" where "k = (\<lambda>ready. if \<not> ready then ret []
      else
        bnd (if unclaimed tk \<and> to_scope (t_options tk) \<noteq> [] then held_back_by_conflict w tk else ret False) (\<lambda>held.
        if held \<or> \<not> unclaimed tk then ret [] else start_task w tk))"
    have "claim_task w tk s = k ready s1"
      unfolding claim_task_def Let_def waiting_def [symmetric] k_def [symmetric] using r by (simp add: bnd_def)
    moreover have "k ready s1 = (Inr [], s1)"
      using ready assms(2) by (cases ready) (auto simp: k_def bnd_def ret_def)
    ultimately show ?thesis by simp
  qed
  have "moves (engine_rel {}) (if waiting then dependencies_ready w tk else ret True)"
    by (intro eng_intros)
  then have "engine_rel {} s s1" using r by (metis movesD snd_conv)
  then show ?thesis
    using assms(1) c by (simp add: engine_rel_def runs_kept_def)
qed

subsection \<open>Starting runs\<close>

text \<open>Starting writes nothing but the list of drivers.\<close>

definition add_drivers :: "string list \<Rightarrow> 'x scheduler_scheme \<Rightarrow> 'x scheduler_scheme" where
  "add_drivers ids s = s\<lparr> sd_active := sd_active s @ map (\<lambda>i. (i, False)) ids \<rparr>"

lemma start_runs_effect:
  "\<exists>n. start_runs limit rs s = (Inr (map r_run_id (take n rs)), add_drivers (map r_run_id (take n rs)) s)
     \<and> length (sd_active s) + length (take n rs) \<le> max limit (length (sd_active s))"
proof (induction rs arbitrary: s)
  case (Cons r rs)
  show ?case
  proof (cases "limit \<le> length (sd_active s)")
    case True
    then show ?thesis by (intro exI [of _ 0]) (simp add: bnd_def gets_def ret_def add_drivers_def)
  next
    case False
    define t where "t = s\<lparr> sd_active := sd_active s @ [(r_run_id r, False)] \<rparr>"
    from Cons.IH [of t] obtain n where n: "start_runs limit rs t = (Inr (map r_run_id (take n rs)), add_drivers (map r_run_id (take n rs)) t)"
      "length (sd_active t) + length (take n rs) \<le> max limit (length (sd_active t))" by blast
    have "start_runs limit (r # rs) s = (Inr (map r_run_id (take (Suc n) (r # rs))), add_drivers (map r_run_id (take (Suc n) (r # rs))) s)"
      using False n(1) by (simp add: bnd_def gets_def andthen_def spawn_def modify_def t_def ret_def add_drivers_def)
    moreover have "length (sd_active s) + length (take (Suc n) (r # rs)) \<le> max limit (length (sd_active s))"
      using False n(2) by (simp add: t_def)
    ultimately show ?thesis by blast
  qed
qed (simp add: ret_def add_drivers_def)

definition startable :: "'x scheduler_scheme \<Rightarrow> run list" where
  "startable s = start_order (filter (\<lambda>r. r_status r = RPending \<and> \<not> is_active s (r_run_id r)) (documents rp_runs r_created_at s))"

lemma start_pending_effect:
  "\<exists>n. start_pending limit s = (Inr (map r_run_id (take n (startable s))), add_drivers (map r_run_id (take n (startable s))) s)
     \<and> length (sd_active s) + length (take n (startable s)) \<le> max limit (length (sd_active s))"
  using start_runs_effect [of limit "startable s" s]
  by (simp add: start_pending_def all_runs_def bnd_def gets_def startable_def)

lemma startable_runs:
  assumes "runs_named s"
  shows "distinct (map r_run_id (startable s))"
    and "r \<in> set (startable s) \<Longrightarrow> bt_get (rp_runs s) (r_run_id r) = Some r \<and> r_status r = RPending \<and> \<not> is_active s (r_run_id r)"
proof -
  have "distinct (map r_run_id (filter P (documents rp_runs r_created_at s)))" for P
    using listed_distinct [OF assms] by (simp add: distinct_map_filter)
  then show "distinct (map r_run_id (startable s))"
    unfolding startable_def start_order_def distinct_map by (simp add: distinct_map)
  show "r \<in> set (startable s) \<Longrightarrow> bt_get (rp_runs s) (r_run_id r) = Some r \<and> r_status r = RPending \<and> \<not> is_active s (r_run_id r)"
    using listed_runs [OF assms] by (auto simp: startable_def start_order_def)
qed

subsection \<open>A tick\<close>

definition reaped :: "world \<Rightarrow> 'x scheduler_scheme \<Rightarrow> 'x scheduler_scheme" where
  "reaped w s = s\<lparr> eg_tick := Suc (eg_tick s),
     sd_active := filter (\<lambda>(i, c). \<not> wd_finished w (eg_tick s) i) (sd_active s) \<rparr>"

lemma drop_ended:
  fixes l :: "(string \<times> bool) list"
  shows "filter (\<lambda>(i, c). i \<notin> set (filter f (map fst l))) l = filter (\<lambda>(i, c). \<not> f i) l"
  by (rule filter_cong [OF refl]) force

lemma reap_effect: "reap w s = (Inr (filter (wd_finished w (eg_tick s)) (map fst (sd_active s))), reaped w s)"
  unfolding reap_def inquire_bnd reaped_def drop_ended [of "wd_finished w (eg_tick s)" "sd_active s", symmetric]
  by (simp add: bnd_def gets_def andthen_def modify_def ret_def)

lemma reaped_names: "map fst (sd_active (reaped w s)) = filter (\<lambda>i. \<not> wd_finished w (eg_tick s) i) (map fst (sd_active s))"
  by (simp add: reaped_def filter_map o_def split_def)

lemma reaped_documents: "rp_runs (reaped w s) = rp_runs s" "rp_scheduler (reaped w s) = rp_scheduler s"
  by (simp_all add: reaped_def)

lemma reaped_named: "runs_named s \<Longrightarrow> runs_named (reaped w s)"
  by (simp add: runs_named_def reaped_documents)

lemma attend_guarded: "moves (guarded A new) (attend w)"
proof -
  have "moves (guarded A new) m" if "moves (engine_rel {}) m" for m :: "('x, 'a) sched_op"
    using that by (rule engine_guarded) simp
  then have "moves (guarded A new) all_runs" "moves (guarded A new) (tolerate (sync w))" "moves (guarded A new) (tolerate (enforce_shift w))"
    by (intro engine_guarded [where new' = "{}"] eng_intros; simp)+
  then show ?thesis unfolding attend_def by (intro guarded_rules requests_guarded)
qed

lemma claims_and_starts:
  "(\<exists>e. claim_and_start w limit s = (Inl e, snd (claim_tasks w (documents rp_tasks (\<lambda>t. numeric_key (t_task_id t)) s) s)))
   \<or> (sched_paused (rp_scheduler s) \<and> claim_and_start w limit s = (Inr ([], []), s))
   \<or> (\<exists>claimed s1 n. \<not> sched_paused (rp_scheduler s) \<and> claim_tasks w (documents rp_tasks (\<lambda>t. numeric_key (t_task_id t)) s) s = (Inr claimed, s1)
        \<and> length (sd_active s1) + length (take n (startable s1)) \<le> max limit (length (sd_active s1))
        \<and> claim_and_start w limit s = (Inr (claimed, map r_run_id (take n (startable s1))), add_drivers (map r_run_id (take n (startable s1))) s1))"
proof (cases "sched_paused (rp_scheduler s)")
  case True
  then show ?thesis by (simp add: claim_and_start_def get_scheduler_def bnd_def gets_def ret_def)
next
  case False
  obtain r s1 where c: "claim_tasks w (documents rp_tasks (\<lambda>t. numeric_key (t_task_id t)) s) s = (r, s1)"
    by (cases "claim_tasks w (documents rp_tasks (\<lambda>t. numeric_key (t_task_id t)) s) s")
  have eq: "claim_and_start w limit s = (case r of Inl e \<Rightarrow> (Inl e, s1)
      | Inr claimed \<Rightarrow> bnd (start_pending limit) (\<lambda>started. ret (claimed, started)) s1)"
    using False c by (simp add: claim_and_start_def get_scheduler_def all_tasks_def bnd_def gets_def split: sum.split)
  show ?thesis
  proof (cases r)
    case (Inl e)
    then show ?thesis using eq c by simp
  next
    case (Inr claimed)
    obtain n where n: "start_pending limit s1 = (Inr (map r_run_id (take n (startable s1))), add_drivers (map r_run_id (take n (startable s1))) s1)"
      "length (sd_active s1) + length (take n (startable s1)) \<le> max limit (length (sd_active s1))"
      using start_pending_effect by blast
    then have "claim_and_start w limit s = (Inr (claimed, map r_run_id (take n (startable s1))), add_drivers (map r_run_id (take n (startable s1))) s1)"
      using eq Inr by (simp add: bnd_def ret_def)
    then show ?thesis using False c Inr n(2) by blast
  qed
qed

lemma add_drivers_fields: "rp_runs (add_drivers ids s) = rp_runs s" "rp_scheduler (add_drivers ids s) = rp_scheduler s"
  "map fst (sd_active (add_drivers ids s)) = map fst (sd_active s) @ ids"
  by (simp_all add: add_drivers_def o_def)

lemma attended:
  assumes "attend w s = (r, s')"
  shows "map fst (sd_active s') = map fst (sd_active s)"
    and "sched_paused (rp_scheduler s) \<Longrightarrow> sched_paused (rp_scheduler s')"
    and "runs_named s \<Longrightarrow> runs_named s'"
    and "runs_named s \<Longrightarrow> is_active s i \<Longrightarrow> bt_get (rp_runs s') i = bt_get (rp_runs s) i"
proof -
  have g: "guarded A {} s s'" for A using movesD [OF attend_guarded [of A "{}" w], of s] assms by simp
  show "map fst (sd_active s') = map fst (sd_active s)"
    "sched_paused (rp_scheduler s) \<Longrightarrow> sched_paused (rp_scheduler s')"
    "runs_named s \<Longrightarrow> runs_named s'"
    using g [of "{}"] by (auto simp: guarded_def)
  show "runs_named s \<Longrightarrow> is_active s i \<Longrightarrow> bt_get (rp_runs s') i = bt_get (rp_runs s) i"
    using g [of "{i}"] by (simp add: guarded_def)
qed

lemma claimed_tasks:
  assumes "claim_tasks w ts s = (r, s')"
  shows "sd_active s' = sd_active s" and "runs_named s \<Longrightarrow> runs_named s'"
    and "runs_named s \<Longrightarrow> i \<notin> range (wd_id w) \<Longrightarrow> bt_get (rp_runs s') i = bt_get (rp_runs s) i"
proof -
  have m: "moves (engine_rel (range (wd_id w))) (claim_tasks w ts)" by (rule claims_moves) simp
  show "sd_active s' = sd_active s" using moves_active [OF m, of s] assms by simp
  have e: "engine_rel (range (wd_id w)) s s'" using movesD [OF m, of s] assms by simp
  then show "runs_named s \<Longrightarrow> runs_named s'"
    "runs_named s \<Longrightarrow> i \<notin> range (wd_id w) \<Longrightarrow> bt_get (rp_runs s') i = bt_get (rp_runs s) i"
    unfolding engine_rel_def runs_kept_def by blast+
qed

lemma served_documents:
  assumes "claim_and_start w limit s = (r, s')" and "runs_named s" and "i \<notin> range (wd_id w)"
  shows "bt_get (rp_runs s') i = bt_get (rp_runs s) i"
proof -
  define ts where "ts = documents rp_tasks (\<lambda>t. numeric_key (t_task_id t)) s"
  have c: "bt_get (rp_runs (snd (claim_tasks w ts s))) i = bt_get (rp_runs s) i"
    using claimed_tasks(3) [of w ts s _ _ i] assms(2,3) by (cases "claim_tasks w ts s") simp
  show ?thesis
    using claims_and_starts [of w limit s] assms(1) c
    unfolding ts_def [symmetric] by (elim disjE exE conjE) (auto simp: add_drivers_fields)
qed

lemma served_starts:
  assumes "claim_and_start w limit s = (Inr (claimed, started), s')" and "runs_named s"
  shows "map fst (sd_active s') = map fst (sd_active s) @ started"
    and "length (sd_active s') \<le> max limit (length (sd_active s))"
    and "distinct started"
    and "i \<in> set started \<Longrightarrow> \<not> is_active s i \<and> (\<exists>r. bt_get (rp_runs s') i = Some r \<and> r_status r = RPending)"
    and "sched_paused (rp_scheduler s) \<Longrightarrow> claimed = [] \<and> started = []"
proof -
  define ts where "ts = documents rp_tasks (\<lambda>t. numeric_key (t_task_id t)) s"
  consider (paused) "sched_paused (rp_scheduler s)" "claimed = []" "started = []" "s' = s"
    | (runs) s1 n where "\<not> sched_paused (rp_scheduler s)" "claim_tasks w ts s = (Inr claimed, s1)"
        "length (sd_active s1) + length (take n (startable s1)) \<le> max limit (length (sd_active s1))"
        "started = map r_run_id (take n (startable s1))" "s' = add_drivers started s1"
    using claims_and_starts [of w limit s] assms(1) unfolding ts_def [symmetric] by (elim disjE exE conjE) auto
  note cases = this
  show "map fst (sd_active s') = map fst (sd_active s) @ started"
    using cases by cases (auto simp: add_drivers_fields dest: claimed_tasks(1))
  show "length (sd_active s') \<le> max limit (length (sd_active s))"
    using cases by cases (auto simp: add_drivers_def dest: claimed_tasks(1))
  show "distinct started"
    using cases
  proof cases
    case (runs s1 n)
    then have "runs_named s1" using claimed_tasks(2) assms(2) by blast
    then show ?thesis using runs(4) startable_runs(1) [of s1] by (simp add: take_map [symmetric])
  qed simp
  show "\<not> is_active s i \<and> (\<exists>r. bt_get (rp_runs s') i = Some r \<and> r_status r = RPending)" if i: "i \<in> set started"
    using cases
  proof cases
    case paused
    then show ?thesis using i by simp
  next
    case (runs s1 n)
    then have n: "runs_named s1" and a: "sd_active s1 = sd_active s" using claimed_tasks(1,2) assms(2) by blast+
    obtain r where "r \<in> set (startable s1)" "i = r_run_id r" using i runs(4) by (auto dest: in_set_takeD)
    then show ?thesis
      using startable_runs(2) [OF n, of r] a runs(5) by (auto simp: is_active_def add_drivers_fields)
  qed
  show "claimed = [] \<and> started = []" if "sched_paused (rp_scheduler s)" using cases that by cases simp_all
qed

lemma tick_eq:
  "tick w limit s = (case attend w (reaped w s) of
     (Inl e, s1) \<Rightarrow> (Inl e, s1)
   | (Inr (c, u), s1) \<Rightarrow> (case claim_and_start w limit s1 of
       (Inl e, s2) \<Rightarrow> (Inl e, s2)
     | (Inr (k, st), s2) \<Rightarrow> (Inr \<lparr> tr_claimed_tasks = k, tr_started_runs = st,
         tr_finished_runs = filter (wd_finished w (eg_tick s)) (map fst (sd_active s)),
         tr_cancelled_runs = c, tr_resumed_runs = u \<rparr>, s2)))"
  by (simp add: tick_def bnd_def reap_effect ret_def split: prod.split sum.split)

text \<open>C10. A tick drops the drivers that ended and starts others, never more than the limit allows: every run it
  starts is pending, has no driver, and is started once. A paused queue claims and starts nothing.\<close>

theorem tick_starts:
  assumes "runs_named s" and "tick w limit s = (Inr rep, s')"
  defines "kept \<equiv> filter (\<lambda>i. \<not> wd_finished w (eg_tick s) i) (map fst (sd_active s))"
  shows "map fst (sd_active s') = kept @ tr_started_runs rep
    \<and> length (sd_active s') \<le> max limit (length kept)
    \<and> distinct (tr_started_runs rep)
    \<and> (\<forall>i \<in> set (tr_started_runs rep). i \<notin> set kept \<and> (\<exists>r. bt_get (rp_runs s') i = Some r \<and> r_status r = RPending))
    \<and> (sched_paused (rp_scheduler s) \<longrightarrow> tr_claimed_tasks rep = [] \<and> tr_started_runs rep = [])"
proof -
  obtain c u s1 where a: "attend w (reaped w s) = (Inr (c, u), s1)"
    and st: "claim_and_start w limit s1 = (Inr (tr_claimed_tasks rep, tr_started_runs rep), s')"
  proof -
    obtain r s1 where a: "attend w (reaped w s) = (r, s1)" by (cases "attend w (reaped w s)")
    obtain q s2 where q: "claim_and_start w limit s1 = (q, s2)" by (cases "claim_and_start w limit s1")
    obtain c u where r: "r = Inr (c, u)" using assms(2) a by (cases r) (auto simp: tick_eq)
    obtain k l where "q = Inr (k, l)" using assms(2) a q r by (cases q) (auto simp: tick_eq)
    then show ?thesis using assms(2) a q r by (intro that [of c u s1]) (auto simp: tick_eq)
  qed
  have n: "runs_named s1" by (rule attended(3) [OF a reaped_named [OF assms(1)]])
  have k: "map fst (sd_active s1) = kept" using attended(1) [OF a] by (simp add: reaped_names kept_def)
  then have l: "length (sd_active s1) = length kept" by (metis length_map)
  have 1: "map fst (sd_active s') = kept @ tr_started_runs rep" using served_starts(1) [OF st n] k by simp
  have 2: "length (sd_active s') \<le> max limit (length kept)" using served_starts(2) [OF st n] l by simp
  have 3: "distinct (tr_started_runs rep)" by (rule served_starts(3) [OF st n])
  have 4: "\<forall>i \<in> set (tr_started_runs rep). i \<notin> set kept \<and> (\<exists>r. bt_get (rp_runs s') i = Some r \<and> r_status r = RPending)"
    using served_starts(4) [OF st n] k by (metis is_active_def list.set_map)
  have 5: "tr_claimed_tasks rep = [] \<and> tr_started_runs rep = []" if "sched_paused (rp_scheduler s)"
    using served_starts(5) [OF st n] attended(2) [OF a] that by (simp add: reaped_documents)
  show ?thesis using 1 2 3 4 5 by blast
qed

text \<open>C9. A single writer: a tick leaves the document of a run as it is while a driver of it is alive.\<close>

theorem tick_spares_drivers:
  assumes "runs_named s" and "is_active s i" and "\<not> wd_finished w (eg_tick s) i" and "i \<notin> range (wd_id w)"
  shows "bt_get (rp_runs (snd (tick w limit s))) i = bt_get (rp_runs s) i"
proof -
  have n: "runs_named (reaped w s)" using assms(1) by (rule reaped_named)
  have i: "is_active (reaped w s) i" using assms(2,3) by (force simp: reaped_def is_active_def)
  obtain r s1 where a: "attend w (reaped w s) = (r, s1)" by (cases "attend w (reaped w s)")
  have 1: "bt_get (rp_runs s1) i = bt_get (rp_runs s) i"
    using attended(4) [OF a n i] by (simp add: reaped_documents)
  have 2: "bt_get (rp_runs (snd (claim_and_start w limit s1))) i = bt_get (rp_runs s1) i"
    using served_documents attended(3) [OF a n] assms(4) by (metis prod.collapse)
  show ?thesis using 1 2 by (auto simp: tick_eq a split: prod.split sum.split)
qed

subsection \<open>Concrete queues\<close>

text \<open>A queue with one pending run, in which another run is driven.\<close>

definition driven_queue :: scheduler where
  "driven_queue = engine.extend (idle_engine\<lparr> rp_runs := [(''run-1'', sample_run)] \<rparr>) \<lparr> sd_active = [(''run-0'', False)] \<rparr>"

lemmas driven_defs = driven_queue_def idle_engine_def engine.defs scheduler.defs

lemma driven_fields:
  "sd_active driven_queue = [(''run-0'', False)]" "eg_tick driven_queue = 0" "rp_runs driven_queue = [(''run-1'', sample_run)]"
  "\<not> sched_paused (rp_scheduler driven_queue)" "rp_controls driven_queue = []" "rp_epics driven_queue = []"
  "rp_tasks driven_queue = []" "eg_shift driven_queue = None"
  by (simp_all add: driven_defs)

lemma driven_named: "runs_named driven_queue"
  by (simp add: runs_named_def driven_fields bt_ok_def bt_get_def sample_run_def)

lemma driven_finished: "wd_finished quiet_world n i = False" by (simp add: quiet_world_def)

lemma driven_attend:
  assumes "s = driven_queue\<lparr> eg_tick := n \<rparr>"
  shows "attend quiet_world s = (Inr ([], []), s)"
proof -
  have v: "valid_id ''run-1''" by code_simp
  have d: "documents rp_runs r_created_at s = [sample_run]" "documents rp_epics (\<lambda>e. epic_number (ep_epic_id e)) s = []"
    "eg_shift s = None" "rp_controls s = []"
    using assms by (simp_all add: documents_def bt_values_def driven_fields)
  show ?thesis using d v
    by (simp add: attend_def all_runs_def all_epics_def sync_def enforce_shift_def get_control_def apply_cancel_def
        apply_resume_def run_control_default_def sample_run_def bt_get_def tolerate_def eff_defs)
qed

lemma driven_claim:
  assumes "s = driven_queue\<lparr> eg_tick := n \<rparr>"
  shows "claim_and_start quiet_world 2 s = (Inr ([], [''run-1'']), add_drivers [''run-1''] s)"
proof -
  have d: "documents rp_runs r_created_at s = [sample_run]" "documents rp_tasks (\<lambda>t. numeric_key (t_task_id t)) s = []"
    "sd_active s = [(''run-0'', False)]" "\<not> sched_paused (rp_scheduler s)"
    using assms by (simp_all add: documents_def bt_values_def driven_fields)
  then show ?thesis
    by (simp add: claim_and_start_def get_scheduler_def all_tasks_def all_runs_def start_pending_def start_order_def
        is_active_def sample_run_def spawn_def add_drivers_def eff_defs)
qed

lemma driven_tick: "map_sum id tr_started_runs (fst (tick quiet_world 2 driven_queue)) = Inr [''run-1'']"
proof -
  have "reaped quiet_world driven_queue = driven_queue\<lparr> eg_tick := 1 \<rparr>"
    by (simp add: reaped_def driven_finished driven_fields)
  then show ?thesis using driven_attend [OF refl, of 1] driven_claim [OF refl, of 1] by (simp add: tick_eq)
qed

theorem tick_starts_witness:
  "\<exists>rep s'. tick quiet_world 2 driven_queue = (Inr rep, s') \<and> map fst (sd_active s') = ''run-0'' # tr_started_runs rep
     \<and> length (sd_active s') \<le> 2"
proof -
  obtain rep s' where t: "tick quiet_world 2 driven_queue = (Inr rep, s')"
    using driven_tick by (cases "tick quiet_world 2 driven_queue"; cases "fst (tick quiet_world 2 driven_queue)") auto
  then show ?thesis using tick_starts [OF driven_named t] by (simp add: driven_finished driven_fields)
qed

theorem tick_spares_drivers_witness:
  "let s = driven_queue\<lparr> rp_runs := [(''run-0'', sample_run\<lparr> r_run_id := ''run-0'' \<rparr>)],
       rp_controls := [(''run-0'', run_control_default\<lparr> rc_cancel_requested := True \<rparr>)] \<rparr>
   in bt_get (rp_runs (snd (tick quiet_world 1 s))) ''run-0'' = Some (sample_run\<lparr> r_run_id := ''run-0'' \<rparr>)"
proof -
  let ?s = "driven_queue\<lparr> rp_runs := [(''run-0'', sample_run\<lparr> r_run_id := ''run-0'' \<rparr>)],
       rp_controls := [(''run-0'', run_control_default\<lparr> rc_cancel_requested := True \<rparr>)] \<rparr>"
  have n: "runs_named ?s" "is_active ?s ''run-0''"
    by (simp_all add: runs_named_def bt_ok_def bt_get_def is_active_def driven_fields)
  have "''run-0'' \<notin> range (wd_id quiet_world)" by (auto simp: quiet_world_def)
  then show ?thesis
    using tick_spares_drivers [OF n, of quiet_world 1] by (simp add: driven_finished bt_get_def)
qed

text \<open>A queued task that depends on one that is running.\<close>

theorem claimed_after_dependencies_witness:
  "let s = idle_engine\<lparr> rp_tasks := [(''1'', sample_task\<lparr> t_task_id := ''1'', t_status := TRunning \<rparr>)] \<rparr>
   in fst (claim_task quiet_world (sample_task\<lparr> t_depends_on := [''1''] \<rparr>) s) = Inr []"
proof -
  let ?s = "idle_engine\<lparr> rp_tasks := [(''1'', sample_task\<lparr> t_task_id := ''1'', t_status := TRunning \<rparr>)] \<rparr>"
  have "runs_named ?s" by (simp add: runs_named_def idle_engine_def bt_ok_def bt_get_def)
  moreover have "\<not> task_done ?s ''1''" by (simp add: task_done_def bt_get_def)
  ultimately show ?thesis
    using claimed_after_dependencies [of ?s "sample_task\<lparr> t_depends_on := [''1''] \<rparr>" quiet_world] by simp
qed

end
