(* ===== verification/Git.thy ===== *)
theory Git
  imports Checks Security Outputs
begin

text \<open>
  The adapter of the program \<open>git\<close>, \<open>src/git/mod.rs\<close>. What a command prints and what the file system holds
  are parameters that may depend on every command given before; the state records the commands and the
  writes in order. A time limit is part of the answer of a command.
\<close>

datatype git_event =
    GitRun path "string list"
  | MadeDirs path
  | Wrote path string

type_synonym 'a git_op = "(git_event list, 'a) eff"

record git_env =
  gi_tool :: "git_event list \<Rightarrow> path \<Rightarrow> string list \<Rightarrow> string + string"
  gi_output :: "git_event list \<Rightarrow> path \<Rightarrow> string list \<Rightarrow> string + (bool \<times> string \<times> string)"
  gi_canonical :: "git_event list \<Rightarrow> path \<Rightarrow> path option"
  gi_exists :: "git_event list \<Rightarrow> path \<Rightarrow> bool"
  gi_has_entries :: "git_event list \<Rightarrow> path \<Rightarrow> bool option"
  gi_plain_file :: "git_event list \<Rightarrow> path \<Rightarrow> nat option"
  gi_length :: "git_event list \<Rightarrow> path \<Rightarrow> nat option"
  gi_read :: "git_event list \<Rightarrow> path \<Rightarrow> string option"
  gi_bytes :: "git_event list \<Rightarrow> path \<Rightarrow> string option"
  gi_mkdirs :: "git_event list \<Rightarrow> path \<Rightarrow> string + unit"
  gi_write :: "git_event list \<Rightarrow> path \<Rightarrow> string \<Rightarrow> string + unit"
  gi_sha :: "string \<Rightarrow> string"

text \<open>\<open>PathBuf::push\<close> on the text of a path, and the parent of a path.\<close>

definition path_push :: "path \<Rightarrow> path \<Rightarrow> path" where
  "path_push base p =
     (if starts_with p ''/'' then p
      else if base = [] \<or> last base = CHR ''/'' then base @ p
      else base @ ''/'' @ p)"

definition path_parent :: "path \<Rightarrow> path option" where
  "path_parent p =
     (let cs = components p in
      if cs = [] \<or> last cs = RootDir then None else Some (display_path (butlast cs)))"

subsection \<open>Commands\<close>

definition run_tool :: "git_env \<Rightarrow> path \<Rightarrow> string list \<Rightarrow> string git_op" where
  "run_tool g cwd argv =
     bnd (gets (\<lambda>l. gi_tool g l cwd argv)) (\<lambda>r.
     andthen (modify (\<lambda>l. l @ [GitRun cwd argv])) (lift_result r))"

definition git :: "git_env \<Rightarrow> path \<Rightarrow> string list \<Rightarrow> string git_op" where
  "git g cwd args = run_tool g cwd (''git'' # args)"

text \<open>\<open>Command::output\<close>: whether it succeeded, its output and its error output.\<close>

definition git_output :: "git_env \<Rightarrow> path \<Rightarrow> string list \<Rightarrow> (bool \<times> string \<times> string) git_op" where
  "git_output g cwd args =
     bnd (gets (\<lambda>l. gi_output g l cwd (''git'' # args))) (\<lambda>r.
     andthen (modify (\<lambda>l. l @ [GitRun cwd (''git'' # args)])) (lift_result r))"

definition succeeds :: "'a git_op \<Rightarrow> bool git_op" where
  "succeeds m = bnd (attempt m) (\<lambda>r. ret (case r of Inr _ \<Rightarrow> True | Inl _ \<Rightarrow> False))"

definition or_empty :: "string git_op \<Rightarrow> string git_op" where
  "or_empty m = bnd (attempt m) (\<lambda>r. ret (case r of Inr s \<Rightarrow> s | Inl _ \<Rightarrow> []))"

definition contextual :: "string \<Rightarrow> 'a git_op \<Rightarrow> 'a git_op" where
  "contextual c m = bnd (attempt m) (\<lambda>r. lift_result (with_context c r))"

definition make_dirs :: "git_env \<Rightarrow> path \<Rightarrow> unit git_op" where
  "make_dirs g p =
     bnd (gets (\<lambda>l. gi_mkdirs g l p)) (\<lambda>r. andthen (modify (\<lambda>l. l @ [MadeDirs p])) (lift_result r))"

definition write_atomic :: "git_env \<Rightarrow> path \<Rightarrow> string \<Rightarrow> unit git_op" where
  "write_atomic g p s =
     bnd (gets (\<lambda>l. gi_write g l p s)) (\<lambda>r. andthen (modify (\<lambda>l. l @ [Wrote p s])) (lift_result r))"

subsection \<open>Repositories and revisions\<close>

definition discover_repo :: "git_env \<Rightarrow> path \<Rightarrow> path git_op" where
  "discover_repo g p =
     bnd (contextual (p @ '' is not inside a git repository'') (git g p [''rev-parse'', ''--show-toplevel''])) (\<lambda>out.
     ret (trim out))"

definition git_common_dir :: "git_env \<Rightarrow> path \<Rightarrow> path git_op" where
  "git_common_dir g repo =
     bnd (git g repo [''rev-parse'', ''--path-format=absolute'', ''--git-common-dir'']) (\<lambda>out. ret (trim out))"

definition main_repo_root :: "git_env \<Rightarrow> path \<Rightarrow> path git_op" where
  "main_repo_root g p =
     bnd (git_common_dir g p) (\<lambda>common.
     if components common \<noteq> [] \<and> last (components common) = Normal ''.git'' then
       ret (display_path (butlast (components common)))
     else discover_repo g p)"

definition rev_parse :: "git_env \<Rightarrow> path \<Rightarrow> string \<Rightarrow> string git_op" where
  "rev_parse g repo rv =
     (if starts_with rv ''-'' then bail (''invalid revision '' @ debug_str rv)
      else
        bnd (contextual (''unknown revision '' @ debug_str rv)
          (git g repo [''rev-parse'', ''--verify'', ''--quiet'', rv @ ''^{commit}''])) (\<lambda>out.
        ret (trim out)))"

definition current_branch :: "git_env \<Rightarrow> path \<Rightarrow> string option git_op" where
  "current_branch g repo =
     bnd (attempt (git g repo [''symbolic-ref'', ''--quiet'', ''--short'', ''HEAD''])) (\<lambda>out.
     ret (case out of Inr s \<Rightarrow> (if trim s = [] then None else Some (trim s)) | Inl _ \<Rightarrow> None))"

definition base_or_current :: "git_env \<Rightarrow> path \<Rightarrow> string option \<Rightarrow> string git_op" where
  "base_or_current g repo configured =
     (case configured of
        Some b \<Rightarrow> ret b
      | None \<Rightarrow> bnd (current_branch g repo) (\<lambda>b. ret (case b of Some s \<Rightarrow> s | None \<Rightarrow> ''HEAD'')))"

definition head_sha :: "git_env \<Rightarrow> path \<Rightarrow> string git_op" where
  "head_sha g p = bnd (git g p [''rev-parse'', ''HEAD'']) (\<lambda>s. ret (trim s))"

definition is_ancestor :: "git_env \<Rightarrow> path \<Rightarrow> string \<Rightarrow> string \<Rightarrow> bool git_op" where
  "is_ancestor g repo commit rv = succeeds (git g repo [''merge-base'', ''--is-ancestor'', commit, rv])"

definition remote_url :: "git_env \<Rightarrow> path \<Rightarrow> string \<Rightarrow> string option git_op" where
  "remote_url g repo remote =
     bnd (attempt (git g repo [''remote'', ''get-url'', remote])) (\<lambda>r.
     ret (case r of Inr s \<Rightarrow> Some (trim s) | Inl _ \<Rightarrow> None))"

definition log_oneline :: "git_env \<Rightarrow> path \<Rightarrow> string \<Rightarrow> nat \<Rightarrow> string list git_op" where
  "log_oneline g wt base most =
     bnd (git g wt [''log'', ''--oneline'', ''-n'' @ nat_str most, base @ ''..HEAD'']) (\<lambda>out. ret (lines out))"

definition git_version :: "git_env \<Rightarrow> string git_op" where
  "git_version g = bnd (run_tool g ''.'' [''git'', ''--version'']) (\<lambda>s. ret (trim s))"

definition file_at :: "git_env \<Rightarrow> path \<Rightarrow> string \<Rightarrow> path \<Rightarrow> string option git_op" where
  "file_at g repo rv p =
     (if starts_with rv ''-'' \<or> starts_with p ''-'' then ret None
      else
        bnd (attempt (git_output g repo [''cat-file'', ''blob'', rv @ '':'' @ p])) (\<lambda>r.
        ret (case r of Inr (ok, out, _) \<Rightarrow> (if ok then Some out else None) | Inl _ \<Rightarrow> None)))"

subsection \<open>Names\<close>

text \<open>One turn of the loop of \<open>slugify\<close>: what was pushed, and whether the last was a dash.\<close>

fun slug_loop :: "nat \<Rightarrow> string \<Rightarrow> string \<Rightarrow> bool \<Rightarrow> string" where
  "slug_loop most [] out dash = out"
| "slug_loop most (c # s) out dash =
     (let b = ascii_lower c in
      let (out', dash') = (if is_ascii_alphanumeric b then (out @ [b], False)
        else if \<not> dash \<and> out \<noteq> [] then (out @ ''-'', True)
        else (out, dash)) in
      if most \<le> length out' then out' else slug_loop most s out' dash')"

definition slugify :: "string \<Rightarrow> nat \<Rightarrow> string" where
  "slugify s most =
     (let out = trim_end_matches CHR ''-'' (slug_loop most s [] False) in
      if out = [] then ''task'' else out)"

definition branch_char :: "char \<Rightarrow> bool" where
  "branch_char c \<longleftrightarrow> is_ascii_alphanumeric c \<or> c \<in> set ''-_/.''"

definition validate_branch_prefix :: "string \<Rightarrow> string + unit" where
  "validate_branch_prefix p =
     (if p = [] then Inr ()
      else if starts_with p ''-'' \<or> starts_with p ''/'' \<or> str_contains p ''..'' \<or> str_contains p ''//'' then
        Inl (''invalid git.branch_prefix '' @ debug_str p)
      else if \<not> list_all branch_char p then
        Inl (''git.branch_prefix '' @ debug_str p @ '' may only contain ASCII letters, digits, '-', '_', '.', '/'' @ [CHR 0x27])
      else Inr ())"

definition bad_branch_name :: "string \<Rightarrow> bool" where
  "bad_branch_name n \<longleftrightarrow> n = [] \<or> starts_with n ''-'' \<or> str_contains n ''..'' \<or> ends_with n ''/''
     \<or> ends_with n ''.lock'' \<or> \<not> list_all branch_char n"

definition validate_branch_name :: "git_env \<Rightarrow> path \<Rightarrow> string \<Rightarrow> unit git_op" where
  "validate_branch_name g repo n =
     (if bad_branch_name n then bail (''invalid branch name '' @ debug_str n)
      else bnd (git g repo [''check-ref-format'', ''--branch'', n]) (\<lambda>_. ret ()))"

definition branch_exists :: "git_env \<Rightarrow> path \<Rightarrow> string \<Rightarrow> bool git_op" where
  "branch_exists g repo b = succeeds (git g repo [''show-ref'', ''--verify'', ''--quiet'', ''refs/heads/'' @ b])"

definition plan_names ::
  "path \<Rightarrow> path \<Rightarrow> string \<Rightarrow> string \<Rightarrow> string \<Rightarrow> char option \<Rightarrow> string + path \<times> string" where
  "plan_names repo worktree_root pre tid title variant =
     (let suffix = (case variant of Some c \<Rightarrow> ''-v'' @ [ascii_lower c] | None \<Rightarrow> []);
          leaf = tid @ ''-'' @ slugify title 40 @ suffix;
          base = (if starts_with worktree_root ''/'' then worktree_root else path_push repo worktree_root);
          p = path_push base leaf in
      if prefix (normalize_lexically (components base)) (normalize_lexically (components p))
      then Inr (p, pre @ leaf)
      else Inl ''worktree path escapes worktree root'')"

subsection \<open>Worktrees\<close>

record worktree_entry =
  wt_path :: path
  wt_head :: "string option"
  wt_branch :: "string option"

text \<open>\<open>trim_start_matches\<close> of a text: the prefix is removed as long as it is there.\<close>

function strip_all :: "string \<Rightarrow> string \<Rightarrow> string" where
  "strip_all p s = (if p \<noteq> [] \<and> starts_with s p then strip_all p (drop (length p) s) else s)"
  by pat_completeness auto
termination by (relation "measure (\<lambda>(p, s). length s)") (auto simp: starts_with_iff)

declare strip_all.simps [simp del]

definition listed_branch :: "string \<Rightarrow> string" where
  "listed_branch b = strip_all ''refs/heads/'' b"

definition entry_of :: "path \<Rightarrow> worktree_entry" where
  "entry_of p = \<lparr> wt_path = p, wt_head = None, wt_branch = None \<rparr>"

fun worktree_lines :: "string list \<Rightarrow> worktree_entry option \<Rightarrow> worktree_entry list" where
  "worktree_lines [] cur = (case cur of Some c \<Rightarrow> [c] | None \<Rightarrow> [])"
| "worktree_lines (l # ls) cur =
     (case strip_prefix l ''worktree '' of
        Some p \<Rightarrow> (case cur of Some c \<Rightarrow> [c] | None \<Rightarrow> []) @ worktree_lines ls (Some (entry_of p))
      | None \<Rightarrow>
          (case strip_prefix l ''HEAD '' of
             Some h \<Rightarrow> worktree_lines ls (map_option (\<lambda>c. c\<lparr> wt_head := Some h \<rparr>) cur)
           | None \<Rightarrow>
               (case strip_prefix l ''branch '' of
                  Some b \<Rightarrow> worktree_lines ls (map_option (\<lambda>c. c\<lparr> wt_branch := Some (listed_branch b) \<rparr>) cur)
                | None \<Rightarrow> worktree_lines ls cur)))"

definition worktree_list :: "git_env \<Rightarrow> path \<Rightarrow> worktree_entry list git_op" where
  "worktree_list g repo =
     bnd (git g repo [''worktree'', ''list'', ''--porcelain'']) (\<lambda>out. ret (worktree_lines (lines out) None))"

definition same_path :: "(path \<Rightarrow> path option) \<Rightarrow> path \<Rightarrow> path \<Rightarrow> bool" where
  "same_path canon a b \<longleftrightarrow>
     (case (canon a, canon b) of (Some x, Some y) \<Rightarrow> components x = components y | _ \<Rightarrow> components a = components b)"

datatype worktree_outcome = Created | Existing

definition debug_option :: "string option \<Rightarrow> string" where
  "debug_option x = (case x of Some s \<Rightarrow> ''Some('' @ debug_str s @ '')'' | None \<Rightarrow> ''None'')"

text \<open>What the listed worktrees say about a new one: it is there already, something stands in its way, or nothing.\<close>

fun find_worktree :: "(path \<Rightarrow> path option) \<Rightarrow> path \<Rightarrow> string \<Rightarrow> worktree_entry list \<Rightarrow> string + worktree_outcome" where
  "find_worktree canon p b [] = Inr Created"
| "find_worktree canon p b (w # ws) =
     (if same_path canon (wt_path w) p then
        (if wt_branch w = Some b then Inr Existing
         else Inl (''a worktree already exists at '' @ p @ '' on branch '' @ debug_option (wt_branch w)))
      else if wt_branch w = Some b then Inl (''branch '' @ b @ '' is already checked out at '' @ wt_path w)
      else find_worktree canon p b ws)"

fun find_attached :: "(path \<Rightarrow> path option) \<Rightarrow> path \<Rightarrow> string \<Rightarrow> worktree_entry list \<Rightarrow> string + worktree_outcome" where
  "find_attached canon p b [] = Inr Created"
| "find_attached canon p b (w # ws) =
     (if same_path canon (wt_path w) p \<and> wt_branch w = Some b then Inr Existing
      else if wt_branch w = Some b then Inl (''branch '' @ b @ '' is already checked out at '' @ wt_path w)
      else find_attached canon p b ws)"

definition occupied :: "git_env \<Rightarrow> path \<Rightarrow> unit git_op" where
  "occupied g p =
     bnd (gets (\<lambda>l. gi_exists g l p \<and> (case gi_has_entries g l p of Some b \<Rightarrow> b | None \<Rightarrow> True))) (\<lambda>used.
     if used then bail (p @ '' already exists and is not an empty directory'') else ret ())"

definition make_parent :: "git_env \<Rightarrow> path \<Rightarrow> unit git_op" where
  "make_parent g p = (case path_parent p of Some d \<Rightarrow> make_dirs g d | None \<Rightarrow> ret ())"

definition add_worktree :: "git_env \<Rightarrow> path \<Rightarrow> path \<Rightarrow> string \<Rightarrow> string \<Rightarrow> worktree_outcome git_op" where
  "add_worktree g repo p b base_sha =
     andthen (validate_branch_name g repo b)
    (bnd (worktree_list g repo) (\<lambda>ws.
     bnd (gets (\<lambda>l. find_worktree (gi_canonical g l) p b ws)) (\<lambda>found.
     bnd (lift_result found) (\<lambda>out.
     if out = Existing then ret Existing
     else
       andthen (occupied g p)
      (bnd (branch_exists g repo b) (\<lambda>there.
       if there then bail (''branch '' @ b @ '' already exists; refusing to reuse or reset it'')
       else
         andthen (make_parent g p)
        (bnd (git g repo [''worktree'', ''add'', ''-b'', b, p, base_sha]) (\<lambda>_. ret Created))))))))"

definition attach_worktree :: "git_env \<Rightarrow> path \<Rightarrow> path \<Rightarrow> string \<Rightarrow> worktree_outcome git_op" where
  "attach_worktree g repo p b =
     andthen (validate_branch_name g repo b)
    (bnd (worktree_list g repo) (\<lambda>ws.
     bnd (gets (\<lambda>l. find_attached (gi_canonical g l) p b ws)) (\<lambda>found.
     bnd (lift_result found) (\<lambda>out.
     if out = Existing then ret Existing
     else
       bnd (branch_exists g repo b) (\<lambda>there.
       if \<not> there then bail (''branch '' @ b @ '' does not exist'')
       else
         andthen (occupied g p)
        (andthen (make_parent g p)
        (bnd (git g repo [''worktree'', ''add'', p, b]) (\<lambda>_. ret Created))))))))"

definition exclude_arg :: string where
  "exclude_arg = '':(exclude)'' @ ORCH_DIR"

definition is_dirty :: "git_env \<Rightarrow> path \<Rightarrow> bool git_op" where
  "is_dirty g p =
     bnd (git g p [''status'', ''--porcelain'', ''--untracked-files=all'', ''--'', ''.'', exclude_arg]) (\<lambda>out.
     ret (trim out \<noteq> []))"

definition remove_worktree_if_clean :: "git_env \<Rightarrow> path \<Rightarrow> path \<Rightarrow> unit git_op" where
  "remove_worktree_if_clean g repo p =
     bnd (is_dirty g p) (\<lambda>dirty.
     if dirty then bail (''worktree '' @ p @ '' has uncommitted changes; not removing'')
     else bnd (git g repo [''worktree'', ''remove'', p]) (\<lambda>_. ret ()))"

definition ensure_excluded :: "git_env \<Rightarrow> path \<Rightarrow> bool git_op" where
  "ensure_excluded g repo =
     bnd (git_common_dir g repo) (\<lambda>common.
     let info = path_push common ''info''; f = path_push info ''exclude''; line = ''/'' @ ORCH_DIR @ ''/'' in
     andthen (make_dirs g info)
    (bnd (gets (\<lambda>l. case gi_read g l f of Some s \<Rightarrow> s | None \<Rightarrow> [])) (\<lambda>cur.
     if list_ex (\<lambda>l. trim l = line \<or> trim l = ORCH_DIR @ ''/'') (lines cur) then ret False
     else
       andthen (write_atomic g f (cur @ (if cur \<noteq> [] \<and> \<not> ends_with cur nl then nl else [])
           @ ''# added by herdr-orchestrator (worktrees and agent handoff files)'' @ nl @ line @ nl))
         (ret True))))"

subsection \<open>Changes\<close>

definition nul :: char where "nul = CHR 0x00"

definition tab :: char where "tab = CHR 0x09"

text \<open>\<open>splitn(3)\<close> at tabs, with the defaults for what is missing.\<close>

definition numstat_fields :: "string \<Rightarrow> string \<times> string \<times> string" where
  "numstat_fields p =
     (case split_once tab p of
        None \<Rightarrow> (p, ''0'', [])
      | Some (a, r) \<Rightarrow> (case split_once tab r of None \<Rightarrow> (a, r, []) | Some (b, c) \<Rightarrow> (a, b, c)))"

definition numstat_number :: "string \<Rightarrow> nat" where
  "numstat_number s = (case parse_u64 s of Some n \<Rightarrow> n | None \<Rightarrow> 0)"

fun numstat_parts :: "string list \<Rightarrow> (nat \<times> nat \<times> string) list" where
  "numstat_parts [] = []"
| "numstat_parts (p # ps) =
     (if p = [] then numstat_parts ps
      else case numstat_fields p of (a, b, f) \<Rightarrow>
        if f \<noteq> [] then (numstat_number a, numstat_number b, f) # numstat_parts ps
        else case ps of
          [] \<Rightarrow> [(numstat_number a, numstat_number b, [])]
        | [old] \<Rightarrow> [(numstat_number a, numstat_number b, [])]
        | old # new # rest \<Rightarrow> (numstat_number a, numstat_number b, new) # numstat_parts rest)"

definition parse_numstat_z :: "string \<Rightarrow> (nat \<times> nat \<times> string) list" where
  "parse_numstat_z s = numstat_parts (split_on (\<lambda>c. c = nul) s)"

text \<open>The entries of \<open>--name-status -z\<close>: the code, the old path of a rename or copy, and the path.\<close>

fun status_parts :: "string list \<Rightarrow> (char \<times> string option \<times> string) list" where
  "status_parts [] = []"
| "status_parts [st] = [(if hd st \<in> {CHR ''R'', CHR ''C''} then (hd st, Some [], []) else (hd st, None, []))]"
| "status_parts (st # p # rest) =
     (if hd st \<in> {CHR ''R'', CHR ''C''} then
        (case rest of [] \<Rightarrow> [(hd st, Some p, [])] | q # rest' \<Rightarrow> (hd st, Some p, q) # status_parts rest')
      else (hd st, None, p) # status_parts rest)"

definition nonempty_parts :: "string \<Rightarrow> string list" where
  "nonempty_parts s = filter (\<lambda>p. p \<noteq> []) (split_on (\<lambda>c. c = nul) s)"

definition change_word :: "char \<Rightarrow> string" where
  "change_word c =
     (if c = CHR ''A'' then ''added'' else if c = CHR ''D'' then ''deleted'' else if c = CHR ''R'' then ''renamed''
      else if c = CHR ''C'' then ''copied'' else if c = CHR ''T'' then ''typechange'' else ''modified'')"

definition tracked_change :: "(nat \<times> nat \<times> string) list \<Rightarrow> char \<times> string option \<times> string \<Rightarrow> changed_file" where
  "tracked_change nums e =
     (case e of (code, old, p) \<Rightarrow>
        let (ins, del) = (case find (\<lambda>(_, _, q). q = p) nums of Some (i, d, _) \<Rightarrow> (i, d) | None \<Rightarrow> (0, 0)) in
        \<lparr> cf_path = p, cf_change = change_word code, cf_insertions = ins, cf_deletions = del, cf_old_path = old \<rparr>)"

definition bytecount_lines :: "string \<Rightarrow> nat" where
  "bytecount_lines b = length (filter (\<lambda>c. c = CHR 0x0A) b) + (if b \<noteq> [] \<and> last b \<noteq> CHR 0x0A then 1 else 0)"

definition untracked_change :: "git_env \<Rightarrow> git_event list \<Rightarrow> path \<Rightarrow> string \<Rightarrow> changed_file" where
  "untracked_change g l wt p =
     (let full = path_push wt p;
          n = (case gi_plain_file g l full of
                 Some len \<Rightarrow> if len < 8 * 1024 * 1024
                   then (case gi_bytes g l full of Some b \<Rightarrow> bytecount_lines b | None \<Rightarrow> 0) else 0
               | None \<Rightarrow> 0)
      in \<lparr> cf_path = p, cf_change = ''untracked'', cf_insertions = n, cf_deletions = 0, cf_old_path = None \<rparr>)"

definition diff_stat_of :: "changed_file list \<Rightarrow> diff_stat" where
  "diff_stat_of fs = (let sorted_files = sort_key cf_path fs in
     \<lparr> ds_files_changed = length sorted_files, ds_insertions = foldl u64_add 0 (map cf_insertions sorted_files),
       ds_deletions = foldl u64_add 0 (map cf_deletions sorted_files), ds_files = sorted_files \<rparr>)"

definition list_untracked :: "git_env \<Rightarrow> path \<Rightarrow> string git_op" where
  "list_untracked g wt = git g wt [''ls-files'', ''--others'', ''--exclude-standard'', ''-z'', ''--'', ''.'', exclude_arg]"

definition changed_files :: "git_env \<Rightarrow> path \<Rightarrow> string \<Rightarrow> diff_stat git_op" where
  "changed_files g wt base =
     bnd (git g wt [''diff'', ''--name-status'', ''-z'', ''-M'', base, ''--'', ''.'', exclude_arg]) (\<lambda>names.
     bnd (git g wt [''diff'', ''--numstat'', ''-z'', ''-M'', base, ''--'', ''.'', exclude_arg]) (\<lambda>nums.
     bnd (list_untracked g wt) (\<lambda>others.
     bnd (gets (\<lambda>l. map (untracked_change g l wt) (nonempty_parts others))) (\<lambda>untracked.
     ret (diff_stat_of (map (tracked_change (parse_numstat_z nums)) (status_parts (nonempty_parts names)) @ untracked))))))"

definition added_lines :: "git_env \<Rightarrow> path \<Rightarrow> string \<Rightarrow> changed_file \<Rightarrow> nat \<Rightarrow> string list git_op" where
  "added_lines g wt base f most =
     (if cf_change f = ''deleted'' then ret []
      else if cf_change f = ''untracked'' then
        gets (\<lambda>l. let full = path_push wt (cf_path f) in
          case gi_plain_file g l full of
            Some len \<Rightarrow> if len \<le> 1024 * 1024
              then (case gi_read g l full of Some t \<Rightarrow> map (first_chars 1024) (take most (lines t)) | None \<Rightarrow> []) else []
          | None \<Rightarrow> [])
      else
        bnd (attempt (git g wt [''diff'', ''--no-color'', ''--no-ext-diff'', ''-U0'', base, ''--'', cf_path f])) (\<lambda>r.
        ret (case r of
               Inl _ \<Rightarrow> []
             | Inr out \<Rightarrow> map (\<lambda>x. first_chars 1024 (drop 1 x))
                 (take most (filter (\<lambda>x. starts_with x ''+'' \<and> \<not> starts_with x ''+++'') (lines out))))))"

definition worktree_fingerprint :: "git_env \<Rightarrow> path \<Rightarrow> string git_op" where
  "worktree_fingerprint g wt =
     bnd (or_empty (git g wt [''rev-parse'', ''HEAD''])) (\<lambda>h.
     bnd (or_empty (git g wt [''diff'', ''HEAD'', ''--numstat'', ''--'', ''.'', exclude_arg])) (\<lambda>num.
     bnd (or_empty (list_untracked g wt)) (\<lambda>others.
     gets (\<lambda>l. gi_sha g (h @ nl @ num @ nl @ concat (map (\<lambda>p. p @ '':''
       @ nat_str (case gi_length g l (path_push wt p) of Some n \<Rightarrow> n | None \<Rightarrow> 0) @ nl) (nonempty_parts others)))))))"

definition diff_text :: "git_env \<Rightarrow> path \<Rightarrow> string \<Rightarrow> nat \<Rightarrow> string git_op" where
  "diff_text g wt base most =
     bnd (git g wt [''diff'', ''--stat'', ''--patch'', ''-M'', base, ''--'', ''.'', exclude_arg]) (\<lambda>s.
     bnd (git g wt [''ls-files'', ''--others'', ''--exclude-standard'', ''--'', ''.'', exclude_arg]) (\<lambda>others.
     let t = s @ (if trim others = [] then []
       else nl @ ''Untracked files:'' @ nl @ concat (map (\<lambda>x. ''  + '' @ x @ nl) (lines others))) in
     ret (if most < length t
          then take (floor_boundary t most) t @ nl @ ellipsis @ '' diff truncated '' @ ellipsis @ nl else t)))"

subsection \<open>Writing commands\<close>

definition merge_no_ff :: "git_env \<Rightarrow> path \<Rightarrow> string \<Rightarrow> string \<Rightarrow> string list git_op" where
  "merge_no_ff g wt rv message =
     (if starts_with rv ''-'' then bail (''refusing suspicious revision '' @ debug_str rv)
      else
        bnd (git_output g wt [''-c'', ''core.hooksPath=/dev/null'', ''-c'', ''user.name=herdr-orchestrator'', ''-c'',
          ''user.email=herdr-orchestrator@localhost'', ''merge'', ''--no-ff'', ''--no-edit'', ''-m'', message, rv]) (\<lambda>(ok, _, err).
        if ok then ret []
        else
          bnd (git g wt [''diff'', ''--name-only'', ''--diff-filter=U'']) (\<lambda>conflicted.
          let files = filter (\<lambda>l. l \<noteq> []) (lines conflicted) in
          if files = [] then
            bnd (attempt (git g wt [''merge'', ''--abort''])) (\<lambda>_. bail (''git merge failed: '' @ trim err))
          else ret files)))"

definition has_identity :: "git_env \<Rightarrow> path \<Rightarrow> bool git_op" where
  "has_identity g wt =
     bnd (attempt (git g wt [''config'', ''user.email''])) (\<lambda>r.
     ret (case r of Inr s \<Rightarrow> trim s \<noteq> [] | Inl _ \<Rightarrow> False))"

definition commit_args :: "bool \<Rightarrow> string \<Rightarrow> string list" where
  "commit_args identity message =
     [''git'', ''-c'', ''core.hooksPath=/dev/null'', ''-c'', ''commit.gpgsign=false'']
     @ (if identity then [] else [''-c'', ''user.name=herdr-orchestrator'', ''-c'', ''user.email=herdr-orchestrator@localhost''])
     @ [''commit'', ''--no-verify'', ''-m'', message]"

definition commit_all :: "git_env \<Rightarrow> path \<Rightarrow> string \<Rightarrow> string option git_op" where
  "commit_all g wt message =
     bnd (git g wt [''add'', ''-A'', ''--'', ''.'']) (\<lambda>_.
     bnd (gets (\<lambda>l. gi_exists g l (path_push wt ORCH_DIR))) (\<lambda>own.
     bnd (if own then attempt (git g wt [''reset'', ''-q'', ''--'', ORCH_DIR]) else ret (Inr [])) (\<lambda>_.
     bnd (git g wt [''diff'', ''--cached'', ''--name-only'']) (\<lambda>staged.
     if trim staged = [] then ret None
     else
       bnd (has_identity g wt) (\<lambda>identity.
       bnd (run_tool g wt (commit_args identity message)) (\<lambda>_.
       bnd (head_sha g wt) (\<lambda>s. ret (Some s))))))))"

definition push_refused :: "string \<Rightarrow> string \<Rightarrow> bool" where
  "push_refused remote b \<longleftrightarrow> starts_with remote ''-'' \<or> starts_with b ''-'' \<or> starts_with b ''+'' \<or> str_contains b '':''"

definition push_branch :: "git_env \<Rightarrow> path \<Rightarrow> string \<Rightarrow> string \<Rightarrow> unit git_op" where
  "push_branch g wt remote b =
     (if push_refused remote b then bail ''refusing suspicious push arguments''
      else
        bnd (run_tool g wt [''git'', ''-c'', ''core.hooksPath=/dev/null'', ''push'', ''--no-verify'', ''--set-upstream'',
          remote, ''refs/heads/'' @ b @ '':refs/heads/'' @ b]) (\<lambda>_. ret ()))"

end
