(* ===== verification/Git_Facts.thy ===== *)
theory Git_Facts
  imports Git
begin

text \<open>
  What the git adapter guarantees: the names it plans are accepted and stay inside the worktree root, the
  changes it reads are those git printed, and no command it gives forces, rewrites or runs hooks.
\<close>

subsection \<open>Texts\<close>

lemma str_contains_iff: "str_contains s p \<longleftrightarrow> (\<exists>a b. s = a @ p @ b)"
proof (induction s)
  case Nil
  then show ?case by (auto simp: str_contains_def)
next
  case (Cons c s)
  have "str_contains (c # s) p \<longleftrightarrow> starts_with (c # s) p \<or> str_contains s p"
    by (auto simp: str_contains_def)
  also have "\<dots> \<longleftrightarrow> (\<exists>b. c # s = p @ b) \<or> (\<exists>a b. s = a @ p @ b)"
    using Cons by (simp add: starts_with_iff)
  also have "\<dots> \<longleftrightarrow> (\<exists>a b. c # s = a @ p @ b)"
    by (metis append_Cons append_Nil neq_Nil_conv list.inject)
  finally show ?case .
qed

lemma ends_with_iff: "ends_with s p \<longleftrightarrow> (\<exists>r. s = r @ p)"
  by (auto simp: ends_with_def) (metis append_take_drop_id)

lemma str_contains_append:
  assumes "str_contains (a @ b) p" and "p \<noteq> []" and "set p \<inter> set b = {}"
  shows "str_contains a p"
proof -
  obtain x y where "a @ b = x @ (p @ y)" using assms(1) unfolding str_contains_iff by blast
  then obtain us where "(a = x @ us \<and> us @ b = p @ y) \<or> (a @ us = x \<and> b = us @ p @ y)"
    by (auto simp: append_eq_append_conv2)
  moreover have "\<not> (b = us @ p @ y)" using assms(2,3) by (cases p) auto
  ultimately have a: "a = x @ us" and "us @ b = p @ y" by auto
  then obtain vs where v: "(us = p @ vs) \<or> (us @ vs = p \<and> b = vs @ y)"
    by (auto simp: append_eq_append_conv2)
  have "vs = []" if "us @ vs = p" "b = vs @ y"
    using assms(3) that by (cases vs) auto
  then have "\<exists>ws. us = p @ ws" using v by auto
  then show ?thesis using a unfolding str_contains_iff by blast
qed

lemma suffix_elsewhere:
  assumes "ends_with (a @ b) p" and "b \<noteq> []" and "set p \<inter> set b = {}"
  shows "p = []"
proof -
  obtain r where "a @ b = r @ p" using assms(1) unfolding ends_with_iff by blast
  then have "p \<noteq> [] \<Longrightarrow> last p = last b" using assms(2) by (metis last_appendR)
  then show ?thesis using assms(2,3) by (metis disjoint_iff last_in_set)
qed

subsection \<open>Names\<close>

definition slug_char :: "char \<Rightarrow> bool" where
  "slug_char c \<longleftrightarrow> is_ascii_alphanumeric c \<or> c = CHR ''-''"

lemma slug_loop_chars: "list_all slug_char out \<Longrightarrow> list_all slug_char (slug_loop most s out dash)"
proof (induction s arbitrary: out dash)
  case (Cons c s)
  then show ?case by (auto simp: Let_def slug_char_def)
qed simp

lemma slugify_chars: "list_all slug_char (slugify s most)" and slugify_nonempty: "slugify s most \<noteq> []"
proof -
  have "set (trim_end_matches c l) \<subseteq> set l" for c l
    unfolding trim_end_matches_def by (metis set_dropWhileD set_rev subsetI)
  then have "list_all slug_char (trim_end_matches CHR ''-'' (slug_loop most s [] False))"
    using slug_loop_chars [of "[]" most s False] by (auto simp: list_all_iff)
  moreover have "list_all slug_char ''task''" by code_simp
  ultimately show "list_all slug_char (slugify s most)" "slugify s most \<noteq> []"
    by (auto simp: slugify_def Let_def)
qed

lemma slug_char_plain: "slug_char c \<Longrightarrow> c \<noteq> CHR ''.'' \<and> c \<noteq> CHR ''/'' \<and> branch_char c"
  by (auto simp: slug_char_def branch_char_def str_defs byte_def)

definition leaf_of :: "string \<Rightarrow> string \<Rightarrow> char option \<Rightarrow> string" where
  "leaf_of tid title variant = tid @ ''-'' @ slugify title 40
     @ (case variant of Some c \<Rightarrow> ''-v'' @ [ascii_lower c] | None \<Rightarrow> [])"

definition plain_id :: "string \<Rightarrow> bool" where
  "plain_id tid \<longleftrightarrow> tid \<noteq> [] \<and> list_all is_ascii_alphanumeric tid"

lemma ascii_lower_alnum: "is_ascii_alphanumeric c \<Longrightarrow> is_ascii_alphanumeric (ascii_lower c)"
  by (auto simp: str_defs byte_def)

lemma leaf_chars:
  assumes "plain_id tid" and "\<forall>c. variant = Some c \<longrightarrow> is_ascii_alphanumeric c"
  shows "list_all slug_char (leaf_of tid title variant)"
  using assms slugify_chars [of title 40] ascii_lower_alnum
  by (auto simp: leaf_of_def plain_id_def slug_char_def list_all_iff split: option.split)
   (auto simp: str_defs byte_def)

lemma leaf_dash: "plain_id tid \<Longrightarrow> \<exists>a b. leaf_of tid title variant = a # b \<and> a \<noteq> CHR ''-'' \<and> CHR ''-'' \<in> set b"
  by (cases tid) (auto simp: leaf_of_def plain_id_def str_defs byte_def)

lemma split_on_plain: "list_all (\<lambda>c. \<not> f c) s \<Longrightarrow> split_on f s = [s]"
  by (induction s) auto

lemma split_on_not_empty: "split_on f s \<noteq> []"
  by (induction s) (auto split: list.splits)

lemma split_on_sep: "f c \<Longrightarrow> split_on f (a @ c # s) = split_on f a @ split_on f s"
proof (induction a)
  case (Cons x a)
  then show ?case using split_on_not_empty [of f a] by (cases "split_on f a") auto
qed simp

lemma components_parts:
  "components p = (if starts_with p ''/'' then [RootDir] else if hd (split_on (\<lambda>c. c = CHR ''/'') p) = ''.'' then [CurDir] else [])
     @ map piece_component (filter (\<lambda>q. q \<noteq> [] \<and> q \<noteq> ''.'') (split_on (\<lambda>c. c = CHR ''/'') p))"
  by (simp add: components_def Let_def)

lemma components_push:
  assumes "list_all slug_char leaf" and "leaf \<noteq> []"
  shows "components (path_push base leaf) = components base @ [Normal leaf]"
proof -
  let ?f = "\<lambda>c. c = CHR ''/''"
  have plain: "CHR ''.'' \<notin> set leaf" "CHR ''/'' \<notin> set leaf" using assms(1) slug_char_plain by (auto simp: list_all_iff)
  then have s: "split_on ?f leaf = [leaf]" by (intro split_on_plain) (auto simp: list_all_iff)
  have r: "\<not> starts_with leaf ''/''" "leaf \<noteq> ''.''" "leaf \<noteq> ''..''" using plain assms(2) by (auto simp: starts_with_iff)
  have two: "components (a @ ''/'' @ leaf) = components a @ [Normal leaf]" if "a \<noteq> []" for a
  proof -
    have "split_on ?f (a @ CHR ''/'' # leaf) = split_on ?f a @ [leaf]" by (simp add: split_on_sep s)
    moreover have "starts_with (a @ CHR ''/'' # leaf) ''/'' = starts_with a ''/''"
      using that by (cases a) (simp_all add: starts_with_def)
    ultimately show ?thesis using r assms(2)
      unfolding components_parts by (simp add: hd_append2 [OF split_on_not_empty] piece_component_def)
  qed
  have "components base @ [Normal leaf] = components (base @ leaf)" if "base = [] \<or> last base = CHR ''/''"
  proof (cases "base = []")
    case True
    then show ?thesis using s r assms(2) by (simp add: components_def piece_component_def starts_with_def)
  next
    case False
    then have "base = butlast base @ ''/''" using that append_butlast_last_id [of base] by simp
    then obtain a where a: "base = a @ ''/''" by blast
    have "split_on ?f (a @ ''/'') = split_on ?f a @ [[]]" "split_on ?f (a @ CHR ''/'' # leaf) = split_on ?f a @ [leaf]"
      by (simp_all add: split_on_sep s)
    moreover have "starts_with (a @ CHR ''/'' # leaf) ''/'' = starts_with (a @ ''/'') ''/''"
      by (cases a) (simp_all add: starts_with_def)
    ultimately show ?thesis using r assms(2)
      unfolding components_parts a by (simp add: hd_append2 [OF split_on_not_empty] piece_component_def)
  qed
  then show ?thesis using two [of base] r(1) by (auto simp: path_push_def)
qed

lemma leaf_accepted:
  assumes "list_all slug_char leaf" and "leaf = a # b" and "a \<noteq> CHR ''-''" and "CHR ''-'' \<in> set b"
    and "validate_branch_prefix pre = Inr ()"
  shows "\<not> bad_branch_name (pre @ leaf)"
proof -
  have plain: "CHR ''.'' \<notin> set leaf" "CHR ''/'' \<notin> set leaf" "list_all branch_char leaf"
    using assms(1) slug_char_plain by (auto simp: list_all_iff)
  have pre: "\<not> starts_with pre ''-''" "\<not> str_contains pre ''..''" "list_all branch_char pre"
    using assms(5) by (auto simp: validate_branch_prefix_def starts_with_def str_contains_def split: if_splits)
  have 1: "\<not> starts_with (pre @ leaf) ''-''"
    using pre(1) assms(2,3) by (cases pre) (auto simp: starts_with_def)
  have 2: "\<not> str_contains (pre @ leaf) ''..''"
    using str_contains_append [of pre leaf "''..''"] pre(2) plain(1) by auto
  have 3: "\<not> ends_with (pre @ leaf) ''/''"
    using suffix_elsewhere [of pre leaf "''/''"] assms(2) plain(2) by auto
  have 4: "\<not> ends_with (pre @ leaf) ''.lock''"
  proof
    assume "ends_with (pre @ leaf) ''.lock''"
    then obtain r where "pre @ leaf = r @ ''.lock''" unfolding ends_with_iff by blast
    then obtain us where "(pre = r @ us \<and> us @ leaf = ''.lock'') \<or> (pre @ us = r \<and> leaf = us @ ''.lock'')"
      by (auto simp: append_eq_append_conv2)
    moreover have "leaf \<noteq> us @ ''.lock''" using plain(1) by auto
    moreover have "us @ leaf \<noteq> ''.lock''"
    proof
      assume "us @ leaf = ''.lock''"
      moreover have "CHR ''-'' \<in> set (us @ leaf)" using assms(2,4) by auto
      ultimately have "CHR ''-'' \<in> set ''.lock''" by metis
      then show False by simp
    qed
    ultimately show False by blast
  qed
  show ?thesis using 1 2 3 4 pre(3) plain(3) assms(2) by (auto simp: bad_branch_name_def)
qed



subsection \<open>Changes\<close>

text \<open>A tracked change as git prints it with \<open>-z\<close>: code and score, the old path of a rename or copy, the path, and
  the counts of lines (none for a binary file).\<close>

record printed_change =
  pc_code :: char
  pc_score :: string
  pc_old :: "string option"
  pc_path :: string
  pc_counts :: "(nat \<times> nat) option"

definition token :: "string \<Rightarrow> bool" where
  "token s \<longleftrightarrow> s \<noteq> [] \<and> nul \<notin> set s"

definition printable :: "printed_change \<Rightarrow> bool" where
  "printable e \<longleftrightarrow> token (pc_path e) \<and> pc_code e \<noteq> nul \<and> nul \<notin> set (pc_score e)
     \<and> (pc_old e \<noteq> None \<longleftrightarrow> pc_code e \<in> {CHR ''R'', CHR ''C''}) \<and> (\<forall>p. pc_old e = Some p \<longrightarrow> token p)
     \<and> (\<forall>i d. pc_counts e = Some (i, d) \<longrightarrow> i < 2 ^ 64 \<and> d < 2 ^ 64)"

definition closed_tokens :: "string list \<Rightarrow> string" where
  "closed_tokens ts = concat (map (\<lambda>t. t @ [nul]) ts)"

definition status_tokens :: "printed_change \<Rightarrow> string list" where
  "status_tokens e = (pc_code e # pc_score e) # (case pc_old e of Some p \<Rightarrow> [p] | None \<Rightarrow> []) @ [pc_path e]"

definition counts_text :: "(nat \<times> nat) option \<Rightarrow> string" where
  "counts_text c = (case c of Some (i, d) \<Rightarrow> nat_str i @ [tab] @ nat_str d @ [tab] | None \<Rightarrow> ''-'' @ [tab] @ ''-'' @ [tab])"

definition numstat_tokens :: "printed_change \<Rightarrow> string list" where
  "numstat_tokens e = (case pc_old e of
       None \<Rightarrow> [counts_text (pc_counts e) @ pc_path e]
     | Some p \<Rightarrow> [counts_text (pc_counts e), p, pc_path e])"

lemma split_tokens: "\<forall>t \<in> set ts. nul \<notin> set t \<Longrightarrow> split_on (\<lambda>c. c = nul) (closed_tokens ts) = ts @ [[]]"
proof (induction ts)
  case (Cons t ts)
  have "split_on (\<lambda>c. c = nul) t = [t]" using Cons.prems by (intro split_on_plain) (auto simp: list_all_iff)
  then show ?case using Cons by (simp add: closed_tokens_def split_on_sep)
qed (simp add: closed_tokens_def)

lemma nonempty_tokens: "\<forall>t \<in> set ts. token t \<Longrightarrow> nonempty_parts (closed_tokens ts) = ts"
  by (simp add: nonempty_parts_def split_tokens token_def)

lemma status_parts_tokens:
  "\<forall>e \<in> set es. printable e \<Longrightarrow>
    status_parts (concat (map status_tokens es)) = map (\<lambda>e. (pc_code e, pc_old e, pc_path e)) es"
proof (induction es)
  case (Cons e es)
  then have e: "printable e" by simp
  show ?case
  proof (cases "pc_old e")
    case None
    then show ?thesis using Cons e by (simp add: status_tokens_def printable_def)
  next
    case (Some p)
    then show ?thesis using Cons e by (simp add: status_tokens_def printable_def)
  qed
qed simp

lemma split_once_first: "d \<notin> set a \<Longrightarrow> split_once d (a @ d # s) = Some (a, s)"
  by (induction a) auto

lemma digits_no_tab: "tab \<notin> set (nat_str n)"
proof
  assume "tab \<in> set (nat_str n)"
  then have "is_ascii_digit tab" using digits_nat_str [of n] by (auto simp: list_all_iff)
  then show False by (simp add: is_ascii_digit_def tab_def byte_def)
qed

lemma numstat_fields_text:
  "numstat_fields (counts_text (Some (i, d)) @ f) = (nat_str i, nat_str d, f)"
  "numstat_fields (counts_text None @ f) = (''-'', ''-'', f)"
proof -
  show "numstat_fields (counts_text (Some (i, d)) @ f) = (nat_str i, nat_str d, f)"
    using split_once_first [OF digits_no_tab [of i], of "nat_str d @ tab # f"] split_once_first [OF digits_no_tab [of d], of f]
    by (simp add: numstat_fields_def counts_text_def)
  show "numstat_fields (counts_text None @ f) = (''-'', ''-'', f)"
    by (simp add: numstat_fields_def counts_text_def tab_def)
qed

definition counts_of :: "(nat \<times> nat) option \<Rightarrow> nat \<times> nat" where
  "counts_of c = (case c of Some n \<Rightarrow> n | None \<Rightarrow> (0, 0))"

lemma numstat_counts:
  assumes "\<forall>i d. c = Some (i, d) \<longrightarrow> i < 2 ^ 64 \<and> d < 2 ^ 64"
  shows "case numstat_fields (counts_text c @ f) of (a, b, r) \<Rightarrow> (numstat_number a, numstat_number b) = counts_of c \<and> r = f"
proof (cases c)
  case None
  moreover have "numstat_number ''-'' = 0" by code_simp
  ultimately show ?thesis by (simp add: numstat_fields_text counts_of_def)
next
  case (Some n)
  then obtain i d where "c = Some (i, d)" by (cases n) auto
  then show ?thesis using assms by (simp add: numstat_fields_text counts_of_def numstat_number_def parse_nat_str)
qed

lemma counts_text_token: "counts_text c \<noteq> []" "nul \<notin> set (counts_text c)"
proof -
  have "nul \<notin> set (nat_str n)" for n
  proof
    assume "nul \<in> set (nat_str n)"
    then have "is_ascii_digit nul" using digits_nat_str [of n] by (auto simp: list_all_iff)
    then show False by (simp add: is_ascii_digit_def nul_def byte_def)
  qed
  then show "counts_text c \<noteq> []" "nul \<notin> set (counts_text c)"
    by (auto simp: counts_text_def tab_def nul_def split: option.split)
qed

definition counts_entry :: "printed_change \<Rightarrow> nat \<times> nat \<times> string" where
  "counts_entry e = (fst (counts_of (pc_counts e)), snd (counts_of (pc_counts e)), pc_path e)"

lemma numstat_parts_step:
  assumes "printable e"
  shows "numstat_parts (numstat_tokens e @ rest) = counts_entry e # numstat_parts rest"
proof -
  have n: "\<exists>a b. numstat_fields (counts_text (pc_counts e) @ f) = (a, b, f)
      \<and> counts_of (pc_counts e) = (numstat_number a, numstat_number b)" for f
  proof -
    have "\<forall>i d. pc_counts e = Some (i, d) \<longrightarrow> i < 2 ^ 64 \<and> d < 2 ^ 64" using assms unfolding printable_def by blast
    then show ?thesis using numstat_counts [of "pc_counts e" f]
      by (cases "numstat_fields (counts_text (pc_counts e) @ f)") simp
  qed
  have p: "pc_path e \<noteq> []" using assms by (simp add: printable_def token_def)
  show ?thesis
  proof (cases "pc_old e")
    case None
    obtain a b where ab: "numstat_fields (counts_text (pc_counts e) @ pc_path e) = (a, b, pc_path e)"
      "counts_of (pc_counts e) = (numstat_number a, numstat_number b)" using n by blast
    show ?thesis using None p by (simp add: numstat_tokens_def ab counts_entry_def)
  next
    case (Some q)
    obtain a b where ab: "numstat_fields (counts_text (pc_counts e)) = (a, b, [])"
      "counts_of (pc_counts e) = (numstat_number a, numstat_number b)" using n [of "[]"] by auto
    show ?thesis using Some counts_text_token(1) by (simp add: numstat_tokens_def ab counts_entry_def)
  qed
qed

lemma numstat_parts_tokens:
  "\<forall>e \<in> set es. printable e \<Longrightarrow> numstat_parts (concat (map numstat_tokens es) @ [[]]) = map counts_entry es"
  by (induction es) (simp_all add: numstat_parts_step)

lemma printed_tokens:
  assumes "printable e"
  shows "\<forall>t \<in> set (status_tokens e). token t" "\<forall>t \<in> set (numstat_tokens e). nul \<notin> set t"
  using assms counts_text_token by (auto simp: printable_def status_tokens_def numstat_tokens_def token_def split: option.splits)

lemma parse_printed:
  assumes "\<forall>e \<in> set es. printable e"
  shows "status_parts (nonempty_parts (closed_tokens (concat (map status_tokens es))))
      = map (\<lambda>e. (pc_code e, pc_old e, pc_path e)) es"
    and "parse_numstat_z (closed_tokens (concat (map numstat_tokens es))) = map counts_entry es"
proof -
  have "\<forall>t \<in> set (concat (map status_tokens es)). token t" "\<forall>t \<in> set (concat (map numstat_tokens es)). nul \<notin> set t"
    using assms printed_tokens by auto
  then show "status_parts (nonempty_parts (closed_tokens (concat (map status_tokens es))))
      = map (\<lambda>e. (pc_code e, pc_old e, pc_path e)) es"
    "parse_numstat_z (closed_tokens (concat (map numstat_tokens es))) = map counts_entry es"
    using assms by (simp_all add: nonempty_tokens status_parts_tokens parse_numstat_z_def split_tokens numstat_parts_tokens)
qed

definition file_of_change :: "printed_change \<Rightarrow> changed_file" where
  "file_of_change e = \<lparr> cf_path = pc_path e, cf_change = change_word (pc_code e),
     cf_insertions = fst (counts_of (pc_counts e)), cf_deletions = snd (counts_of (pc_counts e)), cf_old_path = pc_old e \<rparr>"

lemma tracked_changes:
  assumes "distinct (map pc_path es)"
  shows "map (tracked_change (map counts_entry es)) (map (\<lambda>e. (pc_code e, pc_old e, pc_path e)) es) = map file_of_change es"
proof -
  have "find (\<lambda>(_, _, q). q = pc_path e) (map counts_entry es) = Some (counts_entry e)" if "e \<in> set es" for e
    using that assms by (induction es) (auto simp: counts_entry_def)
  then show ?thesis by (simp add: tracked_change_def file_of_change_def counts_entry_def case_prod_beta)
qed

text \<open>What git prints for a set of changes and of untracked files in a worktree.\<close>

definition prints_changes :: "git_env \<Rightarrow> path \<Rightarrow> string \<Rightarrow> printed_change list \<Rightarrow> string list \<Rightarrow> bool" where
  "prints_changes g wt base es us \<longleftrightarrow> (\<forall>l.
     gi_tool g l wt [''git'', ''diff'', ''--name-status'', ''-z'', ''-M'', base, ''--'', ''.'', exclude_arg]
       = Inr (closed_tokens (concat (map status_tokens es)))
     \<and> gi_tool g l wt [''git'', ''diff'', ''--numstat'', ''-z'', ''-M'', base, ''--'', ''.'', exclude_arg]
       = Inr (closed_tokens (concat (map numstat_tokens es)))
     \<and> gi_tool g l wt [''git'', ''ls-files'', ''--others'', ''--exclude-standard'', ''-z'', ''--'', ''.'', exclude_arg]
       = Inr (closed_tokens us))"

text \<open>C16. Every change git prints is in the answer, once, with its own counts and old path, together with the untracked
  files, and nothing else: the policy sees all of them, in the order of their paths.\<close>

theorem changed_files_complete:
  assumes "prints_changes g wt base es us" and "\<forall>e \<in> set es. printable e" and "distinct (map pc_path es)"
    and "\<forall>u \<in> set us. token u"
  shows "\<exists>st l'. changed_files g wt base l = (Inr st, l')
     \<and> mset (ds_files st) = mset (map file_of_change es @ map (untracked_change g l' wt) us)
     \<and> sorted (map cf_path (ds_files st)) \<and> ds_files_changed st = length es + length us"
proof -
  define n where "n = [''git'', ''diff'', ''--name-status'', ''-z'', ''-M'', base, ''--'', ''.'', exclude_arg]"
  define m where "m = [''git'', ''diff'', ''--numstat'', ''-z'', ''-M'', base, ''--'', ''.'', exclude_arg]"
  define u where "u = [''git'', ''ls-files'', ''--others'', ''--exclude-standard'', ''-z'', ''--'', ''.'', exclude_arg]"
  let ?l = "l @ [GitRun wt n, GitRun wt m, GitRun wt u]"
  have a: "gi_tool g k wt n = Inr (closed_tokens (concat (map status_tokens es)))"
    "gi_tool g k wt m = Inr (closed_tokens (concat (map numstat_tokens es)))" "gi_tool g k wt u = Inr (closed_tokens us)" for k
    using assms(1) by (simp_all add: prints_changes_def n_def m_def u_def)
  have "changed_files g wt base l = (Inr (diff_stat_of (map file_of_change es @ map (untracked_change g ?l wt) us)), ?l)"
    unfolding changed_files_def git_def list_untracked_def n_def [symmetric] m_def [symmetric] u_def [symmetric]
    by (simp add: run_tool_def bnd_def gets_def andthen_def modify_def lift_result_def ret_def a nonempty_tokens [OF assms(4)]
        parse_printed [OF assms(2)] tracked_changes [OF assms(3)] del: map_map)
  then show ?thesis by (auto simp: diff_stat_of_def Let_def)
qed

text \<open>A rename with edits, a deletion and an untracked file, in a worktree where the file system holds nothing more.\<close>

definition sample_changes :: "printed_change list" where
  "sample_changes = [\<lparr> pc_code = CHR ''R'', pc_score = ''087'', pc_old = Some ''a.rs'', pc_path = ''b.rs'', pc_counts = Some (3, 1) \<rparr>,
     \<lparr> pc_code = CHR ''D'', pc_score = [], pc_old = None, pc_path = ''logo.png'', pc_counts = None \<rparr>]"

definition printing_git :: "printed_change list \<Rightarrow> string list \<Rightarrow> git_env" where
  "printing_git es us = \<lparr> gi_tool = (\<lambda>_ _ argv. Inr (closed_tokens
       (if ''--name-status'' \<in> set argv then concat (map status_tokens es)
        else if ''--numstat'' \<in> set argv then concat (map numstat_tokens es)
        else if ''--others'' \<in> set argv then us else []))),
     gi_output = (\<lambda>_ _ _. Inr (True, [], [])), gi_canonical = (\<lambda>_ _. None), gi_exists = (\<lambda>_ _. False),
     gi_has_entries = (\<lambda>_ _. None), gi_plain_file = (\<lambda>_ _. None), gi_length = (\<lambda>_ _. None), gi_read = (\<lambda>_ _. None),
     gi_bytes = (\<lambda>_ _. None), gi_mkdirs = (\<lambda>_ _. Inr ()), gi_write = (\<lambda>_ _ _. Inr ()), gi_sha = (\<lambda>s. s) \<rparr>"

theorem changed_files_complete_witness:
  "\<exists>st l'. changed_files (printing_git sample_changes [''c.rs'']) ''/w'' ''abc'' [] = (Inr st, l')
     \<and> size (mset (ds_files st)) = 3 \<and> sorted (map cf_path (ds_files st)) \<and> ds_files_changed st = 3"
proof -
  have "prints_changes (printing_git sample_changes [''c.rs'']) ''/w'' ''abc'' sample_changes [''c.rs'']"
    by (simp add: prints_changes_def printing_git_def exclude_arg_def)
  moreover have "\<forall>e \<in> set sample_changes. printable e"
    by (simp add: sample_changes_def printable_def token_def nul_def)
  moreover have "distinct (map pc_path sample_changes)" by (simp add: sample_changes_def)
  moreover have "\<forall>u \<in> set [''c.rs'']. token u" by (simp add: token_def nul_def)
  ultimately show ?thesis
    using changed_files_complete [of "printing_git sample_changes [''c.rs'']" "''/w''" "''abc''" sample_changes "[''c.rs'']" "[]"]
    by (fastforce simp: sample_changes_def)
qed

subsection \<open>What the commands may do\<close>

text \<open>The options git reads from its arguments: the operands of \<open>-c\<close>, \<open>-m\<close> and \<open>-b\<close> and everything after
  \<open>--\<close> are not options.\<close>

fun option_words :: "string list \<Rightarrow> string list" where
  "option_words [] = []"
| "option_words (a # as) =
     (if a = ''--'' then []
      else if a \<in> {''-c'', ''-m'', ''-b''} then a # (case as of [] \<Rightarrow> [] | _ # bs \<Rightarrow> option_words bs)
      else if starts_with a ''-'' then a # option_words as
      else option_words as)"

fun subcommand :: "string list \<Rightarrow> string" where
  "subcommand [] = []"
| "subcommand (a # as) = (if a = ''-c'' then (case as of [] \<Rightarrow> [] | _ # bs \<Rightarrow> subcommand bs) else a)"

definition FORCING :: "string list" where
  "FORCING = [''-f'', ''--force'', ''--force-with-lease'', ''--force-if-includes'', ''--hard'', ''--merge'', ''--keep'', ''-d'',
     ''-D'', ''-B'', ''-C'', ''--delete'', ''--mirror'', ''--all'', ''--prune'', ''--amend'', ''--ignore-errors'', ''--exec'']"

definition REWRITING :: "string list" where
  "REWRITING = [''rebase'', ''clean'', ''checkout'', ''switch'', ''restore'', ''branch'', ''filter-branch'', ''update-ref'', ''gc'',
     ''reflog'', ''replace'', ''cherry-pick'', ''revert'', ''am'', ''stash'', ''tag'']"

definition hooks_off :: "string list \<Rightarrow> bool" where
  "hooks_off as \<longleftrightarrow> take 2 as = [''-c'', ''core.hooksPath=/dev/null'']"

definition gentle_args :: "string list \<Rightarrow> bool" where
  "gentle_args as \<longleftrightarrow>
     set (option_words as) \<inter> set FORCING = {} \<and> subcommand as \<notin> set REWRITING
     \<and> (subcommand as \<in> {''commit'', ''push''} \<longrightarrow> hooks_off as \<and> ''--no-verify'' \<in> set (option_words as))
     \<and> (subcommand as = ''merge'' \<longrightarrow> hooks_off as \<or> as = [''merge'', ''--abort''])
     \<and> (subcommand as = ''push'' \<longrightarrow> (\<exists>b. last as = ''refs/heads/'' @ b @ '':refs/heads/'' @ b \<and> \<not> str_contains b '':''))
     \<and> (subcommand as = ''reset'' \<longrightarrow> as = [''reset'', ''-q'', ''--'', ORCH_DIR])"

definition gentle_event :: "git_event \<Rightarrow> bool" where
  "gentle_event e = (case e of GitRun _ argv \<Rightarrow> argv \<noteq> [] \<and> hd argv = ''git'' \<and> gentle_args (tl argv) | _ \<Rightarrow> True)"

definition gentle :: "git_event list \<Rightarrow> git_event list \<Rightarrow> bool" where
  "gentle l l' \<longleftrightarrow> (\<exists>k. l' = l @ k \<and> list_all gentle_event k)"

interpretation gentle: state_order gentle
proof
  show "gentle l l" for l by (auto simp: gentle_def)
  show "gentle l k \<Longrightarrow> gentle k j \<Longrightarrow> gentle l j" for l k j by (auto simp: gentle_def)
qed

named_theorems gentle_intros

lemmas gentle_rules [gentle_intros] = gentle.moves_rules moves_if moves_option moves_sum moves_prod

lemma gentle_event_moves: "gentle_event e \<Longrightarrow> moves gentle (modify (\<lambda>l. l @ [e]))"
  by (rule moves_modify) (simp add: gentle_def)

lemma gentle_tools [gentle_intros]:
  "gentle_args as \<Longrightarrow> moves gentle (git g cwd as)" "gentle_args as \<Longrightarrow> moves gentle (git_output g cwd as)"
  "gentle_event (GitRun cwd argv) \<Longrightarrow> moves gentle (run_tool g cwd argv)"
  "moves gentle (make_dirs g p)" "moves gentle (write_atomic g p t)"
  "moves gentle m \<Longrightarrow> moves gentle (succeeds m)" "moves gentle m' \<Longrightarrow> moves gentle (or_empty m')"
  "moves gentle m \<Longrightarrow> moves gentle (contextual c m)"
  unfolding git_def run_tool_def git_output_def make_dirs_def write_atomic_def succeeds_def or_empty_def contextual_def
  by (intro gentle_rules gentle_event_moves; simp add: gentle_event_def)+

definition plain_word :: "string \<Rightarrow> bool" where
  "plain_word s \<longleftrightarrow> \<not> starts_with s ''-''"

lemma plain_words:
  "\<not> starts_with b ''-'' \<Longrightarrow> \<not> starts_with (b @ ''^{commit}'') ''-''"
  "\<not> starts_with b ''-'' \<Longrightarrow> \<not> starts_with (b @ ''..HEAD'') ''-''"
  "\<not> starts_with b ''-'' \<Longrightarrow> \<not> starts_with (b @ CHR '':'' # q) ''-''"
  "\<not> bad_branch_name b \<Longrightarrow> \<not> starts_with b ''-''"
  by (auto simp: starts_with_def bad_branch_name_def take_Cons' split: if_splits)

lemma starts_with_dash: "starts_with (c # s) ''-'' \<longleftrightarrow> c = CHR ''-''"
  by (auto simp: starts_with_def)

lemma option_words_eqs:
  "option_words [] = []" "option_words (''--'' # as) = []"
  "option_words (''-c'' # x # as) = ''-c'' # option_words as" "option_words (''-m'' # x # as) = ''-m'' # option_words as"
  "option_words (''-b'' # x # as) = ''-b'' # option_words as"
  "\<not> starts_with a ''-'' \<Longrightarrow> option_words (a # as) = option_words as"
  "starts_with a ''-'' \<Longrightarrow> a \<noteq> ''--'' \<Longrightarrow> a \<noteq> ''-c'' \<Longrightarrow> a \<noteq> ''-m'' \<Longrightarrow> a \<noteq> ''-b'' \<Longrightarrow> option_words (a # as) = a # option_words as"
  by (auto simp: starts_with_def)

lemma subcommand_eqs:
  "subcommand (''-c'' # x # as) = subcommand as" "a \<noteq> ''-c'' \<Longrightarrow> subcommand (a # as) = a"
  by simp_all

declare option_words.simps [simp del] subcommand.simps [simp del]

lemmas gentle_args_defs = gentle_args_def FORCING_def REWRITING_def hooks_off_def exclude_arg_def
  option_words_eqs subcommand_eqs starts_with_dash plain_words

lemma validated_branch:
  assumes "\<not> bad_branch_name b \<Longrightarrow> moves gentle m"
  shows "moves gentle (andthen (validate_branch_name g repo b) m)"
proof (cases "bad_branch_name b")
  case True
  then show ?thesis by (simp add: validate_branch_name_def gentle.moves_bail)
next
  case False
  moreover from False have "gentle_args [''check-ref-format'', ''--branch'', b]" by (simp add: gentle_args_defs)
  ultimately show ?thesis using assms by (simp add: validate_branch_name_def) (intro gentle_intros)
qed

subsection \<open>Every request\<close>

datatype git_request =
    RqDiscover path
  | RqMainRoot path
  | RqRevParse path string
  | RqBase path "string option"
  | RqAdd path path string string
  | RqAttach path path string
  | RqRemove path path
  | RqExclude path
  | RqChanges path string
  | RqAddedLines path string changed_file nat
  | RqFingerprint path
  | RqDiff path string nat
  | RqFileAt path string path
  | RqMerge path string string
  | RqAncestor path string string
  | RqCommit path string
  | RqPush path string string
  | RqRemote path string
  | RqLog path string nat
  | RqVersion

definition quietly :: "'a git_op \<Rightarrow> unit git_op" where
  "quietly m = bnd (attempt m) (\<lambda>_. ret ())"

fun serve :: "git_env \<Rightarrow> git_request \<Rightarrow> unit git_op" where
  "serve g (RqDiscover p) = quietly (discover_repo g p)"
| "serve g (RqMainRoot p) = quietly (main_repo_root g p)"
| "serve g (RqRevParse p r) = quietly (rev_parse g p r)"
| "serve g (RqBase p c) = quietly (base_or_current g p c)"
| "serve g (RqAdd repo p b sha) = quietly (add_worktree g repo p b sha)"
| "serve g (RqAttach repo p b) = quietly (attach_worktree g repo p b)"
| "serve g (RqRemove repo p) = quietly (remove_worktree_if_clean g repo p)"
| "serve g (RqExclude p) = quietly (ensure_excluded g p)"
| "serve g (RqChanges p base) = quietly (changed_files g p base)"
| "serve g (RqAddedLines p base f n) = quietly (added_lines g p base f n)"
| "serve g (RqFingerprint p) = quietly (worktree_fingerprint g p)"
| "serve g (RqDiff p base n) = quietly (diff_text g p base n)"
| "serve g (RqFileAt p r f) = quietly (file_at g p r f)"
| "serve g (RqMerge p r m) = quietly (merge_no_ff g p r m)"
| "serve g (RqAncestor p c r) = quietly (is_ancestor g p c r)"
| "serve g (RqCommit p m) = quietly (commit_all g p m)"
| "serve g (RqPush p r b) = quietly (push_branch g p r b)"
| "serve g (RqRemote p r) = quietly (remote_url g p r)"
| "serve g (RqLog p base n) = quietly (log_oneline g p base n)"
| "serve g RqVersion = quietly (git_version g)"

text \<open>The arguments that the adapter does not check itself: paths of worktrees, and commits that git printed.\<close>

fun plain_request :: "git_request \<Rightarrow> bool" where
  "plain_request (RqAdd repo p b sha) = (plain_word p \<and> plain_word sha)"
| "plain_request (RqAttach repo p b) = plain_word p"
| "plain_request (RqRemove repo p) = plain_word p"
| "plain_request (RqChanges p base) = plain_word base"
| "plain_request (RqAddedLines p base f n) = plain_word base"
| "plain_request (RqDiff p base n) = plain_word base"
| "plain_request (RqAncestor p c r) = (plain_word c \<and> plain_word r)"
| "plain_request (RqRemote p r) = plain_word r"
| "plain_request (RqLog p base n) = plain_word base"
| "plain_request _ = True"

lemma reading_gentle [gentle_intros]:
  "moves gentle (discover_repo g p)" "moves gentle (git_common_dir g p)" "moves gentle (head_sha g p)"
  "moves gentle (branch_exists g p b)" "moves gentle (worktree_list g p)" "moves gentle (is_dirty g p)"
  "moves gentle (list_untracked g p)" "moves gentle (current_branch g p)" "moves gentle (has_identity g p)"
  "moves gentle (git_version g)" "moves gentle (occupied g p)" "moves gentle (make_parent g p)"
  unfolding discover_repo_def git_common_dir_def head_sha_def branch_exists_def worktree_list_def is_dirty_def
    list_untracked_def current_branch_def has_identity_def git_version_def occupied_def make_parent_def
  by (intro gentle_intros; simp add: gentle_event_def gentle_args_defs)+

lemma composed_gentle [gentle_intros]:
  "moves gentle (main_repo_root g p)" "moves gentle (base_or_current g p c)" "moves gentle (worktree_fingerprint g p)"
  "moves gentle (ensure_excluded g p)"
  unfolding main_repo_root_def base_or_current_def worktree_fingerprint_def ensure_excluded_def Let_def
  by (intro gentle_intros; simp add: gentle_args_defs)+

lemma naming_gentle:
  "moves gentle (rev_parse g p r)" "moves gentle (file_at g p r q)"
  "plain_word base \<Longrightarrow> moves gentle (changed_files g p base)" "plain_word base \<Longrightarrow> moves gentle (added_lines g p base f n)"
  "plain_word base \<Longrightarrow> moves gentle (diff_text g p base n)" "plain_word base \<Longrightarrow> moves gentle (log_oneline g p base n)"
  "plain_word c \<Longrightarrow> plain_word r \<Longrightarrow> moves gentle (is_ancestor g p c r)" "plain_word r \<Longrightarrow> moves gentle (remote_url g p r)"
  unfolding rev_parse_def file_at_def changed_files_def added_lines_def diff_text_def log_oneline_def is_ancestor_def remote_url_def
    Let_def
  by (intro gentle_intros; simp add: gentle_args_defs plain_word_def)+

lemma worktree_gentle:
  "plain_word p \<Longrightarrow> plain_word sha \<Longrightarrow> moves gentle (add_worktree g repo p b sha)"
  "plain_word p \<Longrightarrow> moves gentle (attach_worktree g repo p b)"
  "plain_word p \<Longrightarrow> moves gentle (remove_worktree_if_clean g repo p)"
  unfolding add_worktree_def attach_worktree_def remove_worktree_if_clean_def
  by (intro validated_branch gentle_intros; simp add: gentle_args_defs plain_word_def)+

lemma commit_gentle: "moves gentle (commit_all g p m)"
  unfolding commit_all_def by (intro gentle_intros; simp add: gentle_event_def commit_args_def gentle_args_defs)

lemma merge_gentle: "moves gentle (merge_no_ff g p r m)"
  unfolding merge_no_ff_def Let_def by (intro gentle_intros; simp add: gentle_args_defs)

lemma push_gentle: "moves gentle (push_branch g p r b)"
proof (cases "push_refused r b")
  case True
  then show ?thesis by (simp add: push_branch_def gentle.moves_bail)
next
  case False
  then have "gentle_args [''-c'', ''core.hooksPath=/dev/null'', ''push'', ''--no-verify'', ''--set-upstream'',
          r, ''refs/heads/'' @ b @ '':refs/heads/'' @ b]"
    by (auto simp: gentle_args_defs push_refused_def)
  then have "moves gentle (run_tool g p ([''git'', ''-c'', ''core.hooksPath=/dev/null'', ''push'', ''--no-verify'',
      ''--set-upstream'', r, ''refs/heads/'' @ b @ '':refs/heads/'' @ b]))"
    by (intro gentle_intros) (simp add: gentle_event_def)
  then show ?thesis using False unfolding push_branch_def by (simp add: gentle.moves_bnd gentle.moves_ret)
qed

lemma quietly_gentle: "moves gentle m \<Longrightarrow> moves gentle (quietly m)"
  unfolding quietly_def by (intro gentle_intros)

lemma serve_gentle: "plain_request r \<Longrightarrow> moves gentle (serve g r)"
  by (cases r) (auto intro!: quietly_gentle
      intro: reading_gentle composed_gentle naming_gentle worktree_gentle commit_gentle merge_gentle push_gentle)

text \<open>C15. Whatever requests the adapter serves, and whatever git answers, no command it gives forces, resets or rewrites
  anything; commits, merges and pushes run no hook of the repository, and a push sends a branch to its own name.\<close>

theorem git_never_forces:
  assumes "\<forall>r \<in> set rs. plain_request r" and "for_each rs (serve g) l = (res, l')"
  shows "\<exists>k. l' = l @ k \<and> list_all gentle_event k"
proof -
  have "moves gentle (for_each rs (serve g))"
    using assms(1)
  proof (induction rs)
    case (Cons r rs)
    then show ?case using serve_gentle by (auto intro!: gentle.moves_andthen)
  qed (simp add: gentle.moves_ret)
  then show ?thesis using movesD [of gentle "for_each rs (serve g)" l] assms(2) by (simp add: gentle_def)
qed

theorem git_never_forces_witness:
  "\<exists>k. snd (for_each [RqAdd ''/r'' ''/r/w'' ''herdr/1-task'' ''abc'', RqCommit ''/r/w'' ''--force'', RqPush ''/r/w'' ''origin'' ''herdr/1-task'']
      (serve (printing_git [] [])) []) = k \<and> list_all gentle_event k \<and> length k = 6"
proof -
  let ?rs = "[RqAdd ''/r'' ''/r/w'' ''herdr/1-task'' ''abc'', RqCommit ''/r/w'' ''--force'', RqPush ''/r/w'' ''origin'' ''herdr/1-task'']"
  let ?m = "for_each ?rs (serve (printing_git [] [])) []"
  have "\<forall>r \<in> set ?rs. plain_request r" by (simp add: plain_word_def starts_with_def)
  then obtain k where k: "snd ?m = [] @ k" "list_all gentle_event k"
    using git_never_forces [of ?rs "printing_git [] []" "[]" "fst ?m" "snd ?m"] by auto
  moreover have "length (snd ?m) = 6" by code_simp
  ultimately show ?thesis by auto
qed

end
