(* ===== verification/Config.thy ===== *)
theory Config
  imports Engine Watchdog Git
begin

text \<open>
  The configuration, \<open>src/config/mod.rs\<close>: its typed schema with the defaults, how a layer is merged over
  another, how the layers of the program, the user, the project and the command line become one, and what
  is checked. The derived (de)serializers of serde are modelled as tables of fields: a struct is read from
  an object, or from an array by position, a missing field keeps its default and an unknown one is refused.
  The text of such an error is not modelled. Files and the YAML parser are parameters.
\<close>

subsection \<open>Serializers\<close>

type_synonym 'a serde = "('a \<Rightarrow> json) \<times> (json \<Rightarrow> 'a option)"

fun de_bool :: "json \<Rightarrow> bool option" where
  "de_bool (JBool b) = Some b"
| "de_bool _ = None"

definition sd_bool :: "bool serde" where "sd_bool = (JBool, de_bool)"

definition sd_str :: "string serde" where "sd_str = (JStr, json_as_str)"

fun de_nat :: "nat \<Rightarrow> json \<Rightarrow> nat option" where
  "de_nat w (JInt i) = (if 0 \<le> i \<and> i < 2 ^ w then Some (nat i) else None)"
| "de_nat _ _ = None"

definition sd_u32 :: "nat serde" where "sd_u32 = (\<lambda>n. JInt (int n), de_nat 32)"

definition sd_u64 :: "nat serde" where "sd_u64 = (\<lambda>n. JInt (int n), de_nat 64)"

fun de_f64 :: "json \<Rightarrow> f64 option" where
  "de_f64 (JFloat x) = Some x"
| "de_f64 (JInt i) = Some (of_int i)"
| "de_f64 _ = None"

definition sd_f64 :: "f64 serde" where "sd_f64 = (JFloat, de_f64)"

text \<open>\<open>HumanDuration\<close>: a number of seconds or a text.\<close>

fun de_duration :: "json \<Rightarrow> duration option" where
  "de_duration (JInt i) = map_option (\<lambda>n. n * 1000) (de_nat 64 (JInt i))"
| "de_duration (JStr s) = parse_duration s"
| "de_duration _ = None"

definition sd_duration :: "duration serde" where "sd_duration = (\<lambda>d. JStr (display_duration d), de_duration)"

definition sd_opt :: "'a serde \<Rightarrow> 'a option serde" where
  "sd_opt c = (\<lambda>x. case x of Some v \<Rightarrow> fst c v | None \<Rightarrow> JNull,
     \<lambda>v. if v = JNull then Some None else map_option Some (snd c v))"

fun all_some :: "'a option list \<Rightarrow> 'a list option" where
  "all_some [] = Some []"
| "all_some (x # xs) = Option.bind x (\<lambda>y. map_option ((#) y) (all_some xs))"

definition sd_list :: "'a serde \<Rightarrow> 'a list serde" where
  "sd_list c = (\<lambda>xs. JArr (map (fst c) xs), \<lambda>v. case v of JArr xs \<Rightarrow> all_some (map (snd c) xs) | _ \<Rightarrow> None)"

definition sd_map :: "'a serde \<Rightarrow> (string, 'a) btmap serde" where
  "sd_map c = (\<lambda>m. JObj (map (\<lambda>(k, x). (k, fst c x)) m),
     \<lambda>v. case v of JObj m \<Rightarrow> all_some (map (\<lambda>(k, x). map_option (Pair k) (snd c x)) m) | _ \<Rightarrow> None)"

text \<open>An enum of unit variants: the name, or an object with the name and null.\<close>

definition sd_enum :: "(string \<times> 'e) list \<Rightarrow> 'e serde" where
  "sd_enum vs = (\<lambda>e. case find (\<lambda>(_, x). x = e) vs of Some (n, _) \<Rightarrow> JStr n | None \<Rightarrow> JNull,
     \<lambda>v. case v of JStr s \<Rightarrow> map_of vs s | JObj [(s, JNull)] \<Rightarrow> map_of vs s | _ \<Rightarrow> None)"

text \<open>Structs: a table of the fields, each with how it is written and how a value updates it.\<close>

type_synonym 'r fields = "(string \<times> ('r \<Rightarrow> json) \<times> (json \<Rightarrow> 'r \<Rightarrow> 'r option)) list"

definition fld :: "string \<Rightarrow> 'a serde \<Rightarrow> ('r \<Rightarrow> 'a) \<Rightarrow> (('a \<Rightarrow> 'a) \<Rightarrow> 'r \<Rightarrow> 'r) \<Rightarrow>
    string \<times> ('r \<Rightarrow> json) \<times> (json \<Rightarrow> 'r \<Rightarrow> 'r option)" where
  "fld n c get upd = (n, \<lambda>r. fst c (get r), \<lambda>v r. map_option (\<lambda>x. upd (\<lambda>_. x) r) (snd c v))"

definition struct_values :: "string list \<Rightarrow> json \<Rightarrow> (string \<times> json) list option" where
  "struct_values names v = (case v of
       JObj m \<Rightarrow> if list_all (\<lambda>(k, _). k \<in> set names) m then Some m else None
     | JArr xs \<Rightarrow> if length xs \<le> length names then Some (zip names xs) else None
     | _ \<Rightarrow> None)"

fun read_fields :: "'r fields \<Rightarrow> (string \<times> json) list \<Rightarrow> 'r \<Rightarrow> 'r option" where
  "read_fields [] m r = Some r"
| "read_fields ((n, _, f) # fs) m r =
     Option.bind (case bt_get m n of None \<Rightarrow> Some r | Some v \<Rightarrow> f v r) (read_fields fs m)"

definition sd_struct :: "'r \<Rightarrow> 'r fields \<Rightarrow> 'r serde" where
  "sd_struct dflt fs = (\<lambda>r. json_object (map (\<lambda>(n, w, _). (n, w r)) fs),
     \<lambda>v. Option.bind (struct_values (map fst fs) v) (\<lambda>m. read_fields fs m dflt))"

subsection \<open>The schema\<close>

definition default_inherit :: "string list" where
  "default_inherit = [''PATH'', ''HOME'', ''USER'', ''LOGNAME'', ''SHELL'', ''LANG'', ''LC_*'', ''TERM'', ''COLORTERM'', ''TMPDIR'',
     ''TZ'', ''XDG_CONFIG_HOME'', ''XDG_DATA_HOME'', ''XDG_CACHE_HOME'', ''XDG_STATE_HOME'', ''XDG_RUNTIME_DIR'',
     ''SSH_AUTH_SOCK'', ''CARGO_HOME'', ''RUSTUP_HOME'', ''GOPATH'', ''NVM_DIR'', ''HERDR_*'']"

definition environment_config_default :: environment_config where
  "environment_config_default = \<lparr> en_inherit = default_inherit, en_set = [], en_inherit_all = False \<rparr>"

definition sd_environment_config :: "environment_config serde" where
  "sd_environment_config = sd_struct environment_config_default [
     fld ''inherit'' (sd_list sd_str) en_inherit en_inherit_update, fld ''set'' (sd_map sd_str) en_set en_set_update,
     fld ''inherit_all'' sd_bool en_inherit_all en_inherit_all_update]"

definition sd_watchdog_config :: "watchdog_config serde" where
  "sd_watchdog_config = sd_struct watchdog_config_default [
     fld ''enabled'' sd_bool wc_enabled wc_enabled_update,
     fld ''check_every'' sd_duration wc_check_every wc_check_every_update,
     fld ''stall_after'' sd_duration wc_stall_after wc_stall_after_update,
     fld ''idle_after'' sd_duration wc_idle_after wc_idle_after_update,
     fld ''burn_tokens'' sd_u64 wc_burn_tokens wc_burn_tokens_update,
     fld ''repeat_threshold'' sd_u32 wc_repeat_threshold wc_repeat_threshold_update]"

definition profile_config_default :: profile_config where
  "profile_config_default = \<lparr> pc_mode = None, pc_kind = None, pc_args = None, pc_command = None, pc_env_inherit = None, pc_model = None,
     pc_effort = None, pc_advisor = None \<rparr>"

definition sd_profile_config :: "profile_config serde" where
  "sd_profile_config = sd_struct profile_config_default [
     fld ''mode'' (sd_opt sd_str) pc_mode pc_mode_update, fld ''kind'' (sd_opt sd_str) pc_kind pc_kind_update,
     fld ''args'' (sd_opt (sd_list sd_str)) pc_args pc_args_update,
     fld ''command'' (sd_opt (sd_list sd_str)) pc_command pc_command_update,
     fld ''env_inherit'' (sd_opt (sd_list sd_str)) pc_env_inherit pc_env_inherit_update,
     fld ''model'' (sd_opt sd_str) pc_model pc_model_update, fld ''effort'' (sd_opt sd_str) pc_effort pc_effort_update,
     fld ''advisor'' (sd_opt sd_str) pc_advisor pc_advisor_update]"

definition sd_herdr_mode :: "herdr_mode serde" where
  "sd_herdr_mode = sd_enum [(''auto'', HerdrAuto), (''required'', HerdrRequired), (''disabled'', HerdrDisabled)]"

definition sd_sandbox_kind :: "sandbox_kind serde" where
  "sd_sandbox_kind = sd_enum [(''none'', SandboxNone), (''bubblewrap'', Bubblewrap), (''container'', Container),
     (''macos_profile'', MacosProfile)]"

definition sd_dependency_mode :: "dependency_mode serde" where
  "sd_dependency_mode = sd_enum [(''merged'', DepMerged), (''stacked'', DepStacked)]"

definition default_test_paths :: "string list" where
  "default_test_paths = [''**/tests/**'', ''**/test/**'', ''**/__tests__/**'', ''**/spec/**'', ''**/*_test.*'', ''**/*_spec.*'',
     ''**/*.test.*'', ''**/*.spec.*'', ''**/test_*.py'', ''**/conftest.py'', ''**/pytest.ini'', ''**/tox.ini'',
     ''**/setup.cfg'', ''**/jest.config*'', ''**/vitest.config*'', ''**/karma.conf*'', ''**/.mocharc*'',
     ''**/phpunit.xml*'', ''**/.nycrc*'']"

record project_config =
  pj_name :: "string option"

definition project_config_default :: project_config where
  "project_config_default = \<lparr> pj_name = None \<rparr>"

definition sd_project_config :: "project_config serde" where
  "sd_project_config = sd_struct project_config_default [
     fld ''name'' (sd_opt sd_str) pj_name pj_name_update]"

record defaults_config =
  df_workflow :: string
  df_runner :: string
  df_base_branch :: "string option"

definition defaults_config_default :: defaults_config where
  "defaults_config_default = \<lparr> df_workflow = ''implement-review'', df_runner = ''claude'', df_base_branch = None \<rparr>"

definition sd_defaults_config :: "defaults_config serde" where
  "sd_defaults_config = sd_struct defaults_config_default [
     fld ''workflow'' sd_str df_workflow df_workflow_update, fld ''runner'' sd_str df_runner df_runner_update,
     fld ''base_branch'' (sd_opt sd_str) df_base_branch df_base_branch_update]"

record scheduler_config =
  sc_max_parallel_runs :: nat
  sc_max_parallel_agents :: nat
  sc_poll_interval_ms :: nat
  sc_avoid_conflicts :: bool

definition scheduler_config_default :: scheduler_config where
  "scheduler_config_default = \<lparr> sc_max_parallel_runs = 4, sc_max_parallel_agents = 8, sc_poll_interval_ms = 1000, sc_avoid_conflicts = True \<rparr>"

definition sd_scheduler_config :: "scheduler_config serde" where
  "sd_scheduler_config = sd_struct scheduler_config_default [
     fld ''max_parallel_runs'' sd_u64 sc_max_parallel_runs sc_max_parallel_runs_update,
     fld ''max_parallel_agents'' sd_u64 sc_max_parallel_agents sc_max_parallel_agents_update,
     fld ''poll_interval_ms'' sd_u64 sc_poll_interval_ms sc_poll_interval_ms_update,
     fld ''avoid_conflicts'' sd_bool sc_avoid_conflicts sc_avoid_conflicts_update]"

record limits_config =
  li_max_agents_per_run :: nat
  li_max_runtime :: duration
  li_max_retries :: nat
  li_max_variants :: nat
  li_max_cost_usd :: "f64 option"
  li_max_tokens :: "nat option"
  li_agent_timeout :: duration
  li_command_timeout :: duration
  li_agent_startup_timeout :: duration
  li_approval_timeout :: "duration option"

definition limits_config_default :: limits_config where
  "limits_config_default = \<lparr> li_max_agents_per_run = 4, li_max_runtime = 2 * 3600 * 1000, li_max_retries = 3, li_max_variants = 4,
     li_max_cost_usd = None, li_max_tokens = None, li_agent_timeout = 45 * 60 * 1000,
     li_command_timeout = 15 * 60 * 1000, li_agent_startup_timeout = 60 * 1000, li_approval_timeout = None \<rparr>"

definition sd_limits_config :: "limits_config serde" where
  "sd_limits_config = sd_struct limits_config_default [
     fld ''max_agents_per_run'' sd_u64 li_max_agents_per_run li_max_agents_per_run_update,
     fld ''max_runtime'' sd_duration li_max_runtime li_max_runtime_update,
     fld ''max_retries'' sd_u32 li_max_retries li_max_retries_update,
     fld ''max_variants'' sd_u32 li_max_variants li_max_variants_update,
     fld ''max_cost_usd'' (sd_opt sd_f64) li_max_cost_usd li_max_cost_usd_update,
     fld ''max_tokens'' (sd_opt sd_u64) li_max_tokens li_max_tokens_update,
     fld ''agent_timeout'' sd_duration li_agent_timeout li_agent_timeout_update,
     fld ''command_timeout'' sd_duration li_command_timeout li_command_timeout_update,
     fld ''agent_startup_timeout'' sd_duration li_agent_startup_timeout li_agent_startup_timeout_update,
     fld ''approval_timeout'' (sd_opt sd_duration) li_approval_timeout li_approval_timeout_update]"

record git_config =
  gc_worktree_root :: string
  gc_branch_prefix :: string
  gc_auto_commit :: bool
  gc_commit_message :: string
  gc_cleanup_on_success :: bool
  gc_remote :: string
  gc_manage_exclude :: bool

definition git_config_default :: git_config where
  "git_config_default = \<lparr> gc_worktree_root = ''.herdr-orchestrator/worktrees'', gc_branch_prefix = ''herdr/'', gc_auto_commit = True,
     gc_commit_message = ''{{step.id}}: {{task_title}} (herdr-orchestrator {{run.id}})'',
     gc_cleanup_on_success = False, gc_remote = ''origin'', gc_manage_exclude = True \<rparr>"

definition sd_git_config :: "git_config serde" where
  "sd_git_config = sd_struct git_config_default [
     fld ''worktree_root'' sd_str gc_worktree_root gc_worktree_root_update,
     fld ''branch_prefix'' sd_str gc_branch_prefix gc_branch_prefix_update,
     fld ''auto_commit'' sd_bool gc_auto_commit gc_auto_commit_update,
     fld ''commit_message'' sd_str gc_commit_message gc_commit_message_update,
     fld ''cleanup_on_success'' sd_bool gc_cleanup_on_success gc_cleanup_on_success_update,
     fld ''remote'' sd_str gc_remote gc_remote_update,
     fld ''manage_exclude'' sd_bool gc_manage_exclude gc_manage_exclude_update]"

record policy_config =
  plc_files :: "string list"
  plc_builtin_default :: bool
  plc_replace_global :: bool

definition policy_config_default :: policy_config where
  "policy_config_default = \<lparr> plc_files = [], plc_builtin_default = True, plc_replace_global = False \<rparr>"

definition sd_policy_config :: "policy_config serde" where
  "sd_policy_config = sd_struct policy_config_default [
     fld ''files'' (sd_list sd_str) plc_files plc_files_update,
     fld ''builtin_default'' sd_bool plc_builtin_default plc_builtin_default_update,
     fld ''replace_global'' sd_bool plc_replace_global plc_replace_global_update]"

record tracker_config =
  tkc_auto_sync :: bool
  tkc_label :: string
  tkc_import_label :: string
  tkc_project :: "string option"

definition tracker_config_default :: tracker_config where
  "tracker_config_default = \<lparr> tkc_auto_sync = False, tkc_label = ''herdr-orchestrator'', tkc_import_label = ''agent-ready'', tkc_project = None \<rparr>"

definition sd_tracker_config :: "tracker_config serde" where
  "sd_tracker_config = sd_struct tracker_config_default [
     fld ''auto_sync'' sd_bool tkc_auto_sync tkc_auto_sync_update, fld ''label'' sd_str tkc_label tkc_label_update,
     fld ''import_label'' sd_str tkc_import_label tkc_import_label_update,
     fld ''project'' (sd_opt sd_str) tkc_project tkc_project_update]"

record github_config =
  ghc_draft_pr :: bool
  ghc_auto_merge :: bool
  ghc_base :: "string option"
  ghc_push_before_pr :: bool
  ghc_watch_prs :: bool
  ghc_watch_interval :: duration
  ghc_tracker :: tracker_config

definition github_config_default :: github_config where
  "github_config_default = \<lparr> ghc_draft_pr = True, ghc_auto_merge = False, ghc_base = None, ghc_push_before_pr = True, ghc_watch_prs = False,
     ghc_watch_interval = 10 * 60 * 1000, ghc_tracker = tracker_config_default \<rparr>"

definition sd_github_config :: "github_config serde" where
  "sd_github_config = sd_struct github_config_default [
     fld ''draft_pr'' sd_bool ghc_draft_pr ghc_draft_pr_update,
     fld ''auto_merge'' sd_bool ghc_auto_merge ghc_auto_merge_update,
     fld ''base'' (sd_opt sd_str) ghc_base ghc_base_update,
     fld ''push_before_pr'' sd_bool ghc_push_before_pr ghc_push_before_pr_update,
     fld ''watch_prs'' sd_bool ghc_watch_prs ghc_watch_prs_update,
     fld ''watch_interval'' sd_duration ghc_watch_interval ghc_watch_interval_update,
     fld ''tracker'' sd_tracker_config ghc_tracker ghc_tracker_update]"

record audit_config =
  auc_hash_chain :: bool

definition audit_config_default :: audit_config where
  "audit_config_default = \<lparr> auc_hash_chain = True \<rparr>"

definition sd_audit_config :: "audit_config serde" where
  "sd_audit_config = sd_struct audit_config_default [
     fld ''hash_chain'' sd_bool auc_hash_chain auc_hash_chain_update]"

record herdr_config =
  hc_mode :: herdr_mode
  hc_socket :: "string option"
  hc_notify :: bool
  hc_close_panes_on_success :: bool
  hc_interrupt_on_timeout :: bool
  hc_settle_window :: duration
  hc_sidebar_token :: string

definition herdr_config_default :: herdr_config where
  "herdr_config_default = \<lparr> hc_mode = HerdrAuto, hc_socket = None, hc_notify = True, hc_close_panes_on_success = True,
     hc_interrupt_on_timeout = True, hc_settle_window = 30 * 1000, hc_sidebar_token = ''orch'' \<rparr>"

definition sd_herdr_config :: "herdr_config serde" where
  "sd_herdr_config = sd_struct herdr_config_default [
     fld ''mode'' sd_herdr_mode hc_mode hc_mode_update, fld ''socket'' (sd_opt sd_str) hc_socket hc_socket_update,
     fld ''notify'' sd_bool hc_notify hc_notify_update,
     fld ''close_panes_on_success'' sd_bool hc_close_panes_on_success hc_close_panes_on_success_update,
     fld ''interrupt_on_timeout'' sd_bool hc_interrupt_on_timeout hc_interrupt_on_timeout_update,
     fld ''settle_window'' sd_duration hc_settle_window hc_settle_window_update,
     fld ''sidebar_token'' sd_str hc_sidebar_token hc_sidebar_token_update]"

record output_config =
  oc_excerpt_head_lines :: nat
  oc_excerpt_tail_lines :: nat
  oc_feedback_max_bytes :: nat
  oc_pane_read_lines :: nat

definition output_config_default :: output_config where
  "output_config_default = \<lparr> oc_excerpt_head_lines = 20, oc_excerpt_tail_lines = 60, oc_feedback_max_bytes = 12000, oc_pane_read_lines = 200 \<rparr>"

definition sd_output_config :: "output_config serde" where
  "sd_output_config = sd_struct output_config_default [
     fld ''excerpt_head_lines'' sd_u64 oc_excerpt_head_lines oc_excerpt_head_lines_update,
     fld ''excerpt_tail_lines'' sd_u64 oc_excerpt_tail_lines oc_excerpt_tail_lines_update,
     fld ''feedback_max_bytes'' sd_u64 oc_feedback_max_bytes oc_feedback_max_bytes_update,
     fld ''pane_read_lines'' sd_u32 oc_pane_read_lines oc_pane_read_lines_update]"

record sandbox_config =
  sbc_kind :: sandbox_kind

definition sandbox_config_default :: sandbox_config where
  "sandbox_config_default = \<lparr> sbc_kind = SandboxNone \<rparr>"

definition sd_sandbox_config :: "sandbox_config serde" where
  "sd_sandbox_config = sd_struct sandbox_config_default [
     fld ''kind'' sd_sandbox_kind sbc_kind sbc_kind_update]"

record usage_config =
  usc_session_logs :: bool

definition usage_config_default :: usage_config where
  "usage_config_default = \<lparr> usc_session_logs = True \<rparr>"

definition sd_usage_config :: "usage_config serde" where
  "sd_usage_config = sd_struct usage_config_default [
     fld ''session_logs'' sd_bool usc_session_logs usc_session_logs_update]"

record guard_config =
  gdc_claude_hook :: bool
  gdc_test_only_retry :: bool
  gdc_test_paths :: "string list"
  gdc_watchdog :: watchdog_config
  gdc_learn_reminder :: nat

definition guard_config_default :: guard_config where
  "guard_config_default = \<lparr> gdc_claude_hook = True, gdc_test_only_retry = True, gdc_test_paths = default_test_paths,
     gdc_watchdog = watchdog_config_default, gdc_learn_reminder = 20 \<rparr>"

definition sd_guard_config :: "guard_config serde" where
  "sd_guard_config = sd_struct guard_config_default [
     fld ''claude_hook'' sd_bool gdc_claude_hook gdc_claude_hook_update,
     fld ''test_only_retry'' sd_bool gdc_test_only_retry gdc_test_only_retry_update,
     fld ''test_paths'' (sd_list sd_str) gdc_test_paths gdc_test_paths_update,
     fld ''watchdog'' sd_watchdog_config gdc_watchdog gdc_watchdog_update,
     fld ''learn_reminder'' sd_u64 gdc_learn_reminder gdc_learn_reminder_update]"

record epic_config =
  epc_adr_dirs :: "string list"
  epc_max_tasks :: nat
  epc_planner_runner :: "string option"
  epc_task_workflow :: string
  epc_dependency_mode :: dependency_mode

definition epic_config_default :: epic_config where
  "epic_config_default = \<lparr> epc_adr_dirs = [''docs/adr'', ''doc/adr'', ''docs/decisions'', ''docs/architecture/decisions'', ''adr'', ''.ai/adr''],
     epc_max_tasks = 12, epc_planner_runner = None, epc_task_workflow = ''epic-task'', epc_dependency_mode = DepMerged \<rparr>"

definition sd_epic_config :: "epic_config serde" where
  "sd_epic_config = sd_struct epic_config_default [
     fld ''adr_dirs'' (sd_list sd_str) epc_adr_dirs epc_adr_dirs_update,
     fld ''max_tasks'' sd_u64 epc_max_tasks epc_max_tasks_update,
     fld ''planner_runner'' (sd_opt sd_str) epc_planner_runner epc_planner_runner_update,
     fld ''task_workflow'' sd_str epc_task_workflow epc_task_workflow_update,
     fld ''dependency_mode'' sd_dependency_mode epc_dependency_mode epc_dependency_mode_update]"

record sentry_config =
  snc_url :: string
  snc_org :: "string option"
  snc_project :: "string option"
  snc_query :: string
  snc_workflow :: string

definition sentry_config_default :: sentry_config where
  "sentry_config_default = \<lparr> snc_url = ''https://sentry.io'', snc_org = None, snc_project = None, snc_query = ''is:unresolved'',
     snc_workflow = ''contract-first'' \<rparr>"

definition sd_sentry_config :: "sentry_config serde" where
  "sd_sentry_config = sd_struct sentry_config_default [
     fld ''url'' sd_str snc_url snc_url_update, fld ''org'' (sd_opt sd_str) snc_org snc_org_update,
     fld ''project'' (sd_opt sd_str) snc_project snc_project_update, fld ''query'' sd_str snc_query snc_query_update,
     fld ''workflow'' sd_str snc_workflow snc_workflow_update]"

record memory_config =
  mmc_history :: bool
  mmc_max_records :: nat
  mmc_max_chars :: nat
  mmc_active :: bool

definition memory_config_default :: memory_config where
  "memory_config_default = \<lparr> mmc_history = True, mmc_max_records = 8, mmc_max_chars = 6000, mmc_active = True \<rparr>"

definition sd_memory_config :: "memory_config serde" where
  "sd_memory_config = sd_struct memory_config_default [
     fld ''history'' sd_bool mmc_history mmc_history_update,
     fld ''max_records'' sd_u64 mmc_max_records mmc_max_records_update,
     fld ''max_chars'' sd_u64 mmc_max_chars mmc_max_chars_update, fld ''active'' sd_bool mmc_active mmc_active_update]"

record config =
  co_version :: nat
  co_project :: project_config
  co_defaults :: defaults_config
  co_scheduler :: scheduler_config
  co_limits :: limits_config
  co_git :: git_config
  co_policy :: policy_config
  co_github :: github_config
  co_environment :: environment_config
  co_audit :: audit_config
  co_herdr :: herdr_config
  co_output :: output_config
  co_sandbox :: sandbox_config
  co_usage :: usage_config
  co_guard :: guard_config
  co_epic :: epic_config
  co_sentry :: sentry_config
  co_memory :: memory_config
  co_runners :: "(string, profile_config) btmap"
  co_checks :: "(string, string list) btmap"

definition config_default :: config where
  "config_default = \<lparr> co_version = 1, co_project = project_config_default, co_defaults = defaults_config_default,
     co_scheduler = scheduler_config_default, co_limits = limits_config_default, co_git = git_config_default,
     co_policy = policy_config_default, co_github = github_config_default, co_environment = environment_config_default,
     co_audit = audit_config_default, co_herdr = herdr_config_default, co_output = output_config_default,
     co_sandbox = sandbox_config_default, co_usage = usage_config_default, co_guard = guard_config_default,
     co_epic = epic_config_default, co_sentry = sentry_config_default, co_memory = memory_config_default,
     co_runners = [], co_checks = [] \<rparr>"

definition sd_config :: "config serde" where
  "sd_config = sd_struct config_default [
     fld ''version'' sd_u32 co_version co_version_update,
     fld ''project'' sd_project_config co_project co_project_update,
     fld ''defaults'' sd_defaults_config co_defaults co_defaults_update,
     fld ''scheduler'' sd_scheduler_config co_scheduler co_scheduler_update,
     fld ''limits'' sd_limits_config co_limits co_limits_update, fld ''git'' sd_git_config co_git co_git_update,
     fld ''policy'' sd_policy_config co_policy co_policy_update,
     fld ''github'' sd_github_config co_github co_github_update,
     fld ''environment'' sd_environment_config co_environment co_environment_update,
     fld ''audit'' sd_audit_config co_audit co_audit_update, fld ''herdr'' sd_herdr_config co_herdr co_herdr_update,
     fld ''output'' sd_output_config co_output co_output_update,
     fld ''sandbox'' sd_sandbox_config co_sandbox co_sandbox_update,
     fld ''usage'' sd_usage_config co_usage co_usage_update, fld ''guard'' sd_guard_config co_guard co_guard_update,
     fld ''epic'' sd_epic_config co_epic co_epic_update, fld ''sentry'' sd_sentry_config co_sentry co_sentry_update,
     fld ''memory'' sd_memory_config co_memory co_memory_update,
     fld ''runners'' (sd_map sd_profile_config) co_runners co_runners_update,
     fld ''checks'' (sd_map (sd_list sd_str)) co_checks co_checks_update]"

subsection \<open>Layers\<close>

text \<open>One value over another: objects are merged key by key, anything else replaces, and the lists of policy files
  of two layers are joined.\<close>

definition child_path :: "string \<Rightarrow> string \<Rightarrow> string" where
  "child_path path k = (if path = [] then k else path @ ''.'' @ k)"

definition joined_files :: "string \<Rightarrow> json \<Rightarrow> json \<Rightarrow> json option" where
  "joined_files child old new =
     (if child = ''policy.files''
      then (case (old, new) of (JArr xs, JArr ys) \<Rightarrow> Some (JArr (xs @ ys)) | _ \<Rightarrow> None) else None)"

fun deep_merge :: "string \<Rightarrow> json \<Rightarrow> json \<Rightarrow> json"
  and merge_entries :: "string \<Rightarrow> (string, json) btmap \<Rightarrow> (string \<times> json) list \<Rightarrow> (string, json) btmap"
where
  "deep_merge path base overlay = (case overlay of
       JObj es \<Rightarrow> (case base of JObj m \<Rightarrow> JObj (merge_entries path m es) | _ \<Rightarrow> overlay)
     | _ \<Rightarrow> overlay)"
| "merge_entries path m [] = m"
| "merge_entries path m ((k, v) # es) =
     merge_entries path
       (bt_insert k
         (case bt_get m k of
            None \<Rightarrow> v
          | Some old \<Rightarrow> (case joined_files (child_path path k) old v of
              Some j \<Rightarrow> j
            | None \<Rightarrow> deep_merge (child_path path k) old v)) m) es"

fun at_key :: "string \<Rightarrow> (json \<Rightarrow> json) \<Rightarrow> json \<Rightarrow> json" where
  "at_key k f (JObj m) = JObj (map (\<lambda>(n, x). (n, if n = k then f x else x)) m)"
| "at_key k f v = v"

definition at_policy_files :: "(json \<Rightarrow> json) \<Rightarrow> json \<Rightarrow> json" where
  "at_policy_files f v = at_key ''policy'' (at_key ''files'' f) v"

definition absolute_file :: "path \<Rightarrow> json \<Rightarrow> json" where
  "absolute_file dir v = (case v of JStr s \<Rightarrow> (if starts_with s ''/'' then v else JStr (path_push dir s)) | _ \<Rightarrow> v)"

definition absolutize_policy_files :: "path \<Rightarrow> json \<Rightarrow> json" where
  "absolutize_policy_files dir v =
     at_policy_files (\<lambda>fs. case fs of JArr xs \<Rightarrow> JArr (map (absolute_file dir) xs) | _ \<Rightarrow> fs) v"

definition replaces_global :: "json \<Rightarrow> bool" where
  "replaces_global v \<longleftrightarrow> json_index (json_index v ''policy'') ''replace_global'' = JBool True"

definition without_policy_files :: "json \<Rightarrow> json" where
  "without_policy_files v = at_policy_files (\<lambda>_. JArr []) v"

record config_files =
  cl_exists :: "path \<Rightarrow> bool"
  cl_read :: "path \<Rightarrow> string + string"
  cl_yaml :: "string \<Rightarrow> string + json"

definition is_object :: "json \<Rightarrow> bool" where
  "is_object v = (case v of JObj _ \<Rightarrow> True | _ \<Rightarrow> False)"

definition read_yaml_value :: "config_files \<Rightarrow> path \<Rightarrow> string + json" where
  "read_yaml_value cf p =
     sum_bind (with_context (''reading '' @ p) (cl_read cf p)) (\<lambda>s.
     if trim s = [] then Inr (JObj [])
     else
       sum_bind (with_context (''parsing '' @ p) (cl_yaml cf s)) (\<lambda>v.
       if is_object v then Inr v else Inl (p @ '' must contain a YAML mapping'')))"

record layer =
  ly_name :: string
  ly_path :: "path option"
  ly_value :: json

record loaded_config =
  lc_config :: config
  lc_layers :: "layer list"
  lc_policy_files :: "path list"
  lc_project_dir :: "path option"

subsection \<open>Where the files are\<close>

definition PLUGIN_ID :: string where
  "PLUGIN_ID = ''jpolec.herdr-orchestrator''"

record config_paths =
  cp_state_dir :: path
  cp_config_dir :: path
  cp_plugin_root :: "path option"
  cp_state_source :: string

definition app_dir :: "(string \<Rightarrow> string option) \<Rightarrow> string \<Rightarrow> path \<Rightarrow> path option" where
  "app_dir env var below =
     (case env var of
        Some d \<Rightarrow> Some (path_push d ''herdr'')
      | None \<Rightarrow> map_option (\<lambda>h. path_push h below) (env ''HOME''))"

definition state_dir_of :: "(string \<Rightarrow> string option) \<Rightarrow> string + path \<times> string" where
  "state_dir_of env =
     (case env ''HERDR_ORCH_STATE_DIR'' of
        Some d \<Rightarrow> Inr (d, ''HERDR_ORCH_STATE_DIR'')
      | None \<Rightarrow> (case env ''HERDR_PLUGIN_STATE_DIR'' of
          Some d \<Rightarrow> Inr (d, ''HERDR_PLUGIN_STATE_DIR'')
        | None \<Rightarrow> (case app_dir env ''XDG_STATE_HOME'' ''.local/state/herdr'' of
            None \<Rightarrow> Inl ''cannot determine state directory (HOME unset)''
          | Some b \<Rightarrow> Inr (path_push (path_push b ''plugins'') PLUGIN_ID, ''derived from Herdr layout''))))"

definition config_dir_of :: "(string \<Rightarrow> string option) \<Rightarrow> string + path" where
  "config_dir_of env =
     (case env ''HERDR_ORCH_CONFIG_DIR'' of
        Some d \<Rightarrow> Inr d
      | None \<Rightarrow> (case env ''HERDR_PLUGIN_CONFIG_DIR'' of
          Some d \<Rightarrow> Inr d
        | None \<Rightarrow> (case app_dir env ''XDG_CONFIG_HOME'' ''.config/herdr'' of
            None \<Rightarrow> Inl ''cannot determine config directory (HOME unset)''
          | Some b \<Rightarrow> Inr (path_push (path_push b ''plugins/config'') PLUGIN_ID))))"

definition discover_paths :: "(string \<Rightarrow> string option) \<Rightarrow> string + config_paths" where
  "discover_paths env =
     sum_bind (state_dir_of env) (\<lambda>(state, src).
     sum_bind (config_dir_of env) (\<lambda>dir.
     Inr \<lparr> cp_state_dir = state, cp_config_dir = dir, cp_plugin_root = env ''HERDR_PLUGIN_ROOT'', cp_state_source = src \<rparr>))"

definition global_config_file :: "config_paths \<Rightarrow> path" where
  "global_config_file ps = path_push (cp_config_dir ps) ''config.yaml''"

subsection \<open>Loading\<close>

definition token_char :: "char \<Rightarrow> bool" where
  "token_char c \<longleftrightarrow> is_ascii_alphanumeric c \<or> c = CHR ''_'' \<or> c = CHR ''-''"

definition validate_config :: "config \<Rightarrow> string + unit" where
  "validate_config c =
     (let tok = hc_sidebar_token (co_herdr c); most = epc_max_tasks (co_epic c) in
      if co_version c \<noteq> 1 then Inl (''unsupported config version '' @ nat_str (co_version c))
      else if ghc_auto_merge (co_github c) then
        Inl ''github.auto_merge: true is not supported; herdr-orchestrator never merges automatically''
      else if sc_max_parallel_runs (co_scheduler c) = 0 \<or> sc_max_parallel_agents (co_scheduler c) = 0 then
        Inl ''scheduler limits must be at least 1''
      else if li_max_agents_per_run (co_limits c) = 0 then Inl ''limits.max_agents_per_run must be at least 1''
      else
        sum_bind (validate_branch_prefix (gc_branch_prefix (co_git c))) (\<lambda>_.
        if tok \<noteq> [] \<and> (32 < length tok \<or> \<not> list_all token_char tok) then
          Inl (''herdr.sidebar_token must be 1-32 letters, digits, '_' or '-' (or empty to disable)'')
        else if most = 0 \<or> 50 < most then Inl ''epic.max_tasks must be between 1 and 50''
        else if ParentDir \<in> set (components (gc_worktree_root (co_git c))) then
          Inl (''git.worktree_root must not contain '' @ [CHR 0x27] @ ''..'' @ [CHR 0x27])
        else Inr ()))"

definition builtin_layer :: layer where
  "builtin_layer = \<lparr> ly_name = ''builtin'', ly_path = None, ly_value = fst sd_config config_default \<rparr>"

definition global_layers :: "config_files \<Rightarrow> config_paths \<Rightarrow> string + layer list" where
  "global_layers cf ps =
     (let p = global_config_file ps in
      if cl_exists cf p then
        sum_bind (read_yaml_value cf p) (\<lambda>v.
        Inr [\<lparr> ly_name = ''global'', ly_path = Some p, ly_value = absolutize_policy_files (cp_config_dir ps) v \<rparr>])
      else Inr [])"

definition project_file :: "config_files \<Rightarrow> path \<Rightarrow> path option" where
  "project_file cf dir = find (cl_exists cf) (map (path_push dir) [''config.yaml'', ''config.yml''])"

text \<open>The layers with the project's, which may drop the policy files of those before.\<close>

definition add_project :: "config_files \<Rightarrow> path \<Rightarrow> layer list \<Rightarrow> string + layer list" where
  "add_project cf repo ls =
     (case project_file cf (path_push repo PROJECT_DIR) of
        None \<Rightarrow> Inr ls
      | Some p \<Rightarrow>
          sum_bind (read_yaml_value cf p) (\<lambda>v0.
          let v = absolutize_policy_files repo v0;
              ls' = (if replaces_global v then map (\<lambda>l. l\<lparr> ly_value := without_policy_files (ly_value l) \<rparr>) ls else ls)
          in Inr (ls' @ [\<lparr> ly_name = ''project'', ly_path = Some p, ly_value = v \<rparr>])))"

definition all_layers ::
  "config_files \<Rightarrow> config_paths \<Rightarrow> path option \<Rightarrow> json option \<Rightarrow> string + layer list" where
  "all_layers cf ps repo cli =
     sum_bind (global_layers cf ps) (\<lambda>gs.
     sum_bind (case repo of None \<Rightarrow> Inr (builtin_layer # gs) | Some r \<Rightarrow> add_project cf r (builtin_layer # gs)) (\<lambda>ls.
     Inr (ls @ (case cli of None \<Rightarrow> [] | Some v \<Rightarrow> [\<lparr> ly_name = ''cli'', ly_path = None, ly_value = v \<rparr>]))))"

definition merge_layers :: "layer list \<Rightarrow> json" where
  "merge_layers ls = foldl (\<lambda>m l. deep_merge [] m (ly_value l)) (JObj []) ls"

fun distinct_paths :: "path list \<Rightarrow> path list \<Rightarrow> path list" where
  "distinct_paths [] seen = seen"
| "distinct_paths (p # ps) seen =
     distinct_paths ps (if list_ex (\<lambda>q. components q = components p) seen then seen else seen @ [p])"

definition load_layers :: "config_files \<Rightarrow> config_paths \<Rightarrow> path option \<Rightarrow> json option \<Rightarrow> string + loaded_config" where
  "load_layers cf ps repo cli =
     sum_bind (all_layers cf ps repo cli) (\<lambda>ls.
     sum_bind (case snd sd_config (merge_layers ls) of Some c \<Rightarrow> Inr c | None \<Rightarrow> Inl ''invalid configuration'') (\<lambda>c.
     sum_bind (validate_config c) (\<lambda>_.
     Inr \<lparr> lc_config = c, lc_layers = ls, lc_policy_files = distinct_paths (plc_files (co_policy c)) [],
       lc_project_dir = map_option (\<lambda>r. path_push r PROJECT_DIR) repo \<rparr>)))"

text \<open>What the engine and the driver of a run take from it.\<close>

definition engine_config_of :: "config \<Rightarrow> engine_config" where
  "engine_config_of c = \<lparr> ec_workflow = df_workflow (co_defaults c), ec_runner = df_runner (co_defaults c),
     ec_base_branch = df_base_branch (co_defaults c), ec_max_variants = li_max_variants (co_limits c),
     ec_avoid_conflicts = sc_avoid_conflicts (co_scheduler c), ec_herdr_mode = hc_mode (co_herdr c),
     ec_runners = co_runners c, ec_plan_max_tasks = epc_max_tasks (co_epic c),
     ec_planner_runner = epc_planner_runner (co_epic c), ec_task_workflow = epc_task_workflow (co_epic c),
     ec_dependency_mode = epc_dependency_mode (co_epic c) \<rparr>"

end
