(* ===== verification/Config_Facts.thy ===== *)
theory Config_Facts
  imports Config
begin

text \<open>
  What loading a configuration guarantees: a configuration that is written is read back, and the policy
  files of all layers are kept, in order.
\<close>

subsection \<open>Serializers\<close>

definition reads :: "('a \<Rightarrow> bool) \<Rightarrow> 'a serde \<Rightarrow> bool" where
  "reads P c \<longleftrightarrow> (\<forall>x. P x \<longrightarrow> snd c (fst c x) = Some x)"

definition never_null :: "'a serde \<Rightarrow> bool" where
  "never_null c \<longleftrightarrow> (\<forall>x. fst c x \<noteq> JNull)"

named_theorems reads_intros

lemma readsD: "reads P c \<Longrightarrow> P x \<Longrightarrow> snd c (fst c x) = Some x"
  by (simp add: reads_def)

lemma reads_plain [reads_intros]:
  "reads (\<lambda>_. True) sd_bool" "reads (\<lambda>_. True) sd_str" "reads (\<lambda>n. n < 2 ^ 32) sd_u32" "reads (\<lambda>n. n < 2 ^ 64) sd_u64"
  "reads (\<lambda>_. True) sd_f64"
  by (simp_all add: reads_def sd_bool_def sd_str_def sd_u32_def sd_u64_def sd_f64_def)

lemma never_null_plain [reads_intros]:
  "never_null sd_bool" "never_null sd_str" "never_null sd_u32" "never_null sd_u64" "never_null sd_f64" "never_null sd_duration"
  "never_null (sd_list c)"
  by (simp_all add: never_null_def sd_bool_def sd_str_def sd_u32_def sd_u64_def sd_f64_def sd_duration_def sd_list_def)

lemma all_some_map: "\<forall>x \<in> set xs. f x = Some x \<Longrightarrow> all_some (map f xs) = Some xs"
  by (induction xs) auto

lemma reads_opt [reads_intros]:
  "reads P c \<Longrightarrow> never_null c \<Longrightarrow> reads (\<lambda>x. \<forall>v. x = Some v \<longrightarrow> P v) (sd_opt c)"
  by (auto simp: reads_def sd_opt_def never_null_def split: option.splits)

lemma reads_list [reads_intros]: "reads P c \<Longrightarrow> reads (\<lambda>xs. \<forall>x \<in> set xs. P x) (sd_list c)"
  by (auto simp: reads_def sd_list_def o_def intro: all_some_map)

lemma reads_map [reads_intros]: "reads P c \<Longrightarrow> reads (\<lambda>m. \<forall>(k, x) \<in> set m. P x) (sd_map c)"
  by (auto simp: reads_def sd_map_def o_def split_def intro!: all_some_map)

lemma reads_enums [reads_intros]:
  "reads (\<lambda>_. True) sd_herdr_mode" "reads (\<lambda>_. True) sd_sandbox_kind" "reads (\<lambda>_. True) sd_dependency_mode"
proof -
  show "reads (\<lambda>_. True) sd_herdr_mode"
    unfolding reads_def sd_herdr_mode_def sd_enum_def by (intro allI impI) (case_tac x; simp)
  show "reads (\<lambda>_. True) sd_sandbox_kind"
    unfolding reads_def sd_sandbox_kind_def sd_enum_def by (intro allI impI) (case_tac x; simp)
  show "reads (\<lambda>_. True) sd_dependency_mode"
    unfolding reads_def sd_dependency_mode_def sd_enum_def by (intro allI impI) (case_tac x; simp)
qed

text \<open>Reading the fields of a struct that was written.\<close>

fun reread_fields :: "'r fields \<Rightarrow> 'r \<Rightarrow> 'r \<Rightarrow> 'r option" where
  "reread_fields [] r d = Some d"
| "reread_fields ((n, w, f) # fs) r d = Option.bind (f (w r) d) (reread_fields fs r)"

lemma get_object: "distinct (map fst kvs) \<Longrightarrow> (k, v) \<in> set kvs \<Longrightarrow> bt_get (bt_extend m kvs) k = Some v"
proof (induction kvs arbitrary: m)
  case (Cons p kvs)
  have other: "k \<notin> fst ` set kvs \<Longrightarrow> bt_get (bt_extend m kvs) k = bt_get m k" for m :: "('a, 'b) btmap"
    by (induction kvs arbitrary: m) (auto simp: bt_extend_def bt_get_insert)
  show ?case
  proof (cases "(k, v) = p")
    case True
    then have "k \<notin> fst ` set kvs" using Cons.prems(1) by (metis distinct.simps(2) fst_conv list.simps(9) list.set_map)
    then show ?thesis using other [of "bt_insert k v m"] by (simp add: True [symmetric] bt_extend_def bt_get_insert)
  next
    case False
    then show ?thesis using Cons by (simp add: bt_extend_def)
  qed
qed simp

lemma object_keys: "fst ` set (bt_extend m kvs) = fst ` set m \<union> fst ` set kvs"
proof (induction kvs arbitrary: m)
  case (Cons p kvs)
  then show ?case using bt_insert_keys [of "fst p" "snd p" m] by (auto simp: bt_extend_def image_iff split_def)
qed (simp add: bt_extend_def)

lemma read_fields_written:
  "(\<And>n w f. (n, w, f) \<in> set fs \<Longrightarrow> bt_get m n = Some (w r)) \<Longrightarrow> read_fields fs m d = reread_fields fs r d"
proof (induction fs arbitrary: d)
  case (Cons p fs)
  obtain n w f where p: "p = (n, w, f)" by (cases p)
  have "bt_get m n = Some (w r)" using Cons.prems [of n w f] p by simp
  then show ?case using Cons p by (cases "f (w r) d") auto
qed simp

lemma reads_struct:
  assumes "distinct (map fst fs)" and "\<And>r. P r \<Longrightarrow> reread_fields fs r d = Some r"
  shows "reads P (sd_struct d fs)"
proof -
  have "snd (sd_struct d fs) (fst (sd_struct d fs) r) = Some r" if "P r" for r
  proof -
    define kvs where "kvs = map (\<lambda>(n, w, _). (n, w r)) fs"
    have k: "map fst kvs = map fst fs" by (auto simp: kvs_def)
    have "\<forall>x \<in> set (bt_extend [] kvs). fst x \<in> set (map fst fs)"
      using object_keys [of "[]" kvs] k by (metis list.set_map Un_empty_left image_eqI image_empty list.set(1))
    then have v: "struct_values (map fst fs) (JObj (bt_extend [] kvs)) = Some (bt_extend [] kvs)"
      unfolding struct_values_def list_all_iff by force
    have "bt_get (bt_extend [] kvs) n = Some (w r)" if "(n, w, f) \<in> set fs" for n w f
    proof (rule get_object)
      show "distinct (map fst kvs)" using assms(1) k by simp
      show "(n, w r) \<in> set kvs" using that by (force simp: kvs_def)
    qed
    then have "read_fields fs (bt_extend [] kvs) d = reread_fields fs r d" by (rule read_fields_written)
    then show ?thesis using v assms(2) [OF that] by (simp add: sd_struct_def json_object_def kvs_def [symmetric])
  qed
  then show ?thesis by (simp add: reads_def)
qed

definition duration_ok :: "duration \<Rightarrow> bool" where
  "duration_ok d \<longleftrightarrow> (d mod 1000 = 0 \<or> d < 1000) \<and> d div 1000 * 1000 < 2 ^ 64"

lemma reads_duration [reads_intros]: "reads duration_ok sd_duration"
  by (simp add: reads_def sd_duration_def duration_ok_def duration_roundtrip)

text \<open>A value that was written is read back.\<close>

lemma reread_fld:
  "reread_fields (fld n c g u # fs) r d = (case snd c (fst c (g r)) of None \<Rightarrow> None | Some x \<Rightarrow> reread_fields fs r (u (\<lambda>_. x) d))"
  by (simp add: fld_def bind_map_option split: option.split)

lemmas back_plain =
  reads_plain [THEN readsD, simplified] reads_enums [THEN readsD, simplified] reads_duration [THEN readsD]
  reads_opt [OF reads_plain(2) never_null_plain(2), THEN readsD, simplified]
  reads_opt [OF reads_plain(4) never_null_plain(4), THEN readsD]
  reads_opt [OF reads_plain(5) never_null_plain(5), THEN readsD, simplified]
  reads_opt [OF reads_duration never_null_plain(6), THEN readsD]
  reads_list [OF reads_plain(2), THEN readsD, simplified]
  reads_opt [OF reads_list [OF reads_plain(2)] never_null_plain(7), THEN readsD, simplified]
  reads_map [OF reads_plain(2), THEN readsD, simplified]
  reads_map [OF reads_list [OF reads_plain(2)], THEN readsD, simplified]

lemma reads_environment_config: "reads (\<lambda>_. True) sd_environment_config"
  unfolding sd_environment_config_def
proof (rule reads_struct, goal_cases)
  case (2 c)
  then show ?case by (cases c) (simp add: reread_fld back_plain)
qed (simp add: fld_def)

definition watchdog_config_ok :: "watchdog_config \<Rightarrow> bool" where
  "watchdog_config_ok c \<longleftrightarrow> duration_ok (wc_check_every c) \<and> duration_ok (wc_stall_after c) \<and> duration_ok (wc_idle_after c) \<and> wc_burn_tokens c < 2 ^ 64 \<and> wc_repeat_threshold c < 2 ^ 32"

lemma reads_watchdog_config: "reads watchdog_config_ok sd_watchdog_config"
  unfolding sd_watchdog_config_def
proof (rule reads_struct, goal_cases)
  case (2 c)
  then show ?case by (cases c) (simp add: reread_fld back_plain watchdog_config_ok_def)
qed (simp add: fld_def)

lemma reads_profile_config: "reads (\<lambda>_. True) sd_profile_config"
  unfolding sd_profile_config_def
proof (rule reads_struct, goal_cases)
  case (2 c)
  then show ?case by (cases c) (simp add: reread_fld back_plain)
qed (simp add: fld_def)

lemma reads_project_config: "reads (\<lambda>_. True) sd_project_config"
  unfolding sd_project_config_def
proof (rule reads_struct, goal_cases)
  case (2 c)
  then show ?case by (cases c) (simp add: reread_fld back_plain)
qed (simp add: fld_def)

lemma reads_defaults_config: "reads (\<lambda>_. True) sd_defaults_config"
  unfolding sd_defaults_config_def
proof (rule reads_struct, goal_cases)
  case (2 c)
  then show ?case by (cases c) (simp add: reread_fld back_plain)
qed (simp add: fld_def)

definition scheduler_config_ok :: "scheduler_config \<Rightarrow> bool" where
  "scheduler_config_ok c \<longleftrightarrow> sc_max_parallel_runs c < 2 ^ 64 \<and> sc_max_parallel_agents c < 2 ^ 64 \<and> sc_poll_interval_ms c < 2 ^ 64"

lemma reads_scheduler_config: "reads scheduler_config_ok sd_scheduler_config"
  unfolding sd_scheduler_config_def
proof (rule reads_struct, goal_cases)
  case (2 c)
  then show ?case by (cases c) (simp add: reread_fld back_plain scheduler_config_ok_def)
qed (simp add: fld_def)

definition limits_config_ok :: "limits_config \<Rightarrow> bool" where
  "limits_config_ok c \<longleftrightarrow> li_max_agents_per_run c < 2 ^ 64 \<and> duration_ok (li_max_runtime c) \<and> li_max_retries c < 2 ^ 32 \<and> li_max_variants c < 2 ^ 32 \<and> (\<forall>n. li_max_tokens c = Some n \<longrightarrow> n < 2 ^ 64) \<and> duration_ok (li_agent_timeout c) \<and> duration_ok (li_command_timeout c) \<and> duration_ok (li_agent_startup_timeout c) \<and> (\<forall>d. li_approval_timeout c = Some d \<longrightarrow> duration_ok d)"

lemma reads_limits_config: "reads limits_config_ok sd_limits_config"
  unfolding sd_limits_config_def
proof (rule reads_struct, goal_cases)
  case (2 c)
  then show ?case by (cases c) (simp add: reread_fld back_plain limits_config_ok_def)
qed (simp add: fld_def)

lemma reads_git_config: "reads (\<lambda>_. True) sd_git_config"
  unfolding sd_git_config_def
proof (rule reads_struct, goal_cases)
  case (2 c)
  then show ?case by (cases c) (simp add: reread_fld back_plain)
qed (simp add: fld_def)

lemma reads_policy_config: "reads (\<lambda>_. True) sd_policy_config"
  unfolding sd_policy_config_def
proof (rule reads_struct, goal_cases)
  case (2 c)
  then show ?case by (cases c) (simp add: reread_fld back_plain)
qed (simp add: fld_def)

lemma reads_tracker_config: "reads (\<lambda>_. True) sd_tracker_config"
  unfolding sd_tracker_config_def
proof (rule reads_struct, goal_cases)
  case (2 c)
  then show ?case by (cases c) (simp add: reread_fld back_plain)
qed (simp add: fld_def)

definition github_config_ok :: "github_config \<Rightarrow> bool" where
  "github_config_ok c \<longleftrightarrow> duration_ok (ghc_watch_interval c)"

lemma reads_github_config: "reads github_config_ok sd_github_config"
  unfolding sd_github_config_def
proof (rule reads_struct, goal_cases)
  case (2 c)
  then show ?case by (cases c) (simp add: reread_fld back_plain github_config_ok_def reads_tracker_config [THEN readsD])
qed (simp add: fld_def)

lemma reads_audit_config: "reads (\<lambda>_. True) sd_audit_config"
  unfolding sd_audit_config_def
proof (rule reads_struct, goal_cases)
  case (2 c)
  then show ?case by (cases c) (simp add: reread_fld back_plain)
qed (simp add: fld_def)

definition herdr_config_ok :: "herdr_config \<Rightarrow> bool" where
  "herdr_config_ok c \<longleftrightarrow> duration_ok (hc_settle_window c)"

lemma reads_herdr_config: "reads herdr_config_ok sd_herdr_config"
  unfolding sd_herdr_config_def
proof (rule reads_struct, goal_cases)
  case (2 c)
  then show ?case by (cases c) (simp add: reread_fld back_plain herdr_config_ok_def)
qed (simp add: fld_def)

definition output_config_ok :: "output_config \<Rightarrow> bool" where
  "output_config_ok c \<longleftrightarrow> oc_excerpt_head_lines c < 2 ^ 64 \<and> oc_excerpt_tail_lines c < 2 ^ 64 \<and> oc_feedback_max_bytes c < 2 ^ 64 \<and> oc_pane_read_lines c < 2 ^ 32"

lemma reads_output_config: "reads output_config_ok sd_output_config"
  unfolding sd_output_config_def
proof (rule reads_struct, goal_cases)
  case (2 c)
  then show ?case by (cases c) (simp add: reread_fld back_plain output_config_ok_def)
qed (simp add: fld_def)

lemma reads_sandbox_config: "reads (\<lambda>_. True) sd_sandbox_config"
  unfolding sd_sandbox_config_def
proof (rule reads_struct, goal_cases)
  case (2 c)
  then show ?case by (cases c) (simp add: reread_fld back_plain)
qed (simp add: fld_def)

lemma reads_usage_config: "reads (\<lambda>_. True) sd_usage_config"
  unfolding sd_usage_config_def
proof (rule reads_struct, goal_cases)
  case (2 c)
  then show ?case by (cases c) (simp add: reread_fld back_plain)
qed (simp add: fld_def)

definition guard_config_ok :: "guard_config \<Rightarrow> bool" where
  "guard_config_ok c \<longleftrightarrow> watchdog_config_ok (gdc_watchdog c) \<and> gdc_learn_reminder c < 2 ^ 64"

lemma reads_guard_config: "reads guard_config_ok sd_guard_config"
  unfolding sd_guard_config_def
proof (rule reads_struct, goal_cases)
  case (2 c)
  then show ?case by (cases c) (simp add: reread_fld back_plain guard_config_ok_def reads_watchdog_config [THEN readsD])
qed (simp add: fld_def)

definition epic_config_ok :: "epic_config \<Rightarrow> bool" where
  "epic_config_ok c \<longleftrightarrow> epc_max_tasks c < 2 ^ 64"

lemma reads_epic_config: "reads epic_config_ok sd_epic_config"
  unfolding sd_epic_config_def
proof (rule reads_struct, goal_cases)
  case (2 c)
  then show ?case by (cases c) (simp add: reread_fld back_plain epic_config_ok_def)
qed (simp add: fld_def)

lemma reads_sentry_config: "reads (\<lambda>_. True) sd_sentry_config"
  unfolding sd_sentry_config_def
proof (rule reads_struct, goal_cases)
  case (2 c)
  then show ?case by (cases c) (simp add: reread_fld back_plain)
qed (simp add: fld_def)

definition memory_config_ok :: "memory_config \<Rightarrow> bool" where
  "memory_config_ok c \<longleftrightarrow> mmc_max_records c < 2 ^ 64 \<and> mmc_max_chars c < 2 ^ 64"

lemma reads_memory_config: "reads memory_config_ok sd_memory_config"
  unfolding sd_memory_config_def
proof (rule reads_struct, goal_cases)
  case (2 c)
  then show ?case by (cases c) (simp add: reread_fld back_plain memory_config_ok_def)
qed (simp add: fld_def)

text \<open>The numbers of a configuration are within their types, and its durations are whole seconds, or less than one.\<close>

definition config_ok :: "config \<Rightarrow> bool" where
  "config_ok c \<longleftrightarrow> co_version c < 2 ^ 32 \<and> scheduler_config_ok (co_scheduler c) \<and> limits_config_ok (co_limits c)
     \<and> github_config_ok (co_github c) \<and> herdr_config_ok (co_herdr c) \<and> output_config_ok (co_output c)
     \<and> guard_config_ok (co_guard c) \<and> epic_config_ok (co_epic c) \<and> memory_config_ok (co_memory c)"

lemma reads_config: "reads config_ok sd_config"
  unfolding sd_config_def
proof (rule reads_struct, goal_cases)
  case (2 c)
  then show ?case by (cases c) (simp add: reread_fld back_plain config_ok_def
      reads_project_config [THEN readsD] reads_defaults_config [THEN readsD] reads_scheduler_config
      [THEN readsD] reads_limits_config [THEN readsD] reads_git_config [THEN readsD]
      reads_policy_config [THEN readsD] reads_github_config [THEN readsD] reads_environment_config
      [THEN readsD] reads_audit_config [THEN readsD] reads_herdr_config [THEN readsD]
      reads_output_config [THEN readsD] reads_sandbox_config [THEN readsD] reads_usage_config [THEN
      readsD] reads_guard_config [THEN readsD] reads_epic_config [THEN readsD] reads_sentry_config
      [THEN readsD] reads_memory_config [THEN readsD] reads_map [OF reads_profile_config, THEN readsD])
qed (simp add: fld_def)


lemma default_config_ok: "config_ok config_default"
  by (simp add: config_ok_def config_default_def duration_ok_def watchdog_config_default_def watchdog_config_ok_def
      scheduler_config_ok_def limits_config_ok_def github_config_ok_def herdr_config_ok_def
      output_config_ok_def guard_config_ok_def epic_config_ok_def memory_config_ok_def
      scheduler_config_default_def limits_config_default_def github_config_default_def
      herdr_config_default_def output_config_default_def guard_config_default_def epic_config_default_def
      memory_config_default_def)


subsection \<open>Policy files\<close>

definition policy_entries :: "json \<Rightarrow> json list" where
  "policy_entries v = (case json_index (json_index v ''policy'') ''files'' of JArr xs \<Rightarrow> xs | _ \<Rightarrow> [])"

text \<open>The policy section, where there is one, is an object, and its files, where they are given, are a list.\<close>

definition policy_shape :: "json \<Rightarrow> bool" where
  "policy_shape v \<longleftrightarrow> (\<exists>m. v = JObj m \<and> (\<forall>p. bt_get m ''policy'' = Some p \<longrightarrow>
     (\<exists>q. p = JObj q \<and> (\<forall>f. bt_get q ''files'' = Some f \<longrightarrow> (\<exists>xs. f = JArr xs)))))"

definition flat_keys :: "json \<Rightarrow> bool" where
  "flat_keys v \<longleftrightarrow> (case v of JObj q \<Rightarrow> distinct (map fst q) | _ \<Rightarrow> True)"

fun distinct_keys :: "json \<Rightarrow> bool" where
  "distinct_keys (JObj m) = (distinct (map fst m) \<and> list_all (\<lambda>(_, v). flat_keys v) m)"
| "distinct_keys _ = True"

definition merged :: "string \<Rightarrow> json option \<Rightarrow> json \<Rightarrow> json" where
  "merged child old v = (case old of
       None \<Rightarrow> v
     | Some x \<Rightarrow> (case joined_files child x v of Some j \<Rightarrow> j | None \<Rightarrow> deep_merge child x v))"

lemma merge_entries_step:
  "merge_entries path m ((k, v) # es) = merge_entries path (bt_insert k (merged (child_path path k) (bt_get m k) v) m) es"
  by (simp add: merged_def)

declare deep_merge.simps [simp del] merge_entries.simps(2) [simp del]

lemma get_merge:
  "distinct (map fst es) \<Longrightarrow> bt_get (merge_entries path m es) k
    = (case bt_get es k of None \<Rightarrow> bt_get m k | Some v \<Rightarrow> Some (merged (child_path path k) (bt_get m k) v))"
proof (induction es arbitrary: m)
  case (Cons e es)
  obtain j v where e: "e = (j, v)" by (cases e)
  have j: "bt_get es j = None" using Cons.prems e by (simp add: bt_get_def map_of_eq_None_iff)
  have c: "bt_get (e # es) k = (if k = j then Some v else bt_get es k)" by (simp add: bt_get_def e)
  show ?case
  proof (cases "k = j")
    case True
    then show ?thesis using Cons e j c by (simp add: merge_entries_step bt_get_insert)
  next
    case False
    then show ?thesis using Cons e c by (simp add: merge_entries_step bt_get_insert cong: option.case_cong)
  qed
qed (simp add: bt_get_def)

lemma merge_policy:
  assumes "policy_shape a" and "policy_shape v" and "distinct_keys v"
  shows "policy_shape (deep_merge [] a v) \<and> policy_entries (deep_merge [] a v) = policy_entries a @ policy_entries v"
proof -
  obtain m es where a: "a = JObj m" and v: "v = JObj es" using assms(1,2) unfolding policy_shape_def by blast
  have d: "distinct (map fst es)" using assms(3) v by simp
  let ?p = "bt_get (merge_entries [] m es) ''policy''"
  have p: "?p = (case bt_get es ''policy'' of None \<Rightarrow> bt_get m ''policy''
      | Some x \<Rightarrow> Some (merged ''policy'' (bt_get m ''policy'') x))"
    using get_merge [OF d, of "[]" m "''policy''"] by (simp add: child_path_def cong: option.case_cong)
  show ?thesis
  proof (cases "bt_get es ''policy''")
    case None
    then show ?thesis using assms(1) a v p by (simp add: policy_shape_def policy_entries_def json_index_def deep_merge.simps)
  next
    case new: (Some x)
    then obtain q' where x: "x = JObj q'" using assms(2) v by (auto simp: policy_shape_def)
    show ?thesis
    proof (cases "bt_get m ''policy''")
      case None
      then show ?thesis using assms(2) a v p new by (simp add: policy_shape_def policy_entries_def json_index_def merged_def deep_merge.simps)
    next
      case old: (Some y)
      then obtain q where y: "y = JObj q" using assms(1) a by (auto simp: policy_shape_def)
      have dq: "distinct (map fst q')" using assms(3) v x new by (auto simp: bt_get_def list_all_iff flat_keys_def dest!: map_of_SomeD)
      have "?p = Some (JObj (merge_entries ''policy'' q q'))"
        using p new old x y by (simp add: merged_def joined_files_def deep_merge.simps)
      moreover have "bt_get (merge_entries ''policy'' q q') ''files'' = (case bt_get q' ''files'' of None \<Rightarrow> bt_get q ''files''
          | Some f \<Rightarrow> Some (merged ''policy.files'' (bt_get q ''files'') f))"
        using get_merge [OF dq, of "''policy''" q "''files''"] by (simp add: child_path_def cong: option.case_cong)
      moreover have "\<forall>f. bt_get q ''files'' = Some f \<longrightarrow> (\<exists>xs. f = JArr xs)" "\<forall>f. bt_get q' ''files'' = Some f \<longrightarrow> (\<exists>xs. f = JArr xs)"
        using assms(1,2) a v x y new old by (auto simp: policy_shape_def)
      ultimately show ?thesis using a v x y new old
        by (cases "bt_get q ''files''"; cases "bt_get q' ''files''")
          (auto simp: policy_shape_def policy_entries_def json_index_def merged_def joined_files_def deep_merge.simps)
    qed
  qed
qed

lemma merge_layers_policy:
  "\<forall>l \<in> set ls. policy_shape (ly_value l) \<and> distinct_keys (ly_value l) \<Longrightarrow>
    policy_shape (merge_layers ls) \<and> policy_entries (merge_layers ls) = concat (map (\<lambda>l. policy_entries (ly_value l)) ls)"
proof (induction ls rule: rev_induct)
  case Nil
  then show ?case by (simp add: merge_layers_def policy_shape_def policy_entries_def json_index_def bt_get_def)
next
  case (snoc l ls)
  then show ?case using merge_policy [of "merge_layers ls" "ly_value l"] by (simp add: merge_layers_def)
qed

text \<open>The policy files of a configuration that was read.\<close>

lemma read_fields_append: "read_fields (fs @ gs) m d = Option.bind (read_fields fs m d) (read_fields gs m)"
proof (induction fs arbitrary: d)
  case (Cons p fs)
  obtain n w f where "p = (n, w, f)" by (cases p)
  then show ?case using Cons by (cases "case bt_get m n of None \<Rightarrow> Some d | Some v \<Rightarrow> f v d") auto
qed simp

lemma read_fields_keep:
  assumes "\<forall>(n, w, f) \<in> set fs. \<forall>v r r'. f v r = Some r' \<longrightarrow> g r' = g r"
  shows "read_fields fs m r = Some r' \<Longrightarrow> g r' = g r"
  using assms
proof (induction fs arbitrary: r)
  case (Cons p fs)
  obtain n w f where p: "p = (n, w, f)" by (cases p)
  obtain r1 where 1: "(case bt_get m n of None \<Rightarrow> Some r | Some v \<Rightarrow> f v r) = Some r1" and 2: "read_fields fs m r1 = Some r'"
    using Cons.prems(1) p by (auto simp: bind_eq_Some_conv)
  have "g r1 = g r" using 1 Cons.prems(2) p by (auto split: option.splits)
  then show ?case using Cons.IH [OF 2] Cons.prems(2) by simp
qed simp

lemma read_field:
  assumes "read_fields (fs @ (n, w, f) # gs) m d = Some r" and "\<forall>(n, w, f) \<in> set gs. \<forall>v r r'. f v r = Some r' \<longrightarrow> g r' = g r"
    and "\<And>v r r'. f v r = Some r' \<Longrightarrow> snd c v = Some (g r')" and "bt_get m n = Some v"
  shows "snd c v = Some (g r)"
proof -
  obtain r1 r2 where "f v r1 = Some r2" "read_fields gs m r2 = Some r"
    using assms(1,4) by (auto simp: read_fields_append bind_eq_Some_conv)
  then show ?thesis using assms(3) read_fields_keep [OF assms(2)] by metis
qed

lemma all_some_strings: "all_some (map json_as_str xs) = Some ys \<Longrightarrow> map JStr ys = xs"
proof (induction xs arbitrary: ys)
  case (Cons x xs)
  then show ?case by (cases x) (auto simp: bind_eq_Some_conv)
qed simp


lemma policy_files_read:
  assumes "snd sd_policy_config p = Some c" and "p = JObj q"
  shows "map JStr (plc_files c) = (case bt_get q ''files'' of Some (JArr xs) \<Rightarrow> xs | _ \<Rightarrow> [])"
proof -
  define gs :: "policy_config fields" where "gs = [fld ''builtin_default'' sd_bool plc_builtin_default plc_builtin_default_update,
     fld ''replace_global'' sd_bool plc_replace_global plc_replace_global_update]"
  have g: "\<forall>(n, w, f) \<in> set gs. \<forall>v r r'. f v r = Some r' \<longrightarrow> plc_files r' = plc_files r"
    by (auto simp: gs_def fld_def)
  have r: "read_fields ([] @ fld ''files'' (sd_list sd_str) plc_files plc_files_update # gs) q policy_config_default = Some c"
    using assms by (auto simp: sd_policy_config_def sd_struct_def struct_values_def bind_eq_Some_conv gs_def split: if_splits)
  show ?thesis
  proof (cases "bt_get q ''files''")
    case None
    then have "read_fields gs q policy_config_default = Some c" using r by (simp add: fld_def)
    then have "plc_files c = plc_files policy_config_default" by (rule read_fields_keep [OF g])
    then show ?thesis using None by (simp add: policy_config_default_def)
  next
    case (Some v)
    have "snd (sd_list sd_str) v = Some (plc_files c)"
      by (rule read_field [OF r [unfolded fld_def] g, of "sd_list sd_str" v]) (auto simp: Some)
    then show ?thesis using Some all_some_strings by (auto simp: sd_list_def sd_str_def split: json.splits)
  qed
qed

lemma config_files_read:
  assumes "snd sd_config v = Some c" and "policy_shape v"
  shows "map JStr (plc_files (co_policy c)) = policy_entries v"
proof -
  define fs :: "config fields" where "fs = [fld ''version'' sd_u32 co_version co_version_update,
     fld ''project'' sd_project_config co_project co_project_update,
     fld ''defaults'' sd_defaults_config co_defaults co_defaults_update,
     fld ''scheduler'' sd_scheduler_config co_scheduler co_scheduler_update,
     fld ''limits'' sd_limits_config co_limits co_limits_update, fld ''git'' sd_git_config co_git co_git_update]"
  define gs :: "config fields" where "gs = [fld ''github'' sd_github_config co_github co_github_update,
     fld ''environment'' sd_environment_config co_environment co_environment_update,
     fld ''audit'' sd_audit_config co_audit co_audit_update, fld ''herdr'' sd_herdr_config co_herdr co_herdr_update,
     fld ''output'' sd_output_config co_output co_output_update, fld ''sandbox'' sd_sandbox_config co_sandbox co_sandbox_update,
     fld ''usage'' sd_usage_config co_usage co_usage_update, fld ''guard'' sd_guard_config co_guard co_guard_update,
     fld ''epic'' sd_epic_config co_epic co_epic_update, fld ''sentry'' sd_sentry_config co_sentry co_sentry_update,
     fld ''memory'' sd_memory_config co_memory co_memory_update,
     fld ''runners'' (sd_map sd_profile_config) co_runners co_runners_update,
     fld ''checks'' (sd_map (sd_list sd_str)) co_checks co_checks_update]"
  have eq: "sd_config = sd_struct config_default (fs @ fld ''policy'' sd_policy_config co_policy co_policy_update # gs)"
    by (simp add: sd_config_def fs_def gs_def)
  obtain m where v: "v = JObj m" and p: "\<forall>p. bt_get m ''policy'' = Some p \<longrightarrow>
     (\<exists>q. p = JObj q \<and> (\<forall>f. bt_get q ''files'' = Some f \<longrightarrow> (\<exists>xs. f = JArr xs)))"
    using assms(2) unfolding policy_shape_def by blast
  have r: "read_fields (fs @ fld ''policy'' sd_policy_config co_policy co_policy_update # gs) m config_default = Some c"
    using assms(1) v unfolding eq by (auto simp: sd_struct_def struct_values_def bind_eq_Some_conv split: if_splits)
  have f: "\<forall>(n, w, f) \<in> set fs. \<forall>v r r'. f v r = Some r' \<longrightarrow> co_policy r' = co_policy r"
    by (auto simp: fs_def fld_def)
  have g: "\<forall>(n, w, f) \<in> set gs. \<forall>v r r'. f v r = Some r' \<longrightarrow> co_policy r' = co_policy r"
    by (auto simp: gs_def fld_def)
  show ?thesis
  proof (cases "bt_get m ''policy''")
    case None
    from r obtain r1 where r1: "read_fields fs m config_default = Some r1"
        "read_fields (fld ''policy'' sd_policy_config co_policy co_policy_update # gs) m r1 = Some c"
      by (auto simp: read_fields_append bind_eq_Some_conv)
    from r1(2) None have "read_fields gs m r1 = Some c" by (simp add: fld_def)
    with r1(1) have "read_fields (fs @ gs) m config_default = Some c" by (simp add: read_fields_append)
    moreover have "\<forall>(n, w, f) \<in> set (fs @ gs). \<forall>v r r'. f v r = Some r' \<longrightarrow> co_policy r' = co_policy r"
      using f g by auto
    ultimately have "co_policy c = co_policy config_default"
      using read_fields_keep [of "fs @ gs" co_policy] by blast
    then show ?thesis using None v
      by (simp add: config_default_def policy_config_default_def policy_entries_def json_index_def)
  next
    case (Some x)
    then obtain q where q: "x = JObj q" using p by blast
    have "snd sd_policy_config x = Some (co_policy c)"
      by (rule read_field [OF r [unfolded fld_def] g, of sd_policy_config x]) (auto simp: Some)
    then show ?thesis using policy_files_read [of x "co_policy c" q] q Some v p
      by (auto simp: policy_entries_def json_index_def split: option.splits)
  qed
qed

lemma distinct_paths_seen: "set seen \<subseteq> set (distinct_paths ps seen)"
  by (induction ps seen rule: distinct_paths.induct) auto

lemma distinct_paths_covers: "p \<in> set ps \<Longrightarrow> \<exists>q \<in> set (distinct_paths ps seen). components q = components p"
proof (induction ps seen rule: distinct_paths.induct)
  case (2 p' ps seen)
  define s where "s = (if list_ex (\<lambda>q. components q = components p') seen then seen else seen @ [p'])"
  have "\<exists>q \<in> set s. components q = components p'" by (auto simp: s_def list_ex_iff)
  then have "\<exists>q \<in> set (distinct_paths ps s). components q = components p'" using distinct_paths_seen by blast
  then show ?case using 2 by (auto simp: s_def [symmetric])
qed simp


subsection \<open>An example\<close>

definition sample_config_files :: config_files where
  "sample_config_files = \<lparr> cl_exists = (\<lambda>p. p \<in> {''/c/config.yaml'', ''/r/.ai/herdr-orchestrator/config.yaml''}), cl_read = Inr,
     cl_yaml = (\<lambda>s. Inr (JObj [(''policy'', JObj [(''files'',
       JArr (if s = ''/c/config.yaml'' then [JStr ''p.yaml''] else [JStr ''q.yaml'', JStr ''/c/p.yaml'']))])])) \<rparr>"
definition sample_paths :: config_paths where
  "sample_paths = \<lparr> cp_state_dir = ''/s'', cp_config_dir = ''/c'', cp_plugin_root = None, cp_state_source = [] \<rparr>"
definition sample_layer :: "string list \<Rightarrow> json" where
  "sample_layer fs = JObj [(''policy'', JObj [(''files'', JArr (map JStr fs))])]"

lemma written_over_nothing: "deep_merge [] (JObj []) (fst sd_config c) = fst sd_config c"
  by (simp add: sd_config_def sd_struct_def fld_def json_object_def bt_extend_def deep_merge.simps
     merge_entries_step merged_def bt_get_def)
lemma files_over_written: "deep_merge [] (fst sd_config c) (sample_layer fs)
   = fst sd_config (c\<lparr> co_policy := (co_policy c)\<lparr> plc_files := plc_files (co_policy c) @ fs \<rparr> \<rparr>)"
  by (simp add: sd_config_def sd_policy_config_def sample_layer_def sd_struct_def fld_def json_object_def bt_extend_def deep_merge.simps
     merge_entries_step merged_def bt_get_def child_path_def joined_files_def sd_list_def sd_str_def)
lemma sample_all_layers:
  "all_layers sample_config_files sample_paths (Some ''/r'') None = Inr [builtin_layer,
    \<lparr> ly_name = ''global'', ly_path = Some ''/c/config.yaml'', ly_value = sample_layer [''/c/p.yaml''] \<rparr>,
    \<lparr> ly_name = ''project'', ly_path = Some ''/r/.ai/herdr-orchestrator/config.yaml'', ly_value = sample_layer [''/r/q.yaml'', ''/c/p.yaml''] \<rparr>]"
proof -
  have "global_layers sample_config_files sample_paths = Inr [\<lparr> ly_name = ''global'', ly_path = Some ''/c/config.yaml'', ly_value = sample_layer [''/c/p.yaml''] \<rparr>]"
    by code_simp
  moreover have "add_project sample_config_files ''/r'' ls = Inr (ls @ [\<lparr> ly_name = ''project'', ly_path = Some ''/r/.ai/herdr-orchestrator/config.yaml'', ly_value = sample_layer [''/r/q.yaml'', ''/c/p.yaml''] \<rparr>])" for ls
    by code_simp
  ultimately show ?thesis by (simp add: all_layers_def)
qed
lemma valid_defaults: "validate_config (config_default\<lparr> co_policy := p \<rparr>) = Inr ()"
proof -
  have "validate_branch_prefix (gc_branch_prefix git_config_default) = Inr ()"
    "ParentDir \<notin> set (components (gc_worktree_root git_config_default))"
    "list_all token_char (hc_sidebar_token herdr_config_default)"
    by code_simp+
  moreover have "length (hc_sidebar_token herdr_config_default) \<le> 32" by (simp add: herdr_config_default_def)
  ultimately show ?thesis
    by (simp add: validate_config_def Let_def config_default_def scheduler_config_default_def limits_config_default_def
        github_config_default_def epic_config_default_def)
qed

lemma written_ok: "bt_ok m \<Longrightarrow> bt_ok (bt_extend m kvs)"
  by (induction kvs arbitrary: m) (auto simp: bt_extend_def bt_ok_insert)

lemma flat_struct: "flat_keys (fst (sd_struct d fs) r)"
proof -
  have "bt_ok (bt_extend [] (map (\<lambda>(n, w, _). (n, w r)) fs))" by (rule written_ok) (simp add: bt_ok_def)
  then show ?thesis by (simp add: flat_keys_def sd_struct_def json_object_def bt_ok_def strict_sorted_iff)
qed

lemma flat_sections:
  "flat_keys (fst sd_project_config xa)"
  "flat_keys (fst sd_defaults_config xb)"
  "flat_keys (fst sd_scheduler_config xc)"
  "flat_keys (fst sd_limits_config xd)"
  "flat_keys (fst sd_git_config xe)"
  "flat_keys (fst sd_policy_config xf)"
  "flat_keys (fst sd_github_config xg)"
  "flat_keys (fst sd_environment_config xh)"
  "flat_keys (fst sd_audit_config xi)"
  "flat_keys (fst sd_herdr_config xj)"
  "flat_keys (fst sd_output_config xk)"
  "flat_keys (fst sd_sandbox_config xl)"
  "flat_keys (fst sd_usage_config xm)"
  "flat_keys (fst sd_guard_config xn)"
  "flat_keys (fst sd_epic_config xo)"
  "flat_keys (fst sd_sentry_config xp)"
  "flat_keys (fst sd_memory_config xq)"
  by (simp_all only: flat_struct sd_project_config_def sd_defaults_config_def sd_scheduler_config_def sd_limits_config_def sd_git_config_def sd_policy_config_def sd_github_config_def sd_environment_config_def sd_audit_config_def sd_herdr_config_def sd_output_config_def sd_sandbox_config_def sd_usage_config_def sd_guard_config_def sd_epic_config_def sd_sentry_config_def sd_memory_config_def)

lemma sample_shapes: "policy_shape (sample_layer fs)" "distinct_keys (sample_layer fs)" "policy_shape (fst sd_config c)"
  by (simp_all add: policy_shape_def sample_layer_def bt_get_def sd_config_def sd_policy_config_def sd_struct_def fld_def
     json_object_def bt_extend_def sd_list_def flat_keys_def)

lemma default_keys: "distinct_keys (fst sd_config config_default)"
  by (simp add: sd_config_def sd_struct_def fld_def json_object_def bt_extend_def flat_sections)
    (simp add: flat_keys_def sd_u32_def sd_map_def config_default_def)


end
