(* ===== verification/Process.thy ===== *)
theory Process
  imports Config Command_Step
begin

text \<open>
  Child processes, \<open>src/process.rs\<close>: what is kept of their output, what reaches the log, when they are waited
  for and when they are ended, and the short calls of tools. What the operating system answers, the bytes a
  process writes and the clock are parameters; a wait that never ends has no value.
\<close>

subsection \<open>What is started\<close>

record process_spec =
  sp_argv :: "string list"
  sp_cwd :: path
  sp_env :: "(string, string) btmap"
  sp_stdin :: "string option"
  sp_timeout :: "duration option"
  sp_log_path :: "path option"
  sp_kill_grace :: duration

definition TOOL_VARIABLES :: "string list" where
  "TOOL_VARIABLES = [''GH_*'', ''GITHUB_TOKEN'', ''GH_TOKEN'', ''GIT_*'', ''SSH_*'', ''GNUPGHOME'', ''http_proxy'', ''https_proxy'',
     ''HTTP_PROXY'', ''HTTPS_PROXY'', ''NO_PROXY'', ''no_proxy'']"

definition inherited_minimal_env :: "(string \<times> string) list \<Rightarrow> (string, string) btmap" where
  "inherited_minimal_env vars =
     build_env (environment_config_default\<lparr> en_inherit := en_inherit environment_config_default @ TOOL_VARIABLES \<rparr>) vars []"

definition process_spec_new :: "(string \<times> string) list \<Rightarrow> string list \<Rightarrow> path \<Rightarrow> process_spec" where
  "process_spec_new vars argv cwd = \<lparr> sp_argv = argv, sp_cwd = cwd, sp_env = inherited_minimal_env vars, sp_stdin = None,
     sp_timeout = None, sp_log_path = None, sp_kill_grace = 5000 \<rparr>"

subsection \<open>What is kept of the output\<close>

record capture =
  ca_head :: string
  ca_tail :: string
  ca_cap :: nat
  ca_dropped :: nat

definition capture_new :: "nat \<Rightarrow> capture" where
  "capture_new cap = \<lparr> ca_head = [], ca_tail = [], ca_cap = cap, ca_dropped = 0 \<rparr>"

definition push_byte :: "capture \<Rightarrow> char \<Rightarrow> capture" where
  "push_byte c b =
     (let half = ca_cap c div 2 in
      if length (ca_head c) < half then c\<lparr> ca_head := ca_head c @ [b] \<rparr>
      else
        let tail = ca_tail c @ [b] in
        if half < length tail then c\<lparr> ca_tail := tl tail, ca_dropped := ca_dropped c + 1 \<rparr>
        else c\<lparr> ca_tail := tail \<rparr>)"

definition capture_push :: "capture \<Rightarrow> string \<Rightarrow> capture" where
  "capture_push c buf = foldl push_byte c buf"

definition truncation_mark :: "nat \<Rightarrow> string" where
  "truncation_mark n = nl @ ellipsis @ '' ['' @ nat_str n @ '' bytes truncated] '' @ ellipsis @ nl"

definition capture_bytes :: "capture \<Rightarrow> string" where
  "capture_bytes c = ca_head c @ (if 0 < ca_dropped c then truncation_mark (ca_dropped c) else []) @ ca_tail c"

definition CAPTURE_CAP :: nat where
  "CAPTURE_CAP = 4 * 1024 * 1024"

subsection \<open>What reaches the log\<close>

text \<open>\<open>String::from_utf8_lossy\<close>: valid sequences stay, the longest beginning of one that is not completed, or a
  byte that begins none, becomes U+FFFD. \<open>utf8_step\<close> says how many bytes are taken and whether they are valid.\<close>

definition continues :: "char \<Rightarrow> bool" where
  "continues c \<longleftrightarrow> 128 \<le> byte c \<and> byte c \<le> 191"

fun second_ok :: "char \<Rightarrow> char \<Rightarrow> bool" where
  "second_ok c d \<longleftrightarrow>
     (if byte c = 0xE0 then 0xA0 \<le> byte d \<and> byte d \<le> 0xBF
      else if byte c = 0xED then 0x80 \<le> byte d \<and> byte d \<le> 0x9F
      else if byte c = 0xF0 then 0x90 \<le> byte d \<and> byte d \<le> 0xBF
      else if byte c = 0xF4 then 0x80 \<le> byte d \<and> byte d \<le> 0x8F
      else continues d)"

definition utf8_width :: "char \<Rightarrow> nat" where
  "utf8_width c =
     (if byte c < 0x80 then 1 else if 0xC2 \<le> byte c \<and> byte c \<le> 0xDF then 2
      else if 0xE0 \<le> byte c \<and> byte c \<le> 0xEF then 3 else if 0xF0 \<le> byte c \<and> byte c \<le> 0xF4 then 4 else 0)"

fun utf8_step :: "char \<Rightarrow> string \<Rightarrow> nat \<times> bool" where
  "utf8_step c s =
     (if utf8_width c = 1 then (1, True)
      else if utf8_width c = 0 \<or> s = [] \<or> \<not> second_ok c (hd s) then (1, False)
      else if utf8_width c = 2 then (2, True)
      else if length s < 2 \<or> \<not> continues (s ! 1) then (2, False)
      else if utf8_width c = 3 then (3, True)
      else if length s < 3 \<or> \<not> continues (s ! 2) then (3, False)
      else (4, True))"

definition REPLACEMENT :: string where
  "REPLACEMENT = [CHR 0xEF, CHR 0xBF, CHR 0xBD]"

function utf8_lossy :: "string \<Rightarrow> string" where
  "utf8_lossy [] = []"
| "utf8_lossy (c # s) =
     (case utf8_step c s of (n, ok) \<Rightarrow> (if ok then take n (c # s) else REPLACEMENT) @ utf8_lossy (drop n (c # s)))"
  by pat_completeness auto
termination by (relation "measure length") (auto split: if_splits)

text \<open>The terminated lines at the beginning of what is pending, and what is left.\<close>

function drain_lines :: "string \<Rightarrow> string list \<times> string" where
  "drain_lines p = (case str_find nl p of
       None \<Rightarrow> ([], p)
     | Some i \<Rightarrow> (case drain_lines (drop (Suc i) p) of (ls, r) \<Rightarrow> (take (Suc i) p # ls, r)))"
  by pat_completeness auto
termination
proof (relation "measure length")
  fix p i assume "str_find nl p = Some i"
  then have "p \<noteq> []" by (cases p) (auto simp: nl_def)
  then show "(drop (Suc i) p, p) \<in> measure length" by simp
qed simp

declare drain_lines.simps [simp del]

definition PENDING_CAP :: nat where
  "PENDING_CAP = 64 * 1024"

text \<open>One read of \<open>pump\<close>: what is written to the log, redacted, and what is pending.\<close>

definition pump_read :: "(string \<Rightarrow> string) \<Rightarrow> string list \<times> string \<Rightarrow> string \<Rightarrow> string list \<times> string" where
  "pump_read redact st buf =
     (case st of (written, pending) \<Rightarrow>
        case drain_lines (pending @ utf8_lossy buf) of (ls, r) \<Rightarrow>
          if PENDING_CAP < length r then (written @ map redact ls @ [redact r], [])
          else (written @ map redact ls, r))"

definition pump_log :: "(string \<Rightarrow> string) \<Rightarrow> string list \<Rightarrow> string list" where
  "pump_log redact reads =
     (case foldl (pump_read redact) ([], []) reads of (written, pending) \<Rightarrow>
        if pending = [] then written else written @ [redact pending])"

definition pump_capture :: "string list \<Rightarrow> string" where
  "pump_capture reads = capture_bytes (foldl capture_push (capture_new CAPTURE_CAP) reads)"

subsection \<open>Waiting\<close>

datatype wait_status = Exited int | Signalled int

datatype group_signal = SigTerm | SigKill

text \<open>A child: the answer of the \<open>n\<close>-th look at it, the time then, whether it is cancelled then, what a
  blocking wait says, and what is read from its output.\<close>

record child =
  ch_poll :: "nat \<Rightarrow> string + wait_status option"
  ch_elapsed :: "nat \<Rightarrow> duration"
  ch_cancelled :: "nat \<Rightarrow> bool"
  ch_wait :: "wait_status option"
  ch_log :: "string + unit"
  ch_stdout :: "string list"
  ch_stderr :: "string list"

definition exit_code_of :: "wait_status \<Rightarrow> int" where
  "exit_code_of s = (case s of Exited c \<Rightarrow> c | Signalled g \<Rightarrow> 128 + g)"

text \<open>The grace period after the first signal: whether the child was seen to be gone, and the looks taken.\<close>

partial_function (option) grace_loop :: "child \<Rightarrow> duration \<Rightarrow> duration \<Rightarrow> nat \<Rightarrow> (bool \<times> nat) option" where
  "grace_loop c t0 grace n =
     (if ch_elapsed c n - t0 < grace then
        (case ch_poll c n of Inr (Some _) \<Rightarrow> Some (True, Suc n) | _ \<Rightarrow> grace_loop c t0 grace (Suc n))
      else Some (False, n))"

declare grace_loop.simps [code]

definition terminate_group :: "child \<Rightarrow> duration \<Rightarrow> nat \<Rightarrow> (group_signal list \<times> nat) option" where
  "terminate_group c grace n =
     map_option (\<lambda>(gone, m). ([SigTerm, SigKill], m)) (grace_loop c (ch_elapsed c n) grace n)"

record waited =
  wd_status :: "wait_status option"
  wd_timed_out :: bool
  wd_cancelled :: bool
  wd_signals :: "group_signal list"
  wd_looks :: nat

definition after_signals :: "child \<Rightarrow> bool \<Rightarrow> (group_signal list \<times> nat) option \<Rightarrow> (string + waited) option" where
  "after_signals c late r =
     map_option (\<lambda>(gs, m). case ch_poll c m of
         Inl e \<Rightarrow> Inl e
       | Inr st \<Rightarrow> Inr \<lparr> wd_status = st, wd_timed_out = late, wd_cancelled = \<not> late, wd_signals = gs, wd_looks = Suc m \<rparr>) r"

partial_function (option) wait_loop :: "child \<Rightarrow> process_spec \<Rightarrow> bool \<Rightarrow> nat \<Rightarrow> (string + waited) option" where
  "wait_loop c sp cancel n =
     (case ch_poll c n of
        Inl e \<Rightarrow> Some (Inl e)
      | Inr (Some st) \<Rightarrow> Some (Inr \<lparr> wd_status = Some st, wd_timed_out = False, wd_cancelled = False, wd_signals = [], wd_looks = Suc n \<rparr>)
      | Inr None \<Rightarrow>
          if (case sp_timeout sp of Some t \<Rightarrow> t \<le> ch_elapsed c n | None \<Rightarrow> False) then
            after_signals c True (terminate_group c (sp_kill_grace sp) (Suc n))
          else if cancel \<and> ch_cancelled c n then
            after_signals c False (terminate_group c (sp_kill_grace sp) (Suc n))
          else wait_loop c sp cancel (Suc n))"

declare wait_loop.simps [code]

definition output_of :: "child \<Rightarrow> waited \<Rightarrow> process_output" where
  "output_of c w =
     \<lparr> po_exit_code = map_option exit_code_of (case wd_status w of Some s \<Rightarrow> Some s | None \<Rightarrow> ch_wait c),
       po_timed_out = wd_timed_out w, po_cancelled = wd_cancelled w, po_stdout = pump_capture (ch_stdout c),
       po_stderr = pump_capture (ch_stderr c), po_millis = ch_elapsed c (wd_looks w) \<rparr>"

definition process_wait :: "child \<Rightarrow> process_spec \<Rightarrow> bool \<Rightarrow> (string + process_output) option" where
  "process_wait c sp cancel =
     (case (if sp_log_path sp = None then Inr () else ch_log c) of
        Inl e \<Rightarrow> Some (Inl e)
      | Inr _ \<Rightarrow> map_option (map_sum (\<lambda>e. e) (output_of c)) (wait_loop c sp cancel 0))"

definition process_spawn :: "(process_spec \<Rightarrow> string + child) \<Rightarrow> process_spec \<Rightarrow> string + child" where
  "process_spawn start sp =
     (case sp_argv sp of
        [] \<Rightarrow> Inl ''empty argv''
      | a # _ \<Rightarrow> with_context (''failed to start '' @ debug_str a @ '' in '' @ sp_cwd sp) (start sp))"

definition process_run :: "(process_spec \<Rightarrow> string + child) \<Rightarrow> process_spec \<Rightarrow> bool \<Rightarrow> (string + process_output) option" where
  "process_run start sp cancel =
     (case process_spawn start sp of Inl e \<Rightarrow> Some (Inl e) | Inr c \<Rightarrow> process_wait c sp cancel)"

subsection \<open>Tools\<close>

text \<open>The answer of a short call, with its limit in seconds.\<close>

definition tool_answer :: "string list \<Rightarrow> nat \<Rightarrow> process_output \<Rightarrow> string + string" where
  "tool_answer argv secs p =
     (let name = ''`'' @ join '' '' argv @ ''`'' in
      if po_timed_out p then Inl (name @ '' timed out after '' @ nat_str secs @ ''s'')
      else if \<not> process_success p then
        Inl (name @ '' failed ('' @ code_text ''signal'' (po_exit_code p) @ ''): '' @ trim (utf8_lossy (po_stderr p)))
      else Inr (utf8_lossy (po_stdout p)))"

definition tool_call ::
  "(process_spec \<Rightarrow> string + child) \<Rightarrow> (string \<times> string) list \<Rightarrow> string list \<Rightarrow> path \<Rightarrow> nat \<Rightarrow> (string + string) option" where
  "tool_call start vars argv cwd secs =
     map_option (\<lambda>r. sum_bind r (tool_answer argv secs))
       (process_run start ((process_spec_new vars argv cwd)\<lparr> sp_timeout := Some (secs * 1000) \<rparr>) False)"

definition find_executable :: "(path \<Rightarrow> bool) \<Rightarrow> (path \<Rightarrow> bool) \<Rightarrow> string option \<Rightarrow> string \<Rightarrow> path option" where
  "find_executable is_file executable search name =
     (if CHR ''/'' \<in> set name then (if is_file name then Some name else None)
      else Option.bind search (\<lambda>dirs.
        find (\<lambda>p. is_file p \<and> executable p) (map (\<lambda>d. path_push d name) (split_on (\<lambda>c. c = CHR '':'') dirs))))"

end
