(* ===== verification/Process_Facts.thy ===== *)
theory Process_Facts
  imports Process
begin

text \<open>
  What the handling of child processes guarantees: how much of the output is kept, that the log is redacted by
  whole lines wherever the reads fall, and that a wait with a limit ends.
\<close>

subsection \<open>The output kept\<close>

definition captured :: "nat \<Rightarrow> string \<Rightarrow> capture" where
  "captured cap s = (let h = cap div 2 in
     \<lparr> ca_head = take h s, ca_tail = drop (max h (length s - h)) s, ca_cap = cap, ca_dropped = length s - 2 * h \<rparr>)"

lemma push_captured: "push_byte (captured cap s) b = captured cap (s @ [b])"
proof -
  define h where "h = cap div 2"
  consider "length s < h" | "h \<le> length s" "length s < 2 * h" | "2 * h \<le> length s" by linarith
  then show ?thesis
  proof cases
    case 1
    then show ?thesis by (simp add: push_byte_def captured_def h_def [symmetric] Let_def max_def)
  next
    case 2
    then have "h \<le> Suc (length s) - h \<Longrightarrow> Suc (length s) - h = h" by linarith
    with 2 show ?thesis by (auto simp: push_byte_def captured_def h_def [symmetric] Let_def max_def)
  next
    case 3
    define k where "k = length s - h"
    have k: "h \<le> k" "k \<le> length s" "Suc (length s) - h = Suc k" "length s = k + h" using 3 by (auto simp: k_def)
    have "drop k s @ [b] = drop k (s @ [b])" using k by simp
    then have "tl (drop k s @ [b]) = drop (Suc k) (s @ [b])" by (simp only: tl_drop drop_Suc)
    then show ?thesis using k 3
      by (simp add: push_byte_def captured_def h_def [symmetric] Let_def max_def k_def [symmetric] Suc_diff_le)
  qed
qed

lemma capture_captured: "capture_push (captured cap s) buf = captured cap (s @ buf)"
proof (induction buf arbitrary: s)
  case (Cons b buf)
  then show ?case using push_captured [of cap s b] by (simp add: capture_push_def)
qed (simp add: capture_push_def)

lemma captures_captured: "foldl capture_push (captured cap s) reads = captured cap (s @ concat reads)"
  by (induction reads arbitrary: s) (simp_all add: capture_captured)

text \<open>C21. Whatever the pieces in which a process writes, what is kept is its whole output when it fits, and its first
  and its last half of the bound around a note of what was left out when it does not.\<close>

theorem capture_keeps_ends:
  "capture_bytes (foldl capture_push (capture_new cap) reads) =
     (let s = concat reads; h = cap div 2 in
      if length s \<le> 2 * h then s
      else take h s @ truncation_mark (length s - 2 * h) @ drop (length s - h) s)"
proof -
  have "capture_new cap = captured cap []" by (simp add: capture_new_def captured_def Let_def)
  then have c: "foldl capture_push (capture_new cap) reads = captured cap (concat reads)"
    using captures_captured [of cap "[]" reads] by simp
  show ?thesis
  proof (cases "length (concat reads) \<le> 2 * (cap div 2)")
    case True
    then have "max (cap div 2) (length (concat reads) - cap div 2) = cap div 2" by simp
    then show ?thesis using True unfolding c by (simp add: capture_bytes_def captured_def Let_def)
  next
    case False
    then have "max (cap div 2) (length (concat reads) - cap div 2) = length (concat reads) - cap div 2" by simp
    then show ?thesis using False unfolding c by (simp add: capture_bytes_def captured_def Let_def)
  qed
qed

subsection \<open>The log\<close>

definition log_lines :: "string \<Rightarrow> string list" where
  "log_lines s = (case drain_lines s of (ls, r) \<Rightarrow> ls @ (if r = [] then [] else [r]))"

lemma find_nl_append: "str_find nl (p @ q) = (case str_find nl p of
    Some i \<Rightarrow> Some i | None \<Rightarrow> map_option (\<lambda>i. length p + i) (str_find nl q))"
proof (induction p)
  case Nil
  then show ?case by (cases "str_find nl q") (auto simp: nl_def)
next
  case (Cons c p)
  have s: "starts_with (c # x) nl \<longleftrightarrow> c = CHR 0x0A" for x by (simp add: starts_with_def nl_def)
  show ?case using Cons by (cases "str_find nl q") (auto simp: s split: option.split)
qed

lemma find_nl_bound: "str_find nl p = Some i \<Longrightarrow> Suc i \<le> length p"
proof (induction p arbitrary: i)
  case (Cons c p)
  then show ?case by (auto split: if_splits)
qed (simp add: nl_def)

lemma drain_append: "drain_lines (p @ q) = (case drain_lines p of (ls, r) \<Rightarrow> case drain_lines (r @ q) of (ls', r') \<Rightarrow> (ls @ ls', r'))"
proof (induction p rule: drain_lines.induct)
  case (1 p)
  show ?case
  proof (cases "str_find nl p")
    case None
    then show ?thesis by (simp add: drain_lines.simps [of p] split: prod.split)
  next
    case (Some i)
    have f: "str_find nl (p @ q) = Some i" using Some by (simp add: find_nl_append)
    have d: "drop (Suc i) (p @ q) = drop (Suc i) p @ q" "take (Suc i) (p @ q) = take (Suc i) p"
      using find_nl_bound [OF Some] by auto
    show ?thesis using 1 [OF Some]
      by (simp add: drain_lines.simps [of "p @ q"] drain_lines.simps [of p] f d Some del: drop_append take_append split: prod.splits)
  qed
qed

lemma drain_rest: "drain_lines p = (ls, r) \<Longrightarrow> drain_lines r = ([], r) \<and> concat ls @ r = p"
proof (induction p arbitrary: ls r rule: drain_lines.induct)
  case (1 p)
  show ?case
  proof (cases "str_find nl p")
    case None
    then show ?thesis using 1 by (auto simp: drain_lines.simps [of p] drain_lines.simps [of r])
  next
    case (Some i)
    obtain ls' r' where d: "drain_lines (drop (Suc i) p) = (ls', r')" by fastforce
    then have "ls = take (Suc i) p # ls'" "r = r'" using 1(2) Some by (auto simp: drain_lines.simps [of p])
    moreover have "drain_lines r' = ([], r') \<and> concat ls' @ r' = drop (Suc i) p" using 1(1) [OF Some d] .
    ultimately show ?thesis by simp
  qed
qed

text \<open>A run of reads, while no line grows beyond the bound.\<close>

lemma pump_reads:
  assumes "\<forall>b \<in> set bs. utf8_lossy b = b" and "drain_lines s = (ls, r)"
    and "\<forall>n. length (snd (drain_lines (s @ concat (take n bs)))) \<le> PENDING_CAP"
  shows "foldl (pump_read redact) (map redact ls, r) bs =
    (case drain_lines (s @ concat bs) of (ls', r') \<Rightarrow> (map redact ls', r'))"
  using assms
proof (induction bs arbitrary: s ls r)
  case (Cons b bs)
  obtain ls1 r1 where d1: "drain_lines (r @ b) = (ls1, r1)" by fastforce
  have d: "drain_lines (s @ b) = (ls @ ls1, r1)" using drain_append [of s b] Cons.prems(2) d1 by simp
  have "length r1 \<le> PENDING_CAP" using Cons.prems(3) [rule_format, of 1] d by simp
  then have p: "pump_read redact (map redact ls, r) b = (map redact (ls @ ls1), r1)"
    using Cons.prems(1) d1 by (simp add: pump_read_def)
  have "length (snd (drain_lines ((s @ b) @ concat (take n bs)))) \<le> PENDING_CAP" for n
    using Cons.prems(3) [rule_format, of "Suc n"] by simp
  then show ?case using Cons.IH [of "s @ b", OF _ d] Cons.prems(1) p by simp
qed simp



text \<open>A character that falls between two reads is written as replacements.\<close>

lemma split_character_lost:
  "pump_log (\<lambda>l. l) [[CHR 0xC3], [CHR 0xA9]] = [REPLACEMENT @ REPLACEMENT]"
proof -
  have "utf8_lossy [CHR 0xC3] = REPLACEMENT" "utf8_lossy [CHR 0xA9] = REPLACEMENT" by code_simp+
  moreover have "drain_lines REPLACEMENT = ([], REPLACEMENT)" "drain_lines (REPLACEMENT @ REPLACEMENT) = ([], REPLACEMENT @ REPLACEMENT)"
    unfolding drain_lines.simps [of REPLACEMENT] drain_lines.simps [of "REPLACEMENT @ REPLACEMENT"]
    by (simp_all add: REPLACEMENT_def nl_def starts_with_def)
  ultimately show ?thesis by (simp add: pump_log_def pump_read_def PENDING_CAP_def) (simp add: REPLACEMENT_def)
qed

subsection \<open>Waiting\<close>

text \<open>A clock that reaches a time reaches it at some look, and a loop that goes on until then ends.\<close>

lemma grace_ends:
  assumes "\<exists>m. grace \<le> ch_elapsed c (n + m) - t0"
  shows "\<exists>r. grace_loop c t0 grace n = Some r"
proof -
  obtain m where "grace \<le> ch_elapsed c (n + m) - t0" using assms by blast
  then show ?thesis
  proof (induction m arbitrary: n)
    case 0
    then show ?case by (auto simp: grace_loop.simps)
  next
    case (Suc m)
    then have "\<exists>r. grace_loop c t0 grace (Suc n) = Some r" by simp
    then show ?case by (subst grace_loop.simps) (auto split: sum.split option.split)
  qed
qed

text \<open>The clock of a child passes every time sooner or later.\<close>

definition ticks :: "child \<Rightarrow> bool" where
  "ticks c \<longleftrightarrow> (\<forall>t n. \<exists>m. t \<le> ch_elapsed c (n + m))"

lemma signals_end: "ticks c \<Longrightarrow> \<exists>m. terminate_group c grace n = Some ([SigTerm, SigKill], m)"
proof -
  assume "ticks c"
  then obtain m where "grace + ch_elapsed c n \<le> ch_elapsed c (n + m)" unfolding ticks_def by blast
  then have "grace \<le> ch_elapsed c (n + m) - ch_elapsed c n" by linarith
  then obtain r where "grace_loop c (ch_elapsed c n) grace n = Some r" using grace_ends by blast
  then show ?thesis by (auto simp: terminate_group_def split: prod.split)
qed

definition well_ended :: "child \<Rightarrow> process_spec \<Rightarrow> waited \<Rightarrow> bool" where
  "well_ended c sp w \<longleftrightarrow>
     (wd_timed_out w \<longrightarrow> (\<exists>t n. sp_timeout sp = Some t \<and> t \<le> ch_elapsed c n \<and> ch_poll c n = Inr None))
     \<and> (wd_cancelled w \<longrightarrow> (\<exists>n. ch_cancelled c n))
     \<and> wd_signals w = (if wd_timed_out w \<or> wd_cancelled w then [SigTerm, SigKill] else [])
     \<and> (wd_timed_out w \<or> wd_cancelled w \<or> wd_status w \<noteq> None)"

lemma wait_ends:
  assumes "ticks c" and "sp_timeout sp = Some t"
  shows "\<exists>r. wait_loop c sp cancel n = Some r \<and> (\<forall>w. r = Inr w \<longrightarrow> well_ended c sp w)"
proof -
  obtain m where "t \<le> ch_elapsed c (n + m)" using assms(1) unfolding ticks_def by blast
  then show ?thesis
  proof (induction m arbitrary: n)
    case 0
    obtain k where "terminate_group c (sp_kill_grace sp) (Suc n) = Some ([SigTerm, SigKill], k)" using signals_end [OF assms(1)] by blast
    then show ?case using 0 assms(2)
      by (subst wait_loop.simps) (auto simp: after_signals_def well_ended_def split: sum.split option.split)
  next
    case (Suc m)
    obtain k where "terminate_group c (sp_kill_grace sp) (Suc n) = Some ([SigTerm, SigKill], k)" using signals_end [OF assms(1)] by blast
    moreover have "\<exists>r. wait_loop c sp cancel (Suc n) = Some r \<and> (\<forall>w. r = Inr w \<longrightarrow> well_ended c sp w)" using Suc by simp
    ultimately show ?case using assms(2)
      by (subst wait_loop.simps) (auto simp: after_signals_def well_ended_def split: sum.split option.split)
  qed
qed


definition sleeping_child :: child where
  "sleeping_child = \<lparr> ch_poll = (\<lambda>n. if n < 4 then Inr None else Inr (Some (Signalled 9))), ch_elapsed = (\<lambda>n. 50 * n),
     ch_cancelled = (\<lambda>_. False), ch_wait = None, ch_log = Inr (), ch_stdout = [''hi''], ch_stderr = [] \<rparr>"

definition short_spec :: process_spec where
  "short_spec = \<lparr> sp_argv = [''sleep'', ''30''], sp_cwd = ''/'', sp_env = [], sp_stdin = None, sp_timeout = Some 100,
     sp_log_path = None, sp_kill_grace = 100 \<rparr>"


end
