(* ===== verification/Herdr.thy ===== *)
theory Herdr
  imports Config
begin

text \<open>
  The boundary to Herdr, \<open>src/herdr\<close>: its errors, the parts of its answers that are used, one request over the
  socket, and the operations of the adapters as the requests they send and how they read the answer. The socket,
  JSON text and fresh identifiers are parameters; an operation takes the function that carries out one request.
\<close>

subsection \<open>Errors\<close>

datatype herdr_error = Unavailable string | ApiError string string | Protocol string | ClientTimeout | HerdrIo string

type_synonym 'a hresult = "herdr_error + 'a"

fun herdr_error_text :: "herdr_error \<Rightarrow> string" where
  "herdr_error_text (Unavailable s) = ''Herdr is not reachable: '' @ s"
| "herdr_error_text (ApiError code message) = ''Herdr API error '' @ code @ '': '' @ message"
| "herdr_error_text (Protocol s) = ''Herdr protocol error: '' @ s"
| "herdr_error_text ClientTimeout = ''timed out waiting for Herdr to respond''"
| "herdr_error_text (HerdrIo s) = ''I/O error talking to Herdr: '' @ s"

fun error_code :: "herdr_error \<Rightarrow> string option" where
  "error_code (ApiError code _) = Some code"
| "error_code _ = None"

definition is_not_found :: "herdr_error \<Rightarrow> bool" where
  "is_not_found e \<longleftrightarrow>
     error_code e \<in> {Some ''not_found'', Some ''pane_not_found'', Some ''agent_not_found'', Some ''workspace_not_found''}
     \<or> (case e of ApiError _ message \<Rightarrow> str_contains message ''not found'' | _ \<Rightarrow> False)"

definition is_wait_timeout :: "herdr_error \<Rightarrow> bool" where
  "is_wait_timeout e \<longleftrightarrow> error_code e = Some ''timeout'' \<or> e = ClientTimeout"

definition agent_missing :: "herdr_error \<Rightarrow> bool" where
  "agent_missing e \<longleftrightarrow> is_not_found e \<or> error_code e = Some ''agent_not_found''"

subsection \<open>What Herdr answers\<close>

datatype agent_status = AgIdle | AgWorking | AgBlocked | AgDone | AgUnknown

fun agent_status_str :: "agent_status \<Rightarrow> string" where
  "agent_status_str AgIdle = ''idle''"
| "agent_status_str AgWorking = ''working''"
| "agent_status_str AgBlocked = ''blocked''"
| "agent_status_str AgDone = ''done''"
| "agent_status_str AgUnknown = ''unknown''"

definition is_settled :: "agent_status \<Rightarrow> bool" where
  "is_settled s \<longleftrightarrow> s \<in> {AgIdle, AgDone}"

definition sd_agent_status :: "agent_status serde" where
  "sd_agent_status = sd_enum [(''idle'', AgIdle), (''working'', AgWorking), (''blocked'', AgBlocked), (''done'', AgDone),
     (''unknown'', AgUnknown)]"

text \<open>A struct of which unknown fields are ignored and some fields are required.\<close>

definition de_struct :: "string list \<Rightarrow> 'r \<Rightarrow> 'r fields \<Rightarrow> json \<Rightarrow> 'r option" where
  "de_struct required dflt fs v =
     (let names = map fst fs in
      case (case v of JObj m \<Rightarrow> Some m
            | JArr xs \<Rightarrow> if length xs \<le> length names then Some (zip names xs) else None
            | _ \<Rightarrow> None) of
        None \<Rightarrow> None
      | Some m \<Rightarrow> if list_all (\<lambda>n. bt_get m n \<noteq> None) required then read_fields fs m dflt else None)"

record agent_session_info =
  as_source :: "string option"
  as_agent :: "string option"
  as_kind :: "string option"
  as_value :: "string option"

definition de_session_info :: "json \<Rightarrow> agent_session_info option" where
  "de_session_info = de_struct [] \<lparr> as_source = None, as_agent = None, as_kind = None, as_value = None \<rparr> [
     fld ''source'' (sd_opt sd_str) as_source as_source_update, fld ''agent'' (sd_opt sd_str) as_agent as_agent_update,
     fld ''kind'' (sd_opt sd_str) as_kind as_kind_update, fld ''value'' (sd_opt sd_str) as_value as_value_update]"

definition sd_session_info :: "agent_session_info serde" where
  "sd_session_info = (\<lambda>_. JNull, de_session_info)"

record pane_info =
  pi_pane_id :: string
  pi_terminal_id :: "string option"
  pi_workspace_id :: string
  pi_tab_id :: string
  pi_focused :: bool
  pi_agent :: "string option"
  pi_agent_status :: agent_status
  pi_cwd :: "string option"
  pi_foreground_cwd :: "string option"
  pi_label :: "string option"
  pi_agent_session :: "agent_session_info option"

definition de_pane_info :: "json \<Rightarrow> pane_info option" where
  "de_pane_info = de_struct [''pane_id'', ''workspace_id'', ''tab_id'']
     \<lparr> pi_pane_id = [], pi_terminal_id = None, pi_workspace_id = [], pi_tab_id = [], pi_focused = False, pi_agent = None,
       pi_agent_status = AgUnknown, pi_cwd = None, pi_foreground_cwd = None, pi_label = None, pi_agent_session = None \<rparr> [
     fld ''pane_id'' sd_str pi_pane_id pi_pane_id_update, fld ''terminal_id'' (sd_opt sd_str) pi_terminal_id pi_terminal_id_update,
     fld ''workspace_id'' sd_str pi_workspace_id pi_workspace_id_update, fld ''tab_id'' sd_str pi_tab_id pi_tab_id_update,
     fld ''focused'' sd_bool pi_focused pi_focused_update, fld ''agent'' (sd_opt sd_str) pi_agent pi_agent_update,
     fld ''agent_status'' sd_agent_status pi_agent_status pi_agent_status_update,
     fld ''cwd'' (sd_opt sd_str) pi_cwd pi_cwd_update,
     fld ''foreground_cwd'' (sd_opt sd_str) pi_foreground_cwd pi_foreground_cwd_update,
     fld ''label'' (sd_opt sd_str) pi_label pi_label_update,
     fld ''agent_session'' (sd_opt sd_session_info) pi_agent_session pi_agent_session_update]"

record agent_info =
  ai_pane_id :: string
  ai_name :: "string option"
  ai_agent :: "string option"
  ai_status :: agent_status
  ai_interactive_ready :: bool
  ai_launch_pending :: bool
  ai_workspace_id :: "string option"
  ai_tab_id :: "string option"
  ai_terminal_id :: "string option"
  ai_cwd :: "string option"
  ai_agent_session :: "agent_session_info option"

definition de_agent_info :: "json \<Rightarrow> agent_info option" where
  "de_agent_info = de_struct [''pane_id'', ''agent_status'']
     \<lparr> ai_pane_id = [], ai_name = None, ai_agent = None, ai_status = AgUnknown, ai_interactive_ready = False,
       ai_launch_pending = False, ai_workspace_id = None, ai_tab_id = None, ai_terminal_id = None, ai_cwd = None,
       ai_agent_session = None \<rparr> [
     fld ''pane_id'' sd_str ai_pane_id ai_pane_id_update, fld ''name'' (sd_opt sd_str) ai_name ai_name_update,
     fld ''agent'' (sd_opt sd_str) ai_agent ai_agent_update, fld ''agent_status'' sd_agent_status ai_status ai_status_update,
     fld ''interactive_ready'' sd_bool ai_interactive_ready ai_interactive_ready_update,
     fld ''launch_pending'' sd_bool ai_launch_pending ai_launch_pending_update,
     fld ''workspace_id'' (sd_opt sd_str) ai_workspace_id ai_workspace_id_update,
     fld ''tab_id'' (sd_opt sd_str) ai_tab_id ai_tab_id_update,
     fld ''terminal_id'' (sd_opt sd_str) ai_terminal_id ai_terminal_id_update, fld ''cwd'' (sd_opt sd_str) ai_cwd ai_cwd_update,
     fld ''agent_session'' (sd_opt sd_session_info) ai_agent_session ai_agent_session_update]"

record workspace_info =
  wi_workspace_id :: string
  wi_label :: "string option"
  wi_active_tab_id :: "string option"

definition de_workspace_info :: "json \<Rightarrow> workspace_info option" where
  "de_workspace_info = de_struct [''workspace_id''] \<lparr> wi_workspace_id = [], wi_label = None, wi_active_tab_id = None \<rparr> [
     fld ''workspace_id'' sd_str wi_workspace_id wi_workspace_id_update, fld ''label'' (sd_opt sd_str) wi_label wi_label_update,
     fld ''active_tab_id'' (sd_opt sd_str) wi_active_tab_id wi_active_tab_id_update]"

record tab_info =
  ti_tab_id :: string
  ti_workspace_id :: string
  ti_label :: "string option"

definition de_tab_info :: "json \<Rightarrow> tab_info option" where
  "de_tab_info = de_struct [''tab_id'', ''workspace_id''] \<lparr> ti_tab_id = [], ti_workspace_id = [], ti_label = None \<rparr> [
     fld ''tab_id'' sd_str ti_tab_id ti_tab_id_update, fld ''workspace_id'' sd_str ti_workspace_id ti_workspace_id_update,
     fld ''label'' (sd_opt sd_str) ti_label ti_label_update]"

record pong =
  pg_version :: string
  pg_protocol :: nat

definition de_pong :: "json \<Rightarrow> pong option" where
  "de_pong = de_struct [''version'', ''protocol''] \<lparr> pg_version = [], pg_protocol = 0 \<rparr> [
     fld ''version'' sd_str pg_version pg_version_update, fld ''protocol'' sd_u64 pg_protocol pg_protocol_update]"

record workspace_handle =
  wh_workspace_id :: string
  wh_root_pane_id :: "string option"
  wh_already_open :: bool

record tab_handle =
  th_tab_id :: string
  th_pane_id :: string

subsection \<open>One request\<close>

datatype line_read = ReadLine string | ReadEnd | ReadTimedOut | ReadFailed string

definition response_error :: "json \<Rightarrow> herdr_error" where
  "response_error err =
     ApiError (case Option.bind (json_get err ''code'') json_as_str of Some s \<Rightarrow> s | None \<Rightarrow> ''unknown'')
       (case Option.bind (json_get err ''message'') json_as_str of Some s \<Rightarrow> s | None \<Rightarrow> [])"

text \<open>Lines are read until one bears the identifier of the request; on a connection that goes on with others it
  never ends.\<close>

partial_function (option) await_response ::
  "(string \<Rightarrow> string + json) \<Rightarrow> string \<Rightarrow> string \<Rightarrow> (nat \<Rightarrow> line_read) \<Rightarrow> nat \<Rightarrow> json hresult option" where
  "await_response parse method ident reads n =
     (case reads n of
        ReadTimedOut \<Rightarrow> Some (Inl ClientTimeout)
      | ReadFailed e \<Rightarrow> Some (Inl (HerdrIo e))
      | ReadEnd \<Rightarrow> Some (Inl (Protocol (''connection closed without a response to '' @ method)))
      | ReadLine l \<Rightarrow>
          (case parse (trim l) of
             Inl e \<Rightarrow> Some (Inl (Protocol (''invalid JSON from Herdr: '' @ e)))
           | Inr v \<Rightarrow>
               if Option.bind (json_get v ''id'') json_as_str \<noteq> Some ident then await_response parse method ident reads (Suc n)
               else (case json_get v ''error'' of
                  Some err \<Rightarrow> Some (Inl (response_error err))
                | None \<Rightarrow> (case json_get v ''result'' of
                    Some r \<Rightarrow> Some (Inr r)
                  | None \<Rightarrow> Some (Inl (Protocol ''response without result''))))))"

record socket =
  so_path :: path
  so_connect :: "string + unit"
  so_options :: "string + unit"
  so_ident :: string
  so_print :: "json \<Rightarrow> string"
  so_send :: "string \<Rightarrow> string + unit"
  so_parse :: "string \<Rightarrow> string + json"
  so_reads :: "nat \<Rightarrow> line_read"

definition request_line :: "socket \<Rightarrow> string \<Rightarrow> json \<Rightarrow> string" where
  "request_line so method params =
     so_print so (json_object [(''id'', JStr (''orch-'' @ so_ident so)), (''method'', JStr method), (''params'', params)]) @ nl"

definition herdr_request :: "socket \<Rightarrow> string \<Rightarrow> json \<Rightarrow> json hresult option" where
  "herdr_request so method params =
     (case so_connect so of
        Inl e \<Rightarrow> Some (Inl (Unavailable (so_path so @ '': '' @ e)))
      | Inr _ \<Rightarrow> (case so_options so of
          Inl e \<Rightarrow> Some (Inl (HerdrIo e))
        | Inr _ \<Rightarrow> (case so_send so (request_line so method params) of
            Inl e \<Rightarrow> Some (Inl (HerdrIo e))
          | Inr _ \<Rightarrow> await_response (so_parse so) method (''orch-'' @ so_ident so) (so_reads so) 0)))"

definition resolve_socket_path :: "(string \<Rightarrow> string option) \<Rightarrow> string option \<Rightarrow> path option" where
  "resolve_socket_path env configured =
     (case configured of
        Some c \<Rightarrow> Some c
      | None \<Rightarrow> (case env ''HERDR_SOCKET_PATH'' of
          Some p \<Rightarrow> Some p
        | None \<Rightarrow> Option.bind (app_dir env ''XDG_CONFIG_HOME'' ''.config/herdr'') (\<lambda>d.
            Some (case env ''HERDR_SESSION'' of
              Some s \<Rightarrow> path_push (path_push (path_push d ''sessions'') s) ''herdr.sock''
            | None \<Rightarrow> path_push d ''herdr.sock''))))"

end
