(* ===== verification/Herdr_Api.thy ===== *)
theory Herdr_Api
  imports Herdr
begin

text \<open>
  The operations over one request, \<open>src/herdr/agent_adapter.rs\<close>, \<open>pane_adapter.rs\<close>, \<open>worktree_adapter.rs\<close>,
  \<open>events.rs\<close> and \<open>mod.rs\<close>: what is sent and how the answer is read. The texts of serde errors are not modelled.
\<close>

type_synonym requester = "string \<Rightarrow> json \<Rightarrow> duration option \<Rightarrow> json hresult"

definition METADATA_SOURCE :: string where
  "METADATA_SOURCE = ''plugin:jpolec.herdr-orchestrator''"

definition SLACK :: duration where
  "SLACK = 15000"

definition request_field :: "requester \<Rightarrow> (json \<Rightarrow> 'a option) \<Rightarrow> string \<Rightarrow> json \<Rightarrow> string \<Rightarrow> duration option \<Rightarrow> 'a hresult" where
  "request_field rq de method params field limit =
     sum_bind (rq method params limit) (\<lambda>r.
     case json_get r field of
       None \<Rightarrow> Inl (Protocol (method @ '': result has no `'' @ field @ ''`''))
     | Some f \<Rightarrow> (case de f of
         Some x \<Rightarrow> Inr x
       | None \<Rightarrow> Inl (Protocol (method @ '': unexpected `'' @ field @ ''` shape''))))"

definition no_answer :: "json hresult \<Rightarrow> unit hresult" where
  "no_answer r = map_sum (\<lambda>e. e) (\<lambda>_. ()) r"

definition env_json :: "(string, string) btmap \<Rightarrow> json" where
  "env_json m = JObj (map (\<lambda>(k, v). (k, JStr v)) m)"

definition tokens_json :: "(string, string option) btmap \<Rightarrow> json" where
  "tokens_json m = JObj (map (\<lambda>(k, v). (k, json_opt JStr v)) m)"

definition statuses_json :: "agent_status list \<Rightarrow> json" where
  "statuses_json ss = JArr (map (\<lambda>s. JStr (agent_status_str s)) ss)"

definition list_of :: "(json \<Rightarrow> 'a option) \<Rightarrow> json \<Rightarrow> 'a list option" where
  "list_of de v = (case v of JArr xs \<Rightarrow> all_some (map de xs) | _ \<Rightarrow> None)"

subsection \<open>Agents\<close>

definition start_limit :: "duration \<Rightarrow> nat" where
  "start_limit limit = max 3001 (min limit 300000)"

definition agent_start :: "requester \<Rightarrow> string \<Rightarrow> string \<Rightarrow> string \<Rightarrow> string list \<Rightarrow> duration \<Rightarrow> agent_info hresult" where
  "agent_start rq name kind pane args limit =
     request_field rq de_agent_info ''agent.start''
       (json_object [(''name'', JStr name), (''kind'', JStr kind), (''pane_id'', JStr pane), (''args'', json_strs args),
         (''timeout_ms'', JInt (int (start_limit limit)))]) ''agent'' (Some (start_limit limit + SLACK))"

definition agent_get :: "requester \<Rightarrow> string \<Rightarrow> agent_info option hresult" where
  "agent_get rq target =
     (case request_field rq de_agent_info ''agent.get'' (json_object [(''target'', JStr target)]) ''agent'' None of
        Inr a \<Rightarrow> Inr (Some a)
      | Inl e \<Rightarrow> if agent_missing e then Inr None else Inl e)"

definition agent_prompt ::
  "requester \<Rightarrow> string \<Rightarrow> string \<Rightarrow> (agent_status list \<times> duration) option \<Rightarrow> agent_info hresult" where
  "agent_prompt rq target body waiting =
     (case waiting of
        Some (until, t) \<Rightarrow> request_field rq de_agent_info ''agent.prompt''
          (json_object [(''target'', JStr target), (''text'', JStr body),
            (''wait'', json_object [(''until'', statuses_json until), (''timeout_ms'', JInt (int t))])]) ''agent'' (Some (t + SLACK))
      | None \<Rightarrow> request_field rq de_agent_info ''agent.prompt''
          (json_object [(''target'', JStr target), (''text'', JStr body)]) ''agent'' None)"

definition agent_wait :: "requester \<Rightarrow> string \<Rightarrow> agent_status list \<Rightarrow> duration \<Rightarrow> agent_info hresult" where
  "agent_wait rq target until t =
     request_field rq de_agent_info ''agent.wait''
       (json_object [(''target'', JStr target), (''until'', statuses_json until), (''timeout_ms'', JInt (int t))]) ''agent''
       (Some (t + SLACK))"

definition agent_list :: "requester \<Rightarrow> agent_info list hresult" where
  "agent_list rq = request_field rq (list_of de_agent_info) ''agent.list'' (JObj []) ''agents'' None"

definition agent_keys :: "requester \<Rightarrow> string \<Rightarrow> string list \<Rightarrow> unit hresult" where
  "agent_keys rq target keys =
     no_answer (rq ''agent.send_keys'' (json_object [(''target'', JStr target), (''keys'', json_strs keys)]) None)"

definition agent_focus :: "requester \<Rightarrow> string \<Rightarrow> unit hresult" where
  "agent_focus rq target = no_answer (rq ''agent.focus'' (json_object [(''target'', JStr target)]) None)"

definition herdr_ping :: "requester \<Rightarrow> pong hresult" where
  "herdr_ping rq = sum_bind (rq ''ping'' (JObj []) (Some 3000)) (\<lambda>r.
     case de_pong r of Some p \<Rightarrow> Inr p | None \<Rightarrow> Inl (Protocol ''ping''))"

subsection \<open>Workspaces\<close>

definition workspace_close :: "requester \<Rightarrow> string \<Rightarrow> unit hresult" where
  "workspace_close rq ws = no_answer (rq ''workspace.close'' (json_object [(''workspace_id'', JStr ws)]) None)"

definition workspace_metadata :: "requester \<Rightarrow> string \<Rightarrow> (string, string option) btmap \<Rightarrow> nat option \<Rightarrow> unit hresult" where
  "workspace_metadata rq ws tokens ttl =
     no_answer (rq ''workspace.report_metadata'' (json_object [(''workspace_id'', JStr ws), (''source'', JStr METADATA_SOURCE),
       (''tokens'', tokens_json tokens), (''ttl_ms'', json_opt (\<lambda>n. JInt (int n)) ttl)]) None)"

definition or_null :: "json option \<Rightarrow> json" where
  "or_null v = (case v of Some x \<Rightarrow> x | None \<Rightarrow> JNull)"

definition handle_from :: "json \<Rightarrow> workspace_handle hresult" where
  "handle_from r =
     (case de_workspace_info (or_null (json_get r ''workspace'')) of
        None \<Rightarrow> Inl (Protocol ''workspace'')
      | Some ws \<Rightarrow> Inr \<lparr> wh_workspace_id = wi_workspace_id ws,
          wh_root_pane_id = map_option pi_pane_id (Option.bind (json_get r ''root_pane'') de_pane_info),
          wh_already_open = (json_get r ''already_open'' = Some (JBool True)) \<rparr>)"

text \<open>The second request is only made when the first was refused; it may answer differently.\<close>

definition open_workspace :: "requester \<Rightarrow> requester \<Rightarrow> path \<Rightarrow> path \<Rightarrow> string \<Rightarrow> workspace_handle hresult" where
  "open_workspace rq rq2 root_dir worktree label =
     (case rq ''worktree.open'' (json_object [(''cwd'', JStr root_dir), (''path'', JStr worktree), (''label'', JStr label),
         (''focus'', JBool False)]) None of
        Inr r \<Rightarrow> handle_from r
      | Inl (Unavailable e) \<Rightarrow> Inl (Unavailable e)
      | Inl e \<Rightarrow> sum_bind (rq2 ''workspace.create'' (json_object [(''cwd'', JStr worktree), (''label'', JStr label),
         (''focus'', JBool False)]) None) handle_from)"

subsection \<open>Panes\<close>

definition tab_create :: "requester \<Rightarrow> string \<Rightarrow> path \<Rightarrow> string \<Rightarrow> (string, string) btmap \<Rightarrow> tab_handle hresult" where
  "tab_create rq ws cwd label env =
     sum_bind (rq ''tab.create'' (json_object [(''workspace_id'', JStr ws), (''cwd'', JStr cwd), (''label'', JStr label),
       (''env'', env_json env), (''focus'', JBool False)]) None) (\<lambda>r.
     case de_tab_info (or_null (json_get r ''tab'')) of
       None \<Rightarrow> Inl (Protocol ''tab.create'')
     | Some t \<Rightarrow> (case de_pane_info (or_null (json_get r ''root_pane'')) of
         None \<Rightarrow> Inl (Protocol ''tab.create root_pane'')
       | Some p \<Rightarrow> Inr \<lparr> th_tab_id = ti_tab_id t, th_pane_id = pi_pane_id p \<rparr>))"

definition pane_rename :: "requester \<Rightarrow> string \<Rightarrow> string \<Rightarrow> unit hresult" where
  "pane_rename rq pane label = no_answer (rq ''pane.rename'' (json_object [(''pane_id'', JStr pane), (''label'', JStr label)]) None)"

definition pane_metadata :: "requester \<Rightarrow> string \<Rightarrow> string \<Rightarrow> (string, string option) btmap \<Rightarrow> unit hresult" where
  "pane_metadata rq pane title tokens =
     no_answer (rq ''pane.report_metadata'' (json_object [(''pane_id'', JStr pane), (''source'', JStr METADATA_SOURCE),
       (''title'', JStr title), (''tokens'', tokens_json tokens)]) None)"

definition pane_get :: "requester \<Rightarrow> string \<Rightarrow> pane_info option hresult" where
  "pane_get rq pane =
     (case request_field rq de_pane_info ''pane.get'' (json_object [(''pane_id'', JStr pane)]) ''pane'' None of
        Inr p \<Rightarrow> Inr (Some p)
      | Inl e \<Rightarrow> if is_not_found e then Inr None else Inl e)"

definition pane_list :: "requester \<Rightarrow> pane_info list hresult" where
  "pane_list rq = request_field rq (list_of de_pane_info) ''pane.list'' (JObj []) ''panes'' None"

definition pane_read :: "requester \<Rightarrow> string \<Rightarrow> string \<Rightarrow> nat option \<Rightarrow> string hresult" where
  "pane_read rq pane src most =
     sum_bind (rq ''pane.read'' (json_object ([(''pane_id'', JStr pane), (''source'', JStr src), (''format'', JStr ''text''),
       (''strip_ansi'', JBool True)] @ (case most of Some n \<Rightarrow> [(''lines'', JInt (int n))] | None \<Rightarrow> []))) None) (\<lambda>r.
     Inr (case Option.bind (Option.bind (json_get r ''read'') (\<lambda>x. json_get x ''text'')) json_as_str of Some s \<Rightarrow> s | None \<Rightarrow> []))"

definition pane_close :: "requester \<Rightarrow> string \<Rightarrow> unit hresult" where
  "pane_close rq pane = no_answer (rq ''pane.close'' (json_object [(''pane_id'', JStr pane)]) None)"

definition pane_focus :: "requester \<Rightarrow> string \<Rightarrow> unit hresult" where
  "pane_focus rq pane = no_answer (rq ''pane.focus'' (json_object [(''pane_id'', JStr pane)]) None)"

definition herdr_notify :: "requester \<Rightarrow> string \<Rightarrow> string \<Rightarrow> bool \<Rightarrow> unit hresult" where
  "herdr_notify rq title body sound =
     no_answer (rq ''notification.show'' (json_object [(''title'', JStr title), (''body'', JStr body),
       (''sound'', JStr (if sound then ''request'' else ''none''))]) (Some 5000))"

definition open_plugin :: "requester \<Rightarrow> string \<Rightarrow> string \<Rightarrow> string \<Rightarrow> (string, string) btmap \<Rightarrow> unit hresult" where
  "open_plugin rq plugin entrypoint placement env =
     no_answer (rq ''plugin.pane.open'' (json_object [(''plugin_id'', JStr plugin), (''entrypoint'', JStr entrypoint),
       (''placement'', JStr placement), (''focus'', JBool True), (''env'', env_json env)]) None)"

subsection \<open>Events\<close>

text \<open>The first text under a key, at the top of a value or below.\<close>

fun find_str :: "json \<Rightarrow> string \<Rightarrow> string option"
  and find_str_list :: "json list \<Rightarrow> string \<Rightarrow> string option"
  and find_str_entries :: "(string \<times> json) list \<Rightarrow> string \<Rightarrow> string option"
where
  "find_str (JObj m) k = (case bt_get m k of Some (JStr s) \<Rightarrow> Some s | _ \<Rightarrow> find_str_entries m k)"
| "find_str (JArr xs) k = find_str_list xs k"
| "find_str v k = None"
| "find_str_list [] k = None"
| "find_str_list (x # xs) k = (case find_str x k of Some s \<Rightarrow> Some s | None \<Rightarrow> find_str_list xs k)"
| "find_str_entries [] k = None"
| "find_str_entries ((n, x) # m) k = (case find_str x k of Some s \<Rightarrow> Some s | None \<Rightarrow> find_str_entries m k)"

record hook_event =
  he_event :: string
  he_pane_id :: "string option"
  he_workspace_id :: "string option"
  he_agent_status :: "string option"

definition parse_hook_event :: "(string \<Rightarrow> string + json) \<Rightarrow> string \<Rightarrow> string option \<Rightarrow> hook_event" where
  "parse_hook_event parse name payload =
     (let v = (case map_option parse payload of Some (Inr v) \<Rightarrow> v | _ \<Rightarrow> JNull) in
      \<lparr> he_event = name, he_pane_id = find_str v ''pane_id'', he_workspace_id = find_str v ''workspace_id'',
        he_agent_status = find_str v ''agent_status'' \<rparr>)"

subsection \<open>Names of agents\<close>

text \<open>One character of a name; the bytes after the first of a character beyond ASCII are part of it.\<close>

definition name_char :: "char \<Rightarrow> char" where
  "name_char c = (if is_ascii_alphanumeric c \<or> c = CHR ''-'' \<or> c = CHR ''_'' then c else CHR ''-'')"

definition first_bytes :: "string \<Rightarrow> string" where
  "first_bytes s = filter (\<lambda>c. \<not> (128 \<le> byte c \<and> byte c < 192)) s"

definition last_four :: "string \<Rightarrow> string" where
  "last_four s = (let k = length (first_bytes s) in drop (length (first_chars (k - 4) s)) s)"

definition agent_name :: "string \<Rightarrow> string \<Rightarrow> string \<Rightarrow> string \<Rightarrow> string" where
  "agent_name tid variant sid xid =
     take 26 (map name_char (first_bytes (to_ascii_lowercase (''o'' @ tid @ variant @ ''-'' @ sid))))
       @ ''-'' @ to_ascii_lowercase (last_four xid)"

definition valid_agent_name :: "string \<Rightarrow> bool" where
  "valid_agent_name n \<longleftrightarrow>
     (case n of
        [] \<Rightarrow> False
      | c # s \<Rightarrow> is_ascii_lower c \<and> length n \<le> 32
          \<and> list_all (\<lambda>x. is_ascii_lower x \<or> is_ascii_digit x \<or> x = CHR ''_'' \<or> x = CHR ''-'') s)"

end
