(* ===== verification/Herdr_Facts.thy ===== *)
theory Herdr_Facts
  imports Herdr_Api
begin

text \<open>
  What the boundary to Herdr guarantees: the names it gives to agents are names Herdr accepts, and the client ends
  when the connection does.
\<close>

lemma lower_not_upper: "\<not> is_ascii_upper (ascii_lower c)"
  by (auto simp: ascii_lower_def is_ascii_upper_def byte_char_of)

lemma name_char_valid:
  "\<not> is_ascii_upper c \<Longrightarrow> is_ascii_lower (name_char c) \<or> is_ascii_digit (name_char c) \<or> name_char c = CHR ''_'' \<or> name_char c = CHR ''-''"
  by (auto simp: name_char_def is_ascii_alphanumeric_def is_ascii_alphabetic_def)

lemma ascii_first: "list_all (\<lambda>c. byte c < 128) s \<Longrightarrow> first_bytes s = s"
  by (induction s) (auto simp: first_bytes_def)

lemma ascii_chars: "list_all (\<lambda>c. byte c < 128) s \<Longrightarrow> first_chars n s = take n s"
proof (induction s arbitrary: n)
  case (Cons c s)
  then show ?case by (cases n) auto
qed simp

lemma last_four_ascii: "list_all (\<lambda>c. byte c < 128) s \<Longrightarrow> last_four s = drop (length s - 4) s"
  by (simp add: last_four_def ascii_first ascii_chars Let_def)

text \<open>The name given to an agent is one Herdr accepts, whatever the step is called, when the identifier of the
  execution is made of letters, digits, dashes and underscores.\<close>

theorem agent_name_accepted:
  assumes "list_all (\<lambda>c. is_ascii_alphanumeric c \<or> c = CHR ''-'' \<or> c = CHR ''_'') xid"
  shows "valid_agent_name (agent_name tid variant sid xid)"
proof -
  define pre where "pre = map name_char (first_bytes (to_ascii_lowercase (tid @ variant @ ''-'' @ sid)))"
  define suf where "suf = to_ascii_lowercase (last_four xid)"
  have a: "list_all (\<lambda>c. byte c < 128) xid"
    using assms by (auto simp: list_all_iff is_ascii_alphanumeric_def is_ascii_alphabetic_def is_ascii_upper_def
        is_ascii_lower_def is_ascii_digit_def byte_def)
  have o1: "name_char CHR ''o'' = CHR ''o''" "ascii_lower CHR ''o'' = CHR ''o''" "byte CHR ''o'' = 111" by code_simp+
  have n: "agent_name tid variant sid xid = CHR ''o'' # take 25 pre @ ''-'' @ suf"
    by (simp add: agent_name_def pre_def suf_def to_ascii_lowercase_def first_bytes_def o1 take_Cons')
  have ok: "is_ascii_lower x \<or> is_ascii_digit x \<or> x = CHR ''_'' \<or> x = CHR ''-''" if "x \<in> set pre \<union> set suf" for x
  proof (cases "x \<in> set pre")
    case True
    then have "x \<in> name_char ` ascii_lower ` set (tid @ variant @ ''-'' @ sid)"
      unfolding pre_def to_ascii_lowercase_def first_bytes_def set_map set_filter by blast
    then obtain c where "x = name_char (ascii_lower c)" by blast
    then show ?thesis using name_char_valid lower_not_upper by simp
  next
    case False
    then have "x \<in> set suf" using that by blast
    then obtain c where c: "x = ascii_lower c" "c \<in> set xid"
      unfolding suf_def last_four_ascii [OF a] to_ascii_lowercase_def by (auto dest: in_set_dropD)
    then have "is_ascii_alphanumeric c \<or> c = CHR ''-'' \<or> c = CHR ''_''" using assms by (auto simp: list_all_iff)
    then show ?thesis
      by (elim disjE) (auto simp: c(1) is_ascii_alphanumeric_def is_ascii_alphabetic_def ascii_lower_def is_ascii_upper_def
          is_ascii_lower_def is_ascii_digit_def byte_char_of byte_def)
  qed
  have "length suf \<le> 4" unfolding suf_def last_four_ascii [OF a] by (simp add: to_ascii_lowercase_def)
  moreover have "is_ascii_lower CHR ''o''" by code_simp
  ultimately show ?thesis unfolding n valid_agent_name_def
    using ok by (auto simp: list_all_iff dest: in_set_takeD)
qed

theorem agent_name_accepted_witness:
  "valid_agent_name (agent_name ''124'' ''B'' ''Implement Step'' ''x-3f9a1c0b7d2e'')"
  by (rule agent_name_accepted) code_simp

text \<open>A request ends when the connection is closed, is quiet for too long, or fails.\<close>

lemma response_ends:
  assumes "\<forall>l. reads (n + m) \<noteq> ReadLine l"
  shows "\<exists>r. await_response parse method ident reads n = Some r"
  using assms
proof (induction m arbitrary: n)
  case 0
  then show ?case by (subst await_response.simps) (auto split: line_read.split)
next
  case (Suc m)
  then have "\<exists>r. await_response parse method ident reads (Suc n) = Some r" by simp
  then show ?case by (subst await_response.simps) (auto split: line_read.split sum.split option.split)
qed

text \<open>The request to open a worktree is followed by one for a plain workspace only when Herdr is there to answer.\<close>

lemma workspace_fallback:
  assumes "rq ''worktree.open'' (json_object [(''cwd'', JStr root_dir), (''path'', JStr worktree), (''label'', JStr label),
      (''focus'', JBool False)]) None = Inl (Unavailable e)"
  shows "open_workspace rq rq2 root_dir worktree label = Inl (Unavailable e)"
  using assms by (simp add: open_workspace_def)

end
