(* ===== verification/Turns.thy ===== *)
theory Turns
  imports Triples
begin

text \<open>
  Loops that may not end: an operation on a state that may have no result at all, the repetition of a turn until
  it stops, what holds when it stops, and when it does.
\<close>

type_synonym ('s, 'a) loop_op = "'s \<Rightarrow> ((string + 'a) \<times> 's) option"

definition once :: "('s, 'a) eff \<Rightarrow> ('s, 'a) loop_op" where
  "once m = (\<lambda>s. Some (m s))"

definition followed :: "('s, 'a) loop_op \<Rightarrow> ('a \<Rightarrow> ('s, 'b) loop_op) \<Rightarrow> ('s, 'b) loop_op" where
  "followed m f = (\<lambda>s. case m s of
       None \<Rightarrow> None
     | Some (Inl e, t) \<Rightarrow> Some (Inl e, t)
     | Some (Inr x, t) \<Rightarrow> f x t)"

lemma once_run: "once m s = Some y \<longleftrightarrow> m s = y"
  by (simp add: once_def)

text \<open>A turn stops with a value, or goes on with the variables of the loop.\<close>

partial_function (option) turns :: "('l \<Rightarrow> ('s, 'a + 'l) loop_op) \<Rightarrow> 'l \<Rightarrow> ('s, 'a) loop_op" where
  "turns f l s = Option.bind (f l s) (\<lambda>(r, t). case r of
       Inl e \<Rightarrow> Some (Inl e, t)
     | Inr (Inl a) \<Rightarrow> Some (Inr a, t)
     | Inr (Inr l') \<Rightarrow> turns f l' t)"

declare turns.simps [code]

subsection \<open>What holds when it stops\<close>

definition brings :: "('s \<Rightarrow> bool) \<Rightarrow> ('s, 'a) loop_op \<Rightarrow> ('a \<Rightarrow> 's \<Rightarrow> bool) \<Rightarrow> ('s \<Rightarrow> bool) \<Rightarrow> bool" where
  "brings P m Q E \<longleftrightarrow> (\<forall>s r t. P s \<longrightarrow> m s = Some (r, t) \<longrightarrow> (case r of Inl e \<Rightarrow> E t | Inr v \<Rightarrow> Q v t))"

lemma bringsD: "brings P m Q E \<Longrightarrow> P s \<Longrightarrow> m s = Some (Inr v, t) \<Longrightarrow> Q v t"
  by (fastforce simp: brings_def)

lemma brings_error: "brings P m Q E \<Longrightarrow> P s \<Longrightarrow> m s = Some (Inl e, t) \<Longrightarrow> E t"
  by (fastforce simp: brings_def)

lemma brings_once: "triple P m Q E \<Longrightarrow> brings P (once m) Q E"
  by (fastforce simp: brings_def once_def triple_def split: prod.splits sum.splits)

lemma brings_followed:
  "brings P m R E \<Longrightarrow> (\<And>v. brings (R v) (f v) Q E) \<Longrightarrow> brings P (followed m f) Q E"
  by (fastforce simp: brings_def followed_def split: option.splits prod.splits sum.splits)

lemma brings_post: "brings P m Q' E \<Longrightarrow> (\<And>v s. Q' v s \<Longrightarrow> Q v s) \<Longrightarrow> brings P m Q E"
  by (fastforce simp: brings_def split: sum.splits)

lemma brings_pre: "brings P' m Q E \<Longrightarrow> (\<And>s. P s \<Longrightarrow> P' s) \<Longrightarrow> brings P m Q E"
  by (auto simp: brings_def)

lemma brings_if: "(b \<Longrightarrow> brings P m Q E) \<Longrightarrow> (\<not> b \<Longrightarrow> brings P n Q E) \<Longrightarrow> brings P (if b then m else n) Q E"
  by simp

lemma brings_option:
  "(x = None \<Longrightarrow> brings P m Q E) \<Longrightarrow> (\<And>y. x = Some y \<Longrightarrow> brings P (f y) Q E) \<Longrightarrow>
   brings P (case x of None \<Rightarrow> m | Some y \<Rightarrow> f y) Q E"
  by (cases x) auto

lemma brings_turns:
  fixes f :: "'l \<Rightarrow> ('s, 'a + 'l) loop_op"
  assumes "\<And>l. brings (I l) (f l) (\<lambda>r t. case r of Inl a \<Rightarrow> Q a t | Inr l' \<Rightarrow> I l' t) E"
  shows "brings (I l) (turns f l) Q E"
proof -
  define good :: "(string + 'a) \<times> 's \<Rightarrow> bool" where "good = (\<lambda>y. case y of (Inl e, t) \<Rightarrow> E t | (Inr v, t) \<Rightarrow> Q v t)"
  have "f = f \<longrightarrow> I l s \<longrightarrow> good y" if "turns f l s = Some y" for l s y
    using that
  proof (rule turns.raw_induct [where P = "\<lambda>g l s y. g = f \<longrightarrow> I l s \<longrightarrow> good y", rotated])
    fix again g l s y
    assume ih: "\<And>g l s y. again g l s = Some y \<Longrightarrow> g = f \<longrightarrow> I l s \<longrightarrow> good y"
      and step: "Option.bind (g l s) (\<lambda>(r, t). case r of Inl e \<Rightarrow> Some (Inl e, t)
        | Inr (Inl a) \<Rightarrow> Some (Inr a, t) | Inr (Inr l') \<Rightarrow> again g l' t) = Some y"
    show "g = f \<longrightarrow> I l s \<longrightarrow> good y"
    proof (intro impI)
      assume g: "g = f" and i: "I l s"
      obtain r t where m: "f l s = Some (r, t)" using step g by (auto simp: bind_eq_Some_conv)
      have b: "case r of Inl e \<Rightarrow> E t | Inr v \<Rightarrow> (case v of Inl a \<Rightarrow> Q a t | Inr l' \<Rightarrow> I l' t)"
        using assms [of l] i m unfolding brings_def by blast
      show "good y"
      proof (cases "\<exists>l'. r = Inr (Inr l')")
        case True
        then obtain l' where r: "r = Inr (Inr l')" by blast
        have "again f l' t = Some y" "I l' t" using step g m b r by simp_all
        then show ?thesis using ih by blast
      next
        case False
        then show ?thesis using step g m b by (auto simp: good_def split: sum.splits)
      qed
    qed
  qed
  then have g: "I l s \<Longrightarrow> turns f l s = Some y \<Longrightarrow> good y" for s y by blast
  show ?thesis
    unfolding brings_def
  proof (intro allI impI)
    fix s r t assume "I l s" "turns f l s = Some (r, t)"
    then have "good (r, t)" by (rule g)
    then show "case r of Inl e \<Rightarrow> E t | Inr v \<Rightarrow> Q v t" by (simp add: good_def)
  qed
qed

text \<open>What every turn keeps, the loop keeps.\<close>

definition advances :: "('s \<Rightarrow> 's \<Rightarrow> bool) \<Rightarrow> ('s, 'a) loop_op \<Rightarrow> bool" where
  "advances R m \<longleftrightarrow> (\<forall>s r t. m s = Some (r, t) \<longrightarrow> R s t)"

lemma advancesD: "advances R m \<Longrightarrow> m s = Some (r, t) \<Longrightarrow> R s t"
  by (simp add: advances_def)

lemma advances_once: "moves R m \<Longrightarrow> advances R (once m)"
  by (auto simp: advances_def once_def moves_def) (metis snd_conv)

context state_order begin

lemma advances_followed: "advances R m \<Longrightarrow> (\<And>v. advances R (f v)) \<Longrightarrow> advances R (followed m f)"
  by (auto simp: advances_def followed_def split: option.splits prod.splits sum.splits) (metis refl trans)+

lemma advances_turns: "(\<And>l. advances R (f l)) \<Longrightarrow> advances R (turns f l)"
proof -
  assume a: "\<And>l. advances R (f l)"
  have "brings (\<lambda>t. R s t) (turns f l) (\<lambda>_ t. R s t) (\<lambda>t. R s t)" for s
    by (rule brings_turns) (auto simp: brings_def split: sum.splits intro: trans advancesD [OF a])
  then show ?thesis
    by (auto simp: advances_def brings_def split: sum.splits) (metis refl sum.exhaust)
qed

end

lemma advances_if: "(b \<Longrightarrow> advances R m) \<Longrightarrow> (\<not> b \<Longrightarrow> advances R n) \<Longrightarrow> advances R (if b then m else n)"
  by simp

subsection \<open>When it stops\<close>

definition returns :: "('s \<Rightarrow> bool) \<Rightarrow> ('s, 'a) loop_op \<Rightarrow> bool" where
  "returns P m \<longleftrightarrow> (\<forall>s. P s \<longrightarrow> m s \<noteq> None)"

lemma returns_once: "returns P (once m)"
  by (simp add: returns_def once_def)

lemma returns_followed: "returns P m \<Longrightarrow> (\<And>v. returns (\<lambda>_. True) (f v)) \<Longrightarrow> returns P (followed m f)"
  by (fastforce simp: returns_def followed_def split: option.splits prod.splits sum.splits)

lemma returns_if: "(b \<Longrightarrow> returns P m) \<Longrightarrow> (\<not> b \<Longrightarrow> returns P n) \<Longrightarrow> returns P (if b then m else n)"
  by simp

lemma returns_option:
  "(x = None \<Longrightarrow> returns P m) \<Longrightarrow> (\<And>y. x = Some y \<Longrightarrow> returns P (f y)) \<Longrightarrow>
   returns P (case x of None \<Rightarrow> m | Some y \<Rightarrow> f y)"
  by (cases x) auto

text \<open>Every turn returns, and a turn that goes on comes nearer to a bound from which no turn goes on.\<close>

lemma returns_turns:
  fixes pos :: "'s \<Rightarrow> nat"
  assumes "\<And>l. returns (\<lambda>_. True) (f l)"
    and "\<And>l s l' t. f l s = Some (Inr (Inr l'), t) \<Longrightarrow> pos s < pos t \<and> pos s < bound"
  shows "returns (\<lambda>_. True) (turns f l)"
proof -
  have "turns f l s \<noteq> None" for l s
  proof (induction "bound - pos s" arbitrary: l s rule: less_induct)
    case less
    obtain r t where m: "f l s = Some (r, t)" using assms(1) by (fastforce simp: returns_def)
    show ?case
    proof (cases "\<exists>l'. r = Inr (Inr l')")
      case True
      then obtain l' where r: "r = Inr (Inr l')" by blast
      have "pos s < pos t" "pos s < bound" using assms(2) m r by blast+
      then have "turns f l' t \<noteq> None" using less by simp
      then show ?thesis using m r by (simp add: turns.simps)
    next
      case False
      then show ?thesis using m by (auto simp: turns.simps split: sum.splits)
    qed
  qed
  then show ?thesis by (simp add: returns_def)
qed

end
