(* ===== verification/Runner.thy ===== *)
theory Runner
  imports Process Herdr_Api Profiles
begin

text \<open>
  What every runner of agents is given, \<open>src/runners/mod.rs\<close>, and the runner without a pane,
  \<open>src/runners/headless.rs\<close>: the command line of an agent, what its output says about usage, and one attempt.
  The file system, JSON text, the clock and processes are parameters.
\<close>

record agent_request =
  aq_run_id :: string
  aq_task_id :: string
  aq_display :: string
  aq_variant :: string
  aq_step_id :: string
  aq_exec_id :: string
  aq_attempt :: nat
  aq_runner_name :: string
  aq_profile :: runner_profile
  aq_worktree :: path
  aq_workspace_id :: "string option"
  aq_prompt :: string
  aq_followup_prompt :: string
  aq_output_file :: path
  aq_log_path :: path
  aq_timeout :: duration
  aq_startup_timeout :: duration
  aq_env :: "(string, string) btmap"
  aq_previous :: "agent_binding option"
  aq_pane_env :: "(string, string) btmap"

record capabilities =
  cy_interactive :: bool
  cy_reports_usage :: bool
  cy_needs_herdr :: bool
  cy_resumable_session :: bool

definition pane_capabilities :: capabilities where
  "pane_capabilities = \<lparr> cy_interactive = True, cy_reports_usage = True, cy_needs_herdr = True, cy_resumable_session = True \<rparr>"

definition headless_capabilities :: capabilities where
  "headless_capabilities =
     \<lparr> cy_interactive = False, cy_reports_usage = True, cy_needs_herdr = False, cy_resumable_session = False \<rparr>"

text \<open>The file an agent writes: an ordinary one of at most 1 MiB; links are refused. \<open>plain\<close> gives the length of an
  ordinary file.\<close>

definition read_output_file :: "(path \<Rightarrow> nat option) \<Rightarrow> (path \<Rightarrow> string option) \<Rightarrow> path \<Rightarrow> string option" where
  "read_output_file plain contents p =
     (case plain p of
        None \<Rightarrow> None
      | Some len \<Rightarrow> if 1024 * 1024 < len then None else contents p)"

subsection \<open>Command lines\<close>

definition argv_element :: "string \<Rightarrow> string \<Rightarrow> string \<Rightarrow> string \<Rightarrow> string" where
  "argv_element prompt prompt_file output_file a =
     (if a = ''{{prompt}}'' then (if starts_with prompt ''-'' then '' '' @ prompt else prompt)
      else if a = ''{{prompt_file}}'' then prompt_file
      else if a = ''{{output_file}}'' then output_file
      else a)"

definition build_argv :: "string list \<Rightarrow> string \<Rightarrow> string \<Rightarrow> string \<Rightarrow> string list" where
  "build_argv tpl prompt prompt_file output_file = map (argv_element prompt prompt_file output_file) tpl"

subsection \<open>Usage\<close>

definition json_u64_at :: "json option \<Rightarrow> string \<Rightarrow> nat option" where
  "json_u64_at v k = Option.bind (Option.bind v (\<lambda>x. json_get x k)) (\<lambda>x. case x of
     JInt i \<Rightarrow> if 0 \<le> i \<and> i < 2 ^ 64 then Some (nat i) else None | _ \<Rightarrow> None)"

definition json_f64_at :: "json \<Rightarrow> string \<Rightarrow> f64 option" where
  "json_f64_at v k = Option.bind (json_get v k) (\<lambda>x. case x of JFloat f \<Rightarrow> Some f | JInt i \<Rightarrow> Some (of_int i) | _ \<Rightarrow> None)"

definition text_at :: "json \<Rightarrow> string \<Rightarrow> string option" where
  "text_at v k = Option.bind (json_get v k) json_as_str"

definition or_zero :: "nat option \<Rightarrow> nat" where
  "or_zero n = (case n of Some k \<Rightarrow> k | None \<Rightarrow> 0)"

definition claude_usage :: "json \<Rightarrow> usage_record \<Rightarrow> usage_record" where
  "claude_usage v u0 =
     (let us = json_get v ''usage'';
          u = u0\<lparr>
            u_input_tokens := map_option (\<lambda>i. u64_add i (or_zero (json_u64_at us ''cache_creation_input_tokens''))) (json_u64_at us ''input_tokens''),
            u_output_tokens := json_u64_at us ''output_tokens'',
            u_cached_tokens := json_u64_at us ''cache_read_input_tokens'',
            u_cost_usd := json_f64_at v ''total_cost_usd'',
            u_model := text_at v ''model'' \<rparr>
      in if u_cost_usd u \<noteq> None \<or> u_input_tokens u \<noteq> None then u\<lparr> u_source := UReported \<rparr> else u)"

record codex_totals =
  ct_in :: nat
  ct_out :: nat
  ct_cached :: nat
  ct_any :: bool
  ct_text :: "string option"

definition codex_line :: "json \<Rightarrow> codex_totals \<Rightarrow> codex_totals" where
  "codex_line v t =
     (let t1 = (if text_at v ''type'' = Some ''turn.completed''
        then (case json_get v ''usage'' of
                Some us \<Rightarrow> t\<lparr> ct_any := True,
                  ct_in := u64_add (ct_in t) (or_zero (json_u64_at (Some us) ''input_tokens'')),
                  ct_out := u64_add (ct_out t) (or_zero (json_u64_at (Some us) ''output_tokens'')),
                  ct_cached := u64_add (ct_cached t) (or_zero (json_u64_at (Some us) ''cached_input_tokens'')) \<rparr>
              | None \<Rightarrow> t)
        else t)
      in if text_at v ''type'' = Some ''item.completed''
         then (case Option.bind (json_get v ''item'') (\<lambda>x. text_at x ''text'') of
                 Some s \<Rightarrow> t1\<lparr> ct_text := Some s \<rparr> | None \<Rightarrow> t1)
         else t1)"

definition codex_totals_of :: "(string \<Rightarrow> string + json) \<Rightarrow> string \<Rightarrow> codex_totals" where
  "codex_totals_of parse out =
     foldl (\<lambda>t l. case parse l of Inr v \<Rightarrow> codex_line v t | Inl _ \<Rightarrow> t)
       \<lparr> ct_in = 0, ct_out = 0, ct_cached = 0, ct_any = False, ct_text = None \<rparr> (lines out)"

definition parse_usage :: "(string \<Rightarrow> string + json) \<Rightarrow> string \<Rightarrow> string \<Rightarrow> nat \<Rightarrow> usage_record \<times> string option" where
  "parse_usage parse format out ms =
     (let u = usage_unknown (Some ms) in
      if format = ''claude-json'' then
        (case parse (trim out) of Inr v \<Rightarrow> (claude_usage v u, text_at v ''result'') | Inl _ \<Rightarrow> (u, None))
      else if format = ''codex-jsonl'' then
        (let t = codex_totals_of parse out in
         (if ct_any t then u\<lparr> u_input_tokens := Some (ct_in t), u_output_tokens := Some (ct_out t),
            u_cached_tokens := Some (ct_cached t), u_source := UReported \<rparr> else u, ct_text t))
      else (u, None))"

subsection \<open>One attempt without a pane\<close>

definition headless_binding :: "agent_request \<Rightarrow> agent_binding" where
  "headless_binding q = agent_binding_default\<lparr> ab_mode := ''headless'', ab_agent_kind := rp_kind (aq_profile q),
     ab_output_file := Some (aq_output_file q) \<rparr>"

definition prompt_path :: "agent_request \<Rightarrow> path" where
  "prompt_path q = with_extension (aq_output_file q) ''prompt.md''"

definition headless_spec :: "agent_request \<Rightarrow> string list \<Rightarrow> duration \<Rightarrow> process_spec" where
  "headless_spec q tpl remaining =
     \<lparr> sp_argv = build_argv tpl (aq_prompt q) (prompt_path q) (aq_output_file q), sp_cwd = aq_worktree q,
       sp_env = bt_insert ''HERDR_ORCH_OUTPUT_FILE'' (aq_output_file q)
         (bt_insert ''HERDR_ORCH_PROMPT_FILE'' (prompt_path q) (aq_env q)),
       sp_stdin = Some (aq_prompt q), sp_timeout = Some remaining, sp_log_path = Some (aq_log_path q), sp_kill_grace = 5000 \<rparr>"

definition headless_end :: "process_output \<Rightarrow> agent_end" where
  "headless_end p =
     (if po_cancelled p then EndCancelled
      else if po_timed_out p then EndTimedOut
      else if process_success p then EndCompleted
      else EndFailed (''exit status '' @ (case po_exit_code p of Some c \<Rightarrow> ''Some('' @ code_text [] (Some c) @ '')'' | None \<Rightarrow> ''None'')
        @ '': '' @ excerpt (utf8_lossy (po_stderr p)) 5 20 2000))"

definition headless_result ::
  "(string \<Rightarrow> string + json) \<Rightarrow> agent_request \<Rightarrow> string option \<Rightarrow> agent_binding \<Rightarrow> process_output \<Rightarrow> agent_result" where
  "headless_result parse q written b p =
     (let out = utf8_lossy (po_stdout p);
          (usage, said) = parse_usage parse (rp_usage_format (aq_profile q)) out (po_millis p);
          transcript = (case said of Some s \<Rightarrow> s | None \<Rightarrow> out)
      in \<lparr> ao_end = headless_end p, ao_binding = b,
           ao_transcript = (if trim transcript = [] then utf8_lossy (po_stderr p) else transcript),
           ao_output_file = written, ao_exit_code = po_exit_code p, ao_usage = usage \<rparr>)"

text \<open>What is done for it: the prompt is written to its file, the process started and waited for. The events tell the
  engine that the prompt is about to be sent, and that it was.\<close>

record headless_world =
  hw_mkdirs :: "path \<Rightarrow> string + unit"
  hw_write :: "path \<Rightarrow> string \<Rightarrow> string + unit"
  hw_remaining :: duration
  hw_start :: "process_spec \<Rightarrow> string + child"
  hw_written :: "string option"
  hw_parse :: "string \<Rightarrow> string + json"

definition headless_send ::
  "headless_world \<Rightarrow> string \<Rightarrow> agent_request \<Rightarrow> agent_binding \<Rightarrow> (agent_event list \<times> (string + agent_result)) option" where
  "headless_send w name q b =
     (case rp_headless (aq_profile q) of
        None \<Rightarrow> Some ([], Inl (''runner '' @ name @ '' has no headless command''))
      | Some tpl \<Rightarrow>
          (case sum_bind (case path_parent (prompt_path q) of Some d \<Rightarrow> hw_mkdirs w d | None \<Rightarrow> Inr ())
                  (\<lambda>_. hw_write w (prompt_path q) (aq_prompt q)) of
             Inl e \<Rightarrow> Some ([], Inl e)
           | Inr _ \<Rightarrow>
               let sp = headless_spec q tpl (hw_remaining w) in
               (case process_spawn (hw_start w) sp of
                  Inl e \<Rightarrow> Some ([PromptSending], Inl e)
                | Inr c \<Rightarrow>
                    map_option (\<lambda>r. ([PromptSending, PromptSent], map_sum (\<lambda>e. e)
                        (headless_result (hw_parse w) q (hw_written w) (b\<lparr> ab_prompt_sent := True \<rparr>)) r))
                      (process_wait c sp True))))"

end
