(* ===== verification/Pane.thy ===== *)
theory Pane
  imports Turns Runner
begin

text \<open>
  Agents in panes, \<open>src/runners/pane.rs\<close>: an agent is started in a tab, its prompt is submitted, and it is watched
  until it has settled. What Herdr answers, the clock, the cancellation and the file of the result are parameters
  indexed by the number of questions asked before; the state records every call to Herdr and every event of the
  engine in order. Sleeping is not visible: time passes between questions.
\<close>

subsection \<open>State\<close>

datatype pane_act =
    PnEvent agent_event
  | PnWait string "agent_status list" duration
  | PnGet string
  | PnPrompt string string
  | PnKeys string "string list"
  | PnTab string path string
  | PnLabel string string
  | PnStart string string string "string list"
  | PnClose string

record pane_state =
  pn_asked :: nat
  pn_trace :: "pane_act list"

type_synonym 'a pane_op = "(pane_state, 'a) eff"

record pane_world =
  pw_now :: "nat \<Rightarrow> nat"
  pw_cancelled :: "nat \<Rightarrow> bool"
  pw_wait :: "nat \<Rightarrow> agent_info hresult"
  pw_get :: "nat \<Rightarrow> agent_info option hresult"
  pw_prompt :: "nat \<Rightarrow> agent_info hresult"
  pw_pane_there :: "nat \<Rightarrow> bool"
  pw_read :: "nat \<Rightarrow> string option"
  pw_file :: "nat \<Rightarrow> string option"
  pw_tab :: "nat \<Rightarrow> tab_handle hresult"
  pw_start :: "nat \<Rightarrow> agent_info hresult"
  pw_close :: "nat \<Rightarrow> unit hresult"
  pw_keys :: "nat \<Rightarrow> unit hresult"
  pw_tokens :: "nat \<Rightarrow> nat option"
  pw_fingerprint :: "nat \<Rightarrow> string"
  pw_hash :: "string \<Rightarrow> nat"

record pane_runner =
  pr_interrupt_on_timeout :: bool
  pr_settle_window :: duration
  pr_watchdog :: watchdog_config

definition question :: "(nat \<Rightarrow> 'a) \<Rightarrow> 'a pane_op" where
  "question f = (\<lambda>s. (Inr (f (pn_asked s)), s\<lparr> pn_asked := Suc (pn_asked s) \<rparr>))"

definition act :: "pane_act \<Rightarrow> unit pane_op" where
  "act a = modify (\<lambda>s. s\<lparr> pn_trace := pn_trace s @ [a] \<rparr>)"

definition call :: "pane_act \<Rightarrow> (nat \<Rightarrow> 'a) \<Rightarrow> 'a pane_op" where
  "call a f = andthen (act a) (question f)"

definition report :: "agent_event \<Rightarrow> unit pane_op" where
  "report e = act (PnEvent e)"

text \<open>An error of Herdr that is passed on.\<close>

definition herdr_fails :: "herdr_error \<Rightarrow> 'a pane_op" where
  "herdr_fails e = bail (herdr_error_text e)"

subsection \<open>Looking at an agent\<close>

definition CHUNK :: duration where
  "CHUNK = 10000"

definition SETTLED :: "agent_status list" where
  "SETTLED = [AgIdle, AgDone, AgBlocked]"

definition NOT_BLOCKED :: "agent_status list" where
  "NOT_BLOCKED = [AgIdle, AgDone, AgWorking]"

definition pane_target :: "agent_binding \<Rightarrow> string pane_op" where
  "pane_target b =
     (case ab_agent_name b of
        Some n \<Rightarrow> ret n
      | None \<Rightarrow> (case ab_pane_id b of Some p \<Rightarrow> ret p | None \<Rightarrow> bail ''agent binding has no target''))"

definition lost_reason :: "pane_world \<Rightarrow> agent_binding \<Rightarrow> string pane_op" where
  "lost_reason w b =
     bnd (case ab_pane_id b of None \<Rightarrow> ret False | Some p \<Rightarrow> question (pw_pane_there w)) (\<lambda>there.
     ret (if there then ''agent process exited in its pane'' else ''agent pane was closed''))"

definition pane_transcript :: "pane_world \<Rightarrow> agent_binding \<Rightarrow> string pane_op" where
  "pane_transcript w b =
     (case ab_pane_id b of
        None \<Rightarrow> ret []
      | Some p \<Rightarrow> bnd (question (pw_read w)) (\<lambda>r. ret (case r of Some s \<Rightarrow> s | None \<Rightarrow> [])))"

definition pane_outcome :: "pane_world \<Rightarrow> agent_binding \<Rightarrow> agent_end \<Rightarrow> agent_result pane_op" where
  "pane_outcome w b en =
     bnd (case en of EndLost _ \<Rightarrow> ret [] | _ \<Rightarrow> pane_transcript w b) (\<lambda>transcript.
     bnd (question (pw_file w)) (\<lambda>written.
     ret \<lparr> ao_end = en, ao_binding = b, ao_transcript = transcript, ao_output_file = written, ao_exit_code = None,
       ao_usage = usage_unknown None \<rparr>))"

definition pane_interrupt :: "pane_world \<Rightarrow> agent_binding \<Rightarrow> unit pane_op" where
  "pane_interrupt w b =
     bnd (pane_target b) (\<lambda>t.
     bnd (call (PnKeys t (if ab_agent_kind b \<in> {Some ''claude'', Some ''codex''} then [''esc''] else [''ctrl+c''])) (pw_keys w)) (\<lambda>r.
     case r of Inl e \<Rightarrow> herdr_fails e | Inr _ \<Rightarrow> ret ()))"

text \<open>The watchdog of one step, and when it looks next.\<close>

record pane_watch =
  pa_dog :: watchdog
  pa_next :: nat

definition new_watch :: "pane_world \<Rightarrow> pane_runner \<Rightarrow> pane_watch option pane_op" where
  "new_watch w pr =
     (if wc_enabled (pr_watchdog pr) then
        bnd (question (pw_now w)) (\<lambda>now.
        let dog = watchdog_new (pr_watchdog pr) in ret (Some \<lparr> pa_dog = dog, pa_next = now + check_every dog \<rparr>))
      else ret None)"

definition last_lines :: "nat \<Rightarrow> string \<Rightarrow> string" where
  "last_lines n s = (let ls = lines s in join nl (drop (length ls - n) ls))"

definition watch_agent :: "pane_world \<Rightarrow> agent_binding \<Rightarrow> pane_watch option \<Rightarrow> pane_watch option pane_op" where
  "watch_agent w b pa =
     (case pa of
        None \<Rightarrow> ret None
      | Some p \<Rightarrow>
          bnd (question (pw_now w)) (\<lambda>now.
          if now < pa_next p then ret (Some p)
          else
            bnd (pane_transcript w b) (\<lambda>screen.
            bnd (question (pw_tokens w)) (\<lambda>tokens.
            bnd (question (pw_fingerprint w)) (\<lambda>print.
            let ob = \<lparr> ob_at = now, ob_tail = last_lines 60 screen, ob_worktree = print,
                  ob_tokens = (if ab_agent_kind b = None then None else tokens) \<rparr>;
                (dog, reason) = observe (pw_hash w) ob (pa_dog p)
            in andthen (case reason of
                   Some r \<Rightarrow> report (Stuck r)
                 | None \<Rightarrow> whenb (wd_fired (pa_dog p) \<and> \<not> wd_fired dog) (report Progressing))
                 (ret (Some \<lparr> pa_dog = dog, pa_next = now + check_every (pa_dog p) \<rparr>)))))))"

subsection \<open>Before the prompt\<close>

text \<open>Waiting for the input of an agent after it said it is idle.\<close>

definition input_turn :: "pane_world \<Rightarrow> string \<Rightarrow> nat \<Rightarrow> unit \<Rightarrow> (unit + unit) pane_op" where
  "input_turn w target until u =
     bnd (question (pw_now w)) (\<lambda>now.
     if until \<le> now then ret (Inl ())
     else
       bnd (question (pw_cancelled w)) (\<lambda>c.
       if c then ret (Inl ())
       else
         bnd (call (PnGet target) (pw_get w)) (\<lambda>r.
         case r of
           Inr (Some i) \<Rightarrow> ret (if ai_interactive_ready i then Inl () else Inr ())
         | _ \<Rightarrow> ret (Inl ()))))"

definition await_input :: "pane_world \<Rightarrow> string \<Rightarrow> nat \<Rightarrow> (pane_state, unit) loop_op" where
  "await_input w target deadline =
     followed (once (bnd (question (pw_now w)) (\<lambda>now. bnd (question (pw_now w)) (\<lambda>later.
       ret (now + min 10000 (deadline - later)))))) (\<lambda>until. turns (\<lambda>u. once (input_turn w target until u)) ())"

text \<open>One turn of \<open>wait_ready\<close>: it stops with how the attempt ended, if it did, or waits for the input and stops.\<close>

datatype ready = NotReady agent_end | ReadyAt bool

definition ready_answer ::
  "pane_world \<Rightarrow> string \<Rightarrow> bool \<Rightarrow> agent_binding \<Rightarrow> agent_info hresult \<Rightarrow>
     ((ready \<times> agent_binding) + bool \<times> agent_binding) pane_op" where
  "ready_answer w target blocked b r =
     (case r of
        Inr i \<Rightarrow>
          (let b' = b\<lparr> ab_last_status := Some (agent_status_str (ai_status i)) \<rparr> in
           if \<not> blocked then ret (Inl (ReadyAt (ai_interactive_ready i), b'))
           else
             bnd (call (PnGet target) (pw_get w)) (\<lambda>g.
             case g of
               Inr (Some j) \<Rightarrow>
                 if is_settled (ai_status j) then
                   andthen (report Unblocked) (ret (Inl (ReadyAt (ai_interactive_ready i), b')))
                 else ret (Inr (blocked, b'))
             | Inr None \<Rightarrow> bnd (lost_reason w b') (\<lambda>why. ret (Inl (NotReady (EndLost why), b')))
             | Inl e \<Rightarrow> herdr_fails e))
      | Inl e \<Rightarrow>
          if is_wait_timeout e then
            bnd (call (PnGet target) (pw_get w)) (\<lambda>g.
            case g of
              Inr (Some j) \<Rightarrow>
                if ai_status j = AgBlocked \<and> \<not> blocked then
                  andthen (report (AgentBlocked ''agent is waiting for input during startup'')) (ret (Inr (True, b)))
                else ret (Inr (blocked, b))
            | _ \<Rightarrow> ret (Inr (blocked, b)))
          else if agent_missing e then
            ret (Inl (NotReady (EndLost (''agent disappeared during startup: '' @ herdr_error_text e)), b))
          else herdr_fails e)"

definition ready_turn ::
  "pane_world \<Rightarrow> string \<Rightarrow> nat \<Rightarrow> bool \<times> agent_binding \<Rightarrow> ((ready \<times> agent_binding) + bool \<times> agent_binding) pane_op" where
  "ready_turn w target deadline v =
     (case v of (blocked, b) \<Rightarrow>
      bnd (question (pw_cancelled w)) (\<lambda>c.
      if c then ret (Inl (NotReady EndCancelled, b))
      else
        bnd (question (pw_now w)) (\<lambda>now.
        if deadline \<le> now then ret (Inl (NotReady EndTimedOut, b))
        else
          bnd (call (PnWait target [AgIdle, AgDone] (min CHUNK (deadline - now))) (pw_wait w)) (\<lambda>r.
          ready_answer w target blocked b r))))"

definition wait_ready ::
  "pane_world \<Rightarrow> string \<Rightarrow> agent_binding \<Rightarrow> nat \<Rightarrow> (pane_state, agent_end option \<times> agent_binding) loop_op" where
  "wait_ready w target b deadline =
     followed (turns (\<lambda>v. once (ready_turn w target deadline v)) (False, b)) (\<lambda>(r, b').
     case r of
       NotReady en \<Rightarrow> once (ret (Some en, b'))
     | ReadyAt True \<Rightarrow> once (ret (None, b'))
     | ReadyAt False \<Rightarrow> followed (await_input w target deadline) (\<lambda>_. once (ret (None, b'))))"

text \<open>\<open>wait_stable_idle\<close>: idle and ready twice in a row, for twenty seconds at most.\<close>

definition stable_turn :: "pane_world \<Rightarrow> string \<Rightarrow> nat \<Rightarrow> nat \<Rightarrow> (unit + nat) pane_op" where
  "stable_turn w target until seen =
     (if 2 \<le> seen then ret (Inl ())
      else
        bnd (question (pw_now w)) (\<lambda>now.
        if until \<le> now then ret (Inl ())
        else
          bnd (question (pw_cancelled w)) (\<lambda>c.
          if c then ret (Inl ())
          else
            bnd (call (PnGet target) (pw_get w)) (\<lambda>r.
            case r of
              Inr (Some i) \<Rightarrow> ret (Inr (if is_settled (ai_status i) \<and> ai_interactive_ready i then seen + 1 else 0))
            | _ \<Rightarrow> ret (Inl ())))))"

definition wait_stable_idle :: "pane_world \<Rightarrow> string \<Rightarrow> (pane_state, unit) loop_op" where
  "wait_stable_idle w target =
     followed (once (bnd (question (pw_now w)) (\<lambda>now. ret (now + 20000)))) (\<lambda>until.
     turns (\<lambda>k. once (stable_turn w target until k)) 0)"

subsection \<open>After the prompt\<close>

text \<open>One turn of \<open>wait_settled\<close>. The variables are whether the agent is waiting for its human, the binding, and the
  watchdog.\<close>

definition settled_answer ::
  "pane_world \<Rightarrow> bool \<Rightarrow> agent_binding \<Rightarrow> pane_watch option \<Rightarrow> agent_info hresult \<Rightarrow>
     ((agent_result \<times> pane_watch option) + bool \<times> agent_binding \<times> pane_watch option) pane_op" where
  "settled_answer w blocked b pa r =
     (case r of
        Inr i \<Rightarrow>
          (let b1 = b\<lparr> ab_last_status := Some (agent_status_str (ai_status i)) \<rparr>;
               b2 = (case Option.bind (ai_agent_session i) as_value of Some s \<Rightarrow> b1\<lparr> ab_agent_session := Some s \<rparr> | None \<Rightarrow> b1)
           in if ai_status i = AgBlocked \<and> \<not> blocked then
                andthen (report (AgentBlocked ''agent is waiting for a human in its pane'')) (ret (Inr (True, b2, pa)))
              else if ai_status i = AgWorking \<and> blocked then
                andthen (report Unblocked) (ret (Inr (False, b2, pa)))
              else if ai_status i = AgWorking then
                bnd (watch_agent w b2 pa) (\<lambda>pa'. ret (Inr (blocked, b2, pa')))
              else if is_settled (ai_status i) then
                andthen (whenb blocked (report Unblocked))
                  (bnd (pane_outcome w b2 EndCompleted) (\<lambda>out. ret (Inl (out, pa))))
              else ret (Inr (blocked, b2, pa)))
      | Inl e \<Rightarrow>
          if is_wait_timeout e then
            (if blocked then ret (Inr (blocked, b, pa))
             else bnd (watch_agent w b pa) (\<lambda>pa'. ret (Inr (blocked, b, pa'))))
          else if agent_missing e then
            bnd (lost_reason w b) (\<lambda>why. bnd (pane_outcome w b (EndLost why)) (\<lambda>out. ret (Inl (out, pa))))
          else herdr_fails e)"

text \<open>How long one wait may last.\<close>

definition wait_chunk :: "pane_watch option \<Rightarrow> duration \<Rightarrow> duration" where
  "wait_chunk pa remaining =
     (let k = min CHUNK remaining in case pa of Some p \<Rightarrow> min k (check_every (pa_dog p)) | None \<Rightarrow> k)"

definition settled_turn ::
  "pane_world \<Rightarrow> pane_runner \<Rightarrow> string \<Rightarrow> nat \<Rightarrow> bool \<times> agent_binding \<times> pane_watch option \<Rightarrow>
     ((agent_result \<times> pane_watch option) + bool \<times> agent_binding \<times> pane_watch option) pane_op" where
  "settled_turn w pr target deadline v =
     (case v of (blocked, b, pa) \<Rightarrow>
      bnd (question (pw_cancelled w)) (\<lambda>c.
      if c then
        bnd (attempt (pane_interrupt w b)) (\<lambda>_. bnd (pane_outcome w b EndCancelled) (\<lambda>out. ret (Inl (out, pa))))
      else
        bnd (question (pw_now w)) (\<lambda>now.
        if deadline \<le> now then
          bnd (if pr_interrupt_on_timeout pr then attempt (pane_interrupt w b) else ret (Inr ())) (\<lambda>_.
          bnd (pane_outcome w b EndTimedOut) (\<lambda>out. ret (Inl (out, pa))))
        else
          bnd (call (PnWait target (if blocked then NOT_BLOCKED else SETTLED) (wait_chunk pa (deadline - now))) (pw_wait w)) (\<lambda>r.
          settled_answer w blocked b pa r))))"

definition wait_settled ::
  "pane_world \<Rightarrow> pane_runner \<Rightarrow> agent_binding \<Rightarrow> nat \<Rightarrow> pane_watch option \<Rightarrow>
     (pane_state, agent_result \<times> pane_watch option) loop_op" where
  "wait_settled w pr b deadline pa =
     followed (once (pane_target b)) (\<lambda>target.
     turns (\<lambda>v. once (settled_turn w pr target deadline v)) (False, b, pa))"

datatype settle = SettleDone | SettleWorking | SettleCancelled | SettleTimedOut | SettleLost

definition confirm_turn :: "pane_world \<Rightarrow> string \<Rightarrow> nat \<Rightarrow> nat \<Rightarrow> unit \<Rightarrow> (settle + unit) pane_op" where
  "confirm_turn w target deadline window_end u =
     bnd (question (pw_file w)) (\<lambda>written.
     if written \<noteq> None then ret (Inl SettleDone)
     else
       bnd (question (pw_cancelled w)) (\<lambda>c.
       if c then ret (Inl SettleCancelled)
       else
         bnd (question (pw_now w)) (\<lambda>now.
         if deadline \<le> now then ret (Inl SettleTimedOut)
         else if window_end \<le> now then ret (Inl SettleDone)
         else
           bnd (call (PnGet target) (pw_get w)) (\<lambda>r.
           case r of
             Inl e \<Rightarrow> herdr_fails e
           | Inr None \<Rightarrow> ret (Inl SettleLost)
           | Inr (Some i) \<Rightarrow>
               if ai_status i \<in> {AgWorking, AgBlocked} then ret (Inl SettleWorking) else ret (Inr ())))))"

definition confirm_settled ::
  "pane_world \<Rightarrow> pane_runner \<Rightarrow> string \<Rightarrow> nat \<Rightarrow> (pane_state, settle) loop_op" where
  "confirm_settled w pr target deadline =
     followed (once (bnd (question (pw_now w)) (\<lambda>now. ret (now + pr_settle_window pr)))) (\<lambda>window_end.
     turns (\<lambda>u. once (confirm_turn w target deadline window_end u)) ())"

text \<open>How the attempt ends when the agent has settled; the callers go on while it works.\<close>

definition settle_outcome :: "pane_world \<Rightarrow> pane_runner \<Rightarrow> agent_binding \<Rightarrow> settle \<Rightarrow> agent_result pane_op" where
  "settle_outcome w pr b s =
     (case s of
        SettleCancelled \<Rightarrow> bnd (attempt (pane_interrupt w b)) (\<lambda>_. pane_outcome w b EndCancelled)
      | SettleTimedOut \<Rightarrow>
          bnd (if pr_interrupt_on_timeout pr then attempt (pane_interrupt w b) else ret (Inr ())) (\<lambda>_.
          pane_outcome w b EndTimedOut)
      | SettleLost \<Rightarrow> bnd (lost_reason w b) (\<lambda>why. pane_outcome w b (EndLost why))
      | _ \<Rightarrow> pane_outcome w b EndCompleted)"

definition until_done_turn ::
  "pane_world \<Rightarrow> pane_runner \<Rightarrow> string \<Rightarrow> nat \<Rightarrow> agent_binding \<times> pane_watch option \<Rightarrow>
     (pane_state, agent_result + agent_binding \<times> pane_watch option) loop_op" where
  "until_done_turn w pr target deadline v =
     (case v of (b, pa) \<Rightarrow>
      followed (wait_settled w pr b deadline pa) (\<lambda>(out, pa').
      if ao_end out \<noteq> EndCompleted \<or> ao_output_file out \<noteq> None then once (ret (Inl out))
      else
        followed (confirm_settled w pr target deadline) (\<lambda>s.
        if s = SettleWorking then once (ret (Inr (ao_binding out, pa')))
        else once (bnd (settle_outcome w pr (ao_binding out) s) (\<lambda>res. ret (Inl res))))))"

definition wait_until_done ::
  "pane_world \<Rightarrow> pane_runner \<Rightarrow> agent_binding \<Rightarrow> nat \<Rightarrow> (pane_state, agent_result) loop_op" where
  "wait_until_done w pr b deadline =
     followed (once (pane_target b)) (\<lambda>target.
     followed (once (new_watch w pr)) (\<lambda>pa.
     turns (until_done_turn w pr target deadline) (b, pa)))"

subsection \<open>The prompt\<close>

definition reused :: "agent_request \<Rightarrow> agent_binding \<Rightarrow> bool" where
  "reused q b \<longleftrightarrow> (case aq_previous q of Some p \<Rightarrow> ab_agent_name p = ab_agent_name b | None \<Rightarrow> False)"

definition prompt_text :: "agent_request \<Rightarrow> agent_binding \<Rightarrow> string option \<Rightarrow> string" where
  "prompt_text q b instead =
     (case instead of
        Some t \<Rightarrow> t
      | None \<Rightarrow> if reused q b then aq_followup_prompt q else aq_prompt q)"

text \<open>What follows when the prompt arrived, when it may have, and when it was refused because the agent waits for its
  human; then it is sent again.\<close>

definition wait_on ::
  "pane_world \<Rightarrow> pane_runner \<Rightarrow> nat \<Rightarrow> agent_binding \<Rightarrow> (pane_state, agent_result + agent_binding) loop_op" where
  "wait_on w pr deadline b = followed (wait_until_done w pr b deadline) (\<lambda>out. once (ret (Inl out)))"

definition prompt_arrived ::
  "pane_world \<Rightarrow> pane_runner \<Rightarrow> string \<Rightarrow> nat \<Rightarrow> agent_binding \<Rightarrow> agent_status \<Rightarrow>
     (pane_state, agent_result + agent_binding) loop_op" where
  "prompt_arrived w pr target deadline b st =
     (if is_settled st then
        followed (confirm_settled w pr target deadline) (\<lambda>s.
        if s = SettleWorking then wait_on w pr deadline b
        else once (bnd (settle_outcome w pr b s) (\<lambda>out. ret (Inl out))))
      else wait_on w pr deadline b)"

definition prompt_stalled ::
  "pane_world \<Rightarrow> pane_runner \<Rightarrow> string \<Rightarrow> nat \<Rightarrow> agent_binding \<Rightarrow> string \<Rightarrow>
     (pane_state, agent_result + agent_binding) loop_op" where
  "prompt_stalled w pr target deadline b message =
     followed (once (call (PnGet target) (pw_get w))) (\<lambda>g.
     if (case g of Inr (Some i) \<Rightarrow> ai_status i \<in> {AgWorking, AgBlocked} | _ \<Rightarrow> False) then wait_on w pr deadline b
     else once (bnd (pane_outcome w b (EndStalled (''prompt stalled: '' @ message))) (\<lambda>out. ret (Inl out))))"

definition prompt_refused ::
  "pane_world \<Rightarrow> string \<Rightarrow> nat \<Rightarrow> agent_binding \<Rightarrow> (pane_state, agent_result + agent_binding) loop_op" where
  "prompt_refused w target deadline b =
     followed (once (report (AgentBlocked ''agent was blocked before the prompt could be sent''))) (\<lambda>_.
     followed (wait_ready w target b deadline) (\<lambda>(en, b').
     case en of
       Some x \<Rightarrow> once (bnd (pane_outcome w b' x) (\<lambda>out. ret (Inl out)))
     | None \<Rightarrow> once (ret (Inr b'))))"

definition after_prompt ::
  "pane_world \<Rightarrow> pane_runner \<Rightarrow> string \<Rightarrow> nat \<Rightarrow> agent_binding \<Rightarrow> agent_info hresult \<Rightarrow>
     (pane_state, agent_result + agent_binding) loop_op" where
  "after_prompt w pr target deadline b r =
     (let sent = b\<lparr> ab_prompt_sent := True \<rparr> in
      case r of
        Inr i \<Rightarrow>
          followed (once (report PromptSent)) (\<lambda>_.
          prompt_arrived w pr target deadline (sent\<lparr> ab_last_status := Some (agent_status_str (ai_status i)) \<rparr>) (ai_status i))
      | Inl e \<Rightarrow>
          if is_wait_timeout e then followed (once (report PromptSent)) (\<lambda>_. wait_on w pr deadline sent)
          else if error_code e = Some ''agent_prompt_stalled'' then
            followed (once (report PromptSent)) (\<lambda>_.
            prompt_stalled w pr target deadline sent (case e of ApiError _ m \<Rightarrow> m | _ \<Rightarrow> []))
          else if error_code e = Some ''agent_blocked'' then prompt_refused w target deadline b
          else if agent_missing e then
            once (bnd (lost_reason w b) (\<lambda>why. bnd (pane_outcome w b (EndLost why)) (\<lambda>out. ret (Inl out))))
          else once (herdr_fails e))"

definition send_turn ::
  "pane_world \<Rightarrow> pane_runner \<Rightarrow> agent_request \<Rightarrow> string option \<Rightarrow> nat \<Rightarrow> agent_binding \<Rightarrow>
     (pane_state, agent_result + agent_binding) loop_op" where
  "send_turn w pr q instead deadline b =
     followed (once (pane_target b)) (\<lambda>target.
     followed (wait_ready w target b deadline) (\<lambda>(en, b').
     case en of
       Some x \<Rightarrow> once (bnd (pane_outcome w b' x) (\<lambda>out. ret (Inl out)))
     | None \<Rightarrow>
         followed (once (bnd (report PromptSending) (\<lambda>_. bnd (question (pw_now w)) (\<lambda>_.
           call (PnPrompt target (prompt_text q b instead)) (pw_prompt w))))) (\<lambda>r.
         after_prompt w pr target deadline b' r)))"

definition send_once ::
  "pane_world \<Rightarrow> pane_runner \<Rightarrow> agent_request \<Rightarrow> string option \<Rightarrow> agent_binding \<Rightarrow> nat \<Rightarrow> (pane_state, agent_result) loop_op" where
  "send_once w pr q instead b deadline = turns (send_turn w pr q instead deadline) b"

definition reminder_text :: "agent_request \<Rightarrow> string" where
  "reminder_text q = ''You have not written the result file yet: '' @ aq_output_file q @ nl
     @ ''If you have not started the task below, do it now. If you already finished it, do not redo any work: only write the result file.''
     @ nl @ nl @ aq_followup_prompt q"

definition send_and_wait ::
  "pane_world \<Rightarrow> pane_runner \<Rightarrow> agent_request \<Rightarrow> agent_binding \<Rightarrow> nat \<Rightarrow> (pane_state, agent_result) loop_op" where
  "send_and_wait w pr q b deadline =
     followed (send_once w pr q None b deadline) (\<lambda>first.
     if ao_end first \<noteq> EndCompleted \<or> ao_output_file first \<noteq> None then once (ret first)
     else send_once w pr q (Some (reminder_text q)) (ao_binding first) deadline)"

definition pane_attach :: "pane_world \<Rightarrow> pane_runner \<Rightarrow> agent_binding \<Rightarrow> nat \<Rightarrow> (pane_state, agent_result) loop_op" where
  "pane_attach w pr b deadline = wait_until_done w pr b deadline"

definition close_pane :: "pane_world \<Rightarrow> agent_binding \<Rightarrow> unit pane_op" where
  "close_pane w b =
     (case ab_pane_id b of
        None \<Rightarrow> ret ()
      | Some p \<Rightarrow> bnd (call (PnClose p) (pw_close w)) (\<lambda>r. case r of Inl e \<Rightarrow> herdr_fails e | Inr _ \<Rightarrow> ret ()))"

subsection \<open>Starting\<close>

definition pane_label :: "agent_request \<Rightarrow> string" where
  "pane_label q = aq_display q @ '' '' @ aq_step_id q @ middle_dot @ aq_runner_name q"

fun agent_end_debug :: "agent_end \<Rightarrow> string" where
  "agent_end_debug EndCompleted = ''Completed''"
| "agent_end_debug (EndFailed s) = ''Failed('' @ debug_str s @ '')''"
| "agent_end_debug EndTimedOut = ''TimedOut''"
| "agent_end_debug EndCancelled = ''Cancelled''"
| "agent_end_debug (EndLost s) = ''Lost('' @ debug_str s @ '')''"
| "agent_end_debug (EndStalled s) = ''Stalled('' @ debug_str s @ '')''"

text \<open>The agent of the attempt before, when it is there and idle.\<close>

definition live_agent :: "pane_world \<Rightarrow> agent_request \<Rightarrow> agent_binding option pane_op" where
  "live_agent w q =
     (case aq_previous q of
        None \<Rightarrow> ret None
      | Some prev \<Rightarrow> (case ab_agent_name prev of
          None \<Rightarrow> ret None
        | Some n \<Rightarrow>
            bnd (call (PnGet n) (pw_get w)) (\<lambda>r.
            case r of
              Inr (Some i) \<Rightarrow>
                if is_settled (ai_status i) then
                  ret (Some (prev\<lparr> ab_output_file := Some (aq_output_file q), ab_prompt_sent := False,
                    ab_last_status := Some (agent_status_str (ai_status i)) \<rparr>))
                else ret None
            | _ \<Rightarrow> ret None)))"

definition new_binding :: "agent_request \<Rightarrow> string \<Rightarrow> string \<Rightarrow> string \<Rightarrow> tab_handle \<Rightarrow> agent_binding" where
  "new_binding q kind name ws tb =
     \<lparr> ab_mode = ''pane'', ab_agent_kind = Some kind, ab_agent_name = Some name, ab_pane_id = Some (th_pane_id tb),
       ab_tab_id = Some (th_tab_id tb), ab_workspace_id = Some ws, ab_terminal_id = None, ab_agent_session = None,
       ab_output_file = Some (aq_output_file q), ab_prompt_sent = False, ab_last_status = None \<rparr>"

definition start_turn ::
  "pane_world \<Rightarrow> string \<Rightarrow> string \<Rightarrow> string \<Rightarrow> string list \<Rightarrow> nat \<Rightarrow> unit \<Rightarrow> (agent_info hresult + unit) pane_op" where
  "start_turn w name kind pane args ready_by u =
     bnd (call (PnStart name kind pane args) (pw_start w)) (\<lambda>r.
     if (case r of Inl e \<Rightarrow> error_code e = Some ''agent_pane_busy'' | Inr _ \<Rightarrow> False) then
       bnd (question (pw_now w)) (\<lambda>now.
       if ready_by \<le> now then ret (Inl r)
       else bnd (question (pw_cancelled w)) (\<lambda>c. ret (if c then Inl r else Inr ())))
     else ret (Inl r))"

definition after_start ::
  "pane_world \<Rightarrow> agent_request \<Rightarrow> string \<Rightarrow> agent_binding \<Rightarrow> agent_info hresult \<Rightarrow> (pane_state, agent_binding) loop_op" where
  "after_start w q name b r =
     (case r of
        Inr i \<Rightarrow>
          (let b' = b\<lparr> ab_terminal_id := ai_terminal_id i, ab_last_status := Some (agent_status_str (ai_status i)),
             ab_agent_session := Option.bind (ai_agent_session i) as_value \<rparr> in
           followed (wait_stable_idle w name) (\<lambda>_. once (ret b')))
      | Inl e \<Rightarrow>
          if error_code e \<in> {Some ''agent_not_ready'', Some ''timeout''} then
            followed (once (question (pw_now w))) (\<lambda>now.
            followed (wait_ready w name b (now + aq_timeout q)) (\<lambda>(en, b').
            case en of
              Some x \<Rightarrow> once (bail (''agent '' @ name @ '' never became ready: '' @ agent_end_debug x))
            | None \<Rightarrow> once (ret b')))
          else once (herdr_fails e))"

definition open_pane :: "pane_world \<Rightarrow> agent_request \<Rightarrow> (agent_binding \<times> string \<times> string) pane_op" where
  "open_pane w q =
     (case aq_workspace_id q of
        None \<Rightarrow> bail (''no Herdr workspace for run '' @ aq_run_id q)
      | Some ws \<Rightarrow>
          let kind = (case rp_kind (aq_profile q) of Some k \<Rightarrow> k | None \<Rightarrow> aq_runner_name q);
              name = agent_name (aq_task_id q) (aq_variant q) (aq_step_id q) (aq_exec_id q) in
          bnd (call (PnTab ws (aq_worktree q) (pane_label q)) (pw_tab w)) (\<lambda>r.
          case r of
            Inl e \<Rightarrow> herdr_fails e
          | Inr tb \<Rightarrow>
              andthen (act (PnLabel (th_pane_id tb) (pane_label q)))
                (ret (new_binding q kind name ws tb, kind, name))))"

definition pane_start :: "pane_world \<Rightarrow> agent_request \<Rightarrow> (pane_state, agent_binding) loop_op" where
  "pane_start w q =
     followed (once (live_agent w q)) (\<lambda>live.
     case live of
       Some b \<Rightarrow> once (andthen (report (Started b)) (ret b))
     | None \<Rightarrow>
         followed (once (open_pane w q)) (\<lambda>(b, kind, name).
         followed (once (bnd (report (Started b)) (\<lambda>_. question (pw_now w)))) (\<lambda>now.
         followed (turns (\<lambda>u. once (start_turn w name kind (case ab_pane_id b of Some p \<Rightarrow> p | None \<Rightarrow> []) (rp_pane_args (aq_profile q))
             (now + min (aq_startup_timeout q) 30000) u)) ()) (\<lambda>r.
         followed (after_start w q name b r) (\<lambda>b'.
         once (andthen (report (Started b')) (ret b')))))))"

end
