(* ===== verification/Pane_Facts.thy ===== *)
theory Pane_Facts
  imports Pane
begin

text \<open>
  What an attempt in a pane guarantees: it ends when its time is over, its prompt is not repeated once it may have
  arrived, keys are pressed only to interrupt, and an agent counts as finished only with its result or after it was
  idle for the whole settle window.
\<close>

subsection \<open>What an operation adds to the trace\<close>

definition adds :: "(pane_act \<Rightarrow> bool) \<Rightarrow> pane_state \<Rightarrow> pane_state \<Rightarrow> bool" where
  "adds A s t \<longleftrightarrow> pn_asked s \<le> pn_asked t \<and> (\<exists>x. pn_trace t = pn_trace s @ x \<and> (\<forall>a \<in> set x. A a))"

lemma adds_refl: "adds A s s"
  by (simp add: adds_def)

lemma adds_trans: "adds A s t \<Longrightarrow> adds A t u \<Longrightarrow> adds A s u"
  by (fastforce simp: adds_def)

lemma adds_weaken: "adds A s t \<Longrightarrow> (\<And>a. A a \<Longrightarrow> B a) \<Longrightarrow> adds B s t"
  by (auto simp: adds_def)

lemma adds_asked: "adds A s t \<Longrightarrow> pn_asked s \<le> pn_asked t"
  by (simp add: adds_def)

fun is_prompt :: "pane_act \<Rightarrow> bool" where
  "is_prompt (PnPrompt _ _) = True"
| "is_prompt _ = False"

fun is_keys :: "pane_act \<Rightarrow> bool" where
  "is_keys (PnKeys _ _) = True"
| "is_keys _ = False"

definition submits :: "pane_act \<Rightarrow> bool" where
  "submits a \<longleftrightarrow> is_prompt a \<or> a = PnEvent PromptSent"

definition looks :: "pane_act \<Rightarrow> bool" where
  "looks a \<longleftrightarrow> \<not> submits a \<and> \<not> is_keys a"

interpretation looking: state_order "adds looks"
  by unfold_locales (auto intro: adds_refl adds_trans)

interpretation pressing: state_order "adds (\<lambda>a. \<not> submits a)"
  by unfold_locales (auto intro: adds_refl adds_trans)

lemma looks_presses: "moves (adds looks) m \<Longrightarrow> moves (adds (\<lambda>a. \<not> submits a)) m"
  by (auto simp: moves_def looks_def intro: adds_weaken)

lemma moves_question: "moves (adds A) (question f)"
  by (simp add: moves_def question_def adds_def)

lemma moves_act: "A a \<Longrightarrow> moves (adds A) (act a)"
  by (simp add: act_def moves_def modify_def adds_def)

lemma looks_call: "looks a \<Longrightarrow> moves (adds looks) (call a f)"
  unfolding call_def by (intro looking.moves_rules moves_act moves_question)

lemma looks_report: "e \<noteq> PromptSent \<Longrightarrow> moves (adds looks) (report e)"
  unfolding report_def by (rule moves_act) (simp add: looks_def submits_def)

lemma looks_acts: "looks (PnWait x y z)" "looks (PnGet x)"
  by (simp_all add: looks_def submits_def)

lemma looks_fails: "moves (adds looks) (herdr_fails e)"
  unfolding herdr_fails_def by (rule looking.moves_rules)

lemmas looks_rules = looking.moves_rules moves_question looks_call looks_report looks_acts looks_fails
  moves_if moves_option moves_sum moves_prod

lemma looks_target: "moves (adds looks) (pane_target b)"
  unfolding pane_target_def by (intro looks_rules)

lemma looks_lost: "moves (adds looks) (lost_reason w b)"
  unfolding lost_reason_def by (intro looks_rules)

lemma looks_transcript: "moves (adds looks) (pane_transcript w b)"
  unfolding pane_transcript_def by (intro looks_rules)

lemma looks_outcome: "moves (adds looks) (pane_outcome w b en)"
  unfolding pane_outcome_def by (cases en; simp; intro looks_rules looks_transcript)

lemma looks_new_watch: "moves (adds looks) (new_watch w pr)"
  unfolding new_watch_def Let_def by (intro looks_rules)

lemma looks_watch: "moves (adds looks) (watch_agent w b pa)"
  unfolding watch_agent_def Let_def by (intro looks_rules looks_transcript) auto

lemma presses_interrupt: "moves (adds (\<lambda>a. \<not> submits a)) (attempt (pane_interrupt w b))"
  unfolding pane_interrupt_def call_def
  by (intro pressing.moves_rules moves_question moves_act looks_presses [OF looks_target] looks_presses [OF looks_fails] moves_sum)
    (simp add: submits_def)

lemma looks_presses_loop: "advances (adds looks) m \<Longrightarrow> advances (adds (\<lambda>a. \<not> submits a)) m"
  unfolding advances_def using adds_weaken [of looks _ _ "\<lambda>a. \<not> submits a"] looks_def by blast

lemmas looks_loops = looking.advances_followed looking.advances_turns advances_once advances_if

lemma looks_ready_answer: "moves (adds looks) (ready_answer w target blocked b r)"
  unfolding ready_answer_def Let_def by (intro looks_rules looks_lost) auto

lemma looks_ready_turn: "moves (adds looks) (ready_turn w target deadline v)"
  unfolding ready_turn_def by (intro looks_rules looks_ready_answer)

lemma looks_await_input: "advances (adds looks) (await_input w target deadline)"
  unfolding await_input_def input_turn_def by (intro looks_loops looks_rules)

lemma looks_wait_ready: "advances (adds looks) (wait_ready w target b deadline)"
proof -
  have "advances (adds looks) (case v of (r, b') \<Rightarrow> case r of NotReady en \<Rightarrow> once (ret (Some en, b'))
      | ReadyAt True \<Rightarrow> once (ret (None, b'))
      | ReadyAt False \<Rightarrow> followed (await_input w target deadline) (\<lambda>_. once (ret (None, b'))))" for v
    by (cases v; cases "fst v"; auto intro: looks_loops looks_rules looks_await_input split: bool.split)
  then show ?thesis unfolding wait_ready_def by (intro looks_loops looks_ready_turn)
qed

lemma looks_stable: "advances (adds looks) (wait_stable_idle w target)"
  unfolding wait_stable_idle_def stable_turn_def by (intro looks_loops looks_rules)

lemma looks_confirm_turn: "moves (adds looks) (confirm_turn w target deadline until u)"
  unfolding confirm_turn_def by (intro looks_rules)

lemma looks_confirm: "advances (adds looks) (confirm_settled w pr target deadline)"
  unfolding confirm_settled_def by (intro looks_loops looks_rules looks_confirm_turn)

lemma looks_settled_answer: "moves (adds looks) (settled_answer w blocked b pa r)"
  unfolding settled_answer_def Let_def by (intro looks_rules looks_watch looks_outcome looks_lost) auto

lemma looks_settled_wait:
  "moves (adds looks) (bnd (call (PnWait target ss d) (pw_wait w)) (\<lambda>r. settled_answer w blocked b pa r))"
  by (intro looks_rules looks_settled_answer)

lemma presses_settled_turn: "moves (adds (\<lambda>a. \<not> submits a)) (settled_turn w pr target deadline v)"
  unfolding settled_turn_def
  by (intro pressing.moves_rules moves_question moves_prod moves_if presses_interrupt looks_presses [OF looks_outcome]
      looks_presses [OF looks_settled_answer] looks_presses [OF looks_call] looks_acts)

lemma presses_wait_settled: "advances (adds (\<lambda>a. \<not> submits a)) (wait_settled w pr b deadline pa)"
  unfolding wait_settled_def
  by (intro pressing.advances_followed pressing.advances_turns advances_once presses_settled_turn looks_presses [OF looks_target])

lemma presses_settle_outcome: "moves (adds (\<lambda>a. \<not> submits a)) (settle_outcome w pr b s)"
  unfolding settle_outcome_def
  by (cases s; simp only: settle.case; intro pressing.moves_rules moves_if presses_interrupt looks_presses [OF looks_outcome]
      looks_presses [OF looks_lost])

lemma presses_confirm: "advances (adds (\<lambda>a. \<not> submits a)) (confirm_settled w pr target deadline)"
  by (rule looks_presses_loop [OF looks_confirm])

lemma presses_until_done: "advances (adds (\<lambda>a. \<not> submits a)) (wait_until_done w pr b deadline)"
  unfolding wait_until_done_def until_done_turn_def split_def
  by (intro pressing.advances_followed pressing.advances_turns advances_once advances_if presses_wait_settled presses_confirm
      presses_settle_outcome looks_presses [OF looks_target] looks_presses [OF looks_new_watch] pressing.moves_rules)

lemma presses_wait_ready: "advances (adds (\<lambda>a. \<not> submits a)) (wait_ready w target b deadline)"
  by (rule looks_presses_loop [OF looks_wait_ready])

subsection \<open>Every attempt ends\<close>

text \<open>The clock passes every time, for good.\<close>

definition clock_runs :: "pane_world \<Rightarrow> bool" where
  "clock_runs w \<longleftrightarrow> (\<forall>d. \<exists>N. \<forall>n \<ge> N. d \<le> pw_now w n)"

lemma question_Inr: "question f s = (Inr v, t) \<longleftrightarrow> v = f (pn_asked s) \<and> t = s\<lparr> pn_asked := Suc (pn_asked s) \<rparr>"
  by (auto simp: question_def)

lemma ret_Inr: "ret x s = (Inr v, t) \<longleftrightarrow> v = x \<and> t = s"
  by (auto simp: ret_def)

lemma timed_turn:
  fixes d :: nat
  assumes "bnd (question f) (\<lambda>c. if c then x else bnd (question g) (\<lambda>now. if d \<le> now then y else rest now)) s = (Inr v, t)"
    and "\<And>u. x u \<noteq> (Inr v, t)" and "\<And>u. y u \<noteq> (Inr v, t)" and "\<And>now. moves (adds A) (rest now)"
  shows "g (Suc (pn_asked s)) < d \<and> pn_asked s < pn_asked t"
proof -
  let ?u = "s\<lparr> pn_asked := Suc (Suc (pn_asked s)) \<rparr>"
  have "g (Suc (pn_asked s)) < d \<and> rest (g (Suc (pn_asked s))) ?u = (Inr v, t)"
    using assms(1-3) by (auto simp: bnd_Inr question_Inr split: if_splits)
  moreover from this have "pn_asked ?u \<le> pn_asked t" using movesD [OF assms(4), of ?u] by (metis adds_asked snd_conv)
  ultimately show ?thesis by simp
qed

lemma outcome_Inr: "pane_outcome w b en s = (Inr out, t) \<Longrightarrow> ao_end out = en \<and> ao_binding out = b"
  by (auto simp: pane_outcome_def bnd_Inr ret_Inr)

lemma ready_turn_time:
  assumes "ready_turn w target deadline v s = (Inr r, t)" and "\<And>en b. r \<noteq> Inl (NotReady en, b)"
  shows "pw_now w (Suc (pn_asked s)) < deadline \<and> pn_asked s < pn_asked t"
proof -
  obtain blocked b where v: "v = (blocked, b)" by (cases v)
  have m: "moves (adds looks) (bnd (call (PnWait target ss d) (pw_wait w)) (\<lambda>r. ready_answer w target blocked b r))" for ss d
    by (intro looks_rules looks_ready_answer)
  show ?thesis
    using assms(1) unfolding ready_turn_def v prod.case
    by (rule timed_turn [OF _ _ _ m]) (use assms(2) in \<open>auto simp: ret_Inr\<close>)
qed

lemma settled_turn_time:
  assumes "settled_turn w pr target deadline v s = (Inr r, t)" and "\<And>out pa. r = Inl (out, pa) \<Longrightarrow> ao_end out = EndCompleted"
  shows "pw_now w (Suc (pn_asked s)) < deadline \<and> pn_asked s < pn_asked t"
proof -
  obtain blocked b pa where v: "v = (blocked, b, pa)" by (cases v)
  show ?thesis
    using assms(1) unfolding settled_turn_def v prod.case
    by (rule timed_turn [OF _ _ _ looks_settled_wait]) (use assms(2) in \<open>auto simp: bnd_Inr ret_Inr dest!: outcome_Inr\<close>)
qed

lemma clock_bound: "clock_runs w \<Longrightarrow> \<exists>N. \<forall>n. pw_now w n < d \<longrightarrow> n < N"
  unfolding clock_runs_def by (meson linorder_not_less)

lemmas returns_rules = returns_once returns_followed returns_if returns_option

lemma await_input_returns:
  assumes "clock_runs w"
  shows "returns (\<lambda>_. True) (await_input w target deadline)"
proof -
  have "returns (\<lambda>_. True) (turns (\<lambda>u. once (input_turn w target until u)) ())" for until
  proof -
    obtain N where N: "\<forall>n. pw_now w n < until \<longrightarrow> n < N" using clock_bound [OF assms] by blast
    show ?thesis
      by (rule returns_turns [where pos = pn_asked and bound = N])
        (use N in \<open>auto simp: returns_once once_run input_turn_def call_def act_def modify_def andthen_def bnd_Inr question_Inr ret_Inr
          split: if_splits sum.splits option.splits\<close>)
  qed
  then show ?thesis unfolding await_input_def by (intro returns_rules)
qed

lemma wait_ready_returns:
  assumes "clock_runs w"
  shows "returns (\<lambda>_. True) (wait_ready w target b deadline)"
proof -
  obtain N where N: "\<forall>n. pw_now w n < deadline \<longrightarrow> n < N" using clock_bound [OF assms] by blast
  have "returns (\<lambda>_. True) (turns (\<lambda>v. once (ready_turn w target deadline v)) l)" for l
    by (rule returns_turns [where pos = pn_asked and bound = N])
      (use N in \<open>auto simp: returns_once once_run dest!: ready_turn_time dest: Suc_lessD\<close>)
  then show ?thesis unfolding wait_ready_def split_def
    by (intro returns_rules) (auto split: ready.split bool.split intro!: returns_rules await_input_returns [OF assms])
qed

lemma wait_settled_returns:
  assumes "clock_runs w"
  shows "returns (\<lambda>_. True) (wait_settled w pr b deadline pa)"
proof -
  obtain N where N: "\<forall>n. pw_now w n < deadline \<longrightarrow> n < N" using clock_bound [OF assms] by blast
  have "returns (\<lambda>_. True) (turns (\<lambda>v. once (settled_turn w pr target deadline v)) l)" for target l
    by (rule returns_turns [where pos = pn_asked and bound = N])
      (use N in \<open>auto simp: returns_once once_run dest!: settled_turn_time dest: Suc_lessD\<close>)
  then show ?thesis unfolding wait_settled_def by (intro returns_rules)
qed

lemma confirm_returns:
  assumes "clock_runs w"
  shows "returns (\<lambda>_. True) (confirm_settled w pr target deadline)"
proof -
  have "returns (\<lambda>_. True) (turns (\<lambda>u. once (confirm_turn w target deadline until u)) ())" for until
  proof -
    obtain N where N: "\<forall>n. pw_now w n < deadline \<longrightarrow> n < N" using clock_bound [OF assms] by blast
    show ?thesis
    proof (rule returns_turns [where pos = pn_asked and bound = N])
      fix l s l' t
      assume "once (confirm_turn w target deadline until l) s = Some (Inr (Inr l'), t)"
      then have "pw_now w (Suc (Suc (pn_asked s))) < deadline \<and> pn_asked s < pn_asked t"
        by (auto simp: once_run confirm_turn_def call_def act_def modify_def andthen_def bnd_Inr question_Inr ret_Inr
            herdr_fails_def bail_def split: if_splits sum.splits option.splits)
      then have "Suc (Suc (pn_asked s)) < N" "pn_asked s < pn_asked t" using N by auto
      then show "pn_asked s < pn_asked t \<and> pn_asked s < N" by simp
    qed (rule returns_once)
  qed
  then show ?thesis unfolding confirm_settled_def by (intro returns_rules)
qed

text \<open>An agent is ready, or has settled, only after a look at the clock before the deadline.\<close>

definition in_time :: "nat \<Rightarrow> pane_state \<Rightarrow> pane_state \<Rightarrow> bool" where
  "in_time N s t \<longleftrightarrow> pn_asked s < pn_asked t \<and> pn_asked s < N"

lemma wait_ready_in_time:
  assumes "\<forall>n. pw_now w n < deadline \<longrightarrow> n < N" and "wait_ready w target b deadline s = Some (Inr (None, b'), t)"
  shows "in_time N s t"
proof -
  have loop: "brings (\<lambda>u. pn_asked s \<le> pn_asked u) (turns (\<lambda>v. once (ready_turn w target deadline v)) l)
     (\<lambda>r u. (\<exists>k. fst r = ReadyAt k) \<longrightarrow> in_time N s u) (\<lambda>_. True)" for l
  proof (rule brings_turns)
    fix l
    show "brings (\<lambda>u. pn_asked s \<le> pn_asked u) (once (ready_turn w target deadline l))
       (\<lambda>r u. case r of Inl a \<Rightarrow> (\<exists>k. fst a = ReadyAt k) \<longrightarrow> in_time N s u | Inr l' \<Rightarrow> pn_asked s \<le> pn_asked u) (\<lambda>_. True)"
      using assms(1) by (auto simp: brings_def once_run in_time_def split: sum.splits dest!: ready_turn_time)
  qed
  obtain v u where v: "turns (\<lambda>v. once (ready_turn w target deadline v)) (False, b) s = Some (Inr v, u)"
    and rest: "(case v of (r, b') \<Rightarrow> case r of NotReady en \<Rightarrow> once (ret (Some en, b'))
      | ReadyAt True \<Rightarrow> once (ret (None, b'))
      | ReadyAt False \<Rightarrow> followed (await_input w target deadline) (\<lambda>_. once (ret (None, b')))) u = Some (Inr (None, b'), t)"
    using assms(2) by (auto simp: wait_ready_def followed_def split: option.splits prod.splits sum.splits)
  obtain k where k: "fst v = ReadyAt k" using rest by (cases v; cases "fst v") (auto simp: once_run ret_Inr)
  have "in_time N s u" using bringsD [OF loop _ v] k by simp
  moreover have "pn_asked u \<le> pn_asked t"
    using rest k adds_asked [OF advancesD [OF looks_await_input]]
    by (cases v; cases k) (auto simp: once_run ret_Inr followed_def split: option.splits prod.splits sum.splits)
  ultimately show ?thesis by (simp add: in_time_def)
qed

lemma wait_settled_in_time:
  assumes "\<forall>n. pw_now w n < deadline \<longrightarrow> n < N" and "wait_settled w pr b deadline pa s = Some (Inr (out, pa'), t)"
    and "ao_end out = EndCompleted"
  shows "in_time N s t"
proof -
  have loop: "brings (\<lambda>u. pn_asked s \<le> pn_asked u) (turns (\<lambda>v. once (settled_turn w pr target deadline v)) l)
     (\<lambda>r u. ao_end (fst r) = EndCompleted \<longrightarrow> in_time N s u) (\<lambda>_. True)" for l target
  proof (rule brings_turns)
    fix l
    show "brings (\<lambda>u. pn_asked s \<le> pn_asked u) (once (settled_turn w pr target deadline l))
       (\<lambda>r u. case r of Inl a \<Rightarrow> ao_end (fst a) = EndCompleted \<longrightarrow> in_time N s u | Inr l' \<Rightarrow> pn_asked s \<le> pn_asked u) (\<lambda>_. True)"
      using assms(1) by (auto simp: brings_def once_run in_time_def split: sum.splits dest!: settled_turn_time)
  qed
  obtain target u where u: "pane_target b s = (Inr target, u)"
    and v: "turns (\<lambda>v. once (settled_turn w pr target deadline v)) (False, b, pa) u = Some (Inr (out, pa'), t)"
    using assms(2) by (auto simp: wait_settled_def followed_def once_def split: option.splits prod.splits sum.splits)
  have "u = s" using u by (auto simp: pane_target_def ret_def bail_def split: option.splits)
  then show ?thesis using bringsD [OF loop _ v] assms(3) by simp
qed

lemma until_done_returns:
  assumes "clock_runs w"
  shows "returns (\<lambda>_. True) (wait_until_done w pr b deadline)"
proof -
  obtain N where N: "\<forall>n. pw_now w n < deadline \<longrightarrow> n < N" using clock_bound [OF assms] by blast
  have "returns (\<lambda>_. True) (turns (until_done_turn w pr target deadline) l)" for target l
  proof (rule returns_turns [where pos = pn_asked and bound = N])
    show "returns (\<lambda>_. True) (until_done_turn w pr target deadline l)" for l
      unfolding until_done_turn_def split_def
      by (intro returns_rules wait_settled_returns [OF assms] confirm_returns [OF assms])
    fix l s l' t
    assume go: "until_done_turn w pr target deadline l s = Some (Inr (Inr l'), t)"
    obtain b pa where l: "l = (b, pa)" by (cases l)
    obtain out pa' u where settled: "wait_settled w pr b deadline pa s = Some (Inr (out, pa'), u)" "ao_end out = EndCompleted"
      and rest: "followed (confirm_settled w pr target deadline) (\<lambda>x.
        if x = SettleWorking then once (ret (Inr (ao_binding out, pa')))
        else once (bnd (settle_outcome w pr (ao_binding out) x) (\<lambda>res. ret (Inl res)))) u = Some (Inr (Inr l'), t)"
      using go by (auto simp: until_done_turn_def l followed_def once_run ret_Inr split: option.splits prod.splits sum.splits if_splits)
    have "in_time N s u" using wait_settled_in_time [OF N settled] .
    moreover have "pn_asked u \<le> pn_asked t"
      using rest adds_asked [OF advancesD [OF looks_confirm]]
      by (auto simp: followed_def once_run ret_Inr bnd_Inr split: option.splits prod.splits sum.splits if_splits)
    ultimately show "pn_asked s < pn_asked t \<and> pn_asked s < N" by (simp add: in_time_def)
  qed
  then show ?thesis unfolding wait_until_done_def by (intro returns_rules)
qed

interpretation free: state_order "adds (\<lambda>_. True)"
  by unfold_locales (auto intro: adds_refl adds_trans)

lemma free_once: "moves (adds A) m \<Longrightarrow> advances (adds (\<lambda>_. True)) (once m)"
  by (rule advances_once) (auto simp: moves_def intro: adds_weaken)

lemma free_loop: "advances (adds A) m \<Longrightarrow> advances (adds (\<lambda>_. True)) m"
  unfolding advances_def using adds_weaken [of A _ _ "\<lambda>_. True"] by blast

lemma free_sent: "moves (adds (\<lambda>_. True)) (report PromptSent)"
  unfolding report_def by (simp add: moves_act)

lemma presses_wait_on: "advances (adds (\<lambda>a. \<not> submits a)) (wait_on w pr deadline b)"
  unfolding wait_on_def by (intro pressing.advances_followed presses_until_done advances_once pressing.moves_rules)

lemma presses_arrived: "advances (adds (\<lambda>a. \<not> submits a)) (prompt_arrived w pr target deadline b st)"
  unfolding prompt_arrived_def
  by (intro pressing.advances_followed presses_wait_on presses_confirm advances_if advances_once pressing.moves_rules presses_settle_outcome)

lemma presses_stalled: "advances (adds (\<lambda>a. \<not> submits a)) (prompt_stalled w pr target deadline b m)"
  unfolding prompt_stalled_def
  by (intro pressing.advances_followed presses_wait_on advances_if advances_once pressing.moves_rules looks_presses [OF looks_outcome]
      looks_presses [OF looks_call] looks_acts)

lemma looks_refused: "advances (adds looks) (prompt_refused w target deadline b)"
proof -
  have "advances (adds looks) (case v of (en, b') \<Rightarrow> case en of
       Some x \<Rightarrow> once (bnd (pane_outcome w b' x) (\<lambda>out. ret (Inl out))) | None \<Rightarrow> once (ret (Inr b')))"
    for v :: "agent_end option \<times> agent_binding"
    by (cases v; cases "fst v"; simp; intro looks_loops looks_rules looks_outcome)
  then show ?thesis unfolding prompt_refused_def
    by (intro looking.advances_followed looks_wait_ready advances_once looks_report) simp
qed

lemma free_after_prompt: "advances (adds (\<lambda>_. True)) (after_prompt w pr target deadline b r)"
  unfolding after_prompt_def Let_def
  by (cases r; simp only: sum.case; intro free.advances_followed advances_if advances_once [OF free_sent] free_loop [OF presses_wait_on]
      free_loop [OF presses_arrived] free_loop [OF presses_stalled] free_loop [OF looks_refused] free_once [OF looks_fails]
      free_once [OF looking.moves_bnd, OF looks_lost] looking.moves_bnd looks_outcome looking.moves_ret)

lemma only_refused_again:
  assumes "after_prompt w pr target deadline b r s = Some (Inr (Inr b'), t)"
  shows "adds looks s t"
proof -
  have n: "wait_on w pr deadline x u \<noteq> Some (Inr (Inr b'), t)" for x u
    by (auto simp: wait_on_def followed_def once_run ret_Inr split: option.split prod.split sum.split)
  have a: "prompt_arrived w pr target deadline x st u \<noteq> Some (Inr (Inr b'), t)" for x st u
    using n by (auto simp: prompt_arrived_def followed_def once_run ret_Inr bnd_Inr split: option.split prod.split sum.split)
  have "prompt_stalled w pr target deadline x m u \<noteq> Some (Inr (Inr b'), t)" for x m u
    using n by (auto simp: prompt_stalled_def followed_def once_run ret_Inr bnd_Inr split: option.split prod.split sum.split)
  then have "prompt_refused w target deadline b s = Some (Inr (Inr b'), t)"
    using assms n a by (auto simp: after_prompt_def Let_def followed_def once_run ret_Inr bnd_Inr herdr_fails_def bail_def
        split: option.splits prod.splits sum.splits if_splits)
  then show ?thesis by (rule advancesD [OF looks_refused])
qed

lemma wait_on_returns: "clock_runs w \<Longrightarrow> returns (\<lambda>_. True) (wait_on w pr deadline b)"
  unfolding wait_on_def by (intro returns_rules until_done_returns)

lemma after_prompt_returns:
  assumes "clock_runs w"
  shows "returns (\<lambda>_. True) (after_prompt w pr target deadline b r)"
proof -
  have "returns (\<lambda>_. True) (prompt_refused w target deadline b)"
    unfolding prompt_refused_def split_def by (intro returns_rules wait_ready_returns [OF assms])
  then show ?thesis
    unfolding after_prompt_def Let_def
    by (cases r; simp only: sum.case prompt_arrived_def prompt_stalled_def; intro returns_rules wait_on_returns [OF assms]
        confirm_returns [OF assms])
qed

text \<open>One turn of sending: the agent was made ready, and the prompt submitted.\<close>

lemma triple_any: "triple P m (\<lambda>_ _. True) (\<lambda>_. True)"
  by (auto simp: triple_def split: prod.split sum.split)

lemma never_ready_end:
  assumes "wait_ready w target b deadline s = Some (Inr (Some x, b'), t)"
  shows "x \<noteq> EndCompleted"
proof -
  have br: "brings (\<lambda>_. True) (turns (\<lambda>v. once (ready_turn w target deadline v)) l) (\<lambda>r _. fst r \<noteq> NotReady EndCompleted) (\<lambda>_. True)" for l
  proof (rule brings_turns)
    fix l
    have tr: "triple (\<lambda>_. True) (ready_answer w target blocked b ans) (\<lambda>r _. \<forall>v. r = Inl v \<longrightarrow> fst v \<noteq> NotReady EndCompleted) (\<lambda>_. True)"
      for blocked b ans
      unfolding ready_answer_def Let_def herdr_fails_def
      by (intro triple_if triple_sum triple_option triple_bnd [OF triple_any] triple_andthen [OF triple_any] triple_ret triple_bail) auto
    have na: "ready_answer w target blocked b ans s \<noteq> (Inr (Inl (NotReady EndCompleted, x)), t)" for blocked b ans s x t
      using triple_value [OF tr, where s = s and v = "Inl (NotReady EndCompleted, x)" and t = t] by auto
    show "brings (\<lambda>_. True) (once (ready_turn w target deadline l))
       (\<lambda>r _. case r of Inl a \<Rightarrow> fst a \<noteq> NotReady EndCompleted | Inr _ \<Rightarrow> True) (\<lambda>_. True)"
      by (cases l) (auto simp: brings_def once_run ready_turn_def bnd_Inr ret_Inr na split: sum.splits if_splits)
  qed
  have "turns (\<lambda>v. once (ready_turn w target deadline v)) l s \<noteq> Some (Inr (NotReady EndCompleted, z), u)" for l z u
    using bringsD [OF br, where s = s and v = "(NotReady EndCompleted, z)" and t = u] by (cases l) auto
  then show ?thesis using assms
    by (auto simp: wait_ready_def followed_def once_run ret_Inr split: option.splits prod.splits sum.splits ready.splits bool.splits)
qed

lemma send_turn_cases:
  assumes "send_turn w pr q instead deadline b s = Some (r, t)"
  obtains (stopped) "adds looks s t" "\<And>out. r = Inr (Inl out) \<Longrightarrow> ao_end out \<noteq> EndCompleted" "\<And>b'. r \<noteq> Inr (Inr b')"
  | (sent) target b' u1 u2 ans where "wait_ready w target b deadline s = Some (Inr (None, b'), u1)"
      "u2 = u1\<lparr> pn_asked := pn_asked u1 + 2,
         pn_trace := pn_trace u1 @ [PnEvent PromptSending, PnPrompt target (prompt_text q b instead)] \<rparr>"
      "after_prompt w pr target deadline b' ans u2 = Some (r, t)"
proof (cases "pane_target b s")
  case (Pair rt u)
  have u: "u = s" using Pair by (auto simp: pane_target_def ret_def bail_def split: option.splits)
  show thesis
  proof (cases rt)
    case (Inl e)
    then have "r = Inl e" "t = s" using assms Pair u by (auto simp: send_turn_def followed_def once_def)
    then show thesis using stopped by (simp add: adds_refl)
  next
    case (Inr target)
    then have step: "followed (wait_ready w target b deadline) (\<lambda>(en, b').
       case en of
         Some x \<Rightarrow> once (bnd (pane_outcome w b' x) (\<lambda>out. ret (Inl out)))
       | None \<Rightarrow> followed (once (bnd (report PromptSending) (\<lambda>_. bnd (question (pw_now w)) (\<lambda>_.
             call (PnPrompt target (prompt_text q b instead)) (pw_prompt w))))) (\<lambda>r.
           after_prompt w pr target deadline b' r)) s = Some (r, t)"
      using assms Pair u by (simp add: send_turn_def followed_def once_def)
    obtain v u1 where v: "wait_ready w target b deadline s = Some (v, u1)"
      using step by (auto simp: followed_def split: option.splits)
    have a: "adds looks s u1" using v by (rule advancesD [OF looks_wait_ready])
    consider e where "v = Inl e" | x b' where "v = Inr (Some x, b')" | b' where "v = Inr (None, b')"
      by (metis old.sum.exhaust surj_pair option.exhaust)
    then show thesis
    proof cases
      case 1
      then have "r = Inl e" "t = u1" using step v by (auto simp: followed_def)
      then show thesis using stopped a by simp
    next
      case 2
      then have o: "bnd (pane_outcome w b' x) (\<lambda>out. ret (Inl out)) u1 = (r, t)"
        using step v by (auto simp: followed_def once_run)
      have "moves (adds looks) (bnd (pane_outcome w b' x) (\<lambda>out. ret (Inl out :: agent_result + agent_binding)))"
        by (intro looks_rules looks_outcome)
      from movesD [OF this, of u1] have "adds looks u1 t" using o by simp
      then have "adds looks s t" using a adds_trans by blast
      moreover have "x \<noteq> EndCompleted" using never_ready_end v 2 by blast
      moreover have "\<exists>out. r = Inr (Inl out) \<and> ao_end out = x" if "r = Inr z" for z
        using o that by (auto simp: bnd_Inr ret_Inr dest: outcome_Inr)
      ultimately show thesis using stopped by (metis sum.inject(1) sum.inject(2) sum.simps(4))
    next
      case 3
      define u2 where "u2 = u1\<lparr> pn_asked := pn_asked u1 + 2,
         pn_trace := pn_trace u1 @ [PnEvent PromptSending, PnPrompt target (prompt_text q b instead)] \<rparr>"
      have "bnd (report PromptSending) (\<lambda>_. bnd (question (pw_now w)) (\<lambda>_.
             call (PnPrompt target (prompt_text q b instead)) (pw_prompt w))) u1 = (Inr (pw_prompt w (Suc (pn_asked u1))), u2)"
        by (simp add: report_def call_def act_def modify_def question_def bnd_def andthen_def u2_def)
      then have "after_prompt w pr target deadline b' (pw_prompt w (Suc (pn_asked u1))) u2 = Some (r, t)"
        using step v 3 by (simp add: followed_def once_def)
      then show thesis using sent v 3 u2_def by blast
    qed
  qed
qed

lemma send_once_returns:
  assumes "clock_runs w"
  shows "returns (\<lambda>_. True) (send_once w pr q instead b deadline)"
proof -
  obtain N where N: "\<forall>n. pw_now w n < deadline \<longrightarrow> n < N" using clock_bound [OF assms] by blast
  show ?thesis
    unfolding send_once_def
  proof (rule returns_turns [where pos = pn_asked and bound = N])
    show "returns (\<lambda>_. True) (send_turn w pr q instead deadline l)" for l
      unfolding send_turn_def split_def
      by (intro returns_rules wait_ready_returns [OF assms] after_prompt_returns [OF assms])
    fix l s l' t
    assume "send_turn w pr q instead deadline l s = Some (Inr (Inr l'), t)"
    then show "pn_asked s < pn_asked t \<and> pn_asked s < N"
    proof (cases rule: send_turn_cases)
      case (sent target b' u1 u2 ans)
      have "in_time N s u1" using wait_ready_in_time [OF N sent(1)] .
      moreover have "pn_asked u2 \<le> pn_asked t" using adds_asked [OF advancesD [OF free_after_prompt sent(3)]] .
      ultimately show ?thesis using sent(2) by (simp add: in_time_def)
    qed auto
  qed
qed

text \<open>C12. An attempt in a pane always ends: with a clock that runs, sending a prompt and waiting for the agent returns,
  whatever Herdr and the agent do, even when they ask for the human again and again or never answer.\<close>

theorem pane_attempt_ends:
  assumes "clock_runs w"
  shows "\<exists>r t. send_and_wait w pr q b deadline s = Some (r, t)"
proof -
  have "returns (\<lambda>_. True) (send_and_wait w pr q b deadline)"
    unfolding send_and_wait_def by (intro returns_rules send_once_returns [OF assms])
  then show ?thesis unfolding returns_def by (metis not_None_eq surj_pair)
qed

subsection \<open>How an attempt ends\<close>

definition interrupted :: "agent_result \<Rightarrow> bool" where
  "interrupted out \<longleftrightarrow> ao_end out \<in> {EndCancelled, EndTimedOut}"

text \<open>An agent counts as finished with the file of its result, or after it was not at work for the settle window.\<close>

definition idle_for_window :: "pane_world \<Rightarrow> pane_runner \<Rightarrow> bool" where
  "idle_for_window w pr \<longleftrightarrow> (\<exists>i j. i < j \<and> pw_now w i + pr_settle_window pr \<le> pw_now w j)"

definition trusted_end :: "pane_world \<Rightarrow> pane_runner \<Rightarrow> agent_result \<Rightarrow> bool" where
  "trusted_end w pr out \<longleftrightarrow>
     (ao_end out = EndCompleted \<longrightarrow> ao_output_file out \<noteq> None \<or> (\<exists>n. pw_file w n \<noteq> None) \<or> idle_for_window w pr)"

text \<open>Nothing was submitted, keys were pressed only to interrupt, and the end can be trusted.\<close>

definition ends_well :: "pane_world \<Rightarrow> pane_runner \<Rightarrow> pane_state \<Rightarrow> string + agent_result \<Rightarrow> pane_state \<Rightarrow> bool" where
  "ends_well w pr s r t \<longleftrightarrow> adds (\<lambda>a. \<not> submits a) s t \<and> (adds looks s t \<or> (\<exists>out. r = Inr out \<and> interrupted out))
     \<and> (\<forall>out. r = Inr out \<longrightarrow> trusted_end w pr out)"

lemma outcome_total: "\<exists>out t. pane_outcome w b en s = (Inr out, t) \<and> ao_end out = en \<and> adds looks s t"
proof -
  have m: "moves (adds looks) (pane_outcome w b en)" by (rule looks_outcome)
  obtain r t where r: "pane_outcome w b en s = (r, t)" by fastforce
  then have "adds looks s t" using movesD [OF m, of s] by simp
  moreover have "r \<noteq> Inl e" for e
    using r by (auto simp: pane_outcome_def pane_transcript_def bnd_def question_def ret_def split: agent_end.splits option.splits)
  ultimately show ?thesis using r outcome_Inr by (cases r) blast+
qed

lemma question_bnd: "bnd (question f) g s = g (f (pn_asked s)) (s\<lparr> pn_asked := Suc (pn_asked s) \<rparr>)"
  by (simp add: bnd_def question_def)

lemma target_keeps: "\<exists>rt. pane_target b s = (rt, s)"
  by (cases "ab_agent_name b"; cases "ab_pane_id b") (simp_all add: pane_target_def ret_def bail_def)

lemma attempt_total: "attempt m s \<noteq> (Inl e, t)"
  by (auto simp: attempt_def split: prod.split)

lemma maybe_attempt_total: "(if c then attempt m else ret (Inr ())) s \<noteq> (Inl e, t)"
  by (simp add: attempt_total ret_def)

lemma moves_run: "moves R m \<Longrightarrow> m s = (r, t) \<Longrightarrow> R s t"
  by (metis movesD snd_conv)

text \<open>Something that cannot fail, and then the end of the attempt.\<close>

lemma then_outcome:
  assumes "bnd m (\<lambda>_. pane_outcome w b en) s = (r, t)" and "\<And>e x. m s \<noteq> (Inl e, x)"
  shows "\<exists>out. r = Inr out \<and> ao_end out = en"
proof -
  obtain a x where "m s = (Inr a, x)" using assms(2) by (metis old.sum.exhaust surj_pair)
  moreover obtain out y where "pane_outcome w b en x = (Inr out, y)" "ao_end out = en" using outcome_total by blast
  ultimately show ?thesis using assms(1) by (auto simp: bnd_def)
qed

lemma settled_turn_keys:
  assumes "settled_turn w pr target deadline v s = (r, t)"
  shows "adds looks s t \<or> (\<exists>out pa. r = Inr (Inl (out, pa)) \<and> interrupted out)"
proof -
  obtain blocked b pa where v: "v = (blocked, b, pa)" by (cases v)
  let ?s1 = "s\<lparr> pn_asked := Suc (pn_asked s) \<rparr>" and ?s2 = "s\<lparr> pn_asked := Suc (Suc (pn_asked s)) \<rparr>"
  have stops: "\<exists>out. r = Inr (Inl (out, pa)) \<and> ao_end out = en"
    if a1: "bnd m (\<lambda>_ :: string + unit. bnd (pane_outcome w b en) (\<lambda>out. ret (Inl (out, pa)))) u = (r, t)" and a2: "\<And>e x. m u \<noteq> (Inl e, x)" for m en u
  proof -
    obtain a x where "m u = (Inr a, x)" using a2 by (metis old.sum.exhaust surj_pair)
    moreover obtain out y where "pane_outcome w b en x = (Inr out, y)" "ao_end out = en" using outcome_total by blast
    ultimately show ?thesis using a1 by (auto simp: bnd_def ret_def)
  qed
  consider "pw_cancelled w (pn_asked s)" | "\<not> pw_cancelled w (pn_asked s)" "deadline \<le> pw_now w (Suc (pn_asked s))"
    | "\<not> pw_cancelled w (pn_asked s)" "\<not> deadline \<le> pw_now w (Suc (pn_asked s))" by blast
  then show ?thesis
  proof cases
    case 1
    then have "bnd (attempt (pane_interrupt w b)) (\<lambda>_. bnd (pane_outcome w b EndCancelled) (\<lambda>out. ret (Inl (out, pa)))) ?s1 = (r, t)"
      using assms unfolding v by (simp add: settled_turn_def question_bnd)
    from stops [OF this attempt_total] show ?thesis by (auto simp: interrupted_def)
  next
    case 2
    then have "bnd (if pr_interrupt_on_timeout pr then attempt (pane_interrupt w b) else ret (Inr ()))
        (\<lambda>_. bnd (pane_outcome w b EndTimedOut) (\<lambda>out. ret (Inl (out, pa)))) ?s2 = (r, t)"
      using assms unfolding v by (simp add: settled_turn_def question_bnd)
    from stops [OF this maybe_attempt_total] show ?thesis by (auto simp: interrupted_def)
  next
    case 3
    then have "bnd (call (PnWait target (if blocked then NOT_BLOCKED else SETTLED) (wait_chunk pa (deadline - pw_now w (Suc (pn_asked s))))) (pw_wait w))
        (\<lambda>r. settled_answer w blocked b pa r) ?s2 = (r, t)"
      using assms unfolding v by (simp add: settled_turn_def question_bnd)
    then have "adds looks ?s2 t" using movesD [OF looks_settled_wait] by (metis snd_conv)
    then show ?thesis by (auto simp: adds_def)
  qed
qed

lemma wait_settled_keys:
  assumes "wait_settled w pr b deadline pa s = Some (r, t)"
  shows "adds looks s t \<or> (\<exists>out pa. r = Inr (out, pa) \<and> interrupted out)"
proof -
  have loop: "brings (\<lambda>u. adds looks s u) (turns (\<lambda>v. once (settled_turn w pr target deadline v)) l)
     (\<lambda>r u. adds looks s u \<or> interrupted (fst r)) (\<lambda>u. adds looks s u)" for l target
    by (rule brings_turns)
      (auto simp: brings_def once_run split: sum.splits dest!: settled_turn_keys intro: adds_trans)
  obtain rt where u: "pane_target b s = (rt, s)" using target_keeps by blast
  show ?thesis
  proof (cases rt)
    case (Inl e)
    then show ?thesis using assms u by (auto simp: wait_settled_def followed_def once_def adds_refl)
  next
    case (Inr target)
    then have v: "turns (\<lambda>v. once (settled_turn w pr target deadline v)) (False, b, pa) s = Some (r, t)"
      using assms u by (simp add: wait_settled_def followed_def once_def)
    show ?thesis
      using v loop adds_refl unfolding brings_def by (cases r) (fastforce dest: spec)+
  qed
qed

lemma confirm_done:
  assumes "confirm_settled w pr target deadline s = Some (Inr SettleDone, t)"
  shows "(\<exists>n. pw_file w n \<noteq> None) \<or> idle_for_window w pr"
proof -
  define i where "i = pn_asked s"
  have loop: "brings (\<lambda>u. i < pn_asked u) (turns (\<lambda>u. once (confirm_turn w target deadline (pw_now w i + pr_settle_window pr) u)) l)
     (\<lambda>r _. r = SettleDone \<longrightarrow> (\<exists>n. pw_file w n \<noteq> None) \<or> idle_for_window w pr) (\<lambda>_. True)" for l
  proof (rule brings_turns)
    fix l
    show "brings (\<lambda>u. i < pn_asked u) (once (confirm_turn w target deadline (pw_now w i + pr_settle_window pr) l))
      (\<lambda>r u. case r of Inl a \<Rightarrow> a = SettleDone \<longrightarrow> (\<exists>n. pw_file w n \<noteq> None) \<or> idle_for_window w pr | Inr l' \<Rightarrow> i < pn_asked u) (\<lambda>_. True)"
      unfolding brings_def once_run
    proof (intro allI impI)
      have nd: "(case g of Inl e \<Rightarrow> herdr_fails e | Inr None \<Rightarrow> ret (Inl SettleLost)
         | Inr (Some i) \<Rightarrow> if ai_status i = AgWorking \<or> ai_status i = AgBlocked then ret (Inl SettleWorking) else ret (Inr ())) u
         \<noteq> (Inr (Inl SettleDone), x)" for g u x
        by (auto simp: herdr_fails_def bail_def ret_def split: sum.splits option.splits)
      fix s r t
      assume i: "i < pn_asked s" and c: "confirm_turn w target deadline (pw_now w i + pr_settle_window pr) l s = (r, t)"
      have "pn_asked s \<le> pn_asked t" using adds_asked [OF moves_run [OF looks_confirm_turn c]] .
      moreover have "(\<exists>n. pw_file w n \<noteq> None) \<or> idle_for_window w pr" if "r = Inr (Inl SettleDone)"
      proof (cases "pw_file w (pn_asked s)")
        case None
        then have "pw_now w i + pr_settle_window pr \<le> pw_now w (Suc (Suc (pn_asked s)))"
          using c that nd by (auto simp: confirm_turn_def question_bnd bnd_Inr ret_Inr split: if_splits)
        moreover have "i < Suc (Suc (pn_asked s))" using i by simp
        ultimately show ?thesis unfolding idle_for_window_def by blast
      qed auto
      ultimately show "case r of Inl e \<Rightarrow> True | Inr v \<Rightarrow> (case v of
          Inl a \<Rightarrow> a = SettleDone \<longrightarrow> (\<exists>n. pw_file w n \<noteq> None) \<or> idle_for_window w pr | Inr l' \<Rightarrow> i < pn_asked t)"
        using i by (auto split: sum.split)
    qed
  qed
  have "turns (\<lambda>u. once (confirm_turn w target deadline (pw_now w i + pr_settle_window pr) u)) () (s\<lparr> pn_asked := Suc i \<rparr>)
     = Some (Inr SettleDone, t)"
    using assms by (simp add: confirm_settled_def followed_def once_def question_bnd ret_def i_def)
  from bringsD [OF loop _ this] show ?thesis by simp
qed

lemma settle_outcome_ends:
  assumes "settle_outcome w pr b x s = (r, t)" and "x = SettleDone \<Longrightarrow> (\<exists>n. pw_file w n \<noteq> None) \<or> idle_for_window w pr"
    and "x \<noteq> SettleWorking"
  shows "ends_well w pr s r t"
proof -
  have p: "adds (\<lambda>a. \<not> submits a) s t" using moves_run [OF presses_settle_outcome assms(1)] .
  show ?thesis
  proof (cases x)
    case SettleDone
    then have "pane_outcome w b EndCompleted s = (r, t)" using assms(1) by (simp add: settle_outcome_def)
    then show ?thesis using p outcome_total [of w b EndCompleted s] assms(2) SettleDone
      by (auto simp: ends_well_def trusted_end_def)
  next
    case SettleLost
    then have l: "bnd (lost_reason w b) (\<lambda>why. pane_outcome w b (EndLost why)) s = (r, t)" using assms(1) by (simp add: settle_outcome_def)
    have m: "moves (adds looks) (bnd (lost_reason w b) (\<lambda>why. pane_outcome w b (EndLost why)))"
      by (intro looks_rules looks_lost looks_outcome)
    have "adds looks s t" using moves_run [OF m l] .
    moreover have "trusted_end w pr o1" if "r = Inr o1" for o1
      using l that by (auto simp: bnd_Inr trusted_end_def dest!: outcome_Inr)
    ultimately show ?thesis using p by (auto simp: ends_well_def)
  next
    case SettleCancelled
    then have "bnd (attempt (pane_interrupt w b)) (\<lambda>_. pane_outcome w b EndCancelled) s = (r, t)"
      using assms(1) by (simp add: settle_outcome_def)
    from then_outcome [OF this attempt_total] show ?thesis using p by (auto simp: ends_well_def trusted_end_def interrupted_def)
  next
    case SettleTimedOut
    then have "bnd (if pr_interrupt_on_timeout pr then attempt (pane_interrupt w b) else ret (Inr ())) (\<lambda>_. pane_outcome w b EndTimedOut) s = (r, t)"
      using assms(1) by (simp add: settle_outcome_def)
    from then_outcome [OF this maybe_attempt_total] show ?thesis using p by (auto simp: ends_well_def trusted_end_def interrupted_def)
  qed (use assms(3) in simp)
qed

lemma ends_well_after:
  assumes "adds looks s x" and "ends_well w pr x r t"
  shows "ends_well w pr s r t"
proof -
  have "adds (\<lambda>a. \<not> submits a) s x" by (rule adds_weaken [OF assms(1)]) (simp add: looks_def)
  from adds_trans [OF this, of t] adds_trans [OF assms(1), of t] assms(2) show ?thesis by (auto simp: ends_well_def)
qed

lemma ends_well_error: "ends_well w pr s (Inl e) t \<longleftrightarrow> adds looks s t"
  by (auto simp: ends_well_def looks_def intro: adds_weaken)

text \<open>The end of a turn that does not go on.\<close>

definition turn_ends :: "pane_world \<Rightarrow> pane_runner \<Rightarrow> pane_state \<Rightarrow> string + agent_result + 'l \<Rightarrow> pane_state \<Rightarrow> bool" where
  "turn_ends w pr s r t \<longleftrightarrow> (case r of
       Inl e \<Rightarrow> ends_well w pr s (Inl e) t
     | Inr (Inl out) \<Rightarrow> ends_well w pr s (Inr out) t
     | Inr (Inr _) \<Rightarrow> False)"

lemma turn_ends_after: "adds looks s x \<Longrightarrow> turn_ends w pr x r t \<Longrightarrow> turn_ends w pr s r t"
  by (auto simp: turn_ends_def split: sum.splits intro: ends_well_after)

lemma confirmed_ends:
  assumes "followed (confirm_settled w pr target deadline) (\<lambda>k. if k = SettleWorking then go
      else once (bnd (settle_outcome w pr b k) (\<lambda>out. ret (Inl out)))) x = Some (r, t)"
  shows "(\<exists>y. adds looks x y \<and> go y = Some (r, t)) \<or> turn_ends w pr x r t"
proof -
  obtain k y where k: "confirm_settled w pr target deadline x = Some (k, y)"
    using assms by (auto simp: followed_def split: option.splits)
  have xy: "adds looks x y" using advancesD [OF looks_confirm k] .
  show ?thesis
  proof (cases k)
    case (Inl e)
    then show ?thesis using assms k xy by (auto simp: followed_def turn_ends_def ends_well_error)
  next
    case (Inr st)
    show ?thesis
    proof (cases "st = SettleWorking")
      case True
      then show ?thesis using assms k xy Inr by (auto simp: followed_def)
    next
      case False
      obtain r' where r': "settle_outcome w pr b st y = (r', t)" and rr: "r = (case r' of Inl e \<Rightarrow> Inl e | Inr res \<Rightarrow> Inr (Inl res))"
        using assms k Inr False by (auto simp: followed_def once_def bnd_def ret_def split: prod.splits sum.splits)
      have "ends_well w pr y r' t" by (rule settle_outcome_ends [OF r' _ False]) (use k Inr confirm_done in blast)
      then have "ends_well w pr x r' t" using ends_well_after xy by blast
      then show ?thesis using rr by (auto simp: turn_ends_def split: sum.splits)
    qed
  qed
qed

lemma until_done_turn_ends:
  assumes "until_done_turn w pr target deadline (b, pa) u = Some (r, t)"
  shows "(\<exists>l. r = Inr (Inr l) \<and> adds looks u t) \<or> turn_ends w pr u r t"
proof -
  obtain v x where v: "wait_settled w pr b deadline pa u = Some (v, x)"
    using assms by (auto simp: until_done_turn_def followed_def split: option.splits)
  have keys: "adds looks u x \<or> (\<exists>out pa. v = Inr (out, pa) \<and> interrupted out)" using wait_settled_keys [OF v] .
  have p: "adds (\<lambda>a. \<not> submits a) u x" using advancesD [OF presses_wait_settled v] .
  show ?thesis
  proof (cases v)
    case (Inl e)
    then show ?thesis using assms v keys by (auto simp: until_done_turn_def followed_def turn_ends_def ends_well_error)
  next
    case (Inr z)
    obtain out pa' where z: "z = (out, pa')" by (cases z)
    show ?thesis
    proof (cases "ao_end out \<noteq> EndCompleted \<or> ao_output_file out \<noteq> None")
      case True
      then have "r = Inr (Inl out)" "t = x" using assms v Inr z by (auto simp: until_done_turn_def followed_def once_def ret_def)
      then show ?thesis using p keys Inr z True by (auto simp: turn_ends_def ends_well_def trusted_end_def)
    next
      case False
      then have ux: "adds looks u x" using keys Inr z by (auto simp: interrupted_def)
      have "followed (confirm_settled w pr target deadline) (\<lambda>k. if k = SettleWorking then once (ret (Inr (ao_binding out, pa')))
         else once (bnd (settle_outcome w pr (ao_binding out) k) (\<lambda>res. ret (Inl res)))) x = Some (r, t)"
        using assms v Inr z False by (simp add: until_done_turn_def followed_def)
      from confirmed_ends [OF this] show ?thesis
        using ux adds_trans turn_ends_after by (fastforce simp: once_def ret_def)
    qed
  qed
qed

lemma until_done_ends:
  assumes "wait_until_done w pr b deadline s = Some (r, t)"
  shows "ends_well w pr s r t"
proof -
  have loop: "brings (\<lambda>u. adds looks s u) (turns (until_done_turn w pr target deadline) l)
     (\<lambda>out u. ends_well w pr s (Inr out) u) (\<lambda>u. adds looks s u)" for l target
  proof (rule brings_turns)
    fix l :: "agent_binding \<times> pane_watch option"
    show "brings (\<lambda>u. adds looks s u) (until_done_turn w pr target deadline l)
       (\<lambda>r u. case r of Inl out \<Rightarrow> ends_well w pr s (Inr out) u | Inr l' \<Rightarrow> adds looks s u) (\<lambda>u. adds looks s u)"
      by (cases l) (auto simp: brings_def turn_ends_def ends_well_error split: sum.splits dest!: until_done_turn_ends
          intro: adds_trans ends_well_after)
  qed
  obtain rt where u: "pane_target b s = (rt, s)" using target_keeps by blast
  show ?thesis
  proof (cases rt)
    case (Inl e)
    then show ?thesis using assms u by (auto simp: wait_until_done_def followed_def once_def ends_well_error adds_refl)
  next
    case (Inr target)
    have "\<exists>pa x. new_watch w pr s = (Inr pa, x)"
      by (cases "wc_enabled (pr_watchdog pr)") (simp_all add: new_watch_def question_bnd ret_def Let_def)
    then obtain pa x where x: "new_watch w pr s = (Inr pa, x)" by blast
    have run: "turns (until_done_turn w pr target deadline) (b, pa) x = Some (r, t)"
      using assms u Inr x by (simp add: wait_until_done_def followed_def once_def)
    have sx: "adds looks s x" using moves_run [OF looks_new_watch x] .
    show ?thesis
    proof (cases r)
      case (Inl e)
      then show ?thesis using brings_error [OF loop sx] run by (auto simp: ends_well_error)
    next
      case (Inr out)
      then show ?thesis using bringsD [OF loop sx] run by blast
    qed
  qed
qed

subsection \<open>One round of sending\<close>

lemma wait_on_ends: "wait_on w pr deadline b s = Some (r, t) \<Longrightarrow> turn_ends w pr s r t"
  by (auto simp: wait_on_def followed_def once_def ret_def turn_ends_def split: option.splits prod.splits sum.splits dest!: until_done_ends)

lemma arrived_ends:
  assumes "prompt_arrived w pr target deadline b st s = Some (r, t)"
  shows "turn_ends w pr s r t"
proof (cases "is_settled st")
  case True
  then have c: "followed (confirm_settled w pr target deadline) (\<lambda>k. if k = SettleWorking then wait_on w pr deadline b
      else once (bnd (settle_outcome w pr b k) (\<lambda>out. ret (Inl out)))) s = Some (r, t)"
    using assms by (simp add: prompt_arrived_def)
  show ?thesis using confirmed_ends [OF c] wait_on_ends turn_ends_after by blast
qed (use assms wait_on_ends in \<open>simp add: prompt_arrived_def\<close>)

lemma unfinished_outcome:
  assumes "bnd (pane_outcome w b en) (\<lambda>out. ret (Inl out)) s = (r, t)" and "en \<noteq> EndCompleted"
  shows "turn_ends w pr s r t"
proof -
  obtain out where o: "pane_outcome w b en s = (Inr out, t)" "r = Inr (Inl out)" "ao_end out = en"
    using assms(1) outcome_total [of w b en s] by (auto simp: bnd_def ret_def)
  moreover have "adds looks s t" using moves_run [OF looks_outcome o(1)] .
  ultimately show ?thesis using assms(2)
    by (auto simp: turn_ends_def ends_well_def trusted_end_def looks_def intro: adds_weaken)
qed

lemma followed_call: "followed (once (call a f)) g s =
    g (f (pn_asked s)) (s\<lparr> pn_asked := Suc (pn_asked s), pn_trace := pn_trace s @ [a] \<rparr>)"
  by (cases s) (simp add: followed_def once_def call_def act_def modify_def question_def bnd_def andthen_def)

lemma followed_report: "followed (once (report e)) g s = g () (s\<lparr> pn_trace := pn_trace s @ [PnEvent e] \<rparr>)"
  by (simp add: followed_def once_def report_def act_def modify_def)

lemma stalled_ends:
  assumes "prompt_stalled w pr target deadline b m s = Some (r, t)"
  shows "turn_ends w pr s r t"
proof -
  define g where "g = pw_get w (pn_asked s)"
  define x where "x = s\<lparr> pn_asked := Suc (pn_asked s), pn_trace := pn_trace s @ [PnGet target] \<rparr>"
  have sx: "adds looks s x" by (simp add: adds_def x_def looks_acts)
  have "(if (case g of Inr (Some i) \<Rightarrow> ai_status i \<in> {AgWorking, AgBlocked} | _ \<Rightarrow> False) then wait_on w pr deadline b
      else once (bnd (pane_outcome w b (EndStalled (''prompt stalled: '' @ m))) (\<lambda>out. ret (Inl out)))) x = Some (r, t)"
    using assms unfolding prompt_stalled_def followed_call g_def x_def .
  then have "wait_on w pr deadline b x = Some (r, t)
     \<or> bnd (pane_outcome w b (EndStalled (''prompt stalled: '' @ m))) (\<lambda>out. ret (Inl out)) x = (r, t)"
    by (auto simp: once_run split: if_splits)
  then show ?thesis using wait_on_ends unfinished_outcome turn_ends_after [OF sx] by blast
qed

lemma refused_ends:
  assumes "prompt_refused w target deadline b s = Some (r, t)"
  shows "adds looks s t \<and> (\<forall>out. r = Inr (Inl out) \<longrightarrow> ao_end out \<noteq> EndCompleted)"
proof -
  have "ao_end out \<noteq> EndCompleted" if r: "r = Inr (Inl out)" for out
  proof -
    obtain x where x: "followed (wait_ready w target b deadline) (\<lambda>(en, b').
       case en of Some x \<Rightarrow> once (bnd (pane_outcome w b' x) (\<lambda>out. ret (Inl out))) | None \<Rightarrow> once (ret (Inr b'))) x = Some (r, t)"
      using assms unfolding prompt_refused_def followed_report by blast
    then obtain en b' y where y: "wait_ready w target b deadline x = Some (Inr (en, b'), y)"
      using r by (auto simp: followed_def split: option.splits prod.splits sum.splits)
    then have "(case en of Some x \<Rightarrow> once (bnd (pane_outcome w b' x) (\<lambda>out. ret (Inl out))) | None \<Rightarrow> once (ret (Inr b'))) y = Some (r, t)"
      using x by (simp add: followed_def)
    then obtain z where z: "en = Some z" "bnd (pane_outcome w b' z) (\<lambda>out. ret (Inl out)) y = (r, t)"
      using r by (cases en) (auto simp: once_run ret_Inr)
    have "z \<noteq> EndCompleted" using never_ready_end y z(1) by blast
    then show ?thesis using z(2) r by (auto simp: bnd_Inr ret_Inr dest!: outcome_Inr)
  qed
  then show ?thesis using advancesD [OF looks_refused assms] by blast
qed

text \<open>What a round adds: looks at the agent and prompts of given texts, until a prompt may have arrived; after that
  nothing is submitted.\<close>

definition asking :: "string set \<Rightarrow> pane_act \<Rightarrow> bool" where
  "asking T a \<longleftrightarrow> looks a \<or> (\<exists>target x. a = PnPrompt target x \<and> x \<in> T)"

definition quiet_rest :: "pane_act list \<Rightarrow> bool" where
  "quiet_rest z \<longleftrightarrow> z = [] \<or> (\<exists>z'. z = PnEvent PromptSent # z' \<and> (\<forall>a \<in> set z'. \<not> submits a))"

definition send_round :: "string set \<Rightarrow> pane_act list \<Rightarrow> bool" where
  "send_round T x \<longleftrightarrow> (\<exists>y z. x = y @ z \<and> (\<forall>a \<in> set y. asking T a) \<and> quiet_rest z)"

definition sends_well :: "pane_world \<Rightarrow> pane_runner \<Rightarrow> string set \<Rightarrow> pane_state \<Rightarrow> string + agent_result \<Rightarrow> pane_state \<Rightarrow> bool" where
  "sends_well w pr T s r t \<longleftrightarrow> (\<exists>x. pn_trace t = pn_trace s @ x \<and> send_round T x
     \<and> ((\<exists>a \<in> set x. is_keys a) \<longrightarrow> (\<exists>out. r = Inr out \<and> interrupted out)))
     \<and> (\<forall>out. r = Inr out \<longrightarrow> trusted_end w pr out)"

lemma asking_no_keys: "asking T a \<Longrightarrow> \<not> is_keys a"
  by (auto simp: asking_def looks_def)

lemma asked_well:
  assumes "adds (asking T) s t" and "\<And>out. r = Inr out \<Longrightarrow> ao_end out \<noteq> EndCompleted"
  shows "sends_well w pr T s r t"
proof -
  obtain x where "pn_trace t = pn_trace s @ x" "\<forall>a \<in> set x. asking T a" using assms(1) by (auto simp: adds_def)
  moreover from this have "send_round T x" unfolding send_round_def quiet_rest_def by (metis append_Nil2)
  ultimately show ?thesis using assms(2) asking_no_keys by (auto simp: sends_well_def trusted_end_def)
qed

lemma sent_well:
  assumes "adds (asking T) s u" and "x = u\<lparr> pn_trace := pn_trace u @ [PnEvent PromptSent] \<rparr>" and "ends_well w pr x r t"
  shows "sends_well w pr T s r t"
proof -
  obtain y where y: "pn_trace u = pn_trace s @ y" "\<forall>a \<in> set y. asking T a" using assms(1) by (auto simp: adds_def)
  obtain z where z: "pn_trace t = pn_trace x @ z" "\<forall>a \<in> set z. \<not> submits a" using assms(3) by (auto simp: ends_well_def adds_def)
  have k: "(\<exists>out. r = Inr out \<and> interrupted out)" if "a \<in> set z" "is_keys a" for a
    using assms(3) that z(1) by (auto simp: ends_well_def adds_def looks_def)
  have "send_round T (y @ PnEvent PromptSent # z)" using y(2) z(2) unfolding send_round_def quiet_rest_def by blast
  moreover have "pn_trace t = pn_trace s @ y @ PnEvent PromptSent # z" using y(1) z(1) assms(2) by simp
  moreover have "\<not> is_keys (PnEvent PromptSent)" "\<forall>a \<in> set y. \<not> is_keys a" using y(2) asking_no_keys by auto
  ultimately show ?thesis using k assms(3) unfolding sends_well_def ends_well_def
    by (intro conjI exI [of _ "y @ PnEvent PromptSent # z"]) auto
qed

lemma looks_asks: "adds looks s t \<Longrightarrow> adds (asking T) s t"
  by (erule adds_weaken) (auto simp: asking_def)

definition sent_result :: "string + agent_result + 'l \<Rightarrow> string + agent_result" where
  "sent_result r = (case r of Inl e \<Rightarrow> Inl e | Inr (Inl out) \<Rightarrow> Inr out | Inr (Inr _) \<Rightarrow> Inl [])"

lemma turn_ends_result: "turn_ends w pr s r t \<Longrightarrow> ends_well w pr s (sent_result r) t \<and> (\<forall>l. r \<noteq> Inr (Inr l))"
  by (auto simp: turn_ends_def sent_result_def split: sum.splits)

lemma after_prompt_ends:
  assumes "after_prompt w pr target deadline b ans u = Some (r, t)"
  shows "(\<exists>b'. r = Inr (Inr b') \<and> adds looks u t)
     \<or> (\<forall>b'. r \<noteq> Inr (Inr b')) \<and> adds looks u t \<and> (\<forall>out. sent_result r = Inr out \<longrightarrow> ao_end out \<noteq> EndCompleted)
     \<or> turn_ends w pr (u\<lparr> pn_trace := pn_trace u @ [PnEvent PromptSent] \<rparr>) r t"
proof -
  have lost: "adds looks u t \<and> (\<forall>b'. r \<noteq> Inr (Inr b')) \<and> (\<forall>out. sent_result r = Inr out \<longrightarrow> ao_end out \<noteq> EndCompleted)"
    if l: "bnd (lost_reason w b) (\<lambda>why. bnd (pane_outcome w b (EndLost why)) (\<lambda>out. ret (Inl out))) u = (r, t)"
  proof -
    have m: "moves (adds looks) (bnd (lost_reason w b) (\<lambda>why. bnd (pane_outcome w b (EndLost why)) (\<lambda>out. ret (Inl out :: agent_result + agent_binding))))"
      by (intro looks_rules looks_lost looks_outcome)
    show ?thesis using moves_run [OF m l] l
      by (cases r) (auto simp: bnd_Inr ret_Inr sent_result_def dest!: outcome_Inr)
  qed
  have fails: "adds looks u t \<and> (\<exists>e. r = Inl e)" if "herdr_fails e u = (r, t)" for e
    using that by (auto simp: herdr_fails_def bail_def adds_refl)
  show ?thesis
  proof (cases ans)
    case (Inr i)
    then show ?thesis using assms arrived_ends by (auto simp: after_prompt_def Let_def followed_report)
  next
    case (Inl e)
    then consider "is_wait_timeout e" | "\<not> is_wait_timeout e" "error_code e = Some ''agent_prompt_stalled''"
      | "\<not> is_wait_timeout e" "error_code e = Some ''agent_blocked''"
      | "\<not> is_wait_timeout e" "error_code e \<noteq> Some ''agent_prompt_stalled''" "error_code e \<noteq> Some ''agent_blocked''" by blast
    then show ?thesis
    proof cases
      case 1
      then show ?thesis using assms Inl wait_on_ends by (auto simp: after_prompt_def Let_def followed_report)
    next
      case 2
      then show ?thesis using assms Inl stalled_ends by (auto simp: after_prompt_def Let_def followed_report)
    next
      case 3
      then have p: "prompt_refused w target deadline b u = Some (r, t)" using assms Inl by (simp add: after_prompt_def Let_def)
      show ?thesis using refused_ends [OF p] by (cases r; cases "projr r") (auto simp: sent_result_def)
    next
      case 4
      then have "bnd (lost_reason w b) (\<lambda>why. bnd (pane_outcome w b (EndLost why)) (\<lambda>out. ret (Inl out))) u = (r, t)
         \<or> herdr_fails e u = (r, t)"
        using assms Inl by (auto simp: after_prompt_def Let_def once_run split: if_splits)
      then show ?thesis
      proof
        assume "herdr_fails e u = (r, t)"
        then have "adds looks u t" "\<exists>e. r = Inl e" using fails by blast+
        then show ?thesis by (auto simp: sent_result_def)
      qed (use lost in blast)
    qed
  qed
qed

lemma send_turn_ends:
  assumes "send_turn w pr q instead deadline b s = Some (r, t)" and "\<And>b. prompt_text q b instead \<in> T" and "adds (asking T) s0 s"
  shows "(\<exists>b'. r = Inr (Inr b') \<and> adds (asking T) s0 t) \<or> (\<forall>b'. r \<noteq> Inr (Inr b')) \<and> sends_well w pr T s0 (sent_result r) t"
  using assms(1)
proof (cases rule: send_turn_cases)
  case stopped
  have "adds (asking T) s0 t" using assms(3) looks_asks [OF stopped(1)] adds_trans by blast
  then show ?thesis using stopped(2,3) by (auto simp: sent_result_def intro!: asked_well split: sum.splits)
next
  case (sent target b' u1 u2 ans)
  have "adds looks s u1" using sent(1) by (rule advancesD [OF looks_wait_ready])
  then have "adds (asking T) s0 u1" using assms(3) looks_asks adds_trans by blast
  moreover have "adds (asking T) u1 u2" using assms(2) [of b] by (auto simp: sent(2) adds_def asking_def looks_def submits_def)
  ultimately have a: "adds (asking T) s0 u2" by (rule adds_trans)
  have x: "adds (asking T) s0 t" if "adds looks u2 t" using a looks_asks [OF that] by (rule adds_trans)
  from after_prompt_ends [OF sent(3)] show ?thesis
    using x asked_well sent_well [OF a refl] turn_ends_result by blast
qed

lemma send_once_ends:
  assumes "send_once w pr q instead b deadline s = Some (r, t)" and "\<And>b. prompt_text q b instead \<in> T"
  shows "sends_well w pr T s r t"
proof -
  have loop: "brings (\<lambda>u. adds (asking T) s u) (turns (send_turn w pr q instead deadline) l)
     (\<lambda>out u. sends_well w pr T s (Inr out) u) (\<lambda>u. \<exists>e. sends_well w pr T s (Inl e) u)" for l
  proof (rule brings_turns)
    fix l
    show "brings (\<lambda>u. adds (asking T) s u) (send_turn w pr q instead deadline l)
       (\<lambda>r u. case r of Inl out \<Rightarrow> sends_well w pr T s (Inr out) u | Inr l' \<Rightarrow> adds (asking T) s u)
       (\<lambda>u. \<exists>e. sends_well w pr T s (Inl e) u)"
      unfolding brings_def
    proof (intro allI impI)
      fix u r t
      assume u: "adds (asking T) s u" and run: "send_turn w pr q instead deadline l u = Some (r, t)"
      from send_turn_ends [OF run assms(2) u]
      show "case r of Inl e \<Rightarrow> \<exists>e. sends_well w pr T s (Inl e) t
         | Inr v \<Rightarrow> (case v of Inl out \<Rightarrow> sends_well w pr T s (Inr out) t | Inr l' \<Rightarrow> adds (asking T) s t)"
        by (auto simp: sent_result_def split: sum.splits)
    qed
  qed
  show ?thesis
  proof (cases r)
    case (Inl e)
    then obtain e' where "sends_well w pr T s (Inl e') t"
      using brings_error [OF loop adds_refl] assms(1) unfolding send_once_def by blast
    then show ?thesis using Inl by (simp add: sends_well_def)
  next
    case (Inr out)
    then show ?thesis using bringsD [OF loop adds_refl] assms(1) unfolding send_once_def by blast
  qed
qed

subsection \<open>Both rounds\<close>

text \<open>What an attempt adds to the trace: one round with the prompt of the request, and at most one more with the
  reminder. Keys are pressed only in an attempt that ends interrupted.\<close>

definition attempt_careful ::
  "agent_request \<Rightarrow> pane_state \<Rightarrow> string + agent_result \<Rightarrow> pane_state \<Rightarrow> bool" where
  "attempt_careful q s r t \<longleftrightarrow> (\<exists>x y. pn_trace t = pn_trace s @ x @ y
     \<and> send_round {aq_prompt q, aq_followup_prompt q} x \<and> (y = [] \<or> send_round {reminder_text q} y)
     \<and> ((\<exists>a \<in> set (x @ y). is_keys a) \<longrightarrow> (\<exists>out. r = Inr out \<and> interrupted out)))"

lemma send_and_wait_cases:
  assumes "send_and_wait w pr q b deadline s = Some (r, t)"
  obtains (once) "send_once w pr q None b deadline s = Some (r, t)"
    | (reminded) first u where "send_once w pr q None b deadline s = Some (Inr first, u)" "ao_end first = EndCompleted"
        "send_once w pr q (Some (reminder_text q)) (ao_binding first) deadline u = Some (r, t)"
  using assms unfolding send_and_wait_def followed_def
  by (auto simp: once_run ret_def split: option.splits prod.splits sum.splits if_splits)

lemma attempt_well:
  assumes "send_and_wait w pr q b deadline s = Some (r, t)"
  shows "attempt_careful q s r t"
  using assms
proof (cases rule: send_and_wait_cases)
  case once
  have "sends_well w pr {aq_prompt q, aq_followup_prompt q} s r t"
    by (rule send_once_ends [OF once]) (simp add: prompt_text_def)
  then show ?thesis unfolding sends_well_def attempt_careful_def by (metis append_Nil2)
next
  case (reminded first u)
  have 1: "sends_well w pr {aq_prompt q, aq_followup_prompt q} s (Inr first) u"
    by (rule send_once_ends [OF reminded(1)]) (simp add: prompt_text_def)
  have 2: "sends_well w pr {reminder_text q} u r t"
    by (rule send_once_ends [OF reminded(3)]) (simp add: prompt_text_def)
  obtain x where x: "pn_trace u = pn_trace s @ x" "send_round {aq_prompt q, aq_followup_prompt q} x" "\<forall>a \<in> set x. \<not> is_keys a"
    using 1 reminded(2) by (auto simp: sends_well_def interrupted_def)
  obtain y where y: "pn_trace t = pn_trace u @ y" "send_round {reminder_text q} y"
      "(\<exists>a \<in> set y. is_keys a) \<longrightarrow> (\<exists>out. r = Inr out \<and> interrupted out)"
    using 2 unfolding sends_well_def by blast
  show ?thesis unfolding attempt_careful_def
    by (intro exI [of _ x] exI [of _ y]) (use x y in auto)
qed


subsection \<open>One attempt\<close>

text \<open>The agent is idle whenever it is asked, writes its file only after the reminder, and nobody cancels.\<close>

definition sample_request :: agent_request where
  "sample_request = \<lparr> aq_run_id = ''r1'', aq_task_id = ''TASK-1'', aq_display = ''TASK-1'', aq_variant = [], aq_step_id = ''plan'',
     aq_exec_id = ''plan-1'', aq_attempt = 1, aq_runner_name = ''claude'', aq_profile = claude_profile ''claude'', aq_worktree = ''/w'',
     aq_workspace_id = None, aq_prompt = ''go'', aq_followup_prompt = ''again'', aq_output_file = ''/o'', aq_log_path = ''/l'',
     aq_timeout = 100, aq_startup_timeout = 100, aq_env = [], aq_previous = None, aq_pane_env = [] \<rparr>"

definition sample_agent :: agent_info where
  "sample_agent = \<lparr> ai_pane_id = ''p'', ai_name = Some ''a'', ai_agent = None, ai_status = AgIdle, ai_interactive_ready = True,
     ai_launch_pending = False, ai_workspace_id = None, ai_tab_id = None, ai_terminal_id = None, ai_cwd = None, ai_agent_session = None \<rparr>"

definition sample_pane_world :: pane_world where
  "sample_pane_world = \<lparr> pw_now = (\<lambda>n. n), pw_cancelled = (\<lambda>n. False), pw_wait = (\<lambda>n. Inr sample_agent),
     pw_get = (\<lambda>n. Inr (Some sample_agent)), pw_prompt = (\<lambda>n. Inr sample_agent), pw_pane_there = (\<lambda>n. True),
     pw_read = (\<lambda>n. Some ''screen''), pw_file = (\<lambda>n. if n < 17 then None else Some ''done''), pw_tab = (\<lambda>n. Inl ClientTimeout),
     pw_start = (\<lambda>n. Inr sample_agent), pw_close = (\<lambda>n. Inr ()), pw_keys = (\<lambda>n. Inr ()), pw_tokens = (\<lambda>n. None),
     pw_fingerprint = (\<lambda>n. []), pw_hash = (\<lambda>s. 0) \<rparr>"

definition sample_pane_runner :: pane_runner where
  "sample_pane_runner = \<lparr> pr_interrupt_on_timeout = True, pr_settle_window = 0, pr_watchdog = watchdog_config_default \<rparr>"

definition sample_binding :: agent_binding where
  "sample_binding = agent_binding_default\<lparr> ab_agent_name := Some ''a'' \<rparr>"

lemma sample_clock: "clock_runs sample_pane_world"
  by (auto simp: clock_runs_def sample_pane_world_def)

lemmas sample_defs = sample_pane_world_def sample_pane_runner_def sample_binding_def sample_agent_def agent_binding_default_def


lemma sample_answers:
  "pw_now sample_pane_world n = n" "pw_cancelled sample_pane_world n = False" "pw_wait sample_pane_world n = Inr sample_agent"
  "pw_prompt sample_pane_world n = Inr sample_agent" "pw_file sample_pane_world n = (if n < 17 then None else Some ''done'')"
  "ai_status sample_agent = AgIdle" "ai_interactive_ready sample_agent = True" "pr_settle_window sample_pane_runner = 0" "is_settled AgIdle"
  by (simp_all add: sample_pane_world_def sample_agent_def sample_pane_runner_def is_settled_def)

lemmas sample_step = sample_answers followed_def once_run once_def call_def act_def report_def modify_def andthen_def bnd_def question_def ret_def

lemma sample_ready:
  assumes "n < 50"
  shows "wait_ready sample_pane_world ''a'' b 100 \<lparr> pn_asked = n, pn_trace = tr \<rparr> =
     Some (Inr (None, b\<lparr> ab_last_status := Some ''idle'' \<rparr>),
       \<lparr> pn_asked = n + 3, pn_trace = tr @ [PnWait ''a'' [AgIdle, AgDone] (99 - n)] \<rparr>)"
  using assms by (simp add: wait_ready_def turns.simps [of _ "(False, b)"] ready_turn_def sample_step ready_answer_def CHUNK_def)

lemma sample_confirm:
  assumes "n < 50"
  shows "confirm_settled sample_pane_world sample_pane_runner ''a'' 100 \<lparr> pn_asked = n, pn_trace = tr \<rparr> =
     Some (Inr SettleDone, \<lparr> pn_asked = (if n < 16 then n + 4 else n + 2), pn_trace = tr \<rparr>)"
  using assms by (simp add: confirm_settled_def turns.simps [of _ "()"] confirm_turn_def sample_step)

lemma sample_prompt:
  assumes "n < 40" and "ab_agent_name b = Some ''a''" and "ab_pane_id b = None"
  shows "\<exists>out. send_once sample_pane_world sample_pane_runner sample_request i b 100 \<lparr> pn_asked = n, pn_trace = tr \<rparr> =
     Some (Inr out, \<lparr> pn_asked = (if n < 11 then n + 10 else n + 8), pn_trace = tr @ [PnWait ''a'' [AgIdle, AgDone] (99 - n),
       PnEvent PromptSending, PnPrompt ''a'' (prompt_text sample_request b i), PnEvent PromptSent] \<rparr>)
     \<and> ao_end out = EndCompleted \<and> ao_output_file out = pw_file sample_pane_world (if n < 11 then n + 9 else n + 7)
     \<and> ab_agent_name (ao_binding out) = Some ''a'' \<and> ab_pane_id (ao_binding out) = None"
  using assms by (simp add: send_once_def turns.simps [of _ b] send_turn_def pane_target_def sample_step sample_ready sample_confirm
    after_prompt_def prompt_arrived_def settle_outcome_def pane_outcome_def pane_transcript_def Let_def)


lemma sample_rounds:
  "\<exists>out. send_and_wait sample_pane_world sample_pane_runner sample_request sample_binding 100 \<lparr> pn_asked = 0, pn_trace = [] \<rparr> =
     Some (Inr out, \<lparr> pn_asked = 20, pn_trace =
       [PnWait ''a'' [AgIdle, AgDone] 99, PnEvent PromptSending, PnPrompt ''a'' ''go'', PnEvent PromptSent,
        PnWait ''a'' [AgIdle, AgDone] 89, PnEvent PromptSending, PnPrompt ''a'' (reminder_text sample_request), PnEvent PromptSent] \<rparr>)"
proof -
  have b: "ab_agent_name sample_binding = Some ''a''" "ab_pane_id sample_binding = None"
    by (simp_all add: sample_binding_def agent_binding_default_def)
  have p: "prompt_text sample_request sample_binding None = ''go''" "prompt_text sample_request c (Some x) = x" for c x
    by (simp_all add: prompt_text_def reused_def sample_request_def)
  obtain first where f: "send_once sample_pane_world sample_pane_runner sample_request None sample_binding 100 \<lparr> pn_asked = 0, pn_trace = [] \<rparr> =
      Some (Inr first, \<lparr> pn_asked = 10, pn_trace = [PnWait ''a'' [AgIdle, AgDone] 99, PnEvent PromptSending,
        PnPrompt ''a'' ''go'', PnEvent PromptSent] \<rparr>)" "ao_end first = EndCompleted" "ao_output_file first = None"
      "ab_agent_name (ao_binding first) = Some ''a''" "ab_pane_id (ao_binding first) = None"
    using sample_prompt [of 0 sample_binding None "[]"] b p by (auto simp: sample_answers)
  show ?thesis
    using f sample_prompt [OF _ f(4) f(5), of 10 "Some (reminder_text sample_request)" "[PnWait ''a'' [AgIdle, AgDone] 99,
      PnEvent PromptSending, PnPrompt ''a'' ''go'', PnEvent PromptSent]"]
    by (auto simp: send_and_wait_def followed_def p)
qed

theorem pane_attempt_ends_witness:
  "\<exists>r t. send_and_wait sample_pane_world sample_pane_runner sample_request sample_binding 100 \<lparr> pn_asked = 0, pn_trace = [] \<rparr> = Some (r, t)"
  by (rule pane_attempt_ends [OF sample_clock])


end
