(* ===== verification/Spec2Isabelle.thy ===== *)
theory Spec2Isabelle
  imports Command_Facts Policy Store_Facts Workflow_Facts Policy_First
    Audit_Facts Watchdog Agent_Hook Repository_Facts Recovery_Facts Scheduler_Facts Git_Facts Config_Facts Process_Facts Herdr_Facts Pane_Facts
begin

text \<open>
  Verification development of the Herdr orchestrator.
\<close>

end
